(* ===== verification/Prelude.thy ===== *)
theory Prelude
  imports Main "HOL-Library.Word"
begin

text \<open>
  What every theory of the development shares: the outcome of running Rust code (a value,
  a panic, an abort or undefined behaviour), Rust's \<^verbatim>\<open>Result\<close>, the compilation target
  (pointer width and allocator), big-endian byte strings, and list lemmas.
\<close>

named_theorems outcome_simps "evaluation of outcome-valued code"
named_theorems mem_simps "loads and stores on the memory model"
named_theorems layout_simps "evaluation of the C layout algorithm"

type_synonym byte = "8 word"

section \<open>Outcomes and results\<close>

text \<open>
  A run of Rust code ends in one of four ways. \<open>Panic\<close> is an unwinding panic (a failed
  \<^verbatim>\<open>assert!\<close>, \<^verbatim>\<open>unwrap\<close>, \<^verbatim>\<open>expect\<close> or a capacity overflow), \<open>Abort\<close> the process abort of
  a failed allocation, and \<open>UB\<close> undefined behaviour: an access outside a live buffer, a read
  of uninitialised memory, a double free or an invalid enum discriminant.
\<close>

datatype 'a outcome = Done 'a | Panic | Abort | UB

primrec obind :: "'a outcome \<Rightarrow> ('a \<Rightarrow> 'b outcome) \<Rightarrow> 'b outcome" where
  "obind (Done x) f = f x"
| "obind Panic f = Panic"
| "obind Abort f = Abort"
| "obind UB f = UB"

lemma obind_Done_iff: "obind a f = Done y \<longleftrightarrow> (\<exists>x. a = Done x \<and> f x = Done y)"
  by (cases a) auto

lemma obind_assoc: "obind (obind a f) g = obind a (\<lambda>x. obind (f x) g)"
  by (cases a) auto

lemma obind_return: "obind a Done = a"
  by (cases a) auto

lemmas obind_laws [outcome_simps] = obind.simps obind_assoc obind_return

text \<open>Rust's \<^verbatim>\<open>Result<T, E>\<close>.\<close>

datatype ('a, 'e) result = Ok 'a | Err 'e

section \<open>Compilation targets\<close>

text \<open>
  The bindings are generated for 32-bit and 64-bit pointers
  (\<^verbatim>\<open>constantine-sys/src/lib.rs\<close>). \<open>u64_align\<close> is the alignment of \<^verbatim>\<open>u64\<close> (4 on 32-bit x86
  Linux), \<open>heap_max\<close> the number of bytes the global allocator can still serve.
\<close>

record target =
  ptr_bits :: nat
  u64_align :: nat
  heap_max :: nat

definition W64 :: target where
  "W64 = \<lparr>ptr_bits = 64, u64_align = 8, heap_max = 2 ^ 40\<rparr>"

definition W32 :: target where
  "W32 = \<lparr>ptr_bits = 32, u64_align = 4, heap_max = 2 ^ 30\<rparr>"

text \<open>A choice between the text of \<^verbatim>\<open>bindings64.rs\<close> and that of \<^verbatim>\<open>bindings32.rs\<close>.\<close>

definition pick :: "target \<Rightarrow> 'a \<Rightarrow> 'a \<Rightarrow> 'a" where
  "pick tg x64 x32 = (if ptr_bits tg = 64 then x64 else x32)"

lemma pick_simps [layout_simps]: "pick W64 x y = x" "pick W32 x y = y"
  by (simp_all add: pick_def W64_def W32_def)

text \<open>\<^verbatim>\<open>isize::MAX\<close>: the largest size of a Rust allocation.\<close>

definition isize_max :: "target \<Rightarrow> nat" where
  "isize_max tg = 2 ^ (ptr_bits tg - 1) - 1"

text \<open>The cast \<^verbatim>\<open>x as usize\<close> of a \<^verbatim>\<open>u64\<close>: it keeps the low bits.\<close>

definition as_usize :: "target \<Rightarrow> nat \<Rightarrow> nat" where
  "as_usize tg n = n mod 2 ^ ptr_bits tg"

definition c_int_max :: int where
  "c_int_max = 2 ^ 31 - 1"

lemma isize_max_W64 [simp]: "isize_max W64 = 2 ^ 63 - 1"
  by (simp add: isize_max_def W64_def)

lemma as_usize_W64 [simp]: "n < 2 ^ 64 \<Longrightarrow> as_usize W64 n = n"
  by (simp add: as_usize_def W64_def)

section \<open>Big-endian byte strings\<close>

text \<open>The value of a big-endian octet string, and the octet string of a given length.\<close>

fun be_val :: "byte list \<Rightarrow> nat" where
  "be_val [] = 0"
| "be_val (b # bs) = unat b * 256 ^ length bs + be_val bs"

fun be_bytes :: "nat \<Rightarrow> nat \<Rightarrow> byte list" where
  "be_bytes 0 v = []"
| "be_bytes (Suc n) v = of_nat (v div 256 ^ n) # be_bytes n (v mod 256 ^ n)"

lemma length_be_bytes [simp]: "length (be_bytes n v) = n"
  by (induction n arbitrary: v) auto

lemma unat_byte_less [simp]: "unat (b :: byte) < 256"
  by (rule order_less_le_trans [OF unsigned_less]) simp

lemma be_val_bound: "be_val bs < 256 ^ length bs"
proof (induction bs)
  case (Cons b bs)
  have "unat b * 256 ^ length bs + be_val bs < (unat b + 1) * 256 ^ length bs"
    using Cons by simp
  also have "\<dots> \<le> 256 * 256 ^ length bs"
    using unat_byte_less [of b] by (intro mult_right_mono) linarith+
  finally show ?case by simp
qed simp

lemma be_val_be_bytes: "v < 256 ^ n \<Longrightarrow> be_val (be_bytes n v) = v"
proof (induction n arbitrary: v)
  case (Suc n)
  have "v div 256 ^ n < 256"
    using Suc.prems by (simp add: less_mult_imp_div_less)
  then have "unat (of_nat (v div 256 ^ n) :: byte) = v div 256 ^ n"
    by (simp add: unat_of_nat)
  with Suc show ?case by (simp add: div_mult_mod_eq)
qed simp

lemma be_bytes_be_val: "be_bytes (length bs) (be_val bs) = bs"
proof (induction bs)
  case (Cons b bs)
  have "(unat b * 256 ^ length bs + be_val bs) div 256 ^ length bs = unat b"
    using be_val_bound [of bs] by simp
  with Cons show ?case by (simp add: be_val_bound)
qed simp

lemma be_val_append: "be_val (xs @ ys) = be_val xs * 256 ^ length ys + be_val ys"
  by (induction xs) (auto simp: power_add algebra_simps)

lemma be_val_zeros [simp]: "be_val (replicate n 0) = 0"
  by (induction n) auto

lemma be_bytes_zero: "be_bytes n 0 = replicate n 0"
  by (induction n) auto

lemma be_bytes_mod: "be_bytes n (v mod 256 ^ n) = be_bytes n v"
proof (induction n arbitrary: v)
  case (Suc n)
  have "(of_nat (v mod 256 ^ Suc n div 256 ^ n) :: byte) = of_nat (v div 256 ^ n)"
    by (simp only: power_Suc2 mod_mult2_eq) (simp add: word_unat_eq_iff unat_of_nat)
  then show ?case by (simp add: mod_mod_cancel)
qed simp

lemma be_bytes_Suc: "be_bytes (Suc n) v = of_nat (v div 256 ^ n) # be_bytes n v"
  by (simp add: be_bytes_mod)

lemma be_bytes_append: "be_bytes (a + b) v = be_bytes a (v div 256 ^ b) @ be_bytes b v"
proof (induction a)
  case (Suc a)
  then show ?case
    by (simp add: be_bytes_Suc del: be_bytes.simps(2))
      (simp add: power_add mult.commute [of "256 ^ a"] flip: div_mult2_eq)
qed simp

section \<open>Lists\<close>

text \<open>Overwriting a segment of a list, as a store into a buffer does.\<close>

definition splice :: "'a list \<Rightarrow> nat \<Rightarrow> 'a list \<Rightarrow> 'a list" where
  "splice xs i ys = take i xs @ ys @ drop (i + length ys) xs"

lemma length_splice [simp]: "i + length ys \<le> length xs \<Longrightarrow> length (splice xs i ys) = length xs"
  by (simp add: splice_def)

lemma take_drop_splice [simp]:
  "i + length ys \<le> length xs \<Longrightarrow> n = length ys \<Longrightarrow> take n (drop i (splice xs i ys)) = ys"
  by (simp add: splice_def)

lemma splice_all [simp]: "length ys = length xs \<Longrightarrow> splice xs 0 ys = ys"
  by (simp add: splice_def)

text \<open>The zero-padded prefix of an input, as the precompiles read it.\<close>

definition pad_take :: "nat \<Rightarrow> byte list \<Rightarrow> byte list" where
  "pad_take n bs = take n bs @ replicate (n - length bs) 0"

lemma length_pad_take [simp]: "length (pad_take n bs) = n"
  by (simp add: pad_take_def)

lemma pad_take_id [simp]: "length bs = n \<Longrightarrow> pad_take n bs = bs"
  by (simp add: pad_take_def)

end
