(* ===== verification/C_Layout.thy ===== *)
theory C_Layout
  imports Prelude
begin

text \<open>
  The C types that cross the foreign-function interface and the \<^verbatim>\<open>#[repr(C)]\<close> layout
  algorithm: size, alignment and field offsets of a type on a target. The bindings state what
  they expect of it in their \<^verbatim>\<open>const _: () = { ... }\<close> blocks; the lemmas here show that the
  algorithm lays fields out aligned, inside the struct and without overlap.
\<close>

section \<open>C types and their layout\<close>

text \<open>
  A struct carries its \<^verbatim>\<open>#[repr(align(N))]\<close> attribute, if any, and its fields in order.
\<close>

datatype ctype = CU8 | CU32 | CU64 | CUsize | CPtr | CArray ctype nat
  | CStruct "nat option" cfields
and cfields = FEnd | FCons string ctype cfields

definition ptr_bytes :: "target \<Rightarrow> nat" where
  "ptr_bytes tg = ptr_bits tg div 8"

definition round_up :: "nat \<Rightarrow> nat \<Rightarrow> nat" where
  "round_up n a = (n + (a - 1)) div a * a"

primrec align_of :: "target \<Rightarrow> ctype \<Rightarrow> nat" and fields_align :: "target \<Rightarrow> cfields \<Rightarrow> nat" where
  "align_of tg CU8 = 1"
| "align_of tg CU32 = 4"
| "align_of tg CU64 = u64_align tg"
| "align_of tg CUsize = ptr_bytes tg"
| "align_of tg CPtr = ptr_bytes tg"
| "align_of tg (CArray t n) = align_of tg t"
| "align_of tg (CStruct a fs) = max (case a of None \<Rightarrow> 1 | Some k \<Rightarrow> k) (fields_align tg fs)"
| "fields_align tg FEnd = 1"
| "fields_align tg (FCons f t fs) = max (align_of tg t) (fields_align tg fs)"

primrec size_of :: "target \<Rightarrow> ctype \<Rightarrow> nat" and fields_end :: "target \<Rightarrow> cfields \<Rightarrow> nat \<Rightarrow> nat" where
  "size_of tg CU8 = 1"
| "size_of tg CU32 = 4"
| "size_of tg CU64 = 8"
| "size_of tg CUsize = ptr_bytes tg"
| "size_of tg CPtr = ptr_bytes tg"
| "size_of tg (CArray t n) = n * size_of tg t"
| "size_of tg (CStruct a fs) = round_up (fields_end tg fs 0) (align_of tg (CStruct a fs))"
| "fields_end tg FEnd i = i"
| "fields_end tg (FCons f t fs) i = fields_end tg fs (round_up i (align_of tg t) + size_of tg t)"

text \<open>The fields of a struct with their offsets and types, in declaration order.\<close>

primrec field_slots :: "target \<Rightarrow> cfields \<Rightarrow> nat \<Rightarrow> (string \<times> nat \<times> ctype) list" where
  "field_slots tg FEnd i = []"
| "field_slots tg (FCons f t fs) i =
     (f, round_up i (align_of tg t), t) # field_slots tg fs (round_up i (align_of tg t) + size_of tg t)"

fun offset_of :: "target \<Rightarrow> ctype \<Rightarrow> string \<Rightarrow> nat option" where
  "offset_of tg (CStruct a fs) f = map_option fst (map_of (field_slots tg fs 0) f)"
| "offset_of tg _ f = None"

section \<open>The assertions of the bindings\<close>

datatype layout_assert = SizeIs nat | AlignIs nat | OffsetIs string nat

primrec assert_holds :: "target \<Rightarrow> ctype \<Rightarrow> layout_assert \<Rightarrow> bool" where
  "assert_holds tg t (SizeIs n) = (size_of tg t = n)"
| "assert_holds tg t (AlignIs n) = (align_of tg t = n)"
| "assert_holds tg t (OffsetIs f n) = (offset_of tg t f = Some n)"

text \<open>A struct of the bindings: its name, its type and its assertion block.\<close>

datatype struct_decl = Struct_decl (sd_name: string) (sd_type: ctype) (sd_asserts: "layout_assert list")

definition layout_ok :: "target \<Rightarrow> struct_decl \<Rightarrow> bool" where
  "layout_ok tg d \<longleftrightarrow> list_all (assert_holds tg (sd_type d)) (sd_asserts d)"

section \<open>Soundness of the layout algorithm\<close>

definition is_pow2 :: "nat \<Rightarrow> bool" where
  "is_pow2 a \<longleftrightarrow> (\<exists>k. a = 2 ^ k)"

text \<open>Alignments are powers of two: so are those of the primitive types and attributes.\<close>

primrec aligns_ok :: "target \<Rightarrow> ctype \<Rightarrow> bool" and fields_aligns_ok :: "target \<Rightarrow> cfields \<Rightarrow> bool" where
  "aligns_ok tg CU8 = True"
| "aligns_ok tg CU32 = True"
| "aligns_ok tg CU64 = is_pow2 (u64_align tg)"
| "aligns_ok tg CUsize = is_pow2 (ptr_bytes tg)"
| "aligns_ok tg CPtr = is_pow2 (ptr_bytes tg)"
| "aligns_ok tg (CArray t n) = aligns_ok tg t"
| "aligns_ok tg (CStruct a fs) = ((case a of None \<Rightarrow> True | Some k \<Rightarrow> is_pow2 k) \<and> fields_aligns_ok tg fs)"
| "fields_aligns_ok tg FEnd = True"
| "fields_aligns_ok tg (FCons f t fs) = (aligns_ok tg t \<and> fields_aligns_ok tg fs)"

lemma round_up_ge: "a > 0 \<Longrightarrow> n \<le> round_up n a"
proof -
  assume a: "a > 0"
  have "n + (a - 1) = (n + (a - 1)) div a * a + (n + (a - 1)) mod a"
    by simp
  moreover have "(n + (a - 1)) mod a \<le> a - 1"
    using a mod_less_divisor [of a "n + (a - 1)"] by linarith
  ultimately show ?thesis
    unfolding round_up_def by linarith
qed

lemma round_up_dvd [simp]: "a dvd round_up n a"
  by (simp add: round_up_def)

lemma is_pow2_1 [simp]: "is_pow2 (Suc 0)" "is_pow2 1" "is_pow2 4"
  by (auto simp: is_pow2_def intro: exI [of _ 0] exI [of _ 2])

lemma is_pow2_pos: "is_pow2 a \<Longrightarrow> 0 < a"
  by (auto simp: is_pow2_def)

lemma is_pow2_max: "is_pow2 a \<Longrightarrow> is_pow2 b \<Longrightarrow> is_pow2 (max a b)"
  by (simp add: max_def)

lemma is_pow2_dvd: "is_pow2 a \<Longrightarrow> is_pow2 b \<Longrightarrow> a \<le> b \<Longrightarrow> a dvd b"
  by (auto simp: is_pow2_def intro!: le_imp_power_dvd)

lemma aligns_pow2:
  "aligns_ok tg t \<Longrightarrow> is_pow2 (align_of tg t)"
  "fields_aligns_ok tg fs \<Longrightarrow> is_pow2 (fields_align tg fs)"
  by (induction t and fs) (auto intro: is_pow2_max split: option.splits)

lemma cfields_induct [case_names FEnd FCons]:
  assumes "P FEnd" and "\<And>f t fs. P fs \<Longrightarrow> P (FCons f t fs)"
  shows "P fs"
  by (rule cfields.induct [where ?P1.0 = "\<lambda>_. True"]) (auto intro: assms)

lemma slot_align:
  "(f, i, t) \<in> set (field_slots tg fs k) \<Longrightarrow> align_of tg t dvd i \<and> align_of tg t \<le> fields_align tg fs"
  by (induction fs arbitrary: k rule: cfields_induct) (auto simp: le_max_iff_disj)

lemma fields_aligns_ok_up:
  "fields_aligns_ok tg (FCons g u fs) \<Longrightarrow> k \<le> round_up k (align_of tg u)"
  by (auto intro!: round_up_ge is_pow2_pos aligns_pow2)

lemma fields_end_ge: "fields_aligns_ok tg fs \<Longrightarrow> k \<le> fields_end tg fs k"
proof (induction fs arbitrary: k rule: cfields_induct)
  case (FCons g u fs)
  let ?k = "round_up k (align_of tg u) + size_of tg u"
  have "k \<le> ?k"
    using fields_aligns_ok_up [OF FCons.prems, of k] by simp
  also have "?k \<le> fields_end tg fs ?k"
    using FCons.prems by (intro FCons.IH) simp
  finally show ?case by simp
qed simp

lemma slot_bounds:
  "fields_aligns_ok tg fs \<Longrightarrow> (f, i, t) \<in> set (field_slots tg fs k) \<Longrightarrow>
     k \<le> i \<and> i + size_of tg t \<le> fields_end tg fs k"
proof (induction fs arbitrary: k rule: cfields_induct)
  case (FCons g u fs)
  let ?k = "round_up k (align_of tg u) + size_of tg u"
  have up: "k \<le> round_up k (align_of tg u)"
    by (rule fields_aligns_ok_up [OF FCons.prems(1)])
  consider "i = round_up k (align_of tg u)" "t = u" | "(f, i, t) \<in> set (field_slots tg fs ?k)"
    using FCons.prems by auto
  then show ?case
  proof cases
    case 1
    then show ?thesis using up FCons.prems fields_end_ge [of tg fs ?k] by simp
  next
    case 2
    then have "?k \<le> i \<and> i + size_of tg t \<le> fields_end tg fs ?k"
      using FCons by simp
    then show ?thesis using up by simp
  qed
qed simp

text \<open>Two slots at different positions of the list of slots do not overlap.\<close>

lemma slots_disjoint:
  "fields_aligns_ok tg fs \<Longrightarrow> p < q \<Longrightarrow> q < length (field_slots tg fs k) \<Longrightarrow>
   field_slots tg fs k ! p = (f, i, t) \<Longrightarrow> field_slots tg fs k ! q = (g, j, u) \<Longrightarrow>
     i + size_of tg t \<le> j"
proof (induction fs arbitrary: k p q rule: cfields_induct)
  case (FCons h w fs)
  let ?k = "round_up k (align_of tg w) + size_of tg w"
  obtain q' where q: "q = Suc q'" using FCons.prems by (cases q) auto
  then have gj: "(g, j, u) \<in> set (field_slots tg fs ?k)"
    using FCons.prems nth_mem [of q' "field_slots tg fs ?k"] by auto
  show ?case
  proof (cases p)
    case 0
    then show ?thesis using slot_bounds [OF _ gj] FCons.prems by auto
  next
    case (Suc p')
    then show ?thesis using FCons.IH [of p' q' ?k] FCons.prems q by auto
  qed
qed simp

text \<open>The offsets a struct reports are aligned, inside the struct and, for any two fields, apart.\<close>

lemma field_slots_of: "offset_of tg (CStruct a fs) f = Some i \<Longrightarrow> \<exists>t. (f, i, t) \<in> set (field_slots tg fs 0)"
  by (auto dest: map_of_SomeD)

lemma align_pos: "aligns_ok tg t \<Longrightarrow> 0 < align_of tg t"
  by (rule is_pow2_pos [OF aligns_pow2(1)])

lemma fields_end_size:
  "aligns_ok tg (CStruct a fs) \<Longrightarrow> fields_end tg fs 0 \<le> size_of tg (CStruct a fs)"
  using align_pos [of tg "CStruct a fs"] round_up_ge by simp

end
