(* ===== verification/Bindings_Types.thy ===== *)
theory Bindings_Types
  imports C_Layout
begin

text \<open>
  The structs of \<^verbatim>\<open>constantine-sys/src/bindings64.rs\<close> and \<^verbatim>\<open>bindings32.rs\<close>, each with the block
  of layout assertions that follows it. The two files declare the same structs; where they
  differ (limb counts and the asserted sizes and offsets) \<open>pick\<close> holds the 64-bit text first.
  \<^verbatim>\<open>secret_word\<close> and \<^verbatim>\<open>secret_bool\<close> are \<^verbatim>\<open>usize\<close> and \<^verbatim>\<open>byte\<close> is \<^verbatim>\<open>u8\<close>.
\<close>

definition ctt_threadpool_decl :: "target \<Rightarrow> struct_decl" where
  "ctt_threadpool_decl tg = Struct_decl ''ctt_threadpool''
    (CStruct None (FCons ''_unused'' (CArray CU8 0) FEnd))
    []"

definition ctt_keccak256_context_decl :: "target \<Rightarrow> struct_decl" where
  "ctt_keccak256_context_decl tg = Struct_decl ''ctt_keccak256_context''
    (CStruct (Some 64) (FCons ''state'' (CArray CU64 25) FEnd))
    [SizeIs 256, AlignIs 64, OffsetIs ''state'' 0]"

definition ctt_sha256_context_decl :: "target \<Rightarrow> struct_decl" where
  "ctt_sha256_context_decl tg = Struct_decl ''ctt_sha256_context''
    (CStruct (Some 64) (FCons ''message_schedule'' (CArray CU32 16) (FCons ''buf'' (CArray CU8 64) (FCons ''msgLen'' CU64 FEnd))))
    [SizeIs 192, AlignIs 64, OffsetIs ''message_schedule'' 0, OffsetIs ''buf'' 64, OffsetIs ''msgLen'' 128]"

definition big381_decl :: "target \<Rightarrow> struct_decl" where
  "big381_decl tg = Struct_decl ''big381''
    (CStruct None (FCons ''limbs'' (CArray CUsize (pick tg 6 12)) FEnd))
    (pick tg
      [SizeIs 48, AlignIs 8, OffsetIs ''limbs'' 0]
      [SizeIs 48, AlignIs 4, OffsetIs ''limbs'' 0])"

definition big255_decl :: "target \<Rightarrow> struct_decl" where
  "big255_decl tg = Struct_decl ''big255''
    (CStruct None (FCons ''limbs'' (CArray CUsize (pick tg 4 8)) FEnd))
    (pick tg
      [SizeIs 32, AlignIs 8, OffsetIs ''limbs'' 0]
      [SizeIs 32, AlignIs 4, OffsetIs ''limbs'' 0])"

definition big254_decl :: "target \<Rightarrow> struct_decl" where
  "big254_decl tg = Struct_decl ''big254''
    (CStruct None (FCons ''limbs'' (CArray CUsize (pick tg 4 8)) FEnd))
    (pick tg
      [SizeIs 32, AlignIs 8, OffsetIs ''limbs'' 0]
      [SizeIs 32, AlignIs 4, OffsetIs ''limbs'' 0])"

definition big253_decl :: "target \<Rightarrow> struct_decl" where
  "big253_decl tg = Struct_decl ''big253''
    (CStruct None (FCons ''limbs'' (CArray CUsize (pick tg 4 8)) FEnd))
    (pick tg
      [SizeIs 32, AlignIs 8, OffsetIs ''limbs'' 0]
      [SizeIs 32, AlignIs 4, OffsetIs ''limbs'' 0])"

definition bls12_381_fr_decl :: "target \<Rightarrow> struct_decl" where
  "bls12_381_fr_decl tg = Struct_decl ''bls12_381_fr''
    (CStruct None (FCons ''limbs'' (CArray CUsize (pick tg 4 8)) FEnd))
    (pick tg
      [SizeIs 32, AlignIs 8, OffsetIs ''limbs'' 0]
      [SizeIs 32, AlignIs 4, OffsetIs ''limbs'' 0])"

definition bls12_381_fp_decl :: "target \<Rightarrow> struct_decl" where
  "bls12_381_fp_decl tg = Struct_decl ''bls12_381_fp''
    (CStruct None (FCons ''limbs'' (CArray CUsize (pick tg 6 12)) FEnd))
    (pick tg
      [SizeIs 48, AlignIs 8, OffsetIs ''limbs'' 0]
      [SizeIs 48, AlignIs 4, OffsetIs ''limbs'' 0])"

definition bls12_381_fp2_decl :: "target \<Rightarrow> struct_decl" where
  "bls12_381_fp2_decl tg = Struct_decl ''bls12_381_fp2''
    (CStruct None (FCons ''c'' (CArray (sd_type (bls12_381_fp_decl tg)) 2) FEnd))
    (pick tg
      [SizeIs 96, AlignIs 8, OffsetIs ''c'' 0]
      [SizeIs 96, AlignIs 4, OffsetIs ''c'' 0])"

definition bls12_381_g1_aff_decl :: "target \<Rightarrow> struct_decl" where
  "bls12_381_g1_aff_decl tg = Struct_decl ''bls12_381_g1_aff''
    (CStruct None (FCons ''x'' (sd_type (bls12_381_fp_decl tg)) (FCons ''y'' (sd_type (bls12_381_fp_decl tg)) FEnd)))
    (pick tg
      [SizeIs 96, AlignIs 8, OffsetIs ''x'' 0, OffsetIs ''y'' 48]
      [SizeIs 96, AlignIs 4, OffsetIs ''x'' 0, OffsetIs ''y'' 48])"

definition bls12_381_g1_jac_decl :: "target \<Rightarrow> struct_decl" where
  "bls12_381_g1_jac_decl tg = Struct_decl ''bls12_381_g1_jac''
    (CStruct None (FCons ''x'' (sd_type (bls12_381_fp_decl tg)) (FCons ''y'' (sd_type (bls12_381_fp_decl tg)) (FCons ''z'' (sd_type (bls12_381_fp_decl tg)) FEnd))))
    (pick tg
      [SizeIs 144, AlignIs 8, OffsetIs ''x'' 0, OffsetIs ''y'' 48, OffsetIs ''z'' 96]
      [SizeIs 144, AlignIs 4, OffsetIs ''x'' 0, OffsetIs ''y'' 48, OffsetIs ''z'' 96])"

definition bls12_381_g1_prj_decl :: "target \<Rightarrow> struct_decl" where
  "bls12_381_g1_prj_decl tg = Struct_decl ''bls12_381_g1_prj''
    (CStruct None (FCons ''x'' (sd_type (bls12_381_fp_decl tg)) (FCons ''y'' (sd_type (bls12_381_fp_decl tg)) (FCons ''z'' (sd_type (bls12_381_fp_decl tg)) FEnd))))
    (pick tg
      [SizeIs 144, AlignIs 8, OffsetIs ''x'' 0, OffsetIs ''y'' 48, OffsetIs ''z'' 96]
      [SizeIs 144, AlignIs 4, OffsetIs ''x'' 0, OffsetIs ''y'' 48, OffsetIs ''z'' 96])"

definition bls12_381_g2_aff_decl :: "target \<Rightarrow> struct_decl" where
  "bls12_381_g2_aff_decl tg = Struct_decl ''bls12_381_g2_aff''
    (CStruct None (FCons ''x'' (sd_type (bls12_381_fp2_decl tg)) (FCons ''y'' (sd_type (bls12_381_fp2_decl tg)) FEnd)))
    (pick tg
      [SizeIs 192, AlignIs 8, OffsetIs ''x'' 0, OffsetIs ''y'' 96]
      [SizeIs 192, AlignIs 4, OffsetIs ''x'' 0, OffsetIs ''y'' 96])"

definition bls12_381_g2_jac_decl :: "target \<Rightarrow> struct_decl" where
  "bls12_381_g2_jac_decl tg = Struct_decl ''bls12_381_g2_jac''
    (CStruct None (FCons ''x'' (sd_type (bls12_381_fp2_decl tg)) (FCons ''y'' (sd_type (bls12_381_fp2_decl tg)) (FCons ''z'' (sd_type (bls12_381_fp2_decl tg)) FEnd))))
    (pick tg
      [SizeIs 288, AlignIs 8, OffsetIs ''x'' 0, OffsetIs ''y'' 96, OffsetIs ''z'' 192]
      [SizeIs 288, AlignIs 4, OffsetIs ''x'' 0, OffsetIs ''y'' 96, OffsetIs ''z'' 192])"

definition bls12_381_g2_prj_decl :: "target \<Rightarrow> struct_decl" where
  "bls12_381_g2_prj_decl tg = Struct_decl ''bls12_381_g2_prj''
    (CStruct None (FCons ''x'' (sd_type (bls12_381_fp2_decl tg)) (FCons ''y'' (sd_type (bls12_381_fp2_decl tg)) (FCons ''z'' (sd_type (bls12_381_fp2_decl tg)) FEnd))))
    (pick tg
      [SizeIs 288, AlignIs 8, OffsetIs ''x'' 0, OffsetIs ''y'' 96, OffsetIs ''z'' 192]
      [SizeIs 288, AlignIs 4, OffsetIs ''x'' 0, OffsetIs ''y'' 96, OffsetIs ''z'' 192])"

definition bn254_snarks_fr_decl :: "target \<Rightarrow> struct_decl" where
  "bn254_snarks_fr_decl tg = Struct_decl ''bn254_snarks_fr''
    (CStruct None (FCons ''limbs'' (CArray CUsize (pick tg 4 8)) FEnd))
    (pick tg
      [SizeIs 32, AlignIs 8, OffsetIs ''limbs'' 0]
      [SizeIs 32, AlignIs 4, OffsetIs ''limbs'' 0])"

definition bn254_snarks_fp_decl :: "target \<Rightarrow> struct_decl" where
  "bn254_snarks_fp_decl tg = Struct_decl ''bn254_snarks_fp''
    (CStruct None (FCons ''limbs'' (CArray CUsize (pick tg 4 8)) FEnd))
    (pick tg
      [SizeIs 32, AlignIs 8, OffsetIs ''limbs'' 0]
      [SizeIs 32, AlignIs 4, OffsetIs ''limbs'' 0])"

definition bn254_snarks_fp2_decl :: "target \<Rightarrow> struct_decl" where
  "bn254_snarks_fp2_decl tg = Struct_decl ''bn254_snarks_fp2''
    (CStruct None (FCons ''c'' (CArray (sd_type (bn254_snarks_fp_decl tg)) 2) FEnd))
    (pick tg
      [SizeIs 64, AlignIs 8, OffsetIs ''c'' 0]
      [SizeIs 64, AlignIs 4, OffsetIs ''c'' 0])"

definition bn254_snarks_g1_aff_decl :: "target \<Rightarrow> struct_decl" where
  "bn254_snarks_g1_aff_decl tg = Struct_decl ''bn254_snarks_g1_aff''
    (CStruct None (FCons ''x'' (sd_type (bn254_snarks_fp_decl tg)) (FCons ''y'' (sd_type (bn254_snarks_fp_decl tg)) FEnd)))
    (pick tg
      [SizeIs 64, AlignIs 8, OffsetIs ''x'' 0, OffsetIs ''y'' 32]
      [SizeIs 64, AlignIs 4, OffsetIs ''x'' 0, OffsetIs ''y'' 32])"

definition bn254_snarks_g1_jac_decl :: "target \<Rightarrow> struct_decl" where
  "bn254_snarks_g1_jac_decl tg = Struct_decl ''bn254_snarks_g1_jac''
    (CStruct None (FCons ''x'' (sd_type (bn254_snarks_fp_decl tg)) (FCons ''y'' (sd_type (bn254_snarks_fp_decl tg)) (FCons ''z'' (sd_type (bn254_snarks_fp_decl tg)) FEnd))))
    (pick tg
      [SizeIs 96, AlignIs 8, OffsetIs ''x'' 0, OffsetIs ''y'' 32, OffsetIs ''z'' 64]
      [SizeIs 96, AlignIs 4, OffsetIs ''x'' 0, OffsetIs ''y'' 32, OffsetIs ''z'' 64])"

definition bn254_snarks_g1_prj_decl :: "target \<Rightarrow> struct_decl" where
  "bn254_snarks_g1_prj_decl tg = Struct_decl ''bn254_snarks_g1_prj''
    (CStruct None (FCons ''x'' (sd_type (bn254_snarks_fp_decl tg)) (FCons ''y'' (sd_type (bn254_snarks_fp_decl tg)) (FCons ''z'' (sd_type (bn254_snarks_fp_decl tg)) FEnd))))
    (pick tg
      [SizeIs 96, AlignIs 8, OffsetIs ''x'' 0, OffsetIs ''y'' 32, OffsetIs ''z'' 64]
      [SizeIs 96, AlignIs 4, OffsetIs ''x'' 0, OffsetIs ''y'' 32, OffsetIs ''z'' 64])"

definition bn254_snarks_g2_aff_decl :: "target \<Rightarrow> struct_decl" where
  "bn254_snarks_g2_aff_decl tg = Struct_decl ''bn254_snarks_g2_aff''
    (CStruct None (FCons ''x'' (sd_type (bn254_snarks_fp2_decl tg)) (FCons ''y'' (sd_type (bn254_snarks_fp2_decl tg)) FEnd)))
    (pick tg
      [SizeIs 128, AlignIs 8, OffsetIs ''x'' 0, OffsetIs ''y'' 64]
      [SizeIs 128, AlignIs 4, OffsetIs ''x'' 0, OffsetIs ''y'' 64])"

definition bn254_snarks_g2_jac_decl :: "target \<Rightarrow> struct_decl" where
  "bn254_snarks_g2_jac_decl tg = Struct_decl ''bn254_snarks_g2_jac''
    (CStruct None (FCons ''x'' (sd_type (bn254_snarks_fp2_decl tg)) (FCons ''y'' (sd_type (bn254_snarks_fp2_decl tg)) (FCons ''z'' (sd_type (bn254_snarks_fp2_decl tg)) FEnd))))
    (pick tg
      [SizeIs 192, AlignIs 8, OffsetIs ''x'' 0, OffsetIs ''y'' 64, OffsetIs ''z'' 128]
      [SizeIs 192, AlignIs 4, OffsetIs ''x'' 0, OffsetIs ''y'' 64, OffsetIs ''z'' 128])"

definition bn254_snarks_g2_prj_decl :: "target \<Rightarrow> struct_decl" where
  "bn254_snarks_g2_prj_decl tg = Struct_decl ''bn254_snarks_g2_prj''
    (CStruct None (FCons ''x'' (sd_type (bn254_snarks_fp2_decl tg)) (FCons ''y'' (sd_type (bn254_snarks_fp2_decl tg)) (FCons ''z'' (sd_type (bn254_snarks_fp2_decl tg)) FEnd))))
    (pick tg
      [SizeIs 192, AlignIs 8, OffsetIs ''x'' 0, OffsetIs ''y'' 64, OffsetIs ''z'' 128]
      [SizeIs 192, AlignIs 4, OffsetIs ''x'' 0, OffsetIs ''y'' 64, OffsetIs ''z'' 128])"

definition pallas_fr_decl :: "target \<Rightarrow> struct_decl" where
  "pallas_fr_decl tg = Struct_decl ''pallas_fr''
    (CStruct None (FCons ''limbs'' (CArray CUsize (pick tg 4 8)) FEnd))
    (pick tg
      [SizeIs 32, AlignIs 8, OffsetIs ''limbs'' 0]
      [SizeIs 32, AlignIs 4, OffsetIs ''limbs'' 0])"

definition pallas_fp_decl :: "target \<Rightarrow> struct_decl" where
  "pallas_fp_decl tg = Struct_decl ''pallas_fp''
    (CStruct None (FCons ''limbs'' (CArray CUsize (pick tg 4 8)) FEnd))
    (pick tg
      [SizeIs 32, AlignIs 8, OffsetIs ''limbs'' 0]
      [SizeIs 32, AlignIs 4, OffsetIs ''limbs'' 0])"

definition pallas_ec_aff_decl :: "target \<Rightarrow> struct_decl" where
  "pallas_ec_aff_decl tg = Struct_decl ''pallas_ec_aff''
    (CStruct None (FCons ''x'' (sd_type (pallas_fp_decl tg)) (FCons ''y'' (sd_type (pallas_fp_decl tg)) FEnd)))
    (pick tg
      [SizeIs 64, AlignIs 8, OffsetIs ''x'' 0, OffsetIs ''y'' 32]
      [SizeIs 64, AlignIs 4, OffsetIs ''x'' 0, OffsetIs ''y'' 32])"

definition pallas_ec_jac_decl :: "target \<Rightarrow> struct_decl" where
  "pallas_ec_jac_decl tg = Struct_decl ''pallas_ec_jac''
    (CStruct None (FCons ''x'' (sd_type (pallas_fp_decl tg)) (FCons ''y'' (sd_type (pallas_fp_decl tg)) (FCons ''z'' (sd_type (pallas_fp_decl tg)) FEnd))))
    (pick tg
      [SizeIs 96, AlignIs 8, OffsetIs ''x'' 0, OffsetIs ''y'' 32, OffsetIs ''z'' 64]
      [SizeIs 96, AlignIs 4, OffsetIs ''x'' 0, OffsetIs ''y'' 32, OffsetIs ''z'' 64])"

definition pallas_ec_prj_decl :: "target \<Rightarrow> struct_decl" where
  "pallas_ec_prj_decl tg = Struct_decl ''pallas_ec_prj''
    (CStruct None (FCons ''x'' (sd_type (pallas_fp_decl tg)) (FCons ''y'' (sd_type (pallas_fp_decl tg)) (FCons ''z'' (sd_type (pallas_fp_decl tg)) FEnd))))
    (pick tg
      [SizeIs 96, AlignIs 8, OffsetIs ''x'' 0, OffsetIs ''y'' 32, OffsetIs ''z'' 64]
      [SizeIs 96, AlignIs 4, OffsetIs ''x'' 0, OffsetIs ''y'' 32, OffsetIs ''z'' 64])"

definition vesta_fr_decl :: "target \<Rightarrow> struct_decl" where
  "vesta_fr_decl tg = Struct_decl ''vesta_fr''
    (CStruct None (FCons ''limbs'' (CArray CUsize (pick tg 4 8)) FEnd))
    (pick tg
      [SizeIs 32, AlignIs 8, OffsetIs ''limbs'' 0]
      [SizeIs 32, AlignIs 4, OffsetIs ''limbs'' 0])"

definition vesta_fp_decl :: "target \<Rightarrow> struct_decl" where
  "vesta_fp_decl tg = Struct_decl ''vesta_fp''
    (CStruct None (FCons ''limbs'' (CArray CUsize (pick tg 4 8)) FEnd))
    (pick tg
      [SizeIs 32, AlignIs 8, OffsetIs ''limbs'' 0]
      [SizeIs 32, AlignIs 4, OffsetIs ''limbs'' 0])"

definition vesta_ec_aff_decl :: "target \<Rightarrow> struct_decl" where
  "vesta_ec_aff_decl tg = Struct_decl ''vesta_ec_aff''
    (CStruct None (FCons ''x'' (sd_type (vesta_fp_decl tg)) (FCons ''y'' (sd_type (vesta_fp_decl tg)) FEnd)))
    (pick tg
      [SizeIs 64, AlignIs 8, OffsetIs ''x'' 0, OffsetIs ''y'' 32]
      [SizeIs 64, AlignIs 4, OffsetIs ''x'' 0, OffsetIs ''y'' 32])"

definition vesta_ec_jac_decl :: "target \<Rightarrow> struct_decl" where
  "vesta_ec_jac_decl tg = Struct_decl ''vesta_ec_jac''
    (CStruct None (FCons ''x'' (sd_type (vesta_fp_decl tg)) (FCons ''y'' (sd_type (vesta_fp_decl tg)) (FCons ''z'' (sd_type (vesta_fp_decl tg)) FEnd))))
    (pick tg
      [SizeIs 96, AlignIs 8, OffsetIs ''x'' 0, OffsetIs ''y'' 32, OffsetIs ''z'' 64]
      [SizeIs 96, AlignIs 4, OffsetIs ''x'' 0, OffsetIs ''y'' 32, OffsetIs ''z'' 64])"

definition vesta_ec_prj_decl :: "target \<Rightarrow> struct_decl" where
  "vesta_ec_prj_decl tg = Struct_decl ''vesta_ec_prj''
    (CStruct None (FCons ''x'' (sd_type (vesta_fp_decl tg)) (FCons ''y'' (sd_type (vesta_fp_decl tg)) (FCons ''z'' (sd_type (vesta_fp_decl tg)) FEnd))))
    (pick tg
      [SizeIs 96, AlignIs 8, OffsetIs ''x'' 0, OffsetIs ''y'' 32, OffsetIs ''z'' 64]
      [SizeIs 96, AlignIs 4, OffsetIs ''x'' 0, OffsetIs ''y'' 32, OffsetIs ''z'' 64])"

definition banderwagon_fr_decl :: "target \<Rightarrow> struct_decl" where
  "banderwagon_fr_decl tg = Struct_decl ''banderwagon_fr''
    (CStruct None (FCons ''limbs'' (CArray CUsize (pick tg 4 8)) FEnd))
    (pick tg
      [SizeIs 32, AlignIs 8, OffsetIs ''limbs'' 0]
      [SizeIs 32, AlignIs 4, OffsetIs ''limbs'' 0])"

definition banderwagon_fp_decl :: "target \<Rightarrow> struct_decl" where
  "banderwagon_fp_decl tg = Struct_decl ''banderwagon_fp''
    (CStruct None (FCons ''limbs'' (CArray CUsize (pick tg 4 8)) FEnd))
    (pick tg
      [SizeIs 32, AlignIs 8, OffsetIs ''limbs'' 0]
      [SizeIs 32, AlignIs 4, OffsetIs ''limbs'' 0])"

definition banderwagon_ec_aff_decl :: "target \<Rightarrow> struct_decl" where
  "banderwagon_ec_aff_decl tg = Struct_decl ''banderwagon_ec_aff''
    (CStruct None (FCons ''x'' (sd_type (banderwagon_fp_decl tg)) (FCons ''y'' (sd_type (banderwagon_fp_decl tg)) FEnd)))
    (pick tg
      [SizeIs 64, AlignIs 8, OffsetIs ''x'' 0, OffsetIs ''y'' 32]
      [SizeIs 64, AlignIs 4, OffsetIs ''x'' 0, OffsetIs ''y'' 32])"

definition banderwagon_ec_jac_decl :: "target \<Rightarrow> struct_decl" where
  "banderwagon_ec_jac_decl tg = Struct_decl ''banderwagon_ec_jac''
    (CStruct None (FCons ''x'' (sd_type (banderwagon_fp_decl tg)) (FCons ''y'' (sd_type (banderwagon_fp_decl tg)) (FCons ''z'' (sd_type (banderwagon_fp_decl tg)) FEnd))))
    (pick tg
      [SizeIs 96, AlignIs 8, OffsetIs ''x'' 0, OffsetIs ''y'' 32, OffsetIs ''z'' 64]
      [SizeIs 96, AlignIs 4, OffsetIs ''x'' 0, OffsetIs ''y'' 32, OffsetIs ''z'' 64])"

definition banderwagon_ec_prj_decl :: "target \<Rightarrow> struct_decl" where
  "banderwagon_ec_prj_decl tg = Struct_decl ''banderwagon_ec_prj''
    (CStruct None (FCons ''x'' (sd_type (banderwagon_fp_decl tg)) (FCons ''y'' (sd_type (banderwagon_fp_decl tg)) (FCons ''z'' (sd_type (banderwagon_fp_decl tg)) FEnd))))
    (pick tg
      [SizeIs 96, AlignIs 8, OffsetIs ''x'' 0, OffsetIs ''y'' 32, OffsetIs ''z'' 64]
      [SizeIs 96, AlignIs 4, OffsetIs ''x'' 0, OffsetIs ''y'' 32, OffsetIs ''z'' 64])"

definition ctt_eth_bls_fp_decl :: "target \<Rightarrow> struct_decl" where
  "ctt_eth_bls_fp_decl tg = Struct_decl ''ctt_eth_bls_fp''
    (CStruct None (FCons ''raw'' (CArray CU8 48) FEnd))
    [SizeIs 48, AlignIs 1, OffsetIs ''raw'' 0]"

definition ctt_eth_bls_fp2_decl :: "target \<Rightarrow> struct_decl" where
  "ctt_eth_bls_fp2_decl tg = Struct_decl ''ctt_eth_bls_fp2''
    (CStruct None (FCons ''coords'' (CArray (sd_type (ctt_eth_bls_fp_decl tg)) 2) FEnd))
    [SizeIs 96, AlignIs 1, OffsetIs ''coords'' 0]"

definition ctt_eth_bls_seckey_decl :: "target \<Rightarrow> struct_decl" where
  "ctt_eth_bls_seckey_decl tg = Struct_decl ''ctt_eth_bls_seckey''
    (CStruct None (FCons ''raw'' (CArray CU8 32) FEnd))
    [SizeIs 32, AlignIs 1, OffsetIs ''raw'' 0]"

definition ctt_eth_bls_pubkey_decl :: "target \<Rightarrow> struct_decl" where
  "ctt_eth_bls_pubkey_decl tg = Struct_decl ''ctt_eth_bls_pubkey''
    (CStruct None (FCons ''x'' (sd_type (ctt_eth_bls_fp_decl tg)) (FCons ''y'' (sd_type (ctt_eth_bls_fp_decl tg)) FEnd)))
    [SizeIs 96, AlignIs 1, OffsetIs ''x'' 0, OffsetIs ''y'' 48]"

definition ctt_eth_bls_signature_decl :: "target \<Rightarrow> struct_decl" where
  "ctt_eth_bls_signature_decl tg = Struct_decl ''ctt_eth_bls_signature''
    (CStruct None (FCons ''x'' (sd_type (ctt_eth_bls_fp2_decl tg)) (FCons ''y'' (sd_type (ctt_eth_bls_fp2_decl tg)) FEnd)))
    [SizeIs 192, AlignIs 1, OffsetIs ''x'' 0, OffsetIs ''y'' 96]"

definition ctt_eth_bls_batch_sig_accumulator_decl :: "target \<Rightarrow> struct_decl" where
  "ctt_eth_bls_batch_sig_accumulator_decl tg = Struct_decl ''ctt_eth_bls_batch_sig_accumulator''
    (CStruct None (FCons ''_unused'' (CArray CU8 0) FEnd))
    []"

definition ctt_span_decl :: "target \<Rightarrow> struct_decl" where
  "ctt_span_decl tg = Struct_decl ''ctt_span''
    (CStruct None (FCons ''data'' CPtr (FCons ''len'' CUsize FEnd)))
    (pick tg
      [SizeIs 16, AlignIs 8, OffsetIs ''data'' 0, OffsetIs ''len'' 8]
      [SizeIs 8, AlignIs 4, OffsetIs ''data'' 0, OffsetIs ''len'' 4])"

definition ctt_eth_kzg_context_struct_decl :: "target \<Rightarrow> struct_decl" where
  "ctt_eth_kzg_context_struct_decl tg = Struct_decl ''ctt_eth_kzg_context_struct''
    (CStruct None (FCons ''_unused'' (CArray CU8 0) FEnd))
    []"

definition ctt_eth_kzg_commitment_decl :: "target \<Rightarrow> struct_decl" where
  "ctt_eth_kzg_commitment_decl tg = Struct_decl ''ctt_eth_kzg_commitment''
    (CStruct None (FCons ''raw'' (CArray CU8 48) FEnd))
    [SizeIs 48, AlignIs 1, OffsetIs ''raw'' 0]"

definition ctt_eth_kzg_proof_decl :: "target \<Rightarrow> struct_decl" where
  "ctt_eth_kzg_proof_decl tg = Struct_decl ''ctt_eth_kzg_proof''
    (CStruct None (FCons ''raw'' (CArray CU8 48) FEnd))
    [SizeIs 48, AlignIs 1, OffsetIs ''raw'' 0]"

definition ctt_eth_kzg_blob_decl :: "target \<Rightarrow> struct_decl" where
  "ctt_eth_kzg_blob_decl tg = Struct_decl ''ctt_eth_kzg_blob''
    (CStruct None (FCons ''raw'' (CArray CU8 131072) FEnd))
    [SizeIs 131072, AlignIs 1, OffsetIs ''raw'' 0]"

definition ctt_eth_kzg_opening_challenge_decl :: "target \<Rightarrow> struct_decl" where
  "ctt_eth_kzg_opening_challenge_decl tg = Struct_decl ''ctt_eth_kzg_opening_challenge''
    (CStruct None (FCons ''raw'' (CArray CU8 32) FEnd))
    [SizeIs 32, AlignIs 1, OffsetIs ''raw'' 0]"

definition ctt_eth_kzg_eval_at_challenge_decl :: "target \<Rightarrow> struct_decl" where
  "ctt_eth_kzg_eval_at_challenge_decl tg = Struct_decl ''ctt_eth_kzg_eval_at_challenge''
    (CStruct None (FCons ''raw'' (CArray CU8 32) FEnd))
    [SizeIs 32, AlignIs 1, OffsetIs ''raw'' 0]"

definition ctt_eth_kzg_cell_decl :: "target \<Rightarrow> struct_decl" where
  "ctt_eth_kzg_cell_decl tg = Struct_decl ''ctt_eth_kzg_cell''
    (CStruct None (FCons ''raw'' (CArray CU8 2048) FEnd))
    [SizeIs 2048, AlignIs 1, OffsetIs ''raw'' 0]"

section \<open>All structs\<close>

definition struct_decls :: "target \<Rightarrow> struct_decl list" where
  "struct_decls tg = [ctt_threadpool_decl tg,
     ctt_keccak256_context_decl tg,
     ctt_sha256_context_decl tg,
     big381_decl tg,
     big255_decl tg,
     big254_decl tg,
     big253_decl tg,
     bls12_381_fr_decl tg,
     bls12_381_fp_decl tg,
     bls12_381_fp2_decl tg,
     bls12_381_g1_aff_decl tg,
     bls12_381_g1_jac_decl tg,
     bls12_381_g1_prj_decl tg,
     bls12_381_g2_aff_decl tg,
     bls12_381_g2_jac_decl tg,
     bls12_381_g2_prj_decl tg,
     bn254_snarks_fr_decl tg,
     bn254_snarks_fp_decl tg,
     bn254_snarks_fp2_decl tg,
     bn254_snarks_g1_aff_decl tg,
     bn254_snarks_g1_jac_decl tg,
     bn254_snarks_g1_prj_decl tg,
     bn254_snarks_g2_aff_decl tg,
     bn254_snarks_g2_jac_decl tg,
     bn254_snarks_g2_prj_decl tg,
     pallas_fr_decl tg,
     pallas_fp_decl tg,
     pallas_ec_aff_decl tg,
     pallas_ec_jac_decl tg,
     pallas_ec_prj_decl tg,
     vesta_fr_decl tg,
     vesta_fp_decl tg,
     vesta_ec_aff_decl tg,
     vesta_ec_jac_decl tg,
     vesta_ec_prj_decl tg,
     banderwagon_fr_decl tg,
     banderwagon_fp_decl tg,
     banderwagon_ec_aff_decl tg,
     banderwagon_ec_jac_decl tg,
     banderwagon_ec_prj_decl tg,
     ctt_eth_bls_fp_decl tg,
     ctt_eth_bls_fp2_decl tg,
     ctt_eth_bls_seckey_decl tg,
     ctt_eth_bls_pubkey_decl tg,
     ctt_eth_bls_signature_decl tg,
     ctt_eth_bls_batch_sig_accumulator_decl tg,
     ctt_span_decl tg,
     ctt_eth_kzg_context_struct_decl tg,
     ctt_eth_kzg_commitment_decl tg,
     ctt_eth_kzg_proof_decl tg,
     ctt_eth_kzg_blob_decl tg,
     ctt_eth_kzg_opening_challenge_decl tg,
     ctt_eth_kzg_eval_at_challenge_decl tg,
     ctt_eth_kzg_cell_decl tg]"

lemmas struct_decl_defs = struct_decls_def
  ctt_threadpool_decl_def
  ctt_keccak256_context_decl_def
  ctt_sha256_context_decl_def
  big381_decl_def
  big255_decl_def
  big254_decl_def
  big253_decl_def
  bls12_381_fr_decl_def
  bls12_381_fp_decl_def
  bls12_381_fp2_decl_def
  bls12_381_g1_aff_decl_def
  bls12_381_g1_jac_decl_def
  bls12_381_g1_prj_decl_def
  bls12_381_g2_aff_decl_def
  bls12_381_g2_jac_decl_def
  bls12_381_g2_prj_decl_def
  bn254_snarks_fr_decl_def
  bn254_snarks_fp_decl_def
  bn254_snarks_fp2_decl_def
  bn254_snarks_g1_aff_decl_def
  bn254_snarks_g1_jac_decl_def
  bn254_snarks_g1_prj_decl_def
  bn254_snarks_g2_aff_decl_def
  bn254_snarks_g2_jac_decl_def
  bn254_snarks_g2_prj_decl_def
  pallas_fr_decl_def
  pallas_fp_decl_def
  pallas_ec_aff_decl_def
  pallas_ec_jac_decl_def
  pallas_ec_prj_decl_def
  vesta_fr_decl_def
  vesta_fp_decl_def
  vesta_ec_aff_decl_def
  vesta_ec_jac_decl_def
  vesta_ec_prj_decl_def
  banderwagon_fr_decl_def
  banderwagon_fp_decl_def
  banderwagon_ec_aff_decl_def
  banderwagon_ec_jac_decl_def
  banderwagon_ec_prj_decl_def
  ctt_eth_bls_fp_decl_def
  ctt_eth_bls_fp2_decl_def
  ctt_eth_bls_seckey_decl_def
  ctt_eth_bls_pubkey_decl_def
  ctt_eth_bls_signature_decl_def
  ctt_eth_bls_batch_sig_accumulator_decl_def
  ctt_span_decl_def
  ctt_eth_kzg_context_struct_decl_def
  ctt_eth_kzg_commitment_decl_def
  ctt_eth_kzg_proof_decl_def
  ctt_eth_kzg_blob_decl_def
  ctt_eth_kzg_opening_challenge_decl_def
  ctt_eth_kzg_eval_at_challenge_decl_def
  ctt_eth_kzg_cell_decl_def

section \<open>The assertions hold\<close>

lemma target_layout:
  "ptr_bytes W64 = 8" "ptr_bytes W32 = 4" "u64_align W64 = 8" "u64_align W32 = 4"
  by (simp_all add: ptr_bytes_def W64_def W32_def)

lemmas layout_eval = layout_ok_def round_up_def pick_simps target_layout

text \<open>Every alignment of the bindings is a power of two, so the layout lemmas apply to them.\<close>

lemma is_pow2_8 [simp]: "is_pow2 8" and is_pow2_64 [simp]: "is_pow2 64"
  by (auto simp: is_pow2_def intro: exI [of _ 3] exI [of _ 6])

lemma struct_decls_aligns_W64: "list_all (\<lambda>d. aligns_ok W64 (sd_type d)) (struct_decls W64)"
  by (simp add: struct_decl_defs layout_eval)

lemma struct_decls_aligns_W32: "list_all (\<lambda>d. aligns_ok W32 (sd_type d)) (struct_decls W32)"
  by (simp add: struct_decl_defs layout_eval)

lemma struct_decls_layout_W64: "list_all (layout_ok W64) (struct_decls W64)"
  by (simp add: struct_decl_defs layout_eval)

lemma struct_decls_layout_W32: "list_all (layout_ok W32) (struct_decls W32)"
  by (simp add: struct_decl_defs layout_eval)

section \<open>The properties\<close>

text \<open>C34: laying the bound structs out by the C rules (fields in order, each aligned, the size
  rounded up to the alignment) gives exactly the sizes, alignments and field offsets that the
  bindings assert, on 64-bit and on 32-bit targets. In every bound struct the fields are aligned, a
  later field starts after the end of an earlier one, and the last ends inside the struct, so that
  Rust and C never see one field through another.\<close>

theorem struct_layouts:
  assumes "tg = W64 \<or> tg = W32" "d \<in> set (struct_decls tg)" "sd_type d = CStruct a fs"
    "p < q" "q < length (field_slots tg fs 0)"
    "field_slots tg fs 0 ! p = (f, i, t)" "field_slots tg fs 0 ! q = (g, j, u)"
  shows "list_all (layout_ok W64) (struct_decls W64) \<and> list_all (layout_ok W32) (struct_decls W32) \<and>
    i + size_of tg t \<le> j \<and> align_of tg t dvd i \<and> align_of tg u dvd j \<and>
    j + size_of tg u \<le> size_of tg (sd_type d)"
proof -
  have "list_all (\<lambda>d. aligns_ok tg (sd_type d)) (struct_decls tg)"
    using assms(1) struct_decls_aligns_W64 struct_decls_aligns_W32 by blast
  then have ok: "aligns_ok tg (CStruct a fs)"
    using assms(2,3) by (auto simp: list_all_iff)
  then have fok: "fields_aligns_ok tg fs" by simp
  have slots: "(f, i, t) \<in> set (field_slots tg fs 0)" "(g, j, u) \<in> set (field_slots tg fs 0)"
    using assms(4-7) nth_mem [of p "field_slots tg fs 0"] nth_mem [of q "field_slots tg fs 0"] by auto
  have "j + size_of tg u \<le> size_of tg (sd_type d)"
    using slot_bounds [OF fok slots(2)] fields_end_size [OF ok] unfolding assms(3) by linarith
  then show ?thesis
    using slots_disjoint [OF fok assms(4-7)] slot_align [OF slots(1)] slot_align [OF slots(2)]
      struct_decls_layout_W64 struct_decls_layout_W32 by simp
qed

text \<open>The buffer and the length counter of the SHA-256 context on a 32-bit target.\<close>

theorem struct_layouts_witness:
  "64 + size_of W32 (CArray CU8 64) \<le> 128 \<and> 128 + size_of W32 CU64 \<le> size_of W32 (sd_type (ctt_sha256_context_decl W32))"
  using struct_layouts [of W32 "ctt_sha256_context_decl W32" "Some 64"
      "FCons ''message_schedule'' (CArray CU32 16) (FCons ''buf'' (CArray CU8 64) (FCons ''msgLen'' CU64 FEnd))"
      1 2 "''buf''" 64 "CArray CU8 64" "''msgLen''" 128 CU64]
  by (simp add: ctt_sha256_context_decl_def struct_decls_def round_up_def target_layout)

end
