(* ===== verification/Nim_Curves.thy ===== *)
theory Nim_Curves
  imports Bindings_Types
begin

text \<open>
  The number of limbs of the library's big integers and fields
  (\<^verbatim>\<open>constantine/platforms/abstractions.nim\<close>, \<^verbatim>\<open>named/properties_fields.nim\<close>), the parameters
  of the bound curves (\<^verbatim>\<open>named/config_fields_and_curves.nim\<close>) and the agreement of the
  resulting types with the structs of the Rust bindings.
\<close>

section \<open>Limbs of a big integer\<close>

text \<open>\<^verbatim>\<open>WordBitWidth\<close> is the pointer width and a limb is one machine word.\<close>

definition wordsRequired :: "target \<Rightarrow> nat \<Rightarrow> nat" where
  "wordsRequired tg bits =
     (let divShiftor = (if ptr_bits tg = 64 then 6 else 5)
      in drop_bit divShiftor (bits + ptr_bits tg - 1))"

text \<open>\<^verbatim>\<open>BigInt[bits]\<close>, and the fields \<^verbatim>\<open>Fp\<close> and \<^verbatim>\<open>Fr\<close> that wrap one.\<close>

definition BigInt :: "target \<Rightarrow> nat \<Rightarrow> ctype" where
  "BigInt tg bits = CStruct None (FCons ''limbs'' (CArray CUsize (wordsRequired tg bits)) FEnd)"

section \<open>Curve parameters\<close>

record curve =
  bitwidth :: nat
  modulus :: nat
  order :: nat
  orderBitwidth :: nat

definition BN254_Snarks :: curve where
  "BN254_Snarks = \<lparr>bitwidth = 254,
     modulus = 0x30644e72e131a029b85045b68181585d97816a916871ca8d3c208c16d87cfd47,
     order = 0x30644e72e131a029b85045b68181585d2833e84879b9709143e1f593f0000001,
     orderBitwidth = 254\<rparr>"

definition Banderwagon :: curve where
  "Banderwagon = \<lparr>bitwidth = 255,
     modulus = 0x73eda753299d7d483339d80809a1d80553bda402fffe5bfeffffffff00000001,
     order = 0x1cfb69d4ca675f520cce760202687600ff8f87007419047174fd06b52876e7e1,
     orderBitwidth = 253\<rparr>"

definition Pallas :: curve where
  "Pallas = \<lparr>bitwidth = 255,
     modulus = 0x40000000000000000000000000000000224698fc094cf91b992d30ed00000001,
     order = 0x40000000000000000000000000000000224698fc0994a8dd8c46eb2100000001,
     orderBitwidth = 255\<rparr>"

definition Vesta :: curve where
  "Vesta = \<lparr>bitwidth = 255,
     modulus = 0x40000000000000000000000000000000224698fc0994a8dd8c46eb2100000001,
     order = 0x40000000000000000000000000000000224698fc094cf91b992d30ed00000001,
     orderBitwidth = 255\<rparr>"

definition BLS12_381 :: curve where
  "BLS12_381 = \<lparr>bitwidth = 381,
     modulus = 0x1a0111ea397fe69a4b1ba7b6434bacd764774b84f38512bf6730d2a0f6b0f6241eabfffeb153ffffb9feffffffffaaab,
     order = 0x73eda753299d7d483339d80809a1d80553bda402fffe5bfeffffffff00000001,
     orderBitwidth = 255\<rparr>"

lemmas curve_defs = BN254_Snarks_def Banderwagon_def Pallas_def Vesta_def BLS12_381_def

text \<open>The announced bit widths are the bit lengths of the moduli and orders.\<close>

definition has_bits :: "nat \<Rightarrow> nat \<Rightarrow> bool" where
  "has_bits n b \<longleftrightarrow> 2 ^ (b - 1) \<le> n \<and> n < 2 ^ b"

definition curve_ok :: "curve \<Rightarrow> bool" where
  "curve_ok c \<longleftrightarrow> has_bits (modulus c) (bitwidth c) \<and> has_bits (order c) (orderBitwidth c) \<and>
     odd (modulus c) \<and> odd (order c)"

section \<open>Limbs hold the field\<close>

lemma wordsRequired_enough:
  assumes "tg = W64 \<or> tg = W32"
  shows "bits \<le> wordsRequired tg bits * ptr_bits tg"
  using assms by (auto simp: wordsRequired_def W64_def W32_def drop_bit_eq_div)

lemma wordsRequired_tight:
  assumes "tg = W64 \<or> tg = W32" "0 < bits"
  shows "(wordsRequired tg bits - 1) * ptr_bits tg < bits"
  using assms by (auto simp: wordsRequired_def W64_def W32_def drop_bit_eq_div)

lemma wordsRequired_holds:
  assumes "tg = W64 \<or> tg = W32" "has_bits n bits"
  shows "n < 2 ^ (wordsRequired tg bits * ptr_bits tg)"
proof -
  have "n < 2 ^ bits" using assms by (simp add: has_bits_def)
  also have "\<dots> \<le> 2 ^ (wordsRequired tg bits * ptr_bits tg)"
    by (intro power_increasing wordsRequired_enough assms) simp
  finally show ?thesis .
qed

text \<open>Each struct of the bindings whose contents is a big integer, with the announced bits of
  \<^verbatim>\<open>bindings/lib_curves.nim\<close>.\<close>

definition bound_bigints :: "target \<Rightarrow> (struct_decl \<times> nat) list" where
  "bound_bigints tg = [
     (big253_decl tg, 253), (big254_decl tg, 254), (big255_decl tg, 255), (big381_decl tg, 381),
     (bls12_381_fr_decl tg, orderBitwidth BLS12_381), (bls12_381_fp_decl tg, bitwidth BLS12_381),
     (bn254_snarks_fr_decl tg, orderBitwidth BN254_Snarks), (bn254_snarks_fp_decl tg, bitwidth BN254_Snarks),
     (pallas_fr_decl tg, orderBitwidth Pallas), (pallas_fp_decl tg, bitwidth Pallas),
     (vesta_fr_decl tg, orderBitwidth Vesta), (vesta_fp_decl tg, bitwidth Vesta),
     (banderwagon_fr_decl tg, orderBitwidth Banderwagon), (banderwagon_fp_decl tg, bitwidth Banderwagon)]"

lemma bound_bigints_W64: "list_all (\<lambda>(d, b). sd_type d = BigInt W64 b) (bound_bigints W64)"
  by (simp add: bound_bigints_def BigInt_def struct_decl_defs curve_defs pick_simps
      wordsRequired_def W64_def drop_bit_eq_div) (simp add: pick_def)

lemma bound_bigints_W32: "list_all (\<lambda>(d, b). sd_type d = BigInt W32 b) (bound_bigints W32)"
  by (simp add: bound_bigints_def BigInt_def struct_decl_defs curve_defs pick_simps
      wordsRequired_def W32_def drop_bit_eq_div) (simp add: pick_def)

lemma curves_ok: "list_all curve_ok [BN254_Snarks, Banderwagon, Pallas, Vesta, BLS12_381]"
  by (simp add: curve_ok_def has_bits_def curve_defs)

text \<open>C35: every big integer, scalar field and base field struct of the bindings has the number of
  limbs that the Nim library computes from the bit width of the curve, on both targets; that many
  limbs hold the widest value, and one limb less would not. The announced widths are the bit lengths
  of the moduli and orders of the five curves, so every element fits in its struct.\<close>

theorem limb_widths:
  assumes "tg = W64 \<or> tg = W32" "(d, b) \<in> set (bound_bigints tg)"
  shows "sd_type d = BigInt tg b \<and> b \<le> wordsRequired tg b * ptr_bits tg \<and>
    (wordsRequired tg b - 1) * ptr_bits tg < b \<and>
    list_all curve_ok [BN254_Snarks, Banderwagon, Pallas, Vesta, BLS12_381]"
proof -
  have "list_all (\<lambda>(d, b). sd_type d = BigInt tg b) (bound_bigints tg)"
    using assms(1) bound_bigints_W64 bound_bigints_W32 by blast
  then have "sd_type d = BigInt tg b" using assms(2) by (auto simp: list_all_iff)
  moreover have "0 < b" using assms(2) by (auto simp: bound_bigints_def curve_defs)
  ultimately show ?thesis
    using wordsRequired_enough [OF assms(1)] wordsRequired_tight [OF assms(1)] curves_ok by simp
qed

theorem limb_widths_witness:
  "sd_type (bls12_381_fp_decl W32) = BigInt W32 381 \<and> (wordsRequired W32 381 - 1) * 32 < 381"
  using limb_widths [of W32 "bls12_381_fp_decl W32" 381]
  by (simp add: bound_bigints_def curve_defs) (simp add: W32_def)

end
