(* ===== verification/C_Signatures.thy ===== *)
theory C_Signatures
  imports C_Layout
begin

text \<open>
  The signatures of the foreign functions: the Rust declarations of
  \<^verbatim>\<open>constantine-sys/src/bindings64.rs\<close>, the C prototypes that the header generator of the
  library (\<^verbatim>\<open>bindings/c_typedefs.nim\<close>, \<^verbatim>\<open>bindings/macro_curves_bindings.nim\<close>) prints for a
  Nim function, and when a Rust declaration and a C prototype name the same function with the
  same calling convention.
\<close>

section \<open>Rust declarations\<close>

text \<open>
  \<open>Ty\<close> is a type by name (\<open>()\<close> is the absent return type), \<open>ConstPtr\<close> is \<^verbatim>\<open>*const T\<close> and
  \<open>MutPtr\<close> is \<^verbatim>\<open>*mut T\<close>. \<open>RFun\<close> carries whether the declaration has \<^verbatim>\<open>#[must_use]\<close>.
\<close>

datatype rty = Ty string | ConstPtr rty | MutPtr rty

datatype rfun = RFun (rf_must_use: bool) (rf_name: string) (rf_params: "(string \<times> rty) list") (rf_ret: rty)

primrec pointee :: "rty \<Rightarrow> string" where
  "pointee (Ty t) = t"
| "pointee (ConstPtr t) = pointee t"
| "pointee (MutPtr t) = pointee t"

section \<open>Nim functions and the C header generator\<close>

text \<open>
  The parameter types that occur in the binding templates: an object, a \<^verbatim>\<open>var\<close> object,
  \<^verbatim>\<open>openArray[byte]\<close> and \<^verbatim>\<open>var openArray[byte]\<close>, \<^verbatim>\<open>ptr UncheckedArray[T]\<close>, and the
  pass-by-value types of \<^verbatim>\<open>TypeMap\<close>.
\<close>

datatype nty = NObj string | NVar string | NBytes | NVarBytes | NArray string
  | NSecretBool | NCsize | NThreadpool

datatype nfun = NFun (nf_name: string) (nf_params: "(string \<times> nty) list") (nf_ret: string)

text \<open>C types and prototypes; the flag of a pointer is its \<^verbatim>\<open>const\<close>.\<close>

datatype cty = CTy string | CPtrTo bool cty

datatype cfun = CFun (cf_unused_warn: bool) (cf_name: string) (cf_params: "(string \<times> cty) list") (cf_ret: cty)

text \<open>\<^verbatim>\<open>TypeMap\<close>: the C spelling of a type passed by value.\<close>

definition TypeMap :: "string \<Rightarrow> cty option" where
  "TypeMap t = map_of
    [(''bool'', CTy ''ctt_bool''),
     (''SecretBool'', CTy ''secret_bool''),
     (''SecretWord'', CTy ''secret_word''),
     (''csize_t'', CTy ''size_t''),
     (''Threadpool'', CPtrTo True (CTy ''ctt_threadpool''))] t"

definition toCrettype :: "string \<Rightarrow> cty" where
  "toCrettype r = (if r = ''void'' then CTy ''void'' else the (TypeMap r))"

text \<open>\<^verbatim>\<open>toCtrivialParam\<close>: by value if the type is in \<^verbatim>\<open>TypeMap\<close>, by reference otherwise.\<close>

definition toCtrivialParam :: "bool \<Rightarrow> string \<Rightarrow> cty" where
  "toCtrivialParam isVar t =
     (case TypeMap t of
        Some c \<Rightarrow> if isVar then CPtrTo False c else c
      | None \<Rightarrow> CPtrTo (\<not> isVar) (CTy t))"

text \<open>\<^verbatim>\<open>toCparam\<close>: an open array becomes a pointer and a length.\<close>

fun toCparam :: "string \<times> nty \<Rightarrow> (string \<times> cty) list" where
  "toCparam (n, NBytes) = [(n, CPtrTo True (CTy ''byte'')), (n @ ''_len'', CTy ''size_t'')]"
| "toCparam (n, NVarBytes) = [(n, CPtrTo False (CTy ''byte'')), (n @ ''_len'', CTy ''size_t'')]"
| "toCparam (n, NArray t) = [(n, CPtrTo True (case TypeMap t of Some c \<Rightarrow> c | None \<Rightarrow> CTy t))]"
| "toCparam (n, NObj t) = [(n, toCtrivialParam False t)]"
| "toCparam (n, NVar t) = [(n, toCtrivialParam True t)]"
| "toCparam (n, NSecretBool) = [(n, toCtrivialParam False ''SecretBool'')]"
| "toCparam (n, NCsize) = [(n, toCtrivialParam False ''csize_t'')]"
| "toCparam (n, NThreadpool) = [(n, toCtrivialParam False ''Threadpool'')]"

text \<open>The prototype that \<^verbatim>\<open>collectBindings\<close> prints: a result of type \<^verbatim>\<open>bool\<close> must not be ignored.\<close>

definition collect_binding :: "nfun \<Rightarrow> cfun" where
  "collect_binding f =
     CFun (nf_ret f = ''bool'') (nf_name f) (concat (map toCparam (nf_params f))) (toCrettype (nf_ret f))"

section \<open>Agreement of a Rust declaration with a C prototype\<close>

text \<open>The scalar types that the two languages spell differently.\<close>

definition scalar_name :: "string \<Rightarrow> string" where
  "scalar_name t =
     (case map_of [(''size_t'', ''usize''), (''ctt_bool'', ''bool''), (''void'', ''()'')] t of
        Some r \<Rightarrow> r | None \<Rightarrow> t)"

fun same_type :: "cty \<Rightarrow> rty \<Rightarrow> bool" where
  "same_type (CTy t) (Ty r) = (scalar_name t = r)"
| "same_type (CPtrTo True t) (ConstPtr r) = same_type t r"
| "same_type (CPtrTo False t) (MutPtr r) = same_type t r"
| "same_type _ _ = False"

definition same_function :: "cfun \<Rightarrow> rfun \<Rightarrow> bool" where
  "same_function c r \<longleftrightarrow>
     cf_name c = rf_name r \<and> cf_unused_warn c = rf_must_use r \<and>
     map fst (cf_params c) = map fst (rf_params r) \<and>
     list_all2 same_type (map snd (cf_params c)) (map snd (rf_params r)) \<and>
     same_type (cf_ret c) (rf_ret r)"

definition bound_by :: "nfun list \<Rightarrow> rfun list \<Rightarrow> bool" where
  "bound_by ns rs \<longleftrightarrow> list_all2 (\<lambda>n r. same_function (collect_binding n) r) ns rs"

end
