(* ===== verification/Bindings_BLS12_381.thy ===== *)
theory Bindings_BLS12_381
  imports C_Signatures
begin

text \<open>
  The foreign functions of \<^verbatim>\<open>constantine-sys/src/bindings64.rs\<close> for big integers and BLS12-381,
  one list per block of the file. \<^verbatim>\<open>bindings32.rs\<close> declares the same functions.
\<close>

definition big253_fns :: "rfun list" where
  "big253_fns = [
    RFun True ''ctt_big253_unmarshalBE''
      [(''dst'', MutPtr (Ty ''big253'')), (''src'', ConstPtr (Ty ''byte'')), (''src_len'', Ty ''usize'')] (Ty ''bool''),
    RFun True ''ctt_big253_marshalBE''
      [(''dst'', MutPtr (Ty ''byte'')), (''dst_len'', Ty ''usize''), (''src'', ConstPtr (Ty ''big253''))] (Ty ''bool'')]"

definition big254_fns :: "rfun list" where
  "big254_fns = [
    RFun True ''ctt_big254_unmarshalBE''
      [(''dst'', MutPtr (Ty ''big254'')), (''src'', ConstPtr (Ty ''byte'')), (''src_len'', Ty ''usize'')] (Ty ''bool''),
    RFun True ''ctt_big254_marshalBE''
      [(''dst'', MutPtr (Ty ''byte'')), (''dst_len'', Ty ''usize''), (''src'', ConstPtr (Ty ''big254''))] (Ty ''bool'')]"

definition big255_fns :: "rfun list" where
  "big255_fns = [
    RFun True ''ctt_big255_unmarshalBE''
      [(''dst'', MutPtr (Ty ''big255'')), (''src'', ConstPtr (Ty ''byte'')), (''src_len'', Ty ''usize'')] (Ty ''bool''),
    RFun True ''ctt_big255_marshalBE''
      [(''dst'', MutPtr (Ty ''byte'')), (''dst_len'', Ty ''usize''), (''src'', ConstPtr (Ty ''big255''))] (Ty ''bool'')]"

definition big381_fns :: "rfun list" where
  "big381_fns = [
    RFun True ''ctt_big381_unmarshalBE''
      [(''dst'', MutPtr (Ty ''big381'')), (''src'', ConstPtr (Ty ''byte'')), (''src_len'', Ty ''usize'')] (Ty ''bool''),
    RFun True ''ctt_big381_marshalBE''
      [(''dst'', MutPtr (Ty ''byte'')), (''dst_len'', Ty ''usize''), (''src'', ConstPtr (Ty ''big381''))] (Ty ''bool'')]"

definition bls12_381_fr_fns :: "rfun list" where
  "bls12_381_fr_fns = [
    RFun False ''ctt_big255_from_bls12_381_fr''
      [(''dst'', MutPtr (Ty ''big255'')), (''src'', ConstPtr (Ty ''bls12_381_fr''))] (Ty ''()''),
    RFun False ''ctt_bls12_381_fr_from_big255''
      [(''dst'', MutPtr (Ty ''bls12_381_fr'')), (''src'', ConstPtr (Ty ''big255''))] (Ty ''()''),
    RFun True ''ctt_bls12_381_fr_unmarshalBE''
      [(''dst'', MutPtr (Ty ''bls12_381_fr'')), (''src'', ConstPtr (Ty ''byte'')), (''src_len'', Ty ''usize'')] (Ty ''bool''),
    RFun True ''ctt_bls12_381_fr_marshalBE''
      [(''dst'', MutPtr (Ty ''byte'')), (''dst_len'', Ty ''usize''), (''src'', ConstPtr (Ty ''bls12_381_fr''))] (Ty ''bool''),
    RFun False ''ctt_bls12_381_fr_is_eq''
      [(''a'', ConstPtr (Ty ''bls12_381_fr'')), (''b'', ConstPtr (Ty ''bls12_381_fr''))] (Ty ''secret_bool''),
    RFun False ''ctt_bls12_381_fr_is_zero''
      [(''a'', ConstPtr (Ty ''bls12_381_fr''))] (Ty ''secret_bool''),
    RFun False ''ctt_bls12_381_fr_is_one''
      [(''a'', ConstPtr (Ty ''bls12_381_fr''))] (Ty ''secret_bool''),
    RFun False ''ctt_bls12_381_fr_is_minus_one''
      [(''a'', ConstPtr (Ty ''bls12_381_fr''))] (Ty ''secret_bool''),
    RFun False ''ctt_bls12_381_fr_set_zero''
      [(''a'', MutPtr (Ty ''bls12_381_fr''))] (Ty ''()''),
    RFun False ''ctt_bls12_381_fr_set_one''
      [(''a'', MutPtr (Ty ''bls12_381_fr''))] (Ty ''()''),
    RFun False ''ctt_bls12_381_fr_set_minus_one''
      [(''a'', MutPtr (Ty ''bls12_381_fr''))] (Ty ''()''),
    RFun False ''ctt_bls12_381_fr_neg''
      [(''r'', MutPtr (Ty ''bls12_381_fr'')), (''a'', ConstPtr (Ty ''bls12_381_fr''))] (Ty ''()''),
    RFun False ''ctt_bls12_381_fr_neg_in_place''
      [(''a'', MutPtr (Ty ''bls12_381_fr''))] (Ty ''()''),
    RFun False ''ctt_bls12_381_fr_sum''
      [(''r'', MutPtr (Ty ''bls12_381_fr'')), (''a'', ConstPtr (Ty ''bls12_381_fr'')), (''b'', ConstPtr (Ty ''bls12_381_fr''))] (Ty ''()''),
    RFun False ''ctt_bls12_381_fr_add_in_place''
      [(''a'', MutPtr (Ty ''bls12_381_fr'')), (''b'', ConstPtr (Ty ''bls12_381_fr''))] (Ty ''()''),
    RFun False ''ctt_bls12_381_fr_diff''
      [(''r'', MutPtr (Ty ''bls12_381_fr'')), (''a'', ConstPtr (Ty ''bls12_381_fr'')), (''b'', ConstPtr (Ty ''bls12_381_fr''))] (Ty ''()''),
    RFun False ''ctt_bls12_381_fr_sub_in_place''
      [(''a'', MutPtr (Ty ''bls12_381_fr'')), (''b'', ConstPtr (Ty ''bls12_381_fr''))] (Ty ''()''),
    RFun False ''ctt_bls12_381_fr_double''
      [(''r'', MutPtr (Ty ''bls12_381_fr'')), (''a'', ConstPtr (Ty ''bls12_381_fr''))] (Ty ''()''),
    RFun False ''ctt_bls12_381_fr_double_in_place''
      [(''a'', MutPtr (Ty ''bls12_381_fr''))] (Ty ''()''),
    RFun False ''ctt_bls12_381_fr_prod''
      [(''r'', MutPtr (Ty ''bls12_381_fr'')), (''a'', ConstPtr (Ty ''bls12_381_fr'')), (''b'', ConstPtr (Ty ''bls12_381_fr''))] (Ty ''()''),
    RFun False ''ctt_bls12_381_fr_mul_in_place''
      [(''a'', MutPtr (Ty ''bls12_381_fr'')), (''b'', ConstPtr (Ty ''bls12_381_fr''))] (Ty ''()''),
    RFun False ''ctt_bls12_381_fr_square''
      [(''r'', MutPtr (Ty ''bls12_381_fr'')), (''a'', ConstPtr (Ty ''bls12_381_fr''))] (Ty ''()''),
    RFun False ''ctt_bls12_381_fr_square_in_place''
      [(''a'', MutPtr (Ty ''bls12_381_fr''))] (Ty ''()''),
    RFun False ''ctt_bls12_381_fr_div2''
      [(''a'', MutPtr (Ty ''bls12_381_fr''))] (Ty ''()''),
    RFun False ''ctt_bls12_381_fr_inv''
      [(''r'', MutPtr (Ty ''bls12_381_fr'')), (''a'', ConstPtr (Ty ''bls12_381_fr''))] (Ty ''()''),
    RFun False ''ctt_bls12_381_fr_inv_in_place''
      [(''a'', MutPtr (Ty ''bls12_381_fr''))] (Ty ''()''),
    RFun False ''ctt_bls12_381_fr_ccopy''
      [(''a'', MutPtr (Ty ''bls12_381_fr'')), (''b'', ConstPtr (Ty ''bls12_381_fr'')), (''ctl'', Ty ''secret_bool'')] (Ty ''()''),
    RFun False ''ctt_bls12_381_fr_cswap''
      [(''a'', MutPtr (Ty ''bls12_381_fr'')), (''b'', MutPtr (Ty ''bls12_381_fr'')), (''ctl'', Ty ''secret_bool'')] (Ty ''()''),
    RFun False ''ctt_bls12_381_fr_cset_zero''
      [(''a'', MutPtr (Ty ''bls12_381_fr'')), (''ctl'', Ty ''secret_bool'')] (Ty ''()''),
    RFun False ''ctt_bls12_381_fr_cset_one''
      [(''a'', MutPtr (Ty ''bls12_381_fr'')), (''ctl'', Ty ''secret_bool'')] (Ty ''()''),
    RFun False ''ctt_bls12_381_fr_cneg_in_place''
      [(''a'', MutPtr (Ty ''bls12_381_fr'')), (''ctl'', Ty ''secret_bool'')] (Ty ''()''),
    RFun False ''ctt_bls12_381_fr_cadd_in_place''
      [(''a'', MutPtr (Ty ''bls12_381_fr'')), (''b'', ConstPtr (Ty ''bls12_381_fr'')), (''ctl'', Ty ''secret_bool'')] (Ty ''()''),
    RFun False ''ctt_bls12_381_fr_csub_in_place''
      [(''a'', MutPtr (Ty ''bls12_381_fr'')), (''b'', ConstPtr (Ty ''bls12_381_fr'')), (''ctl'', Ty ''secret_bool'')] (Ty ''()'')]"

definition bls12_381_fp_fns :: "rfun list" where
  "bls12_381_fp_fns = [
    RFun False ''ctt_big381_from_bls12_381_fp''
      [(''dst'', MutPtr (Ty ''big381'')), (''src'', ConstPtr (Ty ''bls12_381_fp''))] (Ty ''()''),
    RFun False ''ctt_bls12_381_fp_from_big381''
      [(''dst'', MutPtr (Ty ''bls12_381_fp'')), (''src'', ConstPtr (Ty ''big381''))] (Ty ''()''),
    RFun True ''ctt_bls12_381_fp_unmarshalBE''
      [(''dst'', MutPtr (Ty ''bls12_381_fp'')), (''src'', ConstPtr (Ty ''byte'')), (''src_len'', Ty ''usize'')] (Ty ''bool''),
    RFun True ''ctt_bls12_381_fp_marshalBE''
      [(''dst'', MutPtr (Ty ''byte'')), (''dst_len'', Ty ''usize''), (''src'', ConstPtr (Ty ''bls12_381_fp''))] (Ty ''bool''),
    RFun False ''ctt_bls12_381_fp_is_eq''
      [(''a'', ConstPtr (Ty ''bls12_381_fp'')), (''b'', ConstPtr (Ty ''bls12_381_fp''))] (Ty ''secret_bool''),
    RFun False ''ctt_bls12_381_fp_is_zero''
      [(''a'', ConstPtr (Ty ''bls12_381_fp''))] (Ty ''secret_bool''),
    RFun False ''ctt_bls12_381_fp_is_one''
      [(''a'', ConstPtr (Ty ''bls12_381_fp''))] (Ty ''secret_bool''),
    RFun False ''ctt_bls12_381_fp_is_minus_one''
      [(''a'', ConstPtr (Ty ''bls12_381_fp''))] (Ty ''secret_bool''),
    RFun False ''ctt_bls12_381_fp_set_zero''
      [(''a'', MutPtr (Ty ''bls12_381_fp''))] (Ty ''()''),
    RFun False ''ctt_bls12_381_fp_set_one''
      [(''a'', MutPtr (Ty ''bls12_381_fp''))] (Ty ''()''),
    RFun False ''ctt_bls12_381_fp_set_minus_one''
      [(''a'', MutPtr (Ty ''bls12_381_fp''))] (Ty ''()''),
    RFun False ''ctt_bls12_381_fp_neg''
      [(''r'', MutPtr (Ty ''bls12_381_fp'')), (''a'', ConstPtr (Ty ''bls12_381_fp''))] (Ty ''()''),
    RFun False ''ctt_bls12_381_fp_neg_in_place''
      [(''a'', MutPtr (Ty ''bls12_381_fp''))] (Ty ''()''),
    RFun False ''ctt_bls12_381_fp_sum''
      [(''r'', MutPtr (Ty ''bls12_381_fp'')), (''a'', ConstPtr (Ty ''bls12_381_fp'')), (''b'', ConstPtr (Ty ''bls12_381_fp''))] (Ty ''()''),
    RFun False ''ctt_bls12_381_fp_add_in_place''
      [(''a'', MutPtr (Ty ''bls12_381_fp'')), (''b'', ConstPtr (Ty ''bls12_381_fp''))] (Ty ''()''),
    RFun False ''ctt_bls12_381_fp_diff''
      [(''r'', MutPtr (Ty ''bls12_381_fp'')), (''a'', ConstPtr (Ty ''bls12_381_fp'')), (''b'', ConstPtr (Ty ''bls12_381_fp''))] (Ty ''()''),
    RFun False ''ctt_bls12_381_fp_sub_in_place''
      [(''a'', MutPtr (Ty ''bls12_381_fp'')), (''b'', ConstPtr (Ty ''bls12_381_fp''))] (Ty ''()''),
    RFun False ''ctt_bls12_381_fp_double''
      [(''r'', MutPtr (Ty ''bls12_381_fp'')), (''a'', ConstPtr (Ty ''bls12_381_fp''))] (Ty ''()''),
    RFun False ''ctt_bls12_381_fp_double_in_place''
      [(''a'', MutPtr (Ty ''bls12_381_fp''))] (Ty ''()''),
    RFun False ''ctt_bls12_381_fp_prod''
      [(''r'', MutPtr (Ty ''bls12_381_fp'')), (''a'', ConstPtr (Ty ''bls12_381_fp'')), (''b'', ConstPtr (Ty ''bls12_381_fp''))] (Ty ''()''),
    RFun False ''ctt_bls12_381_fp_mul_in_place''
      [(''a'', MutPtr (Ty ''bls12_381_fp'')), (''b'', ConstPtr (Ty ''bls12_381_fp''))] (Ty ''()''),
    RFun False ''ctt_bls12_381_fp_square''
      [(''r'', MutPtr (Ty ''bls12_381_fp'')), (''a'', ConstPtr (Ty ''bls12_381_fp''))] (Ty ''()''),
    RFun False ''ctt_bls12_381_fp_square_in_place''
      [(''a'', MutPtr (Ty ''bls12_381_fp''))] (Ty ''()''),
    RFun False ''ctt_bls12_381_fp_div2''
      [(''a'', MutPtr (Ty ''bls12_381_fp''))] (Ty ''()''),
    RFun False ''ctt_bls12_381_fp_inv''
      [(''r'', MutPtr (Ty ''bls12_381_fp'')), (''a'', ConstPtr (Ty ''bls12_381_fp''))] (Ty ''()''),
    RFun False ''ctt_bls12_381_fp_inv_in_place''
      [(''a'', MutPtr (Ty ''bls12_381_fp''))] (Ty ''()''),
    RFun False ''ctt_bls12_381_fp_ccopy''
      [(''a'', MutPtr (Ty ''bls12_381_fp'')), (''b'', ConstPtr (Ty ''bls12_381_fp'')), (''ctl'', Ty ''secret_bool'')] (Ty ''()''),
    RFun False ''ctt_bls12_381_fp_cswap''
      [(''a'', MutPtr (Ty ''bls12_381_fp'')), (''b'', MutPtr (Ty ''bls12_381_fp'')), (''ctl'', Ty ''secret_bool'')] (Ty ''()''),
    RFun False ''ctt_bls12_381_fp_cset_zero''
      [(''a'', MutPtr (Ty ''bls12_381_fp'')), (''ctl'', Ty ''secret_bool'')] (Ty ''()''),
    RFun False ''ctt_bls12_381_fp_cset_one''
      [(''a'', MutPtr (Ty ''bls12_381_fp'')), (''ctl'', Ty ''secret_bool'')] (Ty ''()''),
    RFun False ''ctt_bls12_381_fp_cneg_in_place''
      [(''a'', MutPtr (Ty ''bls12_381_fp'')), (''ctl'', Ty ''secret_bool'')] (Ty ''()''),
    RFun False ''ctt_bls12_381_fp_cadd_in_place''
      [(''a'', MutPtr (Ty ''bls12_381_fp'')), (''b'', ConstPtr (Ty ''bls12_381_fp'')), (''ctl'', Ty ''secret_bool'')] (Ty ''()''),
    RFun False ''ctt_bls12_381_fp_csub_in_place''
      [(''a'', MutPtr (Ty ''bls12_381_fp'')), (''b'', ConstPtr (Ty ''bls12_381_fp'')), (''ctl'', Ty ''secret_bool'')] (Ty ''()'')]"

definition bls12_381_fp_sqrt_fns :: "rfun list" where
  "bls12_381_fp_sqrt_fns = [
    RFun False ''ctt_bls12_381_fp_is_square''
      [(''a'', ConstPtr (Ty ''bls12_381_fp''))] (Ty ''secret_bool''),
    RFun False ''ctt_bls12_381_fp_invsqrt''
      [(''r'', MutPtr (Ty ''bls12_381_fp'')), (''a'', ConstPtr (Ty ''bls12_381_fp''))] (Ty ''()''),
    RFun False ''ctt_bls12_381_fp_invsqrt_in_place''
      [(''r'', MutPtr (Ty ''bls12_381_fp'')), (''a'', ConstPtr (Ty ''bls12_381_fp''))] (Ty ''secret_bool''),
    RFun False ''ctt_bls12_381_fp_sqrt_in_place''
      [(''a'', MutPtr (Ty ''bls12_381_fp''))] (Ty ''()''),
    RFun False ''ctt_bls12_381_fp_sqrt_if_square_in_place''
      [(''a'', MutPtr (Ty ''bls12_381_fp''))] (Ty ''secret_bool''),
    RFun False ''ctt_bls12_381_fp_sqrt_invsqrt''
      [(''sqrt'', MutPtr (Ty ''bls12_381_fp'')), (''invsqrt'', MutPtr (Ty ''bls12_381_fp'')), (''a'', ConstPtr (Ty ''bls12_381_fp''))] (Ty ''()''),
    RFun False ''ctt_bls12_381_fp_sqrt_invsqrt_if_square''
      [(''sqrt'', MutPtr (Ty ''bls12_381_fp'')), (''invsqrt'', MutPtr (Ty ''bls12_381_fp'')), (''a'', ConstPtr (Ty ''bls12_381_fp''))] (Ty ''secret_bool''),
    RFun False ''ctt_bls12_381_fp_sqrt_ratio_if_square''
      [(''r'', MutPtr (Ty ''bls12_381_fp'')), (''u'', ConstPtr (Ty ''bls12_381_fp'')), (''v'', ConstPtr (Ty ''bls12_381_fp''))] (Ty ''secret_bool'')]"

definition bls12_381_fp2_fns :: "rfun list" where
  "bls12_381_fp2_fns = [
    RFun False ''ctt_bls12_381_fp2_is_eq''
      [(''a'', ConstPtr (Ty ''bls12_381_fp2'')), (''b'', ConstPtr (Ty ''bls12_381_fp2''))] (Ty ''secret_bool''),
    RFun False ''ctt_bls12_381_fp2_is_zero''
      [(''a'', ConstPtr (Ty ''bls12_381_fp2''))] (Ty ''secret_bool''),
    RFun False ''ctt_bls12_381_fp2_is_one''
      [(''a'', ConstPtr (Ty ''bls12_381_fp2''))] (Ty ''secret_bool''),
    RFun False ''ctt_bls12_381_fp2_is_minus_one''
      [(''a'', ConstPtr (Ty ''bls12_381_fp2''))] (Ty ''secret_bool''),
    RFun False ''ctt_bls12_381_fp2_set_zero''
      [(''a'', MutPtr (Ty ''bls12_381_fp2''))] (Ty ''()''),
    RFun False ''ctt_bls12_381_fp2_set_one''
      [(''a'', MutPtr (Ty ''bls12_381_fp2''))] (Ty ''()''),
    RFun False ''ctt_bls12_381_fp2_set_minus_one''
      [(''a'', MutPtr (Ty ''bls12_381_fp2''))] (Ty ''()''),
    RFun False ''ctt_bls12_381_fp2_neg''
      [(''a'', MutPtr (Ty ''bls12_381_fp2''))] (Ty ''()''),
    RFun False ''ctt_bls12_381_fp2_sum''
      [(''r'', MutPtr (Ty ''bls12_381_fp2'')), (''a'', ConstPtr (Ty ''bls12_381_fp2'')), (''b'', ConstPtr (Ty ''bls12_381_fp2''))] (Ty ''()''),
    RFun False ''ctt_bls12_381_fp2_add_in_place''
      [(''a'', MutPtr (Ty ''bls12_381_fp2'')), (''b'', ConstPtr (Ty ''bls12_381_fp2''))] (Ty ''()''),
    RFun False ''ctt_bls12_381_fp2_diff''
      [(''r'', MutPtr (Ty ''bls12_381_fp2'')), (''a'', ConstPtr (Ty ''bls12_381_fp2'')), (''b'', ConstPtr (Ty ''bls12_381_fp2''))] (Ty ''()''),
    RFun False ''ctt_bls12_381_fp2_sub_in_place''
      [(''a'', MutPtr (Ty ''bls12_381_fp2'')), (''b'', ConstPtr (Ty ''bls12_381_fp2''))] (Ty ''()''),
    RFun False ''ctt_bls12_381_fp2_double''
      [(''r'', MutPtr (Ty ''bls12_381_fp2'')), (''a'', ConstPtr (Ty ''bls12_381_fp2''))] (Ty ''()''),
    RFun False ''ctt_bls12_381_fp2_double_in_place''
      [(''a'', MutPtr (Ty ''bls12_381_fp2''))] (Ty ''()''),
    RFun False ''ctt_bls12_381_fp2_conj''
      [(''r'', MutPtr (Ty ''bls12_381_fp2'')), (''a'', ConstPtr (Ty ''bls12_381_fp2''))] (Ty ''()''),
    RFun False ''ctt_bls12_381_fp2_conj_in_place''
      [(''a'', MutPtr (Ty ''bls12_381_fp2''))] (Ty ''()''),
    RFun False ''ctt_bls12_381_fp2_conjneg''
      [(''r'', MutPtr (Ty ''bls12_381_fp2'')), (''a'', ConstPtr (Ty ''bls12_381_fp2''))] (Ty ''()''),
    RFun False ''ctt_bls12_381_fp2_conjneg_in_place''
      [(''a'', MutPtr (Ty ''bls12_381_fp2''))] (Ty ''()''),
    RFun False ''ctt_bls12_381_fp2_prod''
      [(''r'', MutPtr (Ty ''bls12_381_fp2'')), (''a'', ConstPtr (Ty ''bls12_381_fp2'')), (''b'', ConstPtr (Ty ''bls12_381_fp2''))] (Ty ''()''),
    RFun False ''ctt_bls12_381_fp2_mul_in_place''
      [(''a'', MutPtr (Ty ''bls12_381_fp2'')), (''b'', ConstPtr (Ty ''bls12_381_fp2''))] (Ty ''()''),
    RFun False ''ctt_bls12_381_fp2_square''
      [(''r'', MutPtr (Ty ''bls12_381_fp2'')), (''a'', ConstPtr (Ty ''bls12_381_fp2''))] (Ty ''()''),
    RFun False ''ctt_bls12_381_fp2_square_in_place''
      [(''a'', MutPtr (Ty ''bls12_381_fp2''))] (Ty ''()''),
    RFun False ''ctt_bls12_381_fp2_div2''
      [(''a'', MutPtr (Ty ''bls12_381_fp2''))] (Ty ''()''),
    RFun False ''ctt_bls12_381_fp2_inv''
      [(''r'', MutPtr (Ty ''bls12_381_fp2'')), (''a'', ConstPtr (Ty ''bls12_381_fp2''))] (Ty ''()''),
    RFun False ''ctt_bls12_381_fp2_inv_in_place''
      [(''a'', MutPtr (Ty ''bls12_381_fp2''))] (Ty ''()''),
    RFun False ''ctt_bls12_381_fp2_ccopy''
      [(''a'', MutPtr (Ty ''bls12_381_fp2'')), (''b'', ConstPtr (Ty ''bls12_381_fp2'')), (''ctl'', Ty ''secret_bool'')] (Ty ''()''),
    RFun False ''ctt_bls12_381_fp2_cset_zero''
      [(''a'', MutPtr (Ty ''bls12_381_fp2'')), (''ctl'', Ty ''secret_bool'')] (Ty ''()''),
    RFun False ''ctt_bls12_381_fp2_cset_one''
      [(''a'', MutPtr (Ty ''bls12_381_fp2'')), (''ctl'', Ty ''secret_bool'')] (Ty ''()''),
    RFun False ''ctt_bls12_381_fp2_cneg_in_place''
      [(''a'', MutPtr (Ty ''bls12_381_fp2'')), (''ctl'', Ty ''secret_bool'')] (Ty ''()''),
    RFun False ''ctt_bls12_381_fp2_cadd_in_place''
      [(''a'', MutPtr (Ty ''bls12_381_fp2'')), (''b'', ConstPtr (Ty ''bls12_381_fp2'')), (''ctl'', Ty ''secret_bool'')] (Ty ''()''),
    RFun False ''ctt_bls12_381_fp2_csub_in_place''
      [(''a'', MutPtr (Ty ''bls12_381_fp2'')), (''b'', ConstPtr (Ty ''bls12_381_fp2'')), (''ctl'', Ty ''secret_bool'')] (Ty ''()'')]"

definition bls12_381_fp2_sqrt_fns :: "rfun list" where
  "bls12_381_fp2_sqrt_fns = [
    RFun False ''ctt_bls12_381_fp2_is_square''
      [(''a'', ConstPtr (Ty ''bls12_381_fp2''))] (Ty ''secret_bool''),
    RFun False ''ctt_bls12_381_fp2_sqrt_in_place''
      [(''a'', MutPtr (Ty ''bls12_381_fp2''))] (Ty ''()''),
    RFun False ''ctt_bls12_381_fp2_sqrt_if_square_in_place''
      [(''a'', MutPtr (Ty ''bls12_381_fp2''))] (Ty ''secret_bool'')]"

definition bls12_381_g1_aff_fns :: "rfun list" where
  "bls12_381_g1_aff_fns = [
    RFun False ''ctt_bls12_381_g1_aff_is_eq''
      [(''P'', ConstPtr (Ty ''bls12_381_g1_aff'')), (''Q'', ConstPtr (Ty ''bls12_381_g1_aff''))] (Ty ''secret_bool''),
    RFun False ''ctt_bls12_381_g1_aff_is_neutral''
      [(''P'', ConstPtr (Ty ''bls12_381_g1_aff''))] (Ty ''secret_bool''),
    RFun False ''ctt_bls12_381_g1_aff_set_neutral''
      [(''P'', MutPtr (Ty ''bls12_381_g1_aff''))] (Ty ''()''),
    RFun False ''ctt_bls12_381_g1_aff_ccopy''
      [(''P'', MutPtr (Ty ''bls12_381_g1_aff'')), (''Q'', ConstPtr (Ty ''bls12_381_g1_aff'')), (''ctl'', Ty ''secret_bool'')] (Ty ''()''),
    RFun False ''ctt_bls12_381_g1_aff_is_on_curve''
      [(''x'', ConstPtr (Ty ''bls12_381_fp'')), (''y'', ConstPtr (Ty ''bls12_381_fp''))] (Ty ''secret_bool''),
    RFun False ''ctt_bls12_381_g1_aff_neg''
      [(''P'', MutPtr (Ty ''bls12_381_g1_aff'')), (''Q'', ConstPtr (Ty ''bls12_381_g1_aff''))] (Ty ''()''),
    RFun False ''ctt_bls12_381_g1_aff_neg_in_place''
      [(''P'', MutPtr (Ty ''bls12_381_g1_aff''))] (Ty ''()'')]"

definition bls12_381_g1_jac_fns :: "rfun list" where
  "bls12_381_g1_jac_fns = [
    RFun False ''ctt_bls12_381_g1_jac_is_eq''
      [(''P'', ConstPtr (Ty ''bls12_381_g1_jac'')), (''Q'', ConstPtr (Ty ''bls12_381_g1_jac''))] (Ty ''secret_bool''),
    RFun False ''ctt_bls12_381_g1_jac_is_neutral''
      [(''P'', ConstPtr (Ty ''bls12_381_g1_jac''))] (Ty ''secret_bool''),
    RFun False ''ctt_bls12_381_g1_jac_set_neutral''
      [(''P'', MutPtr (Ty ''bls12_381_g1_jac''))] (Ty ''()''),
    RFun False ''ctt_bls12_381_g1_jac_ccopy''
      [(''P'', MutPtr (Ty ''bls12_381_g1_jac'')), (''Q'', ConstPtr (Ty ''bls12_381_g1_jac'')), (''ctl'', Ty ''secret_bool'')] (Ty ''()''),
    RFun False ''ctt_bls12_381_g1_jac_neg''
      [(''P'', MutPtr (Ty ''bls12_381_g1_jac'')), (''Q'', ConstPtr (Ty ''bls12_381_g1_jac''))] (Ty ''()''),
    RFun False ''ctt_bls12_381_g1_jac_neg_in_place''
      [(''P'', MutPtr (Ty ''bls12_381_g1_jac''))] (Ty ''()''),
    RFun False ''ctt_bls12_381_g1_jac_cneg_in_place''
      [(''P'', MutPtr (Ty ''bls12_381_g1_jac'')), (''ctl'', Ty ''secret_bool'')] (Ty ''()''),
    RFun False ''ctt_bls12_381_g1_jac_sum''
      [(''r'', MutPtr (Ty ''bls12_381_g1_jac'')), (''P'', ConstPtr (Ty ''bls12_381_g1_jac'')), (''Q'', ConstPtr (Ty ''bls12_381_g1_jac''))] (Ty ''()''),
    RFun False ''ctt_bls12_381_g1_jac_add_in_place''
      [(''P'', MutPtr (Ty ''bls12_381_g1_jac'')), (''Q'', ConstPtr (Ty ''bls12_381_g1_jac''))] (Ty ''()''),
    RFun False ''ctt_bls12_381_g1_jac_diff''
      [(''r'', MutPtr (Ty ''bls12_381_g1_jac'')), (''P'', ConstPtr (Ty ''bls12_381_g1_jac'')), (''Q'', ConstPtr (Ty ''bls12_381_g1_jac''))] (Ty ''()''),
    RFun False ''ctt_bls12_381_g1_jac_double''
      [(''r'', MutPtr (Ty ''bls12_381_g1_jac'')), (''P'', ConstPtr (Ty ''bls12_381_g1_jac''))] (Ty ''()''),
    RFun False ''ctt_bls12_381_g1_jac_double_in_place''
      [(''P'', MutPtr (Ty ''bls12_381_g1_jac''))] (Ty ''()''),
    RFun False ''ctt_bls12_381_g1_jac_affine''
      [(''dst'', MutPtr (Ty ''bls12_381_g1_aff'')), (''src'', ConstPtr (Ty ''bls12_381_g1_jac''))] (Ty ''()''),
    RFun False ''ctt_bls12_381_g1_jac_from_affine''
      [(''dst'', MutPtr (Ty ''bls12_381_g1_jac'')), (''src'', ConstPtr (Ty ''bls12_381_g1_aff''))] (Ty ''()''),
    RFun False ''ctt_bls12_381_g1_jac_batch_affine''
      [(''dst'', ConstPtr (Ty ''bls12_381_g1_aff'')), (''src'', ConstPtr (Ty ''bls12_381_g1_jac'')), (''n'', Ty ''usize'')] (Ty ''()''),
    RFun False ''ctt_bls12_381_g1_jac_scalar_mul_big_coef''
      [(''P'', MutPtr (Ty ''bls12_381_g1_jac'')), (''scalar'', ConstPtr (Ty ''big255''))] (Ty ''()''),
    RFun False ''ctt_bls12_381_g1_jac_scalar_mul_fr_coef''
      [(''P'', MutPtr (Ty ''bls12_381_g1_jac'')), (''scalar'', ConstPtr (Ty ''bls12_381_fr''))] (Ty ''()''),
    RFun False ''ctt_bls12_381_g1_jac_scalar_mul_big_coef_vartime''
      [(''P'', MutPtr (Ty ''bls12_381_g1_jac'')), (''scalar'', ConstPtr (Ty ''big255''))] (Ty ''()''),
    RFun False ''ctt_bls12_381_g1_jac_scalar_mul_fr_coef_vartime''
      [(''P'', MutPtr (Ty ''bls12_381_g1_jac'')), (''scalar'', ConstPtr (Ty ''bls12_381_fr''))] (Ty ''()''),
    RFun False ''ctt_bls12_381_g1_jac_multi_scalar_mul_big_coefs_vartime''
      [(''r'', MutPtr (Ty ''bls12_381_g1_jac'')), (''coefs'', ConstPtr (Ty ''big255'')), (''points'', ConstPtr (Ty ''bls12_381_g1_aff'')), (''len'', Ty ''usize'')] (Ty ''()''),
    RFun False ''ctt_bls12_381_g1_jac_multi_scalar_mul_fr_coefs_vartime''
      [(''r'', MutPtr (Ty ''bls12_381_g1_jac'')), (''coefs'', ConstPtr (Ty ''bls12_381_fr'')), (''points'', ConstPtr (Ty ''bls12_381_g1_aff'')), (''len'', Ty ''usize'')] (Ty ''()'')]"

definition bls12_381_g1_prj_fns :: "rfun list" where
  "bls12_381_g1_prj_fns = [
    RFun False ''ctt_bls12_381_g1_prj_is_eq''
      [(''P'', ConstPtr (Ty ''bls12_381_g1_prj'')), (''Q'', ConstPtr (Ty ''bls12_381_g1_prj''))] (Ty ''secret_bool''),
    RFun False ''ctt_bls12_381_g1_prj_is_neutral''
      [(''P'', ConstPtr (Ty ''bls12_381_g1_prj''))] (Ty ''secret_bool''),
    RFun False ''ctt_bls12_381_g1_prj_set_neutral''
      [(''P'', MutPtr (Ty ''bls12_381_g1_prj''))] (Ty ''()''),
    RFun False ''ctt_bls12_381_g1_prj_ccopy''
      [(''P'', MutPtr (Ty ''bls12_381_g1_prj'')), (''Q'', ConstPtr (Ty ''bls12_381_g1_prj'')), (''ctl'', Ty ''secret_bool'')] (Ty ''()''),
    RFun False ''ctt_bls12_381_g1_prj_neg''
      [(''P'', MutPtr (Ty ''bls12_381_g1_prj'')), (''Q'', ConstPtr (Ty ''bls12_381_g1_prj''))] (Ty ''()''),
    RFun False ''ctt_bls12_381_g1_prj_neg_in_place''
      [(''P'', MutPtr (Ty ''bls12_381_g1_prj''))] (Ty ''()''),
    RFun False ''ctt_bls12_381_g1_prj_cneg_in_place''
      [(''P'', MutPtr (Ty ''bls12_381_g1_prj'')), (''ctl'', Ty ''secret_bool'')] (Ty ''()''),
    RFun False ''ctt_bls12_381_g1_prj_sum''
      [(''r'', MutPtr (Ty ''bls12_381_g1_prj'')), (''P'', ConstPtr (Ty ''bls12_381_g1_prj'')), (''Q'', ConstPtr (Ty ''bls12_381_g1_prj''))] (Ty ''()''),
    RFun False ''ctt_bls12_381_g1_prj_add_in_place''
      [(''P'', MutPtr (Ty ''bls12_381_g1_prj'')), (''Q'', ConstPtr (Ty ''bls12_381_g1_prj''))] (Ty ''()''),
    RFun False ''ctt_bls12_381_g1_prj_diff''
      [(''r'', MutPtr (Ty ''bls12_381_g1_prj'')), (''P'', ConstPtr (Ty ''bls12_381_g1_prj'')), (''Q'', ConstPtr (Ty ''bls12_381_g1_prj''))] (Ty ''()''),
    RFun False ''ctt_bls12_381_g1_prj_double''
      [(''r'', MutPtr (Ty ''bls12_381_g1_prj'')), (''P'', ConstPtr (Ty ''bls12_381_g1_prj''))] (Ty ''()''),
    RFun False ''ctt_bls12_381_g1_prj_double_in_place''
      [(''P'', MutPtr (Ty ''bls12_381_g1_prj''))] (Ty ''()''),
    RFun False ''ctt_bls12_381_g1_prj_affine''
      [(''dst'', MutPtr (Ty ''bls12_381_g1_aff'')), (''src'', ConstPtr (Ty ''bls12_381_g1_prj''))] (Ty ''()''),
    RFun False ''ctt_bls12_381_g1_prj_from_affine''
      [(''dst'', MutPtr (Ty ''bls12_381_g1_prj'')), (''src'', ConstPtr (Ty ''bls12_381_g1_aff''))] (Ty ''()''),
    RFun False ''ctt_bls12_381_g1_prj_batch_affine''
      [(''dst'', ConstPtr (Ty ''bls12_381_g1_aff'')), (''src'', ConstPtr (Ty ''bls12_381_g1_prj'')), (''n'', Ty ''usize'')] (Ty ''()''),
    RFun False ''ctt_bls12_381_g1_prj_scalar_mul_big_coef''
      [(''P'', MutPtr (Ty ''bls12_381_g1_prj'')), (''scalar'', ConstPtr (Ty ''big255''))] (Ty ''()''),
    RFun False ''ctt_bls12_381_g1_prj_scalar_mul_fr_coef''
      [(''P'', MutPtr (Ty ''bls12_381_g1_prj'')), (''scalar'', ConstPtr (Ty ''bls12_381_fr''))] (Ty ''()''),
    RFun False ''ctt_bls12_381_g1_prj_scalar_mul_big_coef_vartime''
      [(''P'', MutPtr (Ty ''bls12_381_g1_prj'')), (''scalar'', ConstPtr (Ty ''big255''))] (Ty ''()''),
    RFun False ''ctt_bls12_381_g1_prj_scalar_mul_fr_coef_vartime''
      [(''P'', MutPtr (Ty ''bls12_381_g1_prj'')), (''scalar'', ConstPtr (Ty ''bls12_381_fr''))] (Ty ''()''),
    RFun False ''ctt_bls12_381_g1_prj_multi_scalar_mul_big_coefs_vartime''
      [(''r'', MutPtr (Ty ''bls12_381_g1_prj'')), (''coefs'', ConstPtr (Ty ''big255'')), (''points'', ConstPtr (Ty ''bls12_381_g1_aff'')), (''len'', Ty ''usize'')] (Ty ''()''),
    RFun False ''ctt_bls12_381_g1_prj_multi_scalar_mul_fr_coefs_vartime''
      [(''r'', MutPtr (Ty ''bls12_381_g1_prj'')), (''coefs'', ConstPtr (Ty ''bls12_381_fr'')), (''points'', ConstPtr (Ty ''bls12_381_g1_aff'')), (''len'', Ty ''usize'')] (Ty ''()'')]"

definition bls12_381_g2_aff_fns :: "rfun list" where
  "bls12_381_g2_aff_fns = [
    RFun False ''ctt_bls12_381_g2_aff_is_eq''
      [(''P'', ConstPtr (Ty ''bls12_381_g2_aff'')), (''Q'', ConstPtr (Ty ''bls12_381_g2_aff''))] (Ty ''secret_bool''),
    RFun False ''ctt_bls12_381_g2_aff_is_neutral''
      [(''P'', ConstPtr (Ty ''bls12_381_g2_aff''))] (Ty ''secret_bool''),
    RFun False ''ctt_bls12_381_g2_aff_set_neutral''
      [(''P'', MutPtr (Ty ''bls12_381_g2_aff''))] (Ty ''()''),
    RFun False ''ctt_bls12_381_g2_aff_ccopy''
      [(''P'', MutPtr (Ty ''bls12_381_g2_aff'')), (''Q'', ConstPtr (Ty ''bls12_381_g2_aff'')), (''ctl'', Ty ''secret_bool'')] (Ty ''()''),
    RFun False ''ctt_bls12_381_g2_aff_is_on_curve''
      [(''x'', ConstPtr (Ty ''bls12_381_fp2'')), (''y'', ConstPtr (Ty ''bls12_381_fp2''))] (Ty ''secret_bool''),
    RFun False ''ctt_bls12_381_g2_aff_neg''
      [(''P'', MutPtr (Ty ''bls12_381_g2_aff'')), (''Q'', ConstPtr (Ty ''bls12_381_g2_aff''))] (Ty ''()''),
    RFun False ''ctt_bls12_381_g2_aff_neg_in_place''
      [(''P'', MutPtr (Ty ''bls12_381_g2_aff''))] (Ty ''()'')]"

definition bls12_381_g2_jac_fns :: "rfun list" where
  "bls12_381_g2_jac_fns = [
    RFun False ''ctt_bls12_381_g2_jac_is_eq''
      [(''P'', ConstPtr (Ty ''bls12_381_g2_jac'')), (''Q'', ConstPtr (Ty ''bls12_381_g2_jac''))] (Ty ''secret_bool''),
    RFun False ''ctt_bls12_381_g2_jac_is_neutral''
      [(''P'', ConstPtr (Ty ''bls12_381_g2_jac''))] (Ty ''secret_bool''),
    RFun False ''ctt_bls12_381_g2_jac_set_neutral''
      [(''P'', MutPtr (Ty ''bls12_381_g2_jac''))] (Ty ''()''),
    RFun False ''ctt_bls12_381_g2_jac_ccopy''
      [(''P'', MutPtr (Ty ''bls12_381_g2_jac'')), (''Q'', ConstPtr (Ty ''bls12_381_g2_jac'')), (''ctl'', Ty ''secret_bool'')] (Ty ''()''),
    RFun False ''ctt_bls12_381_g2_jac_neg''
      [(''P'', MutPtr (Ty ''bls12_381_g2_jac'')), (''Q'', ConstPtr (Ty ''bls12_381_g2_jac''))] (Ty ''()''),
    RFun False ''ctt_bls12_381_g2_jac_neg_in_place''
      [(''P'', MutPtr (Ty ''bls12_381_g2_jac''))] (Ty ''()''),
    RFun False ''ctt_bls12_381_g2_jac_cneg_in_place''
      [(''P'', MutPtr (Ty ''bls12_381_g2_jac'')), (''ctl'', Ty ''secret_bool'')] (Ty ''()''),
    RFun False ''ctt_bls12_381_g2_jac_sum''
      [(''r'', MutPtr (Ty ''bls12_381_g2_jac'')), (''P'', ConstPtr (Ty ''bls12_381_g2_jac'')), (''Q'', ConstPtr (Ty ''bls12_381_g2_jac''))] (Ty ''()''),
    RFun False ''ctt_bls12_381_g2_jac_add_in_place''
      [(''P'', MutPtr (Ty ''bls12_381_g2_jac'')), (''Q'', ConstPtr (Ty ''bls12_381_g2_jac''))] (Ty ''()''),
    RFun False ''ctt_bls12_381_g2_jac_diff''
      [(''r'', MutPtr (Ty ''bls12_381_g2_jac'')), (''P'', ConstPtr (Ty ''bls12_381_g2_jac'')), (''Q'', ConstPtr (Ty ''bls12_381_g2_jac''))] (Ty ''()''),
    RFun False ''ctt_bls12_381_g2_jac_double''
      [(''r'', MutPtr (Ty ''bls12_381_g2_jac'')), (''P'', ConstPtr (Ty ''bls12_381_g2_jac''))] (Ty ''()''),
    RFun False ''ctt_bls12_381_g2_jac_double_in_place''
      [(''P'', MutPtr (Ty ''bls12_381_g2_jac''))] (Ty ''()''),
    RFun False ''ctt_bls12_381_g2_jac_affine''
      [(''dst'', MutPtr (Ty ''bls12_381_g2_aff'')), (''src'', ConstPtr (Ty ''bls12_381_g2_jac''))] (Ty ''()''),
    RFun False ''ctt_bls12_381_g2_jac_from_affine''
      [(''dst'', MutPtr (Ty ''bls12_381_g2_jac'')), (''src'', ConstPtr (Ty ''bls12_381_g2_aff''))] (Ty ''()''),
    RFun False ''ctt_bls12_381_g2_jac_batch_affine''
      [(''dst'', ConstPtr (Ty ''bls12_381_g2_aff'')), (''src'', ConstPtr (Ty ''bls12_381_g2_jac'')), (''n'', Ty ''usize'')] (Ty ''()''),
    RFun False ''ctt_bls12_381_g2_jac_scalar_mul_big_coef''
      [(''P'', MutPtr (Ty ''bls12_381_g2_jac'')), (''scalar'', ConstPtr (Ty ''big255''))] (Ty ''()''),
    RFun False ''ctt_bls12_381_g2_jac_scalar_mul_fr_coef''
      [(''P'', MutPtr (Ty ''bls12_381_g2_jac'')), (''scalar'', ConstPtr (Ty ''bls12_381_fr''))] (Ty ''()''),
    RFun False ''ctt_bls12_381_g2_jac_scalar_mul_big_coef_vartime''
      [(''P'', MutPtr (Ty ''bls12_381_g2_jac'')), (''scalar'', ConstPtr (Ty ''big255''))] (Ty ''()''),
    RFun False ''ctt_bls12_381_g2_jac_scalar_mul_fr_coef_vartime''
      [(''P'', MutPtr (Ty ''bls12_381_g2_jac'')), (''scalar'', ConstPtr (Ty ''bls12_381_fr''))] (Ty ''()''),
    RFun False ''ctt_bls12_381_g2_jac_multi_scalar_mul_big_coefs_vartime''
      [(''r'', MutPtr (Ty ''bls12_381_g2_jac'')), (''coefs'', ConstPtr (Ty ''big255'')), (''points'', ConstPtr (Ty ''bls12_381_g2_aff'')), (''len'', Ty ''usize'')] (Ty ''()''),
    RFun False ''ctt_bls12_381_g2_jac_multi_scalar_mul_fr_coefs_vartime''
      [(''r'', MutPtr (Ty ''bls12_381_g2_jac'')), (''coefs'', ConstPtr (Ty ''bls12_381_fr'')), (''points'', ConstPtr (Ty ''bls12_381_g2_aff'')), (''len'', Ty ''usize'')] (Ty ''()'')]"

definition bls12_381_g2_prj_fns :: "rfun list" where
  "bls12_381_g2_prj_fns = [
    RFun False ''ctt_bls12_381_g2_prj_is_eq''
      [(''P'', ConstPtr (Ty ''bls12_381_g2_prj'')), (''Q'', ConstPtr (Ty ''bls12_381_g2_prj''))] (Ty ''secret_bool''),
    RFun False ''ctt_bls12_381_g2_prj_is_neutral''
      [(''P'', ConstPtr (Ty ''bls12_381_g2_prj''))] (Ty ''secret_bool''),
    RFun False ''ctt_bls12_381_g2_prj_set_neutral''
      [(''P'', MutPtr (Ty ''bls12_381_g2_prj''))] (Ty ''()''),
    RFun False ''ctt_bls12_381_g2_prj_ccopy''
      [(''P'', MutPtr (Ty ''bls12_381_g2_prj'')), (''Q'', ConstPtr (Ty ''bls12_381_g2_prj'')), (''ctl'', Ty ''secret_bool'')] (Ty ''()''),
    RFun False ''ctt_bls12_381_g2_prj_neg''
      [(''P'', MutPtr (Ty ''bls12_381_g2_prj'')), (''Q'', ConstPtr (Ty ''bls12_381_g2_prj''))] (Ty ''()''),
    RFun False ''ctt_bls12_381_g2_prj_neg_in_place''
      [(''P'', MutPtr (Ty ''bls12_381_g2_prj''))] (Ty ''()''),
    RFun False ''ctt_bls12_381_g2_prj_cneg_in_place''
      [(''P'', MutPtr (Ty ''bls12_381_g2_prj'')), (''ctl'', Ty ''secret_bool'')] (Ty ''()''),
    RFun False ''ctt_bls12_381_g2_prj_sum''
      [(''r'', MutPtr (Ty ''bls12_381_g2_prj'')), (''P'', ConstPtr (Ty ''bls12_381_g2_prj'')), (''Q'', ConstPtr (Ty ''bls12_381_g2_prj''))] (Ty ''()''),
    RFun False ''ctt_bls12_381_g2_prj_add_in_place''
      [(''P'', MutPtr (Ty ''bls12_381_g2_prj'')), (''Q'', ConstPtr (Ty ''bls12_381_g2_prj''))] (Ty ''()''),
    RFun False ''ctt_bls12_381_g2_prj_diff''
      [(''r'', MutPtr (Ty ''bls12_381_g2_prj'')), (''P'', ConstPtr (Ty ''bls12_381_g2_prj'')), (''Q'', ConstPtr (Ty ''bls12_381_g2_prj''))] (Ty ''()''),
    RFun False ''ctt_bls12_381_g2_prj_double''
      [(''r'', MutPtr (Ty ''bls12_381_g2_prj'')), (''P'', ConstPtr (Ty ''bls12_381_g2_prj''))] (Ty ''()''),
    RFun False ''ctt_bls12_381_g2_prj_double_in_place''
      [(''P'', MutPtr (Ty ''bls12_381_g2_prj''))] (Ty ''()''),
    RFun False ''ctt_bls12_381_g2_prj_affine''
      [(''dst'', MutPtr (Ty ''bls12_381_g2_aff'')), (''src'', ConstPtr (Ty ''bls12_381_g2_prj''))] (Ty ''()''),
    RFun False ''ctt_bls12_381_g2_prj_from_affine''
      [(''dst'', MutPtr (Ty ''bls12_381_g2_prj'')), (''src'', ConstPtr (Ty ''bls12_381_g2_aff''))] (Ty ''()''),
    RFun False ''ctt_bls12_381_g2_prj_batch_affine''
      [(''dst'', ConstPtr (Ty ''bls12_381_g2_aff'')), (''src'', ConstPtr (Ty ''bls12_381_g2_prj'')), (''n'', Ty ''usize'')] (Ty ''()''),
    RFun False ''ctt_bls12_381_g2_prj_scalar_mul_big_coef''
      [(''P'', MutPtr (Ty ''bls12_381_g2_prj'')), (''scalar'', ConstPtr (Ty ''big255''))] (Ty ''()''),
    RFun False ''ctt_bls12_381_g2_prj_scalar_mul_fr_coef''
      [(''P'', MutPtr (Ty ''bls12_381_g2_prj'')), (''scalar'', ConstPtr (Ty ''bls12_381_fr''))] (Ty ''()''),
    RFun False ''ctt_bls12_381_g2_prj_scalar_mul_big_coef_vartime''
      [(''P'', MutPtr (Ty ''bls12_381_g2_prj'')), (''scalar'', ConstPtr (Ty ''big255''))] (Ty ''()''),
    RFun False ''ctt_bls12_381_g2_prj_scalar_mul_fr_coef_vartime''
      [(''P'', MutPtr (Ty ''bls12_381_g2_prj'')), (''scalar'', ConstPtr (Ty ''bls12_381_fr''))] (Ty ''()''),
    RFun False ''ctt_bls12_381_g2_prj_multi_scalar_mul_big_coefs_vartime''
      [(''r'', MutPtr (Ty ''bls12_381_g2_prj'')), (''coefs'', ConstPtr (Ty ''big255'')), (''points'', ConstPtr (Ty ''bls12_381_g2_aff'')), (''len'', Ty ''usize'')] (Ty ''()''),
    RFun False ''ctt_bls12_381_g2_prj_multi_scalar_mul_fr_coefs_vartime''
      [(''r'', MutPtr (Ty ''bls12_381_g2_prj'')), (''coefs'', ConstPtr (Ty ''bls12_381_fr'')), (''points'', ConstPtr (Ty ''bls12_381_g2_aff'')), (''len'', Ty ''usize'')] (Ty ''()'')]"

definition bls12_381_g1_aff_hash_fns :: "rfun list" where
  "bls12_381_g1_aff_hash_fns = [
    RFun False ''ctt_bls12_381_g1_aff_sswu_sha256''
      [(''r'', MutPtr (Ty ''bls12_381_g1_aff'')), (''augmentation'', ConstPtr (Ty ''byte'')), (''augmentation_len'', Ty ''usize''), (''message'', ConstPtr (Ty ''byte'')), (''message_len'', Ty ''usize''), (''domainSepTag'', ConstPtr (Ty ''byte'')), (''domainSepTag_len'', Ty ''usize'')] (Ty ''()'')]"

definition bls12_381_g1_jac_hash_fns :: "rfun list" where
  "bls12_381_g1_jac_hash_fns = [
    RFun False ''ctt_bls12_381_g1_jac_sswu_sha256''
      [(''r'', MutPtr (Ty ''bls12_381_g1_jac'')), (''augmentation'', ConstPtr (Ty ''byte'')), (''augmentation_len'', Ty ''usize''), (''message'', ConstPtr (Ty ''byte'')), (''message_len'', Ty ''usize''), (''domainSepTag'', ConstPtr (Ty ''byte'')), (''domainSepTag_len'', Ty ''usize'')] (Ty ''()'')]"

definition bls12_381_g1_prj_hash_fns :: "rfun list" where
  "bls12_381_g1_prj_hash_fns = [
    RFun False ''ctt_bls12_381_g1_prj_sswu_sha256''
      [(''r'', MutPtr (Ty ''bls12_381_g1_prj'')), (''augmentation'', ConstPtr (Ty ''byte'')), (''augmentation_len'', Ty ''usize''), (''message'', ConstPtr (Ty ''byte'')), (''message_len'', Ty ''usize''), (''domainSepTag'', ConstPtr (Ty ''byte'')), (''domainSepTag_len'', Ty ''usize'')] (Ty ''()'')]"

definition bls12_381_g2_aff_hash_fns :: "rfun list" where
  "bls12_381_g2_aff_hash_fns = [
    RFun False ''ctt_bls12_381_g2_aff_sswu_sha256''
      [(''r'', MutPtr (Ty ''bls12_381_g2_aff'')), (''augmentation'', ConstPtr (Ty ''byte'')), (''augmentation_len'', Ty ''usize''), (''message'', ConstPtr (Ty ''byte'')), (''message_len'', Ty ''usize''), (''domainSepTag'', ConstPtr (Ty ''byte'')), (''domainSepTag_len'', Ty ''usize'')] (Ty ''()'')]"

definition bls12_381_g2_jac_hash_fns :: "rfun list" where
  "bls12_381_g2_jac_hash_fns = [
    RFun False ''ctt_bls12_381_g2_jac_sswu_sha256''
      [(''r'', MutPtr (Ty ''bls12_381_g2_jac'')), (''augmentation'', ConstPtr (Ty ''byte'')), (''augmentation_len'', Ty ''usize''), (''message'', ConstPtr (Ty ''byte'')), (''message_len'', Ty ''usize''), (''domainSepTag'', ConstPtr (Ty ''byte'')), (''domainSepTag_len'', Ty ''usize'')] (Ty ''()'')]"

definition bls12_381_g2_prj_hash_fns :: "rfun list" where
  "bls12_381_g2_prj_hash_fns = [
    RFun False ''ctt_bls12_381_g2_prj_sswu_sha256''
      [(''r'', MutPtr (Ty ''bls12_381_g2_prj'')), (''augmentation'', ConstPtr (Ty ''byte'')), (''augmentation_len'', Ty ''usize''), (''message'', ConstPtr (Ty ''byte'')), (''message_len'', Ty ''usize''), (''domainSepTag'', ConstPtr (Ty ''byte'')), (''domainSepTag_len'', Ty ''usize'')] (Ty ''()'')]"

definition bls12_381_g1_jac_parallel_fns :: "rfun list" where
  "bls12_381_g1_jac_parallel_fns = [
    RFun False ''ctt_bls12_381_g1_jac_multi_scalar_mul_big_coefs_vartime_parallel''
      [(''tp'', ConstPtr (Ty ''ctt_threadpool'')), (''r'', MutPtr (Ty ''bls12_381_g1_jac'')), (''coefs'', ConstPtr (Ty ''big255'')), (''points'', ConstPtr (Ty ''bls12_381_g1_aff'')), (''len'', Ty ''usize'')] (Ty ''()''),
    RFun False ''ctt_bls12_381_g1_jac_multi_scalar_mul_fr_coefs_vartime_parallel''
      [(''tp'', ConstPtr (Ty ''ctt_threadpool'')), (''r'', MutPtr (Ty ''bls12_381_g1_jac'')), (''coefs'', ConstPtr (Ty ''bls12_381_fr'')), (''points'', ConstPtr (Ty ''bls12_381_g1_aff'')), (''len'', Ty ''usize'')] (Ty ''()'')]"

definition bls12_381_g1_prj_parallel_fns :: "rfun list" where
  "bls12_381_g1_prj_parallel_fns = [
    RFun False ''ctt_bls12_381_g1_prj_multi_scalar_mul_big_coefs_vartime_parallel''
      [(''tp'', ConstPtr (Ty ''ctt_threadpool'')), (''r'', MutPtr (Ty ''bls12_381_g1_prj'')), (''coefs'', ConstPtr (Ty ''big255'')), (''points'', ConstPtr (Ty ''bls12_381_g1_aff'')), (''len'', Ty ''usize'')] (Ty ''()''),
    RFun False ''ctt_bls12_381_g1_prj_multi_scalar_mul_fr_coefs_vartime_parallel''
      [(''tp'', ConstPtr (Ty ''ctt_threadpool'')), (''r'', MutPtr (Ty ''bls12_381_g1_prj'')), (''coefs'', ConstPtr (Ty ''bls12_381_fr'')), (''points'', ConstPtr (Ty ''bls12_381_g1_aff'')), (''len'', Ty ''usize'')] (Ty ''()'')]"

end
