(* ===== verification/Bindings_BN254.thy ===== *)
theory Bindings_BN254
  imports C_Signatures
begin

text \<open>
  The foreign functions of \<^verbatim>\<open>constantine-sys/src/bindings64.rs\<close> for BN254-Snarks,
  one list per block of the file. \<^verbatim>\<open>bindings32.rs\<close> declares the same functions.
\<close>

definition bn254_snarks_fr_fns :: "rfun list" where
  "bn254_snarks_fr_fns = [
    RFun False ''ctt_big254_from_bn254_snarks_fr''
      [(''dst'', MutPtr (Ty ''big254'')), (''src'', ConstPtr (Ty ''bn254_snarks_fr''))] (Ty ''()''),
    RFun False ''ctt_bn254_snarks_fr_from_big254''
      [(''dst'', MutPtr (Ty ''bn254_snarks_fr'')), (''src'', ConstPtr (Ty ''big254''))] (Ty ''()''),
    RFun True ''ctt_bn254_snarks_fr_unmarshalBE''
      [(''dst'', MutPtr (Ty ''bn254_snarks_fr'')), (''src'', ConstPtr (Ty ''byte'')), (''src_len'', Ty ''usize'')] (Ty ''bool''),
    RFun True ''ctt_bn254_snarks_fr_marshalBE''
      [(''dst'', MutPtr (Ty ''byte'')), (''dst_len'', Ty ''usize''), (''src'', ConstPtr (Ty ''bn254_snarks_fr''))] (Ty ''bool''),
    RFun False ''ctt_bn254_snarks_fr_is_eq''
      [(''a'', ConstPtr (Ty ''bn254_snarks_fr'')), (''b'', ConstPtr (Ty ''bn254_snarks_fr''))] (Ty ''secret_bool''),
    RFun False ''ctt_bn254_snarks_fr_is_zero''
      [(''a'', ConstPtr (Ty ''bn254_snarks_fr''))] (Ty ''secret_bool''),
    RFun False ''ctt_bn254_snarks_fr_is_one''
      [(''a'', ConstPtr (Ty ''bn254_snarks_fr''))] (Ty ''secret_bool''),
    RFun False ''ctt_bn254_snarks_fr_is_minus_one''
      [(''a'', ConstPtr (Ty ''bn254_snarks_fr''))] (Ty ''secret_bool''),
    RFun False ''ctt_bn254_snarks_fr_set_zero''
      [(''a'', MutPtr (Ty ''bn254_snarks_fr''))] (Ty ''()''),
    RFun False ''ctt_bn254_snarks_fr_set_one''
      [(''a'', MutPtr (Ty ''bn254_snarks_fr''))] (Ty ''()''),
    RFun False ''ctt_bn254_snarks_fr_set_minus_one''
      [(''a'', MutPtr (Ty ''bn254_snarks_fr''))] (Ty ''()''),
    RFun False ''ctt_bn254_snarks_fr_neg''
      [(''r'', MutPtr (Ty ''bn254_snarks_fr'')), (''a'', ConstPtr (Ty ''bn254_snarks_fr''))] (Ty ''()''),
    RFun False ''ctt_bn254_snarks_fr_neg_in_place''
      [(''a'', MutPtr (Ty ''bn254_snarks_fr''))] (Ty ''()''),
    RFun False ''ctt_bn254_snarks_fr_sum''
      [(''r'', MutPtr (Ty ''bn254_snarks_fr'')), (''a'', ConstPtr (Ty ''bn254_snarks_fr'')), (''b'', ConstPtr (Ty ''bn254_snarks_fr''))] (Ty ''()''),
    RFun False ''ctt_bn254_snarks_fr_add_in_place''
      [(''a'', MutPtr (Ty ''bn254_snarks_fr'')), (''b'', ConstPtr (Ty ''bn254_snarks_fr''))] (Ty ''()''),
    RFun False ''ctt_bn254_snarks_fr_diff''
      [(''r'', MutPtr (Ty ''bn254_snarks_fr'')), (''a'', ConstPtr (Ty ''bn254_snarks_fr'')), (''b'', ConstPtr (Ty ''bn254_snarks_fr''))] (Ty ''()''),
    RFun False ''ctt_bn254_snarks_fr_sub_in_place''
      [(''a'', MutPtr (Ty ''bn254_snarks_fr'')), (''b'', ConstPtr (Ty ''bn254_snarks_fr''))] (Ty ''()''),
    RFun False ''ctt_bn254_snarks_fr_double''
      [(''r'', MutPtr (Ty ''bn254_snarks_fr'')), (''a'', ConstPtr (Ty ''bn254_snarks_fr''))] (Ty ''()''),
    RFun False ''ctt_bn254_snarks_fr_double_in_place''
      [(''a'', MutPtr (Ty ''bn254_snarks_fr''))] (Ty ''()''),
    RFun False ''ctt_bn254_snarks_fr_prod''
      [(''r'', MutPtr (Ty ''bn254_snarks_fr'')), (''a'', ConstPtr (Ty ''bn254_snarks_fr'')), (''b'', ConstPtr (Ty ''bn254_snarks_fr''))] (Ty ''()''),
    RFun False ''ctt_bn254_snarks_fr_mul_in_place''
      [(''a'', MutPtr (Ty ''bn254_snarks_fr'')), (''b'', ConstPtr (Ty ''bn254_snarks_fr''))] (Ty ''()''),
    RFun False ''ctt_bn254_snarks_fr_square''
      [(''r'', MutPtr (Ty ''bn254_snarks_fr'')), (''a'', ConstPtr (Ty ''bn254_snarks_fr''))] (Ty ''()''),
    RFun False ''ctt_bn254_snarks_fr_square_in_place''
      [(''a'', MutPtr (Ty ''bn254_snarks_fr''))] (Ty ''()''),
    RFun False ''ctt_bn254_snarks_fr_div2''
      [(''a'', MutPtr (Ty ''bn254_snarks_fr''))] (Ty ''()''),
    RFun False ''ctt_bn254_snarks_fr_inv''
      [(''r'', MutPtr (Ty ''bn254_snarks_fr'')), (''a'', ConstPtr (Ty ''bn254_snarks_fr''))] (Ty ''()''),
    RFun False ''ctt_bn254_snarks_fr_inv_in_place''
      [(''a'', MutPtr (Ty ''bn254_snarks_fr''))] (Ty ''()''),
    RFun False ''ctt_bn254_snarks_fr_ccopy''
      [(''a'', MutPtr (Ty ''bn254_snarks_fr'')), (''b'', ConstPtr (Ty ''bn254_snarks_fr'')), (''ctl'', Ty ''secret_bool'')] (Ty ''()''),
    RFun False ''ctt_bn254_snarks_fr_cswap''
      [(''a'', MutPtr (Ty ''bn254_snarks_fr'')), (''b'', MutPtr (Ty ''bn254_snarks_fr'')), (''ctl'', Ty ''secret_bool'')] (Ty ''()''),
    RFun False ''ctt_bn254_snarks_fr_cset_zero''
      [(''a'', MutPtr (Ty ''bn254_snarks_fr'')), (''ctl'', Ty ''secret_bool'')] (Ty ''()''),
    RFun False ''ctt_bn254_snarks_fr_cset_one''
      [(''a'', MutPtr (Ty ''bn254_snarks_fr'')), (''ctl'', Ty ''secret_bool'')] (Ty ''()''),
    RFun False ''ctt_bn254_snarks_fr_cneg_in_place''
      [(''a'', MutPtr (Ty ''bn254_snarks_fr'')), (''ctl'', Ty ''secret_bool'')] (Ty ''()''),
    RFun False ''ctt_bn254_snarks_fr_cadd_in_place''
      [(''a'', MutPtr (Ty ''bn254_snarks_fr'')), (''b'', ConstPtr (Ty ''bn254_snarks_fr'')), (''ctl'', Ty ''secret_bool'')] (Ty ''()''),
    RFun False ''ctt_bn254_snarks_fr_csub_in_place''
      [(''a'', MutPtr (Ty ''bn254_snarks_fr'')), (''b'', ConstPtr (Ty ''bn254_snarks_fr'')), (''ctl'', Ty ''secret_bool'')] (Ty ''()'')]"

definition bn254_snarks_fp_fns :: "rfun list" where
  "bn254_snarks_fp_fns = [
    RFun False ''ctt_big254_from_bn254_snarks_fp''
      [(''dst'', MutPtr (Ty ''big254'')), (''src'', ConstPtr (Ty ''bn254_snarks_fp''))] (Ty ''()''),
    RFun False ''ctt_bn254_snarks_fp_from_big254''
      [(''dst'', MutPtr (Ty ''bn254_snarks_fp'')), (''src'', ConstPtr (Ty ''big254''))] (Ty ''()''),
    RFun True ''ctt_bn254_snarks_fp_unmarshalBE''
      [(''dst'', MutPtr (Ty ''bn254_snarks_fp'')), (''src'', ConstPtr (Ty ''byte'')), (''src_len'', Ty ''usize'')] (Ty ''bool''),
    RFun True ''ctt_bn254_snarks_fp_marshalBE''
      [(''dst'', MutPtr (Ty ''byte'')), (''dst_len'', Ty ''usize''), (''src'', ConstPtr (Ty ''bn254_snarks_fp''))] (Ty ''bool''),
    RFun False ''ctt_bn254_snarks_fp_is_eq''
      [(''a'', ConstPtr (Ty ''bn254_snarks_fp'')), (''b'', ConstPtr (Ty ''bn254_snarks_fp''))] (Ty ''secret_bool''),
    RFun False ''ctt_bn254_snarks_fp_is_zero''
      [(''a'', ConstPtr (Ty ''bn254_snarks_fp''))] (Ty ''secret_bool''),
    RFun False ''ctt_bn254_snarks_fp_is_one''
      [(''a'', ConstPtr (Ty ''bn254_snarks_fp''))] (Ty ''secret_bool''),
    RFun False ''ctt_bn254_snarks_fp_is_minus_one''
      [(''a'', ConstPtr (Ty ''bn254_snarks_fp''))] (Ty ''secret_bool''),
    RFun False ''ctt_bn254_snarks_fp_set_zero''
      [(''a'', MutPtr (Ty ''bn254_snarks_fp''))] (Ty ''()''),
    RFun False ''ctt_bn254_snarks_fp_set_one''
      [(''a'', MutPtr (Ty ''bn254_snarks_fp''))] (Ty ''()''),
    RFun False ''ctt_bn254_snarks_fp_set_minus_one''
      [(''a'', MutPtr (Ty ''bn254_snarks_fp''))] (Ty ''()''),
    RFun False ''ctt_bn254_snarks_fp_neg''
      [(''r'', MutPtr (Ty ''bn254_snarks_fp'')), (''a'', ConstPtr (Ty ''bn254_snarks_fp''))] (Ty ''()''),
    RFun False ''ctt_bn254_snarks_fp_neg_in_place''
      [(''a'', MutPtr (Ty ''bn254_snarks_fp''))] (Ty ''()''),
    RFun False ''ctt_bn254_snarks_fp_sum''
      [(''r'', MutPtr (Ty ''bn254_snarks_fp'')), (''a'', ConstPtr (Ty ''bn254_snarks_fp'')), (''b'', ConstPtr (Ty ''bn254_snarks_fp''))] (Ty ''()''),
    RFun False ''ctt_bn254_snarks_fp_add_in_place''
      [(''a'', MutPtr (Ty ''bn254_snarks_fp'')), (''b'', ConstPtr (Ty ''bn254_snarks_fp''))] (Ty ''()''),
    RFun False ''ctt_bn254_snarks_fp_diff''
      [(''r'', MutPtr (Ty ''bn254_snarks_fp'')), (''a'', ConstPtr (Ty ''bn254_snarks_fp'')), (''b'', ConstPtr (Ty ''bn254_snarks_fp''))] (Ty ''()''),
    RFun False ''ctt_bn254_snarks_fp_sub_in_place''
      [(''a'', MutPtr (Ty ''bn254_snarks_fp'')), (''b'', ConstPtr (Ty ''bn254_snarks_fp''))] (Ty ''()''),
    RFun False ''ctt_bn254_snarks_fp_double''
      [(''r'', MutPtr (Ty ''bn254_snarks_fp'')), (''a'', ConstPtr (Ty ''bn254_snarks_fp''))] (Ty ''()''),
    RFun False ''ctt_bn254_snarks_fp_double_in_place''
      [(''a'', MutPtr (Ty ''bn254_snarks_fp''))] (Ty ''()''),
    RFun False ''ctt_bn254_snarks_fp_prod''
      [(''r'', MutPtr (Ty ''bn254_snarks_fp'')), (''a'', ConstPtr (Ty ''bn254_snarks_fp'')), (''b'', ConstPtr (Ty ''bn254_snarks_fp''))] (Ty ''()''),
    RFun False ''ctt_bn254_snarks_fp_mul_in_place''
      [(''a'', MutPtr (Ty ''bn254_snarks_fp'')), (''b'', ConstPtr (Ty ''bn254_snarks_fp''))] (Ty ''()''),
    RFun False ''ctt_bn254_snarks_fp_square''
      [(''r'', MutPtr (Ty ''bn254_snarks_fp'')), (''a'', ConstPtr (Ty ''bn254_snarks_fp''))] (Ty ''()''),
    RFun False ''ctt_bn254_snarks_fp_square_in_place''
      [(''a'', MutPtr (Ty ''bn254_snarks_fp''))] (Ty ''()''),
    RFun False ''ctt_bn254_snarks_fp_div2''
      [(''a'', MutPtr (Ty ''bn254_snarks_fp''))] (Ty ''()''),
    RFun False ''ctt_bn254_snarks_fp_inv''
      [(''r'', MutPtr (Ty ''bn254_snarks_fp'')), (''a'', ConstPtr (Ty ''bn254_snarks_fp''))] (Ty ''()''),
    RFun False ''ctt_bn254_snarks_fp_inv_in_place''
      [(''a'', MutPtr (Ty ''bn254_snarks_fp''))] (Ty ''()''),
    RFun False ''ctt_bn254_snarks_fp_ccopy''
      [(''a'', MutPtr (Ty ''bn254_snarks_fp'')), (''b'', ConstPtr (Ty ''bn254_snarks_fp'')), (''ctl'', Ty ''secret_bool'')] (Ty ''()''),
    RFun False ''ctt_bn254_snarks_fp_cswap''
      [(''a'', MutPtr (Ty ''bn254_snarks_fp'')), (''b'', MutPtr (Ty ''bn254_snarks_fp'')), (''ctl'', Ty ''secret_bool'')] (Ty ''()''),
    RFun False ''ctt_bn254_snarks_fp_cset_zero''
      [(''a'', MutPtr (Ty ''bn254_snarks_fp'')), (''ctl'', Ty ''secret_bool'')] (Ty ''()''),
    RFun False ''ctt_bn254_snarks_fp_cset_one''
      [(''a'', MutPtr (Ty ''bn254_snarks_fp'')), (''ctl'', Ty ''secret_bool'')] (Ty ''()''),
    RFun False ''ctt_bn254_snarks_fp_cneg_in_place''
      [(''a'', MutPtr (Ty ''bn254_snarks_fp'')), (''ctl'', Ty ''secret_bool'')] (Ty ''()''),
    RFun False ''ctt_bn254_snarks_fp_cadd_in_place''
      [(''a'', MutPtr (Ty ''bn254_snarks_fp'')), (''b'', ConstPtr (Ty ''bn254_snarks_fp'')), (''ctl'', Ty ''secret_bool'')] (Ty ''()''),
    RFun False ''ctt_bn254_snarks_fp_csub_in_place''
      [(''a'', MutPtr (Ty ''bn254_snarks_fp'')), (''b'', ConstPtr (Ty ''bn254_snarks_fp'')), (''ctl'', Ty ''secret_bool'')] (Ty ''()'')]"

definition bn254_snarks_fp_sqrt_fns :: "rfun list" where
  "bn254_snarks_fp_sqrt_fns = [
    RFun False ''ctt_bn254_snarks_fp_is_square''
      [(''a'', ConstPtr (Ty ''bn254_snarks_fp''))] (Ty ''secret_bool''),
    RFun False ''ctt_bn254_snarks_fp_invsqrt''
      [(''r'', MutPtr (Ty ''bn254_snarks_fp'')), (''a'', ConstPtr (Ty ''bn254_snarks_fp''))] (Ty ''()''),
    RFun False ''ctt_bn254_snarks_fp_invsqrt_in_place''
      [(''r'', MutPtr (Ty ''bn254_snarks_fp'')), (''a'', ConstPtr (Ty ''bn254_snarks_fp''))] (Ty ''secret_bool''),
    RFun False ''ctt_bn254_snarks_fp_sqrt_in_place''
      [(''a'', MutPtr (Ty ''bn254_snarks_fp''))] (Ty ''()''),
    RFun False ''ctt_bn254_snarks_fp_sqrt_if_square_in_place''
      [(''a'', MutPtr (Ty ''bn254_snarks_fp''))] (Ty ''secret_bool''),
    RFun False ''ctt_bn254_snarks_fp_sqrt_invsqrt''
      [(''sqrt'', MutPtr (Ty ''bn254_snarks_fp'')), (''invsqrt'', MutPtr (Ty ''bn254_snarks_fp'')), (''a'', ConstPtr (Ty ''bn254_snarks_fp''))] (Ty ''()''),
    RFun False ''ctt_bn254_snarks_fp_sqrt_invsqrt_if_square''
      [(''sqrt'', MutPtr (Ty ''bn254_snarks_fp'')), (''invsqrt'', MutPtr (Ty ''bn254_snarks_fp'')), (''a'', ConstPtr (Ty ''bn254_snarks_fp''))] (Ty ''secret_bool''),
    RFun False ''ctt_bn254_snarks_fp_sqrt_ratio_if_square''
      [(''r'', MutPtr (Ty ''bn254_snarks_fp'')), (''u'', ConstPtr (Ty ''bn254_snarks_fp'')), (''v'', ConstPtr (Ty ''bn254_snarks_fp''))] (Ty ''secret_bool'')]"

definition bn254_snarks_fp2_fns :: "rfun list" where
  "bn254_snarks_fp2_fns = [
    RFun False ''ctt_bn254_snarks_fp2_is_eq''
      [(''a'', ConstPtr (Ty ''bn254_snarks_fp2'')), (''b'', ConstPtr (Ty ''bn254_snarks_fp2''))] (Ty ''secret_bool''),
    RFun False ''ctt_bn254_snarks_fp2_is_zero''
      [(''a'', ConstPtr (Ty ''bn254_snarks_fp2''))] (Ty ''secret_bool''),
    RFun False ''ctt_bn254_snarks_fp2_is_one''
      [(''a'', ConstPtr (Ty ''bn254_snarks_fp2''))] (Ty ''secret_bool''),
    RFun False ''ctt_bn254_snarks_fp2_is_minus_one''
      [(''a'', ConstPtr (Ty ''bn254_snarks_fp2''))] (Ty ''secret_bool''),
    RFun False ''ctt_bn254_snarks_fp2_set_zero''
      [(''a'', MutPtr (Ty ''bn254_snarks_fp2''))] (Ty ''()''),
    RFun False ''ctt_bn254_snarks_fp2_set_one''
      [(''a'', MutPtr (Ty ''bn254_snarks_fp2''))] (Ty ''()''),
    RFun False ''ctt_bn254_snarks_fp2_set_minus_one''
      [(''a'', MutPtr (Ty ''bn254_snarks_fp2''))] (Ty ''()''),
    RFun False ''ctt_bn254_snarks_fp2_neg''
      [(''a'', MutPtr (Ty ''bn254_snarks_fp2''))] (Ty ''()''),
    RFun False ''ctt_bn254_snarks_fp2_sum''
      [(''r'', MutPtr (Ty ''bn254_snarks_fp2'')), (''a'', ConstPtr (Ty ''bn254_snarks_fp2'')), (''b'', ConstPtr (Ty ''bn254_snarks_fp2''))] (Ty ''()''),
    RFun False ''ctt_bn254_snarks_fp2_add_in_place''
      [(''a'', MutPtr (Ty ''bn254_snarks_fp2'')), (''b'', ConstPtr (Ty ''bn254_snarks_fp2''))] (Ty ''()''),
    RFun False ''ctt_bn254_snarks_fp2_diff''
      [(''r'', MutPtr (Ty ''bn254_snarks_fp2'')), (''a'', ConstPtr (Ty ''bn254_snarks_fp2'')), (''b'', ConstPtr (Ty ''bn254_snarks_fp2''))] (Ty ''()''),
    RFun False ''ctt_bn254_snarks_fp2_sub_in_place''
      [(''a'', MutPtr (Ty ''bn254_snarks_fp2'')), (''b'', ConstPtr (Ty ''bn254_snarks_fp2''))] (Ty ''()''),
    RFun False ''ctt_bn254_snarks_fp2_double''
      [(''r'', MutPtr (Ty ''bn254_snarks_fp2'')), (''a'', ConstPtr (Ty ''bn254_snarks_fp2''))] (Ty ''()''),
    RFun False ''ctt_bn254_snarks_fp2_double_in_place''
      [(''a'', MutPtr (Ty ''bn254_snarks_fp2''))] (Ty ''()''),
    RFun False ''ctt_bn254_snarks_fp2_conj''
      [(''r'', MutPtr (Ty ''bn254_snarks_fp2'')), (''a'', ConstPtr (Ty ''bn254_snarks_fp2''))] (Ty ''()''),
    RFun False ''ctt_bn254_snarks_fp2_conj_in_place''
      [(''a'', MutPtr (Ty ''bn254_snarks_fp2''))] (Ty ''()''),
    RFun False ''ctt_bn254_snarks_fp2_conjneg''
      [(''r'', MutPtr (Ty ''bn254_snarks_fp2'')), (''a'', ConstPtr (Ty ''bn254_snarks_fp2''))] (Ty ''()''),
    RFun False ''ctt_bn254_snarks_fp2_conjneg_in_place''
      [(''a'', MutPtr (Ty ''bn254_snarks_fp2''))] (Ty ''()''),
    RFun False ''ctt_bn254_snarks_fp2_prod''
      [(''r'', MutPtr (Ty ''bn254_snarks_fp2'')), (''a'', ConstPtr (Ty ''bn254_snarks_fp2'')), (''b'', ConstPtr (Ty ''bn254_snarks_fp2''))] (Ty ''()''),
    RFun False ''ctt_bn254_snarks_fp2_mul_in_place''
      [(''a'', MutPtr (Ty ''bn254_snarks_fp2'')), (''b'', ConstPtr (Ty ''bn254_snarks_fp2''))] (Ty ''()''),
    RFun False ''ctt_bn254_snarks_fp2_square''
      [(''r'', MutPtr (Ty ''bn254_snarks_fp2'')), (''a'', ConstPtr (Ty ''bn254_snarks_fp2''))] (Ty ''()''),
    RFun False ''ctt_bn254_snarks_fp2_square_in_place''
      [(''a'', MutPtr (Ty ''bn254_snarks_fp2''))] (Ty ''()''),
    RFun False ''ctt_bn254_snarks_fp2_div2''
      [(''a'', MutPtr (Ty ''bn254_snarks_fp2''))] (Ty ''()''),
    RFun False ''ctt_bn254_snarks_fp2_inv''
      [(''r'', MutPtr (Ty ''bn254_snarks_fp2'')), (''a'', ConstPtr (Ty ''bn254_snarks_fp2''))] (Ty ''()''),
    RFun False ''ctt_bn254_snarks_fp2_inv_in_place''
      [(''a'', MutPtr (Ty ''bn254_snarks_fp2''))] (Ty ''()''),
    RFun False ''ctt_bn254_snarks_fp2_ccopy''
      [(''a'', MutPtr (Ty ''bn254_snarks_fp2'')), (''b'', ConstPtr (Ty ''bn254_snarks_fp2'')), (''ctl'', Ty ''secret_bool'')] (Ty ''()''),
    RFun False ''ctt_bn254_snarks_fp2_cset_zero''
      [(''a'', MutPtr (Ty ''bn254_snarks_fp2'')), (''ctl'', Ty ''secret_bool'')] (Ty ''()''),
    RFun False ''ctt_bn254_snarks_fp2_cset_one''
      [(''a'', MutPtr (Ty ''bn254_snarks_fp2'')), (''ctl'', Ty ''secret_bool'')] (Ty ''()''),
    RFun False ''ctt_bn254_snarks_fp2_cneg_in_place''
      [(''a'', MutPtr (Ty ''bn254_snarks_fp2'')), (''ctl'', Ty ''secret_bool'')] (Ty ''()''),
    RFun False ''ctt_bn254_snarks_fp2_cadd_in_place''
      [(''a'', MutPtr (Ty ''bn254_snarks_fp2'')), (''b'', ConstPtr (Ty ''bn254_snarks_fp2'')), (''ctl'', Ty ''secret_bool'')] (Ty ''()''),
    RFun False ''ctt_bn254_snarks_fp2_csub_in_place''
      [(''a'', MutPtr (Ty ''bn254_snarks_fp2'')), (''b'', ConstPtr (Ty ''bn254_snarks_fp2'')), (''ctl'', Ty ''secret_bool'')] (Ty ''()'')]"

definition bn254_snarks_fp2_sqrt_fns :: "rfun list" where
  "bn254_snarks_fp2_sqrt_fns = [
    RFun False ''ctt_bn254_snarks_fp2_is_square''
      [(''a'', ConstPtr (Ty ''bn254_snarks_fp2''))] (Ty ''secret_bool''),
    RFun False ''ctt_bn254_snarks_fp2_sqrt_in_place''
      [(''a'', MutPtr (Ty ''bn254_snarks_fp2''))] (Ty ''()''),
    RFun False ''ctt_bn254_snarks_fp2_sqrt_if_square_in_place''
      [(''a'', MutPtr (Ty ''bn254_snarks_fp2''))] (Ty ''secret_bool'')]"

definition bn254_snarks_g1_aff_fns :: "rfun list" where
  "bn254_snarks_g1_aff_fns = [
    RFun False ''ctt_bn254_snarks_g1_aff_is_eq''
      [(''P'', ConstPtr (Ty ''bn254_snarks_g1_aff'')), (''Q'', ConstPtr (Ty ''bn254_snarks_g1_aff''))] (Ty ''secret_bool''),
    RFun False ''ctt_bn254_snarks_g1_aff_is_neutral''
      [(''P'', ConstPtr (Ty ''bn254_snarks_g1_aff''))] (Ty ''secret_bool''),
    RFun False ''ctt_bn254_snarks_g1_aff_set_neutral''
      [(''P'', MutPtr (Ty ''bn254_snarks_g1_aff''))] (Ty ''()''),
    RFun False ''ctt_bn254_snarks_g1_aff_ccopy''
      [(''P'', MutPtr (Ty ''bn254_snarks_g1_aff'')), (''Q'', ConstPtr (Ty ''bn254_snarks_g1_aff'')), (''ctl'', Ty ''secret_bool'')] (Ty ''()''),
    RFun False ''ctt_bn254_snarks_g1_aff_is_on_curve''
      [(''x'', ConstPtr (Ty ''bn254_snarks_fp'')), (''y'', ConstPtr (Ty ''bn254_snarks_fp''))] (Ty ''secret_bool''),
    RFun False ''ctt_bn254_snarks_g1_aff_neg''
      [(''P'', MutPtr (Ty ''bn254_snarks_g1_aff'')), (''Q'', ConstPtr (Ty ''bn254_snarks_g1_aff''))] (Ty ''()''),
    RFun False ''ctt_bn254_snarks_g1_aff_neg_in_place''
      [(''P'', MutPtr (Ty ''bn254_snarks_g1_aff''))] (Ty ''()'')]"

definition bn254_snarks_g1_jac_fns :: "rfun list" where
  "bn254_snarks_g1_jac_fns = [
    RFun False ''ctt_bn254_snarks_g1_jac_is_eq''
      [(''P'', ConstPtr (Ty ''bn254_snarks_g1_jac'')), (''Q'', ConstPtr (Ty ''bn254_snarks_g1_jac''))] (Ty ''secret_bool''),
    RFun False ''ctt_bn254_snarks_g1_jac_is_neutral''
      [(''P'', ConstPtr (Ty ''bn254_snarks_g1_jac''))] (Ty ''secret_bool''),
    RFun False ''ctt_bn254_snarks_g1_jac_set_neutral''
      [(''P'', MutPtr (Ty ''bn254_snarks_g1_jac''))] (Ty ''()''),
    RFun False ''ctt_bn254_snarks_g1_jac_ccopy''
      [(''P'', MutPtr (Ty ''bn254_snarks_g1_jac'')), (''Q'', ConstPtr (Ty ''bn254_snarks_g1_jac'')), (''ctl'', Ty ''secret_bool'')] (Ty ''()''),
    RFun False ''ctt_bn254_snarks_g1_jac_neg''
      [(''P'', MutPtr (Ty ''bn254_snarks_g1_jac'')), (''Q'', ConstPtr (Ty ''bn254_snarks_g1_jac''))] (Ty ''()''),
    RFun False ''ctt_bn254_snarks_g1_jac_neg_in_place''
      [(''P'', MutPtr (Ty ''bn254_snarks_g1_jac''))] (Ty ''()''),
    RFun False ''ctt_bn254_snarks_g1_jac_cneg_in_place''
      [(''P'', MutPtr (Ty ''bn254_snarks_g1_jac'')), (''ctl'', Ty ''secret_bool'')] (Ty ''()''),
    RFun False ''ctt_bn254_snarks_g1_jac_sum''
      [(''r'', MutPtr (Ty ''bn254_snarks_g1_jac'')), (''P'', ConstPtr (Ty ''bn254_snarks_g1_jac'')), (''Q'', ConstPtr (Ty ''bn254_snarks_g1_jac''))] (Ty ''()''),
    RFun False ''ctt_bn254_snarks_g1_jac_add_in_place''
      [(''P'', MutPtr (Ty ''bn254_snarks_g1_jac'')), (''Q'', ConstPtr (Ty ''bn254_snarks_g1_jac''))] (Ty ''()''),
    RFun False ''ctt_bn254_snarks_g1_jac_diff''
      [(''r'', MutPtr (Ty ''bn254_snarks_g1_jac'')), (''P'', ConstPtr (Ty ''bn254_snarks_g1_jac'')), (''Q'', ConstPtr (Ty ''bn254_snarks_g1_jac''))] (Ty ''()''),
    RFun False ''ctt_bn254_snarks_g1_jac_double''
      [(''r'', MutPtr (Ty ''bn254_snarks_g1_jac'')), (''P'', ConstPtr (Ty ''bn254_snarks_g1_jac''))] (Ty ''()''),
    RFun False ''ctt_bn254_snarks_g1_jac_double_in_place''
      [(''P'', MutPtr (Ty ''bn254_snarks_g1_jac''))] (Ty ''()''),
    RFun False ''ctt_bn254_snarks_g1_jac_affine''
      [(''dst'', MutPtr (Ty ''bn254_snarks_g1_aff'')), (''src'', ConstPtr (Ty ''bn254_snarks_g1_jac''))] (Ty ''()''),
    RFun False ''ctt_bn254_snarks_g1_jac_from_affine''
      [(''dst'', MutPtr (Ty ''bn254_snarks_g1_jac'')), (''src'', ConstPtr (Ty ''bn254_snarks_g1_aff''))] (Ty ''()''),
    RFun False ''ctt_bn254_snarks_g1_jac_batch_affine''
      [(''dst'', ConstPtr (Ty ''bn254_snarks_g1_aff'')), (''src'', ConstPtr (Ty ''bn254_snarks_g1_jac'')), (''n'', Ty ''usize'')] (Ty ''()''),
    RFun False ''ctt_bn254_snarks_g1_jac_scalar_mul_big_coef''
      [(''P'', MutPtr (Ty ''bn254_snarks_g1_jac'')), (''scalar'', ConstPtr (Ty ''big254''))] (Ty ''()''),
    RFun False ''ctt_bn254_snarks_g1_jac_scalar_mul_fr_coef''
      [(''P'', MutPtr (Ty ''bn254_snarks_g1_jac'')), (''scalar'', ConstPtr (Ty ''bn254_snarks_fr''))] (Ty ''()''),
    RFun False ''ctt_bn254_snarks_g1_jac_scalar_mul_big_coef_vartime''
      [(''P'', MutPtr (Ty ''bn254_snarks_g1_jac'')), (''scalar'', ConstPtr (Ty ''big254''))] (Ty ''()''),
    RFun False ''ctt_bn254_snarks_g1_jac_scalar_mul_fr_coef_vartime''
      [(''P'', MutPtr (Ty ''bn254_snarks_g1_jac'')), (''scalar'', ConstPtr (Ty ''bn254_snarks_fr''))] (Ty ''()''),
    RFun False ''ctt_bn254_snarks_g1_jac_multi_scalar_mul_big_coefs_vartime''
      [(''r'', MutPtr (Ty ''bn254_snarks_g1_jac'')), (''coefs'', ConstPtr (Ty ''big254'')), (''points'', ConstPtr (Ty ''bn254_snarks_g1_aff'')), (''len'', Ty ''usize'')] (Ty ''()''),
    RFun False ''ctt_bn254_snarks_g1_jac_multi_scalar_mul_fr_coefs_vartime''
      [(''r'', MutPtr (Ty ''bn254_snarks_g1_jac'')), (''coefs'', ConstPtr (Ty ''bn254_snarks_fr'')), (''points'', ConstPtr (Ty ''bn254_snarks_g1_aff'')), (''len'', Ty ''usize'')] (Ty ''()'')]"

definition bn254_snarks_g1_prj_fns :: "rfun list" where
  "bn254_snarks_g1_prj_fns = [
    RFun False ''ctt_bn254_snarks_g1_prj_is_eq''
      [(''P'', ConstPtr (Ty ''bn254_snarks_g1_prj'')), (''Q'', ConstPtr (Ty ''bn254_snarks_g1_prj''))] (Ty ''secret_bool''),
    RFun False ''ctt_bn254_snarks_g1_prj_is_neutral''
      [(''P'', ConstPtr (Ty ''bn254_snarks_g1_prj''))] (Ty ''secret_bool''),
    RFun False ''ctt_bn254_snarks_g1_prj_set_neutral''
      [(''P'', MutPtr (Ty ''bn254_snarks_g1_prj''))] (Ty ''()''),
    RFun False ''ctt_bn254_snarks_g1_prj_ccopy''
      [(''P'', MutPtr (Ty ''bn254_snarks_g1_prj'')), (''Q'', ConstPtr (Ty ''bn254_snarks_g1_prj'')), (''ctl'', Ty ''secret_bool'')] (Ty ''()''),
    RFun False ''ctt_bn254_snarks_g1_prj_neg''
      [(''P'', MutPtr (Ty ''bn254_snarks_g1_prj'')), (''Q'', ConstPtr (Ty ''bn254_snarks_g1_prj''))] (Ty ''()''),
    RFun False ''ctt_bn254_snarks_g1_prj_neg_in_place''
      [(''P'', MutPtr (Ty ''bn254_snarks_g1_prj''))] (Ty ''()''),
    RFun False ''ctt_bn254_snarks_g1_prj_cneg_in_place''
      [(''P'', MutPtr (Ty ''bn254_snarks_g1_prj'')), (''ctl'', Ty ''secret_bool'')] (Ty ''()''),
    RFun False ''ctt_bn254_snarks_g1_prj_sum''
      [(''r'', MutPtr (Ty ''bn254_snarks_g1_prj'')), (''P'', ConstPtr (Ty ''bn254_snarks_g1_prj'')), (''Q'', ConstPtr (Ty ''bn254_snarks_g1_prj''))] (Ty ''()''),
    RFun False ''ctt_bn254_snarks_g1_prj_add_in_place''
      [(''P'', MutPtr (Ty ''bn254_snarks_g1_prj'')), (''Q'', ConstPtr (Ty ''bn254_snarks_g1_prj''))] (Ty ''()''),
    RFun False ''ctt_bn254_snarks_g1_prj_diff''
      [(''r'', MutPtr (Ty ''bn254_snarks_g1_prj'')), (''P'', ConstPtr (Ty ''bn254_snarks_g1_prj'')), (''Q'', ConstPtr (Ty ''bn254_snarks_g1_prj''))] (Ty ''()''),
    RFun False ''ctt_bn254_snarks_g1_prj_double''
      [(''r'', MutPtr (Ty ''bn254_snarks_g1_prj'')), (''P'', ConstPtr (Ty ''bn254_snarks_g1_prj''))] (Ty ''()''),
    RFun False ''ctt_bn254_snarks_g1_prj_double_in_place''
      [(''P'', MutPtr (Ty ''bn254_snarks_g1_prj''))] (Ty ''()''),
    RFun False ''ctt_bn254_snarks_g1_prj_affine''
      [(''dst'', MutPtr (Ty ''bn254_snarks_g1_aff'')), (''src'', ConstPtr (Ty ''bn254_snarks_g1_prj''))] (Ty ''()''),
    RFun False ''ctt_bn254_snarks_g1_prj_from_affine''
      [(''dst'', MutPtr (Ty ''bn254_snarks_g1_prj'')), (''src'', ConstPtr (Ty ''bn254_snarks_g1_aff''))] (Ty ''()''),
    RFun False ''ctt_bn254_snarks_g1_prj_batch_affine''
      [(''dst'', ConstPtr (Ty ''bn254_snarks_g1_aff'')), (''src'', ConstPtr (Ty ''bn254_snarks_g1_prj'')), (''n'', Ty ''usize'')] (Ty ''()''),
    RFun False ''ctt_bn254_snarks_g1_prj_scalar_mul_big_coef''
      [(''P'', MutPtr (Ty ''bn254_snarks_g1_prj'')), (''scalar'', ConstPtr (Ty ''big254''))] (Ty ''()''),
    RFun False ''ctt_bn254_snarks_g1_prj_scalar_mul_fr_coef''
      [(''P'', MutPtr (Ty ''bn254_snarks_g1_prj'')), (''scalar'', ConstPtr (Ty ''bn254_snarks_fr''))] (Ty ''()''),
    RFun False ''ctt_bn254_snarks_g1_prj_scalar_mul_big_coef_vartime''
      [(''P'', MutPtr (Ty ''bn254_snarks_g1_prj'')), (''scalar'', ConstPtr (Ty ''big254''))] (Ty ''()''),
    RFun False ''ctt_bn254_snarks_g1_prj_scalar_mul_fr_coef_vartime''
      [(''P'', MutPtr (Ty ''bn254_snarks_g1_prj'')), (''scalar'', ConstPtr (Ty ''bn254_snarks_fr''))] (Ty ''()''),
    RFun False ''ctt_bn254_snarks_g1_prj_multi_scalar_mul_big_coefs_vartime''
      [(''r'', MutPtr (Ty ''bn254_snarks_g1_prj'')), (''coefs'', ConstPtr (Ty ''big254'')), (''points'', ConstPtr (Ty ''bn254_snarks_g1_aff'')), (''len'', Ty ''usize'')] (Ty ''()''),
    RFun False ''ctt_bn254_snarks_g1_prj_multi_scalar_mul_fr_coefs_vartime''
      [(''r'', MutPtr (Ty ''bn254_snarks_g1_prj'')), (''coefs'', ConstPtr (Ty ''bn254_snarks_fr'')), (''points'', ConstPtr (Ty ''bn254_snarks_g1_aff'')), (''len'', Ty ''usize'')] (Ty ''()'')]"

definition bn254_snarks_g2_aff_fns :: "rfun list" where
  "bn254_snarks_g2_aff_fns = [
    RFun False ''ctt_bn254_snarks_g2_aff_is_eq''
      [(''P'', ConstPtr (Ty ''bn254_snarks_g2_aff'')), (''Q'', ConstPtr (Ty ''bn254_snarks_g2_aff''))] (Ty ''secret_bool''),
    RFun False ''ctt_bn254_snarks_g2_aff_is_neutral''
      [(''P'', ConstPtr (Ty ''bn254_snarks_g2_aff''))] (Ty ''secret_bool''),
    RFun False ''ctt_bn254_snarks_g2_aff_set_neutral''
      [(''P'', MutPtr (Ty ''bn254_snarks_g2_aff''))] (Ty ''()''),
    RFun False ''ctt_bn254_snarks_g2_aff_ccopy''
      [(''P'', MutPtr (Ty ''bn254_snarks_g2_aff'')), (''Q'', ConstPtr (Ty ''bn254_snarks_g2_aff'')), (''ctl'', Ty ''secret_bool'')] (Ty ''()''),
    RFun False ''ctt_bn254_snarks_g2_aff_is_on_curve''
      [(''x'', ConstPtr (Ty ''bn254_snarks_fp2'')), (''y'', ConstPtr (Ty ''bn254_snarks_fp2''))] (Ty ''secret_bool''),
    RFun False ''ctt_bn254_snarks_g2_aff_neg''
      [(''P'', MutPtr (Ty ''bn254_snarks_g2_aff'')), (''Q'', ConstPtr (Ty ''bn254_snarks_g2_aff''))] (Ty ''()''),
    RFun False ''ctt_bn254_snarks_g2_aff_neg_in_place''
      [(''P'', MutPtr (Ty ''bn254_snarks_g2_aff''))] (Ty ''()'')]"

definition bn254_snarks_g2_jac_fns :: "rfun list" where
  "bn254_snarks_g2_jac_fns = [
    RFun False ''ctt_bn254_snarks_g2_jac_is_eq''
      [(''P'', ConstPtr (Ty ''bn254_snarks_g2_jac'')), (''Q'', ConstPtr (Ty ''bn254_snarks_g2_jac''))] (Ty ''secret_bool''),
    RFun False ''ctt_bn254_snarks_g2_jac_is_neutral''
      [(''P'', ConstPtr (Ty ''bn254_snarks_g2_jac''))] (Ty ''secret_bool''),
    RFun False ''ctt_bn254_snarks_g2_jac_set_neutral''
      [(''P'', MutPtr (Ty ''bn254_snarks_g2_jac''))] (Ty ''()''),
    RFun False ''ctt_bn254_snarks_g2_jac_ccopy''
      [(''P'', MutPtr (Ty ''bn254_snarks_g2_jac'')), (''Q'', ConstPtr (Ty ''bn254_snarks_g2_jac'')), (''ctl'', Ty ''secret_bool'')] (Ty ''()''),
    RFun False ''ctt_bn254_snarks_g2_jac_neg''
      [(''P'', MutPtr (Ty ''bn254_snarks_g2_jac'')), (''Q'', ConstPtr (Ty ''bn254_snarks_g2_jac''))] (Ty ''()''),
    RFun False ''ctt_bn254_snarks_g2_jac_neg_in_place''
      [(''P'', MutPtr (Ty ''bn254_snarks_g2_jac''))] (Ty ''()''),
    RFun False ''ctt_bn254_snarks_g2_jac_cneg_in_place''
      [(''P'', MutPtr (Ty ''bn254_snarks_g2_jac'')), (''ctl'', Ty ''secret_bool'')] (Ty ''()''),
    RFun False ''ctt_bn254_snarks_g2_jac_sum''
      [(''r'', MutPtr (Ty ''bn254_snarks_g2_jac'')), (''P'', ConstPtr (Ty ''bn254_snarks_g2_jac'')), (''Q'', ConstPtr (Ty ''bn254_snarks_g2_jac''))] (Ty ''()''),
    RFun False ''ctt_bn254_snarks_g2_jac_add_in_place''
      [(''P'', MutPtr (Ty ''bn254_snarks_g2_jac'')), (''Q'', ConstPtr (Ty ''bn254_snarks_g2_jac''))] (Ty ''()''),
    RFun False ''ctt_bn254_snarks_g2_jac_diff''
      [(''r'', MutPtr (Ty ''bn254_snarks_g2_jac'')), (''P'', ConstPtr (Ty ''bn254_snarks_g2_jac'')), (''Q'', ConstPtr (Ty ''bn254_snarks_g2_jac''))] (Ty ''()''),
    RFun False ''ctt_bn254_snarks_g2_jac_double''
      [(''r'', MutPtr (Ty ''bn254_snarks_g2_jac'')), (''P'', ConstPtr (Ty ''bn254_snarks_g2_jac''))] (Ty ''()''),
    RFun False ''ctt_bn254_snarks_g2_jac_double_in_place''
      [(''P'', MutPtr (Ty ''bn254_snarks_g2_jac''))] (Ty ''()''),
    RFun False ''ctt_bn254_snarks_g2_jac_affine''
      [(''dst'', MutPtr (Ty ''bn254_snarks_g2_aff'')), (''src'', ConstPtr (Ty ''bn254_snarks_g2_jac''))] (Ty ''()''),
    RFun False ''ctt_bn254_snarks_g2_jac_from_affine''
      [(''dst'', MutPtr (Ty ''bn254_snarks_g2_jac'')), (''src'', ConstPtr (Ty ''bn254_snarks_g2_aff''))] (Ty ''()''),
    RFun False ''ctt_bn254_snarks_g2_jac_batch_affine''
      [(''dst'', ConstPtr (Ty ''bn254_snarks_g2_aff'')), (''src'', ConstPtr (Ty ''bn254_snarks_g2_jac'')), (''n'', Ty ''usize'')] (Ty ''()''),
    RFun False ''ctt_bn254_snarks_g2_jac_scalar_mul_big_coef''
      [(''P'', MutPtr (Ty ''bn254_snarks_g2_jac'')), (''scalar'', ConstPtr (Ty ''big254''))] (Ty ''()''),
    RFun False ''ctt_bn254_snarks_g2_jac_scalar_mul_fr_coef''
      [(''P'', MutPtr (Ty ''bn254_snarks_g2_jac'')), (''scalar'', ConstPtr (Ty ''bn254_snarks_fr''))] (Ty ''()''),
    RFun False ''ctt_bn254_snarks_g2_jac_scalar_mul_big_coef_vartime''
      [(''P'', MutPtr (Ty ''bn254_snarks_g2_jac'')), (''scalar'', ConstPtr (Ty ''big254''))] (Ty ''()''),
    RFun False ''ctt_bn254_snarks_g2_jac_scalar_mul_fr_coef_vartime''
      [(''P'', MutPtr (Ty ''bn254_snarks_g2_jac'')), (''scalar'', ConstPtr (Ty ''bn254_snarks_fr''))] (Ty ''()''),
    RFun False ''ctt_bn254_snarks_g2_jac_multi_scalar_mul_big_coefs_vartime''
      [(''r'', MutPtr (Ty ''bn254_snarks_g2_jac'')), (''coefs'', ConstPtr (Ty ''big254'')), (''points'', ConstPtr (Ty ''bn254_snarks_g2_aff'')), (''len'', Ty ''usize'')] (Ty ''()''),
    RFun False ''ctt_bn254_snarks_g2_jac_multi_scalar_mul_fr_coefs_vartime''
      [(''r'', MutPtr (Ty ''bn254_snarks_g2_jac'')), (''coefs'', ConstPtr (Ty ''bn254_snarks_fr'')), (''points'', ConstPtr (Ty ''bn254_snarks_g2_aff'')), (''len'', Ty ''usize'')] (Ty ''()'')]"

definition bn254_snarks_g2_prj_fns :: "rfun list" where
  "bn254_snarks_g2_prj_fns = [
    RFun False ''ctt_bn254_snarks_g2_prj_is_eq''
      [(''P'', ConstPtr (Ty ''bn254_snarks_g2_prj'')), (''Q'', ConstPtr (Ty ''bn254_snarks_g2_prj''))] (Ty ''secret_bool''),
    RFun False ''ctt_bn254_snarks_g2_prj_is_neutral''
      [(''P'', ConstPtr (Ty ''bn254_snarks_g2_prj''))] (Ty ''secret_bool''),
    RFun False ''ctt_bn254_snarks_g2_prj_set_neutral''
      [(''P'', MutPtr (Ty ''bn254_snarks_g2_prj''))] (Ty ''()''),
    RFun False ''ctt_bn254_snarks_g2_prj_ccopy''
      [(''P'', MutPtr (Ty ''bn254_snarks_g2_prj'')), (''Q'', ConstPtr (Ty ''bn254_snarks_g2_prj'')), (''ctl'', Ty ''secret_bool'')] (Ty ''()''),
    RFun False ''ctt_bn254_snarks_g2_prj_neg''
      [(''P'', MutPtr (Ty ''bn254_snarks_g2_prj'')), (''Q'', ConstPtr (Ty ''bn254_snarks_g2_prj''))] (Ty ''()''),
    RFun False ''ctt_bn254_snarks_g2_prj_neg_in_place''
      [(''P'', MutPtr (Ty ''bn254_snarks_g2_prj''))] (Ty ''()''),
    RFun False ''ctt_bn254_snarks_g2_prj_cneg_in_place''
      [(''P'', MutPtr (Ty ''bn254_snarks_g2_prj'')), (''ctl'', Ty ''secret_bool'')] (Ty ''()''),
    RFun False ''ctt_bn254_snarks_g2_prj_sum''
      [(''r'', MutPtr (Ty ''bn254_snarks_g2_prj'')), (''P'', ConstPtr (Ty ''bn254_snarks_g2_prj'')), (''Q'', ConstPtr (Ty ''bn254_snarks_g2_prj''))] (Ty ''()''),
    RFun False ''ctt_bn254_snarks_g2_prj_add_in_place''
      [(''P'', MutPtr (Ty ''bn254_snarks_g2_prj'')), (''Q'', ConstPtr (Ty ''bn254_snarks_g2_prj''))] (Ty ''()''),
    RFun False ''ctt_bn254_snarks_g2_prj_diff''
      [(''r'', MutPtr (Ty ''bn254_snarks_g2_prj'')), (''P'', ConstPtr (Ty ''bn254_snarks_g2_prj'')), (''Q'', ConstPtr (Ty ''bn254_snarks_g2_prj''))] (Ty ''()''),
    RFun False ''ctt_bn254_snarks_g2_prj_double''
      [(''r'', MutPtr (Ty ''bn254_snarks_g2_prj'')), (''P'', ConstPtr (Ty ''bn254_snarks_g2_prj''))] (Ty ''()''),
    RFun False ''ctt_bn254_snarks_g2_prj_double_in_place''
      [(''P'', MutPtr (Ty ''bn254_snarks_g2_prj''))] (Ty ''()''),
    RFun False ''ctt_bn254_snarks_g2_prj_affine''
      [(''dst'', MutPtr (Ty ''bn254_snarks_g2_aff'')), (''src'', ConstPtr (Ty ''bn254_snarks_g2_prj''))] (Ty ''()''),
    RFun False ''ctt_bn254_snarks_g2_prj_from_affine''
      [(''dst'', MutPtr (Ty ''bn254_snarks_g2_prj'')), (''src'', ConstPtr (Ty ''bn254_snarks_g2_aff''))] (Ty ''()''),
    RFun False ''ctt_bn254_snarks_g2_prj_batch_affine''
      [(''dst'', ConstPtr (Ty ''bn254_snarks_g2_aff'')), (''src'', ConstPtr (Ty ''bn254_snarks_g2_prj'')), (''n'', Ty ''usize'')] (Ty ''()''),
    RFun False ''ctt_bn254_snarks_g2_prj_scalar_mul_big_coef''
      [(''P'', MutPtr (Ty ''bn254_snarks_g2_prj'')), (''scalar'', ConstPtr (Ty ''big254''))] (Ty ''()''),
    RFun False ''ctt_bn254_snarks_g2_prj_scalar_mul_fr_coef''
      [(''P'', MutPtr (Ty ''bn254_snarks_g2_prj'')), (''scalar'', ConstPtr (Ty ''bn254_snarks_fr''))] (Ty ''()''),
    RFun False ''ctt_bn254_snarks_g2_prj_scalar_mul_big_coef_vartime''
      [(''P'', MutPtr (Ty ''bn254_snarks_g2_prj'')), (''scalar'', ConstPtr (Ty ''big254''))] (Ty ''()''),
    RFun False ''ctt_bn254_snarks_g2_prj_scalar_mul_fr_coef_vartime''
      [(''P'', MutPtr (Ty ''bn254_snarks_g2_prj'')), (''scalar'', ConstPtr (Ty ''bn254_snarks_fr''))] (Ty ''()''),
    RFun False ''ctt_bn254_snarks_g2_prj_multi_scalar_mul_big_coefs_vartime''
      [(''r'', MutPtr (Ty ''bn254_snarks_g2_prj'')), (''coefs'', ConstPtr (Ty ''big254'')), (''points'', ConstPtr (Ty ''bn254_snarks_g2_aff'')), (''len'', Ty ''usize'')] (Ty ''()''),
    RFun False ''ctt_bn254_snarks_g2_prj_multi_scalar_mul_fr_coefs_vartime''
      [(''r'', MutPtr (Ty ''bn254_snarks_g2_prj'')), (''coefs'', ConstPtr (Ty ''bn254_snarks_fr'')), (''points'', ConstPtr (Ty ''bn254_snarks_g2_aff'')), (''len'', Ty ''usize'')] (Ty ''()'')]"

definition bn254_snarks_g1_aff_hash_fns :: "rfun list" where
  "bn254_snarks_g1_aff_hash_fns = [
    RFun False ''ctt_bn254_snarks_g1_aff_svdw_sha256''
      [(''r'', MutPtr (Ty ''bn254_snarks_g1_aff'')), (''augmentation'', ConstPtr (Ty ''byte'')), (''augmentation_len'', Ty ''usize''), (''message'', ConstPtr (Ty ''byte'')), (''message_len'', Ty ''usize''), (''domainSepTag'', ConstPtr (Ty ''byte'')), (''domainSepTag_len'', Ty ''usize'')] (Ty ''()'')]"

definition bn254_snarks_g1_jac_hash_fns :: "rfun list" where
  "bn254_snarks_g1_jac_hash_fns = [
    RFun False ''ctt_bn254_snarks_g1_jac_svdw_sha256''
      [(''r'', MutPtr (Ty ''bn254_snarks_g1_jac'')), (''augmentation'', ConstPtr (Ty ''byte'')), (''augmentation_len'', Ty ''usize''), (''message'', ConstPtr (Ty ''byte'')), (''message_len'', Ty ''usize''), (''domainSepTag'', ConstPtr (Ty ''byte'')), (''domainSepTag_len'', Ty ''usize'')] (Ty ''()'')]"

definition bn254_snarks_g1_prj_hash_fns :: "rfun list" where
  "bn254_snarks_g1_prj_hash_fns = [
    RFun False ''ctt_bn254_snarks_g1_prj_svdw_sha256''
      [(''r'', MutPtr (Ty ''bn254_snarks_g1_prj'')), (''augmentation'', ConstPtr (Ty ''byte'')), (''augmentation_len'', Ty ''usize''), (''message'', ConstPtr (Ty ''byte'')), (''message_len'', Ty ''usize''), (''domainSepTag'', ConstPtr (Ty ''byte'')), (''domainSepTag_len'', Ty ''usize'')] (Ty ''()'')]"

definition bn254_snarks_g2_aff_hash_fns :: "rfun list" where
  "bn254_snarks_g2_aff_hash_fns = [
    RFun False ''ctt_bn254_snarks_g2_aff_svdw_sha256''
      [(''r'', MutPtr (Ty ''bn254_snarks_g2_aff'')), (''augmentation'', ConstPtr (Ty ''byte'')), (''augmentation_len'', Ty ''usize''), (''message'', ConstPtr (Ty ''byte'')), (''message_len'', Ty ''usize''), (''domainSepTag'', ConstPtr (Ty ''byte'')), (''domainSepTag_len'', Ty ''usize'')] (Ty ''()'')]"

definition bn254_snarks_g2_jac_hash_fns :: "rfun list" where
  "bn254_snarks_g2_jac_hash_fns = [
    RFun False ''ctt_bn254_snarks_g2_jac_svdw_sha256''
      [(''r'', MutPtr (Ty ''bn254_snarks_g2_jac'')), (''augmentation'', ConstPtr (Ty ''byte'')), (''augmentation_len'', Ty ''usize''), (''message'', ConstPtr (Ty ''byte'')), (''message_len'', Ty ''usize''), (''domainSepTag'', ConstPtr (Ty ''byte'')), (''domainSepTag_len'', Ty ''usize'')] (Ty ''()'')]"

definition bn254_snarks_g2_prj_hash_fns :: "rfun list" where
  "bn254_snarks_g2_prj_hash_fns = [
    RFun False ''ctt_bn254_snarks_g2_prj_svdw_sha256''
      [(''r'', MutPtr (Ty ''bn254_snarks_g2_prj'')), (''augmentation'', ConstPtr (Ty ''byte'')), (''augmentation_len'', Ty ''usize''), (''message'', ConstPtr (Ty ''byte'')), (''message_len'', Ty ''usize''), (''domainSepTag'', ConstPtr (Ty ''byte'')), (''domainSepTag_len'', Ty ''usize'')] (Ty ''()'')]"

definition bn254_snarks_g1_jac_parallel_fns :: "rfun list" where
  "bn254_snarks_g1_jac_parallel_fns = [
    RFun False ''ctt_bn254_snarks_g1_jac_multi_scalar_mul_big_coefs_vartime_parallel''
      [(''tp'', ConstPtr (Ty ''ctt_threadpool'')), (''r'', MutPtr (Ty ''bn254_snarks_g1_jac'')), (''coefs'', ConstPtr (Ty ''big254'')), (''points'', ConstPtr (Ty ''bn254_snarks_g1_aff'')), (''len'', Ty ''usize'')] (Ty ''()''),
    RFun False ''ctt_bn254_snarks_g1_jac_multi_scalar_mul_fr_coefs_vartime_parallel''
      [(''tp'', ConstPtr (Ty ''ctt_threadpool'')), (''r'', MutPtr (Ty ''bn254_snarks_g1_jac'')), (''coefs'', ConstPtr (Ty ''bn254_snarks_fr'')), (''points'', ConstPtr (Ty ''bn254_snarks_g1_aff'')), (''len'', Ty ''usize'')] (Ty ''()'')]"

definition bn254_snarks_g1_prj_parallel_fns :: "rfun list" where
  "bn254_snarks_g1_prj_parallel_fns = [
    RFun False ''ctt_bn254_snarks_g1_prj_multi_scalar_mul_big_coefs_vartime_parallel''
      [(''tp'', ConstPtr (Ty ''ctt_threadpool'')), (''r'', MutPtr (Ty ''bn254_snarks_g1_prj'')), (''coefs'', ConstPtr (Ty ''big254'')), (''points'', ConstPtr (Ty ''bn254_snarks_g1_aff'')), (''len'', Ty ''usize'')] (Ty ''()''),
    RFun False ''ctt_bn254_snarks_g1_prj_multi_scalar_mul_fr_coefs_vartime_parallel''
      [(''tp'', ConstPtr (Ty ''ctt_threadpool'')), (''r'', MutPtr (Ty ''bn254_snarks_g1_prj'')), (''coefs'', ConstPtr (Ty ''bn254_snarks_fr'')), (''points'', ConstPtr (Ty ''bn254_snarks_g1_aff'')), (''len'', Ty ''usize'')] (Ty ''()'')]"

end
