(* ===== verification/Bindings_Pasta.thy ===== *)
theory Bindings_Pasta
  imports C_Signatures
begin

text \<open>
  The foreign functions of \<^verbatim>\<open>constantine-sys/src/bindings64.rs\<close> for the Pallas and Vesta curves,
  one list per block of the file. \<^verbatim>\<open>bindings32.rs\<close> declares the same functions.
\<close>

definition pallas_fr_fns :: "rfun list" where
  "pallas_fr_fns = [
    RFun False ''ctt_big255_from_pallas_fr''
      [(''dst'', MutPtr (Ty ''big255'')), (''src'', ConstPtr (Ty ''pallas_fr''))] (Ty ''()''),
    RFun False ''ctt_pallas_fr_from_big255''
      [(''dst'', MutPtr (Ty ''pallas_fr'')), (''src'', ConstPtr (Ty ''big255''))] (Ty ''()''),
    RFun True ''ctt_pallas_fr_unmarshalBE''
      [(''dst'', MutPtr (Ty ''pallas_fr'')), (''src'', ConstPtr (Ty ''byte'')), (''src_len'', Ty ''usize'')] (Ty ''bool''),
    RFun True ''ctt_pallas_fr_marshalBE''
      [(''dst'', MutPtr (Ty ''byte'')), (''dst_len'', Ty ''usize''), (''src'', ConstPtr (Ty ''pallas_fr''))] (Ty ''bool''),
    RFun False ''ctt_pallas_fr_is_eq''
      [(''a'', ConstPtr (Ty ''pallas_fr'')), (''b'', ConstPtr (Ty ''pallas_fr''))] (Ty ''secret_bool''),
    RFun False ''ctt_pallas_fr_is_zero''
      [(''a'', ConstPtr (Ty ''pallas_fr''))] (Ty ''secret_bool''),
    RFun False ''ctt_pallas_fr_is_one''
      [(''a'', ConstPtr (Ty ''pallas_fr''))] (Ty ''secret_bool''),
    RFun False ''ctt_pallas_fr_is_minus_one''
      [(''a'', ConstPtr (Ty ''pallas_fr''))] (Ty ''secret_bool''),
    RFun False ''ctt_pallas_fr_set_zero''
      [(''a'', MutPtr (Ty ''pallas_fr''))] (Ty ''()''),
    RFun False ''ctt_pallas_fr_set_one''
      [(''a'', MutPtr (Ty ''pallas_fr''))] (Ty ''()''),
    RFun False ''ctt_pallas_fr_set_minus_one''
      [(''a'', MutPtr (Ty ''pallas_fr''))] (Ty ''()''),
    RFun False ''ctt_pallas_fr_neg''
      [(''r'', MutPtr (Ty ''pallas_fr'')), (''a'', ConstPtr (Ty ''pallas_fr''))] (Ty ''()''),
    RFun False ''ctt_pallas_fr_neg_in_place''
      [(''a'', MutPtr (Ty ''pallas_fr''))] (Ty ''()''),
    RFun False ''ctt_pallas_fr_sum''
      [(''r'', MutPtr (Ty ''pallas_fr'')), (''a'', ConstPtr (Ty ''pallas_fr'')), (''b'', ConstPtr (Ty ''pallas_fr''))] (Ty ''()''),
    RFun False ''ctt_pallas_fr_add_in_place''
      [(''a'', MutPtr (Ty ''pallas_fr'')), (''b'', ConstPtr (Ty ''pallas_fr''))] (Ty ''()''),
    RFun False ''ctt_pallas_fr_diff''
      [(''r'', MutPtr (Ty ''pallas_fr'')), (''a'', ConstPtr (Ty ''pallas_fr'')), (''b'', ConstPtr (Ty ''pallas_fr''))] (Ty ''()''),
    RFun False ''ctt_pallas_fr_sub_in_place''
      [(''a'', MutPtr (Ty ''pallas_fr'')), (''b'', ConstPtr (Ty ''pallas_fr''))] (Ty ''()''),
    RFun False ''ctt_pallas_fr_double''
      [(''r'', MutPtr (Ty ''pallas_fr'')), (''a'', ConstPtr (Ty ''pallas_fr''))] (Ty ''()''),
    RFun False ''ctt_pallas_fr_double_in_place''
      [(''a'', MutPtr (Ty ''pallas_fr''))] (Ty ''()''),
    RFun False ''ctt_pallas_fr_prod''
      [(''r'', MutPtr (Ty ''pallas_fr'')), (''a'', ConstPtr (Ty ''pallas_fr'')), (''b'', ConstPtr (Ty ''pallas_fr''))] (Ty ''()''),
    RFun False ''ctt_pallas_fr_mul_in_place''
      [(''a'', MutPtr (Ty ''pallas_fr'')), (''b'', ConstPtr (Ty ''pallas_fr''))] (Ty ''()''),
    RFun False ''ctt_pallas_fr_square''
      [(''r'', MutPtr (Ty ''pallas_fr'')), (''a'', ConstPtr (Ty ''pallas_fr''))] (Ty ''()''),
    RFun False ''ctt_pallas_fr_square_in_place''
      [(''a'', MutPtr (Ty ''pallas_fr''))] (Ty ''()''),
    RFun False ''ctt_pallas_fr_div2''
      [(''a'', MutPtr (Ty ''pallas_fr''))] (Ty ''()''),
    RFun False ''ctt_pallas_fr_inv''
      [(''r'', MutPtr (Ty ''pallas_fr'')), (''a'', ConstPtr (Ty ''pallas_fr''))] (Ty ''()''),
    RFun False ''ctt_pallas_fr_inv_in_place''
      [(''a'', MutPtr (Ty ''pallas_fr''))] (Ty ''()''),
    RFun False ''ctt_pallas_fr_ccopy''
      [(''a'', MutPtr (Ty ''pallas_fr'')), (''b'', ConstPtr (Ty ''pallas_fr'')), (''ctl'', Ty ''secret_bool'')] (Ty ''()''),
    RFun False ''ctt_pallas_fr_cswap''
      [(''a'', MutPtr (Ty ''pallas_fr'')), (''b'', MutPtr (Ty ''pallas_fr'')), (''ctl'', Ty ''secret_bool'')] (Ty ''()''),
    RFun False ''ctt_pallas_fr_cset_zero''
      [(''a'', MutPtr (Ty ''pallas_fr'')), (''ctl'', Ty ''secret_bool'')] (Ty ''()''),
    RFun False ''ctt_pallas_fr_cset_one''
      [(''a'', MutPtr (Ty ''pallas_fr'')), (''ctl'', Ty ''secret_bool'')] (Ty ''()''),
    RFun False ''ctt_pallas_fr_cneg_in_place''
      [(''a'', MutPtr (Ty ''pallas_fr'')), (''ctl'', Ty ''secret_bool'')] (Ty ''()''),
    RFun False ''ctt_pallas_fr_cadd_in_place''
      [(''a'', MutPtr (Ty ''pallas_fr'')), (''b'', ConstPtr (Ty ''pallas_fr'')), (''ctl'', Ty ''secret_bool'')] (Ty ''()''),
    RFun False ''ctt_pallas_fr_csub_in_place''
      [(''a'', MutPtr (Ty ''pallas_fr'')), (''b'', ConstPtr (Ty ''pallas_fr'')), (''ctl'', Ty ''secret_bool'')] (Ty ''()'')]"

definition pallas_fp_fns :: "rfun list" where
  "pallas_fp_fns = [
    RFun False ''ctt_big255_from_pallas_fp''
      [(''dst'', MutPtr (Ty ''big255'')), (''src'', ConstPtr (Ty ''pallas_fp''))] (Ty ''()''),
    RFun False ''ctt_pallas_fp_from_big255''
      [(''dst'', MutPtr (Ty ''pallas_fp'')), (''src'', ConstPtr (Ty ''big255''))] (Ty ''()''),
    RFun True ''ctt_pallas_fp_unmarshalBE''
      [(''dst'', MutPtr (Ty ''pallas_fp'')), (''src'', ConstPtr (Ty ''byte'')), (''src_len'', Ty ''usize'')] (Ty ''bool''),
    RFun True ''ctt_pallas_fp_marshalBE''
      [(''dst'', MutPtr (Ty ''byte'')), (''dst_len'', Ty ''usize''), (''src'', ConstPtr (Ty ''pallas_fp''))] (Ty ''bool''),
    RFun False ''ctt_pallas_fp_is_eq''
      [(''a'', ConstPtr (Ty ''pallas_fp'')), (''b'', ConstPtr (Ty ''pallas_fp''))] (Ty ''secret_bool''),
    RFun False ''ctt_pallas_fp_is_zero''
      [(''a'', ConstPtr (Ty ''pallas_fp''))] (Ty ''secret_bool''),
    RFun False ''ctt_pallas_fp_is_one''
      [(''a'', ConstPtr (Ty ''pallas_fp''))] (Ty ''secret_bool''),
    RFun False ''ctt_pallas_fp_is_minus_one''
      [(''a'', ConstPtr (Ty ''pallas_fp''))] (Ty ''secret_bool''),
    RFun False ''ctt_pallas_fp_set_zero''
      [(''a'', MutPtr (Ty ''pallas_fp''))] (Ty ''()''),
    RFun False ''ctt_pallas_fp_set_one''
      [(''a'', MutPtr (Ty ''pallas_fp''))] (Ty ''()''),
    RFun False ''ctt_pallas_fp_set_minus_one''
      [(''a'', MutPtr (Ty ''pallas_fp''))] (Ty ''()''),
    RFun False ''ctt_pallas_fp_neg''
      [(''r'', MutPtr (Ty ''pallas_fp'')), (''a'', ConstPtr (Ty ''pallas_fp''))] (Ty ''()''),
    RFun False ''ctt_pallas_fp_neg_in_place''
      [(''a'', MutPtr (Ty ''pallas_fp''))] (Ty ''()''),
    RFun False ''ctt_pallas_fp_sum''
      [(''r'', MutPtr (Ty ''pallas_fp'')), (''a'', ConstPtr (Ty ''pallas_fp'')), (''b'', ConstPtr (Ty ''pallas_fp''))] (Ty ''()''),
    RFun False ''ctt_pallas_fp_add_in_place''
      [(''a'', MutPtr (Ty ''pallas_fp'')), (''b'', ConstPtr (Ty ''pallas_fp''))] (Ty ''()''),
    RFun False ''ctt_pallas_fp_diff''
      [(''r'', MutPtr (Ty ''pallas_fp'')), (''a'', ConstPtr (Ty ''pallas_fp'')), (''b'', ConstPtr (Ty ''pallas_fp''))] (Ty ''()''),
    RFun False ''ctt_pallas_fp_sub_in_place''
      [(''a'', MutPtr (Ty ''pallas_fp'')), (''b'', ConstPtr (Ty ''pallas_fp''))] (Ty ''()''),
    RFun False ''ctt_pallas_fp_double''
      [(''r'', MutPtr (Ty ''pallas_fp'')), (''a'', ConstPtr (Ty ''pallas_fp''))] (Ty ''()''),
    RFun False ''ctt_pallas_fp_double_in_place''
      [(''a'', MutPtr (Ty ''pallas_fp''))] (Ty ''()''),
    RFun False ''ctt_pallas_fp_prod''
      [(''r'', MutPtr (Ty ''pallas_fp'')), (''a'', ConstPtr (Ty ''pallas_fp'')), (''b'', ConstPtr (Ty ''pallas_fp''))] (Ty ''()''),
    RFun False ''ctt_pallas_fp_mul_in_place''
      [(''a'', MutPtr (Ty ''pallas_fp'')), (''b'', ConstPtr (Ty ''pallas_fp''))] (Ty ''()''),
    RFun False ''ctt_pallas_fp_square''
      [(''r'', MutPtr (Ty ''pallas_fp'')), (''a'', ConstPtr (Ty ''pallas_fp''))] (Ty ''()''),
    RFun False ''ctt_pallas_fp_square_in_place''
      [(''a'', MutPtr (Ty ''pallas_fp''))] (Ty ''()''),
    RFun False ''ctt_pallas_fp_div2''
      [(''a'', MutPtr (Ty ''pallas_fp''))] (Ty ''()''),
    RFun False ''ctt_pallas_fp_inv''
      [(''r'', MutPtr (Ty ''pallas_fp'')), (''a'', ConstPtr (Ty ''pallas_fp''))] (Ty ''()''),
    RFun False ''ctt_pallas_fp_inv_in_place''
      [(''a'', MutPtr (Ty ''pallas_fp''))] (Ty ''()''),
    RFun False ''ctt_pallas_fp_ccopy''
      [(''a'', MutPtr (Ty ''pallas_fp'')), (''b'', ConstPtr (Ty ''pallas_fp'')), (''ctl'', Ty ''secret_bool'')] (Ty ''()''),
    RFun False ''ctt_pallas_fp_cswap''
      [(''a'', MutPtr (Ty ''pallas_fp'')), (''b'', MutPtr (Ty ''pallas_fp'')), (''ctl'', Ty ''secret_bool'')] (Ty ''()''),
    RFun False ''ctt_pallas_fp_cset_zero''
      [(''a'', MutPtr (Ty ''pallas_fp'')), (''ctl'', Ty ''secret_bool'')] (Ty ''()''),
    RFun False ''ctt_pallas_fp_cset_one''
      [(''a'', MutPtr (Ty ''pallas_fp'')), (''ctl'', Ty ''secret_bool'')] (Ty ''()''),
    RFun False ''ctt_pallas_fp_cneg_in_place''
      [(''a'', MutPtr (Ty ''pallas_fp'')), (''ctl'', Ty ''secret_bool'')] (Ty ''()''),
    RFun False ''ctt_pallas_fp_cadd_in_place''
      [(''a'', MutPtr (Ty ''pallas_fp'')), (''b'', ConstPtr (Ty ''pallas_fp'')), (''ctl'', Ty ''secret_bool'')] (Ty ''()''),
    RFun False ''ctt_pallas_fp_csub_in_place''
      [(''a'', MutPtr (Ty ''pallas_fp'')), (''b'', ConstPtr (Ty ''pallas_fp'')), (''ctl'', Ty ''secret_bool'')] (Ty ''()'')]"

definition pallas_fp_sqrt_fns :: "rfun list" where
  "pallas_fp_sqrt_fns = [
    RFun False ''ctt_pallas_fp_is_square''
      [(''a'', ConstPtr (Ty ''pallas_fp''))] (Ty ''secret_bool''),
    RFun False ''ctt_pallas_fp_invsqrt''
      [(''r'', MutPtr (Ty ''pallas_fp'')), (''a'', ConstPtr (Ty ''pallas_fp''))] (Ty ''()''),
    RFun False ''ctt_pallas_fp_invsqrt_in_place''
      [(''r'', MutPtr (Ty ''pallas_fp'')), (''a'', ConstPtr (Ty ''pallas_fp''))] (Ty ''secret_bool''),
    RFun False ''ctt_pallas_fp_sqrt_in_place''
      [(''a'', MutPtr (Ty ''pallas_fp''))] (Ty ''()''),
    RFun False ''ctt_pallas_fp_sqrt_if_square_in_place''
      [(''a'', MutPtr (Ty ''pallas_fp''))] (Ty ''secret_bool''),
    RFun False ''ctt_pallas_fp_sqrt_invsqrt''
      [(''sqrt'', MutPtr (Ty ''pallas_fp'')), (''invsqrt'', MutPtr (Ty ''pallas_fp'')), (''a'', ConstPtr (Ty ''pallas_fp''))] (Ty ''()''),
    RFun False ''ctt_pallas_fp_sqrt_invsqrt_if_square''
      [(''sqrt'', MutPtr (Ty ''pallas_fp'')), (''invsqrt'', MutPtr (Ty ''pallas_fp'')), (''a'', ConstPtr (Ty ''pallas_fp''))] (Ty ''secret_bool''),
    RFun False ''ctt_pallas_fp_sqrt_ratio_if_square''
      [(''r'', MutPtr (Ty ''pallas_fp'')), (''u'', ConstPtr (Ty ''pallas_fp'')), (''v'', ConstPtr (Ty ''pallas_fp''))] (Ty ''secret_bool'')]"

definition pallas_ec_aff_fns :: "rfun list" where
  "pallas_ec_aff_fns = [
    RFun False ''ctt_pallas_ec_aff_is_eq''
      [(''P'', ConstPtr (Ty ''pallas_ec_aff'')), (''Q'', ConstPtr (Ty ''pallas_ec_aff''))] (Ty ''secret_bool''),
    RFun False ''ctt_pallas_ec_aff_is_neutral''
      [(''P'', ConstPtr (Ty ''pallas_ec_aff''))] (Ty ''secret_bool''),
    RFun False ''ctt_pallas_ec_aff_set_neutral''
      [(''P'', MutPtr (Ty ''pallas_ec_aff''))] (Ty ''()''),
    RFun False ''ctt_pallas_ec_aff_ccopy''
      [(''P'', MutPtr (Ty ''pallas_ec_aff'')), (''Q'', ConstPtr (Ty ''pallas_ec_aff'')), (''ctl'', Ty ''secret_bool'')] (Ty ''()''),
    RFun False ''ctt_pallas_ec_aff_is_on_curve''
      [(''x'', ConstPtr (Ty ''pallas_fp'')), (''y'', ConstPtr (Ty ''pallas_fp''))] (Ty ''secret_bool''),
    RFun False ''ctt_pallas_ec_aff_neg''
      [(''P'', MutPtr (Ty ''pallas_ec_aff'')), (''Q'', ConstPtr (Ty ''pallas_ec_aff''))] (Ty ''()''),
    RFun False ''ctt_pallas_ec_aff_neg_in_place''
      [(''P'', MutPtr (Ty ''pallas_ec_aff''))] (Ty ''()'')]"

definition pallas_ec_jac_fns :: "rfun list" where
  "pallas_ec_jac_fns = [
    RFun False ''ctt_pallas_ec_jac_is_eq''
      [(''P'', ConstPtr (Ty ''pallas_ec_jac'')), (''Q'', ConstPtr (Ty ''pallas_ec_jac''))] (Ty ''secret_bool''),
    RFun False ''ctt_pallas_ec_jac_is_neutral''
      [(''P'', ConstPtr (Ty ''pallas_ec_jac''))] (Ty ''secret_bool''),
    RFun False ''ctt_pallas_ec_jac_set_neutral''
      [(''P'', MutPtr (Ty ''pallas_ec_jac''))] (Ty ''()''),
    RFun False ''ctt_pallas_ec_jac_ccopy''
      [(''P'', MutPtr (Ty ''pallas_ec_jac'')), (''Q'', ConstPtr (Ty ''pallas_ec_jac'')), (''ctl'', Ty ''secret_bool'')] (Ty ''()''),
    RFun False ''ctt_pallas_ec_jac_neg''
      [(''P'', MutPtr (Ty ''pallas_ec_jac'')), (''Q'', ConstPtr (Ty ''pallas_ec_jac''))] (Ty ''()''),
    RFun False ''ctt_pallas_ec_jac_neg_in_place''
      [(''P'', MutPtr (Ty ''pallas_ec_jac''))] (Ty ''()''),
    RFun False ''ctt_pallas_ec_jac_cneg_in_place''
      [(''P'', MutPtr (Ty ''pallas_ec_jac'')), (''ctl'', Ty ''secret_bool'')] (Ty ''()''),
    RFun False ''ctt_pallas_ec_jac_sum''
      [(''r'', MutPtr (Ty ''pallas_ec_jac'')), (''P'', ConstPtr (Ty ''pallas_ec_jac'')), (''Q'', ConstPtr (Ty ''pallas_ec_jac''))] (Ty ''()''),
    RFun False ''ctt_pallas_ec_jac_add_in_place''
      [(''P'', MutPtr (Ty ''pallas_ec_jac'')), (''Q'', ConstPtr (Ty ''pallas_ec_jac''))] (Ty ''()''),
    RFun False ''ctt_pallas_ec_jac_diff''
      [(''r'', MutPtr (Ty ''pallas_ec_jac'')), (''P'', ConstPtr (Ty ''pallas_ec_jac'')), (''Q'', ConstPtr (Ty ''pallas_ec_jac''))] (Ty ''()''),
    RFun False ''ctt_pallas_ec_jac_double''
      [(''r'', MutPtr (Ty ''pallas_ec_jac'')), (''P'', ConstPtr (Ty ''pallas_ec_jac''))] (Ty ''()''),
    RFun False ''ctt_pallas_ec_jac_double_in_place''
      [(''P'', MutPtr (Ty ''pallas_ec_jac''))] (Ty ''()''),
    RFun False ''ctt_pallas_ec_jac_affine''
      [(''dst'', MutPtr (Ty ''pallas_ec_aff'')), (''src'', ConstPtr (Ty ''pallas_ec_jac''))] (Ty ''()''),
    RFun False ''ctt_pallas_ec_jac_from_affine''
      [(''dst'', MutPtr (Ty ''pallas_ec_jac'')), (''src'', ConstPtr (Ty ''pallas_ec_aff''))] (Ty ''()''),
    RFun False ''ctt_pallas_ec_jac_batch_affine''
      [(''dst'', ConstPtr (Ty ''pallas_ec_aff'')), (''src'', ConstPtr (Ty ''pallas_ec_jac'')), (''n'', Ty ''usize'')] (Ty ''()''),
    RFun False ''ctt_pallas_ec_jac_scalar_mul_big_coef''
      [(''P'', MutPtr (Ty ''pallas_ec_jac'')), (''scalar'', ConstPtr (Ty ''big255''))] (Ty ''()''),
    RFun False ''ctt_pallas_ec_jac_scalar_mul_fr_coef''
      [(''P'', MutPtr (Ty ''pallas_ec_jac'')), (''scalar'', ConstPtr (Ty ''pallas_fr''))] (Ty ''()''),
    RFun False ''ctt_pallas_ec_jac_scalar_mul_big_coef_vartime''
      [(''P'', MutPtr (Ty ''pallas_ec_jac'')), (''scalar'', ConstPtr (Ty ''big255''))] (Ty ''()''),
    RFun False ''ctt_pallas_ec_jac_scalar_mul_fr_coef_vartime''
      [(''P'', MutPtr (Ty ''pallas_ec_jac'')), (''scalar'', ConstPtr (Ty ''pallas_fr''))] (Ty ''()''),
    RFun False ''ctt_pallas_ec_jac_multi_scalar_mul_big_coefs_vartime''
      [(''r'', MutPtr (Ty ''pallas_ec_jac'')), (''coefs'', ConstPtr (Ty ''big255'')), (''points'', ConstPtr (Ty ''pallas_ec_aff'')), (''len'', Ty ''usize'')] (Ty ''()''),
    RFun False ''ctt_pallas_ec_jac_multi_scalar_mul_fr_coefs_vartime''
      [(''r'', MutPtr (Ty ''pallas_ec_jac'')), (''coefs'', ConstPtr (Ty ''pallas_fr'')), (''points'', ConstPtr (Ty ''pallas_ec_aff'')), (''len'', Ty ''usize'')] (Ty ''()'')]"

definition pallas_ec_prj_fns :: "rfun list" where
  "pallas_ec_prj_fns = [
    RFun False ''ctt_pallas_ec_prj_is_eq''
      [(''P'', ConstPtr (Ty ''pallas_ec_prj'')), (''Q'', ConstPtr (Ty ''pallas_ec_prj''))] (Ty ''secret_bool''),
    RFun False ''ctt_pallas_ec_prj_is_neutral''
      [(''P'', ConstPtr (Ty ''pallas_ec_prj''))] (Ty ''secret_bool''),
    RFun False ''ctt_pallas_ec_prj_set_neutral''
      [(''P'', MutPtr (Ty ''pallas_ec_prj''))] (Ty ''()''),
    RFun False ''ctt_pallas_ec_prj_ccopy''
      [(''P'', MutPtr (Ty ''pallas_ec_prj'')), (''Q'', ConstPtr (Ty ''pallas_ec_prj'')), (''ctl'', Ty ''secret_bool'')] (Ty ''()''),
    RFun False ''ctt_pallas_ec_prj_neg''
      [(''P'', MutPtr (Ty ''pallas_ec_prj'')), (''Q'', ConstPtr (Ty ''pallas_ec_prj''))] (Ty ''()''),
    RFun False ''ctt_pallas_ec_prj_neg_in_place''
      [(''P'', MutPtr (Ty ''pallas_ec_prj''))] (Ty ''()''),
    RFun False ''ctt_pallas_ec_prj_cneg_in_place''
      [(''P'', MutPtr (Ty ''pallas_ec_prj'')), (''ctl'', Ty ''secret_bool'')] (Ty ''()''),
    RFun False ''ctt_pallas_ec_prj_sum''
      [(''r'', MutPtr (Ty ''pallas_ec_prj'')), (''P'', ConstPtr (Ty ''pallas_ec_prj'')), (''Q'', ConstPtr (Ty ''pallas_ec_prj''))] (Ty ''()''),
    RFun False ''ctt_pallas_ec_prj_add_in_place''
      [(''P'', MutPtr (Ty ''pallas_ec_prj'')), (''Q'', ConstPtr (Ty ''pallas_ec_prj''))] (Ty ''()''),
    RFun False ''ctt_pallas_ec_prj_diff''
      [(''r'', MutPtr (Ty ''pallas_ec_prj'')), (''P'', ConstPtr (Ty ''pallas_ec_prj'')), (''Q'', ConstPtr (Ty ''pallas_ec_prj''))] (Ty ''()''),
    RFun False ''ctt_pallas_ec_prj_double''
      [(''r'', MutPtr (Ty ''pallas_ec_prj'')), (''P'', ConstPtr (Ty ''pallas_ec_prj''))] (Ty ''()''),
    RFun False ''ctt_pallas_ec_prj_double_in_place''
      [(''P'', MutPtr (Ty ''pallas_ec_prj''))] (Ty ''()''),
    RFun False ''ctt_pallas_ec_prj_affine''
      [(''dst'', MutPtr (Ty ''pallas_ec_aff'')), (''src'', ConstPtr (Ty ''pallas_ec_prj''))] (Ty ''()''),
    RFun False ''ctt_pallas_ec_prj_from_affine''
      [(''dst'', MutPtr (Ty ''pallas_ec_prj'')), (''src'', ConstPtr (Ty ''pallas_ec_aff''))] (Ty ''()''),
    RFun False ''ctt_pallas_ec_prj_batch_affine''
      [(''dst'', ConstPtr (Ty ''pallas_ec_aff'')), (''src'', ConstPtr (Ty ''pallas_ec_prj'')), (''n'', Ty ''usize'')] (Ty ''()''),
    RFun False ''ctt_pallas_ec_prj_scalar_mul_big_coef''
      [(''P'', MutPtr (Ty ''pallas_ec_prj'')), (''scalar'', ConstPtr (Ty ''big255''))] (Ty ''()''),
    RFun False ''ctt_pallas_ec_prj_scalar_mul_fr_coef''
      [(''P'', MutPtr (Ty ''pallas_ec_prj'')), (''scalar'', ConstPtr (Ty ''pallas_fr''))] (Ty ''()''),
    RFun False ''ctt_pallas_ec_prj_scalar_mul_big_coef_vartime''
      [(''P'', MutPtr (Ty ''pallas_ec_prj'')), (''scalar'', ConstPtr (Ty ''big255''))] (Ty ''()''),
    RFun False ''ctt_pallas_ec_prj_scalar_mul_fr_coef_vartime''
      [(''P'', MutPtr (Ty ''pallas_ec_prj'')), (''scalar'', ConstPtr (Ty ''pallas_fr''))] (Ty ''()''),
    RFun False ''ctt_pallas_ec_prj_multi_scalar_mul_big_coefs_vartime''
      [(''r'', MutPtr (Ty ''pallas_ec_prj'')), (''coefs'', ConstPtr (Ty ''big255'')), (''points'', ConstPtr (Ty ''pallas_ec_aff'')), (''len'', Ty ''usize'')] (Ty ''()''),
    RFun False ''ctt_pallas_ec_prj_multi_scalar_mul_fr_coefs_vartime''
      [(''r'', MutPtr (Ty ''pallas_ec_prj'')), (''coefs'', ConstPtr (Ty ''pallas_fr'')), (''points'', ConstPtr (Ty ''pallas_ec_aff'')), (''len'', Ty ''usize'')] (Ty ''()'')]"

definition pallas_ec_jac_parallel_fns :: "rfun list" where
  "pallas_ec_jac_parallel_fns = [
    RFun False ''ctt_pallas_ec_jac_multi_scalar_mul_big_coefs_vartime_parallel''
      [(''tp'', ConstPtr (Ty ''ctt_threadpool'')), (''r'', MutPtr (Ty ''pallas_ec_jac'')), (''coefs'', ConstPtr (Ty ''big255'')), (''points'', ConstPtr (Ty ''pallas_ec_aff'')), (''len'', Ty ''usize'')] (Ty ''()''),
    RFun False ''ctt_pallas_ec_jac_multi_scalar_mul_fr_coefs_vartime_parallel''
      [(''tp'', ConstPtr (Ty ''ctt_threadpool'')), (''r'', MutPtr (Ty ''pallas_ec_jac'')), (''coefs'', ConstPtr (Ty ''pallas_fr'')), (''points'', ConstPtr (Ty ''pallas_ec_aff'')), (''len'', Ty ''usize'')] (Ty ''()'')]"

definition pallas_ec_prj_parallel_fns :: "rfun list" where
  "pallas_ec_prj_parallel_fns = [
    RFun False ''ctt_pallas_ec_prj_multi_scalar_mul_big_coefs_vartime_parallel''
      [(''tp'', ConstPtr (Ty ''ctt_threadpool'')), (''r'', MutPtr (Ty ''pallas_ec_prj'')), (''coefs'', ConstPtr (Ty ''big255'')), (''points'', ConstPtr (Ty ''pallas_ec_aff'')), (''len'', Ty ''usize'')] (Ty ''()''),
    RFun False ''ctt_pallas_ec_prj_multi_scalar_mul_fr_coefs_vartime_parallel''
      [(''tp'', ConstPtr (Ty ''ctt_threadpool'')), (''r'', MutPtr (Ty ''pallas_ec_prj'')), (''coefs'', ConstPtr (Ty ''pallas_fr'')), (''points'', ConstPtr (Ty ''pallas_ec_aff'')), (''len'', Ty ''usize'')] (Ty ''()'')]"

definition vesta_fr_fns :: "rfun list" where
  "vesta_fr_fns = [
    RFun False ''ctt_big255_from_vesta_fr''
      [(''dst'', MutPtr (Ty ''big255'')), (''src'', ConstPtr (Ty ''vesta_fr''))] (Ty ''()''),
    RFun False ''ctt_vesta_fr_from_big255''
      [(''dst'', MutPtr (Ty ''vesta_fr'')), (''src'', ConstPtr (Ty ''big255''))] (Ty ''()''),
    RFun True ''ctt_vesta_fr_unmarshalBE''
      [(''dst'', MutPtr (Ty ''vesta_fr'')), (''src'', ConstPtr (Ty ''byte'')), (''src_len'', Ty ''usize'')] (Ty ''bool''),
    RFun True ''ctt_vesta_fr_marshalBE''
      [(''dst'', MutPtr (Ty ''byte'')), (''dst_len'', Ty ''usize''), (''src'', ConstPtr (Ty ''vesta_fr''))] (Ty ''bool''),
    RFun False ''ctt_vesta_fr_is_eq''
      [(''a'', ConstPtr (Ty ''vesta_fr'')), (''b'', ConstPtr (Ty ''vesta_fr''))] (Ty ''secret_bool''),
    RFun False ''ctt_vesta_fr_is_zero''
      [(''a'', ConstPtr (Ty ''vesta_fr''))] (Ty ''secret_bool''),
    RFun False ''ctt_vesta_fr_is_one''
      [(''a'', ConstPtr (Ty ''vesta_fr''))] (Ty ''secret_bool''),
    RFun False ''ctt_vesta_fr_is_minus_one''
      [(''a'', ConstPtr (Ty ''vesta_fr''))] (Ty ''secret_bool''),
    RFun False ''ctt_vesta_fr_set_zero''
      [(''a'', MutPtr (Ty ''vesta_fr''))] (Ty ''()''),
    RFun False ''ctt_vesta_fr_set_one''
      [(''a'', MutPtr (Ty ''vesta_fr''))] (Ty ''()''),
    RFun False ''ctt_vesta_fr_set_minus_one''
      [(''a'', MutPtr (Ty ''vesta_fr''))] (Ty ''()''),
    RFun False ''ctt_vesta_fr_neg''
      [(''r'', MutPtr (Ty ''vesta_fr'')), (''a'', ConstPtr (Ty ''vesta_fr''))] (Ty ''()''),
    RFun False ''ctt_vesta_fr_neg_in_place''
      [(''a'', MutPtr (Ty ''vesta_fr''))] (Ty ''()''),
    RFun False ''ctt_vesta_fr_sum''
      [(''r'', MutPtr (Ty ''vesta_fr'')), (''a'', ConstPtr (Ty ''vesta_fr'')), (''b'', ConstPtr (Ty ''vesta_fr''))] (Ty ''()''),
    RFun False ''ctt_vesta_fr_add_in_place''
      [(''a'', MutPtr (Ty ''vesta_fr'')), (''b'', ConstPtr (Ty ''vesta_fr''))] (Ty ''()''),
    RFun False ''ctt_vesta_fr_diff''
      [(''r'', MutPtr (Ty ''vesta_fr'')), (''a'', ConstPtr (Ty ''vesta_fr'')), (''b'', ConstPtr (Ty ''vesta_fr''))] (Ty ''()''),
    RFun False ''ctt_vesta_fr_sub_in_place''
      [(''a'', MutPtr (Ty ''vesta_fr'')), (''b'', ConstPtr (Ty ''vesta_fr''))] (Ty ''()''),
    RFun False ''ctt_vesta_fr_double''
      [(''r'', MutPtr (Ty ''vesta_fr'')), (''a'', ConstPtr (Ty ''vesta_fr''))] (Ty ''()''),
    RFun False ''ctt_vesta_fr_double_in_place''
      [(''a'', MutPtr (Ty ''vesta_fr''))] (Ty ''()''),
    RFun False ''ctt_vesta_fr_prod''
      [(''r'', MutPtr (Ty ''vesta_fr'')), (''a'', ConstPtr (Ty ''vesta_fr'')), (''b'', ConstPtr (Ty ''vesta_fr''))] (Ty ''()''),
    RFun False ''ctt_vesta_fr_mul_in_place''
      [(''a'', MutPtr (Ty ''vesta_fr'')), (''b'', ConstPtr (Ty ''vesta_fr''))] (Ty ''()''),
    RFun False ''ctt_vesta_fr_square''
      [(''r'', MutPtr (Ty ''vesta_fr'')), (''a'', ConstPtr (Ty ''vesta_fr''))] (Ty ''()''),
    RFun False ''ctt_vesta_fr_square_in_place''
      [(''a'', MutPtr (Ty ''vesta_fr''))] (Ty ''()''),
    RFun False ''ctt_vesta_fr_div2''
      [(''a'', MutPtr (Ty ''vesta_fr''))] (Ty ''()''),
    RFun False ''ctt_vesta_fr_inv''
      [(''r'', MutPtr (Ty ''vesta_fr'')), (''a'', ConstPtr (Ty ''vesta_fr''))] (Ty ''()''),
    RFun False ''ctt_vesta_fr_inv_in_place''
      [(''a'', MutPtr (Ty ''vesta_fr''))] (Ty ''()''),
    RFun False ''ctt_vesta_fr_ccopy''
      [(''a'', MutPtr (Ty ''vesta_fr'')), (''b'', ConstPtr (Ty ''vesta_fr'')), (''ctl'', Ty ''secret_bool'')] (Ty ''()''),
    RFun False ''ctt_vesta_fr_cswap''
      [(''a'', MutPtr (Ty ''vesta_fr'')), (''b'', MutPtr (Ty ''vesta_fr'')), (''ctl'', Ty ''secret_bool'')] (Ty ''()''),
    RFun False ''ctt_vesta_fr_cset_zero''
      [(''a'', MutPtr (Ty ''vesta_fr'')), (''ctl'', Ty ''secret_bool'')] (Ty ''()''),
    RFun False ''ctt_vesta_fr_cset_one''
      [(''a'', MutPtr (Ty ''vesta_fr'')), (''ctl'', Ty ''secret_bool'')] (Ty ''()''),
    RFun False ''ctt_vesta_fr_cneg_in_place''
      [(''a'', MutPtr (Ty ''vesta_fr'')), (''ctl'', Ty ''secret_bool'')] (Ty ''()''),
    RFun False ''ctt_vesta_fr_cadd_in_place''
      [(''a'', MutPtr (Ty ''vesta_fr'')), (''b'', ConstPtr (Ty ''vesta_fr'')), (''ctl'', Ty ''secret_bool'')] (Ty ''()''),
    RFun False ''ctt_vesta_fr_csub_in_place''
      [(''a'', MutPtr (Ty ''vesta_fr'')), (''b'', ConstPtr (Ty ''vesta_fr'')), (''ctl'', Ty ''secret_bool'')] (Ty ''()'')]"

definition vesta_fp_fns :: "rfun list" where
  "vesta_fp_fns = [
    RFun False ''ctt_big255_from_vesta_fp''
      [(''dst'', MutPtr (Ty ''big255'')), (''src'', ConstPtr (Ty ''vesta_fp''))] (Ty ''()''),
    RFun False ''ctt_vesta_fp_from_big255''
      [(''dst'', MutPtr (Ty ''vesta_fp'')), (''src'', ConstPtr (Ty ''big255''))] (Ty ''()''),
    RFun True ''ctt_vesta_fp_unmarshalBE''
      [(''dst'', MutPtr (Ty ''vesta_fp'')), (''src'', ConstPtr (Ty ''byte'')), (''src_len'', Ty ''usize'')] (Ty ''bool''),
    RFun True ''ctt_vesta_fp_marshalBE''
      [(''dst'', MutPtr (Ty ''byte'')), (''dst_len'', Ty ''usize''), (''src'', ConstPtr (Ty ''vesta_fp''))] (Ty ''bool''),
    RFun False ''ctt_vesta_fp_is_eq''
      [(''a'', ConstPtr (Ty ''vesta_fp'')), (''b'', ConstPtr (Ty ''vesta_fp''))] (Ty ''secret_bool''),
    RFun False ''ctt_vesta_fp_is_zero''
      [(''a'', ConstPtr (Ty ''vesta_fp''))] (Ty ''secret_bool''),
    RFun False ''ctt_vesta_fp_is_one''
      [(''a'', ConstPtr (Ty ''vesta_fp''))] (Ty ''secret_bool''),
    RFun False ''ctt_vesta_fp_is_minus_one''
      [(''a'', ConstPtr (Ty ''vesta_fp''))] (Ty ''secret_bool''),
    RFun False ''ctt_vesta_fp_set_zero''
      [(''a'', MutPtr (Ty ''vesta_fp''))] (Ty ''()''),
    RFun False ''ctt_vesta_fp_set_one''
      [(''a'', MutPtr (Ty ''vesta_fp''))] (Ty ''()''),
    RFun False ''ctt_vesta_fp_set_minus_one''
      [(''a'', MutPtr (Ty ''vesta_fp''))] (Ty ''()''),
    RFun False ''ctt_vesta_fp_neg''
      [(''r'', MutPtr (Ty ''vesta_fp'')), (''a'', ConstPtr (Ty ''vesta_fp''))] (Ty ''()''),
    RFun False ''ctt_vesta_fp_neg_in_place''
      [(''a'', MutPtr (Ty ''vesta_fp''))] (Ty ''()''),
    RFun False ''ctt_vesta_fp_sum''
      [(''r'', MutPtr (Ty ''vesta_fp'')), (''a'', ConstPtr (Ty ''vesta_fp'')), (''b'', ConstPtr (Ty ''vesta_fp''))] (Ty ''()''),
    RFun False ''ctt_vesta_fp_add_in_place''
      [(''a'', MutPtr (Ty ''vesta_fp'')), (''b'', ConstPtr (Ty ''vesta_fp''))] (Ty ''()''),
    RFun False ''ctt_vesta_fp_diff''
      [(''r'', MutPtr (Ty ''vesta_fp'')), (''a'', ConstPtr (Ty ''vesta_fp'')), (''b'', ConstPtr (Ty ''vesta_fp''))] (Ty ''()''),
    RFun False ''ctt_vesta_fp_sub_in_place''
      [(''a'', MutPtr (Ty ''vesta_fp'')), (''b'', ConstPtr (Ty ''vesta_fp''))] (Ty ''()''),
    RFun False ''ctt_vesta_fp_double''
      [(''r'', MutPtr (Ty ''vesta_fp'')), (''a'', ConstPtr (Ty ''vesta_fp''))] (Ty ''()''),
    RFun False ''ctt_vesta_fp_double_in_place''
      [(''a'', MutPtr (Ty ''vesta_fp''))] (Ty ''()''),
    RFun False ''ctt_vesta_fp_prod''
      [(''r'', MutPtr (Ty ''vesta_fp'')), (''a'', ConstPtr (Ty ''vesta_fp'')), (''b'', ConstPtr (Ty ''vesta_fp''))] (Ty ''()''),
    RFun False ''ctt_vesta_fp_mul_in_place''
      [(''a'', MutPtr (Ty ''vesta_fp'')), (''b'', ConstPtr (Ty ''vesta_fp''))] (Ty ''()''),
    RFun False ''ctt_vesta_fp_square''
      [(''r'', MutPtr (Ty ''vesta_fp'')), (''a'', ConstPtr (Ty ''vesta_fp''))] (Ty ''()''),
    RFun False ''ctt_vesta_fp_square_in_place''
      [(''a'', MutPtr (Ty ''vesta_fp''))] (Ty ''()''),
    RFun False ''ctt_vesta_fp_div2''
      [(''a'', MutPtr (Ty ''vesta_fp''))] (Ty ''()''),
    RFun False ''ctt_vesta_fp_inv''
      [(''r'', MutPtr (Ty ''vesta_fp'')), (''a'', ConstPtr (Ty ''vesta_fp''))] (Ty ''()''),
    RFun False ''ctt_vesta_fp_inv_in_place''
      [(''a'', MutPtr (Ty ''vesta_fp''))] (Ty ''()''),
    RFun False ''ctt_vesta_fp_ccopy''
      [(''a'', MutPtr (Ty ''vesta_fp'')), (''b'', ConstPtr (Ty ''vesta_fp'')), (''ctl'', Ty ''secret_bool'')] (Ty ''()''),
    RFun False ''ctt_vesta_fp_cswap''
      [(''a'', MutPtr (Ty ''vesta_fp'')), (''b'', MutPtr (Ty ''vesta_fp'')), (''ctl'', Ty ''secret_bool'')] (Ty ''()''),
    RFun False ''ctt_vesta_fp_cset_zero''
      [(''a'', MutPtr (Ty ''vesta_fp'')), (''ctl'', Ty ''secret_bool'')] (Ty ''()''),
    RFun False ''ctt_vesta_fp_cset_one''
      [(''a'', MutPtr (Ty ''vesta_fp'')), (''ctl'', Ty ''secret_bool'')] (Ty ''()''),
    RFun False ''ctt_vesta_fp_cneg_in_place''
      [(''a'', MutPtr (Ty ''vesta_fp'')), (''ctl'', Ty ''secret_bool'')] (Ty ''()''),
    RFun False ''ctt_vesta_fp_cadd_in_place''
      [(''a'', MutPtr (Ty ''vesta_fp'')), (''b'', ConstPtr (Ty ''vesta_fp'')), (''ctl'', Ty ''secret_bool'')] (Ty ''()''),
    RFun False ''ctt_vesta_fp_csub_in_place''
      [(''a'', MutPtr (Ty ''vesta_fp'')), (''b'', ConstPtr (Ty ''vesta_fp'')), (''ctl'', Ty ''secret_bool'')] (Ty ''()'')]"

definition vesta_fp_sqrt_fns :: "rfun list" where
  "vesta_fp_sqrt_fns = [
    RFun False ''ctt_vesta_fp_is_square''
      [(''a'', ConstPtr (Ty ''vesta_fp''))] (Ty ''secret_bool''),
    RFun False ''ctt_vesta_fp_invsqrt''
      [(''r'', MutPtr (Ty ''vesta_fp'')), (''a'', ConstPtr (Ty ''vesta_fp''))] (Ty ''()''),
    RFun False ''ctt_vesta_fp_invsqrt_in_place''
      [(''r'', MutPtr (Ty ''vesta_fp'')), (''a'', ConstPtr (Ty ''vesta_fp''))] (Ty ''secret_bool''),
    RFun False ''ctt_vesta_fp_sqrt_in_place''
      [(''a'', MutPtr (Ty ''vesta_fp''))] (Ty ''()''),
    RFun False ''ctt_vesta_fp_sqrt_if_square_in_place''
      [(''a'', MutPtr (Ty ''vesta_fp''))] (Ty ''secret_bool''),
    RFun False ''ctt_vesta_fp_sqrt_invsqrt''
      [(''sqrt'', MutPtr (Ty ''vesta_fp'')), (''invsqrt'', MutPtr (Ty ''vesta_fp'')), (''a'', ConstPtr (Ty ''vesta_fp''))] (Ty ''()''),
    RFun False ''ctt_vesta_fp_sqrt_invsqrt_if_square''
      [(''sqrt'', MutPtr (Ty ''vesta_fp'')), (''invsqrt'', MutPtr (Ty ''vesta_fp'')), (''a'', ConstPtr (Ty ''vesta_fp''))] (Ty ''secret_bool''),
    RFun False ''ctt_vesta_fp_sqrt_ratio_if_square''
      [(''r'', MutPtr (Ty ''vesta_fp'')), (''u'', ConstPtr (Ty ''vesta_fp'')), (''v'', ConstPtr (Ty ''vesta_fp''))] (Ty ''secret_bool'')]"

definition vesta_ec_aff_fns :: "rfun list" where
  "vesta_ec_aff_fns = [
    RFun False ''ctt_vesta_ec_aff_is_eq''
      [(''P'', ConstPtr (Ty ''vesta_ec_aff'')), (''Q'', ConstPtr (Ty ''vesta_ec_aff''))] (Ty ''secret_bool''),
    RFun False ''ctt_vesta_ec_aff_is_neutral''
      [(''P'', ConstPtr (Ty ''vesta_ec_aff''))] (Ty ''secret_bool''),
    RFun False ''ctt_vesta_ec_aff_set_neutral''
      [(''P'', MutPtr (Ty ''vesta_ec_aff''))] (Ty ''()''),
    RFun False ''ctt_vesta_ec_aff_ccopy''
      [(''P'', MutPtr (Ty ''vesta_ec_aff'')), (''Q'', ConstPtr (Ty ''vesta_ec_aff'')), (''ctl'', Ty ''secret_bool'')] (Ty ''()''),
    RFun False ''ctt_vesta_ec_aff_is_on_curve''
      [(''x'', ConstPtr (Ty ''vesta_fp'')), (''y'', ConstPtr (Ty ''vesta_fp''))] (Ty ''secret_bool''),
    RFun False ''ctt_vesta_ec_aff_neg''
      [(''P'', MutPtr (Ty ''vesta_ec_aff'')), (''Q'', ConstPtr (Ty ''vesta_ec_aff''))] (Ty ''()''),
    RFun False ''ctt_vesta_ec_aff_neg_in_place''
      [(''P'', MutPtr (Ty ''vesta_ec_aff''))] (Ty ''()'')]"

definition vesta_ec_jac_fns :: "rfun list" where
  "vesta_ec_jac_fns = [
    RFun False ''ctt_vesta_ec_jac_is_eq''
      [(''P'', ConstPtr (Ty ''vesta_ec_jac'')), (''Q'', ConstPtr (Ty ''vesta_ec_jac''))] (Ty ''secret_bool''),
    RFun False ''ctt_vesta_ec_jac_is_neutral''
      [(''P'', ConstPtr (Ty ''vesta_ec_jac''))] (Ty ''secret_bool''),
    RFun False ''ctt_vesta_ec_jac_set_neutral''
      [(''P'', MutPtr (Ty ''vesta_ec_jac''))] (Ty ''()''),
    RFun False ''ctt_vesta_ec_jac_ccopy''
      [(''P'', MutPtr (Ty ''vesta_ec_jac'')), (''Q'', ConstPtr (Ty ''vesta_ec_jac'')), (''ctl'', Ty ''secret_bool'')] (Ty ''()''),
    RFun False ''ctt_vesta_ec_jac_neg''
      [(''P'', MutPtr (Ty ''vesta_ec_jac'')), (''Q'', ConstPtr (Ty ''vesta_ec_jac''))] (Ty ''()''),
    RFun False ''ctt_vesta_ec_jac_neg_in_place''
      [(''P'', MutPtr (Ty ''vesta_ec_jac''))] (Ty ''()''),
    RFun False ''ctt_vesta_ec_jac_cneg_in_place''
      [(''P'', MutPtr (Ty ''vesta_ec_jac'')), (''ctl'', Ty ''secret_bool'')] (Ty ''()''),
    RFun False ''ctt_vesta_ec_jac_sum''
      [(''r'', MutPtr (Ty ''vesta_ec_jac'')), (''P'', ConstPtr (Ty ''vesta_ec_jac'')), (''Q'', ConstPtr (Ty ''vesta_ec_jac''))] (Ty ''()''),
    RFun False ''ctt_vesta_ec_jac_add_in_place''
      [(''P'', MutPtr (Ty ''vesta_ec_jac'')), (''Q'', ConstPtr (Ty ''vesta_ec_jac''))] (Ty ''()''),
    RFun False ''ctt_vesta_ec_jac_diff''
      [(''r'', MutPtr (Ty ''vesta_ec_jac'')), (''P'', ConstPtr (Ty ''vesta_ec_jac'')), (''Q'', ConstPtr (Ty ''vesta_ec_jac''))] (Ty ''()''),
    RFun False ''ctt_vesta_ec_jac_double''
      [(''r'', MutPtr (Ty ''vesta_ec_jac'')), (''P'', ConstPtr (Ty ''vesta_ec_jac''))] (Ty ''()''),
    RFun False ''ctt_vesta_ec_jac_double_in_place''
      [(''P'', MutPtr (Ty ''vesta_ec_jac''))] (Ty ''()''),
    RFun False ''ctt_vesta_ec_jac_affine''
      [(''dst'', MutPtr (Ty ''vesta_ec_aff'')), (''src'', ConstPtr (Ty ''vesta_ec_jac''))] (Ty ''()''),
    RFun False ''ctt_vesta_ec_jac_from_affine''
      [(''dst'', MutPtr (Ty ''vesta_ec_jac'')), (''src'', ConstPtr (Ty ''vesta_ec_aff''))] (Ty ''()''),
    RFun False ''ctt_vesta_ec_jac_batch_affine''
      [(''dst'', ConstPtr (Ty ''vesta_ec_aff'')), (''src'', ConstPtr (Ty ''vesta_ec_jac'')), (''n'', Ty ''usize'')] (Ty ''()''),
    RFun False ''ctt_vesta_ec_jac_scalar_mul_big_coef''
      [(''P'', MutPtr (Ty ''vesta_ec_jac'')), (''scalar'', ConstPtr (Ty ''big255''))] (Ty ''()''),
    RFun False ''ctt_vesta_ec_jac_scalar_mul_fr_coef''
      [(''P'', MutPtr (Ty ''vesta_ec_jac'')), (''scalar'', ConstPtr (Ty ''vesta_fr''))] (Ty ''()''),
    RFun False ''ctt_vesta_ec_jac_scalar_mul_big_coef_vartime''
      [(''P'', MutPtr (Ty ''vesta_ec_jac'')), (''scalar'', ConstPtr (Ty ''big255''))] (Ty ''()''),
    RFun False ''ctt_vesta_ec_jac_scalar_mul_fr_coef_vartime''
      [(''P'', MutPtr (Ty ''vesta_ec_jac'')), (''scalar'', ConstPtr (Ty ''vesta_fr''))] (Ty ''()''),
    RFun False ''ctt_vesta_ec_jac_multi_scalar_mul_big_coefs_vartime''
      [(''r'', MutPtr (Ty ''vesta_ec_jac'')), (''coefs'', ConstPtr (Ty ''big255'')), (''points'', ConstPtr (Ty ''vesta_ec_aff'')), (''len'', Ty ''usize'')] (Ty ''()''),
    RFun False ''ctt_vesta_ec_jac_multi_scalar_mul_fr_coefs_vartime''
      [(''r'', MutPtr (Ty ''vesta_ec_jac'')), (''coefs'', ConstPtr (Ty ''vesta_fr'')), (''points'', ConstPtr (Ty ''vesta_ec_aff'')), (''len'', Ty ''usize'')] (Ty ''()'')]"

definition vesta_ec_prj_fns :: "rfun list" where
  "vesta_ec_prj_fns = [
    RFun False ''ctt_vesta_ec_prj_is_eq''
      [(''P'', ConstPtr (Ty ''vesta_ec_prj'')), (''Q'', ConstPtr (Ty ''vesta_ec_prj''))] (Ty ''secret_bool''),
    RFun False ''ctt_vesta_ec_prj_is_neutral''
      [(''P'', ConstPtr (Ty ''vesta_ec_prj''))] (Ty ''secret_bool''),
    RFun False ''ctt_vesta_ec_prj_set_neutral''
      [(''P'', MutPtr (Ty ''vesta_ec_prj''))] (Ty ''()''),
    RFun False ''ctt_vesta_ec_prj_ccopy''
      [(''P'', MutPtr (Ty ''vesta_ec_prj'')), (''Q'', ConstPtr (Ty ''vesta_ec_prj'')), (''ctl'', Ty ''secret_bool'')] (Ty ''()''),
    RFun False ''ctt_vesta_ec_prj_neg''
      [(''P'', MutPtr (Ty ''vesta_ec_prj'')), (''Q'', ConstPtr (Ty ''vesta_ec_prj''))] (Ty ''()''),
    RFun False ''ctt_vesta_ec_prj_neg_in_place''
      [(''P'', MutPtr (Ty ''vesta_ec_prj''))] (Ty ''()''),
    RFun False ''ctt_vesta_ec_prj_cneg_in_place''
      [(''P'', MutPtr (Ty ''vesta_ec_prj'')), (''ctl'', Ty ''secret_bool'')] (Ty ''()''),
    RFun False ''ctt_vesta_ec_prj_sum''
      [(''r'', MutPtr (Ty ''vesta_ec_prj'')), (''P'', ConstPtr (Ty ''vesta_ec_prj'')), (''Q'', ConstPtr (Ty ''vesta_ec_prj''))] (Ty ''()''),
    RFun False ''ctt_vesta_ec_prj_add_in_place''
      [(''P'', MutPtr (Ty ''vesta_ec_prj'')), (''Q'', ConstPtr (Ty ''vesta_ec_prj''))] (Ty ''()''),
    RFun False ''ctt_vesta_ec_prj_diff''
      [(''r'', MutPtr (Ty ''vesta_ec_prj'')), (''P'', ConstPtr (Ty ''vesta_ec_prj'')), (''Q'', ConstPtr (Ty ''vesta_ec_prj''))] (Ty ''()''),
    RFun False ''ctt_vesta_ec_prj_double''
      [(''r'', MutPtr (Ty ''vesta_ec_prj'')), (''P'', ConstPtr (Ty ''vesta_ec_prj''))] (Ty ''()''),
    RFun False ''ctt_vesta_ec_prj_double_in_place''
      [(''P'', MutPtr (Ty ''vesta_ec_prj''))] (Ty ''()''),
    RFun False ''ctt_vesta_ec_prj_affine''
      [(''dst'', MutPtr (Ty ''vesta_ec_aff'')), (''src'', ConstPtr (Ty ''vesta_ec_prj''))] (Ty ''()''),
    RFun False ''ctt_vesta_ec_prj_from_affine''
      [(''dst'', MutPtr (Ty ''vesta_ec_prj'')), (''src'', ConstPtr (Ty ''vesta_ec_aff''))] (Ty ''()''),
    RFun False ''ctt_vesta_ec_prj_batch_affine''
      [(''dst'', ConstPtr (Ty ''vesta_ec_aff'')), (''src'', ConstPtr (Ty ''vesta_ec_prj'')), (''n'', Ty ''usize'')] (Ty ''()''),
    RFun False ''ctt_vesta_ec_prj_scalar_mul_big_coef''
      [(''P'', MutPtr (Ty ''vesta_ec_prj'')), (''scalar'', ConstPtr (Ty ''big255''))] (Ty ''()''),
    RFun False ''ctt_vesta_ec_prj_scalar_mul_fr_coef''
      [(''P'', MutPtr (Ty ''vesta_ec_prj'')), (''scalar'', ConstPtr (Ty ''vesta_fr''))] (Ty ''()''),
    RFun False ''ctt_vesta_ec_prj_scalar_mul_big_coef_vartime''
      [(''P'', MutPtr (Ty ''vesta_ec_prj'')), (''scalar'', ConstPtr (Ty ''big255''))] (Ty ''()''),
    RFun False ''ctt_vesta_ec_prj_scalar_mul_fr_coef_vartime''
      [(''P'', MutPtr (Ty ''vesta_ec_prj'')), (''scalar'', ConstPtr (Ty ''vesta_fr''))] (Ty ''()''),
    RFun False ''ctt_vesta_ec_prj_multi_scalar_mul_big_coefs_vartime''
      [(''r'', MutPtr (Ty ''vesta_ec_prj'')), (''coefs'', ConstPtr (Ty ''big255'')), (''points'', ConstPtr (Ty ''vesta_ec_aff'')), (''len'', Ty ''usize'')] (Ty ''()''),
    RFun False ''ctt_vesta_ec_prj_multi_scalar_mul_fr_coefs_vartime''
      [(''r'', MutPtr (Ty ''vesta_ec_prj'')), (''coefs'', ConstPtr (Ty ''vesta_fr'')), (''points'', ConstPtr (Ty ''vesta_ec_aff'')), (''len'', Ty ''usize'')] (Ty ''()'')]"

definition vesta_ec_jac_parallel_fns :: "rfun list" where
  "vesta_ec_jac_parallel_fns = [
    RFun False ''ctt_vesta_ec_jac_multi_scalar_mul_big_coefs_vartime_parallel''
      [(''tp'', ConstPtr (Ty ''ctt_threadpool'')), (''r'', MutPtr (Ty ''vesta_ec_jac'')), (''coefs'', ConstPtr (Ty ''big255'')), (''points'', ConstPtr (Ty ''vesta_ec_aff'')), (''len'', Ty ''usize'')] (Ty ''()''),
    RFun False ''ctt_vesta_ec_jac_multi_scalar_mul_fr_coefs_vartime_parallel''
      [(''tp'', ConstPtr (Ty ''ctt_threadpool'')), (''r'', MutPtr (Ty ''vesta_ec_jac'')), (''coefs'', ConstPtr (Ty ''vesta_fr'')), (''points'', ConstPtr (Ty ''vesta_ec_aff'')), (''len'', Ty ''usize'')] (Ty ''()'')]"

definition vesta_ec_prj_parallel_fns :: "rfun list" where
  "vesta_ec_prj_parallel_fns = [
    RFun False ''ctt_vesta_ec_prj_multi_scalar_mul_big_coefs_vartime_parallel''
      [(''tp'', ConstPtr (Ty ''ctt_threadpool'')), (''r'', MutPtr (Ty ''vesta_ec_prj'')), (''coefs'', ConstPtr (Ty ''big255'')), (''points'', ConstPtr (Ty ''vesta_ec_aff'')), (''len'', Ty ''usize'')] (Ty ''()''),
    RFun False ''ctt_vesta_ec_prj_multi_scalar_mul_fr_coefs_vartime_parallel''
      [(''tp'', ConstPtr (Ty ''ctt_threadpool'')), (''r'', MutPtr (Ty ''vesta_ec_prj'')), (''coefs'', ConstPtr (Ty ''vesta_fr'')), (''points'', ConstPtr (Ty ''vesta_ec_aff'')), (''len'', Ty ''usize'')] (Ty ''()'')]"

end
