(* ===== verification/Bindings_Banderwagon.thy ===== *)
theory Bindings_Banderwagon
  imports C_Signatures
begin

text \<open>
  The foreign functions of \<^verbatim>\<open>constantine-sys/src/bindings64.rs\<close> for Banderwagon,
  one list per block of the file. \<^verbatim>\<open>bindings32.rs\<close> declares the same functions.
\<close>

definition banderwagon_fr_fns :: "rfun list" where
  "banderwagon_fr_fns = [
    RFun False ''ctt_big253_from_banderwagon_fr''
      [(''dst'', MutPtr (Ty ''big253'')), (''src'', ConstPtr (Ty ''banderwagon_fr''))] (Ty ''()''),
    RFun False ''ctt_banderwagon_fr_from_big253''
      [(''dst'', MutPtr (Ty ''banderwagon_fr'')), (''src'', ConstPtr (Ty ''big253''))] (Ty ''()''),
    RFun True ''ctt_banderwagon_fr_unmarshalBE''
      [(''dst'', MutPtr (Ty ''banderwagon_fr'')), (''src'', ConstPtr (Ty ''byte'')), (''src_len'', Ty ''usize'')] (Ty ''bool''),
    RFun True ''ctt_banderwagon_fr_marshalBE''
      [(''dst'', MutPtr (Ty ''byte'')), (''dst_len'', Ty ''usize''), (''src'', ConstPtr (Ty ''banderwagon_fr''))] (Ty ''bool''),
    RFun False ''ctt_banderwagon_fr_is_eq''
      [(''a'', ConstPtr (Ty ''banderwagon_fr'')), (''b'', ConstPtr (Ty ''banderwagon_fr''))] (Ty ''secret_bool''),
    RFun False ''ctt_banderwagon_fr_is_zero''
      [(''a'', ConstPtr (Ty ''banderwagon_fr''))] (Ty ''secret_bool''),
    RFun False ''ctt_banderwagon_fr_is_one''
      [(''a'', ConstPtr (Ty ''banderwagon_fr''))] (Ty ''secret_bool''),
    RFun False ''ctt_banderwagon_fr_is_minus_one''
      [(''a'', ConstPtr (Ty ''banderwagon_fr''))] (Ty ''secret_bool''),
    RFun False ''ctt_banderwagon_fr_set_zero''
      [(''a'', MutPtr (Ty ''banderwagon_fr''))] (Ty ''()''),
    RFun False ''ctt_banderwagon_fr_set_one''
      [(''a'', MutPtr (Ty ''banderwagon_fr''))] (Ty ''()''),
    RFun False ''ctt_banderwagon_fr_set_minus_one''
      [(''a'', MutPtr (Ty ''banderwagon_fr''))] (Ty ''()''),
    RFun False ''ctt_banderwagon_fr_neg''
      [(''r'', MutPtr (Ty ''banderwagon_fr'')), (''a'', ConstPtr (Ty ''banderwagon_fr''))] (Ty ''()''),
    RFun False ''ctt_banderwagon_fr_neg_in_place''
      [(''a'', MutPtr (Ty ''banderwagon_fr''))] (Ty ''()''),
    RFun False ''ctt_banderwagon_fr_sum''
      [(''r'', MutPtr (Ty ''banderwagon_fr'')), (''a'', ConstPtr (Ty ''banderwagon_fr'')), (''b'', ConstPtr (Ty ''banderwagon_fr''))] (Ty ''()''),
    RFun False ''ctt_banderwagon_fr_add_in_place''
      [(''a'', MutPtr (Ty ''banderwagon_fr'')), (''b'', ConstPtr (Ty ''banderwagon_fr''))] (Ty ''()''),
    RFun False ''ctt_banderwagon_fr_diff''
      [(''r'', MutPtr (Ty ''banderwagon_fr'')), (''a'', ConstPtr (Ty ''banderwagon_fr'')), (''b'', ConstPtr (Ty ''banderwagon_fr''))] (Ty ''()''),
    RFun False ''ctt_banderwagon_fr_sub_in_place''
      [(''a'', MutPtr (Ty ''banderwagon_fr'')), (''b'', ConstPtr (Ty ''banderwagon_fr''))] (Ty ''()''),
    RFun False ''ctt_banderwagon_fr_double''
      [(''r'', MutPtr (Ty ''banderwagon_fr'')), (''a'', ConstPtr (Ty ''banderwagon_fr''))] (Ty ''()''),
    RFun False ''ctt_banderwagon_fr_double_in_place''
      [(''a'', MutPtr (Ty ''banderwagon_fr''))] (Ty ''()''),
    RFun False ''ctt_banderwagon_fr_prod''
      [(''r'', MutPtr (Ty ''banderwagon_fr'')), (''a'', ConstPtr (Ty ''banderwagon_fr'')), (''b'', ConstPtr (Ty ''banderwagon_fr''))] (Ty ''()''),
    RFun False ''ctt_banderwagon_fr_mul_in_place''
      [(''a'', MutPtr (Ty ''banderwagon_fr'')), (''b'', ConstPtr (Ty ''banderwagon_fr''))] (Ty ''()''),
    RFun False ''ctt_banderwagon_fr_square''
      [(''r'', MutPtr (Ty ''banderwagon_fr'')), (''a'', ConstPtr (Ty ''banderwagon_fr''))] (Ty ''()''),
    RFun False ''ctt_banderwagon_fr_square_in_place''
      [(''a'', MutPtr (Ty ''banderwagon_fr''))] (Ty ''()''),
    RFun False ''ctt_banderwagon_fr_div2''
      [(''a'', MutPtr (Ty ''banderwagon_fr''))] (Ty ''()''),
    RFun False ''ctt_banderwagon_fr_inv''
      [(''r'', MutPtr (Ty ''banderwagon_fr'')), (''a'', ConstPtr (Ty ''banderwagon_fr''))] (Ty ''()''),
    RFun False ''ctt_banderwagon_fr_inv_in_place''
      [(''a'', MutPtr (Ty ''banderwagon_fr''))] (Ty ''()''),
    RFun False ''ctt_banderwagon_fr_ccopy''
      [(''a'', MutPtr (Ty ''banderwagon_fr'')), (''b'', ConstPtr (Ty ''banderwagon_fr'')), (''ctl'', Ty ''secret_bool'')] (Ty ''()''),
    RFun False ''ctt_banderwagon_fr_cswap''
      [(''a'', MutPtr (Ty ''banderwagon_fr'')), (''b'', MutPtr (Ty ''banderwagon_fr'')), (''ctl'', Ty ''secret_bool'')] (Ty ''()''),
    RFun False ''ctt_banderwagon_fr_cset_zero''
      [(''a'', MutPtr (Ty ''banderwagon_fr'')), (''ctl'', Ty ''secret_bool'')] (Ty ''()''),
    RFun False ''ctt_banderwagon_fr_cset_one''
      [(''a'', MutPtr (Ty ''banderwagon_fr'')), (''ctl'', Ty ''secret_bool'')] (Ty ''()''),
    RFun False ''ctt_banderwagon_fr_cneg_in_place''
      [(''a'', MutPtr (Ty ''banderwagon_fr'')), (''ctl'', Ty ''secret_bool'')] (Ty ''()''),
    RFun False ''ctt_banderwagon_fr_cadd_in_place''
      [(''a'', MutPtr (Ty ''banderwagon_fr'')), (''b'', ConstPtr (Ty ''banderwagon_fr'')), (''ctl'', Ty ''secret_bool'')] (Ty ''()''),
    RFun False ''ctt_banderwagon_fr_csub_in_place''
      [(''a'', MutPtr (Ty ''banderwagon_fr'')), (''b'', ConstPtr (Ty ''banderwagon_fr'')), (''ctl'', Ty ''secret_bool'')] (Ty ''()'')]"

definition banderwagon_fp_fns :: "rfun list" where
  "banderwagon_fp_fns = [
    RFun False ''ctt_big255_from_banderwagon_fp''
      [(''dst'', MutPtr (Ty ''big255'')), (''src'', ConstPtr (Ty ''banderwagon_fp''))] (Ty ''()''),
    RFun False ''ctt_banderwagon_fp_from_big255''
      [(''dst'', MutPtr (Ty ''banderwagon_fp'')), (''src'', ConstPtr (Ty ''big255''))] (Ty ''()''),
    RFun True ''ctt_banderwagon_fp_unmarshalBE''
      [(''dst'', MutPtr (Ty ''banderwagon_fp'')), (''src'', ConstPtr (Ty ''byte'')), (''src_len'', Ty ''usize'')] (Ty ''bool''),
    RFun True ''ctt_banderwagon_fp_marshalBE''
      [(''dst'', MutPtr (Ty ''byte'')), (''dst_len'', Ty ''usize''), (''src'', ConstPtr (Ty ''banderwagon_fp''))] (Ty ''bool''),
    RFun False ''ctt_banderwagon_fp_is_eq''
      [(''a'', ConstPtr (Ty ''banderwagon_fp'')), (''b'', ConstPtr (Ty ''banderwagon_fp''))] (Ty ''secret_bool''),
    RFun False ''ctt_banderwagon_fp_is_zero''
      [(''a'', ConstPtr (Ty ''banderwagon_fp''))] (Ty ''secret_bool''),
    RFun False ''ctt_banderwagon_fp_is_one''
      [(''a'', ConstPtr (Ty ''banderwagon_fp''))] (Ty ''secret_bool''),
    RFun False ''ctt_banderwagon_fp_is_minus_one''
      [(''a'', ConstPtr (Ty ''banderwagon_fp''))] (Ty ''secret_bool''),
    RFun False ''ctt_banderwagon_fp_set_zero''
      [(''a'', MutPtr (Ty ''banderwagon_fp''))] (Ty ''()''),
    RFun False ''ctt_banderwagon_fp_set_one''
      [(''a'', MutPtr (Ty ''banderwagon_fp''))] (Ty ''()''),
    RFun False ''ctt_banderwagon_fp_set_minus_one''
      [(''a'', MutPtr (Ty ''banderwagon_fp''))] (Ty ''()''),
    RFun False ''ctt_banderwagon_fp_neg''
      [(''r'', MutPtr (Ty ''banderwagon_fp'')), (''a'', ConstPtr (Ty ''banderwagon_fp''))] (Ty ''()''),
    RFun False ''ctt_banderwagon_fp_neg_in_place''
      [(''a'', MutPtr (Ty ''banderwagon_fp''))] (Ty ''()''),
    RFun False ''ctt_banderwagon_fp_sum''
      [(''r'', MutPtr (Ty ''banderwagon_fp'')), (''a'', ConstPtr (Ty ''banderwagon_fp'')), (''b'', ConstPtr (Ty ''banderwagon_fp''))] (Ty ''()''),
    RFun False ''ctt_banderwagon_fp_add_in_place''
      [(''a'', MutPtr (Ty ''banderwagon_fp'')), (''b'', ConstPtr (Ty ''banderwagon_fp''))] (Ty ''()''),
    RFun False ''ctt_banderwagon_fp_diff''
      [(''r'', MutPtr (Ty ''banderwagon_fp'')), (''a'', ConstPtr (Ty ''banderwagon_fp'')), (''b'', ConstPtr (Ty ''banderwagon_fp''))] (Ty ''()''),
    RFun False ''ctt_banderwagon_fp_sub_in_place''
      [(''a'', MutPtr (Ty ''banderwagon_fp'')), (''b'', ConstPtr (Ty ''banderwagon_fp''))] (Ty ''()''),
    RFun False ''ctt_banderwagon_fp_double''
      [(''r'', MutPtr (Ty ''banderwagon_fp'')), (''a'', ConstPtr (Ty ''banderwagon_fp''))] (Ty ''()''),
    RFun False ''ctt_banderwagon_fp_double_in_place''
      [(''a'', MutPtr (Ty ''banderwagon_fp''))] (Ty ''()''),
    RFun False ''ctt_banderwagon_fp_prod''
      [(''r'', MutPtr (Ty ''banderwagon_fp'')), (''a'', ConstPtr (Ty ''banderwagon_fp'')), (''b'', ConstPtr (Ty ''banderwagon_fp''))] (Ty ''()''),
    RFun False ''ctt_banderwagon_fp_mul_in_place''
      [(''a'', MutPtr (Ty ''banderwagon_fp'')), (''b'', ConstPtr (Ty ''banderwagon_fp''))] (Ty ''()''),
    RFun False ''ctt_banderwagon_fp_square''
      [(''r'', MutPtr (Ty ''banderwagon_fp'')), (''a'', ConstPtr (Ty ''banderwagon_fp''))] (Ty ''()''),
    RFun False ''ctt_banderwagon_fp_square_in_place''
      [(''a'', MutPtr (Ty ''banderwagon_fp''))] (Ty ''()''),
    RFun False ''ctt_banderwagon_fp_div2''
      [(''a'', MutPtr (Ty ''banderwagon_fp''))] (Ty ''()''),
    RFun False ''ctt_banderwagon_fp_inv''
      [(''r'', MutPtr (Ty ''banderwagon_fp'')), (''a'', ConstPtr (Ty ''banderwagon_fp''))] (Ty ''()''),
    RFun False ''ctt_banderwagon_fp_inv_in_place''
      [(''a'', MutPtr (Ty ''banderwagon_fp''))] (Ty ''()''),
    RFun False ''ctt_banderwagon_fp_ccopy''
      [(''a'', MutPtr (Ty ''banderwagon_fp'')), (''b'', ConstPtr (Ty ''banderwagon_fp'')), (''ctl'', Ty ''secret_bool'')] (Ty ''()''),
    RFun False ''ctt_banderwagon_fp_cswap''
      [(''a'', MutPtr (Ty ''banderwagon_fp'')), (''b'', MutPtr (Ty ''banderwagon_fp'')), (''ctl'', Ty ''secret_bool'')] (Ty ''()''),
    RFun False ''ctt_banderwagon_fp_cset_zero''
      [(''a'', MutPtr (Ty ''banderwagon_fp'')), (''ctl'', Ty ''secret_bool'')] (Ty ''()''),
    RFun False ''ctt_banderwagon_fp_cset_one''
      [(''a'', MutPtr (Ty ''banderwagon_fp'')), (''ctl'', Ty ''secret_bool'')] (Ty ''()''),
    RFun False ''ctt_banderwagon_fp_cneg_in_place''
      [(''a'', MutPtr (Ty ''banderwagon_fp'')), (''ctl'', Ty ''secret_bool'')] (Ty ''()''),
    RFun False ''ctt_banderwagon_fp_cadd_in_place''
      [(''a'', MutPtr (Ty ''banderwagon_fp'')), (''b'', ConstPtr (Ty ''banderwagon_fp'')), (''ctl'', Ty ''secret_bool'')] (Ty ''()''),
    RFun False ''ctt_banderwagon_fp_csub_in_place''
      [(''a'', MutPtr (Ty ''banderwagon_fp'')), (''b'', ConstPtr (Ty ''banderwagon_fp'')), (''ctl'', Ty ''secret_bool'')] (Ty ''()'')]"

definition banderwagon_fp_sqrt_fns :: "rfun list" where
  "banderwagon_fp_sqrt_fns = [
    RFun False ''ctt_banderwagon_fp_is_square''
      [(''a'', ConstPtr (Ty ''banderwagon_fp''))] (Ty ''secret_bool''),
    RFun False ''ctt_banderwagon_fp_invsqrt''
      [(''r'', MutPtr (Ty ''banderwagon_fp'')), (''a'', ConstPtr (Ty ''banderwagon_fp''))] (Ty ''()''),
    RFun False ''ctt_banderwagon_fp_invsqrt_in_place''
      [(''r'', MutPtr (Ty ''banderwagon_fp'')), (''a'', ConstPtr (Ty ''banderwagon_fp''))] (Ty ''secret_bool''),
    RFun False ''ctt_banderwagon_fp_sqrt_in_place''
      [(''a'', MutPtr (Ty ''banderwagon_fp''))] (Ty ''()''),
    RFun False ''ctt_banderwagon_fp_sqrt_if_square_in_place''
      [(''a'', MutPtr (Ty ''banderwagon_fp''))] (Ty ''secret_bool''),
    RFun False ''ctt_banderwagon_fp_sqrt_invsqrt''
      [(''sqrt'', MutPtr (Ty ''banderwagon_fp'')), (''invsqrt'', MutPtr (Ty ''banderwagon_fp'')), (''a'', ConstPtr (Ty ''banderwagon_fp''))] (Ty ''()''),
    RFun False ''ctt_banderwagon_fp_sqrt_invsqrt_if_square''
      [(''sqrt'', MutPtr (Ty ''banderwagon_fp'')), (''invsqrt'', MutPtr (Ty ''banderwagon_fp'')), (''a'', ConstPtr (Ty ''banderwagon_fp''))] (Ty ''secret_bool''),
    RFun False ''ctt_banderwagon_fp_sqrt_ratio_if_square''
      [(''r'', MutPtr (Ty ''banderwagon_fp'')), (''u'', ConstPtr (Ty ''banderwagon_fp'')), (''v'', ConstPtr (Ty ''banderwagon_fp''))] (Ty ''secret_bool'')]"

definition banderwagon_ec_aff_fns :: "rfun list" where
  "banderwagon_ec_aff_fns = [
    RFun False ''ctt_banderwagon_ec_aff_is_eq''
      [(''P'', ConstPtr (Ty ''banderwagon_ec_aff'')), (''Q'', ConstPtr (Ty ''banderwagon_ec_aff''))] (Ty ''secret_bool''),
    RFun False ''ctt_banderwagon_ec_aff_is_neutral''
      [(''P'', ConstPtr (Ty ''banderwagon_ec_aff''))] (Ty ''secret_bool''),
    RFun False ''ctt_banderwagon_ec_aff_set_neutral''
      [(''P'', MutPtr (Ty ''banderwagon_ec_aff''))] (Ty ''()''),
    RFun False ''ctt_banderwagon_ec_aff_ccopy''
      [(''P'', MutPtr (Ty ''banderwagon_ec_aff'')), (''Q'', ConstPtr (Ty ''banderwagon_ec_aff'')), (''ctl'', Ty ''secret_bool'')] (Ty ''()''),
    RFun False ''ctt_banderwagon_ec_aff_is_on_curve''
      [(''x'', ConstPtr (Ty ''banderwagon_fp'')), (''y'', ConstPtr (Ty ''banderwagon_fp''))] (Ty ''secret_bool''),
    RFun False ''ctt_banderwagon_ec_aff_neg''
      [(''P'', MutPtr (Ty ''banderwagon_ec_aff'')), (''Q'', ConstPtr (Ty ''banderwagon_ec_aff''))] (Ty ''()''),
    RFun False ''ctt_banderwagon_ec_aff_neg_in_place''
      [(''P'', MutPtr (Ty ''banderwagon_ec_aff''))] (Ty ''()''),
    RFun False ''ctt_banderwagon_ec_aff_cneg''
      [(''P'', MutPtr (Ty ''banderwagon_ec_aff'')), (''ctl'', Ty ''secret_bool'')] (Ty ''()'')]"

definition banderwagon_ec_prj_fns :: "rfun list" where
  "banderwagon_ec_prj_fns = [
    RFun False ''ctt_banderwagon_ec_prj_is_eq''
      [(''P'', ConstPtr (Ty ''banderwagon_ec_prj'')), (''Q'', ConstPtr (Ty ''banderwagon_ec_prj''))] (Ty ''secret_bool''),
    RFun False ''ctt_banderwagon_ec_prj_is_neutral''
      [(''P'', ConstPtr (Ty ''banderwagon_ec_prj''))] (Ty ''secret_bool''),
    RFun False ''ctt_banderwagon_ec_prj_set_neutral''
      [(''P'', MutPtr (Ty ''banderwagon_ec_prj''))] (Ty ''()''),
    RFun False ''ctt_banderwagon_ec_prj_ccopy''
      [(''P'', MutPtr (Ty ''banderwagon_ec_prj'')), (''Q'', ConstPtr (Ty ''banderwagon_ec_prj'')), (''ctl'', Ty ''secret_bool'')] (Ty ''()''),
    RFun False ''ctt_banderwagon_ec_prj_neg''
      [(''P'', MutPtr (Ty ''banderwagon_ec_prj'')), (''Q'', ConstPtr (Ty ''banderwagon_ec_prj''))] (Ty ''()''),
    RFun False ''ctt_banderwagon_ec_prj_neg_in_place''
      [(''P'', MutPtr (Ty ''banderwagon_ec_prj''))] (Ty ''()''),
    RFun False ''ctt_banderwagon_ec_prj_cneg''
      [(''P'', MutPtr (Ty ''banderwagon_ec_prj'')), (''ctl'', Ty ''secret_bool'')] (Ty ''()''),
    RFun False ''ctt_banderwagon_ec_prj_sum''
      [(''r'', MutPtr (Ty ''banderwagon_ec_prj'')), (''P'', ConstPtr (Ty ''banderwagon_ec_prj'')), (''Q'', ConstPtr (Ty ''banderwagon_ec_prj''))] (Ty ''()''),
    RFun False ''ctt_banderwagon_ec_prj_double''
      [(''r'', MutPtr (Ty ''banderwagon_ec_prj'')), (''P'', ConstPtr (Ty ''banderwagon_ec_prj''))] (Ty ''()''),
    RFun False ''ctt_banderwagon_ec_prj_add_in_place''
      [(''P'', MutPtr (Ty ''banderwagon_ec_prj'')), (''Q'', ConstPtr (Ty ''banderwagon_ec_prj''))] (Ty ''()''),
    RFun False ''ctt_banderwagon_ec_prj_diff''
      [(''r'', MutPtr (Ty ''banderwagon_ec_prj'')), (''P'', ConstPtr (Ty ''banderwagon_ec_prj'')), (''Q'', ConstPtr (Ty ''banderwagon_ec_prj''))] (Ty ''()''),
    RFun False ''ctt_banderwagon_ec_prj_diff_in_place''
      [(''P'', MutPtr (Ty ''banderwagon_ec_prj'')), (''Q'', ConstPtr (Ty ''banderwagon_ec_prj''))] (Ty ''()''),
    RFun False ''ctt_banderwagon_ec_prj_mixed_diff_in_place''
      [(''P'', MutPtr (Ty ''banderwagon_ec_prj'')), (''Q'', ConstPtr (Ty ''banderwagon_ec_aff''))] (Ty ''()''),
    RFun False ''ctt_banderwagon_ec_prj_affine''
      [(''dst'', MutPtr (Ty ''banderwagon_ec_aff'')), (''src'', ConstPtr (Ty ''banderwagon_ec_prj''))] (Ty ''()''),
    RFun False ''ctt_banderwagon_ec_prj_from_affine''
      [(''dst'', MutPtr (Ty ''banderwagon_ec_prj'')), (''src'', ConstPtr (Ty ''banderwagon_ec_aff''))] (Ty ''()''),
    RFun False ''ctt_banderwagon_ec_prj_batch_affine''
      [(''dst'', ConstPtr (Ty ''banderwagon_ec_aff'')), (''src'', ConstPtr (Ty ''banderwagon_ec_prj'')), (''n'', Ty ''usize'')] (Ty ''()''),
    RFun False ''ctt_banderwagon_ec_prj_scalar_mul_big_coef''
      [(''P'', MutPtr (Ty ''banderwagon_ec_prj'')), (''scalar'', ConstPtr (Ty ''big253''))] (Ty ''()''),
    RFun False ''ctt_banderwagon_ec_prj_scalar_mul_fr_coef''
      [(''P'', MutPtr (Ty ''banderwagon_ec_prj'')), (''scalar'', ConstPtr (Ty ''banderwagon_fr''))] (Ty ''()''),
    RFun False ''ctt_banderwagon_ec_prj_scalar_mul_big_coef_vartime''
      [(''P'', MutPtr (Ty ''banderwagon_ec_prj'')), (''scalar'', ConstPtr (Ty ''big253''))] (Ty ''()''),
    RFun False ''ctt_banderwagon_ec_prj_scalar_mul_fr_coef_vartime''
      [(''P'', MutPtr (Ty ''banderwagon_ec_prj'')), (''scalar'', ConstPtr (Ty ''banderwagon_fr''))] (Ty ''()''),
    RFun False ''ctt_banderwagon_ec_prj_multi_scalar_mul_big_coefs_vartime''
      [(''r'', MutPtr (Ty ''banderwagon_ec_prj'')), (''coefs'', ConstPtr (Ty ''big253'')), (''points'', ConstPtr (Ty ''banderwagon_ec_aff'')), (''len'', Ty ''usize'')] (Ty ''()''),
    RFun False ''ctt_banderwagon_ec_prj_multi_scalar_mul_fr_coefs_vartime''
      [(''r'', MutPtr (Ty ''banderwagon_ec_prj'')), (''coefs'', ConstPtr (Ty ''banderwagon_fr'')), (''points'', ConstPtr (Ty ''banderwagon_ec_aff'')), (''len'', Ty ''usize'')] (Ty ''()'')]"

end
