(* ===== verification/Bindings_Protocols.thy ===== *)
theory Bindings_Protocols
  imports C_Signatures
begin

text \<open>
  The foreign functions of \<^verbatim>\<open>constantine-sys/src/bindings64.rs\<close> for the threadpool, the hash functions, the codecs
  and the Ethereum protocols,
  one list per block of the file. \<^verbatim>\<open>bindings32.rs\<close> declares the same functions.
\<close>

definition threadpool_fns :: "rfun list" where
  "threadpool_fns = [
    RFun False ''ctt_threadpool_new''
      [(''num_threads'', Ty ''c_int'')] (MutPtr (Ty ''ctt_threadpool'')),
    RFun False ''ctt_threadpool_shutdown''
      [(''threadpool'', MutPtr (Ty ''ctt_threadpool''))] (Ty ''()''),
    RFun False ''ctt_cpu_get_num_threads_os''
      [] (Ty ''c_int'')]"

definition keccak256_fns :: "rfun list" where
  "keccak256_fns = [
    RFun False ''ctt_keccak256_init''
      [(''ctx'', MutPtr (Ty ''ctt_keccak256_context''))] (Ty ''()''),
    RFun False ''ctt_keccak256_update''
      [(''ctx'', MutPtr (Ty ''ctt_keccak256_context'')), (''message'', ConstPtr (Ty ''byte'')), (''message_len'', Ty ''usize'')] (Ty ''()''),
    RFun False ''ctt_keccak256_finish''
      [(''ctx'', MutPtr (Ty ''ctt_keccak256_context'')), (''digest'', MutPtr (Ty ''byte''))] (Ty ''()''),
    RFun False ''ctt_keccak256_clear''
      [(''ctx'', MutPtr (Ty ''ctt_keccak256_context''))] (Ty ''()''),
    RFun False ''ctt_keccak256_hash''
      [(''digest'', MutPtr (Ty ''byte'')), (''message'', ConstPtr (Ty ''byte'')), (''message_len'', Ty ''usize''), (''clear_memory'', Ty ''bool'')] (Ty ''()'')]"

definition sha256_fns :: "rfun list" where
  "sha256_fns = [
    RFun False ''ctt_sha256_init''
      [(''ctx'', MutPtr (Ty ''ctt_sha256_context''))] (Ty ''()''),
    RFun False ''ctt_sha256_update''
      [(''ctx'', MutPtr (Ty ''ctt_sha256_context'')), (''message'', ConstPtr (Ty ''byte'')), (''message_len'', Ty ''usize'')] (Ty ''()''),
    RFun False ''ctt_sha256_finish''
      [(''ctx'', MutPtr (Ty ''ctt_sha256_context'')), (''digest'', MutPtr (Ty ''byte''))] (Ty ''()''),
    RFun False ''ctt_sha256_clear''
      [(''ctx'', MutPtr (Ty ''ctt_sha256_context''))] (Ty ''()''),
    RFun False ''ctt_sha256_hash''
      [(''digest'', MutPtr (Ty ''byte'')), (''message'', ConstPtr (Ty ''byte'')), (''message_len'', Ty ''usize''), (''clear_memory'', Ty ''bool'')] (Ty ''()'')]"

definition csprng_fns :: "rfun list" where
  "csprng_fns = [
    RFun False ''ctt_csprng_sysrand''
      [(''buffer'', MutPtr (Ty ''c_void'')), (''len'', Ty ''usize'')] (Ty ''bool'')]"

definition bls12_381_codec_fns :: "rfun list" where
  "bls12_381_codec_fns = [
    RFun True ''ctt_bls12_381_validate_scalar''
      [(''scalar'', ConstPtr (Ty ''big255''))] (Ty ''ctt_codec_scalar_status''),
    RFun True ''ctt_bls12_381_validate_g1''
      [(''point'', ConstPtr (Ty ''bls12_381_g1_aff''))] (Ty ''ctt_codec_ecc_status''),
    RFun True ''ctt_bls12_381_validate_g2''
      [(''point'', ConstPtr (Ty ''bls12_381_g2_aff''))] (Ty ''ctt_codec_ecc_status''),
    RFun True ''ctt_bls12_381_serialize_scalar''
      [(''dst'', MutPtr (Ty ''byte'')), (''scalar'', ConstPtr (Ty ''big255''))] (Ty ''ctt_codec_scalar_status''),
    RFun True ''ctt_bls12_381_deserialize_scalar''
      [(''dst'', MutPtr (Ty ''big255'')), (''src'', ConstPtr (Ty ''byte''))] (Ty ''ctt_codec_scalar_status''),
    RFun True ''ctt_bls12_381_serialize_g1_compressed''
      [(''dst'', MutPtr (Ty ''byte'')), (''src'', ConstPtr (Ty ''bls12_381_g1_aff''))] (Ty ''ctt_codec_ecc_status''),
    RFun True ''ctt_bls12_381_deserialize_g1_compressed_unchecked''
      [(''dst'', MutPtr (Ty ''bls12_381_g1_aff'')), (''src'', ConstPtr (Ty ''byte''))] (Ty ''ctt_codec_ecc_status''),
    RFun True ''ctt_bls12_381_deserialize_g1_compressed''
      [(''dst'', MutPtr (Ty ''bls12_381_g1_aff'')), (''src'', ConstPtr (Ty ''byte''))] (Ty ''ctt_codec_ecc_status''),
    RFun True ''ctt_bls12_381_serialize_g2_compressed''
      [(''dst'', MutPtr (Ty ''byte'')), (''src'', ConstPtr (Ty ''bls12_381_g2_aff''))] (Ty ''ctt_codec_ecc_status''),
    RFun True ''ctt_bls12_381_deserialize_g2_compressed_unchecked''
      [(''dst'', MutPtr (Ty ''bls12_381_g2_aff'')), (''src'', ConstPtr (Ty ''byte''))] (Ty ''ctt_codec_ecc_status''),
    RFun True ''ctt_bls12_381_deserialize_g2_compressed''
      [(''dst'', MutPtr (Ty ''bls12_381_g2_aff'')), (''src'', ConstPtr (Ty ''byte''))] (Ty ''ctt_codec_ecc_status'')]"

definition eth_bls_fns :: "rfun list" where
  "eth_bls_fns = [
    RFun True ''ctt_eth_bls_pubkey_is_zero''
      [(''pubkey'', ConstPtr (Ty ''ctt_eth_bls_pubkey''))] (Ty ''bool''),
    RFun True ''ctt_eth_bls_signature_is_zero''
      [(''sig'', ConstPtr (Ty ''ctt_eth_bls_signature''))] (Ty ''bool''),
    RFun True ''ctt_eth_bls_pubkeys_are_equal''
      [(''a'', ConstPtr (Ty ''ctt_eth_bls_pubkey'')), (''b'', ConstPtr (Ty ''ctt_eth_bls_pubkey''))] (Ty ''bool''),
    RFun True ''ctt_eth_bls_signatures_are_equal''
      [(''a'', ConstPtr (Ty ''ctt_eth_bls_signature'')), (''b'', ConstPtr (Ty ''ctt_eth_bls_signature''))] (Ty ''bool''),
    RFun True ''ctt_eth_bls_validate_seckey''
      [(''seckey'', ConstPtr (Ty ''ctt_eth_bls_seckey''))] (Ty ''ctt_codec_scalar_status''),
    RFun True ''ctt_eth_bls_validate_pubkey''
      [(''pubkey'', ConstPtr (Ty ''ctt_eth_bls_pubkey''))] (Ty ''ctt_codec_ecc_status''),
    RFun True ''ctt_eth_bls_validate_signature''
      [(''pubkey'', ConstPtr (Ty ''ctt_eth_bls_signature''))] (Ty ''ctt_codec_ecc_status''),
    RFun False ''ctt_eth_bls_serialize_seckey''
      [(''dst'', MutPtr (Ty ''byte'')), (''seckey'', ConstPtr (Ty ''ctt_eth_bls_seckey''))] (Ty ''()''),
    RFun True ''ctt_eth_bls_serialize_pubkey_compressed''
      [(''dst'', MutPtr (Ty ''byte'')), (''pubkey'', ConstPtr (Ty ''ctt_eth_bls_pubkey''))] (Ty ''ctt_codec_ecc_status''),
    RFun True ''ctt_eth_bls_serialize_signature_compressed''
      [(''dst'', MutPtr (Ty ''byte'')), (''sig'', ConstPtr (Ty ''ctt_eth_bls_signature''))] (Ty ''ctt_codec_ecc_status''),
    RFun True ''ctt_eth_bls_deserialize_seckey''
      [(''seckey'', MutPtr (Ty ''ctt_eth_bls_seckey'')), (''src'', ConstPtr (Ty ''byte''))] (Ty ''ctt_codec_scalar_status''),
    RFun True ''ctt_eth_bls_deserialize_pubkey_compressed_unchecked''
      [(''pubkey'', MutPtr (Ty ''ctt_eth_bls_pubkey'')), (''src'', ConstPtr (Ty ''byte''))] (Ty ''ctt_codec_ecc_status''),
    RFun True ''ctt_eth_bls_deserialize_pubkey_compressed''
      [(''pubkey'', MutPtr (Ty ''ctt_eth_bls_pubkey'')), (''src'', ConstPtr (Ty ''byte''))] (Ty ''ctt_codec_ecc_status''),
    RFun True ''ctt_eth_bls_deserialize_signature_compressed_unchecked''
      [(''sig'', MutPtr (Ty ''ctt_eth_bls_signature'')), (''src'', ConstPtr (Ty ''byte''))] (Ty ''ctt_codec_ecc_status''),
    RFun True ''ctt_eth_bls_deserialize_signature_compressed''
      [(''sig'', MutPtr (Ty ''ctt_eth_bls_signature'')), (''src'', ConstPtr (Ty ''byte''))] (Ty ''ctt_codec_ecc_status''),
    RFun False ''ctt_eth_bls_derive_pubkey''
      [(''pubkey'', MutPtr (Ty ''ctt_eth_bls_pubkey'')), (''seckey'', ConstPtr (Ty ''ctt_eth_bls_seckey''))] (Ty ''()''),
    RFun False ''ctt_eth_bls_sign''
      [(''sig'', MutPtr (Ty ''ctt_eth_bls_signature'')), (''seckey'', ConstPtr (Ty ''ctt_eth_bls_seckey'')), (''message'', ConstPtr (Ty ''byte'')), (''message_len'', Ty ''usize'')] (Ty ''()'')]"

definition eth_bls_verify_fns :: "rfun list" where
  "eth_bls_verify_fns = [
    RFun True ''ctt_eth_bls_verify''
      [(''pubkey'', ConstPtr (Ty ''ctt_eth_bls_pubkey'')), (''message'', ConstPtr (Ty ''byte'')), (''message_len'', Ty ''usize''), (''sig'', ConstPtr (Ty ''ctt_eth_bls_signature''))] (Ty ''ctt_eth_bls_status''),
    RFun True ''ctt_eth_bls_fast_aggregate_verify''
      [(''pubkeys'', ConstPtr (Ty ''ctt_eth_bls_pubkey'')), (''pubkeys_len'', Ty ''usize''), (''message'', ConstPtr (Ty ''byte'')), (''message_len'', Ty ''usize''), (''aggregate_sig'', ConstPtr (Ty ''ctt_eth_bls_signature''))] (Ty ''ctt_eth_bls_status''),
    RFun True ''ctt_eth_bls_aggregate_verify''
      [(''pubkeys'', ConstPtr (Ty ''ctt_eth_bls_pubkey'')), (''messages'', ConstPtr (Ty ''ctt_span'')), (''len'', Ty ''usize''), (''aggregate_sig'', ConstPtr (Ty ''ctt_eth_bls_signature''))] (Ty ''ctt_eth_bls_status''),
    RFun True ''ctt_eth_bls_batch_verify''
      [(''pubkeys'', ConstPtr (Ty ''ctt_eth_bls_pubkey'')), (''messages'', ConstPtr (Ty ''ctt_span'')), (''signatures'', ConstPtr (Ty ''ctt_eth_bls_signature'')), (''len'', Ty ''usize''), (''secure_random_bytes'', ConstPtr (Ty ''byte''))] (Ty ''ctt_eth_bls_status''),
    RFun False ''ctt_eth_bls_alloc_batch_sig_accumulator''
      [] (MutPtr (Ty ''ctt_eth_bls_batch_sig_accumulator'')),
    RFun False ''ctt_eth_bls_free_batch_sig_accumulator''
      [(''ptr'', MutPtr (Ty ''ctt_eth_bls_batch_sig_accumulator''))] (Ty ''()''),
    RFun False ''ctt_eth_bls_init_batch_sig_accumulator''
      [(''ctx'', MutPtr (Ty ''ctt_eth_bls_batch_sig_accumulator'')), (''secure_random_bytes'', ConstPtr (Ty ''byte'')), (''accum_sep_tag'', ConstPtr (Ty ''byte'')), (''accum_sep_tag_len'', Ty ''usize'')] (Ty ''()''),
    RFun True ''ctt_eth_bls_update_batch_sig_accumulator''
      [(''ctx'', MutPtr (Ty ''ctt_eth_bls_batch_sig_accumulator'')), (''pubkey'', ConstPtr (Ty ''ctt_eth_bls_pubkey'')), (''message'', ConstPtr (Ty ''byte'')), (''message_len'', Ty ''usize''), (''signature'', ConstPtr (Ty ''ctt_eth_bls_signature''))] (Ty ''bool''),
    RFun True ''ctt_eth_bls_final_verify_batch_sig_accumulator''
      [(''ctx'', MutPtr (Ty ''ctt_eth_bls_batch_sig_accumulator''))] (Ty ''bool''),
    RFun True ''ctt_eth_bls_batch_verify_parallel''
      [(''tp'', ConstPtr (Ty ''ctt_threadpool'')), (''pubkey'', ConstPtr (Ty ''ctt_eth_bls_pubkey'')), (''messages'', ConstPtr (Ty ''ctt_span'')), (''sig'', ConstPtr (Ty ''ctt_eth_bls_signature'')), (''len'', Ty ''usize''), (''secure_random_bytes'', ConstPtr (Ty ''byte''))] (Ty ''ctt_eth_bls_status'')]"

definition eth_kzg_fns :: "rfun list" where
  "eth_kzg_fns = [
    RFun True ''ctt_eth_kzg_blob_to_kzg_commitment''
      [(''ctx'', ConstPtr (Ty ''ctt_eth_kzg_context'')), (''dst'', MutPtr (Ty ''ctt_eth_kzg_commitment'')), (''blob'', ConstPtr (Ty ''ctt_eth_kzg_blob''))] (Ty ''ctt_eth_kzg_status''),
    RFun True ''ctt_eth_kzg_compute_kzg_proof''
      [(''ctx'', ConstPtr (Ty ''ctt_eth_kzg_context'')), (''proof'', MutPtr (Ty ''ctt_eth_kzg_proof'')), (''y'', MutPtr (Ty ''ctt_eth_kzg_eval_at_challenge'')), (''blob'', ConstPtr (Ty ''ctt_eth_kzg_blob'')), (''z'', ConstPtr (Ty ''ctt_eth_kzg_opening_challenge''))] (Ty ''ctt_eth_kzg_status''),
    RFun True ''ctt_eth_kzg_verify_kzg_proof''
      [(''ctx'', ConstPtr (Ty ''ctt_eth_kzg_context'')), (''commitment'', ConstPtr (Ty ''ctt_eth_kzg_commitment'')), (''z'', ConstPtr (Ty ''ctt_eth_kzg_opening_challenge'')), (''y'', ConstPtr (Ty ''ctt_eth_kzg_eval_at_challenge'')), (''proof'', ConstPtr (Ty ''ctt_eth_kzg_proof''))] (Ty ''ctt_eth_kzg_status''),
    RFun True ''ctt_eth_kzg_compute_blob_kzg_proof''
      [(''ctx'', ConstPtr (Ty ''ctt_eth_kzg_context'')), (''proof'', MutPtr (Ty ''ctt_eth_kzg_proof'')), (''blob'', ConstPtr (Ty ''ctt_eth_kzg_blob'')), (''commitment'', ConstPtr (Ty ''ctt_eth_kzg_commitment''))] (Ty ''ctt_eth_kzg_status''),
    RFun True ''ctt_eth_kzg_verify_blob_kzg_proof''
      [(''ctx'', ConstPtr (Ty ''ctt_eth_kzg_context'')), (''blob'', ConstPtr (Ty ''ctt_eth_kzg_blob'')), (''commitment'', ConstPtr (Ty ''ctt_eth_kzg_commitment'')), (''proof'', ConstPtr (Ty ''ctt_eth_kzg_proof''))] (Ty ''ctt_eth_kzg_status''),
    RFun True ''ctt_eth_kzg_verify_blob_kzg_proof_batch''
      [(''ctx'', ConstPtr (Ty ''ctt_eth_kzg_context'')), (''blobs'', ConstPtr (Ty ''ctt_eth_kzg_blob'')), (''commitments'', ConstPtr (Ty ''ctt_eth_kzg_commitment'')), (''proofs'', ConstPtr (Ty ''ctt_eth_kzg_proof'')), (''n'', Ty ''usize''), (''secure_random_bytes'', ConstPtr (Ty ''byte''))] (Ty ''ctt_eth_kzg_status''),
    RFun True ''ctt_eth_kzg_context_new''
      [(''ctx'', MutPtr (MutPtr (Ty ''ctt_eth_kzg_context''))), (''filepath'', ConstPtr (Ty ''c_char'')), (''format'', Ty ''ctt_eth_trusted_setup_format'')] (Ty ''ctt_eth_trusted_setup_status''),
    RFun True ''ctt_eth_kzg_context_new_with_precompute''
      [(''ctx'', MutPtr (MutPtr (Ty ''ctt_eth_kzg_context''))), (''filepath'', ConstPtr (Ty ''c_char'')), (''format'', Ty ''ctt_eth_trusted_setup_format''), (''t'', Ty ''c_int''), (''b'', Ty ''c_int'')] (Ty ''ctt_eth_trusted_setup_status''),
    RFun False ''ctt_eth_kzg_context_delete''
      [(''ctx'', MutPtr (Ty ''ctt_eth_kzg_context''))] (Ty ''()'')]"

definition eth_kzg_parallel_fns :: "rfun list" where
  "eth_kzg_parallel_fns = [
    RFun True ''ctt_eth_kzg_blob_to_kzg_commitment_parallel''
      [(''tp'', ConstPtr (Ty ''ctt_threadpool'')), (''ctx'', ConstPtr (Ty ''ctt_eth_kzg_context'')), (''dst'', MutPtr (Ty ''ctt_eth_kzg_commitment'')), (''blob'', ConstPtr (Ty ''ctt_eth_kzg_blob''))] (Ty ''ctt_eth_kzg_status''),
    RFun True ''ctt_eth_kzg_compute_kzg_proof_parallel''
      [(''tp'', ConstPtr (Ty ''ctt_threadpool'')), (''ctx'', ConstPtr (Ty ''ctt_eth_kzg_context'')), (''proof'', MutPtr (Ty ''ctt_eth_kzg_proof'')), (''y'', MutPtr (Ty ''ctt_eth_kzg_eval_at_challenge'')), (''blob'', ConstPtr (Ty ''ctt_eth_kzg_blob'')), (''z'', ConstPtr (Ty ''ctt_eth_kzg_opening_challenge''))] (Ty ''ctt_eth_kzg_status''),
    RFun True ''ctt_eth_kzg_compute_blob_kzg_proof_parallel''
      [(''tp'', ConstPtr (Ty ''ctt_threadpool'')), (''ctx'', ConstPtr (Ty ''ctt_eth_kzg_context'')), (''proof'', MutPtr (Ty ''ctt_eth_kzg_proof'')), (''blob'', ConstPtr (Ty ''ctt_eth_kzg_blob'')), (''commitment'', ConstPtr (Ty ''ctt_eth_kzg_commitment''))] (Ty ''ctt_eth_kzg_status''),
    RFun True ''ctt_eth_kzg_verify_blob_kzg_proof_parallel''
      [(''tp'', ConstPtr (Ty ''ctt_threadpool'')), (''ctx'', ConstPtr (Ty ''ctt_eth_kzg_context'')), (''blob'', ConstPtr (Ty ''ctt_eth_kzg_blob'')), (''commitment'', ConstPtr (Ty ''ctt_eth_kzg_commitment'')), (''proof'', ConstPtr (Ty ''ctt_eth_kzg_proof''))] (Ty ''ctt_eth_kzg_status''),
    RFun True ''ctt_eth_kzg_verify_blob_kzg_proof_batch_parallel''
      [(''tp'', ConstPtr (Ty ''ctt_threadpool'')), (''ctx'', ConstPtr (Ty ''ctt_eth_kzg_context'')), (''blobs'', ConstPtr (Ty ''ctt_eth_kzg_blob'')), (''commitments'', ConstPtr (Ty ''ctt_eth_kzg_commitment'')), (''proofs'', ConstPtr (Ty ''ctt_eth_kzg_proof'')), (''n'', Ty ''usize''), (''secure_random_bytes'', ConstPtr (Ty ''byte''))] (Ty ''ctt_eth_kzg_status'')]"

definition eth_kzg_peerdas_fns :: "rfun list" where
  "eth_kzg_peerdas_fns = [
    RFun True ''ctt_eth_kzg_compute_cells_and_kzg_proofs''
      [(''ctx'', ConstPtr (Ty ''ctt_eth_kzg_context'')), (''cells'', MutPtr (Ty ''ctt_eth_kzg_cell'')), (''proofs'', MutPtr (Ty ''ctt_eth_kzg_proof'')), (''blob'', ConstPtr (Ty ''ctt_eth_kzg_blob''))] (Ty ''ctt_eth_kzg_status''),
    RFun True ''ctt_eth_kzg_verify_cell_kzg_proof_batch''
      [(''ctx'', ConstPtr (Ty ''ctt_eth_kzg_context'')), (''commitments'', ConstPtr (Ty ''ctt_eth_kzg_commitment'')), (''cell_indices'', ConstPtr (Ty ''u64'')), (''cells'', ConstPtr (Ty ''ctt_eth_kzg_cell'')), (''proofs'', ConstPtr (Ty ''ctt_eth_kzg_proof'')), (''num_cells'', Ty ''usize''), (''secure_random_bytes'', ConstPtr (Ty ''byte''))] (Ty ''ctt_eth_kzg_status''),
    RFun True ''ctt_eth_kzg_recover_cells_and_kzg_proofs''
      [(''ctx'', ConstPtr (Ty ''ctt_eth_kzg_context'')), (''recovered_cells'', MutPtr (Ty ''ctt_eth_kzg_cell'')), (''recovered_proofs'', MutPtr (Ty ''ctt_eth_kzg_proof'')), (''cell_indices'', ConstPtr (Ty ''u64'')), (''cells'', ConstPtr (Ty ''ctt_eth_kzg_cell'')), (''num_cells'', Ty ''usize'')] (Ty ''ctt_eth_kzg_status'')]"

definition eth_evm_fns :: "rfun list" where
  "eth_evm_fns = [
    RFun True ''ctt_eth_evm_sha256''
      [(''r'', MutPtr (Ty ''byte'')), (''r_len'', Ty ''usize''), (''inputs'', ConstPtr (Ty ''byte'')), (''inputs_len'', Ty ''usize'')] (Ty ''ctt_evm_status''),
    RFun True ''ctt_eth_evm_ripemd160''
      [(''r'', MutPtr (Ty ''byte'')), (''r_len'', Ty ''usize''), (''inputs'', ConstPtr (Ty ''byte'')), (''inputs_len'', Ty ''usize'')] (Ty ''ctt_evm_status''),
    RFun True ''ctt_eth_evm_modexp_result_size''
      [(''size'', MutPtr (Ty ''u64'')), (''inputs'', ConstPtr (Ty ''byte'')), (''inputs_len'', Ty ''usize'')] (Ty ''ctt_evm_status''),
    RFun True ''ctt_eth_evm_modexp''
      [(''r'', MutPtr (Ty ''byte'')), (''r_len'', Ty ''usize''), (''inputs'', ConstPtr (Ty ''byte'')), (''inputs_len'', Ty ''usize'')] (Ty ''ctt_evm_status''),
    RFun True ''ctt_eth_evm_bn254_g1add''
      [(''r'', MutPtr (Ty ''byte'')), (''r_len'', Ty ''usize''), (''inputs'', ConstPtr (Ty ''byte'')), (''inputs_len'', Ty ''usize'')] (Ty ''ctt_evm_status''),
    RFun True ''ctt_eth_evm_bn254_g1mul''
      [(''r'', MutPtr (Ty ''byte'')), (''r_len'', Ty ''usize''), (''inputs'', ConstPtr (Ty ''byte'')), (''inputs_len'', Ty ''usize'')] (Ty ''ctt_evm_status''),
    RFun True ''ctt_eth_evm_bn254_ecpairingcheck''
      [(''r'', MutPtr (Ty ''byte'')), (''r_len'', Ty ''usize''), (''inputs'', ConstPtr (Ty ''byte'')), (''inputs_len'', Ty ''usize'')] (Ty ''ctt_evm_status''),
    RFun True ''ctt_eth_evm_bls12381_g1add''
      [(''r'', MutPtr (Ty ''byte'')), (''r_len'', Ty ''usize''), (''inputs'', ConstPtr (Ty ''byte'')), (''inputs_len'', Ty ''usize'')] (Ty ''ctt_evm_status''),
    RFun True ''ctt_eth_evm_bls12381_g2add''
      [(''r'', MutPtr (Ty ''byte'')), (''r_len'', Ty ''usize''), (''inputs'', ConstPtr (Ty ''byte'')), (''inputs_len'', Ty ''usize'')] (Ty ''ctt_evm_status''),
    RFun True ''ctt_eth_evm_bls12381_g1mul''
      [(''r'', MutPtr (Ty ''byte'')), (''r_len'', Ty ''usize''), (''inputs'', ConstPtr (Ty ''byte'')), (''inputs_len'', Ty ''usize'')] (Ty ''ctt_evm_status''),
    RFun True ''ctt_eth_evm_bls12381_g2mul''
      [(''r'', MutPtr (Ty ''byte'')), (''r_len'', Ty ''usize''), (''inputs'', ConstPtr (Ty ''byte'')), (''inputs_len'', Ty ''usize'')] (Ty ''ctt_evm_status''),
    RFun True ''ctt_eth_evm_bls12381_g1msm''
      [(''r'', MutPtr (Ty ''byte'')), (''r_len'', Ty ''usize''), (''inputs'', ConstPtr (Ty ''byte'')), (''inputs_len'', Ty ''usize'')] (Ty ''ctt_evm_status''),
    RFun True ''ctt_eth_evm_bls12381_g2msm''
      [(''r'', MutPtr (Ty ''byte'')), (''r_len'', Ty ''usize''), (''inputs'', ConstPtr (Ty ''byte'')), (''inputs_len'', Ty ''usize'')] (Ty ''ctt_evm_status''),
    RFun True ''ctt_eth_evm_bls12381_pairingcheck''
      [(''r'', MutPtr (Ty ''byte'')), (''r_len'', Ty ''usize''), (''inputs'', ConstPtr (Ty ''byte'')), (''inputs_len'', Ty ''usize'')] (Ty ''ctt_evm_status''),
    RFun True ''ctt_eth_evm_bls12381_map_fp_to_g1''
      [(''r'', MutPtr (Ty ''byte'')), (''r_len'', Ty ''usize''), (''inputs'', ConstPtr (Ty ''byte'')), (''inputs_len'', Ty ''usize'')] (Ty ''ctt_evm_status''),
    RFun True ''ctt_eth_evm_bls12381_map_fp2_to_g2''
      [(''r'', MutPtr (Ty ''byte'')), (''r_len'', Ty ''usize''), (''inputs'', ConstPtr (Ty ''byte'')), (''inputs_len'', Ty ''usize'')] (Ty ''ctt_evm_status''),
    RFun True ''ctt_eth_evm_kzg_point_evaluation''
      [(''ctx'', ConstPtr (Ty ''ctt_eth_kzg_context'')), (''r'', MutPtr (Ty ''byte'')), (''r_len'', Ty ''usize''), (''inputs'', ConstPtr (Ty ''byte'')), (''inputs_len'', Ty ''usize'')] (Ty ''ctt_evm_status'')]"

end
