(* ===== verification/Bindings_32.thy ===== *)
theory Bindings_32
  imports Bindings_BLS12_381 Bindings_BN254 Bindings_Pasta Bindings_Banderwagon Bindings_Protocols
begin

text \<open>
  The foreign functions of \<^verbatim>\<open>constantine-sys/src/bindings32.rs\<close>, which \<^verbatim>\<open>lib.rs\<close> includes instead of
  \<^verbatim>\<open>bindings64.rs\<close> on 32-bit targets. Block by block the two generated files have the same text, so each
  block of this file is the list of the other one; they differ in the structs (Bindings_Types).
\<close>

section \<open>The big integers\<close>

definition big253_fns_32 :: "rfun list" where
  "big253_fns_32 = big253_fns"

definition big254_fns_32 :: "rfun list" where
  "big254_fns_32 = big254_fns"

definition big255_fns_32 :: "rfun list" where
  "big255_fns_32 = big255_fns"

definition big381_fns_32 :: "rfun list" where
  "big381_fns_32 = big381_fns"

section \<open>BLS12-381\<close>

definition bls12_381_fr_fns_32 :: "rfun list" where
  "bls12_381_fr_fns_32 = bls12_381_fr_fns"

definition bls12_381_fp_fns_32 :: "rfun list" where
  "bls12_381_fp_fns_32 = bls12_381_fp_fns"

definition bls12_381_fp_sqrt_fns_32 :: "rfun list" where
  "bls12_381_fp_sqrt_fns_32 = bls12_381_fp_sqrt_fns"

definition bls12_381_fp2_fns_32 :: "rfun list" where
  "bls12_381_fp2_fns_32 = bls12_381_fp2_fns"

definition bls12_381_fp2_sqrt_fns_32 :: "rfun list" where
  "bls12_381_fp2_sqrt_fns_32 = bls12_381_fp2_sqrt_fns"

definition bls12_381_g1_aff_fns_32 :: "rfun list" where
  "bls12_381_g1_aff_fns_32 = bls12_381_g1_aff_fns"

definition bls12_381_g1_jac_fns_32 :: "rfun list" where
  "bls12_381_g1_jac_fns_32 = bls12_381_g1_jac_fns"

definition bls12_381_g1_prj_fns_32 :: "rfun list" where
  "bls12_381_g1_prj_fns_32 = bls12_381_g1_prj_fns"

definition bls12_381_g2_aff_fns_32 :: "rfun list" where
  "bls12_381_g2_aff_fns_32 = bls12_381_g2_aff_fns"

definition bls12_381_g2_jac_fns_32 :: "rfun list" where
  "bls12_381_g2_jac_fns_32 = bls12_381_g2_jac_fns"

definition bls12_381_g2_prj_fns_32 :: "rfun list" where
  "bls12_381_g2_prj_fns_32 = bls12_381_g2_prj_fns"

definition bls12_381_g1_aff_hash_fns_32 :: "rfun list" where
  "bls12_381_g1_aff_hash_fns_32 = bls12_381_g1_aff_hash_fns"

definition bls12_381_g1_jac_hash_fns_32 :: "rfun list" where
  "bls12_381_g1_jac_hash_fns_32 = bls12_381_g1_jac_hash_fns"

definition bls12_381_g1_prj_hash_fns_32 :: "rfun list" where
  "bls12_381_g1_prj_hash_fns_32 = bls12_381_g1_prj_hash_fns"

definition bls12_381_g2_aff_hash_fns_32 :: "rfun list" where
  "bls12_381_g2_aff_hash_fns_32 = bls12_381_g2_aff_hash_fns"

definition bls12_381_g2_jac_hash_fns_32 :: "rfun list" where
  "bls12_381_g2_jac_hash_fns_32 = bls12_381_g2_jac_hash_fns"

definition bls12_381_g2_prj_hash_fns_32 :: "rfun list" where
  "bls12_381_g2_prj_hash_fns_32 = bls12_381_g2_prj_hash_fns"

definition bls12_381_g1_jac_parallel_fns_32 :: "rfun list" where
  "bls12_381_g1_jac_parallel_fns_32 = bls12_381_g1_jac_parallel_fns"

definition bls12_381_g1_prj_parallel_fns_32 :: "rfun list" where
  "bls12_381_g1_prj_parallel_fns_32 = bls12_381_g1_prj_parallel_fns"

section \<open>BN254\<close>

definition bn254_snarks_fr_fns_32 :: "rfun list" where
  "bn254_snarks_fr_fns_32 = bn254_snarks_fr_fns"

definition bn254_snarks_fp_fns_32 :: "rfun list" where
  "bn254_snarks_fp_fns_32 = bn254_snarks_fp_fns"

definition bn254_snarks_fp_sqrt_fns_32 :: "rfun list" where
  "bn254_snarks_fp_sqrt_fns_32 = bn254_snarks_fp_sqrt_fns"

definition bn254_snarks_fp2_fns_32 :: "rfun list" where
  "bn254_snarks_fp2_fns_32 = bn254_snarks_fp2_fns"

definition bn254_snarks_fp2_sqrt_fns_32 :: "rfun list" where
  "bn254_snarks_fp2_sqrt_fns_32 = bn254_snarks_fp2_sqrt_fns"

definition bn254_snarks_g1_aff_fns_32 :: "rfun list" where
  "bn254_snarks_g1_aff_fns_32 = bn254_snarks_g1_aff_fns"

definition bn254_snarks_g1_jac_fns_32 :: "rfun list" where
  "bn254_snarks_g1_jac_fns_32 = bn254_snarks_g1_jac_fns"

definition bn254_snarks_g1_prj_fns_32 :: "rfun list" where
  "bn254_snarks_g1_prj_fns_32 = bn254_snarks_g1_prj_fns"

definition bn254_snarks_g2_aff_fns_32 :: "rfun list" where
  "bn254_snarks_g2_aff_fns_32 = bn254_snarks_g2_aff_fns"

definition bn254_snarks_g2_jac_fns_32 :: "rfun list" where
  "bn254_snarks_g2_jac_fns_32 = bn254_snarks_g2_jac_fns"

definition bn254_snarks_g2_prj_fns_32 :: "rfun list" where
  "bn254_snarks_g2_prj_fns_32 = bn254_snarks_g2_prj_fns"

definition bn254_snarks_g1_aff_hash_fns_32 :: "rfun list" where
  "bn254_snarks_g1_aff_hash_fns_32 = bn254_snarks_g1_aff_hash_fns"

definition bn254_snarks_g1_jac_hash_fns_32 :: "rfun list" where
  "bn254_snarks_g1_jac_hash_fns_32 = bn254_snarks_g1_jac_hash_fns"

definition bn254_snarks_g1_prj_hash_fns_32 :: "rfun list" where
  "bn254_snarks_g1_prj_hash_fns_32 = bn254_snarks_g1_prj_hash_fns"

definition bn254_snarks_g2_aff_hash_fns_32 :: "rfun list" where
  "bn254_snarks_g2_aff_hash_fns_32 = bn254_snarks_g2_aff_hash_fns"

definition bn254_snarks_g2_jac_hash_fns_32 :: "rfun list" where
  "bn254_snarks_g2_jac_hash_fns_32 = bn254_snarks_g2_jac_hash_fns"

definition bn254_snarks_g2_prj_hash_fns_32 :: "rfun list" where
  "bn254_snarks_g2_prj_hash_fns_32 = bn254_snarks_g2_prj_hash_fns"

definition bn254_snarks_g1_jac_parallel_fns_32 :: "rfun list" where
  "bn254_snarks_g1_jac_parallel_fns_32 = bn254_snarks_g1_jac_parallel_fns"

definition bn254_snarks_g1_prj_parallel_fns_32 :: "rfun list" where
  "bn254_snarks_g1_prj_parallel_fns_32 = bn254_snarks_g1_prj_parallel_fns"

section \<open>Pallas\<close>

definition pallas_fr_fns_32 :: "rfun list" where
  "pallas_fr_fns_32 = pallas_fr_fns"

definition pallas_fp_fns_32 :: "rfun list" where
  "pallas_fp_fns_32 = pallas_fp_fns"

definition pallas_fp_sqrt_fns_32 :: "rfun list" where
  "pallas_fp_sqrt_fns_32 = pallas_fp_sqrt_fns"

definition pallas_ec_aff_fns_32 :: "rfun list" where
  "pallas_ec_aff_fns_32 = pallas_ec_aff_fns"

definition pallas_ec_jac_fns_32 :: "rfun list" where
  "pallas_ec_jac_fns_32 = pallas_ec_jac_fns"

definition pallas_ec_prj_fns_32 :: "rfun list" where
  "pallas_ec_prj_fns_32 = pallas_ec_prj_fns"

definition pallas_ec_jac_parallel_fns_32 :: "rfun list" where
  "pallas_ec_jac_parallel_fns_32 = pallas_ec_jac_parallel_fns"

definition pallas_ec_prj_parallel_fns_32 :: "rfun list" where
  "pallas_ec_prj_parallel_fns_32 = pallas_ec_prj_parallel_fns"

section \<open>Vesta\<close>

definition vesta_fr_fns_32 :: "rfun list" where
  "vesta_fr_fns_32 = vesta_fr_fns"

definition vesta_fp_fns_32 :: "rfun list" where
  "vesta_fp_fns_32 = vesta_fp_fns"

definition vesta_fp_sqrt_fns_32 :: "rfun list" where
  "vesta_fp_sqrt_fns_32 = vesta_fp_sqrt_fns"

definition vesta_ec_aff_fns_32 :: "rfun list" where
  "vesta_ec_aff_fns_32 = vesta_ec_aff_fns"

definition vesta_ec_jac_fns_32 :: "rfun list" where
  "vesta_ec_jac_fns_32 = vesta_ec_jac_fns"

definition vesta_ec_prj_fns_32 :: "rfun list" where
  "vesta_ec_prj_fns_32 = vesta_ec_prj_fns"

definition vesta_ec_jac_parallel_fns_32 :: "rfun list" where
  "vesta_ec_jac_parallel_fns_32 = vesta_ec_jac_parallel_fns"

definition vesta_ec_prj_parallel_fns_32 :: "rfun list" where
  "vesta_ec_prj_parallel_fns_32 = vesta_ec_prj_parallel_fns"

section \<open>Banderwagon\<close>

definition banderwagon_fr_fns_32 :: "rfun list" where
  "banderwagon_fr_fns_32 = banderwagon_fr_fns"

definition banderwagon_fp_fns_32 :: "rfun list" where
  "banderwagon_fp_fns_32 = banderwagon_fp_fns"

definition banderwagon_fp_sqrt_fns_32 :: "rfun list" where
  "banderwagon_fp_sqrt_fns_32 = banderwagon_fp_sqrt_fns"

definition banderwagon_ec_aff_fns_32 :: "rfun list" where
  "banderwagon_ec_aff_fns_32 = banderwagon_ec_aff_fns"

definition banderwagon_ec_prj_fns_32 :: "rfun list" where
  "banderwagon_ec_prj_fns_32 = banderwagon_ec_prj_fns"

section \<open>Protocols\<close>

definition threadpool_fns_32 :: "rfun list" where
  "threadpool_fns_32 = threadpool_fns"

definition keccak256_fns_32 :: "rfun list" where
  "keccak256_fns_32 = keccak256_fns"

definition sha256_fns_32 :: "rfun list" where
  "sha256_fns_32 = sha256_fns"

definition csprng_fns_32 :: "rfun list" where
  "csprng_fns_32 = csprng_fns"

definition bls12_381_codec_fns_32 :: "rfun list" where
  "bls12_381_codec_fns_32 = bls12_381_codec_fns"

definition eth_bls_fns_32 :: "rfun list" where
  "eth_bls_fns_32 = eth_bls_fns"

definition eth_bls_verify_fns_32 :: "rfun list" where
  "eth_bls_verify_fns_32 = eth_bls_verify_fns"

definition eth_kzg_fns_32 :: "rfun list" where
  "eth_kzg_fns_32 = eth_kzg_fns"

definition eth_kzg_parallel_fns_32 :: "rfun list" where
  "eth_kzg_parallel_fns_32 = eth_kzg_parallel_fns"

definition eth_kzg_peerdas_fns_32 :: "rfun list" where
  "eth_kzg_peerdas_fns_32 = eth_kzg_peerdas_fns"

definition eth_evm_fns_32 :: "rfun list" where
  "eth_evm_fns_32 = eth_evm_fns"

section \<open>All blocks of the curves\<close>

definition curve_bindings_32 :: "rfun list list" where
  "curve_bindings_32 =
     [big253_fns_32,
      big254_fns_32,
      big255_fns_32,
      big381_fns_32,
      bls12_381_fr_fns_32,
      bls12_381_fp_fns_32,
      bls12_381_fp_sqrt_fns_32,
      bls12_381_fp2_fns_32,
      bls12_381_fp2_sqrt_fns_32,
      bls12_381_g1_aff_fns_32,
      bls12_381_g1_jac_fns_32,
      bls12_381_g1_prj_fns_32,
      bls12_381_g2_aff_fns_32,
      bls12_381_g2_jac_fns_32,
      bls12_381_g2_prj_fns_32,
      bls12_381_g1_aff_hash_fns_32,
      bls12_381_g1_jac_hash_fns_32,
      bls12_381_g1_prj_hash_fns_32,
      bls12_381_g2_aff_hash_fns_32,
      bls12_381_g2_jac_hash_fns_32,
      bls12_381_g2_prj_hash_fns_32,
      bls12_381_g1_jac_parallel_fns_32,
      bls12_381_g1_prj_parallel_fns_32,
      bn254_snarks_fr_fns_32,
      bn254_snarks_fp_fns_32,
      bn254_snarks_fp_sqrt_fns_32,
      bn254_snarks_fp2_fns_32,
      bn254_snarks_fp2_sqrt_fns_32,
      bn254_snarks_g1_aff_fns_32,
      bn254_snarks_g1_jac_fns_32,
      bn254_snarks_g1_prj_fns_32,
      bn254_snarks_g2_aff_fns_32,
      bn254_snarks_g2_jac_fns_32,
      bn254_snarks_g2_prj_fns_32,
      bn254_snarks_g1_aff_hash_fns_32,
      bn254_snarks_g1_jac_hash_fns_32,
      bn254_snarks_g1_prj_hash_fns_32,
      bn254_snarks_g2_aff_hash_fns_32,
      bn254_snarks_g2_jac_hash_fns_32,
      bn254_snarks_g2_prj_hash_fns_32,
      bn254_snarks_g1_jac_parallel_fns_32,
      bn254_snarks_g1_prj_parallel_fns_32,
      pallas_fr_fns_32,
      pallas_fp_fns_32,
      pallas_fp_sqrt_fns_32,
      pallas_ec_aff_fns_32,
      pallas_ec_jac_fns_32,
      pallas_ec_prj_fns_32,
      pallas_ec_jac_parallel_fns_32,
      pallas_ec_prj_parallel_fns_32,
      vesta_fr_fns_32,
      vesta_fp_fns_32,
      vesta_fp_sqrt_fns_32,
      vesta_ec_aff_fns_32,
      vesta_ec_jac_fns_32,
      vesta_ec_prj_fns_32,
      vesta_ec_jac_parallel_fns_32,
      vesta_ec_prj_parallel_fns_32,
      banderwagon_fr_fns_32,
      banderwagon_fp_fns_32,
      banderwagon_fp_sqrt_fns_32,
      banderwagon_ec_aff_fns_32,
      banderwagon_ec_prj_fns_32]"

lemmas bindings_32_defs = curve_bindings_32_def
  big253_fns_32_def
  big254_fns_32_def
  big255_fns_32_def
  big381_fns_32_def
  bls12_381_fr_fns_32_def
  bls12_381_fp_fns_32_def
  bls12_381_fp_sqrt_fns_32_def
  bls12_381_fp2_fns_32_def
  bls12_381_fp2_sqrt_fns_32_def
  bls12_381_g1_aff_fns_32_def
  bls12_381_g1_jac_fns_32_def
  bls12_381_g1_prj_fns_32_def
  bls12_381_g2_aff_fns_32_def
  bls12_381_g2_jac_fns_32_def
  bls12_381_g2_prj_fns_32_def
  bls12_381_g1_aff_hash_fns_32_def
  bls12_381_g1_jac_hash_fns_32_def
  bls12_381_g1_prj_hash_fns_32_def
  bls12_381_g2_aff_hash_fns_32_def
  bls12_381_g2_jac_hash_fns_32_def
  bls12_381_g2_prj_hash_fns_32_def
  bls12_381_g1_jac_parallel_fns_32_def
  bls12_381_g1_prj_parallel_fns_32_def
  bn254_snarks_fr_fns_32_def
  bn254_snarks_fp_fns_32_def
  bn254_snarks_fp_sqrt_fns_32_def
  bn254_snarks_fp2_fns_32_def
  bn254_snarks_fp2_sqrt_fns_32_def
  bn254_snarks_g1_aff_fns_32_def
  bn254_snarks_g1_jac_fns_32_def
  bn254_snarks_g1_prj_fns_32_def
  bn254_snarks_g2_aff_fns_32_def
  bn254_snarks_g2_jac_fns_32_def
  bn254_snarks_g2_prj_fns_32_def
  bn254_snarks_g1_aff_hash_fns_32_def
  bn254_snarks_g1_jac_hash_fns_32_def
  bn254_snarks_g1_prj_hash_fns_32_def
  bn254_snarks_g2_aff_hash_fns_32_def
  bn254_snarks_g2_jac_hash_fns_32_def
  bn254_snarks_g2_prj_hash_fns_32_def
  bn254_snarks_g1_jac_parallel_fns_32_def
  bn254_snarks_g1_prj_parallel_fns_32_def
  pallas_fr_fns_32_def
  pallas_fp_fns_32_def
  pallas_fp_sqrt_fns_32_def
  pallas_ec_aff_fns_32_def
  pallas_ec_jac_fns_32_def
  pallas_ec_prj_fns_32_def
  pallas_ec_jac_parallel_fns_32_def
  pallas_ec_prj_parallel_fns_32_def
  vesta_fr_fns_32_def
  vesta_fp_fns_32_def
  vesta_fp_sqrt_fns_32_def
  vesta_ec_aff_fns_32_def
  vesta_ec_jac_fns_32_def
  vesta_ec_prj_fns_32_def
  vesta_ec_jac_parallel_fns_32_def
  vesta_ec_prj_parallel_fns_32_def
  banderwagon_fr_fns_32_def
  banderwagon_fp_fns_32_def
  banderwagon_fp_sqrt_fns_32_def
  banderwagon_ec_aff_fns_32_def
  banderwagon_ec_prj_fns_32_def

end
