(* ===== verification/Nim_Exports.thy ===== *)
theory Nim_Exports
  imports Nim_Curves Bindings_32
begin

text \<open>
  What the Nim library exports: the binding templates of \<^verbatim>\<open>bindings/c_curve_decls.nim\<close> and
  \<^verbatim>\<open>bindings/c_curve_decls_parallel.nim\<close> as functions of the type names they are instantiated
  with, their instantiations in \<^verbatim>\<open>bindings/lib_curves.nim\<close>, and the agreement of every
  exported function with its Rust declaration.
\<close>

section \<open>The templates\<close>

text \<open>
  The big integer type that holds a scalar, \<^verbatim>\<open>BigInt[ScalarField.bits()]\<close>: the header generator
  prints it as \<^verbatim>\<open>big\<close> followed by the decimal bit width.
\<close>

fun decimal :: "nat \<Rightarrow> string" where
  "decimal n = (if n < 10 then [''0123456789'' ! n] else decimal (n div 10) @ [''0123456789'' ! (n mod 10)])"

definition scalar_bits :: "string \<Rightarrow> nat" where
  "scalar_bits F = the (map_of
    [(''bls12_381_fr'', orderBitwidth BLS12_381), (''bn254_snarks_fr'', orderBitwidth BN254_Snarks),
     (''pallas_fr'', orderBitwidth Pallas), (''vesta_fr'', orderBitwidth Vesta)] F)"

definition bigint_of_bits :: "nat \<Rightarrow> string" where
  "bigint_of_bits b = ''big'' @ decimal b"

definition genBindingsBig :: "string \<Rightarrow> nfun list" where
  "genBindingsBig Big = [
    NFun (''ctt_'' @ Big @ ''_unmarshalBE'') [(''dst'', NVar Big), (''src'', NBytes)] ''bool'',
    NFun (''ctt_'' @ Big @ ''_marshalBE'') [(''dst'', NVarBytes), (''src'', NObj Big)] ''bool'']"

definition genBindingsField :: "string \<Rightarrow> string \<Rightarrow> nfun list" where
  "genBindingsField Big Fld = [
    NFun (''ctt_'' @ Big @ ''_from_'' @ Fld) [(''dst'', NVar Big), (''src'', NObj Fld)] ''void'',
    NFun (''ctt_'' @ Fld @ ''_from_'' @ Big) [(''dst'', NVar Fld), (''src'', NObj Big)] ''void'',
    NFun (''ctt_'' @ Fld @ ''_unmarshalBE'') [(''dst'', NVar Fld), (''src'', NBytes)] ''bool'',
    NFun (''ctt_'' @ Fld @ ''_marshalBE'') [(''dst'', NVarBytes), (''src'', NObj Fld)] ''bool'',
    NFun (''ctt_'' @ Fld @ ''_is_eq'') [(''a'', NObj Fld), (''b'', NObj Fld)] ''SecretBool'',
    NFun (''ctt_'' @ Fld @ ''_is_zero'') [(''a'', NObj Fld)] ''SecretBool'',
    NFun (''ctt_'' @ Fld @ ''_is_one'') [(''a'', NObj Fld)] ''SecretBool'',
    NFun (''ctt_'' @ Fld @ ''_is_minus_one'') [(''a'', NObj Fld)] ''SecretBool'',
    NFun (''ctt_'' @ Fld @ ''_set_zero'') [(''a'', NVar Fld)] ''void'',
    NFun (''ctt_'' @ Fld @ ''_set_one'') [(''a'', NVar Fld)] ''void'',
    NFun (''ctt_'' @ Fld @ ''_set_minus_one'') [(''a'', NVar Fld)] ''void'',
    NFun (''ctt_'' @ Fld @ ''_neg'') [(''r'', NVar Fld), (''a'', NObj Fld)] ''void'',
    NFun (''ctt_'' @ Fld @ ''_neg_in_place'') [(''a'', NVar Fld)] ''void'',
    NFun (''ctt_'' @ Fld @ ''_sum'') [(''r'', NVar Fld), (''a'', NObj Fld), (''b'', NObj Fld)] ''void'',
    NFun (''ctt_'' @ Fld @ ''_add_in_place'') [(''a'', NVar Fld), (''b'', NObj Fld)] ''void'',
    NFun (''ctt_'' @ Fld @ ''_diff'') [(''r'', NVar Fld), (''a'', NObj Fld), (''b'', NObj Fld)] ''void'',
    NFun (''ctt_'' @ Fld @ ''_sub_in_place'') [(''a'', NVar Fld), (''b'', NObj Fld)] ''void'',
    NFun (''ctt_'' @ Fld @ ''_double'') [(''r'', NVar Fld), (''a'', NObj Fld)] ''void'',
    NFun (''ctt_'' @ Fld @ ''_double_in_place'') [(''a'', NVar Fld)] ''void'',
    NFun (''ctt_'' @ Fld @ ''_prod'') [(''r'', NVar Fld), (''a'', NObj Fld), (''b'', NObj Fld)] ''void'',
    NFun (''ctt_'' @ Fld @ ''_mul_in_place'') [(''a'', NVar Fld), (''b'', NObj Fld)] ''void'',
    NFun (''ctt_'' @ Fld @ ''_square'') [(''r'', NVar Fld), (''a'', NObj Fld)] ''void'',
    NFun (''ctt_'' @ Fld @ ''_square_in_place'') [(''a'', NVar Fld)] ''void'',
    NFun (''ctt_'' @ Fld @ ''_div2'') [(''a'', NVar Fld)] ''void'',
    NFun (''ctt_'' @ Fld @ ''_inv'') [(''r'', NVar Fld), (''a'', NObj Fld)] ''void'',
    NFun (''ctt_'' @ Fld @ ''_inv_in_place'') [(''a'', NVar Fld)] ''void'',
    NFun (''ctt_'' @ Fld @ ''_ccopy'') [(''a'', NVar Fld), (''b'', NObj Fld), (''ctl'', NSecretBool)] ''void'',
    NFun (''ctt_'' @ Fld @ ''_cswap'') [(''a'', NVar Fld), (''b'', NVar Fld), (''ctl'', NSecretBool)] ''void'',
    NFun (''ctt_'' @ Fld @ ''_cset_zero'') [(''a'', NVar Fld), (''ctl'', NSecretBool)] ''void'',
    NFun (''ctt_'' @ Fld @ ''_cset_one'') [(''a'', NVar Fld), (''ctl'', NSecretBool)] ''void'',
    NFun (''ctt_'' @ Fld @ ''_cneg_in_place'') [(''a'', NVar Fld), (''ctl'', NSecretBool)] ''void'',
    NFun (''ctt_'' @ Fld @ ''_cadd_in_place'') [(''a'', NVar Fld), (''b'', NObj Fld), (''ctl'', NSecretBool)] ''void'',
    NFun (''ctt_'' @ Fld @ ''_csub_in_place'') [(''a'', NVar Fld), (''b'', NObj Fld), (''ctl'', NSecretBool)] ''void'']"

definition genBindingsFieldSqrt :: "string \<Rightarrow> nfun list" where
  "genBindingsFieldSqrt Fld = [
    NFun (''ctt_'' @ Fld @ ''_is_square'') [(''a'', NObj Fld)] ''SecretBool'',
    NFun (''ctt_'' @ Fld @ ''_invsqrt'') [(''r'', NVar Fld), (''a'', NObj Fld)] ''void'',
    NFun (''ctt_'' @ Fld @ ''_invsqrt_in_place'') [(''r'', NVar Fld), (''a'', NObj Fld)] ''SecretBool'',
    NFun (''ctt_'' @ Fld @ ''_sqrt_in_place'') [(''a'', NVar Fld)] ''void'',
    NFun (''ctt_'' @ Fld @ ''_sqrt_if_square_in_place'') [(''a'', NVar Fld)] ''SecretBool'',
    NFun (''ctt_'' @ Fld @ ''_sqrt_invsqrt'') [(''sqrt'', NVar Fld), (''invsqrt'', NVar Fld), (''a'', NObj Fld)] ''void'',
    NFun (''ctt_'' @ Fld @ ''_sqrt_invsqrt_if_square'') [(''sqrt'', NVar Fld), (''invsqrt'', NVar Fld), (''a'', NObj Fld)] ''SecretBool'',
    NFun (''ctt_'' @ Fld @ ''_sqrt_ratio_if_square'') [(''r'', NVar Fld), (''u'', NObj Fld), (''v'', NObj Fld)] ''SecretBool'']"

definition genBindingsExtField :: "string \<Rightarrow> nfun list" where
  "genBindingsExtField Fld = [
    NFun (''ctt_'' @ Fld @ ''_is_eq'') [(''a'', NObj Fld), (''b'', NObj Fld)] ''SecretBool'',
    NFun (''ctt_'' @ Fld @ ''_is_zero'') [(''a'', NObj Fld)] ''SecretBool'',
    NFun (''ctt_'' @ Fld @ ''_is_one'') [(''a'', NObj Fld)] ''SecretBool'',
    NFun (''ctt_'' @ Fld @ ''_is_minus_one'') [(''a'', NObj Fld)] ''SecretBool'',
    NFun (''ctt_'' @ Fld @ ''_set_zero'') [(''a'', NVar Fld)] ''void'',
    NFun (''ctt_'' @ Fld @ ''_set_one'') [(''a'', NVar Fld)] ''void'',
    NFun (''ctt_'' @ Fld @ ''_set_minus_one'') [(''a'', NVar Fld)] ''void'',
    NFun (''ctt_'' @ Fld @ ''_neg'') [(''a'', NVar Fld)] ''void'',
    NFun (''ctt_'' @ Fld @ ''_sum'') [(''r'', NVar Fld), (''a'', NObj Fld), (''b'', NObj Fld)] ''void'',
    NFun (''ctt_'' @ Fld @ ''_add_in_place'') [(''a'', NVar Fld), (''b'', NObj Fld)] ''void'',
    NFun (''ctt_'' @ Fld @ ''_diff'') [(''r'', NVar Fld), (''a'', NObj Fld), (''b'', NObj Fld)] ''void'',
    NFun (''ctt_'' @ Fld @ ''_sub_in_place'') [(''a'', NVar Fld), (''b'', NObj Fld)] ''void'',
    NFun (''ctt_'' @ Fld @ ''_double'') [(''r'', NVar Fld), (''a'', NObj Fld)] ''void'',
    NFun (''ctt_'' @ Fld @ ''_double_in_place'') [(''a'', NVar Fld)] ''void'',
    NFun (''ctt_'' @ Fld @ ''_conj'') [(''r'', NVar Fld), (''a'', NObj Fld)] ''void'',
    NFun (''ctt_'' @ Fld @ ''_conj_in_place'') [(''a'', NVar Fld)] ''void'',
    NFun (''ctt_'' @ Fld @ ''_conjneg'') [(''r'', NVar Fld), (''a'', NObj Fld)] ''void'',
    NFun (''ctt_'' @ Fld @ ''_conjneg_in_place'') [(''a'', NVar Fld)] ''void'',
    NFun (''ctt_'' @ Fld @ ''_prod'') [(''r'', NVar Fld), (''a'', NObj Fld), (''b'', NObj Fld)] ''void'',
    NFun (''ctt_'' @ Fld @ ''_mul_in_place'') [(''a'', NVar Fld), (''b'', NObj Fld)] ''void'',
    NFun (''ctt_'' @ Fld @ ''_square'') [(''r'', NVar Fld), (''a'', NObj Fld)] ''void'',
    NFun (''ctt_'' @ Fld @ ''_square_in_place'') [(''a'', NVar Fld)] ''void'',
    NFun (''ctt_'' @ Fld @ ''_div2'') [(''a'', NVar Fld)] ''void'',
    NFun (''ctt_'' @ Fld @ ''_inv'') [(''r'', NVar Fld), (''a'', NObj Fld)] ''void'',
    NFun (''ctt_'' @ Fld @ ''_inv_in_place'') [(''a'', NVar Fld)] ''void'',
    NFun (''ctt_'' @ Fld @ ''_ccopy'') [(''a'', NVar Fld), (''b'', NObj Fld), (''ctl'', NSecretBool)] ''void'',
    NFun (''ctt_'' @ Fld @ ''_cset_zero'') [(''a'', NVar Fld), (''ctl'', NSecretBool)] ''void'',
    NFun (''ctt_'' @ Fld @ ''_cset_one'') [(''a'', NVar Fld), (''ctl'', NSecretBool)] ''void'',
    NFun (''ctt_'' @ Fld @ ''_cneg_in_place'') [(''a'', NVar Fld), (''ctl'', NSecretBool)] ''void'',
    NFun (''ctt_'' @ Fld @ ''_cadd_in_place'') [(''a'', NVar Fld), (''b'', NObj Fld), (''ctl'', NSecretBool)] ''void'',
    NFun (''ctt_'' @ Fld @ ''_csub_in_place'') [(''a'', NVar Fld), (''b'', NObj Fld), (''ctl'', NSecretBool)] ''void'']"

definition genBindingsExtFieldSqrt :: "string \<Rightarrow> nfun list" where
  "genBindingsExtFieldSqrt Fld = [
    NFun (''ctt_'' @ Fld @ ''_is_square'') [(''a'', NObj Fld)] ''SecretBool'',
    NFun (''ctt_'' @ Fld @ ''_sqrt_in_place'') [(''a'', NVar Fld)] ''void'',
    NFun (''ctt_'' @ Fld @ ''_sqrt_if_square_in_place'') [(''a'', NVar Fld)] ''SecretBool'']"

definition genBindings_EC_ShortW_Affine :: "string \<Rightarrow> string \<Rightarrow> nfun list" where
  "genBindings_EC_ShortW_Affine EC Fld = [
    NFun (''ctt_'' @ EC @ ''_is_eq'') [(''P'', NObj EC), (''Q'', NObj EC)] ''SecretBool'',
    NFun (''ctt_'' @ EC @ ''_is_neutral'') [(''P'', NObj EC)] ''SecretBool'',
    NFun (''ctt_'' @ EC @ ''_set_neutral'') [(''P'', NVar EC)] ''void'',
    NFun (''ctt_'' @ EC @ ''_ccopy'') [(''P'', NVar EC), (''Q'', NObj EC), (''ctl'', NSecretBool)] ''void'',
    NFun (''ctt_'' @ EC @ ''_is_on_curve'') [(''x'', NObj Fld), (''y'', NObj Fld)] ''SecretBool'',
    NFun (''ctt_'' @ EC @ ''_neg'') [(''P'', NVar EC), (''Q'', NObj EC)] ''void'',
    NFun (''ctt_'' @ EC @ ''_neg_in_place'') [(''P'', NVar EC)] ''void'']"

definition genBindings_EC_ShortW_NonAffine :: "string \<Rightarrow> string \<Rightarrow> string \<Rightarrow> string \<Rightarrow> nfun list" where
  "genBindings_EC_ShortW_NonAffine EC EcAff ScalarBig ScalarField = [
    NFun (''ctt_'' @ EC @ ''_is_eq'') [(''P'', NObj EC), (''Q'', NObj EC)] ''SecretBool'',
    NFun (''ctt_'' @ EC @ ''_is_neutral'') [(''P'', NObj EC)] ''SecretBool'',
    NFun (''ctt_'' @ EC @ ''_set_neutral'') [(''P'', NVar EC)] ''void'',
    NFun (''ctt_'' @ EC @ ''_ccopy'') [(''P'', NVar EC), (''Q'', NObj EC), (''ctl'', NSecretBool)] ''void'',
    NFun (''ctt_'' @ EC @ ''_neg'') [(''P'', NVar EC), (''Q'', NObj EC)] ''void'',
    NFun (''ctt_'' @ EC @ ''_neg_in_place'') [(''P'', NVar EC)] ''void'',
    NFun (''ctt_'' @ EC @ ''_cneg_in_place'') [(''P'', NVar EC), (''ctl'', NSecretBool)] ''void'',
    NFun (''ctt_'' @ EC @ ''_sum'') [(''r'', NVar EC), (''P'', NObj EC), (''Q'', NObj EC)] ''void'',
    NFun (''ctt_'' @ EC @ ''_add_in_place'') [(''P'', NVar EC), (''Q'', NObj EC)] ''void'',
    NFun (''ctt_'' @ EC @ ''_diff'') [(''r'', NVar EC), (''P'', NObj EC), (''Q'', NObj EC)] ''void'',
    NFun (''ctt_'' @ EC @ ''_double'') [(''r'', NVar EC), (''P'', NObj EC)] ''void'',
    NFun (''ctt_'' @ EC @ ''_double_in_place'') [(''P'', NVar EC)] ''void'',
    NFun (''ctt_'' @ EC @ ''_affine'') [(''dst'', NVar EcAff), (''src'', NObj EC)] ''void'',
    NFun (''ctt_'' @ EC @ ''_from_affine'') [(''dst'', NVar EC), (''src'', NObj EcAff)] ''void'',
    NFun (''ctt_'' @ EC @ ''_batch_affine'') [(''dst'', NArray EcAff), (''src'', NArray EC), (''n'', NCsize)] ''void'',
    NFun (''ctt_'' @ EC @ ''_scalar_mul_big_coef'') [(''P'', NVar EC), (''scalar'', NObj ScalarBig)] ''void'',
    NFun (''ctt_'' @ EC @ ''_scalar_mul_fr_coef'') [(''P'', NVar EC), (''scalar'', NObj ScalarField)] ''void'',
    NFun (''ctt_'' @ EC @ ''_scalar_mul_big_coef_vartime'') [(''P'', NVar EC), (''scalar'', NObj ScalarBig)] ''void'',
    NFun (''ctt_'' @ EC @ ''_scalar_mul_fr_coef_vartime'') [(''P'', NVar EC), (''scalar'', NObj ScalarField)] ''void'',
    NFun (''ctt_'' @ EC @ ''_multi_scalar_mul_big_coefs_vartime'') [(''r'', NVar EC), (''coefs'', NArray ScalarBig), (''points'', NArray EcAff), (''len'', NCsize)] ''void'',
    NFun (''ctt_'' @ EC @ ''_multi_scalar_mul_fr_coefs_vartime'') [(''r'', NVar EC), (''coefs'', NArray ScalarField), (''points'', NArray EcAff), (''len'', NCsize)] ''void'']"

definition genBindings_EC_TwEdw_Affine :: "string \<Rightarrow> string \<Rightarrow> nfun list" where
  "genBindings_EC_TwEdw_Affine EC Fld = [
    NFun (''ctt_'' @ EC @ ''_is_eq'') [(''P'', NObj EC), (''Q'', NObj EC)] ''SecretBool'',
    NFun (''ctt_'' @ EC @ ''_is_neutral'') [(''P'', NObj EC)] ''SecretBool'',
    NFun (''ctt_'' @ EC @ ''_set_neutral'') [(''P'', NVar EC)] ''void'',
    NFun (''ctt_'' @ EC @ ''_ccopy'') [(''P'', NVar EC), (''Q'', NObj EC), (''ctl'', NSecretBool)] ''void'',
    NFun (''ctt_'' @ EC @ ''_is_on_curve'') [(''x'', NObj Fld), (''y'', NObj Fld)] ''SecretBool'',
    NFun (''ctt_'' @ EC @ ''_neg'') [(''P'', NVar EC), (''Q'', NObj EC)] ''void'',
    NFun (''ctt_'' @ EC @ ''_neg_in_place'') [(''P'', NVar EC)] ''void'',
    NFun (''ctt_'' @ EC @ ''_cneg'') [(''P'', NVar EC), (''ctl'', NSecretBool)] ''void'']"

definition genBindings_EC_TwEdw_Projective :: "string \<Rightarrow> string \<Rightarrow> string \<Rightarrow> string \<Rightarrow> nfun list" where
  "genBindings_EC_TwEdw_Projective EC EcAff ScalarBig ScalarField = [
    NFun (''ctt_'' @ EC @ ''_is_eq'') [(''P'', NObj EC), (''Q'', NObj EC)] ''SecretBool'',
    NFun (''ctt_'' @ EC @ ''_is_neutral'') [(''P'', NObj EC)] ''SecretBool'',
    NFun (''ctt_'' @ EC @ ''_set_neutral'') [(''P'', NVar EC)] ''void'',
    NFun (''ctt_'' @ EC @ ''_ccopy'') [(''P'', NVar EC), (''Q'', NObj EC), (''ctl'', NSecretBool)] ''void'',
    NFun (''ctt_'' @ EC @ ''_neg'') [(''P'', NVar EC), (''Q'', NObj EC)] ''void'',
    NFun (''ctt_'' @ EC @ ''_neg_in_place'') [(''P'', NVar EC)] ''void'',
    NFun (''ctt_'' @ EC @ ''_cneg'') [(''P'', NVar EC), (''ctl'', NSecretBool)] ''void'',
    NFun (''ctt_'' @ EC @ ''_sum'') [(''r'', NVar EC), (''P'', NObj EC), (''Q'', NObj EC)] ''void'',
    NFun (''ctt_'' @ EC @ ''_double'') [(''r'', NVar EC), (''P'', NObj EC)] ''void'',
    NFun (''ctt_'' @ EC @ ''_add_in_place'') [(''P'', NVar EC), (''Q'', NObj EC)] ''void'',
    NFun (''ctt_'' @ EC @ ''_diff'') [(''r'', NVar EC), (''P'', NObj EC), (''Q'', NObj EC)] ''void'',
    NFun (''ctt_'' @ EC @ ''_diff_in_place'') [(''P'', NVar EC), (''Q'', NObj EC)] ''void'',
    NFun (''ctt_'' @ EC @ ''_mixed_diff_in_place'') [(''P'', NVar EC), (''Q'', NObj EcAff)] ''void'',
    NFun (''ctt_'' @ EC @ ''_affine'') [(''dst'', NVar EcAff), (''src'', NObj EC)] ''void'',
    NFun (''ctt_'' @ EC @ ''_from_affine'') [(''dst'', NVar EC), (''src'', NObj EcAff)] ''void'',
    NFun (''ctt_'' @ EC @ ''_batch_affine'') [(''dst'', NArray EcAff), (''src'', NArray EC), (''n'', NCsize)] ''void'',
    NFun (''ctt_'' @ EC @ ''_scalar_mul_big_coef'') [(''P'', NVar EC), (''scalar'', NObj ScalarBig)] ''void'',
    NFun (''ctt_'' @ EC @ ''_scalar_mul_fr_coef'') [(''P'', NVar EC), (''scalar'', NObj ScalarField)] ''void'',
    NFun (''ctt_'' @ EC @ ''_scalar_mul_big_coef_vartime'') [(''P'', NVar EC), (''scalar'', NObj ScalarBig)] ''void'',
    NFun (''ctt_'' @ EC @ ''_scalar_mul_fr_coef_vartime'') [(''P'', NVar EC), (''scalar'', NObj ScalarField)] ''void'',
    NFun (''ctt_'' @ EC @ ''_multi_scalar_mul_big_coefs_vartime'') [(''r'', NVar EC), (''coefs'', NArray ScalarBig), (''points'', NArray EcAff), (''len'', NCsize)] ''void'',
    NFun (''ctt_'' @ EC @ ''_multi_scalar_mul_fr_coefs_vartime'') [(''r'', NVar EC), (''coefs'', NArray ScalarField), (''points'', NArray EcAff), (''len'', NCsize)] ''void'']"

definition genBindings_EC_hash_to_curve :: "string \<Rightarrow> string \<Rightarrow> string \<Rightarrow> nfun list" where
  "genBindings_EC_hash_to_curve EC mapping hash = [
    NFun (''ctt_'' @ EC @ ''_'' @ mapping @ ''_'' @ hash) [(''r'', NVar EC), (''augmentation'', NBytes), (''message'', NBytes), (''domainSepTag'', NBytes)] ''void'']"

definition genParallelBindings_EC_ShortW_NonAffine :: "string \<Rightarrow> string \<Rightarrow> string \<Rightarrow> nfun list" where
  "genParallelBindings_EC_ShortW_NonAffine EC EcAff ScalarField = [
    NFun (''ctt_'' @ EC @ ''_multi_scalar_mul_big_coefs_vartime_parallel'') [(''tp'', NThreadpool), (''r'', NVar EC), (''coefs'', NArray (bigint_of_bits (scalar_bits ScalarField))), (''points'', NArray EcAff), (''len'', NCsize)] ''void'',
    NFun (''ctt_'' @ EC @ ''_multi_scalar_mul_fr_coefs_vartime_parallel'') [(''tp'', NThreadpool), (''r'', NVar EC), (''coefs'', NArray ScalarField), (''points'', NArray EcAff), (''len'', NCsize)] ''void'']"

section \<open>The instantiations\<close>

text \<open>The exports of each collection, in the order of the file.\<close>

definition cBindings_big :: "nfun list list" where
  "cBindings_big = [
    genBindingsBig ''big253'',
    genBindingsBig ''big254'',
    genBindingsBig ''big255'',
    genBindingsBig ''big381'']"

definition cBindings_bls12_381 :: "nfun list list" where
  "cBindings_bls12_381 = [
    genBindingsField ''big255'' ''bls12_381_fr'',
    genBindingsField ''big381'' ''bls12_381_fp'',
    genBindingsFieldSqrt ''bls12_381_fp'',
    genBindingsExtField ''bls12_381_fp2'',
    genBindingsExtFieldSqrt ''bls12_381_fp2'',
    genBindings_EC_ShortW_Affine ''bls12_381_g1_aff'' ''bls12_381_fp'',
    genBindings_EC_ShortW_NonAffine ''bls12_381_g1_jac'' ''bls12_381_g1_aff'' ''big255'' ''bls12_381_fr'',
    genBindings_EC_ShortW_NonAffine ''bls12_381_g1_prj'' ''bls12_381_g1_aff'' ''big255'' ''bls12_381_fr'',
    genBindings_EC_ShortW_Affine ''bls12_381_g2_aff'' ''bls12_381_fp2'',
    genBindings_EC_ShortW_NonAffine ''bls12_381_g2_jac'' ''bls12_381_g2_aff'' ''big255'' ''bls12_381_fr'',
    genBindings_EC_ShortW_NonAffine ''bls12_381_g2_prj'' ''bls12_381_g2_aff'' ''big255'' ''bls12_381_fr'',
    genBindings_EC_hash_to_curve ''bls12_381_g1_aff'' ''sswu'' ''sha256'',
    genBindings_EC_hash_to_curve ''bls12_381_g1_jac'' ''sswu'' ''sha256'',
    genBindings_EC_hash_to_curve ''bls12_381_g1_prj'' ''sswu'' ''sha256'',
    genBindings_EC_hash_to_curve ''bls12_381_g2_aff'' ''sswu'' ''sha256'',
    genBindings_EC_hash_to_curve ''bls12_381_g2_jac'' ''sswu'' ''sha256'',
    genBindings_EC_hash_to_curve ''bls12_381_g2_prj'' ''sswu'' ''sha256'']"

definition cBindings_bls12_381_parallel :: "nfun list list" where
  "cBindings_bls12_381_parallel = [
    genParallelBindings_EC_ShortW_NonAffine ''bls12_381_g1_jac'' ''bls12_381_g1_aff'' ''bls12_381_fr'',
    genParallelBindings_EC_ShortW_NonAffine ''bls12_381_g1_prj'' ''bls12_381_g1_aff'' ''bls12_381_fr'']"

definition cBindings_bn254_snarks :: "nfun list list" where
  "cBindings_bn254_snarks = [
    genBindingsField ''big254'' ''bn254_snarks_fr'',
    genBindingsField ''big254'' ''bn254_snarks_fp'',
    genBindingsFieldSqrt ''bn254_snarks_fp'',
    genBindingsExtField ''bn254_snarks_fp2'',
    genBindingsExtFieldSqrt ''bn254_snarks_fp2'',
    genBindings_EC_ShortW_Affine ''bn254_snarks_g1_aff'' ''bn254_snarks_fp'',
    genBindings_EC_ShortW_NonAffine ''bn254_snarks_g1_jac'' ''bn254_snarks_g1_aff'' ''big254'' ''bn254_snarks_fr'',
    genBindings_EC_ShortW_NonAffine ''bn254_snarks_g1_prj'' ''bn254_snarks_g1_aff'' ''big254'' ''bn254_snarks_fr'',
    genBindings_EC_ShortW_Affine ''bn254_snarks_g2_aff'' ''bn254_snarks_fp2'',
    genBindings_EC_ShortW_NonAffine ''bn254_snarks_g2_jac'' ''bn254_snarks_g2_aff'' ''big254'' ''bn254_snarks_fr'',
    genBindings_EC_ShortW_NonAffine ''bn254_snarks_g2_prj'' ''bn254_snarks_g2_aff'' ''big254'' ''bn254_snarks_fr'',
    genBindings_EC_hash_to_curve ''bn254_snarks_g1_aff'' ''svdw'' ''sha256'',
    genBindings_EC_hash_to_curve ''bn254_snarks_g1_jac'' ''svdw'' ''sha256'',
    genBindings_EC_hash_to_curve ''bn254_snarks_g1_prj'' ''svdw'' ''sha256'',
    genBindings_EC_hash_to_curve ''bn254_snarks_g2_aff'' ''svdw'' ''sha256'',
    genBindings_EC_hash_to_curve ''bn254_snarks_g2_jac'' ''svdw'' ''sha256'',
    genBindings_EC_hash_to_curve ''bn254_snarks_g2_prj'' ''svdw'' ''sha256'']"

definition cBindings_bn254_snarks_parallel :: "nfun list list" where
  "cBindings_bn254_snarks_parallel = [
    genParallelBindings_EC_ShortW_NonAffine ''bn254_snarks_g1_jac'' ''bn254_snarks_g1_aff'' ''bn254_snarks_fr'',
    genParallelBindings_EC_ShortW_NonAffine ''bn254_snarks_g1_prj'' ''bn254_snarks_g1_aff'' ''bn254_snarks_fr'']"

definition cBindings_pallas :: "nfun list list" where
  "cBindings_pallas = [
    genBindingsField ''big255'' ''pallas_fr'',
    genBindingsField ''big255'' ''pallas_fp'',
    genBindingsFieldSqrt ''pallas_fp'',
    genBindings_EC_ShortW_Affine ''pallas_ec_aff'' ''pallas_fp'',
    genBindings_EC_ShortW_NonAffine ''pallas_ec_jac'' ''pallas_ec_aff'' ''big255'' ''pallas_fr'',
    genBindings_EC_ShortW_NonAffine ''pallas_ec_prj'' ''pallas_ec_aff'' ''big255'' ''pallas_fr'']"

definition cBindings_pallas_parallel :: "nfun list list" where
  "cBindings_pallas_parallel = [
    genParallelBindings_EC_ShortW_NonAffine ''pallas_ec_jac'' ''pallas_ec_aff'' ''pallas_fr'',
    genParallelBindings_EC_ShortW_NonAffine ''pallas_ec_prj'' ''pallas_ec_aff'' ''pallas_fr'']"

definition cBindings_vesta :: "nfun list list" where
  "cBindings_vesta = [
    genBindingsField ''big255'' ''vesta_fr'',
    genBindingsField ''big255'' ''vesta_fp'',
    genBindingsFieldSqrt ''vesta_fp'',
    genBindings_EC_ShortW_Affine ''vesta_ec_aff'' ''vesta_fp'',
    genBindings_EC_ShortW_NonAffine ''vesta_ec_jac'' ''vesta_ec_aff'' ''big255'' ''vesta_fr'',
    genBindings_EC_ShortW_NonAffine ''vesta_ec_prj'' ''vesta_ec_aff'' ''big255'' ''vesta_fr'']"

definition cBindings_vesta_parallel :: "nfun list list" where
  "cBindings_vesta_parallel = [
    genParallelBindings_EC_ShortW_NonAffine ''vesta_ec_jac'' ''vesta_ec_aff'' ''vesta_fr'',
    genParallelBindings_EC_ShortW_NonAffine ''vesta_ec_prj'' ''vesta_ec_aff'' ''vesta_fr'']"

definition cBindings_banderwagon :: "nfun list list" where
  "cBindings_banderwagon = [
    genBindingsField ''big253'' ''banderwagon_fr'',
    genBindingsField ''big255'' ''banderwagon_fp'',
    genBindingsFieldSqrt ''banderwagon_fp'',
    genBindings_EC_TwEdw_Affine ''banderwagon_ec_aff'' ''banderwagon_fp'',
    genBindings_EC_TwEdw_Projective ''banderwagon_ec_prj'' ''banderwagon_ec_aff'' ''big253'' ''banderwagon_fr'']"

text \<open>The Rust declarations of the same blocks.\<close>

definition rust_bindings_big :: "rfun list list" where
  "rust_bindings_big = [
    big253_fns,
    big254_fns,
    big255_fns,
    big381_fns]"

definition rust_bindings_bls12_381 :: "rfun list list" where
  "rust_bindings_bls12_381 = [
    bls12_381_fr_fns,
    bls12_381_fp_fns,
    bls12_381_fp_sqrt_fns,
    bls12_381_fp2_fns,
    bls12_381_fp2_sqrt_fns,
    bls12_381_g1_aff_fns,
    bls12_381_g1_jac_fns,
    bls12_381_g1_prj_fns,
    bls12_381_g2_aff_fns,
    bls12_381_g2_jac_fns,
    bls12_381_g2_prj_fns,
    bls12_381_g1_aff_hash_fns,
    bls12_381_g1_jac_hash_fns,
    bls12_381_g1_prj_hash_fns,
    bls12_381_g2_aff_hash_fns,
    bls12_381_g2_jac_hash_fns,
    bls12_381_g2_prj_hash_fns]"

definition rust_bindings_bls12_381_parallel :: "rfun list list" where
  "rust_bindings_bls12_381_parallel = [
    bls12_381_g1_jac_parallel_fns,
    bls12_381_g1_prj_parallel_fns]"

definition rust_bindings_bn254_snarks :: "rfun list list" where
  "rust_bindings_bn254_snarks = [
    bn254_snarks_fr_fns,
    bn254_snarks_fp_fns,
    bn254_snarks_fp_sqrt_fns,
    bn254_snarks_fp2_fns,
    bn254_snarks_fp2_sqrt_fns,
    bn254_snarks_g1_aff_fns,
    bn254_snarks_g1_jac_fns,
    bn254_snarks_g1_prj_fns,
    bn254_snarks_g2_aff_fns,
    bn254_snarks_g2_jac_fns,
    bn254_snarks_g2_prj_fns,
    bn254_snarks_g1_aff_hash_fns,
    bn254_snarks_g1_jac_hash_fns,
    bn254_snarks_g1_prj_hash_fns,
    bn254_snarks_g2_aff_hash_fns,
    bn254_snarks_g2_jac_hash_fns,
    bn254_snarks_g2_prj_hash_fns]"

definition rust_bindings_bn254_snarks_parallel :: "rfun list list" where
  "rust_bindings_bn254_snarks_parallel = [
    bn254_snarks_g1_jac_parallel_fns,
    bn254_snarks_g1_prj_parallel_fns]"

definition rust_bindings_pallas :: "rfun list list" where
  "rust_bindings_pallas = [
    pallas_fr_fns,
    pallas_fp_fns,
    pallas_fp_sqrt_fns,
    pallas_ec_aff_fns,
    pallas_ec_jac_fns,
    pallas_ec_prj_fns]"

definition rust_bindings_pallas_parallel :: "rfun list list" where
  "rust_bindings_pallas_parallel = [
    pallas_ec_jac_parallel_fns,
    pallas_ec_prj_parallel_fns]"

definition rust_bindings_vesta :: "rfun list list" where
  "rust_bindings_vesta = [
    vesta_fr_fns,
    vesta_fp_fns,
    vesta_fp_sqrt_fns,
    vesta_ec_aff_fns,
    vesta_ec_jac_fns,
    vesta_ec_prj_fns]"

definition rust_bindings_vesta_parallel :: "rfun list list" where
  "rust_bindings_vesta_parallel = [
    vesta_ec_jac_parallel_fns,
    vesta_ec_prj_parallel_fns]"

definition rust_bindings_banderwagon :: "rfun list list" where
  "rust_bindings_banderwagon = [
    banderwagon_fr_fns,
    banderwagon_fp_fns,
    banderwagon_fp_sqrt_fns,
    banderwagon_ec_aff_fns,
    banderwagon_ec_prj_fns]"

section \<open>Agreement\<close>

lemma scalar_big_types:
  "bigint_of_bits (scalar_bits ''bls12_381_fr'') = ''big255''"
  "bigint_of_bits (scalar_bits ''bn254_snarks_fr'') = ''big254''"
  "bigint_of_bits (scalar_bits ''pallas_fr'') = ''big255''"
  "bigint_of_bits (scalar_bits ''vesta_fr'') = ''big255''"
  by (simp_all add: bigint_of_bits_def scalar_bits_def curve_defs)

lemma big253_fns_bound: "bound_by (genBindingsBig ''big253'') big253_fns"
  by code_simp

lemma big254_fns_bound: "bound_by (genBindingsBig ''big254'') big254_fns"
  by code_simp

lemma big255_fns_bound: "bound_by (genBindingsBig ''big255'') big255_fns"
  by code_simp

lemma big381_fns_bound: "bound_by (genBindingsBig ''big381'') big381_fns"
  by code_simp

lemma bls12_381_fr_fns_bound: "bound_by (genBindingsField ''big255'' ''bls12_381_fr'') bls12_381_fr_fns"
  by code_simp

lemma bls12_381_fp_fns_bound: "bound_by (genBindingsField ''big381'' ''bls12_381_fp'') bls12_381_fp_fns"
  by code_simp

lemma bls12_381_fp_sqrt_fns_bound: "bound_by (genBindingsFieldSqrt ''bls12_381_fp'') bls12_381_fp_sqrt_fns"
  by code_simp

lemma bls12_381_fp2_fns_bound: "bound_by (genBindingsExtField ''bls12_381_fp2'') bls12_381_fp2_fns"
  by code_simp

lemma bls12_381_fp2_sqrt_fns_bound: "bound_by (genBindingsExtFieldSqrt ''bls12_381_fp2'') bls12_381_fp2_sqrt_fns"
  by code_simp

lemma bls12_381_g1_aff_fns_bound: "bound_by (genBindings_EC_ShortW_Affine ''bls12_381_g1_aff'' ''bls12_381_fp'') bls12_381_g1_aff_fns"
  by code_simp

lemma bls12_381_g1_jac_fns_bound: "bound_by (genBindings_EC_ShortW_NonAffine ''bls12_381_g1_jac'' ''bls12_381_g1_aff'' ''big255'' ''bls12_381_fr'') bls12_381_g1_jac_fns"
  by code_simp

lemma bls12_381_g1_prj_fns_bound: "bound_by (genBindings_EC_ShortW_NonAffine ''bls12_381_g1_prj'' ''bls12_381_g1_aff'' ''big255'' ''bls12_381_fr'') bls12_381_g1_prj_fns"
  by code_simp

lemma bls12_381_g2_aff_fns_bound: "bound_by (genBindings_EC_ShortW_Affine ''bls12_381_g2_aff'' ''bls12_381_fp2'') bls12_381_g2_aff_fns"
  by code_simp

lemma bls12_381_g2_jac_fns_bound: "bound_by (genBindings_EC_ShortW_NonAffine ''bls12_381_g2_jac'' ''bls12_381_g2_aff'' ''big255'' ''bls12_381_fr'') bls12_381_g2_jac_fns"
  by code_simp

lemma bls12_381_g2_prj_fns_bound: "bound_by (genBindings_EC_ShortW_NonAffine ''bls12_381_g2_prj'' ''bls12_381_g2_aff'' ''big255'' ''bls12_381_fr'') bls12_381_g2_prj_fns"
  by code_simp

lemma bls12_381_g1_aff_hash_fns_bound: "bound_by (genBindings_EC_hash_to_curve ''bls12_381_g1_aff'' ''sswu'' ''sha256'') bls12_381_g1_aff_hash_fns"
  by code_simp

lemma bls12_381_g1_jac_hash_fns_bound: "bound_by (genBindings_EC_hash_to_curve ''bls12_381_g1_jac'' ''sswu'' ''sha256'') bls12_381_g1_jac_hash_fns"
  by code_simp

lemma bls12_381_g1_prj_hash_fns_bound: "bound_by (genBindings_EC_hash_to_curve ''bls12_381_g1_prj'' ''sswu'' ''sha256'') bls12_381_g1_prj_hash_fns"
  by code_simp

lemma bls12_381_g2_aff_hash_fns_bound: "bound_by (genBindings_EC_hash_to_curve ''bls12_381_g2_aff'' ''sswu'' ''sha256'') bls12_381_g2_aff_hash_fns"
  by code_simp

lemma bls12_381_g2_jac_hash_fns_bound: "bound_by (genBindings_EC_hash_to_curve ''bls12_381_g2_jac'' ''sswu'' ''sha256'') bls12_381_g2_jac_hash_fns"
  by code_simp

lemma bls12_381_g2_prj_hash_fns_bound: "bound_by (genBindings_EC_hash_to_curve ''bls12_381_g2_prj'' ''sswu'' ''sha256'') bls12_381_g2_prj_hash_fns"
  by code_simp

lemma bls12_381_g1_jac_parallel_fns_bound: "bound_by (genParallelBindings_EC_ShortW_NonAffine ''bls12_381_g1_jac'' ''bls12_381_g1_aff'' ''bls12_381_fr'') bls12_381_g1_jac_parallel_fns"
  unfolding genParallelBindings_EC_ShortW_NonAffine_def scalar_big_types by code_simp

lemma bls12_381_g1_prj_parallel_fns_bound: "bound_by (genParallelBindings_EC_ShortW_NonAffine ''bls12_381_g1_prj'' ''bls12_381_g1_aff'' ''bls12_381_fr'') bls12_381_g1_prj_parallel_fns"
  unfolding genParallelBindings_EC_ShortW_NonAffine_def scalar_big_types by code_simp

lemma bn254_snarks_fr_fns_bound: "bound_by (genBindingsField ''big254'' ''bn254_snarks_fr'') bn254_snarks_fr_fns"
  by code_simp

lemma bn254_snarks_fp_fns_bound: "bound_by (genBindingsField ''big254'' ''bn254_snarks_fp'') bn254_snarks_fp_fns"
  by code_simp

lemma bn254_snarks_fp_sqrt_fns_bound: "bound_by (genBindingsFieldSqrt ''bn254_snarks_fp'') bn254_snarks_fp_sqrt_fns"
  by code_simp

lemma bn254_snarks_fp2_fns_bound: "bound_by (genBindingsExtField ''bn254_snarks_fp2'') bn254_snarks_fp2_fns"
  by code_simp

lemma bn254_snarks_fp2_sqrt_fns_bound: "bound_by (genBindingsExtFieldSqrt ''bn254_snarks_fp2'') bn254_snarks_fp2_sqrt_fns"
  by code_simp

lemma bn254_snarks_g1_aff_fns_bound: "bound_by (genBindings_EC_ShortW_Affine ''bn254_snarks_g1_aff'' ''bn254_snarks_fp'') bn254_snarks_g1_aff_fns"
  by code_simp

lemma bn254_snarks_g1_jac_fns_bound: "bound_by (genBindings_EC_ShortW_NonAffine ''bn254_snarks_g1_jac'' ''bn254_snarks_g1_aff'' ''big254'' ''bn254_snarks_fr'') bn254_snarks_g1_jac_fns"
  by code_simp

lemma bn254_snarks_g1_prj_fns_bound: "bound_by (genBindings_EC_ShortW_NonAffine ''bn254_snarks_g1_prj'' ''bn254_snarks_g1_aff'' ''big254'' ''bn254_snarks_fr'') bn254_snarks_g1_prj_fns"
  by code_simp

lemma bn254_snarks_g2_aff_fns_bound: "bound_by (genBindings_EC_ShortW_Affine ''bn254_snarks_g2_aff'' ''bn254_snarks_fp2'') bn254_snarks_g2_aff_fns"
  by code_simp

lemma bn254_snarks_g2_jac_fns_bound: "bound_by (genBindings_EC_ShortW_NonAffine ''bn254_snarks_g2_jac'' ''bn254_snarks_g2_aff'' ''big254'' ''bn254_snarks_fr'') bn254_snarks_g2_jac_fns"
  by code_simp

lemma bn254_snarks_g2_prj_fns_bound: "bound_by (genBindings_EC_ShortW_NonAffine ''bn254_snarks_g2_prj'' ''bn254_snarks_g2_aff'' ''big254'' ''bn254_snarks_fr'') bn254_snarks_g2_prj_fns"
  by code_simp

lemma bn254_snarks_g1_aff_hash_fns_bound: "bound_by (genBindings_EC_hash_to_curve ''bn254_snarks_g1_aff'' ''svdw'' ''sha256'') bn254_snarks_g1_aff_hash_fns"
  by code_simp

lemma bn254_snarks_g1_jac_hash_fns_bound: "bound_by (genBindings_EC_hash_to_curve ''bn254_snarks_g1_jac'' ''svdw'' ''sha256'') bn254_snarks_g1_jac_hash_fns"
  by code_simp

lemma bn254_snarks_g1_prj_hash_fns_bound: "bound_by (genBindings_EC_hash_to_curve ''bn254_snarks_g1_prj'' ''svdw'' ''sha256'') bn254_snarks_g1_prj_hash_fns"
  by code_simp

lemma bn254_snarks_g2_aff_hash_fns_bound: "bound_by (genBindings_EC_hash_to_curve ''bn254_snarks_g2_aff'' ''svdw'' ''sha256'') bn254_snarks_g2_aff_hash_fns"
  by code_simp

lemma bn254_snarks_g2_jac_hash_fns_bound: "bound_by (genBindings_EC_hash_to_curve ''bn254_snarks_g2_jac'' ''svdw'' ''sha256'') bn254_snarks_g2_jac_hash_fns"
  by code_simp

lemma bn254_snarks_g2_prj_hash_fns_bound: "bound_by (genBindings_EC_hash_to_curve ''bn254_snarks_g2_prj'' ''svdw'' ''sha256'') bn254_snarks_g2_prj_hash_fns"
  by code_simp

lemma bn254_snarks_g1_jac_parallel_fns_bound: "bound_by (genParallelBindings_EC_ShortW_NonAffine ''bn254_snarks_g1_jac'' ''bn254_snarks_g1_aff'' ''bn254_snarks_fr'') bn254_snarks_g1_jac_parallel_fns"
  unfolding genParallelBindings_EC_ShortW_NonAffine_def scalar_big_types by code_simp

lemma bn254_snarks_g1_prj_parallel_fns_bound: "bound_by (genParallelBindings_EC_ShortW_NonAffine ''bn254_snarks_g1_prj'' ''bn254_snarks_g1_aff'' ''bn254_snarks_fr'') bn254_snarks_g1_prj_parallel_fns"
  unfolding genParallelBindings_EC_ShortW_NonAffine_def scalar_big_types by code_simp

lemma pallas_fr_fns_bound: "bound_by (genBindingsField ''big255'' ''pallas_fr'') pallas_fr_fns"
  by code_simp

lemma pallas_fp_fns_bound: "bound_by (genBindingsField ''big255'' ''pallas_fp'') pallas_fp_fns"
  by code_simp

lemma pallas_fp_sqrt_fns_bound: "bound_by (genBindingsFieldSqrt ''pallas_fp'') pallas_fp_sqrt_fns"
  by code_simp

lemma pallas_ec_aff_fns_bound: "bound_by (genBindings_EC_ShortW_Affine ''pallas_ec_aff'' ''pallas_fp'') pallas_ec_aff_fns"
  by code_simp

lemma pallas_ec_jac_fns_bound: "bound_by (genBindings_EC_ShortW_NonAffine ''pallas_ec_jac'' ''pallas_ec_aff'' ''big255'' ''pallas_fr'') pallas_ec_jac_fns"
  by code_simp

lemma pallas_ec_prj_fns_bound: "bound_by (genBindings_EC_ShortW_NonAffine ''pallas_ec_prj'' ''pallas_ec_aff'' ''big255'' ''pallas_fr'') pallas_ec_prj_fns"
  by code_simp

lemma pallas_ec_jac_parallel_fns_bound: "bound_by (genParallelBindings_EC_ShortW_NonAffine ''pallas_ec_jac'' ''pallas_ec_aff'' ''pallas_fr'') pallas_ec_jac_parallel_fns"
  unfolding genParallelBindings_EC_ShortW_NonAffine_def scalar_big_types by code_simp

lemma pallas_ec_prj_parallel_fns_bound: "bound_by (genParallelBindings_EC_ShortW_NonAffine ''pallas_ec_prj'' ''pallas_ec_aff'' ''pallas_fr'') pallas_ec_prj_parallel_fns"
  unfolding genParallelBindings_EC_ShortW_NonAffine_def scalar_big_types by code_simp

lemma vesta_fr_fns_bound: "bound_by (genBindingsField ''big255'' ''vesta_fr'') vesta_fr_fns"
  by code_simp

lemma vesta_fp_fns_bound: "bound_by (genBindingsField ''big255'' ''vesta_fp'') vesta_fp_fns"
  by code_simp

lemma vesta_fp_sqrt_fns_bound: "bound_by (genBindingsFieldSqrt ''vesta_fp'') vesta_fp_sqrt_fns"
  by code_simp

lemma vesta_ec_aff_fns_bound: "bound_by (genBindings_EC_ShortW_Affine ''vesta_ec_aff'' ''vesta_fp'') vesta_ec_aff_fns"
  by code_simp

lemma vesta_ec_jac_fns_bound: "bound_by (genBindings_EC_ShortW_NonAffine ''vesta_ec_jac'' ''vesta_ec_aff'' ''big255'' ''vesta_fr'') vesta_ec_jac_fns"
  by code_simp

lemma vesta_ec_prj_fns_bound: "bound_by (genBindings_EC_ShortW_NonAffine ''vesta_ec_prj'' ''vesta_ec_aff'' ''big255'' ''vesta_fr'') vesta_ec_prj_fns"
  by code_simp

lemma vesta_ec_jac_parallel_fns_bound: "bound_by (genParallelBindings_EC_ShortW_NonAffine ''vesta_ec_jac'' ''vesta_ec_aff'' ''vesta_fr'') vesta_ec_jac_parallel_fns"
  unfolding genParallelBindings_EC_ShortW_NonAffine_def scalar_big_types by code_simp

lemma vesta_ec_prj_parallel_fns_bound: "bound_by (genParallelBindings_EC_ShortW_NonAffine ''vesta_ec_prj'' ''vesta_ec_aff'' ''vesta_fr'') vesta_ec_prj_parallel_fns"
  unfolding genParallelBindings_EC_ShortW_NonAffine_def scalar_big_types by code_simp

lemma banderwagon_fr_fns_bound: "bound_by (genBindingsField ''big253'' ''banderwagon_fr'') banderwagon_fr_fns"
  by code_simp

lemma banderwagon_fp_fns_bound: "bound_by (genBindingsField ''big255'' ''banderwagon_fp'') banderwagon_fp_fns"
  by code_simp

lemma banderwagon_fp_sqrt_fns_bound: "bound_by (genBindingsFieldSqrt ''banderwagon_fp'') banderwagon_fp_sqrt_fns"
  by code_simp

lemma banderwagon_ec_aff_fns_bound: "bound_by (genBindings_EC_TwEdw_Affine ''banderwagon_ec_aff'' ''banderwagon_fp'') banderwagon_ec_aff_fns"
  by code_simp

lemma banderwagon_ec_prj_fns_bound: "bound_by (genBindings_EC_TwEdw_Projective ''banderwagon_ec_prj'' ''banderwagon_ec_aff'' ''big253'' ''banderwagon_fr'') banderwagon_ec_prj_fns"
  by code_simp

section \<open>All exports\<close>

text \<open>Every export of \<^verbatim>\<open>bindings/lib_curves.nim\<close> and the Rust declarations, block by block.\<close>

definition curve_exports :: "nfun list list" where
  "curve_exports =
     cBindings_big @
     cBindings_bls12_381 @
     cBindings_bls12_381_parallel @
     cBindings_bn254_snarks @
     cBindings_bn254_snarks_parallel @
     cBindings_pallas @
     cBindings_pallas_parallel @
     cBindings_vesta @
     cBindings_vesta_parallel @
     cBindings_banderwagon"

definition curve_bindings :: "rfun list list" where
  "curve_bindings =
     rust_bindings_big @
     rust_bindings_bls12_381 @
     rust_bindings_bls12_381_parallel @
     rust_bindings_bn254_snarks @
     rust_bindings_bn254_snarks_parallel @
     rust_bindings_pallas @
     rust_bindings_pallas_parallel @
     rust_bindings_vesta @
     rust_bindings_vesta_parallel @
     rust_bindings_banderwagon"

lemmas collection_defs = curve_exports_def curve_bindings_def
  cBindings_big_def rust_bindings_big_def
  cBindings_bls12_381_def rust_bindings_bls12_381_def
  cBindings_bls12_381_parallel_def rust_bindings_bls12_381_parallel_def
  cBindings_bn254_snarks_def rust_bindings_bn254_snarks_def
  cBindings_bn254_snarks_parallel_def rust_bindings_bn254_snarks_parallel_def
  cBindings_pallas_def rust_bindings_pallas_def
  cBindings_pallas_parallel_def rust_bindings_pallas_parallel_def
  cBindings_vesta_def rust_bindings_vesta_def
  cBindings_vesta_parallel_def rust_bindings_vesta_parallel_def
  cBindings_banderwagon_def rust_bindings_banderwagon_def

lemmas all_bound =
  big253_fns_bound
  big254_fns_bound
  big255_fns_bound
  big381_fns_bound
  bls12_381_fr_fns_bound
  bls12_381_fp_fns_bound
  bls12_381_fp_sqrt_fns_bound
  bls12_381_fp2_fns_bound
  bls12_381_fp2_sqrt_fns_bound
  bls12_381_g1_aff_fns_bound
  bls12_381_g1_jac_fns_bound
  bls12_381_g1_prj_fns_bound
  bls12_381_g2_aff_fns_bound
  bls12_381_g2_jac_fns_bound
  bls12_381_g2_prj_fns_bound
  bls12_381_g1_aff_hash_fns_bound
  bls12_381_g1_jac_hash_fns_bound
  bls12_381_g1_prj_hash_fns_bound
  bls12_381_g2_aff_hash_fns_bound
  bls12_381_g2_jac_hash_fns_bound
  bls12_381_g2_prj_hash_fns_bound
  bls12_381_g1_jac_parallel_fns_bound
  bls12_381_g1_prj_parallel_fns_bound
  bn254_snarks_fr_fns_bound
  bn254_snarks_fp_fns_bound
  bn254_snarks_fp_sqrt_fns_bound
  bn254_snarks_fp2_fns_bound
  bn254_snarks_fp2_sqrt_fns_bound
  bn254_snarks_g1_aff_fns_bound
  bn254_snarks_g1_jac_fns_bound
  bn254_snarks_g1_prj_fns_bound
  bn254_snarks_g2_aff_fns_bound
  bn254_snarks_g2_jac_fns_bound
  bn254_snarks_g2_prj_fns_bound
  bn254_snarks_g1_aff_hash_fns_bound
  bn254_snarks_g1_jac_hash_fns_bound
  bn254_snarks_g1_prj_hash_fns_bound
  bn254_snarks_g2_aff_hash_fns_bound
  bn254_snarks_g2_jac_hash_fns_bound
  bn254_snarks_g2_prj_hash_fns_bound
  bn254_snarks_g1_jac_parallel_fns_bound
  bn254_snarks_g1_prj_parallel_fns_bound
  pallas_fr_fns_bound
  pallas_fp_fns_bound
  pallas_fp_sqrt_fns_bound
  pallas_ec_aff_fns_bound
  pallas_ec_jac_fns_bound
  pallas_ec_prj_fns_bound
  pallas_ec_jac_parallel_fns_bound
  pallas_ec_prj_parallel_fns_bound
  vesta_fr_fns_bound
  vesta_fp_fns_bound
  vesta_fp_sqrt_fns_bound
  vesta_ec_aff_fns_bound
  vesta_ec_jac_fns_bound
  vesta_ec_prj_fns_bound
  vesta_ec_jac_parallel_fns_bound
  vesta_ec_prj_parallel_fns_bound
  banderwagon_fr_fns_bound
  banderwagon_fp_fns_bound
  banderwagon_fp_sqrt_fns_bound
  banderwagon_ec_aff_fns_bound
  banderwagon_ec_prj_fns_bound

lemma curve_exports_bound: "list_all2 bound_by curve_exports curve_bindings"
  by (simp add: collection_defs all_bound)

text \<open>\<^verbatim>\<open>constantine-sys/src/lib.rs\<close> includes one of the two files.\<close>

definition included_bindings :: "target \<Rightarrow> rfun list list" where
  "included_bindings tg = pick tg curve_bindings curve_bindings_32"

lemma curve_bindings_32: "curve_bindings_32 = curve_bindings"
  by (simp add: bindings_32_defs collection_defs)


end
