(* ===== verification/Status.thy ===== *)
theory Status
  imports Prelude
begin

text \<open>
  The status enums that the library returns across the foreign-function interface: the Rust
  enums of \<^verbatim>\<open>constantine-sys/src/bindings64.rs\<close> with their discriminants, what reading a
  foreign byte as one of them does, their \<^verbatim>\<open>Display\<close> implementations
  (\<^verbatim>\<open>constantine-sys/src/lib.rs\<close>), and the Nim enums whose ordinals are sent.
\<close>

section \<open>The Rust enums\<close>

datatype ctt_codec_scalar_status =
  cttCodecScalar_Success | cttCodecScalar_Zero | cttCodecScalar_ScalarLargerThanCurveOrder

datatype ctt_codec_ecc_status =
  cttCodecEcc_Success | cttCodecEcc_InvalidEncoding | cttCodecEcc_CoordinateGreaterThanOrEqualModulus
  | cttCodecEcc_PointNotOnCurve | cttCodecEcc_PointNotInSubgroup | cttCodecEcc_PointAtInfinity

datatype ctt_eth_bls_status =
  cttEthBls_Success | cttEthBls_VerificationFailure | cttEthBls_InputsLengthsMismatch
  | cttEthBls_ZeroLengthAggregation | cttEthBls_PointAtInfinity

datatype ctt_eth_kzg_status =
  cttEthKzg_Success | cttEthKzg_VerificationFailure | cttEthKzg_InputsLengthsMismatch
  | cttEthKzg_ScalarZero | cttEthKzg_ScalarLargerThanCurveOrder | cttEthKzg_EccInvalidEncoding
  | cttEthKzg_EccCoordinateGreaterThanOrEqualModulus | cttEthKzg_EccPointNotOnCurve
  | cttEthKzg_EccPointNotInSubgroup | cttEthKzg_CellIndicesNotAscending

datatype ctt_eth_trusted_setup_status =
  cttEthTS_Success | cttEthTS_MissingOrInaccessibleFile | cttEthTS_InvalidFile

datatype ctt_eth_trusted_setup_format = cttEthTSFormat_ckzg4844

datatype ctt_evm_status =
  cttEVM_Success | cttEVM_InvalidInputSize | cttEVM_InvalidOutputSize | cttEVM_IntLargerThanModulus
  | cttEVM_PointNotOnCurve | cttEVM_PointNotInSubgroup | cttEVM_VerificationFailure

section \<open>Discriminants\<close>

text \<open>Each variant with its \<^verbatim>\<open>#[repr(u8)]\<close> discriminant.\<close>

definition codec_scalar_discr :: "(ctt_codec_scalar_status \<times> nat) list" where
  "codec_scalar_discr = [(cttCodecScalar_Success, 0), (cttCodecScalar_Zero, 1),
     (cttCodecScalar_ScalarLargerThanCurveOrder, 2)]"

definition codec_ecc_discr :: "(ctt_codec_ecc_status \<times> nat) list" where
  "codec_ecc_discr = [(cttCodecEcc_Success, 0), (cttCodecEcc_InvalidEncoding, 1),
     (cttCodecEcc_CoordinateGreaterThanOrEqualModulus, 2), (cttCodecEcc_PointNotOnCurve, 3),
     (cttCodecEcc_PointNotInSubgroup, 4), (cttCodecEcc_PointAtInfinity, 5)]"

definition eth_bls_discr :: "(ctt_eth_bls_status \<times> nat) list" where
  "eth_bls_discr = [(cttEthBls_Success, 0), (cttEthBls_VerificationFailure, 1),
     (cttEthBls_InputsLengthsMismatch, 2), (cttEthBls_ZeroLengthAggregation, 3),
     (cttEthBls_PointAtInfinity, 4)]"

definition eth_kzg_discr :: "(ctt_eth_kzg_status \<times> nat) list" where
  "eth_kzg_discr = [(cttEthKzg_Success, 0), (cttEthKzg_VerificationFailure, 1),
     (cttEthKzg_InputsLengthsMismatch, 2), (cttEthKzg_ScalarZero, 3),
     (cttEthKzg_ScalarLargerThanCurveOrder, 4), (cttEthKzg_EccInvalidEncoding, 5),
     (cttEthKzg_EccCoordinateGreaterThanOrEqualModulus, 6), (cttEthKzg_EccPointNotOnCurve, 7),
     (cttEthKzg_EccPointNotInSubgroup, 8), (cttEthKzg_CellIndicesNotAscending, 9)]"

definition trusted_setup_discr :: "(ctt_eth_trusted_setup_status \<times> nat) list" where
  "trusted_setup_discr = [(cttEthTS_Success, 0), (cttEthTS_MissingOrInaccessibleFile, 1),
     (cttEthTS_InvalidFile, 2)]"

definition trusted_setup_format_discr :: "(ctt_eth_trusted_setup_format \<times> nat) list" where
  "trusted_setup_format_discr = [(cttEthTSFormat_ckzg4844, 0)]"

definition evm_discr :: "(ctt_evm_status \<times> nat) list" where
  "evm_discr = [(cttEVM_Success, 0), (cttEVM_InvalidInputSize, 1), (cttEVM_InvalidOutputSize, 2),
     (cttEVM_IntLargerThanModulus, 3), (cttEVM_PointNotOnCurve, 4), (cttEVM_PointNotInSubgroup, 5),
     (cttEVM_VerificationFailure, 6)]"

lemmas discr_defs = codec_scalar_discr_def codec_ecc_discr_def eth_bls_discr_def eth_kzg_discr_def
  trusted_setup_discr_def trusted_setup_format_discr_def evm_discr_def

text \<open>A byte returned by foreign code and read as an enum: no variant with that discriminant is
  undefined behaviour.\<close>

definition read_enum :: "('a \<times> nat) list \<Rightarrow> byte \<Rightarrow> 'a outcome" where
  "read_enum e b = (case find (\<lambda>(v, d). d = unat b) e of Some (v, d) \<Rightarrow> Done v | None \<Rightarrow> UB)"

lemma read_enum_UB: "read_enum e b = UB \<longleftrightarrow> unat b \<notin> snd ` set e"
proof -
  have "read_enum e b = UB \<longleftrightarrow> find (\<lambda>(v, d). d = unat b) e = None"
    by (auto simp: read_enum_def split: option.splits)
  then show ?thesis by (force simp: find_None_iff)
qed

lemma read_enum_Done: "read_enum e b = Done v \<Longrightarrow> (v, unat b) \<in> set e"
  by (auto simp: read_enum_def find_Some_iff in_set_conv_nth split: option.splits)

lemma read_enum_variant:
  assumes "distinct (map snd e)" "(v, d) \<in> set e" "d < 256"
  shows "read_enum e (of_nat d) = Done v"
proof -
  have d: "unat (of_nat d :: byte) = d" using assms by (simp add: unat_of_nat)
  then have "read_enum e (of_nat d) \<noteq> UB"
    using assms by (force simp: read_enum_UB)
  then obtain w where w: "read_enum e (of_nat d) = Done w"
    by (auto simp: read_enum_def split: option.splits)
  then have "(w, d) \<in> set e" using d read_enum_Done [OF w] by simp
  then show ?thesis using assms w by (metis eq_key_imp_eq_value map_of_eq_Some_iff prod.inject distinct_map inj_onD snd_conv)
qed

section \<open>The Nim enums\<close>

text \<open>A Nim enum as the list of its values; a value is sent as its position.\<close>

definition CttCodecScalarStatus :: "string list" where
  "CttCodecScalarStatus = [''cttCodecScalar_Success'', ''cttCodecScalar_Zero'',
     ''cttCodecScalar_ScalarLargerThanCurveOrder'']"

definition CttCodecEccStatus :: "string list" where
  "CttCodecEccStatus = [''cttCodecEcc_Success'', ''cttCodecEcc_InvalidEncoding'',
     ''cttCodecEcc_CoordinateGreaterThanOrEqualModulus'', ''cttCodecEcc_PointNotOnCurve'',
     ''cttCodecEcc_PointNotInSubgroup'', ''cttCodecEcc_PointAtInfinity'']"

definition cttEthBlsStatus :: "string list" where
  "cttEthBlsStatus = [''cttEthBls_Success'', ''cttEthBls_VerificationFailure'',
     ''cttEthBls_InputsLengthsMismatch'', ''cttEthBls_ZeroLengthAggregation'',
     ''cttEthBls_PointAtInfinity'']"

definition cttEthKzgStatus :: "string list" where
  "cttEthKzgStatus = [''cttEthKzg_Success'', ''cttEthKzg_VerificationFailure'',
     ''cttEthKzg_InputsLengthsMismatch'', ''cttEthKzg_ScalarZero'',
     ''cttEthKzg_ScalarLargerThanCurveOrder'', ''cttEthKzg_EccInvalidEncoding'',
     ''cttEthKzg_EccCoordinateGreaterThanOrEqualModulus'', ''cttEthKzg_EccPointNotOnCurve'',
     ''cttEthKzg_EccPointNotInSubGroup'', ''cttEthKzg_CellIndicesNotAscending'']"

definition TrustedSetupStatus :: "string list" where
  "TrustedSetupStatus = [''tsSuccess'', ''tsMissingOrInaccessibleFile'', ''tsInvalidFile'']"

definition CttEVMStatus :: "string list" where
  "CttEVMStatus = [''cttEVM_Success'', ''cttEVM_InvalidInputSize'', ''cttEVM_InvalidOutputSize'',
     ''cttEVM_IntLargerThanModulus'', ''cttEVM_PointNotOnCurve'', ''cttEVM_PointNotInSubgroup'',
     ''cttEVM_VerificationFailure'', ''cttEVM_MalformedSignature'']"

lemmas nim_enum_defs = CttCodecScalarStatus_def CttCodecEccStatus_def cttEthBlsStatus_def
  cttEthKzgStatus_def TrustedSetupStatus_def CttEVMStatus_def

text \<open>Sending the value at position \<open>i\<close> of a Nim enum to Rust.\<close>

definition send_status :: "('a \<times> nat) list \<Rightarrow> nat \<Rightarrow> 'a outcome" where
  "send_status e i = read_enum e (of_nat i)"

text \<open>The names of the variants; Nim identifiers are equal up to case and underscores after the first
  letter. The trusted setup enum has another prefix in Nim.\<close>

definition to_lower :: "char \<Rightarrow> char" where
  "to_lower c = (let n = of_char c :: nat in if 65 \<le> n \<and> n \<le> 90 then char_of (n + 32) else c)"

definition same_ident :: "string \<Rightarrow> string \<Rightarrow> bool" where
  "same_ident a b \<longleftrightarrow> take 1 a = take 1 b \<and>
     map to_lower (filter (\<lambda>c. c \<noteq> CHR ''_'') (tl a)) = map to_lower (filter (\<lambda>c. c \<noteq> CHR ''_'') (tl b))"

lemma same_ident_refl [simp]: "same_ident a a"
  by (simp add: same_ident_def)

lemma same_ident_subgroup [simp]: "same_ident ''cttEthKzg_EccPointNotInSubgroup'' ''cttEthKzg_EccPointNotInSubGroup''"
  by (simp add: same_ident_def to_lower_def Let_def of_char_def char_of_def bit_Suc_0_iff)

fun codec_scalar_name :: "ctt_codec_scalar_status \<Rightarrow> string" where
  "codec_scalar_name cttCodecScalar_Success = ''cttCodecScalar_Success''"
| "codec_scalar_name cttCodecScalar_Zero = ''cttCodecScalar_Zero''"
| "codec_scalar_name cttCodecScalar_ScalarLargerThanCurveOrder = ''cttCodecScalar_ScalarLargerThanCurveOrder''"

fun codec_ecc_name :: "ctt_codec_ecc_status \<Rightarrow> string" where
  "codec_ecc_name cttCodecEcc_Success = ''cttCodecEcc_Success''"
| "codec_ecc_name cttCodecEcc_InvalidEncoding = ''cttCodecEcc_InvalidEncoding''"
| "codec_ecc_name cttCodecEcc_CoordinateGreaterThanOrEqualModulus =
     ''cttCodecEcc_CoordinateGreaterThanOrEqualModulus''"
| "codec_ecc_name cttCodecEcc_PointNotOnCurve = ''cttCodecEcc_PointNotOnCurve''"
| "codec_ecc_name cttCodecEcc_PointNotInSubgroup = ''cttCodecEcc_PointNotInSubgroup''"
| "codec_ecc_name cttCodecEcc_PointAtInfinity = ''cttCodecEcc_PointAtInfinity''"

fun eth_bls_name :: "ctt_eth_bls_status \<Rightarrow> string" where
  "eth_bls_name cttEthBls_Success = ''cttEthBls_Success''"
| "eth_bls_name cttEthBls_VerificationFailure = ''cttEthBls_VerificationFailure''"
| "eth_bls_name cttEthBls_InputsLengthsMismatch = ''cttEthBls_InputsLengthsMismatch''"
| "eth_bls_name cttEthBls_ZeroLengthAggregation = ''cttEthBls_ZeroLengthAggregation''"
| "eth_bls_name cttEthBls_PointAtInfinity = ''cttEthBls_PointAtInfinity''"

fun eth_kzg_name :: "ctt_eth_kzg_status \<Rightarrow> string" where
  "eth_kzg_name cttEthKzg_Success = ''cttEthKzg_Success''"
| "eth_kzg_name cttEthKzg_VerificationFailure = ''cttEthKzg_VerificationFailure''"
| "eth_kzg_name cttEthKzg_InputsLengthsMismatch = ''cttEthKzg_InputsLengthsMismatch''"
| "eth_kzg_name cttEthKzg_ScalarZero = ''cttEthKzg_ScalarZero''"
| "eth_kzg_name cttEthKzg_ScalarLargerThanCurveOrder = ''cttEthKzg_ScalarLargerThanCurveOrder''"
| "eth_kzg_name cttEthKzg_EccInvalidEncoding = ''cttEthKzg_EccInvalidEncoding''"
| "eth_kzg_name cttEthKzg_EccCoordinateGreaterThanOrEqualModulus =
     ''cttEthKzg_EccCoordinateGreaterThanOrEqualModulus''"
| "eth_kzg_name cttEthKzg_EccPointNotOnCurve = ''cttEthKzg_EccPointNotOnCurve''"
| "eth_kzg_name cttEthKzg_EccPointNotInSubgroup = ''cttEthKzg_EccPointNotInSubgroup''"
| "eth_kzg_name cttEthKzg_CellIndicesNotAscending = ''cttEthKzg_CellIndicesNotAscending''"

fun trusted_setup_name :: "ctt_eth_trusted_setup_status \<Rightarrow> string" where
  "trusted_setup_name cttEthTS_Success = ''tsSuccess''"
| "trusted_setup_name cttEthTS_MissingOrInaccessibleFile = ''tsMissingOrInaccessibleFile''"
| "trusted_setup_name cttEthTS_InvalidFile = ''tsInvalidFile''"

text \<open>\<open>enum_covers name e ns\<close>: each value of the Nim enum \<open>ns\<close> is received as the Rust variant of that
  name, and the Rust enum has no other variant.\<close>

definition enum_covers :: "('a \<Rightarrow> string) \<Rightarrow> ('a \<times> nat) list \<Rightarrow> string list \<Rightarrow> bool" where
  "enum_covers name e ns \<longleftrightarrow> length ns = length e \<and>
     list_all (\<lambda>i. case send_status e i of Done v \<Rightarrow> same_ident (name v) (ns ! i) | _ \<Rightarrow> False) [0..<length ns]"

section \<open>Display\<close>

fun display_bls_status :: "ctt_eth_bls_status \<Rightarrow> string" where
  "display_bls_status cttEthBls_Success = ''cttEthBls_Success''"
| "display_bls_status cttEthBls_VerificationFailure = ''cttEthBls_VerificationFailure''"
| "display_bls_status cttEthBls_InputsLengthsMismatch = ''cttEthBls_InputsLengthsMismatch''"
| "display_bls_status cttEthBls_ZeroLengthAggregation = ''cttEthBls_ZeroLengthAggregation''"
| "display_bls_status cttEthBls_PointAtInfinity = ''cttEthBls_PointAtInfinity''"

fun display_codec_scalar_status :: "ctt_codec_scalar_status \<Rightarrow> string" where
  "display_codec_scalar_status cttCodecScalar_Success = ''cttCodecScalar_Success''"
| "display_codec_scalar_status cttCodecScalar_Zero = ''cttCodecScalar_Zero''"
| "display_codec_scalar_status cttCodecScalar_ScalarLargerThanCurveOrder =
     ''cttCodecScalar_ScalarLargerThanCurveOrder''"

fun display_codec_ecc_status :: "ctt_codec_ecc_status \<Rightarrow> string" where
  "display_codec_ecc_status cttCodecEcc_Success = ''cttCodecEcc_Success''"
| "display_codec_ecc_status cttCodecEcc_InvalidEncoding = ''cttCodecEcc_Zero''"
| "display_codec_ecc_status cttCodecEcc_CoordinateGreaterThanOrEqualModulus =
     ''cttCodecEcc_CoordinateGreaterThanOrEqualModulus''"
| "display_codec_ecc_status cttCodecEcc_PointNotOnCurve = ''cttCodecEcc_PointNotOnCurve''"
| "display_codec_ecc_status cttCodecEcc_PointNotInSubgroup = ''cttCodecEcc_PointNotInSubgroup''"
| "display_codec_ecc_status cttCodecEcc_PointAtInfinity = ''cttCodecEcc_PointAtInfinity''"

fun display_evm_status :: "ctt_evm_status \<Rightarrow> string" where
  "display_evm_status cttEVM_Success = ''cttEVM_Success''"
| "display_evm_status cttEVM_InvalidInputSize = ''cttEVM_InvalidInputSize''"
| "display_evm_status cttEVM_InvalidOutputSize = ''cttEVM_InvalidOutputSize''"
| "display_evm_status cttEVM_IntLargerThanModulus = ''cttEVM_IntLargerThanModulus''"
| "display_evm_status cttEVM_PointNotOnCurve = ''cttEVM_PointNotOnCurve''"
| "display_evm_status cttEVM_PointNotInSubgroup = ''cttEVM_PointNotInSubgroup''"
| "display_evm_status cttEVM_VerificationFailure = ''cttEVM_VerificationFailure''"

section \<open>The enums agree\<close>

lemmas enum_eval = enum_covers_def send_status_def read_enum_def discr_defs nim_enum_defs
  upt_rec [of _ "numeral _"] upt_rec [of 0] unat_of_nat

lemma enum_covers_codec_scalar: "enum_covers codec_scalar_name codec_scalar_discr CttCodecScalarStatus"
  by (simp add: enum_eval)

lemma enum_covers_codec_ecc: "enum_covers codec_ecc_name codec_ecc_discr CttCodecEccStatus"
  by (simp add: enum_eval)

lemma enum_covers_bls: "enum_covers eth_bls_name eth_bls_discr cttEthBlsStatus"
  by (simp add: enum_eval)

lemma enum_covers_kzg: "enum_covers eth_kzg_name eth_kzg_discr cttEthKzgStatus"
  by (simp add: enum_eval)

lemma enum_covers_trusted_setup: "enum_covers trusted_setup_name trusted_setup_discr TrustedSetupStatus"
  by (simp add: enum_eval)

lemma evm_statuses:
  "map (send_status evm_discr) [0..<length CttEVMStatus] = map (\<lambda>(v, d). Done v) evm_discr @ [UB]"
  "last CttEVMStatus = ''cttEVM_MalformedSignature''"
  by (simp_all add: enum_eval)

lemma display_names:
  "map (display_bls_status \<circ> fst) eth_bls_discr = cttEthBlsStatus"
  "map (display_codec_scalar_status \<circ> fst) codec_scalar_discr = CttCodecScalarStatus"
  "map (display_evm_status \<circ> fst) evm_discr = butlast CttEVMStatus"
  "map (display_codec_ecc_status \<circ> fst) codec_ecc_discr = CttCodecEccStatus[1 := ''cttCodecEcc_Zero'']"
  "''cttCodecEcc_Zero'' \<notin> set CttCodecEccStatus"
  by (simp_all add: discr_defs nim_enum_defs)

text \<open>C36: every value of the five Nim status enums that the bound functions
  return (scalar and point codecs, BLS signatures, KZG, trusted setups) is received by Rust as
  the variant of the same name, and no Rust variant is left over. The Nim enum of the EVM precompiles
  has one value more than the Rust enum: the first seven arrive as the variant at their position,
  and sending \<^verbatim>\<open>cttEVM_MalformedSignature\<close>, the eighth, is undefined behaviour in Rust. \<^verbatim>\<open>Display\<close> prints
  the name of the variant for the BLS, scalar codec and EVM statuses; for the point codec it prints
  \<^verbatim>\<open>cttCodecEcc_Zero\<close>, which names no variant, for \<^verbatim>\<open>cttCodecEcc_InvalidEncoding\<close>, and the name of the
  variant for every other one.\<close>

theorem status_transport:
  "enum_covers codec_scalar_name codec_scalar_discr CttCodecScalarStatus \<and>
   enum_covers codec_ecc_name codec_ecc_discr CttCodecEccStatus \<and>
   enum_covers eth_bls_name eth_bls_discr cttEthBlsStatus \<and>
   enum_covers eth_kzg_name eth_kzg_discr cttEthKzgStatus \<and>
   enum_covers trusted_setup_name trusted_setup_discr TrustedSetupStatus \<and>
   map (send_status evm_discr) [0..<length CttEVMStatus] = map (\<lambda>(v, d). Done v) evm_discr @ [UB] \<and>
   last CttEVMStatus = ''cttEVM_MalformedSignature'' \<and>
   map (display_bls_status \<circ> fst) eth_bls_discr = cttEthBlsStatus \<and>
   map (display_codec_scalar_status \<circ> fst) codec_scalar_discr = CttCodecScalarStatus \<and>
   map (display_evm_status \<circ> fst) evm_discr = butlast CttEVMStatus \<and>
   map (display_codec_ecc_status \<circ> fst) codec_ecc_discr = CttCodecEccStatus[1 := ''cttCodecEcc_Zero''] \<and>
   ''cttCodecEcc_Zero'' \<notin> set CttCodecEccStatus"
  by (intro conjI enum_covers_codec_scalar enum_covers_codec_ecc enum_covers_bls
      enum_covers_kzg enum_covers_trusted_setup evm_statuses display_names)

end
