(* ===== verification/Rust_Core.thy ===== *)
theory Rust_Core
  imports Prelude
begin

text \<open>
  The crate \<^verbatim>\<open>constantine-core\<close>: the system random generator, the thread count query and the
  threadpool, over models of the library functions they call
  (\<^verbatim>\<open>constantine/csprngs/sysrand.nim\<close> on Linux,
  \<^verbatim>\<open>constantine/threadpool/primitives/topology.nim\<close>, \<^verbatim>\<open>constantine/threadpool/threadpool.nim\<close>).
\<close>

section \<open>Integer conversions\<close>

text \<open>\<^verbatim>\<open>try_into().unwrap()\<close> between \<^verbatim>\<open>usize\<close> and \<^verbatim>\<open>c_int\<close>.\<close>

definition usize_to_c_int :: "nat \<Rightarrow> int outcome" where
  "usize_to_c_int n = (if int n \<le> c_int_max then Done (int n) else Panic)"

definition c_int_to_usize :: "int \<Rightarrow> nat outcome" where
  "c_int_to_usize i = (if 0 \<le> i then Done (nat i) else Panic)"

section \<open>Random bytes\<close>

text \<open>
  One answer of the \<^verbatim>\<open>getrandom\<close> system call: some bytes written from the start of the
  buffer it was given, or an error that is retried (\<^verbatim>\<open>EAGAIN\<close>, \<^verbatim>\<open>EINTR\<close>) or not.
\<close>

datatype getrandom_reply = Bytes_read "byte list" | Retry_error | Fatal_error

text \<open>
  The loop of \<^verbatim>\<open>sysrand\<close> on the answers the kernel gives to its successive calls; \<open>None\<close> when
  it still waits after the last of them. Every call is given the start of the buffer and the
  number of bytes still wanted.
\<close>

fun sysrand_loop :: "nat \<Rightarrow> nat \<Rightarrow> byte list \<Rightarrow> getrandom_reply list \<Rightarrow> (bool \<times> byte list) option" where
  "sysrand_loop len cur buf replies =
     (if cur < len then
        (case replies of
           [] \<Rightarrow> None
         | Bytes_read bs # rest \<Rightarrow>
             let bs = take (len - cur) bs in
             if 0 < length bs then sysrand_loop len (cur + length bs) (splice buf 0 bs) rest
             else Some (False, buf)
         | Retry_error # rest \<Rightarrow> sysrand_loop len cur buf rest
         | Fatal_error # rest \<Rightarrow> Some (False, buf))
      else Some (True, buf))"

declare sysrand_loop.simps [simp del]

definition ctt_csprng_sysrand :: "byte list \<Rightarrow> nat \<Rightarrow> getrandom_reply list \<Rightarrow> (bool \<times> byte list) option" where
  "ctt_csprng_sysrand buf len replies = sysrand_loop len 0 buf replies"

text \<open>The Rust wrapper: the buffer is a mutable slice and the returned flag is dropped.\<close>

definition csprngs_sysrand :: "byte list \<Rightarrow> getrandom_reply list \<Rightarrow> byte list option" where
  "csprngs_sysrand buffer replies = map_option snd (ctt_csprng_sysrand buffer (length buffer) replies)"

lemma sysrand_loop_length:
  "sysrand_loop len cur buf replies = Some (ok, buf') \<Longrightarrow> len \<le> length buf \<Longrightarrow> length buf' = length buf"
  by (induction len cur buf replies rule: sysrand_loop.induct)
    (subst (asm) (3) sysrand_loop.simps,
     auto simp: Let_def min_def split: if_splits list.splits getrandom_reply.splits)

lemma nth_splice_beyond: "length ys \<le> i \<Longrightarrow> length ys \<le> length xs \<Longrightarrow> splice xs 0 ys ! i = xs ! i"
  by (simp add: splice_def nth_append)

text \<open>Bytes past the longest answer are never written.\<close>

definition answer_bound :: "getrandom_reply list \<Rightarrow> nat \<Rightarrow> bool" where
  "answer_bound replies k \<longleftrightarrow> (\<forall>bs. Bytes_read bs \<in> set replies \<longrightarrow> length bs \<le> k)"

lemma sysrand_loop_beyond:
  "sysrand_loop len cur buf replies = Some (ok, buf') \<Longrightarrow> len \<le> length buf \<Longrightarrow>
   answer_bound replies k \<Longrightarrow> k \<le> i \<Longrightarrow> buf' ! i = buf ! i"
proof (induction len cur buf replies rule: sysrand_loop.induct)
  case (1 len cur buf replies)
  show ?case
  proof (cases "cur < len")
    case True
    then obtain r rest where r: "replies = r # rest"
      using 1(3) by (cases replies) (auto simp: sysrand_loop.simps [of len])
    then have b: "answer_bound rest k" using 1(5) by (auto simp: answer_bound_def)
    show ?thesis
    proof (cases r)
      case (Bytes_read bs)
      let ?bs = "take (len - cur) bs"
      have k: "length ?bs \<le> i" "length ?bs \<le> length buf"
        using 1(4-6) r Bytes_read by (auto simp: answer_bound_def)
      show ?thesis
      proof (cases "0 < length ?bs")
        case pos: True
        then have "sysrand_loop len (cur + length ?bs) (splice buf 0 ?bs) rest = Some (ok, buf')"
          using 1(3) True r Bytes_read by (simp add: sysrand_loop.simps [of len cur] Let_def)
        then have "buf' ! i = splice buf 0 ?bs ! i"
          using 1(1) [OF True r Bytes_read refl pos] 1(4,6) b k by simp
        then show ?thesis using k by (simp add: nth_splice_beyond)
      next
        case False
        then show ?thesis using 1(3) True r Bytes_read by (auto simp: sysrand_loop.simps [of len] Let_def)
      qed
    next
      case Retry_error
      then show ?thesis using 1 True r b by (simp add: sysrand_loop.simps [of len cur])
    next
      case Fatal_error
      then show ?thesis using 1(3) True r by (simp add: sysrand_loop.simps [of len])
    qed
  qed (use 1 in \<open>simp add: sysrand_loop.simps [of len]\<close>)
qed

text \<open>If each call after retries answers in one piece, the buffer is that answer.\<close>

lemma sysrand_loop_retries:
  "cur < len \<Longrightarrow> sysrand_loop len cur buf (replicate n Retry_error @ replies) = sysrand_loop len cur buf replies"
  by (induction n) (simp_all add: sysrand_loop.simps [of len cur buf "Retry_error # _"])

lemma sysrand_loop_whole:
  "length bs = len \<Longrightarrow> 0 < len \<Longrightarrow> len = length buf \<Longrightarrow>
   sysrand_loop len 0 buf (replicate n Retry_error @ Bytes_read bs # replies) = Some (True, bs)"
proof -
  assume l: "length bs = len" "0 < len" "len = length buf"
  then have "bs \<noteq> []" by auto
  with l show ?thesis
    by (simp add: sysrand_loop_retries)
      (simp add: sysrand_loop.simps [of _ 0] sysrand_loop.simps [of _ "length _"] Let_def)
qed

text \<open>The loop ends at the first failure or empty answer, and at the latest when there were as many
  answers with bytes as bytes are wanted.\<close>

definition ends_sysrand :: "getrandom_reply \<Rightarrow> bool" where
  "ends_sysrand r \<longleftrightarrow> r = Fatal_error \<or> r = Bytes_read []"

definition has_bytes :: "getrandom_reply \<Rightarrow> bool" where
  "has_bytes r \<longleftrightarrow> r \<noteq> Fatal_error \<and> r \<noteq> Retry_error \<and> r \<noteq> Bytes_read []"

lemma sysrand_loop_returns:
  "(\<exists>r \<in> set replies. ends_sysrand r) \<or> len \<le> cur + length (filter has_bytes replies) \<Longrightarrow>
   \<exists>ok buf'. sysrand_loop len cur buf replies = Some (ok, buf')"
proof (induction len cur buf replies rule: sysrand_loop.induct)
  case (1 len cur buf replies)
  show ?case
  proof (cases "cur < len")
    case True
    then obtain r rest where r: "replies = r # rest" using 1(3) by (cases replies) auto
    show ?thesis
    proof (cases r)
      case (Bytes_read bs)
      show ?thesis
      proof (cases "0 < length (take (len - cur) bs)")
        case pos: True
        then have "\<not> ends_sysrand r" "has_bytes r" using Bytes_read by (auto simp: ends_sysrand_def has_bytes_def)
        moreover have "\<And>n. len \<le> Suc (cur + n) \<Longrightarrow> len \<le> cur + length (take (len - cur) bs) + n"
          using pos by linarith
        note less = calculation this
        then have "(\<exists>r \<in> set rest. ends_sysrand r) \<or>
            len \<le> cur + length (take (len - cur) bs) + length (filter has_bytes rest)"
          using 1(3) less by (simp add: r del: length_take) blast
        from 1(1) [OF True r Bytes_read refl pos this] show ?thesis
          using True r Bytes_read pos by (simp add: sysrand_loop.simps [of len cur] Let_def)
      next
        case False
        then show ?thesis using True r Bytes_read by (auto simp: sysrand_loop.simps [of len cur] Let_def)
      qed
    next
      case Retry_error
      then have "(\<exists>r \<in> set rest. ends_sysrand r) \<or> len \<le> cur + length (filter has_bytes rest)"
        using 1(3) unfolding r by (simp add: ends_sysrand_def [of Retry_error] has_bytes_def [of Retry_error])
      from 1(2) [OF True r Retry_error this] show ?thesis
        using True r Retry_error by (simp add: sysrand_loop.simps [of len cur])
    next
      case Fatal_error
      then show ?thesis using True r by (auto simp: sysrand_loop.simps [of len cur])
    qed
  qed (auto simp: sysrand_loop.simps [of len cur])
qed

lemma sysrand_loop_waits: "cur < len \<Longrightarrow> set replies \<subseteq> {Retry_error} \<Longrightarrow> sysrand_loop len cur buf replies = None"
  by (induction replies) (auto simp: sysrand_loop.simps [of len cur])

section \<open>Thread count\<close>

text \<open>\<open>os_threads\<close> is what the operating system answers (\<^verbatim>\<open>sysconf\<close> gives -1 on failure).\<close>

definition get_num_threads_os :: "int \<Rightarrow> nat outcome" where
  "get_num_threads_os os_threads = c_int_to_usize os_threads"

section \<open>Threadpools\<close>

text \<open>
  What creating and shutting down threadpools changes on the calling thread: the thread-local
  \<^verbatim>\<open>workerContext\<close> (which pool it serves, and whether its current task is the root task) and,
  for each live pool, its number of threads and whether the task queue of its root worker is
  initialised. Pools that have been freed are gone from \<open>pools\<close>.
\<close>

record worker_context =
  wc_threadpool :: "nat option"
  wc_root_task :: bool

record pool =
  numThreads :: int
  queue_live :: bool

record pool_state =
  workerContext :: worker_context
  pools :: "nat \<Rightarrow> pool option"
  next_pool :: nat

definition pool_init :: pool_state where
  "pool_init = \<lparr>workerContext = \<lparr>wc_threadpool = None, wc_root_task = False\<rparr>,
     pools = (\<lambda>_. None), next_pool = 0\<rparr>"

text \<open>
  \<^verbatim>\<open>ctt_threadpool_new\<close>: arrays of \<open>n\<close> queues and signals, of which \<^verbatim>\<open>setupWorker\<close>
  initialises those of worker 0 without a check that there is one.
\<close>

definition setupWorker :: "nat \<Rightarrow> int \<Rightarrow> pool_state \<Rightarrow> pool_state outcome" where
  "setupWorker tp n s =
     (if 0 < n then Done (s\<lparr>pools := (pools s)(tp \<mapsto> \<lparr>numThreads = n, queue_live = True\<rparr>)\<rparr>) else UB)"

definition ctt_threadpool_new :: "int \<Rightarrow> pool_state \<Rightarrow> (nat \<times> pool_state) outcome" where
  "ctt_threadpool_new n s =
     (let tp = next_pool s;
          s = s\<lparr>workerContext := (workerContext s)\<lparr>wc_threadpool := Some tp\<rparr>, next_pool := Suc tp\<rparr>
      in obind (setupWorker tp n s) (\<lambda>s.
         Done (tp, s\<lparr>workerContext := (workerContext s)\<lparr>wc_root_task := True\<rparr>\<rparr>)))"

text \<open>\<^verbatim>\<open>workerContext.teardownWorker()\<close>: frees the task queue that the context points to.\<close>

definition teardownWorker :: "pool_state \<Rightarrow> pool_state outcome" where
  "teardownWorker s =
     (case wc_threadpool (workerContext s) of
        None \<Rightarrow> UB
      | Some c \<Rightarrow>
          (case pools s c of
             None \<Rightarrow> UB
           | Some p \<Rightarrow>
               if queue_live p then Done (s\<lparr>pools := (pools s)(c \<mapsto> p\<lparr>queue_live := False\<rparr>)\<rparr>)
               else UB))"

text \<open>\<^verbatim>\<open>cleanup\<close>: frees the arrays of the pool and the pool.\<close>

definition cleanup :: "nat \<Rightarrow> pool_state \<Rightarrow> pool_state outcome" where
  "cleanup tp s = (case pools s tp of None \<Rightarrow> UB | Some _ \<Rightarrow> Done (s\<lparr>pools := (pools s)(tp := None)\<rparr>))"

text \<open>\<^verbatim>\<open>shutdown\<close>, on a pool with no task left (\<^verbatim>\<open>syncAll\<close> has returned).\<close>

definition ctt_threadpool_shutdown :: "nat \<Rightarrow> pool_state \<Rightarrow> pool_state outcome" where
  "ctt_threadpool_shutdown tp s =
     (if pools s tp = None then UB
      else obind (teardownWorker s) (\<lambda>s.
           obind (cleanup tp s) (\<lambda>s.
           Done (s\<lparr>workerContext := (workerContext s)\<lparr>wc_root_task := False\<rparr>\<rparr>))))"

text \<open>The Rust type: a pointer to the pool, created by \<^verbatim>\<open>new\<close> and shut down by \<^verbatim>\<open>drop\<close>.\<close>

record Threadpool =
  pool_ctx :: nat

definition Threadpool_new :: "nat \<Rightarrow> pool_state \<Rightarrow> (Threadpool \<times> pool_state) outcome" where
  "Threadpool_new num_threads s =
     obind (usize_to_c_int num_threads) (\<lambda>n.
     obind (ctt_threadpool_new n s) (\<lambda>(tp, s). Done (\<lparr>pool_ctx = tp\<rparr>, s)))"

definition get_private_context :: "Threadpool \<Rightarrow> nat" where
  "get_private_context tp = pool_ctx tp"

definition Threadpool_drop :: "Threadpool \<Rightarrow> pool_state \<Rightarrow> pool_state outcome" where
  "Threadpool_drop tp s = ctt_threadpool_shutdown (pool_ctx tp) s"

lemmas pool_defs = Threadpool_new_def setupWorker_def Threadpool_drop_def ctt_threadpool_new_def
  ctt_threadpool_shutdown_def teardownWorker_def cleanup_def usize_to_c_int_def

text \<open>A program that creates and drops one pool after the other.\<close>

fun one_at_a_time :: "nat list \<Rightarrow> pool_state \<Rightarrow> pool_state outcome" where
  "one_at_a_time [] s = Done s"
| "one_at_a_time (n # ns) s =
     obind (Threadpool_new n s) (\<lambda>(tp, s). obind (Threadpool_drop tp s) (one_at_a_time ns))"

definition valid_threads :: "nat \<Rightarrow> bool" where
  "valid_threads n \<longleftrightarrow> 0 < n \<and> int n \<le> c_int_max"

lemma new_then_drop:
  "valid_threads n \<Longrightarrow>
   \<exists>tp s' s''. Threadpool_new n s = Done (tp, s') \<and> pools s' (pool_ctx tp) \<noteq> None \<and>
     Threadpool_drop tp s' = Done s'' \<and> pools s'' = (pools s)(next_pool s := None) \<and>
     next_pool s'' = Suc (next_pool s)"
  by (simp add: pool_defs valid_threads_def Let_def)

lemma one_at_a_time_safe:
  "\<forall>n \<in> set ns. valid_threads n \<Longrightarrow> \<forall>p \<ge> next_pool s. pools s p = None \<Longrightarrow>
   \<exists>s'. one_at_a_time ns s = Done s' \<and> pools s' = pools s"
proof (induction ns arbitrary: s)
  case (Cons n ns)
  obtain tp s' s'' where run: "Threadpool_new n s = Done (tp, s')" "Threadpool_drop tp s' = Done s''"
    "pools s'' = (pools s)(next_pool s := None)" "next_pool s'' = Suc (next_pool s)"
    using new_then_drop [of n s] Cons.prems by auto
  moreover have "pools s'' = pools s" using run Cons.prems by (auto simp: fun_eq_iff)
  ultimately show ?case using Cons.IH [of s''] Cons.prems by auto
qed simp

section \<open>Properties\<close>

text \<open>C37: when the kernel answers a request in one piece, after any number of interrupted calls, the
  whole buffer of \<^verbatim>\<open>sysrand\<close> holds the kernel's random bytes. But the loop never advances its pointer
  into the buffer: after any run, successful or not, every byte past the longest single answer is
  still the one the caller put there.\<close>

theorem sysrand_bytes:
  assumes "0 < length bs" "length bs = length buf"
    and "csprngs_sysrand buf replies = Some buf'" "answer_bound replies k" "k \<le> i"
  shows "csprngs_sysrand buf (replicate n Retry_error @ Bytes_read bs # rest) = Some bs \<and> buf' ! i = buf ! i"
  using assms by (auto simp: csprngs_sysrand_def ctt_csprng_sysrand_def sysrand_loop_whole intro: sysrand_loop_beyond)

theorem sysrand_bytes_witness:
  "csprngs_sysrand [0, 0, 0, 0] (replicate 3 Retry_error @ [Bytes_read [7, 9, 5, 6]]) = Some [7, 9, 5, 6] \<and>
   ctt_csprng_sysrand [0, 0, 0, 0] 4 [Bytes_read [7, 9], Bytes_read [5, 6]] = Some (True, [5, 6, 0, 0]) \<and>
   [5, 6, 0, 0 :: byte] ! 3 = [0, 0, 0, 0] ! 3"
proof -
  have run: "ctt_csprng_sysrand [0, 0, 0, 0] 4 [Bytes_read [7, 9], Bytes_read [5, 6]] = Some (True, [5, 6, 0, 0])"
    by (simp add: ctt_csprng_sysrand_def sysrand_loop.simps splice_def)
  then have "csprngs_sysrand [0, 0, 0, 0] [Bytes_read [7, 9], Bytes_read [5, 6]] = Some [5, 6, 0, 0]"
    by (simp add: csprngs_sysrand_def eval_nat_numeral)
  then have "csprngs_sysrand [0, 0, 0, 0] (replicate 3 Retry_error @ [Bytes_read [7, 9, 5, 6]]) = Some [7, 9, 5, 6] \<and>
      [5, 6, 0, 0 :: byte] ! 3 = [0, 0, 0, 0] ! 3"
    by (intro sysrand_bytes [of _ _ _ _ 2]) (auto simp: answer_bound_def)
  then show ?thesis using run by simp
qed

text \<open>C38: \<^verbatim>\<open>sysrand\<close> returns once the kernel has failed, has answered with no byte, or has answered with
  bytes as many times as bytes are wanted; the buffer keeps its length. As long as the kernel only
  asks to try again, a request of at least one byte does not return.\<close>

theorem sysrand_returns:
  "((\<exists>r \<in> set replies. ends_sysrand r) \<or> length buffer \<le> length (filter has_bytes replies) \<longrightarrow>
      (\<exists>out. csprngs_sysrand buffer replies = Some out \<and> length out = length buffer)) \<and>
    (buffer \<noteq> [] \<and> set replies \<subseteq> {Retry_error} \<longrightarrow> csprngs_sysrand buffer replies = None)"
proof (intro conjI impI)
  assume "(\<exists>r \<in> set replies. ends_sysrand r) \<or> length buffer \<le> length (filter has_bytes replies)"
  then obtain ok out where r: "sysrand_loop (length buffer) 0 buffer replies = Some (ok, out)"
    using sysrand_loop_returns [of replies "length buffer" 0 buffer] by auto
  then have "length out = length buffer" by (rule sysrand_loop_length) simp
  then show "\<exists>out. csprngs_sysrand buffer replies = Some out \<and> length out = length buffer"
    by (simp add: csprngs_sysrand_def ctt_csprng_sysrand_def r)
next
  assume "buffer \<noteq> [] \<and> set replies \<subseteq> {Retry_error}"
  then show "csprngs_sysrand buffer replies = None"
    by (simp add: csprngs_sysrand_def ctt_csprng_sysrand_def sysrand_loop_waits)
qed

theorem sysrand_returns_witness:
  "(\<exists>out. csprngs_sysrand [0, 0] [Retry_error, Bytes_read [7], Bytes_read [8]] = Some out \<and> length out = 2) \<and>
   csprngs_sysrand [0] [Retry_error, Retry_error] = None"
  using sysrand_returns [of "[Retry_error, Bytes_read [7], Bytes_read [8]]" "[0, 0]"]
    sysrand_returns [of "[Retry_error, Retry_error]" "[0]"]
  by (simp add: has_bytes_def numeral_2_eq_2)

text \<open>C39: any program that creates and drops threadpools one at a time, each with a positive number of
  threads that fits a C \<^verbatim>\<open>int\<close>, runs without undefined behaviour and leaves no pool behind. With two
  threadpools alive on one thread, dropping them in either order is undefined behaviour: the
  thread-local context only knows the younger pool, whose task queue is freed twice or used after it
  was freed.\<close>

theorem threadpool_ownership:
  assumes "list_all valid_threads ns" "valid_threads n" "valid_threads k"
  shows "(\<exists>s. one_at_a_time ns pool_init = Done s \<and> pools s = pools pool_init) \<and>
   obind (Threadpool_new n s) (\<lambda>(a, s). obind (Threadpool_new k s) (\<lambda>(b, s).
     obind (Threadpool_drop b s) (Threadpool_drop a))) = UB \<and>
   obind (Threadpool_new n s) (\<lambda>(a, s). obind (Threadpool_new k s) (\<lambda>(b, s).
     obind (Threadpool_drop a s) (Threadpool_drop b))) = UB"
proof
  show "\<exists>s. one_at_a_time ns pool_init = Done s \<and> pools s = pools pool_init"
    using one_at_a_time_safe [of ns pool_init] assms(1) by (simp add: list_all_iff pool_init_def)
qed (use assms(2,3) in \<open>simp add: pool_defs valid_threads_def Let_def\<close>)

theorem threadpool_ownership_witness:
  "(\<exists>s. one_at_a_time [4, 1, 8] pool_init = Done s \<and> pools s = pools pool_init) \<and>
   obind (Threadpool_new 2 pool_init) (\<lambda>(a, s). obind (Threadpool_new 2 s) (\<lambda>(b, s).
     obind (Threadpool_drop b s) (Threadpool_drop a))) = UB"
  using threadpool_ownership [of "[4, 1, 8]" 2 2 pool_init] by (simp add: valid_threads_def c_int_max_def)


end
