(* ===== verification/Memory.thy ===== *)
theory Memory
  imports Prelude
begin

text \<open>
  The memory that the Rust crates share with the library: blocks of bytes, each byte possibly
  uninitialised (\<^verbatim>\<open>MaybeUninit\<close>), and opaque objects that only the library looks into
  (contexts, threadpools). A pointer is a block and an offset. Every access checks that the
  block is live and that the range is inside it; a failed check is undefined behaviour.
\<close>

section \<open>Blocks and pointers\<close>

datatype ptr = Null | Dangling | Ptr nat nat

datatype 'c block = Bytes "byte option list" | Opaque 'c

record 'c mem =
  blocks :: "nat \<Rightarrow> 'c block option"
  fresh :: nat

definition empty_mem :: "'c mem" where
  "empty_mem = \<lparr>blocks = (\<lambda>_. None), fresh = 0\<rparr>"

text \<open>Block numbers from \<open>fresh\<close> on have never been handed out.\<close>

definition mem_ok :: "'c mem \<Rightarrow> bool" where
  "mem_ok m \<longleftrightarrow> (\<forall>b \<ge> fresh m. blocks m b = None)"

section \<open>Operations\<close>

definition alloc :: "'c block \<Rightarrow> 'c mem \<Rightarrow> ptr \<times> 'c mem" where
  "alloc b m = (Ptr (fresh m) 0, m\<lparr>blocks := (blocks m)(fresh m \<mapsto> b), fresh := Suc (fresh m)\<rparr>)"

text \<open>\<^verbatim>\<open>MaybeUninit::uninit()\<close> and \<^verbatim>\<open>Box::new_uninit()\<close> of \<open>n\<close> bytes; an initialised buffer.\<close>

definition alloc_uninit :: "nat \<Rightarrow> 'c mem \<Rightarrow> ptr \<times> 'c mem" where
  "alloc_uninit n = alloc (Bytes (replicate n None))"

definition alloc_bytes :: "byte list \<Rightarrow> 'c mem \<Rightarrow> ptr \<times> 'c mem" where
  "alloc_bytes bs = alloc (Bytes (map Some bs))"

text \<open>The end of a local's scope, or the deallocation of a heap object.\<close>

fun free :: "ptr \<Rightarrow> 'c mem \<Rightarrow> 'c mem outcome" where
  "free (Ptr b 0) m =
     (case blocks m b of None \<Rightarrow> UB | Some _ \<Rightarrow> Done (m\<lparr>blocks := (blocks m)(b := None)\<rparr>))"
| "free _ m = UB"

definition cells_load :: "byte option list \<Rightarrow> nat \<Rightarrow> nat \<Rightarrow> byte list outcome" where
  "cells_load cs i n =
     (if i + n \<le> length cs \<and> None \<notin> set (take n (drop i cs))
      then Done (map the (take n (drop i cs))) else UB)"

definition load :: "'c mem \<Rightarrow> ptr \<Rightarrow> nat \<Rightarrow> byte list outcome" where
  "load m p n =
     (if n = 0 then Done []
      else case p of
        Ptr b i \<Rightarrow> (case blocks m b of Some (Bytes cs) \<Rightarrow> cells_load cs i n | _ \<Rightarrow> UB)
      | _ \<Rightarrow> UB)"

definition store :: "ptr \<Rightarrow> byte list \<Rightarrow> 'c mem \<Rightarrow> 'c mem outcome" where
  "store p bs m =
     (if bs = [] then Done m
      else case p of
        Ptr b i \<Rightarrow>
          (case blocks m b of
             Some (Bytes cs) \<Rightarrow>
               (if i + length bs \<le> length cs
                then Done (m\<lparr>blocks := (blocks m)(b \<mapsto> Bytes (splice cs i (map Some bs)))\<rparr>)
                else UB)
           | _ \<Rightarrow> UB)
      | _ \<Rightarrow> UB)"

text \<open>\<open>n\<close> writable bytes at \<open>p\<close>, initialised or not.\<close>

definition writable :: "'c mem \<Rightarrow> ptr \<Rightarrow> nat \<Rightarrow> bool" where
  "writable m p n \<longleftrightarrow> n = 0 \<or>
     (\<exists>b i cs. p = Ptr b i \<and> blocks m b = Some (Bytes cs) \<and> i + n \<le> length cs)"

text \<open>
  A call \<open>modifies\<close> only block \<open>b\<close> when every other block is as before (its own allocations
  freed again), and block \<open>b\<close> keeps its size.
\<close>

definition modifies :: "nat \<Rightarrow> 'c mem \<Rightarrow> 'c mem \<Rightarrow> bool" where
  "modifies b m m' \<longleftrightarrow>
     mem_ok m' \<and> fresh m \<le> fresh m' \<and> (\<forall>b'. b' \<noteq> b \<longrightarrow> blocks m' b' = blocks m b') \<and>
     (\<forall>cs. blocks m b = Some (Bytes cs) \<longrightarrow>
        (\<exists>cs'. blocks m' b = Some (Bytes cs') \<and> length cs' = length cs))"

text \<open>A borrowed slice \<^verbatim>\<open>&[u8]\<close>: where it starts and how many bytes it has.\<close>

record slice =
  as_ptr :: ptr
  len :: nat

definition slice_bytes :: "'c mem \<Rightarrow> slice \<Rightarrow> byte list outcome" where
  "slice_bytes m s = load m (as_ptr s) (len s)"

section \<open>Laws\<close>

lemma mem_ok_empty [simp]: "mem_ok empty_mem"
  by (simp add: mem_ok_def empty_mem_def)

lemma mem_ok_alloc [simp]: "mem_ok m \<Longrightarrow> mem_ok (snd (alloc b m))"
  by (auto simp: mem_ok_def alloc_def)

lemma mem_ok_fresh: "mem_ok m \<Longrightarrow> blocks m b \<noteq> None \<Longrightarrow> b < fresh m"
  by (meson mem_ok_def not_le_imp_less)

lemma mem_ok_free: "mem_ok m \<Longrightarrow> free p m = Done m' \<Longrightarrow> mem_ok m'"
  by (cases "(p, m)" rule: free.cases) (auto simp: mem_ok_def split: option.splits)

lemma load_0 [mem_simps, simp]: "load m p 0 = Done []"
  by (simp add: load_def)

lemma store_Nil [mem_simps, simp]: "store p [] m = Done m"
  by (simp add: store_def)

lemma load_length: "load m p n = Done bs \<Longrightarrow> length bs = n"
  by (auto simp: load_def cells_load_def split: if_splits ptr.splits option.splits block.splits)

lemma store_mem_ok: "store p bs m = Done m' \<Longrightarrow> mem_ok m \<Longrightarrow> mem_ok m'"
  by (auto simp: store_def mem_ok_def split: if_splits ptr.splits option.splits block.splits)

lemma store_fresh: "store p bs m = Done m' \<Longrightarrow> fresh m' = fresh m"
  by (auto simp: store_def split: if_splits ptr.splits option.splits block.splits)

lemma store_writable: "writable m p (length bs) \<Longrightarrow> \<exists>m'. store p bs m = Done m'"
  by (auto simp: store_def writable_def)

lemma cells_load_splice [simp]:
  "i + length bs \<le> length cs \<Longrightarrow> cells_load (splice cs i (map Some bs)) i (length bs) = Done bs"
  by (simp add: cells_load_def o_def)

lemma load_store_same: "store p bs m = Done m' \<Longrightarrow> load m' p (length bs) = Done bs"
  by (auto simp: store_def load_def split: if_splits ptr.splits option.splits block.splits)

lemma store_other:
  "store (Ptr b i) bs m = Done m' \<Longrightarrow> b' \<noteq> b \<Longrightarrow> blocks m' b' = blocks m b'"
  by (auto simp: store_def split: if_splits option.splits block.splits)

lemma store_size:
  "store (Ptr b i) bs m = Done m' \<Longrightarrow> blocks m b = Some (Bytes cs) \<Longrightarrow>
     \<exists>cs'. blocks m' b = Some (Bytes cs') \<and> length cs' = length cs"
  by (auto simp: store_def split: if_splits)

lemma store_modifies: "store (Ptr b i) bs m = Done m' \<Longrightarrow> mem_ok m \<Longrightarrow> modifies b m m'"
  by (simp add: modifies_def store_mem_ok store_fresh store_other store_size)

lemma modifies_refl [simp]: "mem_ok m \<Longrightarrow> modifies b m m"
  by (simp add: modifies_def)

lemma modifies_trans: "modifies b m m' \<Longrightarrow> modifies b m' m'' \<Longrightarrow> modifies b m m''"
  by (simp add: modifies_def) fastforce

lemma load_cong: "(\<And>b i. p = Ptr b i \<Longrightarrow> blocks m b = blocks m' b) \<Longrightarrow> load m p n = load m' p n"
  by (cases p) (auto simp: load_def)

lemma load_modifies: "modifies b m m' \<Longrightarrow> (\<And>i. p \<noteq> Ptr b i) \<Longrightarrow> load m' p n = load m p n"
  by (rule load_cong) (auto simp: modifies_def)

text \<open>A live slice never points into the block that the next allocation hands out.\<close>

lemma load_live: "load m (Ptr b i) n = Done bs \<Longrightarrow> n > 0 \<Longrightarrow> blocks m b \<noteq> None"
  by (auto simp: load_def split: option.splits)

lemma load_alloc:
  "mem_ok m \<Longrightarrow> load m p n = Done bs \<Longrightarrow> alloc x m = (q, m1) \<Longrightarrow> load m1 p n = Done bs"
  by (cases p) (auto simp: alloc_def load_def mem_ok_def split: if_splits option.splits)

lemma writable_alloc_uninit:
  "alloc_uninit n m = (p, m1) \<Longrightarrow> k \<le> n \<Longrightarrow> writable m1 p k"
  by (auto simp: alloc_uninit_def alloc_def writable_def)

end
