(* ===== verification/FFI_Calls.thy ===== *)
theory FFI_Calls
  imports Memory
begin

text \<open>
  The call patterns of the Rust wrappers: an uninitialised local is handed to the library as
  the place of its result, the status decides whether it is read back, and the local dies at
  the end of the wrapper. The interface \<open>out_call\<close> states what such a wrapper needs from the
  library function and what the wrapper then guarantees.
\<close>

section \<open>Results in uninitialised locals\<close>

text \<open>
  \<^verbatim>\<open>let mut result = MaybeUninit::uninit(); let status = call(result.as_mut_ptr(), ...);
  match status { ok => Ok(result.assume_init()), _ => Err(status) }\<close>, where \<open>n\<close> is the size
  of the local. Reading a byte that the library has not written is undefined behaviour.
\<close>

definition with_uninit ::
  "nat \<Rightarrow> (ptr \<Rightarrow> 'c mem \<Rightarrow> ('s \<times> 'c mem) outcome) \<Rightarrow> 's \<Rightarrow> 'c mem \<Rightarrow>
   ((byte list, 's) result \<times> 'c mem) outcome" where
  "with_uninit n call ok m =
     (let (result, m) = alloc_uninit n m in
      obind (call result m) (\<lambda>(status, m).
      obind (if status = ok then obind (load m result n) (\<lambda>bs. Done (Ok bs)) else Done (Err status)) (\<lambda>r.
      obind (free result m) (\<lambda>m. Done (r, m)))))"

text \<open>The same with two results, a \<open>n1\<close>-byte and a \<open>n2\<close>-byte one, the first declared first.\<close>

definition with_uninit2 ::
  "nat \<Rightarrow> nat \<Rightarrow> (ptr \<Rightarrow> ptr \<Rightarrow> 'c mem \<Rightarrow> ('s \<times> 'c mem) outcome) \<Rightarrow> 's \<Rightarrow> 'c mem \<Rightarrow>
   ((byte list \<times> byte list, 's) result \<times> 'c mem) outcome" where
  "with_uninit2 n1 n2 call ok m =
     (let (r1, m) = alloc_uninit n1 m; (r2, m) = alloc_uninit n2 m in
      obind (call r1 r2 m) (\<lambda>(status, m).
      obind (if status = ok
             then obind (load m r1 n1) (\<lambda>a. obind (load m r2 n2) (\<lambda>b. Done (Ok (a, b))))
             else Done (Err status)) (\<lambda>r.
      obind (free r2 m) (\<lambda>m. obind (free r1 m) (\<lambda>m. Done (r, m))))))"

text \<open>Two heap boxes instead of locals: kept on success, dropped otherwise
  (\<^verbatim>\<open>ManuallyDrop::new(Box::new_uninit())\<close>).\<close>

definition with_boxes2 ::
  "nat \<Rightarrow> nat \<Rightarrow> (ptr \<Rightarrow> ptr \<Rightarrow> 'c mem \<Rightarrow> ('s \<times> 'c mem) outcome) \<Rightarrow> 's \<Rightarrow> 'c mem \<Rightarrow>
   ((ptr \<times> ptr, 's) result \<times> 'c mem) outcome" where
  "with_boxes2 n1 n2 call ok m =
     (let (b1, m) = alloc_uninit n1 m; (b2, m) = alloc_uninit n2 m in
      obind (call b1 b2 m) (\<lambda>(status, m).
        if status = ok
        then obind (load m b1 n1) (\<lambda>_. obind (load m b2 n2) (\<lambda>_. Done (Ok (b1, b2), m)))
        else obind (free b1 m) (\<lambda>m. obind (free b2 m) (\<lambda>m. Done (Err status, m)))))"

text \<open>A call whose status alone is the result.\<close>

definition status_only :: "('s \<times> 'c mem) outcome \<Rightarrow> 's \<Rightarrow> 's \<Rightarrow> ((bool, 's) result \<times> 'c mem) outcome" where
  "status_only call ok nok =
     obind call (\<lambda>(status, m).
       Done (if status = ok then Ok True else if status = nok then Ok False else Err status, m))"

section \<open>What a wrapper needs and gives\<close>

text \<open>Nothing that existed has changed: only fresh block numbers may have been used up.\<close>

definition unchanged :: "'c mem \<Rightarrow> 'c mem \<Rightarrow> bool" where
  "unchanged m m' \<longleftrightarrow> mem_ok m' \<and> blocks m' = blocks m \<and> fresh m \<le> fresh m'"

text \<open>
  The contract of a call that reports \<open>r\<close>: on a memory where block \<open>b\<close> is a local of \<open>n\<close>
  bytes it ends, changes no other block, and on success has written the whole local.
\<close>

definition answers :: "('s \<times> 'c mem) outcome \<Rightarrow> 'c mem \<Rightarrow> nat \<Rightarrow> nat \<Rightarrow> 's \<Rightarrow> (byte list, 's) result \<Rightarrow> bool" where
  "answers c m b n ok r \<longleftrightarrow>
     (\<exists>st m'. c = Done (st, m') \<and> modifies b m m' \<and>
        (case r of Ok bs \<Rightarrow> st = ok \<and> load m' (Ptr b 0) n = Done bs | Err e \<Rightarrow> e \<noteq> ok \<and> st = e))"

lemma unchanged_refl [simp]: "mem_ok m \<Longrightarrow> unchanged m m"
  by (simp add: unchanged_def)

lemma unchanged_trans: "unchanged m m' \<Longrightarrow> unchanged m' m'' \<Longrightarrow> unchanged m m''"
  by (auto simp: unchanged_def)

lemma unchanged_load: "unchanged m m' \<Longrightarrow> load m' p n = load m p n"
  by (rule load_cong) (simp add: unchanged_def)

lemma alloc_uninit_eq:
  "alloc_uninit n m = (Ptr (fresh m) 0,
     m\<lparr>blocks := (blocks m)(fresh m \<mapsto> Bytes (replicate n None)), fresh := Suc (fresh m)\<rparr>)"
  by (simp add: alloc_uninit_def alloc_def)

lemma free_modified:
  assumes "mem_ok m" "alloc_uninit n m = (p, m1)" "modifies (fresh m) m1 m2"
  shows "\<exists>m3. free p m2 = Done m3 \<and> unchanged m m3"
proof -
  have p: "p = Ptr (fresh m) 0" and m1: "blocks m1 = (blocks m)(fresh m \<mapsto> Bytes (replicate n None))"
      "fresh m1 = Suc (fresh m)"
    using assms(2) by (auto simp: alloc_uninit_eq)
  then obtain cs where cs: "blocks m2 (fresh m) = Some (Bytes cs)"
    using assms(3) by (auto simp: modifies_def)
  have "blocks m2 b = blocks m b" if "b \<noteq> fresh m" for b
    using assms(3) m1 that by (simp add: modifies_def)
  moreover have "blocks m (fresh m) = None" using assms(1) by (simp add: mem_ok_def)
  ultimately have "(blocks m2)(fresh m := None) = blocks m" by (auto simp: fun_eq_iff)
  then show ?thesis
    using p cs assms(1,3) m1 by (auto simp: unchanged_def modifies_def mem_ok_def)
qed

text \<open>The wrapper turns the contract into a \<^verbatim>\<open>Result\<close> and leaves the memory as it was.\<close>

lemma with_uninit_answers:
  assumes "mem_ok m" "alloc_uninit n m = (p, m1)" "answers (call p m1) m1 (fresh m) n ok r"
  shows "\<exists>m'. with_uninit n call ok m = Done (r, m') \<and> unchanged m m'"
proof -
  obtain st m2 where c: "call p m1 = Done (st, m2)" "modifies (fresh m) m1 m2"
    and r: "case r of Ok bs \<Rightarrow> st = ok \<and> load m2 (Ptr (fresh m) 0) n = Done bs | Err e \<Rightarrow> e \<noteq> ok \<and> st = e"
    using assms(3) by (auto simp: answers_def)
  obtain m3 where "free p m2 = Done m3" "unchanged m m3"
    using free_modified [OF assms(1,2) c(2)] by blast
  moreover have "p = Ptr (fresh m) 0" using assms(2) by (simp add: alloc_uninit_eq)
  ultimately show ?thesis
    using assms(2) c r by (cases r) (auto simp: with_uninit_def)
qed

text \<open>The same for two results: the call writes the two locals \<open>b\<close> and \<open>c\<close> and nothing else.\<close>

definition modifies2 :: "nat \<Rightarrow> nat \<Rightarrow> 'c mem \<Rightarrow> 'c mem \<Rightarrow> bool" where
  "modifies2 b c m m' \<longleftrightarrow> (\<exists>m1. modifies b m m1 \<and> modifies c m1 m')"

definition answers2 ::
  "('s \<times> 'c mem) outcome \<Rightarrow> 'c mem \<Rightarrow> nat \<Rightarrow> nat \<Rightarrow> nat \<Rightarrow> nat \<Rightarrow> 's \<Rightarrow>
   (byte list \<times> byte list, 's) result \<Rightarrow> bool" where
  "answers2 call m b n1 c n2 ok r \<longleftrightarrow>
     (\<exists>st m'. call = Done (st, m') \<and> modifies2 b c m m' \<and>
        (case r of
           Ok (x, y) \<Rightarrow> st = ok \<and> load m' (Ptr b 0) n1 = Done x \<and> load m' (Ptr c 0) n2 = Done y
         | Err e \<Rightarrow> e \<noteq> ok \<and> st = e))"

lemma modifies2_facts:
  assumes "modifies2 b c m m'" "b \<noteq> c" "blocks m b = Some (Bytes xs)" "blocks m c = Some (Bytes ys)"
  shows "mem_ok m'" "fresh m \<le> fresh m'" "\<And>d. d \<noteq> b \<Longrightarrow> d \<noteq> c \<Longrightarrow> blocks m' d = blocks m d"
    "\<exists>zs. blocks m' b = Some (Bytes zs)" "\<exists>zs. blocks m' c = Some (Bytes zs)"
  using assms by (auto simp: modifies2_def modifies_def)

lemma two_locals:
  assumes "mem_ok m" "alloc_uninit n1 m = (p, m1)" "alloc_uninit n2 m1 = (q, m2)"
    "modifies2 (fresh m) (fresh m1) m2 m3"
  shows "p = Ptr (fresh m) 0" "q = Ptr (Suc (fresh m)) 0" "fresh m1 = Suc (fresh m)"
    "\<exists>zs. blocks m3 (fresh m) = Some (Bytes zs)" "\<exists>zs. blocks m3 (Suc (fresh m)) = Some (Bytes zs)"
    "unchanged m (m3\<lparr>blocks := (blocks m3)(fresh m := None, Suc (fresh m) := None)\<rparr>)"
proof -
  have e: "p = Ptr (fresh m) 0" "q = Ptr (Suc (fresh m)) 0" "fresh m1 = Suc (fresh m)"
    "fresh m2 = Suc (Suc (fresh m))"
    "blocks m2 = (blocks m)(fresh m \<mapsto> Bytes (replicate n1 None), Suc (fresh m) \<mapsto> Bytes (replicate n2 None))"
    using assms(2,3) by (auto simp: alloc_uninit_eq)
  then show "p = Ptr (fresh m) 0" "q = Ptr (Suc (fresh m)) 0" "fresh m1 = Suc (fresh m)"
    by simp_all
  note f = modifies2_facts [of "fresh m" "Suc (fresh m)" m2 m3 "replicate n1 None" "replicate n2 None"]
  show "\<exists>zs. blocks m3 (fresh m) = Some (Bytes zs)" "\<exists>zs. blocks m3 (Suc (fresh m)) = Some (Bytes zs)"
    using f assms(4) e by simp_all
  have "blocks m (fresh m) = None" "blocks m (Suc (fresh m)) = None"
    using assms(1) by (simp_all add: mem_ok_def)
  moreover have "blocks m3 d = blocks m d" if "d \<noteq> fresh m" "d \<noteq> Suc (fresh m)" for d
    using f(3) [of d] assms(4) e that by simp
  ultimately have "(blocks m3)(fresh m := None, Suc (fresh m) := None) = blocks m"
    by (auto simp: fun_eq_iff)
  then show "unchanged m (m3\<lparr>blocks := (blocks m3)(fresh m := None, Suc (fresh m) := None)\<rparr>)"
    using f(1,2) assms(1,4) e by (auto simp: unchanged_def mem_ok_def)
qed

lemma with_uninit2_answers:
  assumes "mem_ok m" "alloc_uninit n1 m = (p, m1)" "alloc_uninit n2 m1 = (q, m2)"
    "answers2 (call p q m2) m2 (fresh m) n1 (fresh m1) n2 ok r"
  shows "\<exists>m'. with_uninit2 n1 n2 call ok m = Done (r, m') \<and> unchanged m m'"
proof -
  obtain st m3 where c: "call p q m2 = Done (st, m3)" and mo: "modifies2 (fresh m) (fresh m1) m2 m3"
    and r: "case r of Ok (x, y) \<Rightarrow> st = ok \<and> load m3 (Ptr (fresh m) 0) n1 = Done x \<and>
        load m3 (Ptr (fresh m1) 0) n2 = Done y | Err e \<Rightarrow> e \<noteq> ok \<and> st = e"
    using assms(4) by (auto simp: answers2_def)
  note t = two_locals [OF assms(1-3) mo]
  have "unchanged m (m3\<lparr>blocks := (blocks m3)(Suc (fresh m) := None, fresh m := None)\<rparr>)"
    using t(6) by (simp add: fun_upd_twist)
  then show ?thesis
    using assms(2,3) c r t(1-5) by (cases r) (auto simp: with_uninit2_def)
qed

text \<open>With boxes, success hands over two live initialised boxes and failure leaves nothing.\<close>

lemma with_boxes2_answers:
  assumes "mem_ok m" "alloc_uninit n1 m = (p, m1)" "alloc_uninit n2 m1 = (q, m2)"
    "answers2 (call p q m2) m2 (fresh m) n1 (fresh m1) n2 ok r"
  shows "\<exists>m'. (case r of
      Ok (x, y) \<Rightarrow> with_boxes2 n1 n2 call ok m = Done (Ok (p, q), m') \<and>
        load m' p n1 = Done x \<and> load m' q n2 = Done y \<and>
        obind (free p m') (free q) = Done (m'\<lparr>blocks := blocks m\<rparr>)
    | Err e \<Rightarrow> with_boxes2 n1 n2 call ok m = Done (Err e, m') \<and> unchanged m m')"
proof -
  obtain st m3 where c: "call p q m2 = Done (st, m3)" and mo: "modifies2 (fresh m) (fresh m1) m2 m3"
    and r: "case r of Ok (x, y) \<Rightarrow> st = ok \<and> load m3 (Ptr (fresh m) 0) n1 = Done x \<and>
        load m3 (Ptr (fresh m1) 0) n2 = Done y | Err e \<Rightarrow> e \<noteq> ok \<and> st = e"
    using assms(4) by (auto simp: answers2_def)
  note t = two_locals [OF assms(1-3) mo]
  then have "(blocks m3)(fresh m := None, Suc (fresh m) := None) = blocks m"
    by (simp add: unchanged_def)
  then show ?thesis
    using assms(2,3) c r t by (cases r) (auto simp: with_boxes2_def)
qed

text \<open>
  What the library may read while it writes block \<open>b\<close>: the memory without that block. Inputs
  readable there are disjoint from the output.
\<close>

definition without :: "nat \<Rightarrow> 'c mem \<Rightarrow> 'c mem" where
  "without b m = m\<lparr>blocks := (blocks m)(b := None)\<rparr>"

lemma load_without:
  "mem_ok m \<Longrightarrow> alloc_uninit n m = (p, m1) \<Longrightarrow> load (without (fresh m) m1) q k = load m q k"
  by (rule load_cong) (auto simp: without_def alloc_uninit_eq mem_ok_def)

lemma load_without_same: "load (without b m) q k = Done bs \<Longrightarrow> load m q k = Done bs"
  by (cases q) (auto simp: load_def without_def split: if_splits)

lemma load_without_twice:
  assumes "mem_ok m" "alloc_uninit n1 m = (p1, m1)" "alloc_uninit n2 m1 = (p2, m2)"
  shows "load (without (fresh m) (without (fresh m1) m2)) q k = load m q k"
  using assms by (intro load_cong) (auto simp: without_def alloc_uninit_eq mem_ok_def)

section \<open>Contracts of calls on a context\<close>

text \<open>The context object a pointer refers to, and what a call reads: the context and its input
  buffers, each a pointer and a number of bytes.\<close>

definition context_at :: "'c mem \<Rightarrow> ptr \<Rightarrow> 'c option" where
  "context_at m p =
     (case p of Ptr b i \<Rightarrow> (case blocks m b of Some (Opaque c) \<Rightarrow> if i = 0 then Some c else None | _ \<Rightarrow> None)
      | _ \<Rightarrow> None)"

fun loads :: "'c mem \<Rightarrow> (ptr \<times> nat) list \<Rightarrow> byte list list outcome" where
  "loads m [] = Done []"
| "loads m ((p, n) # ins) = obind (load m p n) (\<lambda>x. obind (loads m ins) (\<lambda>xs. Done (x # xs)))"

definition reads :: "ptr \<Rightarrow> (ptr \<times> nat) list \<Rightarrow> 'c mem \<Rightarrow> ('c \<times> byte list list) option" where
  "reads ctx ins m =
     (case (context_at m ctx, loads m ins) of (Some c, Done xs) \<Rightarrow> Some (c, xs) | _ \<Rightarrow> None)"

text \<open>
  \<open>fills n ok call args spec\<close>: on a live context and readable inputs, the call writes its
  \<open>n\<close>-byte result as \<open>spec\<close> says; \<open>fills2\<close> has two results and \<open>checks\<close> none.
\<close>

definition fills ::
  "nat \<Rightarrow> 's \<Rightarrow> (ptr \<Rightarrow> 'c mem \<Rightarrow> ('s \<times> 'c mem) outcome) \<Rightarrow> ('c mem \<Rightarrow> 'd option) \<Rightarrow>
   ('d \<Rightarrow> (byte list, 's) result) \<Rightarrow> bool" where
  "fills n ok call args spec \<longleftrightarrow>
     (\<forall>m b d. mem_ok m \<longrightarrow> args (without b m) = Some d \<longrightarrow> writable m (Ptr b 0) n \<longrightarrow>
        answers (call (Ptr b 0) m) m b n ok (spec d))"

definition fills2 ::
  "nat \<Rightarrow> nat \<Rightarrow> 's \<Rightarrow> (ptr \<Rightarrow> ptr \<Rightarrow> 'c mem \<Rightarrow> ('s \<times> 'c mem) outcome) \<Rightarrow> ('c mem \<Rightarrow> 'd option) \<Rightarrow>
   ('d \<Rightarrow> (byte list \<times> byte list, 's) result) \<Rightarrow> bool" where
  "fills2 n1 n2 ok call args spec \<longleftrightarrow>
     (\<forall>m b c d. mem_ok m \<longrightarrow> b \<noteq> c \<longrightarrow> args (without b (without c m)) = Some d \<longrightarrow>
        writable m (Ptr b 0) n1 \<longrightarrow> writable m (Ptr c 0) n2 \<longrightarrow>
        answers2 (call (Ptr b 0) (Ptr c 0) m) m b n1 c n2 ok (spec d))"

definition checks :: "('c mem \<Rightarrow> ('s \<times> 'c mem) outcome) \<Rightarrow> ('c mem \<Rightarrow> 'd option) \<Rightarrow> ('d \<Rightarrow> 's) \<Rightarrow> bool" where
  "checks call args spec \<longleftrightarrow>
     (\<forall>m d. mem_ok m \<longrightarrow> args m = Some d \<longrightarrow> (\<exists>m'. call m = Done (spec d, m') \<and> unchanged m m'))"

lemma loads_lengths: "loads m ins = Done xs \<Longrightarrow> map length xs = map snd ins"
  by (induction m ins arbitrary: xs rule: loads.induct) (auto simp: obind_Done_iff dest: load_length)

lemma reads_lengths: "reads ctx ins m = Some (c, xs) \<Longrightarrow> map length xs = map snd ins"
  by (auto simp: reads_def dest: loads_lengths split: option.splits outcome.splits)

lemma loads_cong: "blocks m = blocks m' \<Longrightarrow> loads m ins = loads m' ins"
proof (induction ins)
  case (Cons x ins)
  then show ?case using load_cong [of "fst x" m m' "snd x"] by (cases x) simp
qed simp

lemma reads_cong: "blocks m = blocks m' \<Longrightarrow> reads c ins m = reads c ins m'"
  using loads_cong [of m m' ins] by (simp add: reads_def context_at_def split: ptr.split)

lemma without_alloc:
  "mem_ok m \<Longrightarrow> alloc_uninit n m = (p, m1) \<Longrightarrow> blocks (without (fresh m) m1) = blocks m"
  by (auto simp: without_def alloc_uninit_eq mem_ok_def)

lemma without_alloc2:
  "mem_ok m \<Longrightarrow> alloc_uninit n1 m = (p, m1) \<Longrightarrow> alloc_uninit n2 m1 = (q, m2) \<Longrightarrow>
   blocks (without (fresh m) (without (fresh m1) m2)) = blocks m"
  by (auto simp: without_def alloc_uninit_eq mem_ok_def)

lemma mem_ok_alloc_uninit: "mem_ok m \<Longrightarrow> alloc_uninit n m = (p, m1) \<Longrightarrow> mem_ok m1"
  by (auto simp: mem_ok_def alloc_uninit_eq)

lemma with_uninit_fills:
  assumes "fills n ok call (reads c ins) spec" "mem_ok m" "reads c ins m = Some d"
  shows "\<exists>m'. with_uninit n call ok m = Done (spec d, m') \<and> unchanged m m'"
proof -
  obtain p m1 where a: "alloc_uninit n m = (p, m1)" by fastforce
  have "reads c ins (without (fresh m) m1) = Some d"
    using assms(3) reads_cong [OF without_alloc [OF assms(2) a]] by simp
  moreover have "p = Ptr (fresh m) 0" "writable m1 p n"
    using a writable_alloc_uninit [OF a] by (simp_all add: alloc_uninit_eq)
  ultimately have "answers (call p m1) m1 (fresh m) n ok (spec d)"
    using assms(1) mem_ok_alloc_uninit [OF assms(2) a] by (simp add: fills_def del: split_paired_All)
  then show ?thesis by (rule with_uninit_answers [OF assms(2) a])
qed

lemma fills2_answers:
  assumes "fills2 n1 n2 ok call (reads c ins) spec" "mem_ok m" "reads c ins m = Some d"
    "alloc_uninit n1 m = (p, m1)" "alloc_uninit n2 m1 = (q, m2)"
  shows "answers2 (call p q m2) m2 (fresh m) n1 (fresh m1) n2 ok (spec d)"
proof -
  have "reads c ins (without (fresh m) (without (fresh m1) m2)) = Some d"
    using assms(3) reads_cong [OF without_alloc2 [OF assms(2,4,5)]] by simp
  moreover have "p = Ptr (fresh m) 0" "q = Ptr (fresh m1) 0" "fresh m \<noteq> fresh m1"
    "writable m2 p n1" "writable m2 q n2"
    using assms(4,5) by (auto simp: alloc_uninit_eq writable_def)
  moreover have "mem_ok m2"
    using assms(2,4,5) mem_ok_alloc_uninit by blast
  ultimately show ?thesis using assms(1) by (simp add: fills2_def del: split_paired_All)
qed

lemma with_uninit2_fills:
  assumes "fills2 n1 n2 ok call (reads c ins) spec" "mem_ok m" "reads c ins m = Some d"
  shows "\<exists>m'. with_uninit2 n1 n2 call ok m = Done (spec d, m') \<and> unchanged m m'"
proof -
  obtain p m1 q m2 where a: "alloc_uninit n1 m = (p, m1)" "alloc_uninit n2 m1 = (q, m2)" by fastforce
  show ?thesis
    by (rule with_uninit2_answers [where call = call, OF assms(2) a fills2_answers [OF assms a]])
qed

text \<open>On success the two boxes are live and hold the result, and nothing else has changed.\<close>

definition boxed :: "'c mem \<Rightarrow> nat \<Rightarrow> nat \<Rightarrow> byte list \<times> byte list \<Rightarrow> ptr \<times> ptr \<Rightarrow> 'c mem \<Rightarrow> bool" where
  "boxed m n1 n2 xy pq m' \<longleftrightarrow>
     load m' (fst pq) n1 = Done (fst xy) \<and> load m' (snd pq) n2 = Done (snd xy) \<and>
     obind (free (fst pq) m') (free (snd pq)) = Done (m'\<lparr>blocks := blocks m\<rparr>)"

lemma with_boxes2_fills:
  assumes "fills2 n1 n2 ok call (reads c ins) spec" "mem_ok m" "reads c ins m = Some d"
  shows "case spec d of
      Ok xy \<Rightarrow> \<exists>pq m'. with_boxes2 n1 n2 call ok m = Done (Ok pq, m') \<and> boxed m n1 n2 xy pq m'
    | Err e \<Rightarrow> \<exists>m'. with_boxes2 n1 n2 call ok m = Done (Err e, m') \<and> unchanged m m'"
proof -
  obtain p m1 q m2 where a: "alloc_uninit n1 m = (p, m1)" "alloc_uninit n2 m1 = (q, m2)" by fastforce
  show ?thesis
    using with_boxes2_answers [where call = call, OF assms(2) a fills2_answers [OF assms a]]
    by (cases "spec d") (auto simp: boxed_def)
qed

lemma status_only_checks:
  assumes "checks call args spec" "mem_ok m" "args m = Some d"
  shows "\<exists>m'. status_only (call m) ok nok =
      Done (if spec d = ok then Ok True else if spec d = nok then Ok False else Err (spec d), m') \<and>
      unchanged m m'"
  using assms by (fastforce simp: checks_def status_only_def)

text \<open>A provider of such a call: read, compute, store.\<close>

definition export_reads ::
  "'s \<Rightarrow> ('c mem \<Rightarrow> 'd option) \<Rightarrow> ('d \<Rightarrow> (byte list, 's) result) \<Rightarrow> ptr \<Rightarrow> 'c mem \<Rightarrow> ('s \<times> 'c mem) outcome" where
  "export_reads ok args spec dst m =
     (case args m of
        None \<Rightarrow> UB
      | Some d \<Rightarrow> (case spec d of
          Err e \<Rightarrow> Done (e, m)
        | Ok out \<Rightarrow> obind (store dst out m) (\<lambda>m. Done (ok, m))))"

definition export_reads2 ::
  "'s \<Rightarrow> ('c mem \<Rightarrow> 'd option) \<Rightarrow> ('d \<Rightarrow> (byte list \<times> byte list, 's) result) \<Rightarrow> ptr \<Rightarrow> ptr \<Rightarrow>
   'c mem \<Rightarrow> ('s \<times> 'c mem) outcome" where
  "export_reads2 ok args spec dst1 dst2 m =
     (case args m of
        None \<Rightarrow> UB
      | Some d \<Rightarrow> (case spec d of
          Err e \<Rightarrow> Done (e, m)
        | Ok (x, y) \<Rightarrow> obind (store dst1 x m) (\<lambda>m. obind (store dst2 y m) (\<lambda>m. Done (ok, m)))))"

definition export_check :: "('c mem \<Rightarrow> 'd option) \<Rightarrow> ('d \<Rightarrow> 's) \<Rightarrow> 'c mem \<Rightarrow> ('s \<times> 'c mem) outcome" where
  "export_check args spec m = (case args m of None \<Rightarrow> UB | Some d \<Rightarrow> Done (spec d, m))"

lemma loads_without: "loads (without b m) ins = Done xs \<Longrightarrow> loads m ins = Done xs"
proof (induction ins arbitrary: xs)
  case (Cons i ins)
  then show ?case
    using load_without_same [of b m "fst i" "snd i"] by (cases i) (auto simp: obind_Done_iff)
qed simp

lemma reads_without: "reads c ins (without b m) = Some d \<Longrightarrow> reads c ins m = Some d"
proof -
  assume r: "reads c ins (without b m) = Some d"
  then obtain k xs where d: "d = (k, xs)" "context_at (without b m) c = Some k"
      "loads (without b m) ins = Done xs"
    by (auto simp: reads_def split: option.splits outcome.splits)
  then have "context_at m c = Some k"
    by (auto simp: context_at_def without_def split: ptr.splits if_splits option.splits)
  then show ?thesis using d loads_without [OF d(3)] by (simp add: reads_def)
qed

lemma export_reads_fills:
  assumes "\<And>d out. spec d = Ok out \<Longrightarrow> length out = n" "\<And>d. spec d \<noteq> Err ok"
  shows "fills n ok (export_reads ok (reads c ins) spec) (reads c ins) spec"
  unfolding fills_def
proof (intro allI impI)
  fix m :: "'a mem" and b d
  assume m: "mem_ok m" "reads c ins (without b m) = Some d" "writable m (Ptr b 0) n"
  note r = reads_without [OF m(2)]
  show "answers (export_reads ok (reads c ins) spec (Ptr b 0) m) m b n ok (spec d)"
  proof (cases "spec d")
    case (Err e)
    then show ?thesis using assms(2) [of d] m(1) r by (auto simp: export_reads_def answers_def)
  next
    case (Ok out)
    then obtain m' where s: "store (Ptr b 0) out m = Done m'"
      using store_writable [of m "Ptr b 0" out] m(3) assms(1) by auto
    then show ?thesis
      using Ok r assms(1) [OF Ok] store_modifies [OF s m(1)] load_store_same [OF s]
      by (auto simp: export_reads_def answers_def)
  qed
qed

lemma export_check_checks: "checks (export_check (reads c ins) spec) (reads c ins) spec"
  by (auto simp: checks_def export_check_def)

lemma writable_store: "store p bs m = Done m' \<Longrightarrow> writable m q n \<Longrightarrow> writable m' q n"
  by (auto simp: store_def writable_def split: if_splits ptr.splits option.splits block.splits)

lemma load_store_other:
  "store (Ptr b 0) x m = Done m' \<Longrightarrow> b \<noteq> c \<Longrightarrow> load m' (Ptr c 0) n = load m (Ptr c 0) n"
  by (rule load_cong) (auto dest: store_other)

lemma export_reads2_fills:
  assumes "\<And>d x y. spec d = Ok (x, y) \<Longrightarrow> length x = n1 \<and> length y = n2" "\<And>d. spec d \<noteq> Err ok"
  shows "fills2 n1 n2 ok (export_reads2 ok (reads c ins) spec) (reads c ins) spec"
  unfolding fills2_def
proof (intro allI impI)
  fix m :: "'a mem" and b e d
  assume m: "mem_ok m" "b \<noteq> e" "reads c ins (without b (without e m)) = Some d"
    "writable m (Ptr b 0) n1" "writable m (Ptr e 0) n2"
  note r = reads_without [OF reads_without [OF m(3)]]
  show "answers2 (export_reads2 ok (reads c ins) spec (Ptr b 0) (Ptr e 0) m) m b n1 e n2 ok (spec d)"
  proof (cases "spec d")
    case (Err k)
    then show ?thesis using assms(2) [of d] m(1) r
      by (auto simp: export_reads2_def answers2_def modifies2_def intro!: exI [of _ m])
  next
    case (Ok xy)
    then obtain x y where xy: "spec d = Ok (x, y)" by (cases xy) auto
    note l = assms(1) [OF xy]
    obtain m' where s: "store (Ptr b 0) x m = Done m'"
      using store_writable [of m "Ptr b 0" x] m(4) l by auto
    obtain m'' where s': "store (Ptr e 0) y m' = Done m''"
      using store_writable [of m' "Ptr e 0" y] writable_store [OF s m(5)] l by auto
    have "load m'' (Ptr b 0) n1 = Done x"
      using load_store_same [OF s] load_store_other [OF s'] m(2) l by simp
    moreover have "load m'' (Ptr e 0) n2 = Done y"
      using load_store_same [OF s'] l by simp
    moreover have "modifies2 b e m m''"
      using store_modifies [OF s m(1)] store_modifies [OF s'] store_mem_ok [OF s m(1)]
      by (auto simp: modifies2_def)
    ultimately show ?thesis
      using s s' xy r by (auto simp: export_reads2_def answers2_def)
  qed
qed

section \<open>Library functions that compute on bytes\<close>

text \<open>
  How a Nim function with an \<^verbatim>\<open>openArray[byte]\<close> input and a \<^verbatim>\<open>var openArray[byte]\<close> output runs on
  the shared memory: it reads its input, computes a status and possibly new contents of the
  output, and stores them.
\<close>

definition export_bytes ::
  "(nat \<Rightarrow> byte list \<Rightarrow> ('s \<times> byte list option) outcome) \<Rightarrow>
   ptr \<Rightarrow> nat \<Rightarrow> ptr \<Rightarrow> nat \<Rightarrow> 'c mem \<Rightarrow> ('s \<times> 'c mem) outcome" where
  "export_bytes g r r_len inputs inputs_len m =
     obind (load m inputs inputs_len) (\<lambda>bs.
     obind (g r_len bs) (\<lambda>(st, out).
       case out of None \<Rightarrow> Done (st, m)
       | Some bs' \<Rightarrow> obind (store r bs' m) (\<lambda>m. Done (st, m))))"

text \<open>The interface that the EVM wrappers rest on: a foreign function, its pure specification
  and the size of its output.\<close>

locale out_call =
  fixes f :: "ptr \<Rightarrow> nat \<Rightarrow> ptr \<Rightarrow> nat \<Rightarrow> 'c mem \<Rightarrow> ('s \<times> 'c mem) outcome"
    and spec :: "byte list \<Rightarrow> (byte list, 's) result"
    and size_out :: nat
    and ok :: 's
    and valid :: "byte list \<Rightarrow> bool"
  assumes f_answers: "\<lbrakk>mem_ok m; load (without b m) inputs n = Done bs; valid bs;
      writable m (Ptr b 0) size_out\<rbrakk>
    \<Longrightarrow> answers (f (Ptr b 0) size_out inputs n m) m b size_out ok (spec bs)"
begin

lemma wrapper:
  assumes "mem_ok m" "slice_bytes m s = Done bs" "valid bs"
  shows "\<exists>m'. with_uninit size_out (\<lambda>r. f r size_out (as_ptr s) (len s)) ok m = Done (spec bs, m') \<and>
    unchanged m m'"
proof -
  obtain p m1 where a: "alloc_uninit size_out m = (p, m1)" by fastforce
  then have p: "p = Ptr (fresh m) 0" and ok1: "mem_ok m1"
    using assms(1) by (auto simp: alloc_uninit_eq mem_ok_def)
  have l: "load (without (fresh m) m1) (as_ptr s) (len s) = Done bs"
    using load_without [OF assms(1) a] assms(2) by (simp add: slice_bytes_def)
  have "writable m1 (Ptr (fresh m) 0) size_out"
    using writable_alloc_uninit [OF a] p by simp
  then have "answers (f p size_out (as_ptr s) (len s) m1) m1 (fresh m) size_out ok (spec bs)"
    using f_answers [OF ok1 l assms(3)] p by simp
  then show ?thesis by (rule with_uninit_answers [OF assms(1) a])
qed

end

text \<open>A function on bytes that fills its output on success meets the interface.\<close>

lemma export_bytes_out_call:
  assumes "\<And>bs. valid bs \<Longrightarrow>
    (case spec bs of
       Ok out \<Rightarrow> g n bs = Done (ok, Some out) \<and> length out = n
     | Err e \<Rightarrow> g n bs = Done (e, None) \<and> e \<noteq> ok)"
  shows "out_call (export_bytes g) spec n ok valid"
proof
  fix m :: "'c mem" and inputs k bs b
  assume m: "mem_ok m" "load (without b m) inputs k = Done bs" "valid bs" "writable m (Ptr b 0) n"
  note l = load_without_same [OF m(2)]
  show "answers (export_bytes g (Ptr b 0) n inputs k m) m b n ok (spec bs)"
  proof (cases "spec bs")
    case (Err e)
    then show ?thesis using assms [OF m(3)] m l by (auto simp: export_bytes_def answers_def)
  next
    case (Ok out)
    then have g: "g n bs = Done (ok, Some out)" and n: "length out = n"
      using assms [OF m(3)] by auto
    obtain m' where s: "store (Ptr b 0) out m = Done m'"
      using store_writable [of m "Ptr b 0" out] m(4) n by auto
    then show ?thesis
      using m(1) l g n Ok store_modifies [OF s m(1)] load_store_same [OF s]
      by (auto simp: export_bytes_def answers_def)
  qed
qed

text \<open>A wrapper that gives \<open>r\<close> and leaves the memory as it was.\<close>

definition returns :: "'c mem \<Rightarrow> ('r \<times> 'c mem) outcome \<Rightarrow> 'r \<Rightarrow> bool" where
  "returns m w r \<longleftrightarrow> (\<exists>m'. w = Done (r, m') \<and> unchanged m m')"

lemma returns_unique: "returns m w r \<Longrightarrow> returns m w r' \<longleftrightarrow> r' = r"
  by (auto simp: returns_def)

end
