(* ===== verification/Rust_KZG.thy ===== *)
theory Rust_KZG
  imports FFI_Calls Status Rust_Core "HOL-Library.Multiset"
begin

text \<open>
  The crate \<^verbatim>\<open>constantine-ethereum-kzg\<close> (\<^verbatim>\<open>src/lib.rs\<close>): the context with its builder and
  \<^verbatim>\<open>Drop\<close>, and every commitment, proof and verification call, sequential, parallel and PeerDAS.
  The context functions of the library follow \<^verbatim>\<open>commitments_setups/ethereum_kzg_srs.nim\<close>; the
  cryptographic ones are parameters.
\<close>

section \<open>The library's trusted setup\<close>

text \<open>
  What \<^verbatim>\<open>load_from_file\<close> finds at a path: a file that cannot be opened, one that
  \<^verbatim>\<open>load_ckzg4844\<close> rejects, or the points it holds. \<open>set_up t b\<close> is the object that
  \<^verbatim>\<open>setupKzg4844ProtoDanksharding\<close> and \<^verbatim>\<open>setupKzg7594PeerDAS(t, b)\<close> make of the points.
\<close>

datatype 'r setup_file = No_file | Bad_file | Good_file 'r

record ('r, 'c) setups =
  file_at :: "byte list \<Rightarrow> 'r setup_file"
  set_up :: "int \<Rightarrow> int \<Rightarrow> 'r \<Rightarrow> 'c"

text \<open>The pointer that the library stores through its first argument is threaded as a value.\<close>

definition load_from_file ::
  "('r, 'c) setups \<Rightarrow> ptr \<Rightarrow> byte list \<Rightarrow> 'c \<Rightarrow> 'c mem \<Rightarrow>
   (ctt_eth_trusted_setup_status \<times> ptr \<times> 'c mem) outcome" where
  "load_from_file E ctx path zeroed m =
     (case file_at E path of
        No_file \<Rightarrow> Done (cttEthTS_MissingOrInaccessibleFile, ctx, m)
      | Bad_file \<Rightarrow>
          let (ctx, m) = alloc (Opaque zeroed) m in
          obind (free ctx m) (\<lambda>m. Done (cttEthTS_InvalidFile, Null, m))
      | Good_file r \<Rightarrow>
          let (ctx, m) = alloc (Opaque zeroed) m in Done (cttEthTS_Success, ctx, m))"

definition fill_context :: "('r, 'c) setups \<Rightarrow> byte list \<Rightarrow> int \<Rightarrow> int \<Rightarrow> ptr \<Rightarrow> 'c mem \<Rightarrow> 'c mem" where
  "fill_context E path t b ctx m =
     (case (ctx, file_at E path) of
        (Ptr c 0, Good_file r) \<Rightarrow> m\<lparr>blocks := (blocks m)(c \<mapsto> Opaque (set_up E t b r))\<rparr>
      | _ \<Rightarrow> m)"

definition ctt_eth_kzg_context_new ::
  "('r, 'c) setups \<Rightarrow> 'c \<Rightarrow> ptr \<Rightarrow> byte list \<Rightarrow> 'c mem \<Rightarrow>
   (ctt_eth_trusted_setup_status \<times> ptr \<times> 'c mem) outcome" where
  "ctt_eth_kzg_context_new E zeroed ctx path m =
     obind (load_from_file E ctx path zeroed m) (\<lambda>(st, ctx, m).
       Done (st, ctx, if st = cttEthTS_Success then fill_context E path 0 0 ctx m else m))"

definition ctt_eth_kzg_context_new_with_precompute ::
  "('r, 'c) setups \<Rightarrow> 'c \<Rightarrow> ptr \<Rightarrow> byte list \<Rightarrow> int \<Rightarrow> int \<Rightarrow> 'c mem \<Rightarrow>
   (ctt_eth_trusted_setup_status \<times> ptr \<times> 'c mem) outcome" where
  "ctt_eth_kzg_context_new_with_precompute E zeroed ctx path t b m =
     obind (load_from_file E ctx path zeroed m) (\<lambda>(st, ctx, m).
       Done (st, ctx, if st = cttEthTS_Success then fill_context E path t b ctx m else m))"

definition ctt_eth_kzg_context_delete :: "ptr \<Rightarrow> 'c mem \<Rightarrow> 'c mem outcome" where
  "ctt_eth_kzg_context_delete ctx m = (if ctx = Null then Done m else free ctx m)"

section \<open>Contexts and their builder\<close>

record EthKzgContext =
  ctx_ptr :: ptr
  threadpool :: "Threadpool option"

record EthKzgContextBuilder =
  builder_ctx :: "ptr option"
  builder_threadpool :: "Threadpool option"

definition EthKzgContext_drop :: "EthKzgContext \<Rightarrow> 'c mem \<Rightarrow> 'c mem outcome" where
  "EthKzgContext_drop self m = ctt_eth_kzg_context_delete (ctx_ptr self) m"

definition builder :: EthKzgContextBuilder where
  "builder = \<lparr>builder_ctx = None, builder_threadpool = None\<rparr>"

text \<open>\<^verbatim>\<open>CString::new\<close> on a Unix path: an interior NUL byte is an error.\<close>

definition CString_new :: "byte list \<Rightarrow> (byte list, unit) result" where
  "CString_new raw = (if 0 \<in> set raw then Err () else Ok raw)"

definition load_trusted_setup ::
  "('r, 'c) setups \<Rightarrow> 'c \<Rightarrow> EthKzgContextBuilder \<Rightarrow> byte list \<Rightarrow> 'c mem \<Rightarrow>
   ((EthKzgContextBuilder, ctt_eth_trusted_setup_status) result \<times> 'c mem) outcome" where
  "load_trusted_setup E zeroed self file_path m =
     (case CString_new file_path of
        Err _ \<Rightarrow> Done (Err cttEthTS_MissingOrInaccessibleFile, m)
      | Ok c_path \<Rightarrow>
          obind (ctt_eth_kzg_context_new E zeroed Null c_path m) (\<lambda>(status, ctx, m).
            Done (if status = cttEthTS_Success
                  then Ok \<lparr>builder_ctx = Some ctx, builder_threadpool = builder_threadpool self\<rparr>
                  else Err status, m)))"

definition load_trusted_setup_with_precompute ::
  "('r, 'c) setups \<Rightarrow> 'c \<Rightarrow> EthKzgContextBuilder \<Rightarrow> byte list \<Rightarrow> int \<Rightarrow> int \<Rightarrow> 'c mem \<Rightarrow>
   ((EthKzgContextBuilder, ctt_eth_trusted_setup_status) result \<times> 'c mem) outcome" where
  "load_trusted_setup_with_precompute E zeroed self file_path t b m =
     (case CString_new file_path of
        Err _ \<Rightarrow> Done (Err cttEthTS_MissingOrInaccessibleFile, m)
      | Ok c_path \<Rightarrow>
          obind (ctt_eth_kzg_context_new_with_precompute E zeroed Null c_path t b m) (\<lambda>(status, ctx, m).
            Done (if status = cttEthTS_Success
                  then Ok \<lparr>builder_ctx = Some ctx, builder_threadpool = builder_threadpool self\<rparr>
                  else Err status, m)))"

definition set_threadpool :: "EthKzgContextBuilder \<Rightarrow> Threadpool \<Rightarrow> EthKzgContextBuilder" where
  "set_threadpool self tp = self\<lparr>builder_threadpool := Some tp\<rparr>"

definition build :: "EthKzgContextBuilder \<Rightarrow> (EthKzgContext, ctt_eth_trusted_setup_status) result" where
  "build self =
     (case builder_ctx self of
        None \<Rightarrow> Err cttEthTS_MissingOrInaccessibleFile
      | Some ctx \<Rightarrow> Ok \<lparr>ctx_ptr = ctx, threadpool = builder_threadpool self\<rparr>)"

text \<open>\<^verbatim>\<open>EthKzgContext::load_trusted_setup\<close>: the builder's errors are returned, a failing build panics.\<close>

definition context_load_trusted_setup ::
  "('r, 'c) setups \<Rightarrow> 'c \<Rightarrow> byte list \<Rightarrow> 'c mem \<Rightarrow>
   ((EthKzgContext, ctt_eth_trusted_setup_status) result \<times> 'c mem) outcome" where
  "context_load_trusted_setup E zeroed file_path m =
     obind (load_trusted_setup E zeroed builder file_path m) (\<lambda>(r, m).
       case r of
         Err e \<Rightarrow> Done (Err e, m)
       | Ok b \<Rightarrow> (case build b of Ok c \<Rightarrow> Done (Ok c, m) | Err _ \<Rightarrow> Panic))"

lemmas context_defs = load_from_file_def fill_context_def ctt_eth_kzg_context_new_def
  ctt_eth_kzg_context_new_with_precompute_def CString_new_def load_trusted_setup_def
  load_trusted_setup_with_precompute_def

section \<open>Commitments, proofs and verification\<close>

text \<open>
  The bound functions of \<^verbatim>\<open>constantine/ethereum_eip4844_kzg.nim\<close>,
  \<^verbatim>\<open>ethereum_eip4844_kzg_parallel.nim\<close> and \<^verbatim>\<open>ethereum_eip7594_peerdas.nim\<close>, as parameters.
\<close>

type_synonym 'c kzg_call = "'c mem \<Rightarrow> (ctt_eth_kzg_status \<times> 'c mem) outcome"

record 'c kzg_lib =
  ctt_eth_kzg_blob_to_kzg_commitment :: "ptr \<Rightarrow> ptr \<Rightarrow> ptr \<Rightarrow> 'c kzg_call"
  ctt_eth_kzg_compute_kzg_proof :: "ptr \<Rightarrow> ptr \<Rightarrow> ptr \<Rightarrow> ptr \<Rightarrow> ptr \<Rightarrow> 'c kzg_call"
  ctt_eth_kzg_verify_kzg_proof :: "ptr \<Rightarrow> ptr \<Rightarrow> ptr \<Rightarrow> ptr \<Rightarrow> ptr \<Rightarrow> 'c kzg_call"
  ctt_eth_kzg_compute_blob_kzg_proof :: "ptr \<Rightarrow> ptr \<Rightarrow> ptr \<Rightarrow> ptr \<Rightarrow> 'c kzg_call"
  ctt_eth_kzg_verify_blob_kzg_proof :: "ptr \<Rightarrow> ptr \<Rightarrow> ptr \<Rightarrow> ptr \<Rightarrow> 'c kzg_call"
  ctt_eth_kzg_verify_blob_kzg_proof_batch :: "ptr \<Rightarrow> ptr \<Rightarrow> ptr \<Rightarrow> ptr \<Rightarrow> nat \<Rightarrow> ptr \<Rightarrow> 'c kzg_call"
  ctt_eth_kzg_blob_to_kzg_commitment_parallel :: "nat \<Rightarrow> ptr \<Rightarrow> ptr \<Rightarrow> ptr \<Rightarrow> 'c kzg_call"
  ctt_eth_kzg_compute_kzg_proof_parallel :: "nat \<Rightarrow> ptr \<Rightarrow> ptr \<Rightarrow> ptr \<Rightarrow> ptr \<Rightarrow> ptr \<Rightarrow> 'c kzg_call"
  ctt_eth_kzg_compute_blob_kzg_proof_parallel :: "nat \<Rightarrow> ptr \<Rightarrow> ptr \<Rightarrow> ptr \<Rightarrow> ptr \<Rightarrow> 'c kzg_call"
  ctt_eth_kzg_verify_blob_kzg_proof_parallel :: "nat \<Rightarrow> ptr \<Rightarrow> ptr \<Rightarrow> ptr \<Rightarrow> ptr \<Rightarrow> 'c kzg_call"
  ctt_eth_kzg_verify_blob_kzg_proof_batch_parallel :: "nat \<Rightarrow> ptr \<Rightarrow> ptr \<Rightarrow> ptr \<Rightarrow> ptr \<Rightarrow> nat \<Rightarrow> ptr \<Rightarrow> 'c kzg_call"
  ctt_eth_kzg_compute_cells_and_kzg_proofs :: "ptr \<Rightarrow> ptr \<Rightarrow> ptr \<Rightarrow> ptr \<Rightarrow> 'c kzg_call"
  ctt_eth_kzg_verify_cell_kzg_proof_batch :: "ptr \<Rightarrow> ptr \<Rightarrow> ptr \<Rightarrow> ptr \<Rightarrow> ptr \<Rightarrow> nat \<Rightarrow> ptr \<Rightarrow> 'c kzg_call"
  ctt_eth_kzg_recover_cells_and_kzg_proofs :: "ptr \<Rightarrow> ptr \<Rightarrow> ptr \<Rightarrow> ptr \<Rightarrow> ptr \<Rightarrow> nat \<Rightarrow> 'c kzg_call"

text \<open>
  References to byte arrays are pointers; a slice of arrays is a pointer and the number of its
  elements. \<open>expect\<close> is \<^verbatim>\<open>Option::expect\<close>.
\<close>

definition expect :: "'a option \<Rightarrow> 'a outcome" where
  "expect x = (case x of None \<Rightarrow> Panic | Some y \<Rightarrow> Done y)"

definition blob_to_kzg_commitment where
  "blob_to_kzg_commitment L self blob =
     with_uninit 48 (\<lambda>result. ctt_eth_kzg_blob_to_kzg_commitment L (ctx_ptr self) result blob)
       cttEthKzg_Success"

definition compute_kzg_proof where
  "compute_kzg_proof L self blob z_challenge =
     with_uninit2 48 32
       (\<lambda>proof y_eval. ctt_eth_kzg_compute_kzg_proof L (ctx_ptr self) proof y_eval blob z_challenge)
       cttEthKzg_Success"

definition verify_kzg_proof where
  "verify_kzg_proof L self commitment z_challenge y_eval_at_challenge proof m =
     status_only
       (ctt_eth_kzg_verify_kzg_proof L (ctx_ptr self) commitment z_challenge y_eval_at_challenge proof m)
       cttEthKzg_Success cttEthKzg_VerificationFailure"

definition compute_blob_kzg_proof where
  "compute_blob_kzg_proof L self blob commitment =
     with_uninit 48
       (\<lambda>proof. ctt_eth_kzg_compute_blob_kzg_proof L (ctx_ptr self) proof blob commitment)
       cttEthKzg_Success"

definition verify_blob_kzg_proof where
  "verify_blob_kzg_proof L self blob commitment proof m =
     status_only (ctt_eth_kzg_verify_blob_kzg_proof L (ctx_ptr self) blob commitment proof m)
       cttEthKzg_Success cttEthKzg_VerificationFailure"

definition verify_blob_kzg_proof_batch where
  "verify_blob_kzg_proof_batch L self blobs commitments proofs secure_random_bytes m =
     (if len blobs \<noteq> len commitments \<or> len blobs \<noteq> len proofs
      then Done (Err cttEthKzg_InputsLengthsMismatch, m)
      else status_only
        (ctt_eth_kzg_verify_blob_kzg_proof_batch L (ctx_ptr self) (as_ptr blobs) (as_ptr commitments)
           (as_ptr proofs) (len blobs) secure_random_bytes m)
        cttEthKzg_Success cttEthKzg_VerificationFailure)"

text \<open>The parallel calls first take the threadpool, and panic when the context has none.\<close>

definition blob_to_kzg_commitment_parallel where
  "blob_to_kzg_commitment_parallel L self blob =
     with_uninit 48 (\<lambda>result m.
         obind (expect (threadpool self)) (\<lambda>tp.
           ctt_eth_kzg_blob_to_kzg_commitment_parallel L (get_private_context tp) (ctx_ptr self) result blob m))
       cttEthKzg_Success"

definition compute_kzg_proof_parallel where
  "compute_kzg_proof_parallel L self blob z_challenge =
     with_uninit2 48 32 (\<lambda>proof y_eval m.
         obind (expect (threadpool self)) (\<lambda>tp.
           ctt_eth_kzg_compute_kzg_proof_parallel L (get_private_context tp) (ctx_ptr self)
             proof y_eval blob z_challenge m))
       cttEthKzg_Success"

definition compute_blob_kzg_proof_parallel where
  "compute_blob_kzg_proof_parallel L self blob commitment =
     with_uninit 48 (\<lambda>proof m.
         obind (expect (threadpool self)) (\<lambda>tp.
           ctt_eth_kzg_compute_blob_kzg_proof_parallel L (get_private_context tp) (ctx_ptr self)
             proof blob commitment m))
       cttEthKzg_Success"

definition verify_blob_kzg_proof_parallel where
  "verify_blob_kzg_proof_parallel L self blob commitment proof m =
     status_only
       (obind (expect (threadpool self)) (\<lambda>tp.
          ctt_eth_kzg_verify_blob_kzg_proof_parallel L (get_private_context tp) (ctx_ptr self)
            blob commitment proof m))
       cttEthKzg_Success cttEthKzg_VerificationFailure"

definition verify_blob_kzg_proof_batch_parallel where
  "verify_blob_kzg_proof_batch_parallel L self blobs commitments proofs secure_random_bytes m =
     (if len blobs \<noteq> len commitments \<or> len blobs \<noteq> len proofs
      then Done (Err cttEthKzg_InputsLengthsMismatch, m)
      else status_only
        (obind (expect (threadpool self)) (\<lambda>tp.
           ctt_eth_kzg_verify_blob_kzg_proof_batch_parallel L (get_private_context tp) (ctx_ptr self)
             (as_ptr blobs) (as_ptr commitments) (as_ptr proofs) (len blobs) secure_random_bytes m))
        cttEthKzg_Success cttEthKzg_VerificationFailure)"

text \<open>PeerDAS: 128 cells of 2048 bytes and 128 proofs of 48 bytes, in boxes.\<close>

definition compute_cells_and_kzg_proofs where
  "compute_cells_and_kzg_proofs L self blob =
     with_boxes2 262144 6144
       (\<lambda>cells proofs. ctt_eth_kzg_compute_cells_and_kzg_proofs L (ctx_ptr self) cells proofs blob)
       cttEthKzg_Success"

definition verify_cell_kzg_proof_batch where
  "verify_cell_kzg_proof_batch L self commitments cell_indices cells proofs secure_random_bytes m =
     (let n = len commitments in
      if n \<noteq> len cell_indices \<or> n \<noteq> len cells \<or> n \<noteq> len proofs
      then Done (Err cttEthKzg_InputsLengthsMismatch, m)
      else status_only
        (ctt_eth_kzg_verify_cell_kzg_proof_batch L (ctx_ptr self) (as_ptr commitments)
           (as_ptr cell_indices) (as_ptr cells) (as_ptr proofs) n secure_random_bytes m)
        cttEthKzg_Success cttEthKzg_VerificationFailure)"

definition recover_cells_and_kzg_proofs where
  "recover_cells_and_kzg_proofs L self cells cell_indices m =
     (if len cells \<noteq> len cell_indices
      then Done (Err cttEthKzg_InputsLengthsMismatch, m)
      else with_boxes2 262144 6144
        (\<lambda>recovered_cells recovered_proofs.
           ctt_eth_kzg_recover_cells_and_kzg_proofs L (ctx_ptr self) recovered_cells recovered_proofs
             (as_ptr cell_indices) (as_ptr cells) (len cells))
        cttEthKzg_Success m)"

section \<open>The contract of the library and what the wrappers make of it\<close>

text \<open>
  The pure functions that the protocol promises: each takes the trusted setup and the contents
  of the input buffers, in the order of the C parameters.
\<close>

record 'c kzg_spec =
  spec_commitment :: "'c \<times> byte list list \<Rightarrow> (byte list, ctt_eth_kzg_status) result"
  spec_proof :: "'c \<times> byte list list \<Rightarrow> (byte list \<times> byte list, ctt_eth_kzg_status) result"
  spec_verify :: "'c \<times> byte list list \<Rightarrow> ctt_eth_kzg_status"
  spec_blob_proof :: "'c \<times> byte list list \<Rightarrow> (byte list, ctt_eth_kzg_status) result"
  spec_verify_blob :: "'c \<times> byte list list \<Rightarrow> ctt_eth_kzg_status"
  spec_verify_blobs :: "nat \<Rightarrow> 'c \<times> byte list list \<Rightarrow> ctt_eth_kzg_status"
  spec_verify_blobs_parallel :: "nat \<Rightarrow> nat \<Rightarrow> 'c \<times> byte list list \<Rightarrow> ctt_eth_kzg_status"
  spec_cells :: "'c \<times> byte list list \<Rightarrow> (byte list \<times> byte list, ctt_eth_kzg_status) result"
  spec_verify_cells :: "nat \<Rightarrow> 'c \<times> byte list list \<Rightarrow> ctt_eth_kzg_status"
  spec_recover :: "nat \<Rightarrow> 'c \<times> byte list list \<Rightarrow> (byte list \<times> byte list, ctt_eth_kzg_status) result"

text \<open>The buffers of a call, with the sizes of the C types.\<close>

definition verify_ins :: "ptr \<Rightarrow> ptr \<Rightarrow> ptr \<Rightarrow> ptr \<Rightarrow> (ptr \<times> nat) list" where
  "verify_ins commitment z y proof = [(commitment, 48), (z, 32), (y, 32), (proof, 48)]"

definition blob_ins :: "ptr \<Rightarrow> ptr \<Rightarrow> ptr \<Rightarrow> (ptr \<times> nat) list" where
  "blob_ins blob commitment proof = [(blob, 131072), (commitment, 48), (proof, 48)]"

definition blobs_ins :: "nat \<Rightarrow> ptr \<Rightarrow> ptr \<Rightarrow> ptr \<Rightarrow> ptr \<Rightarrow> (ptr \<times> nat) list" where
  "blobs_ins n blobs commitments proofs rnd =
     [(blobs, n * 131072), (commitments, n * 48), (proofs, n * 48), (rnd, 32)]"

definition cells_ins :: "nat \<Rightarrow> ptr \<Rightarrow> ptr \<Rightarrow> ptr \<Rightarrow> ptr \<Rightarrow> ptr \<Rightarrow> (ptr \<times> nat) list" where
  "cells_ins n commitments indices cells proofs rnd =
     [(commitments, n * 48), (indices, n * 8), (cells, n * 2048), (proofs, n * 48), (rnd, 32)]"

definition recover_ins :: "nat \<Rightarrow> ptr \<Rightarrow> ptr \<Rightarrow> (ptr \<times> nat) list" where
  "recover_ins n indices cells = [(indices, n * 8), (cells, n * 2048)]"

abbreviation (input) kzg_fills where "kzg_fills n \<equiv> fills n cttEthKzg_Success"

abbreviation (input) kzg_fills2 where "kzg_fills2 n1 n2 \<equiv> fills2 n1 n2 cttEthKzg_Success"

definition kzg_contract :: "'c kzg_lib \<Rightarrow> 'c kzg_spec \<Rightarrow> bool" where
  "kzg_contract L S \<longleftrightarrow>
     (\<forall>c blob. kzg_fills 48 (\<lambda>r. ctt_eth_kzg_blob_to_kzg_commitment L c r blob)
        (reads c [(blob, 131072)]) (spec_commitment S)) \<and>
     (\<forall>c blob z. kzg_fills2 48 32 (\<lambda>p y. ctt_eth_kzg_compute_kzg_proof L c p y blob z)
        (reads c [(blob, 131072), (z, 32)]) (spec_proof S)) \<and>
     (\<forall>c com z y p. checks (ctt_eth_kzg_verify_kzg_proof L c com z y p)
        (reads c (verify_ins com z y p)) (spec_verify S)) \<and>
     (\<forall>c blob com. kzg_fills 48 (\<lambda>p. ctt_eth_kzg_compute_blob_kzg_proof L c p blob com)
        (reads c [(blob, 131072), (com, 48)]) (spec_blob_proof S)) \<and>
     (\<forall>c blob com p. checks (ctt_eth_kzg_verify_blob_kzg_proof L c blob com p)
        (reads c (blob_ins blob com p)) (spec_verify_blob S)) \<and>
     (\<forall>c n bs cs ps rnd. checks (ctt_eth_kzg_verify_blob_kzg_proof_batch L c bs cs ps n rnd)
        (reads c (blobs_ins n bs cs ps rnd)) (spec_verify_blobs S n))"

text \<open>The parallel functions compute the same on any threadpool, except that the status of the batch
  verification may depend on how the threadpool splits the work.\<close>

definition kzg_parallel_contract :: "'c kzg_lib \<Rightarrow> 'c kzg_spec \<Rightarrow> bool" where
  "kzg_parallel_contract L S \<longleftrightarrow>
     (\<forall>tp c blob. kzg_fills 48 (\<lambda>r. ctt_eth_kzg_blob_to_kzg_commitment_parallel L tp c r blob)
        (reads c [(blob, 131072)]) (spec_commitment S)) \<and>
     (\<forall>tp c blob z. kzg_fills2 48 32 (\<lambda>p y. ctt_eth_kzg_compute_kzg_proof_parallel L tp c p y blob z)
        (reads c [(blob, 131072), (z, 32)]) (spec_proof S)) \<and>
     (\<forall>tp c blob com. kzg_fills 48 (\<lambda>p. ctt_eth_kzg_compute_blob_kzg_proof_parallel L tp c p blob com)
        (reads c [(blob, 131072), (com, 48)]) (spec_blob_proof S)) \<and>
     (\<forall>tp c blob com p. checks (ctt_eth_kzg_verify_blob_kzg_proof_parallel L tp c blob com p)
        (reads c (blob_ins blob com p)) (spec_verify_blob S)) \<and>
     (\<forall>tp c n bs cs ps rnd. checks (ctt_eth_kzg_verify_blob_kzg_proof_batch_parallel L tp c bs cs ps n rnd)
        (reads c (blobs_ins n bs cs ps rnd)) (spec_verify_blobs_parallel S tp n))"

definition kzg_peerdas_contract :: "'c kzg_lib \<Rightarrow> 'c kzg_spec \<Rightarrow> bool" where
  "kzg_peerdas_contract L S \<longleftrightarrow>
     (\<forall>c blob. kzg_fills2 262144 6144 (\<lambda>cs ps. ctt_eth_kzg_compute_cells_and_kzg_proofs L c cs ps blob)
        (reads c [(blob, 131072)]) (spec_cells S)) \<and>
     (\<forall>c n com ix cs ps rnd. checks (ctt_eth_kzg_verify_cell_kzg_proof_batch L c com ix cs ps n rnd)
        (reads c (cells_ins n com ix cs ps rnd)) (spec_verify_cells S n)) \<and>
     (\<forall>c n ix cs. kzg_fills2 262144 6144
          (\<lambda>rc rp. ctt_eth_kzg_recover_cells_and_kzg_proofs L c rc rp ix cs n)
        (reads c (recover_ins n ix cs)) (spec_recover S n))"

text \<open>How a verification status becomes a result.\<close>

definition verdict :: "ctt_eth_kzg_status \<Rightarrow> (bool, ctt_eth_kzg_status) result" where
  "verdict st =
     (if st = cttEthKzg_Success then Ok True
      else if st = cttEthKzg_VerificationFailure then Ok False else Err st)"

lemmas kzg_contract_defs = kzg_contract_def kzg_parallel_contract_def kzg_peerdas_contract_def

lemma returns_status_only:
  "checks call args spec \<Longrightarrow> mem_ok m \<Longrightarrow> args m = Some d \<Longrightarrow>
   returns m (status_only (call m) cttEthKzg_Success cttEthKzg_VerificationFailure) (verdict (spec d))"
  using status_only_checks [of call args spec m d] by (simp add: returns_def verdict_def)

lemma returns_uninit:
  "fills n ok call (reads c ins) spec \<Longrightarrow> mem_ok m \<Longrightarrow> reads c ins m = Some d \<Longrightarrow>
   returns m (with_uninit n call ok m) (spec d)"
  using with_uninit_fills by (fastforce simp: returns_def)

lemma returns_uninit2:
  "fills2 n1 n2 ok call (reads c ins) spec \<Longrightarrow> mem_ok m \<Longrightarrow> reads c ins m = Some d \<Longrightarrow>
   returns m (with_uninit2 n1 n2 call ok m) (spec d)"
  using with_uninit2_fills by (fastforce simp: returns_def)

end
