(* ===== verification/KZG_Lifecycle.thy ===== *)
theory KZG_Lifecycle
  imports Rust_KZG
begin

text \<open>
  Who owns the library's KZG contexts: a state machine over all programs that use builders and
  contexts through the safe interface of \<^verbatim>\<open>constantine-ethereum-kzg\<close>, with the invariant that
  rules out double frees and uses of a freed context, and the leaks it allows.
\<close>

section \<open>Programs over builders and contexts\<close>

record 'c world =
  wmem :: "'c mem"
  builders :: "EthKzgContextBuilder multiset"
  contexts :: "EthKzgContext multiset"

definition start :: "'c world" where
  "start = \<lparr>wmem = empty_mem, builders = {#}, contexts = {#}\<rparr>"

text \<open>A builder is consumed by every operation on it; a context is only consumed by its drop. A
  builder that goes out of scope runs no code, since it has no \<^verbatim>\<open>Drop\<close>.\<close>

inductive step :: "('r, 'c) setups \<Rightarrow> 'c \<Rightarrow> 'c world \<Rightarrow> 'c world \<Rightarrow> bool" for E z where
  new_builder: "step E z w (w\<lparr>builders := add_mset builder (builders w)\<rparr>)"
| load_ok: "builders w = add_mset b B \<Longrightarrow> load_trusted_setup E z b path (wmem w) = Done (Ok b', m') \<Longrightarrow>
    step E z w (w\<lparr>wmem := m', builders := add_mset b' B\<rparr>)"
| load_err: "builders w = add_mset b B \<Longrightarrow> load_trusted_setup E z b path (wmem w) = Done (Err e, m') \<Longrightarrow>
    step E z w (w\<lparr>wmem := m', builders := B\<rparr>)"
| load_pre_ok: "builders w = add_mset b B \<Longrightarrow>
    load_trusted_setup_with_precompute E z b path t k (wmem w) = Done (Ok b', m') \<Longrightarrow>
    step E z w (w\<lparr>wmem := m', builders := add_mset b' B\<rparr>)"
| load_pre_err: "builders w = add_mset b B \<Longrightarrow>
    load_trusted_setup_with_precompute E z b path t k (wmem w) = Done (Err e, m') \<Longrightarrow>
    step E z w (w\<lparr>wmem := m', builders := B\<rparr>)"
| with_pool: "builders w = add_mset b B \<Longrightarrow>
    step E z w (w\<lparr>builders := add_mset (set_threadpool b tp) B\<rparr>)"
| build_ok: "builders w = add_mset b B \<Longrightarrow> build b = Ok c \<Longrightarrow>
    step E z w (w\<lparr>builders := B, contexts := add_mset c (contexts w)\<rparr>)"
| build_err: "builders w = add_mset b B \<Longrightarrow> build b = Err e \<Longrightarrow> step E z w (w\<lparr>builders := B\<rparr>)"
| drop_builder: "builders w = add_mset b B \<Longrightarrow> step E z w (w\<lparr>builders := B\<rparr>)"
| direct_ok: "context_load_trusted_setup E z path (wmem w) = Done (Ok c, m') \<Longrightarrow>
    step E z w (w\<lparr>wmem := m', contexts := add_mset c (contexts w)\<rparr>)"
| direct_err: "context_load_trusted_setup E z path (wmem w) = Done (Err e, m') \<Longrightarrow>
    step E z w (w\<lparr>wmem := m'\<rparr>)"
| drop_context: "contexts w = add_mset c C \<Longrightarrow> EthKzgContext_drop c (wmem w) = Done m' \<Longrightarrow>
    step E z w (w\<lparr>wmem := m', contexts := C\<rparr>)"

inductive reachable :: "('r, 'c) setups \<Rightarrow> 'c \<Rightarrow> 'c world \<Rightarrow> bool" for E z where
  reachable_start: "reachable E z start"
| reachable_step: "reachable E z w \<Longrightarrow> step E z w w' \<Longrightarrow> reachable E z w'"

section \<open>The ownership invariant\<close>

definition builder_owns :: "EthKzgContextBuilder \<Rightarrow> ptr multiset" where
  "builder_owns b = (case builder_ctx b of None \<Rightarrow> {#} | Some p \<Rightarrow> {#p#})"

definition owned :: "'c world \<Rightarrow> ptr multiset" where
  "owned w = (\<Sum>b \<in># builders w. builder_owns b) + image_mset ctx_ptr (contexts w)"

text \<open>Each owner has a live context of its own.\<close>

definition live_context :: "'c mem \<Rightarrow> ptr \<Rightarrow> bool" where
  "live_context m p \<longleftrightarrow> context_at m p \<noteq> None"

definition owners_ok :: "'c mem \<Rightarrow> ptr multiset \<Rightarrow> bool" where
  "owners_ok m O1 \<longleftrightarrow> mem_ok m \<and> (\<forall>p. count O1 p \<le> 1) \<and> (\<forall>p \<in># O1. live_context m p)"

lemma live_context_iff:
  "live_context m p \<longleftrightarrow> (\<exists>b x. p = Ptr b 0 \<and> blocks m b = Some (Opaque x))"
  by (auto simp: live_context_def context_at_def split: ptr.splits option.splits block.splits if_splits)

lemma owners_ok_less: "owners_ok m (O1 + O2) \<Longrightarrow> owners_ok m O2"
  by (force simp: owners_ok_def intro: add_leD2)

lemma owners_ok_unchanged: "owners_ok m O1 \<Longrightarrow> unchanged m m' \<Longrightarrow> owners_ok m' O1"
  by (simp add: owners_ok_def live_context_iff unchanged_def)

lemma owners_ok_new:
  assumes "owners_ok m O1" "blocks m' = (blocks m)(fresh m \<mapsto> Opaque x)" "fresh m' = Suc (fresh m)"
  shows "owners_ok m' (add_mset (Ptr (fresh m) 0) O1)"
proof -
  have new: "Ptr (fresh m) 0 \<notin># O1"
    using assms(1) by (auto simp: owners_ok_def live_context_iff mem_ok_def)
  then have "count O1 (Ptr (fresh m) 0) = 0" by (simp add: not_in_iff)
  moreover have "live_context m' p" if p: "p \<in># add_mset (Ptr (fresh m) 0) O1" for p
  proof (cases "p = Ptr (fresh m) 0")
    case False
    then have "live_context m p" using p assms(1) by (auto simp: owners_ok_def)
    then obtain b y where "p = Ptr b 0" "blocks m b = Some (Opaque y)"
      by (auto simp: live_context_iff)
    then show ?thesis using assms(2) by (auto simp: live_context_iff)
  qed (use assms(2) in \<open>simp add: live_context_iff\<close>)
  ultimately show ?thesis
    using assms by (auto simp: owners_ok_def mem_ok_def)
qed

lemma owners_ok_free:
  assumes "owners_ok m (add_mset p O1)"
  shows "\<exists>m'. free p m = Done m' \<and> owners_ok m' O1"
proof -
  obtain b x where p: "p = Ptr b 0" "blocks m b = Some (Opaque x)"
    using assms by (auto simp: owners_ok_def live_context_iff)
  have "count (add_mset p O1) p \<le> 1" using assms unfolding owners_ok_def by blast
  then have new: "p \<notin># O1" by (simp add: not_in_iff)
  have less: "owners_ok m O1" using owners_ok_less [of m "{#p#}" O1] assms by simp
  let ?m = "m\<lparr>blocks := (blocks m)(b := None)\<rparr>"
  have "live_context ?m q" if q: "q \<in># O1" for q
  proof -
    obtain d y where d: "q = Ptr d 0" "blocks m d = Some (Opaque y)"
      using q less by (auto simp: owners_ok_def live_context_iff)
    with new q p have "d \<noteq> b" by auto
    with d show ?thesis by (simp add: live_context_iff)
  qed
  then have "owners_ok ?m O1" using less by (simp add: owners_ok_def mem_ok_def)
  then show ?thesis using p by simp
qed

section \<open>What the operations do to the contexts\<close>

lemma load_cases:
  assumes "mem_ok m"
  shows "(case load_trusted_setup E z b path m of
      Done (Ok b', m') \<Rightarrow> (\<exists>x. builder_ctx b' = Some (Ptr (fresh m) 0) \<and>
        builder_threadpool b' = builder_threadpool b \<and>
        blocks m' = (blocks m)(fresh m \<mapsto> Opaque x) \<and> fresh m' = Suc (fresh m))
    | Done (Err e, m') \<Rightarrow> unchanged m m' \<and> e \<noteq> cttEthTS_Success
    | _ \<Rightarrow> False)"
  using assms by (auto simp: context_defs alloc_def unchanged_def mem_ok_def Let_def
      split: result.splits setup_file.splits)

lemma load_pre_cases:
  assumes "mem_ok m"
  shows "(case load_trusted_setup_with_precompute E z b path t k m of
      Done (Ok b', m') \<Rightarrow> (\<exists>x. builder_ctx b' = Some (Ptr (fresh m) 0) \<and>
        builder_threadpool b' = builder_threadpool b \<and>
        blocks m' = (blocks m)(fresh m \<mapsto> Opaque x) \<and> fresh m' = Suc (fresh m))
    | Done (Err e, m') \<Rightarrow> unchanged m m' \<and> e \<noteq> cttEthTS_Success
    | _ \<Rightarrow> False)"
  using assms by (auto simp: context_defs alloc_def unchanged_def mem_ok_def Let_def
      split: result.splits setup_file.splits)

lemma direct_cases:
  assumes "mem_ok m"
  shows "(case context_load_trusted_setup E z path m of
      Done (Ok c, m') \<Rightarrow> (\<exists>x. ctx_ptr c = Ptr (fresh m) 0 \<and> threadpool c = None \<and>
        blocks m' = (blocks m)(fresh m \<mapsto> Opaque x) \<and> fresh m' = Suc (fresh m))
    | Done (Err e, m') \<Rightarrow> unchanged m m' \<and> e \<noteq> cttEthTS_Success
    | _ \<Rightarrow> False)"
  using assms by (auto simp: context_load_trusted_setup_def context_defs build_def builder_def alloc_def
      unchanged_def mem_ok_def Let_def split: result.splits setup_file.splits)

lemma build_owns: "build b = Ok c \<Longrightarrow> builder_owns b = {#ctx_ptr c#}"
  by (auto simp: build_def builder_owns_def split: option.splits)

lemma drop_is_free: "live_context m (ctx_ptr c) \<Longrightarrow> EthKzgContext_drop c m = free (ctx_ptr c) m"
  by (auto simp: EthKzgContext_drop_def ctt_eth_kzg_context_delete_def live_context_iff)

section \<open>The invariant holds in every reachable state\<close>

lemma owners_ok_add_new:
  assumes "owners_ok m (O1 + O2)" "blocks m' = (blocks m)(fresh m \<mapsto> Opaque x)" "fresh m' = Suc (fresh m)"
  shows "owners_ok m' (add_mset (Ptr (fresh m) 0) O2)"
  by (rule owners_ok_new [OF owners_ok_less [OF assms(1)] assms(2,3)])

lemma builder_owns_Some: "builder_ctx b = Some p \<Longrightarrow> builder_owns b = {#p#}"
  by (simp add: builder_owns_def)

lemma step_owners_ok:
  assumes "step E z w w'" "owners_ok (wmem w) (owned w)"
  shows "owners_ok (wmem w') (owned w')"
  using assms
proof (cases rule: step.cases)
  case (load_ok b B path b' m')
  have m: "mem_ok (wmem w)" using assms(2) by (simp add: owners_ok_def)
  show ?thesis
    using load_cases [OF m, where E = E and z = z and b = b and path = path] load_ok assms(2)
      owners_ok_add_new [of "wmem w" "builder_owns b"]
    by (auto simp: owned_def builder_owns_Some add.assoc)
next
  case (load_err b B path e m')
  have m: "mem_ok (wmem w)" using assms(2) by (simp add: owners_ok_def)
  show ?thesis
    using load_cases [OF m, where E = E and z = z and b = b and path = path] load_err assms(2) owners_ok_unchanged
      owners_ok_less [of "wmem w" "builder_owns b"]
    by (auto simp: owned_def add.assoc)
next
  case (load_pre_ok b B path t k b' m')
  have m: "mem_ok (wmem w)" using assms(2) by (simp add: owners_ok_def)
  show ?thesis
    using load_pre_cases [OF m, where E = E and z = z and b = b and path = path and t = t and k = k] load_pre_ok assms(2)
      owners_ok_add_new [of "wmem w" "builder_owns b"]
    by (auto simp: owned_def builder_owns_Some add.assoc)
next
  case (load_pre_err b B path t k e m')
  have m: "mem_ok (wmem w)" using assms(2) by (simp add: owners_ok_def)
  show ?thesis
    using load_pre_cases [OF m, where E = E and z = z and b = b and path = path and t = t and k = k] load_pre_err assms(2) owners_ok_unchanged
      owners_ok_less [of "wmem w" "builder_owns b"]
    by (auto simp: owned_def add.assoc)
next
  case (direct_ok path c m')
  have m: "mem_ok (wmem w)" using assms(2) by (simp add: owners_ok_def)
  show ?thesis
    using direct_cases [OF m, where E = E and z = z and path = path] direct_ok assms(2) owners_ok_new [of "wmem w"]
    by (auto simp: owned_def)
next
  case (direct_err path e m')
  have m: "mem_ok (wmem w)" using assms(2) by (simp add: owners_ok_def)
  show ?thesis
    using direct_cases [OF m, where E = E and z = z and path = path] direct_err assms(2) owners_ok_unchanged
    by (auto simp: owned_def)
next
  case (drop_context c C m')
  then have "owners_ok (wmem w) (add_mset (ctx_ptr c) (owned w'))"
    using assms(2) by (simp add: owned_def)
  moreover from this have "live_context (wmem w) (ctx_ptr c)" by (simp add: owners_ok_def)
  ultimately show ?thesis using owners_ok_free drop_is_free drop_context by fastforce
next
  case (with_pool b B tp)
  then show ?thesis using assms(2) by (simp add: owned_def builder_owns_def set_threadpool_def)
next
  case (build_ok b B c)
  then show ?thesis using assms(2) by (simp add: owned_def build_owns ac_simps)
next
  case (build_err b B e)
  then show ?thesis
    using assms(2) owners_ok_less [of "wmem w" "builder_owns b"] by (simp add: owned_def add.assoc)
next
  case (drop_builder b B)
  then show ?thesis
    using assms(2) owners_ok_less [of "wmem w" "builder_owns b"] by (simp add: owned_def add.assoc)
next
  case new_builder
  then show ?thesis using assms(2) by (simp add: owned_def builder_owns_def builder_def)
qed

lemma reachable_owners_ok: "reachable E z w \<Longrightarrow> owners_ok (wmem w) (owned w)"
proof (induction rule: reachable.induct)
  case reachable_start
  show ?case by (simp add: start_def owned_def owners_ok_def)
qed (rule step_owners_ok)

section \<open>Properties\<close>

text \<open>C11: in every state that a program can reach with builders and contexts of
  the safe interface, each context the program holds points to a live context object that no
  other owner shares, and dropping it succeeds: no double free and no use of a freed context.\<close>

theorem kzg_drop_safe:
  assumes "reachable E z w" "contexts w = add_mset c C"
  shows "\<exists>x m'. context_at (wmem w) (ctx_ptr c) = Some x \<and> ctx_ptr c \<notin># image_mset ctx_ptr C \<and>
    EthKzgContext_drop c (wmem w) = Done m' \<and> context_at m' (ctx_ptr c) = None"
proof -
  have "owners_ok (wmem w) ((\<Sum>b \<in># builders w. builder_owns b) + add_mset (ctx_ptr c) (image_mset ctx_ptr C))"
    using reachable_owners_ok [OF assms(1)] assms(2) by (simp add: owned_def)
  then have ok: "owners_ok (wmem w) (add_mset (ctx_ptr c) (image_mset ctx_ptr C))"
    by (rule owners_ok_less)
  then have live: "live_context (wmem w) (ctx_ptr c)" by (simp add: owners_ok_def)
  have "count (add_mset (ctx_ptr c) (image_mset ctx_ptr C)) (ctx_ptr c) \<le> 1"
    using ok unfolding owners_ok_def by blast
  then have "count (image_mset ctx_ptr C) (ctx_ptr c) = 0" by simp
  then have "ctx_ptr c \<notin># image_mset ctx_ptr C" by (rule not_in_iff [THEN iffD2])
  moreover obtain m' where "free (ctx_ptr c) (wmem w) = Done m'"
    using owners_ok_free [OF ok] by blast
  moreover from this have "context_at m' (ctx_ptr c) = None"
    using live by (auto simp: live_context_iff context_at_def)
  ultimately show ?thesis using live drop_is_free [OF live] by (auto simp: live_context_def)
qed

definition one_file :: "(nat, nat) setups" where
  "one_file = \<lparr>file_at = (\<lambda>p. if p = [47, 116] then Good_file 7 else No_file),
     set_up = (\<lambda>t b r. r + nat t + nat b)\<rparr>"

lemma one_file_context:
  "reachable one_file 0 (start\<lparr>wmem := \<lparr>blocks = [0 \<mapsto> Opaque 7], fresh = 1\<rparr>,
     contexts := {#\<lparr>ctx_ptr = Ptr 0 0, threadpool = None\<rparr>#}\<rparr>)"
proof -
  have "context_load_trusted_setup one_file 0 [47, 116] (wmem start) =
      Done (Ok \<lparr>ctx_ptr = Ptr 0 0, threadpool = None\<rparr>, \<lparr>blocks = [0 \<mapsto> Opaque 7], fresh = 1\<rparr>)"
    by (simp add: one_file_def start_def empty_mem_def context_load_trusted_setup_def context_defs
        build_def builder_def alloc_def)
  from reachable_step [OF reachable_start direct_ok [OF this]] show ?thesis by (simp add: start_def)
qed

theorem kzg_drop_safe_witness:
  "\<exists>m'. EthKzgContext_drop \<lparr>ctx_ptr = Ptr 0 0, threadpool = None\<rparr>
      (\<lparr>blocks = [0 \<mapsto> Opaque 7], fresh = 1\<rparr> :: nat mem) = Done m'"
  using kzg_drop_safe [OF one_file_context, of "\<lparr>ctx_ptr = Ptr 0 0, threadpool = None\<rparr>" "{#}"]
  by (auto simp: start_def)

lemma context_roundtrip:
  "mem_ok m \<Longrightarrow>
   (case context_load_trusted_setup E z path m of
      Done (Ok c, m') \<Rightarrow> (\<exists>m''. EthKzgContext_drop c m' = Done m'' \<and> unchanged m m'')
    | Done (Err e, m') \<Rightarrow> unchanged m m' | _ \<Rightarrow> False)"
  by (auto simp: context_load_trusted_setup_def context_defs build_def builder_def alloc_def
      EthKzgContext_drop_def ctt_eth_kzg_context_delete_def unchanged_def mem_ok_def Let_def fun_upd_idem
      split: result.splits setup_file.splits)

lemma load_behaviour:
  "load_trusted_setup_with_precompute E z self path t b m =
     (if 0 \<in> set path then Done (Err cttEthTS_MissingOrInaccessibleFile, m)
      else case file_at E path of
        No_file \<Rightarrow> Done (Err cttEthTS_MissingOrInaccessibleFile, m)
      | Bad_file \<Rightarrow> Done (Err cttEthTS_InvalidFile,
          m\<lparr>blocks := (blocks m)(fresh m := None), fresh := Suc (fresh m)\<rparr>)
      | Good_file r \<Rightarrow> Done (Ok \<lparr>builder_ctx = Some (Ptr (fresh m) 0),
            builder_threadpool = builder_threadpool self\<rparr>,
          m\<lparr>blocks := (blocks m)(fresh m \<mapsto> Opaque (set_up E t b r)), fresh := Suc (fresh m)\<rparr>))"
  "load_trusted_setup E z self path m = load_trusted_setup_with_precompute E z self path 0 0 m"
  by (auto simp: context_defs alloc_def Let_def split: setup_file.splits)

text \<open>A builder has no \<^verbatim>\<open>Drop\<close>: dropping it after a load leaves its context behind.\<close>

lemma builder_leak:
  assumes "file_at E path = Good_file r" "0 \<notin> set path"
  shows "\<exists>w p. reachable E z w \<and> builders w = {#} \<and> contexts w = {#} \<and> live_context (wmem w) p"
proof -
  let ?w1 = "start\<lparr>builders := {#builder#}\<rparr> :: 'b world"
  have r1: "reachable E z ?w1"
    using reachable_step [OF reachable_start new_builder] by (simp add: start_def)
  obtain b' m' where l: "load_trusted_setup E z builder path (wmem ?w1) = Done (Ok b', m')"
    and m': "live_context m' (Ptr 0 0)"
    using assms by (simp add: context_defs alloc_def start_def empty_mem_def live_context_iff)
  have "step E z ?w1 (?w1\<lparr>wmem := m', builders := {#b'#}\<rparr>)"
    by (rule load_ok [OF _ l]) simp
  then have r2: "reachable E z (?w1\<lparr>wmem := m', builders := {#b'#}\<rparr>)"
    by (rule reachable_step [OF r1])
  have "step E z (?w1\<lparr>wmem := m', builders := {#b'#}\<rparr>) (?w1\<lparr>wmem := m', builders := {#}\<rparr>)"
    using drop_builder [of "?w1\<lparr>wmem := m', builders := {#b'#}\<rparr>" b' "{#}"] by simp
  then have "reachable E z (?w1\<lparr>wmem := m', builders := {#}\<rparr>)"
    by (rule reachable_step [OF r2])
  then show ?thesis using m' by (intro exI conjI) (auto simp: start_def)
qed



end
