(* ===== verification/KZG_Calls.thy ===== *)
theory KZG_Calls
  imports Rust_KZG
begin

text \<open>
  The commitment, proof and verification calls of \<^verbatim>\<open>constantine-ethereum-kzg\<close>: under the contract
  of the library each wrapper returns what the protocol's pure function says and leaves the
  memory as it was; length mismatches are caught before the library is called; the parallel
  calls agree with the sequential ones and panic without a threadpool.
\<close>

section \<open>A library that keeps the contract\<close>

text \<open>For any pure functions whose results have the sizes of the C types.\<close>

definition reference_lib :: "'c kzg_spec \<Rightarrow> 'c kzg_lib" where
  "reference_lib S = \<lparr>
     ctt_eth_kzg_blob_to_kzg_commitment = (\<lambda>c r blob.
       export_reads cttEthKzg_Success (reads c [(blob, 131072)]) (spec_commitment S) r),
     ctt_eth_kzg_compute_kzg_proof = (\<lambda>c p y blob z.
       export_reads2 cttEthKzg_Success (reads c [(blob, 131072), (z, 32)]) (spec_proof S) p y),
     ctt_eth_kzg_verify_kzg_proof = (\<lambda>c com z y p.
       export_check (reads c (verify_ins com z y p)) (spec_verify S)),
     ctt_eth_kzg_compute_blob_kzg_proof = (\<lambda>c p blob com.
       export_reads cttEthKzg_Success (reads c [(blob, 131072), (com, 48)]) (spec_blob_proof S) p),
     ctt_eth_kzg_verify_blob_kzg_proof = (\<lambda>c blob com p.
       export_check (reads c (blob_ins blob com p)) (spec_verify_blob S)),
     ctt_eth_kzg_verify_blob_kzg_proof_batch = (\<lambda>c bs cs ps n rnd.
       export_check (reads c (blobs_ins n bs cs ps rnd)) (spec_verify_blobs S n)),
     ctt_eth_kzg_blob_to_kzg_commitment_parallel = (\<lambda>tp c r blob.
       export_reads cttEthKzg_Success (reads c [(blob, 131072)]) (spec_commitment S) r),
     ctt_eth_kzg_compute_kzg_proof_parallel = (\<lambda>tp c p y blob z.
       export_reads2 cttEthKzg_Success (reads c [(blob, 131072), (z, 32)]) (spec_proof S) p y),
     ctt_eth_kzg_compute_blob_kzg_proof_parallel = (\<lambda>tp c p blob com.
       export_reads cttEthKzg_Success (reads c [(blob, 131072), (com, 48)]) (spec_blob_proof S) p),
     ctt_eth_kzg_verify_blob_kzg_proof_parallel = (\<lambda>tp c blob com p.
       export_check (reads c (blob_ins blob com p)) (spec_verify_blob S)),
     ctt_eth_kzg_verify_blob_kzg_proof_batch_parallel = (\<lambda>tp c bs cs ps n rnd.
       export_check (reads c (blobs_ins n bs cs ps rnd)) (spec_verify_blobs_parallel S tp n)),
     ctt_eth_kzg_compute_cells_and_kzg_proofs = (\<lambda>c cs ps blob.
       export_reads2 cttEthKzg_Success (reads c [(blob, 131072)]) (spec_cells S) cs ps),
     ctt_eth_kzg_verify_cell_kzg_proof_batch = (\<lambda>c com ix cs ps n rnd.
       export_check (reads c (cells_ins n com ix cs ps rnd)) (spec_verify_cells S n)),
     ctt_eth_kzg_recover_cells_and_kzg_proofs = (\<lambda>c rc rp ix cs n.
       export_reads2 cttEthKzg_Success (reads c (recover_ins n ix cs)) (spec_recover S n) rc rp)\<rparr>"

definition one_result :: "nat \<Rightarrow> ('d \<Rightarrow> (byte list, ctt_eth_kzg_status) result) \<Rightarrow> bool" where
  "one_result n f \<longleftrightarrow> (\<forall>d. case f d of Ok x \<Rightarrow> length x = n | Err e \<Rightarrow> e \<noteq> cttEthKzg_Success)"

definition two_results ::
  "nat \<Rightarrow> nat \<Rightarrow> ('d \<Rightarrow> (byte list \<times> byte list, ctt_eth_kzg_status) result) \<Rightarrow> bool" where
  "two_results n1 n2 f \<longleftrightarrow>
     (\<forall>d. case f d of Ok (x, y) \<Rightarrow> length x = n1 \<and> length y = n2 | Err e \<Rightarrow> e \<noteq> cttEthKzg_Success)"

definition spec_sizes :: "'c kzg_spec \<Rightarrow> bool" where
  "spec_sizes S \<longleftrightarrow> one_result 48 (spec_commitment S) \<and> one_result 48 (spec_blob_proof S) \<and>
     two_results 48 32 (spec_proof S) \<and> two_results 262144 6144 (spec_cells S) \<and>
     (\<forall>n. two_results 262144 6144 (spec_recover S n))"

lemma one_result_fills:
  "one_result n f \<Longrightarrow> fills n cttEthKzg_Success (export_reads cttEthKzg_Success (reads c ins) f) (reads c ins) f"
  by (rule export_reads_fills) (force simp: one_result_def split: result.splits)+

lemma two_results_fills2:
  "two_results n1 n2 f \<Longrightarrow>
   fills2 n1 n2 cttEthKzg_Success (export_reads2 cttEthKzg_Success (reads c ins) f) (reads c ins) f"
  by (rule export_reads2_fills) (force simp: two_results_def split: result.splits)+

lemma reference_contract: "spec_sizes S \<Longrightarrow> kzg_contract (reference_lib S) S"
  by (auto simp: kzg_contract_def reference_lib_def spec_sizes_def
      intro: one_result_fills two_results_fills2 export_check_checks)

lemma reference_parallel: "spec_sizes S \<Longrightarrow> kzg_parallel_contract (reference_lib S) S"
  by (auto simp: kzg_parallel_contract_def reference_lib_def spec_sizes_def
      intro: one_result_fills two_results_fills2 export_check_checks)

lemma reference_peerdas: "spec_sizes S \<Longrightarrow> kzg_peerdas_contract (reference_lib S) S"
  by (auto simp: kzg_peerdas_contract_def reference_lib_def spec_sizes_def
      intro: one_result_fills two_results_fills2 export_check_checks)

text \<open>Pure functions for the witnesses: constant results, and a verification that accepts the
  proofs that start with the byte 1.\<close>

definition sample_spec :: "unit kzg_spec" where
  "sample_spec = \<lparr>
     spec_commitment = (\<lambda>d. Ok (replicate 48 5)),
     spec_proof = (\<lambda>d. Ok (replicate 48 6, replicate 32 7)),
     spec_verify = (\<lambda>(c, ins). if hd (ins ! 3) = 1 then cttEthKzg_Success else cttEthKzg_VerificationFailure),
     spec_blob_proof = (\<lambda>d. Err cttEthKzg_EccInvalidEncoding),
     spec_verify_blob = (\<lambda>d. cttEthKzg_EccPointNotOnCurve),
     spec_verify_blobs = (\<lambda>n d. cttEthKzg_Success),
     spec_verify_blobs_parallel = (\<lambda>tp n d. cttEthKzg_Success),
     spec_cells = (\<lambda>d. Ok (replicate 262144 1, replicate 6144 2)),
     spec_verify_cells = (\<lambda>n d. cttEthKzg_Success),
     spec_recover = (\<lambda>n d. Ok (replicate 262144 1, replicate 6144 2))\<rparr>"

lemma sample_spec_sel:
  "spec_commitment sample_spec d = Ok (replicate 48 5)"
  "spec_proof sample_spec d = Ok (replicate 48 6, replicate 32 7)"
  "spec_verify sample_spec (c, ins) =
     (if hd (ins ! 3) = 1 then cttEthKzg_Success else cttEthKzg_VerificationFailure)"
  "spec_blob_proof sample_spec d = Err cttEthKzg_EccInvalidEncoding"
  "spec_verify_blob sample_spec d = cttEthKzg_EccPointNotOnCurve"
  "spec_verify_blobs sample_spec n d = cttEthKzg_Success"
  "spec_verify_blobs_parallel sample_spec tp n d = cttEthKzg_Success"
  "spec_cells sample_spec d = Ok (replicate 262144 1, replicate 6144 2)"
  "spec_verify_cells sample_spec n d = cttEthKzg_Success"
  "spec_recover sample_spec n d = Ok (replicate 262144 1, replicate 6144 2)"
  by (simp_all add: sample_spec_def)

lemma sample_sizes: "spec_sizes sample_spec"
  by (simp add: spec_sizes_def sample_spec_sel one_result_def two_results_def)

text \<open>A memory with a context (block 0), a buffer of ones (2) and a blob (3).\<close>

definition sample_mem :: "unit mem" where
  "sample_mem = \<lparr>blocks = [0 \<mapsto> Opaque (), 2 \<mapsto> Bytes (replicate 2048 (Some 1)),
     3 \<mapsto> Bytes (replicate 131072 (Some 0))], fresh = 4\<rparr>"

lemma sample_mem_ok: "mem_ok sample_mem"
  by (simp add: sample_mem_def mem_ok_def)

lemma sample_blob: "load sample_mem (Ptr 3 0) 131072 = Done (replicate 131072 0)"
  by (simp add: sample_mem_def load_def cells_load_def)

lemma sample_ones: "n \<le> 2048 \<Longrightarrow> load sample_mem (Ptr 2 0) n = Done (replicate n 1)"
  by (simp add: sample_mem_def load_def cells_load_def)

lemma sample_context: "context_at sample_mem (Ptr 0 0) = Some ()"
  by (simp add: sample_mem_def context_at_def)

lemmas sample_reads = reads_def sample_blob sample_ones sample_context

definition sample_ctx :: EthKzgContext where
  "sample_ctx = \<lparr>ctx_ptr = Ptr 0 0, threadpool = Some \<lparr>pool_ctx = 4\<rparr>\<rparr>"

lemma sample_ctx_ptr: "ctx_ptr sample_ctx = Ptr 0 0"
  by (simp add: sample_ctx_def)

section \<open>Each wrapper under the contract\<close>

lemma blob_to_kzg_commitment_returns:
  assumes "kzg_contract L S" "mem_ok m" "reads (ctx_ptr self) [(blob, 131072)] m = Some d"
  shows "returns m (blob_to_kzg_commitment L self blob m) (spec_commitment S d)"
proof -
  have "fills 48 cttEthKzg_Success (\<lambda>r. ctt_eth_kzg_blob_to_kzg_commitment L (ctx_ptr self)  r blob)
      (reads (ctx_ptr self) [(blob, 131072)]) (spec_commitment S)"
    using assms(1) by (simp add: kzg_contract_def)
  from returns_uninit [OF this assms(2)] assms(3) show ?thesis
    by (simp add: blob_to_kzg_commitment_def)
qed

lemma blob_to_kzg_commitment_parallel_returns:
  assumes "kzg_parallel_contract L S" "mem_ok m" "reads (ctx_ptr self) [(blob, 131072)] m = Some d" "threadpool self = Some tp"
  shows "returns m (blob_to_kzg_commitment_parallel L self blob m) (spec_commitment S d)"
proof -
  have "fills 48 cttEthKzg_Success (\<lambda>r. ctt_eth_kzg_blob_to_kzg_commitment_parallel L (get_private_context tp) (ctx_ptr self)  r blob)
      (reads (ctx_ptr self) [(blob, 131072)]) (spec_commitment S)"
    using assms(1) by (simp add: kzg_parallel_contract_def)
  from returns_uninit [OF this assms(2)] assms(3-) show ?thesis
    by (simp add: blob_to_kzg_commitment_parallel_def expect_def)
qed

lemma compute_kzg_proof_returns:
  assumes "kzg_contract L S" "mem_ok m" "reads (ctx_ptr self) [(blob, 131072), (z, 32)] m = Some d"
  shows "returns m (compute_kzg_proof L self blob z m) (spec_proof S d)"
proof -
  have "fills2 48 32 cttEthKzg_Success (\<lambda>p y. ctt_eth_kzg_compute_kzg_proof L (ctx_ptr self)  p y blob z)
      (reads (ctx_ptr self) [(blob, 131072), (z, 32)]) (spec_proof S)"
    using assms(1) by (simp add: kzg_contract_def)
  from returns_uninit2 [OF this assms(2)] assms(3) show ?thesis
    by (simp add: compute_kzg_proof_def)
qed

lemma compute_kzg_proof_parallel_returns:
  assumes "kzg_parallel_contract L S" "mem_ok m" "reads (ctx_ptr self) [(blob, 131072), (z, 32)] m = Some d" "threadpool self = Some tp"
  shows "returns m (compute_kzg_proof_parallel L self blob z m) (spec_proof S d)"
proof -
  have "fills2 48 32 cttEthKzg_Success (\<lambda>p y. ctt_eth_kzg_compute_kzg_proof_parallel L (get_private_context tp) (ctx_ptr self)  p y blob z)
      (reads (ctx_ptr self) [(blob, 131072), (z, 32)]) (spec_proof S)"
    using assms(1) by (simp add: kzg_parallel_contract_def)
  from returns_uninit2 [OF this assms(2)] assms(3-) show ?thesis
    by (simp add: compute_kzg_proof_parallel_def expect_def)
qed

lemma compute_blob_kzg_proof_returns:
  assumes "kzg_contract L S" "mem_ok m" "reads (ctx_ptr self) [(blob, 131072), (com, 48)] m = Some d"
  shows "returns m (compute_blob_kzg_proof L self blob com m) (spec_blob_proof S d)"
proof -
  have "fills 48 cttEthKzg_Success (\<lambda>p. ctt_eth_kzg_compute_blob_kzg_proof L (ctx_ptr self)  p blob com)
      (reads (ctx_ptr self) [(blob, 131072), (com, 48)]) (spec_blob_proof S)"
    using assms(1) by (simp add: kzg_contract_def)
  from returns_uninit [OF this assms(2)] assms(3) show ?thesis
    by (simp add: compute_blob_kzg_proof_def)
qed

lemma compute_blob_kzg_proof_parallel_returns:
  assumes "kzg_parallel_contract L S" "mem_ok m" "reads (ctx_ptr self) [(blob, 131072), (com, 48)] m = Some d" "threadpool self = Some tp"
  shows "returns m (compute_blob_kzg_proof_parallel L self blob com m) (spec_blob_proof S d)"
proof -
  have "fills 48 cttEthKzg_Success (\<lambda>p. ctt_eth_kzg_compute_blob_kzg_proof_parallel L (get_private_context tp) (ctx_ptr self)  p blob com)
      (reads (ctx_ptr self) [(blob, 131072), (com, 48)]) (spec_blob_proof S)"
    using assms(1) by (simp add: kzg_parallel_contract_def)
  from returns_uninit [OF this assms(2)] assms(3-) show ?thesis
    by (simp add: compute_blob_kzg_proof_parallel_def expect_def)
qed

lemma verify_blob_kzg_proof_returns:
  assumes "kzg_contract L S" "mem_ok m" "reads (ctx_ptr self) (blob_ins blob com proof) m = Some d"
  shows "returns m (verify_blob_kzg_proof L self blob com proof m) (verdict (spec_verify_blob S d))"
proof -
  have "checks (ctt_eth_kzg_verify_blob_kzg_proof L (ctx_ptr self)  blob com proof)
      (reads (ctx_ptr self) (blob_ins blob com proof)) (spec_verify_blob S)"
    using assms(1) by (simp add: kzg_contract_def)
  from returns_status_only [OF this assms(2)] assms(3) show ?thesis
    by (simp add: verify_blob_kzg_proof_def)
qed

lemma verify_blob_kzg_proof_parallel_returns:
  assumes "kzg_parallel_contract L S" "mem_ok m" "reads (ctx_ptr self) (blob_ins blob com proof) m = Some d" "threadpool self = Some tp"
  shows "returns m (verify_blob_kzg_proof_parallel L self blob com proof m) (verdict (spec_verify_blob S d))"
proof -
  have "checks (ctt_eth_kzg_verify_blob_kzg_proof_parallel L (get_private_context tp) (ctx_ptr self)  blob com proof)
      (reads (ctx_ptr self) (blob_ins blob com proof)) (spec_verify_blob S)"
    using assms(1) by (simp add: kzg_parallel_contract_def)
  from returns_status_only [OF this assms(2)] assms(3-) show ?thesis
    by (simp add: verify_blob_kzg_proof_parallel_def expect_def)
qed

lemma verify_kzg_proof_returns:
  assumes "kzg_contract L S" "mem_ok m" "reads (ctx_ptr self) (verify_ins com z y proof) m = Some d"
  shows "returns m (verify_kzg_proof L self com z y proof m) (verdict (spec_verify S d))"
proof -
  have "checks (ctt_eth_kzg_verify_kzg_proof L (ctx_ptr self) com z y proof)
      (reads (ctx_ptr self) (verify_ins com z y proof)) (spec_verify S)"
    using assms(1) by (simp add: kzg_contract_def)
  from returns_status_only [OF this assms(2)] assms(3) show ?thesis
    by (simp add: verify_kzg_proof_def)
qed

lemma verify_blob_kzg_proof_batch_returns:
  assumes "kzg_contract L S" "mem_ok m" "len commitments = len blobs" "len proofs = len blobs"
    "reads (ctx_ptr self) (blobs_ins (len blobs) (as_ptr blobs) (as_ptr commitments) (as_ptr proofs) rnd) m = Some d"
  shows "returns m (verify_blob_kzg_proof_batch L self blobs commitments proofs rnd m)
    (verdict (spec_verify_blobs S (len blobs) d))"
proof -
  have "checks (ctt_eth_kzg_verify_blob_kzg_proof_batch L (ctx_ptr self) (as_ptr blobs) (as_ptr commitments)
        (as_ptr proofs) (len blobs) rnd)
      (reads (ctx_ptr self) (blobs_ins (len blobs) (as_ptr blobs) (as_ptr commitments) (as_ptr proofs) rnd))
      (spec_verify_blobs S (len blobs))"
    using assms(1) by (simp add: kzg_contract_def)
  from returns_status_only [OF this assms(2,5)] show ?thesis
    using assms(3,4) by (simp add: verify_blob_kzg_proof_batch_def)
qed

lemma verify_cell_kzg_proof_batch_returns:
  assumes "kzg_peerdas_contract L S" "mem_ok m" "len indices = len commitments"
    "len cells = len commitments" "len proofs = len commitments"
    "reads (ctx_ptr self) (cells_ins (len commitments) (as_ptr commitments) (as_ptr indices) (as_ptr cells)
       (as_ptr proofs) rnd) m = Some d"
  shows "returns m (verify_cell_kzg_proof_batch L self commitments indices cells proofs rnd m)
    (verdict (spec_verify_cells S (len commitments) d))"
proof -
  have "checks (ctt_eth_kzg_verify_cell_kzg_proof_batch L (ctx_ptr self) (as_ptr commitments) (as_ptr indices)
        (as_ptr cells) (as_ptr proofs) (len commitments) rnd)
      (reads (ctx_ptr self) (cells_ins (len commitments) (as_ptr commitments) (as_ptr indices) (as_ptr cells)
        (as_ptr proofs) rnd)) (spec_verify_cells S (len commitments))"
    using assms(1) by (simp add: kzg_peerdas_contract_def)
  from returns_status_only [OF this assms(2,6)] show ?thesis
    using assms(3-5) by (simp add: verify_cell_kzg_proof_batch_def)
qed

section \<open>Properties\<close>

text \<open>C6: committing to a blob, proving an opening and proving a blob return
  exactly what the protocol function says, error statuses included, never read uninitialised
  memory and leave the memory as it was.\<close>

theorem kzg_compute_correct:
  assumes "kzg_contract L S" "mem_ok m"
    and "reads (ctx_ptr self) [(blob, 131072)] m = Some d1"
    and "reads (ctx_ptr self) [(blob, 131072), (z, 32)] m = Some d2"
    and "reads (ctx_ptr self) [(blob, 131072), (com, 48)] m = Some d3"
  shows "returns m (blob_to_kzg_commitment L self blob m) (spec_commitment S d1) \<and>
    returns m (compute_kzg_proof L self blob z m) (spec_proof S d2) \<and>
    returns m (compute_blob_kzg_proof L self blob com m) (spec_blob_proof S d3)"
  using assms by (simp add: blob_to_kzg_commitment_returns compute_kzg_proof_returns
      compute_blob_kzg_proof_returns)

theorem kzg_compute_correct_witness:
  "returns sample_mem (blob_to_kzg_commitment (reference_lib sample_spec) sample_ctx (Ptr 3 0) sample_mem)
     (Ok (replicate 48 5)) \<and>
   returns sample_mem (compute_blob_kzg_proof (reference_lib sample_spec) sample_ctx (Ptr 3 0) (Ptr 2 0) sample_mem)
     (Err cttEthKzg_EccInvalidEncoding)"
  using kzg_compute_correct [OF reference_contract [OF sample_sizes] sample_mem_ok,
      of sample_ctx "Ptr 3 0" _ "Ptr 2 0" _ "Ptr 2 0"]
  by (simp add: sample_ctx_def sample_reads sample_spec_sel)

text \<open>C7: the verification calls map the library's status to \<^verbatim>\<open>Ok(true)\<close>,
  \<^verbatim>\<open>Ok(false)\<close> for a failed verification, and \<^verbatim>\<open>Err\<close> for every other status.\<close>

theorem kzg_verify_correct:
  assumes "kzg_contract L S" "mem_ok m"
    and "reads (ctx_ptr self) (verify_ins com z y proof) m = Some d1"
    and "reads (ctx_ptr self) (blob_ins blob com proof) m = Some d2"
  shows "returns m (verify_kzg_proof L self com z y proof m) (verdict (spec_verify S d1)) \<and>
    returns m (verify_blob_kzg_proof L self blob com proof m) (verdict (spec_verify_blob S d2))"
  using assms by (simp add: verify_kzg_proof_returns verify_blob_kzg_proof_returns)

theorem kzg_verify_correct_witness:
  "returns sample_mem (verify_kzg_proof (reference_lib sample_spec) sample_ctx
     (Ptr 2 0) (Ptr 2 0) (Ptr 2 0) (Ptr 2 0) sample_mem) (Ok True)"
  using kzg_verify_correct [OF reference_contract [OF sample_sizes] sample_mem_ok,
      of sample_ctx "Ptr 2 0" "Ptr 2 0" "Ptr 2 0" "Ptr 2 0"
        "((), [replicate 48 1, replicate 32 1, replicate 32 1, replicate 48 1])" "Ptr 3 0"]
  by (simp add: sample_ctx_ptr sample_reads verify_ins_def blob_ins_def sample_spec_sel verdict_def)

text \<open>C8: the batch calls return \<^verbatim>\<open>InputsLengthsMismatch\<close> without calling the
  library when the slices have different lengths, and otherwise the verdict on all of them: each
  slice is then read to its end and not beyond.\<close>

theorem kzg_batch_correct:
  assumes "kzg_contract L S" "kzg_peerdas_contract L S" "mem_ok m"
    and "len commitments = len blobs \<and> len proofs = len blobs \<Longrightarrow>
      reads (ctx_ptr self)
        (blobs_ins (len blobs) (as_ptr blobs) (as_ptr commitments) (as_ptr proofs) rnd) m = Some d1"
    and "len indices = len commitments \<and> len cells = len commitments \<and> len proofs = len commitments \<Longrightarrow>
      reads (ctx_ptr self)
        (cells_ins (len commitments) (as_ptr commitments) (as_ptr indices) (as_ptr cells) (as_ptr proofs) rnd) m = Some d2"
  shows "returns m (verify_blob_kzg_proof_batch L self blobs commitments proofs rnd m)
      (if len commitments = len blobs \<and> len proofs = len blobs
       then verdict (spec_verify_blobs S (len blobs) d1) else Err cttEthKzg_InputsLengthsMismatch) \<and>
    returns m (verify_cell_kzg_proof_batch L self commitments indices cells proofs rnd m)
      (if len indices = len commitments \<and> len cells = len commitments \<and> len proofs = len commitments
       then verdict (spec_verify_cells S (len commitments) d2) else Err cttEthKzg_InputsLengthsMismatch)"
proof
  show "returns m (verify_blob_kzg_proof_batch L self blobs commitments proofs rnd m)
      (if len commitments = len blobs \<and> len proofs = len blobs
       then verdict (spec_verify_blobs S (len blobs) d1) else Err cttEthKzg_InputsLengthsMismatch)"
    using assms(1,3,4)
    by (cases "len commitments = len blobs \<and> len proofs = len blobs")
      (simp add: verify_blob_kzg_proof_batch_returns, auto simp: verify_blob_kzg_proof_batch_def returns_def)
  show "returns m (verify_cell_kzg_proof_batch L self commitments indices cells proofs rnd m)
      (if len indices = len commitments \<and> len cells = len commitments \<and> len proofs = len commitments
       then verdict (spec_verify_cells S (len commitments) d2) else Err cttEthKzg_InputsLengthsMismatch)"
    using assms(2,3,5)
    by (cases "len indices = len commitments \<and> len cells = len commitments \<and> len proofs = len commitments")
      (simp add: verify_cell_kzg_proof_batch_returns, auto simp: verify_cell_kzg_proof_batch_def returns_def Let_def)
qed

theorem kzg_batch_correct_witness:
  "returns sample_mem
     (verify_blob_kzg_proof_batch (reference_lib sample_spec) sample_ctx \<lparr>as_ptr = Ptr 3 0, len = 1\<rparr>
        \<lparr>as_ptr = Ptr 2 0, len = 1\<rparr> \<lparr>as_ptr = Ptr 2 0, len = 1\<rparr> (Ptr 2 0) sample_mem) (Ok True) \<and>
   returns sample_mem
     (verify_cell_kzg_proof_batch (reference_lib sample_spec) sample_ctx \<lparr>as_ptr = Ptr 2 0, len = 1\<rparr>
        \<lparr>as_ptr = Ptr 2 0, len = 2\<rparr> \<lparr>as_ptr = Ptr 2 0, len = 1\<rparr> \<lparr>as_ptr = Ptr 2 0, len = 1\<rparr> (Ptr 2 0) sample_mem)
     (Err cttEthKzg_InputsLengthsMismatch)"
  using kzg_batch_correct [OF reference_contract [OF sample_sizes] reference_peerdas [OF sample_sizes]
      sample_mem_ok, of "\<lparr>as_ptr = Ptr 2 0, len = 1\<rparr>" "\<lparr>as_ptr = Ptr 3 0, len = 1\<rparr>"
      "\<lparr>as_ptr = Ptr 2 0, len = 1\<rparr>" sample_ctx "Ptr 2 0"
      "((), [replicate 131072 0, replicate 48 1, replicate 48 1, replicate 32 1])"
      "\<lparr>as_ptr = Ptr 2 0, len = 2\<rparr>" "\<lparr>as_ptr = Ptr 2 0, len = 1\<rparr>"]
  by (simp add: sample_ctx_ptr sample_reads blobs_ins_def sample_spec_sel verdict_def)

lemma verify_blob_kzg_proof_batch_parallel_returns:
  assumes "kzg_parallel_contract L S" "mem_ok m" "len commitments = len blobs" "len proofs = len blobs"
    "reads (ctx_ptr self) (blobs_ins (len blobs) (as_ptr blobs) (as_ptr commitments) (as_ptr proofs) rnd) m = Some d"
    "threadpool self = Some tp"
  shows "returns m (verify_blob_kzg_proof_batch_parallel L self blobs commitments proofs rnd m)
    (verdict (spec_verify_blobs_parallel S (get_private_context tp) (len blobs) d))"
proof -
  have "checks (ctt_eth_kzg_verify_blob_kzg_proof_batch_parallel L (get_private_context tp) (ctx_ptr self) (as_ptr blobs)
        (as_ptr commitments) (as_ptr proofs) (len blobs) rnd)
      (reads (ctx_ptr self) (blobs_ins (len blobs) (as_ptr blobs) (as_ptr commitments) (as_ptr proofs) rnd))
      (spec_verify_blobs_parallel S (get_private_context tp) (len blobs))"
    using assms(1) by (simp add: kzg_parallel_contract_def)
  from returns_status_only [OF this assms(2,5)] show ?thesis
    using assms(3,4,6) by (simp add: verify_blob_kzg_proof_batch_parallel_def expect_def)
qed

lemma no_threadpool_panics:
  assumes "threadpool self = None"
  shows "blob_to_kzg_commitment_parallel L self blob m = Panic"
    "compute_kzg_proof_parallel L self blob z m = Panic"
    "compute_blob_kzg_proof_parallel L self blob com m = Panic"
    "verify_blob_kzg_proof_parallel L self blob com proof m = Panic"
    "len commitments = len blobs \<Longrightarrow> len proofs = len blobs \<Longrightarrow>
      verify_blob_kzg_proof_batch_parallel L self blobs commitments proofs rnd m = Panic"
  using assms by (auto simp: blob_to_kzg_commitment_parallel_def compute_kzg_proof_parallel_def
      compute_blob_kzg_proof_parallel_def verify_blob_kzg_proof_parallel_def
      verify_blob_kzg_proof_batch_parallel_def with_uninit_def with_uninit2_def status_only_def
      expect_def split: prod.splits)

lemma batch_parallel_mismatch:
  "\<not> (len commitments = len blobs \<and> len proofs = len blobs) \<Longrightarrow>
   verify_blob_kzg_proof_batch_parallel L self blobs commitments proofs rnd m = Done (Err cttEthKzg_InputsLengthsMismatch, m)"
  by (auto simp: verify_blob_kzg_proof_batch_parallel_def)

text \<open>How a parallel call relates to its sequential counterpart.\<close>

definition same_or_panics ::
  "'t option \<Rightarrow> 'c mem \<Rightarrow> ('r \<times> 'c mem) outcome \<Rightarrow> ('r \<times> 'c mem) outcome \<Rightarrow> bool" where
  "same_or_panics tp m sequential parallel \<longleftrightarrow>
     (case tp of None \<Rightarrow> parallel = Panic | Some _ \<Rightarrow> \<exists>r. returns m sequential r \<and> returns m parallel r)"

lemma same_or_panicsI:
  "(tp = None \<Longrightarrow> q = Panic) \<Longrightarrow> (\<And>t. tp = Some t \<Longrightarrow> returns m p r \<and> returns m q r) \<Longrightarrow> same_or_panics tp m p q"
  by (auto simp: same_or_panics_def split: option.split)



text \<open>C10: computing and recovering cells hands over two boxes that hold the
  result and can be freed once each, which restores the memory; on an error both boxes have been
  freed already, and recovery from slices of different lengths fails without allocating.\<close>

theorem kzg_peerdas_boxes:
  assumes "kzg_peerdas_contract L S" "mem_ok m"
    and "reads (ctx_ptr self) [(blob, 131072)] m = Some d1"
    and "reads (ctx_ptr self) (recover_ins (len cells) (as_ptr indices) (as_ptr cells)) m = Some d2"
  shows "(case spec_cells S d1 of
      Ok xy \<Rightarrow> \<exists>pq m'. compute_cells_and_kzg_proofs L self blob m = Done (Ok pq, m') \<and>
        boxed m 262144 6144 xy pq m'
    | Err e \<Rightarrow> returns m (compute_cells_and_kzg_proofs L self blob m) (Err e)) \<and>
    (if len indices = len cells then
       (case spec_recover S (len cells) d2 of
          Ok xy \<Rightarrow> \<exists>pq m'. recover_cells_and_kzg_proofs L self cells indices m = Done (Ok pq, m') \<and>
            boxed m 262144 6144 xy pq m'
        | Err e \<Rightarrow> returns m (recover_cells_and_kzg_proofs L self cells indices m) (Err e))
     else recover_cells_and_kzg_proofs L self cells indices m = Done (Err cttEthKzg_InputsLengthsMismatch, m))"
proof -
  have c: "fills2 262144 6144 cttEthKzg_Success
      (\<lambda>cs ps. ctt_eth_kzg_compute_cells_and_kzg_proofs L (ctx_ptr self) cs ps blob)
      (reads (ctx_ptr self) [(blob, 131072)]) (spec_cells S)"
    and r: "fills2 262144 6144 cttEthKzg_Success
      (\<lambda>rc rp. ctt_eth_kzg_recover_cells_and_kzg_proofs L (ctx_ptr self) rc rp (as_ptr indices) (as_ptr cells) (len cells))
      (reads (ctx_ptr self) (recover_ins (len cells) (as_ptr indices) (as_ptr cells))) (spec_recover S (len cells))"
    using assms(1) by (simp_all add: kzg_peerdas_contract_def)
  show ?thesis
    using with_boxes2_fills [OF c assms(2,3)] with_boxes2_fills [OF r assms(2,4)]
    by (auto simp: compute_cells_and_kzg_proofs_def recover_cells_and_kzg_proofs_def returns_def
        split: result.splits)
qed

theorem kzg_peerdas_boxes_witness:
  "\<exists>pq m'. compute_cells_and_kzg_proofs (reference_lib sample_spec) sample_ctx (Ptr 3 0) sample_mem = Done (Ok pq, m') \<and>
     boxed sample_mem 262144 6144 (replicate 262144 1, replicate 6144 2) pq m'"
  using kzg_peerdas_boxes [OF reference_peerdas [OF sample_sizes] sample_mem_ok,
      of sample_ctx "Ptr 3 0" "((), [replicate 131072 0])" "\<lparr>as_ptr = Ptr 2 0, len = 1\<rparr>"
        "\<lparr>as_ptr = Ptr 2 0, len = 1\<rparr>" "((), [replicate 8 1, replicate 2048 1])"]
  by (simp add: sample_ctx_ptr sample_reads recover_ins_def sample_spec_sel)

end
