(* ===== verification/Rust_EVM.thy ===== *)
theory Rust_EVM
  imports Rust_KZG
begin

text \<open>
  The crate \<^verbatim>\<open>constantine-ethereum-evm-precompiles\<close> (\<^verbatim>\<open>src/lib.rs\<close>): one wrapper per precompile
  over the functions of \<^verbatim>\<open>constantine/ethereum_evm_precompiles.nim\<close>, which are the fields of
  \<open>evm_lib\<close> here.
\<close>

section \<open>The library functions\<close>

type_synonym 'c precompile = "ptr \<Rightarrow> nat \<Rightarrow> ptr \<Rightarrow> nat \<Rightarrow> 'c mem \<Rightarrow> (ctt_evm_status \<times> 'c mem) outcome"

text \<open>\<^verbatim>\<open>ctt_eth_evm_modexp_result_size\<close> stores a \<^verbatim>\<open>u64\<close>, threaded as a value.\<close>

record 'c evm_lib =
  ctt_eth_evm_ripemd160 :: "'c precompile"
  ctt_eth_evm_sha256 :: "'c precompile"
  ctt_eth_evm_bn254_g1add :: "'c precompile"
  ctt_eth_evm_bn254_g1mul :: "'c precompile"
  ctt_eth_evm_bn254_ecpairingcheck :: "'c precompile"
  ctt_eth_evm_bls12381_g1add :: "'c precompile"
  ctt_eth_evm_bls12381_g1mul :: "'c precompile"
  ctt_eth_evm_bls12381_g1msm :: "'c precompile"
  ctt_eth_evm_bls12381_g2add :: "'c precompile"
  ctt_eth_evm_bls12381_g2mul :: "'c precompile"
  ctt_eth_evm_bls12381_g2msm :: "'c precompile"
  ctt_eth_evm_bls12381_pairingcheck :: "'c precompile"
  ctt_eth_evm_bls12381_map_fp_to_g1 :: "'c precompile"
  ctt_eth_evm_bls12381_map_fp2_to_g2 :: "'c precompile"
  ctt_eth_evm_modexp_result_size ::
    "nat \<Rightarrow> ptr \<Rightarrow> nat \<Rightarrow> 'c mem \<Rightarrow> (ctt_evm_status \<times> nat \<times> 'c mem) outcome"
  ctt_eth_evm_modexp :: "'c precompile"
  ctt_eth_evm_kzg_point_evaluation :: "ptr \<Rightarrow> 'c precompile"

section \<open>Wrappers with a result of fixed size\<close>

definition evm_ripemd160 where
  "evm_ripemd160 L message =
     with_uninit 32 (\<lambda>result. ctt_eth_evm_ripemd160 L result 32 (as_ptr message) (len message)) cttEVM_Success"

definition evm_sha256 where
  "evm_sha256 L message =
     with_uninit 32 (\<lambda>result. ctt_eth_evm_sha256 L result 32 (as_ptr message) (len message)) cttEVM_Success"

definition evm_bn254_g1add where
  "evm_bn254_g1add L inputs =
     with_uninit 64 (\<lambda>result. ctt_eth_evm_bn254_g1add L result 64 (as_ptr inputs) (len inputs)) cttEVM_Success"

definition evm_bn254_g1mul where
  "evm_bn254_g1mul L inputs =
     with_uninit 64 (\<lambda>result. ctt_eth_evm_bn254_g1mul L result 64 (as_ptr inputs) (len inputs)) cttEVM_Success"

definition evm_bn254_ec_pairing_check where
  "evm_bn254_ec_pairing_check L inputs =
     with_uninit 32 (\<lambda>result. ctt_eth_evm_bn254_ecpairingcheck L result 32 (as_ptr inputs) (len inputs)) cttEVM_Success"

definition evm_bls12381_g1add where
  "evm_bls12381_g1add L inputs =
     with_uninit 128 (\<lambda>result. ctt_eth_evm_bls12381_g1add L result 128 (as_ptr inputs) (len inputs)) cttEVM_Success"

definition evm_bls12381_g1mul where
  "evm_bls12381_g1mul L inputs =
     with_uninit 128 (\<lambda>result. ctt_eth_evm_bls12381_g1mul L result 128 (as_ptr inputs) (len inputs)) cttEVM_Success"

definition evm_bls12381_g1msm where
  "evm_bls12381_g1msm L inputs =
     with_uninit 128 (\<lambda>result. ctt_eth_evm_bls12381_g1msm L result 128 (as_ptr inputs) (len inputs)) cttEVM_Success"

definition evm_bls12381_g2add where
  "evm_bls12381_g2add L inputs =
     with_uninit 256 (\<lambda>result. ctt_eth_evm_bls12381_g2add L result 256 (as_ptr inputs) (len inputs)) cttEVM_Success"

definition evm_bls12381_g2mul where
  "evm_bls12381_g2mul L inputs =
     with_uninit 256 (\<lambda>result. ctt_eth_evm_bls12381_g2mul L result 256 (as_ptr inputs) (len inputs)) cttEVM_Success"

definition evm_bls12381_g2msm where
  "evm_bls12381_g2msm L inputs =
     with_uninit 256 (\<lambda>result. ctt_eth_evm_bls12381_g2msm L result 256 (as_ptr inputs) (len inputs)) cttEVM_Success"

definition evm_bls12381_pairing_check where
  "evm_bls12381_pairing_check L inputs =
     with_uninit 32 (\<lambda>result. ctt_eth_evm_bls12381_pairingcheck L result 32 (as_ptr inputs) (len inputs)) cttEVM_Success"

definition evm_bls12381_map_fp_to_g1 where
  "evm_bls12381_map_fp_to_g1 L inputs =
     with_uninit 128 (\<lambda>result. ctt_eth_evm_bls12381_map_fp_to_g1 L result 128 (as_ptr inputs) (len inputs)) cttEVM_Success"

definition evm_bls12381_map_fp2_to_g2 where
  "evm_bls12381_map_fp2_to_g2 L inputs =
     with_uninit 256 (\<lambda>result. ctt_eth_evm_bls12381_map_fp2_to_g2 L result 256 (as_ptr inputs) (len inputs)) cttEVM_Success"

text \<open>The point evaluation precompile also takes the trusted setup.\<close>

definition evm_kzg_point_evaluation where
  "evm_kzg_point_evaluation L ctx message =
     with_uninit 64 (\<lambda>result.
         ctt_eth_evm_kzg_point_evaluation L (ctx_ptr ctx) result 64 (as_ptr message) (len message))
       cttEVM_Success"

section \<open>Modular exponentiation\<close>

text \<open>
  \<^verbatim>\<open>vec![0u8; n]\<close>: a capacity overflow panics, a failed allocation aborts, an empty vector does
  not allocate.
\<close>

definition vec_zeroed :: "target \<Rightarrow> nat \<Rightarrow> 'c mem \<Rightarrow> (ptr \<times> 'c mem) outcome" where
  "vec_zeroed tg n m =
     (if isize_max tg < n then Panic
      else if n = 0 then Done (Dangling, m)
      else if heap_max tg < n then Abort
      else Done (alloc_bytes (replicate n 0) m))"

definition drop_vec :: "ptr \<Rightarrow> nat \<Rightarrow> 'c mem \<Rightarrow> 'c mem outcome" where
  "drop_vec p n m = (if n = 0 then Done m else free p m)"

text \<open>The vector is returned by value: its bytes, its buffer given back.\<close>

definition evm_modexp ::
  "target \<Rightarrow> 'c evm_lib \<Rightarrow> slice \<Rightarrow> 'c mem \<Rightarrow> ((byte list, ctt_evm_status) result \<times> 'c mem) outcome" where
  "evm_modexp tg L inputs m =
     obind (ctt_eth_evm_modexp_result_size L 0 (as_ptr inputs) (len inputs) m) (\<lambda>(status, size, m).
       if status \<noteq> cttEVM_Success then Done (Err status, m)
       else
         let n = as_usize tg size in
         obind (vec_zeroed tg n m) (\<lambda>(result, m).
         obind (ctt_eth_evm_modexp L result n (as_ptr inputs) (len inputs) m) (\<lambda>(status, m).
         obind (if status = cttEVM_Success then obind (load m result n) (\<lambda>bs. Done (Ok bs))
                else Done (Err status)) (\<lambda>r.
         obind (drop_vec result n m) (\<lambda>m. Done (r, m))))))"

lemmas evm_wrapper_defs =
  evm_ripemd160_def
  evm_sha256_def
  evm_bn254_g1add_def
  evm_bn254_g1mul_def
  evm_bn254_ec_pairing_check_def
  evm_bls12381_g1add_def
  evm_bls12381_g1mul_def
  evm_bls12381_g1msm_def
  evm_bls12381_g2add_def
  evm_bls12381_g2mul_def
  evm_bls12381_g2msm_def
  evm_bls12381_pairing_check_def
  evm_bls12381_map_fp_to_g1_def
  evm_bls12381_map_fp2_to_g2_def

section \<open>The contract of the precompiles\<close>

text \<open>For each precompile the result that the Ethereum specification gives on an input.\<close>

record evm_spec =
  spec_ripemd160 :: "byte list \<Rightarrow> (byte list, ctt_evm_status) result"
  spec_sha256 :: "byte list \<Rightarrow> (byte list, ctt_evm_status) result"
  spec_bn254_g1add :: "byte list \<Rightarrow> (byte list, ctt_evm_status) result"
  spec_bn254_g1mul :: "byte list \<Rightarrow> (byte list, ctt_evm_status) result"
  spec_bn254_ec_pairing_check :: "byte list \<Rightarrow> (byte list, ctt_evm_status) result"
  spec_bls12381_g1add :: "byte list \<Rightarrow> (byte list, ctt_evm_status) result"
  spec_bls12381_g1mul :: "byte list \<Rightarrow> (byte list, ctt_evm_status) result"
  spec_bls12381_g1msm :: "byte list \<Rightarrow> (byte list, ctt_evm_status) result"
  spec_bls12381_g2add :: "byte list \<Rightarrow> (byte list, ctt_evm_status) result"
  spec_bls12381_g2mul :: "byte list \<Rightarrow> (byte list, ctt_evm_status) result"
  spec_bls12381_g2msm :: "byte list \<Rightarrow> (byte list, ctt_evm_status) result"
  spec_bls12381_pairing_check :: "byte list \<Rightarrow> (byte list, ctt_evm_status) result"
  spec_bls12381_map_fp_to_g1 :: "byte list \<Rightarrow> (byte list, ctt_evm_status) result"
  spec_bls12381_map_fp2_to_g2 :: "byte list \<Rightarrow> (byte list, ctt_evm_status) result"

abbreviation (input) all_inputs :: "byte list \<Rightarrow> bool" where "all_inputs \<equiv> \<lambda>_. True"

definition evm_contract :: "'c evm_lib \<Rightarrow> evm_spec \<Rightarrow> bool" where
  "evm_contract L S \<longleftrightarrow>
     out_call (ctt_eth_evm_ripemd160 L) (spec_ripemd160 S) 32 cttEVM_Success all_inputs \<and>
     out_call (ctt_eth_evm_sha256 L) (spec_sha256 S) 32 cttEVM_Success all_inputs \<and>
     out_call (ctt_eth_evm_bn254_g1add L) (spec_bn254_g1add S) 64 cttEVM_Success all_inputs \<and>
     out_call (ctt_eth_evm_bn254_g1mul L) (spec_bn254_g1mul S) 64 cttEVM_Success all_inputs \<and>
     out_call (ctt_eth_evm_bn254_ecpairingcheck L) (spec_bn254_ec_pairing_check S) 32 cttEVM_Success all_inputs \<and>
     out_call (ctt_eth_evm_bls12381_g1add L) (spec_bls12381_g1add S) 128 cttEVM_Success all_inputs \<and>
     out_call (ctt_eth_evm_bls12381_g1mul L) (spec_bls12381_g1mul S) 128 cttEVM_Success all_inputs \<and>
     out_call (ctt_eth_evm_bls12381_g1msm L) (spec_bls12381_g1msm S) 128 cttEVM_Success all_inputs \<and>
     out_call (ctt_eth_evm_bls12381_g2add L) (spec_bls12381_g2add S) 256 cttEVM_Success all_inputs \<and>
     out_call (ctt_eth_evm_bls12381_g2mul L) (spec_bls12381_g2mul S) 256 cttEVM_Success all_inputs \<and>
     out_call (ctt_eth_evm_bls12381_g2msm L) (spec_bls12381_g2msm S) 256 cttEVM_Success all_inputs \<and>
     out_call (ctt_eth_evm_bls12381_pairingcheck L) (spec_bls12381_pairing_check S) 32 cttEVM_Success all_inputs \<and>
     out_call (ctt_eth_evm_bls12381_map_fp_to_g1 L) (spec_bls12381_map_fp_to_g1 S) 128 cttEVM_Success all_inputs \<and>
     out_call (ctt_eth_evm_bls12381_map_fp2_to_g2 L) (spec_bls12381_map_fp2_to_g2 S) 256 cttEVM_Success all_inputs"

end
