(* ===== verification/Nim_Limbs.thy ===== *)
theory Nim_Limbs
  imports Prelude
begin

unbundle bit_operations_syntax

text \<open>
  Integers as little-endian arrays of 64-bit words, and their conversion from and to big-endian
  octet strings: \<^verbatim>\<open>constantine/serialization/io_limbs.nim\<close> and \<^verbatim>\<open>endians.nim\<close>.
\<close>

type_synonym limb = "64 word"

fun limbs_val :: "limb list \<Rightarrow> nat" where
  "limbs_val [] = 0"
| "limbs_val (w # ws) = unat w + 2 ^ 64 * limbs_val ws"

section \<open>From octet strings\<close>

text \<open>
  \<^verbatim>\<open>unmarshalBE\<close>: the loop over the bytes, last first. \<open>acc\<close> collects \<open>acc_len\<close> bits and is
  written out when it has 64; a byte that no longer fits ends the loop.
\<close>

fun unmarshalBE_loop :: "byte list \<Rightarrow> limb list \<Rightarrow> nat \<Rightarrow> limb \<Rightarrow> nat \<Rightarrow> bool \<times> limb list" where
  "unmarshalBE_loop [] dst dst_idx acc acc_len =
     (let dst = (if dst_idx < length dst then dst[dst_idx := acc] else dst)
      in (True, take (dst_idx + 1) dst @ replicate (length dst - (dst_idx + 1)) 0))"
| "unmarshalBE_loop (src_byte # src) dst dst_idx acc acc_len =
     (let acc = acc OR push_bit acc_len (ucast src_byte);
          acc_len = acc_len + 8
      in if acc_len \<ge> 64 then
           if dst_idx = length dst then (False, dst)
           else unmarshalBE_loop src (dst[dst_idx := acc]) (dst_idx + 1)
             (drop_bit (8 - (acc_len - 64)) (ucast src_byte)) (acc_len - 64)
         else unmarshalBE_loop src dst dst_idx acc acc_len)"

definition unmarshalBE :: "limb list \<Rightarrow> byte list \<Rightarrow> bool \<times> limb list" where
  "unmarshalBE dst src = unmarshalBE_loop (rev src) dst 0 0 0"

section \<open>To octet strings\<close>

text \<open>
  \<^verbatim>\<open>blobFrom(dst, src, startIdx, bigEndian)\<close> with \<open>n = 8\<close>, and the loop over the tail with
  \<open>startIdx = 0\<close>: the low \<open>n\<close> bytes of a word, last byte first.
\<close>

definition blobFrom :: "byte list \<Rightarrow> limb \<Rightarrow> nat \<Rightarrow> nat \<Rightarrow> byte list" where
  "blobFrom dst src startIdx n =
     foldl (\<lambda>dst i. dst[startIdx + n - 1 - i := ucast (drop_bit (i * 8) src)]) dst [0..<n]"

text \<open>\<^verbatim>\<open>marshalBE\<close>: words are moved through \<open>acc\<close>, so that a word is written one turn after it is
  read.\<close>

function marshalBE_loop :: "limb list \<Rightarrow> nat \<Rightarrow> nat \<Rightarrow> limb \<Rightarrow> nat \<Rightarrow> byte list \<Rightarrow> bool \<times> byte list" where
  "marshalBE_loop src src_idx acc_len acc tail dst =
     (if tail = 0 then (\<not> src_idx < length src, dst)
      else
        let w = (if src_idx < length src then src ! src_idx else 0);
            src_idx = src_idx + 1
        in if acc_len = 0 then marshalBE_loop src src_idx 64 w tail dst
           else if 8 \<le> tail then marshalBE_loop src src_idx acc_len w (tail - 8) (blobFrom dst acc (tail - 8) 8)
           else (\<not> src_idx < length src, blobFrom dst acc 0 tail))"
  by pat_completeness auto
termination
  by (relation "measure (\<lambda>(src, src_idx, acc_len, acc, tail, dst). 2 * tail + (if acc_len = 0 then 1 else 0))") auto

declare marshalBE_loop.simps [simp del]

definition marshalBE :: "byte list \<Rightarrow> limb list \<Rightarrow> bool \<times> byte list" where
  "marshalBE dst src = marshalBE_loop src 0 0 0 (length dst) dst"

section \<open>Reading is the value of the string\<close>

lemma limbs_val_append: "limbs_val (xs @ ys) = limbs_val xs + 2 ^ (64 * length xs) * limbs_val ys"
  by (induction xs) (auto simp: power_add algebra_simps)

lemma limbs_val_zeros [simp]: "limbs_val (replicate n 0) = 0"
  by (induction n) auto

lemma limbs_val_bound: "limbs_val ws < 2 ^ (64 * length ws)"
proof (induction ws)
  case (Cons w ws)
  have "unat w + 2 ^ 64 * limbs_val ws < 2 ^ 64 * (limbs_val ws + 1)"
    using unsigned_less [of w] by simp
  also have "\<dots> \<le> 2 ^ 64 * 2 ^ (64 * length ws)"
    using Cons by (intro mult_left_mono) auto
  finally show ?case by (simp add: power_add)
qed simp

lemma byte_scale: "2 ^ n * unat (b :: byte) + 2 ^ n \<le> 2 ^ (n + 8)"
proof -
  have "2 ^ n * (unat b + 1) \<le> 2 ^ n * (2 :: nat) ^ 8"
    using unat_byte_less [of b] by (intro mult_left_mono) (simp_all add: Suc_le_eq)
  then show ?thesis by (simp add: power_add)
qed

lemma or_byte:
  fixes acc :: limb and b :: byte
  assumes "unat acc < 2 ^ n" "n + 8 \<le> 64"
  shows "unat (acc OR push_bit n (ucast b)) = unat acc + 2 ^ n * unat b"
proof -
  have acc: "take_bit n acc = acc"
    using assms(1) by (simp add: word_unat_eq_iff unsigned_take_bit_eq take_bit_nat_eq_self)
  have "acc AND push_bit n (ucast b) = 0"
  proof (rule bit_word_eqI)
    fix i
    show "bit (acc AND push_bit n (ucast b)) i = bit 0 i"
      by (subst acc [symmetric]) (auto simp: bit_and_iff bit_push_bit_iff bit_take_bit_iff)
  qed
  then have s: "acc OR push_bit n (ucast b) = acc + push_bit n (ucast b)"
    by (simp add: disjunctive_add_eq_or)
  note byte_scale [of n b]
  moreover have "(2 :: nat) ^ (n + 8) \<le> 2 ^ 64" using assms(2) by (intro power_increasing) simp_all
  ultimately have l: "2 ^ n * unat b + 2 ^ n \<le> 2 ^ 64" by (rule order_trans)
  have "unat b < 2 ^ 64" by (rule order.strict_trans [OF unat_byte_less]) simp
  then have u: "unat (ucast b :: limb) = unat b"
    by (simp add: unsigned_ucast_eq take_bit_nat_eq_self)
  have "0 < (2 :: nat) ^ n" by simp
  then have "2 ^ n * unat b < 2 ^ 64" using l by linarith
  then have "unat (push_bit n (ucast b) :: limb) = 2 ^ n * unat b"
    unfolding unsigned_push_bit_eq u by (simp add: push_bit_eq_mult take_bit_nat_eq_self mult.commute)
  then show ?thesis
    using l assms(1) by (simp add: s unat_word_ariths)
qed

lemma drop_byte: "drop_bit 8 (ucast (b :: byte) :: limb) = 0"
  by (rule bit_word_eqI) (auto simp: bit_drop_bit_eq bit_ucast_iff dest: bit_imp_le_length)

lemma or_byte_bound:
  fixes acc :: limb and b :: byte
  assumes "unat acc < 2 ^ n" "n + 8 \<le> 64"
  shows "unat (acc OR push_bit n (ucast b)) < 2 ^ (n + 8)"
  using byte_scale [of n b] assms by (simp add: or_byte)

lemma take_Suc_update: "i < length xs \<Longrightarrow> take (Suc i) (xs[i := x]) = take i xs @ [x]"
  by (simp add: take_Suc_conv_app_nth)

lemma unmarshalBE_loop_val:
  assumes "unat acc < 2 ^ acc_len" "acc_len < 64" "8 dvd acc_len" "i \<le> length dst"
    "64 * i + acc_len + 8 * length src \<le> 64 * length dst"
  shows "\<exists>dst'. unmarshalBE_loop src dst i acc acc_len = (True, dst') \<and> length dst' = length dst \<and>
    limbs_val dst' = limbs_val (take i dst) + 2 ^ (64 * i) * (unat acc + 2 ^ acc_len * be_val (rev src))"
  using assms
proof (induction src arbitrary: dst i acc acc_len)
  case Nil
  show ?case
  proof (cases "i < length dst")
    case True
    then show ?thesis
      by (simp add: Let_def take_Suc_update limbs_val_append)
  next
    case False
    then have "acc_len = 0" "i = length dst" using Nil by auto
    then show ?thesis using Nil by (simp add: Let_def)
  qed
next
  case (Cons b src)
  let ?acc = "acc OR push_bit acc_len (ucast b)"
  have len: "acc_len + 8 \<le> 64" using Cons.prems(2,3) by (auto elim!: dvdE)
  note acc = or_byte [OF Cons.prems(1) len, of b] or_byte_bound [OF Cons.prems(1) len, of b]
  show ?case
  proof (cases "acc_len + 8 < 64")
    case True
    then show ?thesis
      using Cons.IH [OF acc(2) True, of i dst] Cons.prems acc(1)
      by (simp add: be_val_append power_add algebra_simps)
  next
    case False
    then have n: "acc_len = 56" using len by simp
    have i: "i < length dst" using Cons.prems n by simp
    have "\<exists>dst'. unmarshalBE_loop src (dst[i := ?acc]) (Suc i) 0 0 = (True, dst') \<and>
        length dst' = length (dst[i := ?acc]) \<and>
        limbs_val dst' = limbs_val (take (Suc i) (dst[i := ?acc])) +
          2 ^ (64 * Suc i) * (unat (0 :: limb) + 2 ^ 0 * be_val (rev src))"
      by (rule Cons.IH) (use Cons.prems i n in simp_all)
    then show ?thesis
      using i acc(1) n by (simp add: drop_byte take_Suc_update limbs_val_append be_val_append power_add algebra_simps)
  qed
qed

lemma unmarshalBE_val:
  assumes "length src \<le> 8 * length dst"
  shows "fst (unmarshalBE dst src)" "length (snd (unmarshalBE dst src)) = length dst"
    "limbs_val (snd (unmarshalBE dst src)) = be_val src"
proof -
  obtain dst' where "unmarshalBE dst src = (True, dst')" "length dst' = length dst" "limbs_val dst' = be_val src"
    using unmarshalBE_loop_val [of 0 0 0 dst "rev src"] assms by (auto simp: unmarshalBE_def)
  then show "fst (unmarshalBE dst src)" "length (snd (unmarshalBE dst src)) = length dst"
    "limbs_val (snd (unmarshalBE dst src)) = be_val src"
    by simp_all
qed

section \<open>Writing is the string of the value\<close>

lemma ucast_drop_byte: "(ucast (drop_bit (k * 8) w) :: byte) = of_nat (unat (w :: limb) div 256 ^ k)"
proof -
  have "unat w div 256 ^ k = unat (drop_bit (k * 8) w)"
    by (subst unat_drop_bit_eq) (simp add: drop_bit_eq_div mult.commute [of k] power_mult)
  then show ?thesis by simp
qed

lemma blobFrom_steps:
  fixes w :: limb
  shows "k \<le> n \<Longrightarrow> s + n \<le> length dst \<Longrightarrow>
   foldl (\<lambda>dst i. dst[s + n - 1 - i := ucast (drop_bit (i * 8) w)]) dst [0..<k] =
     take (s + n - k) dst @ be_bytes k (unat w) @ drop (s + n) dst"
proof (induction k)
  case (Suc k)
  have "take (s + n - k) dst = take (s + n - Suc k) dst @ [dst ! (s + n - Suc k)]"
    using Suc.prems by (subst take_Suc_conv_app_nth [symmetric]) (simp_all add: Suc_diff_Suc)
  then show ?case
    using Suc by (simp add: list_update_append ucast_drop_byte be_bytes_Suc del: be_bytes.simps(2))
qed simp

lemma blobFrom_eq:
  "s + n \<le> length dst \<Longrightarrow> blobFrom dst w s n = take s dst @ be_bytes n (unat w) @ drop (s + n) dst"
  using blobFrom_steps [of n n s dst w] by (simp add: blobFrom_def)

text \<open>With the word \<open>acc\<close> pending, the string of what is left of the value is still to be written.\<close>

lemma marshalBE_loop_val:
  "acc_len \<noteq> 0 \<Longrightarrow> tail \<le> length dst \<Longrightarrow>
   snd (marshalBE_loop src src_idx acc_len acc tail dst) =
     be_bytes tail (unat acc + 2 ^ 64 * limbs_val (drop src_idx src)) @ drop tail dst"
proof (induction src src_idx acc_len acc tail dst rule: marshalBE_loop.induct)
  case (1 src src_idx acc_len acc tail dst)
  let ?w = "if src_idx < length src then src ! src_idx else 0"
  have next_val: "limbs_val (drop src_idx src) = unat ?w + 2 ^ 64 * limbs_val (drop (Suc src_idx) src)"
    by (cases "src_idx < length src") (simp_all flip: Cons_nth_drop_Suc)
  consider "tail = 0" | "0 < tail" "tail < 8" | "8 \<le> tail" by linarith
  then show ?case
  proof cases
    case 1
    then show ?thesis by (simp add: marshalBE_loop.simps)
  next
    case 2
    have "(256 :: nat) ^ tail dvd 2 ^ 64"
      using 2 le_imp_power_dvd [of "8 * tail" 64 "2 :: nat"] by (simp add: power_mult)
    then obtain q where q: "(2 :: nat) ^ 64 = 256 ^ tail * q" ..
    have "be_bytes tail (unat acc + 2 ^ 64 * limbs_val (drop src_idx src)) = be_bytes tail (unat acc)"
      using be_bytes_mod [of tail "unat acc + 2 ^ 64 * limbs_val (drop src_idx src)"] be_bytes_mod [of tail "unat acc"]
      unfolding q by (simp add: mult.assoc)
    then show ?thesis
      using 2 "1.prems" by (simp add: marshalBE_loop.simps Let_def blobFrom_eq)
  next
    case 3
    let ?v = "unat acc + 2 ^ 64 * limbs_val (drop src_idx src)"
    have "be_bytes tail ?v = be_bytes (tail - 8) (?v div 256 ^ 8) @ be_bytes 8 ?v"
      using be_bytes_append [of "tail - 8" 8 ?v] 3 by simp
    moreover have "?v div 256 ^ 8 = limbs_val (drop src_idx src)"
      using unsigned_less [of acc, where ?'a = nat] by simp
    moreover have "be_bytes 8 ?v = be_bytes 8 (unat acc)"
      using be_bytes_mod [of 8 ?v] be_bytes_mod [of 8 "unat acc"] by simp
    ultimately show ?thesis
      using 3 "1.IH" (2) "1.prems"
      by (subst marshalBE_loop.simps) (simp add: Let_def blobFrom_eq next_val)
  qed
qed

lemma marshalBE_val: "snd (marshalBE dst src) = be_bytes (length dst) (limbs_val src)"
proof (cases "length dst = 0")
  case True
  then show ?thesis by (simp add: marshalBE_def marshalBE_loop.simps)
next
  case False
  have "limbs_val src = unat (if 0 < length src then src ! 0 else 0) + 2 ^ 64 * limbs_val (drop 1 src)"
    by (cases src) simp_all
  then show ?thesis
    using False marshalBE_loop_val [of 64 "length dst" dst src 1 "if 0 < length src then src ! 0 else 0"]
    by (simp add: marshalBE_def marshalBE_loop.simps [of src 0 0] Let_def)
qed

text \<open>C22: an octet string that fits is read into words of the same value, whatever the words
  held before, and writing words back gives the octet string of their value, so that reading and
  writing a string of at most the size of the words gives the string back.\<close>

theorem limbs_roundtrip:
  assumes "length src \<le> 8 * length dst" "length out = length src"
  shows "fst (unmarshalBE dst src) \<and> limbs_val (snd (unmarshalBE dst src)) = be_val src \<and>
    snd (marshalBE out (snd (unmarshalBE dst src))) = src"
  using assms by (simp add: unmarshalBE_val marshalBE_val be_bytes_be_val)

theorem limbs_roundtrip_witness:
  "snd (marshalBE [0, 0, 0] (snd (unmarshalBE [9] [1, 2, 3]))) = [1, 2, 3]"
  using limbs_roundtrip [of "[1, 2, 3]" "[9]" "[0, 0, 0]"] by simp

end
