(* ===== verification/Nim_Words.thy ===== *)
theory Nim_Words
  imports Nim_Limbs
begin

text \<open>
  Word-level primitives of \<^verbatim>\<open>constantine/platforms/intrinsics/\<close> and the multi-precision arithmetic of
  \<^verbatim>\<open>constantine/math_arbitrary_precision/arithmetic/\<close> that is linear in the number of words:
  \<^verbatim>\<open>limbs_views.nim\<close>, \<^verbatim>\<open>limbs_multiprec.nim\<close>, \<^verbatim>\<open>limbs_fixedprec.nim\<close>. A buffer that a procedure
  overwrites is its number of words, and a store or a load outside an array is \<open>UB\<close>.
\<close>

named_theorems limbs_simps "value and length of multi-precision results"

lemma unat_limb_less [simp]: "unat (w :: limb) < 2 ^ 64"
  using unsigned_less [of w, where ?'a = nat] by simp

lemma unat_limb_small: "unat (w :: limb) div 2 ^ 64 = 0" "unat (w :: limb) mod 2 ^ 64 = unat w"
  using unat_limb_less [of w] by (simp_all add: div_less mod_less)

section \<open>Words\<close>

text \<open>\<^verbatim>\<open>addC\<close> and \<^verbatim>\<open>subB\<close>: the carry (or borrow) and the word; \<^verbatim>\<open>mul\<close>, \<^verbatim>\<open>muladd1\<close>, \<^verbatim>\<open>muladd2\<close>: the
  high and the low word of a 128-bit result.\<close>

definition addC :: "limb \<Rightarrow> limb \<Rightarrow> nat \<Rightarrow> nat \<times> limb" where
  "addC a b cIn = (let dblPrec = unat a + unat b + cIn in (dblPrec div 2 ^ 64, of_nat dblPrec))"

definition subB :: "limb \<Rightarrow> limb \<Rightarrow> nat \<Rightarrow> nat \<times> limb" where
  "subB a b bIn = ((if unat a < unat b + bIn then 1 else 0), a - b - of_nat bIn)"

definition mul :: "limb \<Rightarrow> limb \<Rightarrow> limb \<times> limb" where
  "mul a b = (let dblPrec = unat a * unat b in (of_nat (dblPrec div 2 ^ 64), of_nat dblPrec))"

definition muladd1 :: "limb \<Rightarrow> limb \<Rightarrow> limb \<Rightarrow> limb \<times> limb" where
  "muladd1 a b c = (let dblPrec = unat a * unat b + unat c in (of_nat (dblPrec div 2 ^ 64), of_nat dblPrec))"

definition muladd2 :: "limb \<Rightarrow> limb \<Rightarrow> limb \<Rightarrow> limb \<Rightarrow> limb \<times> limb" where
  "muladd2 a b c1 c2 =
     (let dblPrec = unat a * unat b + unat c1 + unat c2 in (of_nat (dblPrec div 2 ^ 64), of_nat dblPrec))"

definition wordsRequired64 :: "nat \<Rightarrow> nat" where
  "wordsRequired64 bits = drop_bit 6 (bits + 64 - 1)"

section \<open>Numbers of bits\<close>

fun nbits :: "nat \<Rightarrow> nat" where
  "nbits n = (if n = 0 then 0 else Suc (nbits (n div 2)))"

declare nbits.simps [simp del]

text \<open>\<^verbatim>\<open>getBits_LE_vartime\<close> and \<^verbatim>\<open>getBits_BE_vartime\<close> (\<^verbatim>\<open>limbs_views.nim\<close>): one more than the
  position of the highest bit of the first word, or byte, that is not zero.\<close>

fun getBits_LE_loop :: "limb list \<Rightarrow> nat \<Rightarrow> nat" where
  "getBits_LE_loop a 0 = 0"
| "getBits_LE_loop a (Suc i) = (if a ! i \<noteq> 0 then nbits (unat (a ! i)) + 64 * i else getBits_LE_loop a i)"

definition getBits_LE_vartime :: "limb list \<Rightarrow> nat" where
  "getBits_LE_vartime a = getBits_LE_loop a (length a)"

fun getBits_BE_vartime :: "byte list \<Rightarrow> nat" where
  "getBits_BE_vartime [] = 0"
| "getBits_BE_vartime (b # a) = (if b \<noteq> 0 then nbits (unat b) + 8 * length a else getBits_BE_vartime a)"

section \<open>What the bit counts mean\<close>

lemma nbits_bounds: "n < 2 ^ nbits n" "n \<noteq> 0 \<Longrightarrow> 2 ^ (nbits n - 1) \<le> n" "n \<noteq> 0 \<Longrightarrow> 0 < nbits n"
proof -
  have "n < 2 ^ nbits n \<and> (n \<noteq> 0 \<longrightarrow> 0 < nbits n \<and> 2 ^ (nbits n - 1) \<le> n)"
  proof (induction n rule: less_induct)
    case (less n)
    show ?case
    proof (cases "n = 0")
      case False
      then have h: "nbits n = Suc (nbits (n div 2))" by (simp add: nbits.simps [of n])
      have IH: "n div 2 < 2 ^ nbits (n div 2)"
          "n div 2 \<noteq> 0 \<longrightarrow> 0 < nbits (n div 2) \<and> 2 ^ (nbits (n div 2) - 1) \<le> n div 2"
        using less [of "n div 2"] False by simp_all
      have "2 ^ nbits (n div 2) \<le> n"
      proof (cases "n div 2 = 0")
        case True
        then show ?thesis using False by (simp add: nbits.simps [of 0])
      next
        case False
        then have "nbits (n div 2) = Suc (nbits (n div 2) - 1)" using IH(2) by simp
        then have "2 ^ nbits (n div 2) = 2 * (2 :: nat) ^ (nbits (n div 2) - 1)"
          by (metis power_Suc)
        also have "\<dots> \<le> 2 * (n div 2)" using IH(2) False by simp
        also have "\<dots> \<le> n" by simp
        finally show ?thesis .
      qed
      then show ?thesis using h IH(1) False by simp
    qed (simp add: nbits.simps)
  qed
  then show "n < 2 ^ nbits n" "n \<noteq> 0 \<Longrightarrow> 2 ^ (nbits n - 1) \<le> n" "n \<noteq> 0 \<Longrightarrow> 0 < nbits n"
    by simp_all
qed

text \<open>\<open>has_nbits n k\<close>: \<open>n\<close> has exactly \<open>k\<close> bits.\<close>

definition has_nbits :: "nat \<Rightarrow> nat \<Rightarrow> bool" where
  "has_nbits n k \<longleftrightarrow> n < 2 ^ k \<and> (n = 0 \<longleftrightarrow> k = 0) \<and> (n \<noteq> 0 \<longrightarrow> 2 ^ (k - 1) \<le> n)"

lemma has_nbits_top:
  assumes "w \<noteq> 0" "v < 2 ^ s"
  shows "has_nbits (v + 2 ^ s * w) (nbits w + s)"
proof -
  have "w + 1 \<le> 2 ^ nbits w" using nbits_bounds(1) [of w] by simp
  then have "2 ^ s * (w + 1) \<le> 2 ^ s * 2 ^ nbits w" by (intro mult_left_mono) simp_all
  then have "v + 2 ^ s * w < 2 ^ (nbits w + s)"
    using assms(2) by (simp add: power_add algebra_simps)
  moreover have "2 ^ (nbits w + s - 1) = 2 ^ s * (2 :: nat) ^ (nbits w - 1)"
    using nbits_bounds(3) [OF assms(1)] by (simp flip: power_add)
  moreover have "2 ^ s * 2 ^ (nbits w - 1) \<le> 2 ^ s * w"
    using nbits_bounds(2) [OF assms(1)] by (intro mult_left_mono) simp_all
  ultimately have "v + 2 ^ s * w < 2 ^ (nbits w + s)" "2 ^ (nbits w + s - 1) \<le> v + 2 ^ s * w"
    by linarith+
  then show ?thesis
    using assms(1) nbits_bounds(3) [OF assms(1)] by (simp add: has_nbits_def)
qed

lemma nbits_unique: "has_nbits n k \<Longrightarrow> k = nbits n"
proof -
  assume h: "has_nbits n k"
  show "k = nbits n"
  proof (cases "n = 0")
    case True
    then show ?thesis using h by (simp add: has_nbits_def nbits.simps)
  next
    case False
    have "2 ^ (k - 1) \<le> n" "n < 2 ^ k" using h False by (simp_all add: has_nbits_def)
    then have "(2 :: nat) ^ (k - 1) < 2 ^ nbits n" "(2 :: nat) ^ (nbits n - 1) < 2 ^ k"
      using nbits_bounds(1,2) [of n] False by (blast intro: order.strict_trans1)+
    then have "k - 1 < nbits n" "nbits n - 1 < k" by simp_all
    then show ?thesis using h False nbits_bounds(3) [of n] by (simp add: has_nbits_def)
  qed
qed

lemma getBits_LE_loop: "i \<le> length a \<Longrightarrow> has_nbits (limbs_val (take i a)) (getBits_LE_loop a i)"
proof (induction i)
  case (Suc i)
  have v: "limbs_val (take (Suc i) a) = limbs_val (take i a) + 2 ^ (64 * i) * unat (a ! i)"
    using Suc.prems by (simp add: take_Suc_conv_app_nth limbs_val_append)
  show ?case
  proof (cases "a ! i = 0")
    case False
    have "limbs_val (take i a) < 2 ^ (64 * i)"
      using limbs_val_bound [of "take i a"] Suc.prems by simp
    then show ?thesis
      using False has_nbits_top [of "unat (a ! i)" "limbs_val (take i a)" "64 * i"]
      by (simp add: v unat_eq_zero)
  qed (use Suc v in simp)
qed (simp add: has_nbits_def)

lemma getBits_LE: "has_nbits (limbs_val a) (getBits_LE_vartime a)"
  using getBits_LE_loop [of "length a" a] by (simp add: getBits_LE_vartime_def)

lemma getBits_BE: "has_nbits (be_val a) (getBits_BE_vartime a)"
proof (induction a)
  case (Cons b a)
  show ?case
  proof (cases "b = 0")
    case False
    have p: "(256 :: nat) ^ length a = 2 ^ (8 * length a)" by (simp add: power_mult)
    show ?thesis
      using False be_val_bound [of a] has_nbits_top [of "unat b" "be_val a" "8 * length a"]
      by (simp add: p unat_eq_zero add.commute mult.commute)
  qed (use Cons in simp)
qed (simp add: has_nbits_def)

section \<open>Addition and subtraction\<close>

text \<open>The carry chain over \<open>a\<close> and \<open>b\<close>, and over the rest of \<open>a\<close> with the word 0.\<close>

fun add_limbs :: "nat \<Rightarrow> limb list \<Rightarrow> limb list \<Rightarrow> nat \<times> limb list" where
  "add_limbs carry [] b = (carry, [])"
| "add_limbs carry (x # a) [] =
     (let (carry, s) = addC x 0 carry; (carry, r) = add_limbs carry a [] in (carry, s # r))"
| "add_limbs carry (x # a) (y # b) =
     (let (carry, s) = addC x y carry; (carry, r) = add_limbs carry a b in (carry, s # r))"

fun sub_limbs :: "nat \<Rightarrow> limb list \<Rightarrow> limb list \<Rightarrow> nat \<times> limb list" where
  "sub_limbs borrow [] b = (borrow, [])"
| "sub_limbs borrow (x # a) [] =
     (let (borrow, d) = subB x 0 borrow; (borrow, r) = sub_limbs borrow a [] in (borrow, d # r))"
| "sub_limbs borrow (x # a) (y # b) =
     (let (borrow, d) = subB x y borrow; (borrow, r) = sub_limbs borrow a b in (borrow, d # r))"

definition addMP :: "nat \<Rightarrow> limb list \<Rightarrow> limb list \<Rightarrow> (limb list \<times> bool) outcome" where
  "addMP r_len a b =
     (let (a, b) = (if length a < length b then (b, a) else (a, b));
          (carry, r) = add_limbs 0 a b
      in if r_len < length a then UB
         else if length a < r_len then Done (r @ of_nat carry # replicate (r_len - (length a + 1)) 0, False)
         else Done (r, carry \<noteq> 0))"

definition subMP :: "nat \<Rightarrow> limb list \<Rightarrow> limb list \<Rightarrow> (limb list \<times> bool) outcome" where
  "subMP r_len a b =
     (let (borrow, r) = sub_limbs 0 a b
      in if length a < length b \<or> r_len < length a then UB
         else Done (r @ replicate (r_len - length a) (0 - of_nat borrow), borrow \<noteq> 0))"

text \<open>\<^verbatim>\<open>neg\<close>: the complement plus 1.\<close>

definition neg :: "limb list \<Rightarrow> limb list" where
  "neg a = snd (add_limbs 0 (map NOT a) [1])"

text \<open>\<^verbatim>\<open>lt\<close> and \<^verbatim>\<open>csub\<close> of \<^verbatim>\<open>limbs_fixedprec.nim\<close>.\<close>

definition lt :: "limb list \<Rightarrow> limb list \<Rightarrow> bool" where
  "lt a b \<longleftrightarrow> fst (sub_limbs 0 a b) \<noteq> 0"

definition csub :: "limb list \<Rightarrow> limb list \<Rightarrow> bool \<Rightarrow> limb list" where
  "csub a b ctl = (if ctl then snd (sub_limbs 0 a b) else a)"

section \<open>Shifts\<close>

text \<open>Each word with the low bits of the next one, for \<open>0 < k < 64\<close>.\<close>

fun shr_words :: "nat \<Rightarrow> limb list \<Rightarrow> limb list" where
  "shr_words k [] = []"
| "shr_words k [x] = [drop_bit k x]"
| "shr_words k (x # y # a) = (drop_bit k x OR push_bit (64 - k) y) # shr_words k (y # a)"

definition shrSmall :: "nat \<Rightarrow> limb list \<Rightarrow> nat \<Rightarrow> limb list outcome" where
  "shrSmall r_len a k =
     (if a = [] \<or> r_len < length a - 1 then UB
      else Done (take r_len (shr_words k a) @ replicate (r_len - length a) 0))"

definition shrLarge :: "nat \<Rightarrow> limb list \<Rightarrow> nat \<Rightarrow> nat \<Rightarrow> limb list outcome" where
  "shrLarge r_len a w shift =
     (if length a \<le> w then Done (replicate r_len 0)
      else if r_len < length a - 1 - w then UB
      else Done (take r_len (shr_words shift (drop w a)) @ replicate (r_len - (length a - w)) 0))"

definition shrWords :: "nat \<Rightarrow> limb list \<Rightarrow> nat \<Rightarrow> limb list outcome" where
  "shrWords r_len a w =
     (if length a \<le> w then Done (replicate r_len 0)
      else if r_len < length a - w then UB
      else Done (drop w a @ replicate (r_len - (length a - w)) 0))"

definition shiftRight_vartime :: "nat \<Rightarrow> limb list \<Rightarrow> nat \<Rightarrow> limb list outcome" where
  "shiftRight_vartime r_len a k =
     (if k = 0 then Done (take r_len a @ replicate (r_len - length a) 0)
      else if k < 64 then shrSmall r_len a k
      else if k mod 64 = 0 then shrWords r_len a (k div 64)
      else shrLarge r_len a (k div 64) (k mod 64))"

text \<open>Left shifts: the words of \<open>r\<close> that are not stored keep what they hold.\<close>

fun shl_words :: "nat \<Rightarrow> limb \<Rightarrow> limb list \<Rightarrow> limb list" where
  "shl_words k lo [] = []"
| "shl_words k lo (x # a) = (push_bit k x OR drop_bit (64 - k) lo) # shl_words k x a"

definition shlSmall :: "limb list \<Rightarrow> limb list \<Rightarrow> nat \<Rightarrow> limb list outcome" where
  "shlSmall r a k =
     (if a = [] \<or> length r < length a then UB
      else Done (shl_words k 0 a @ replicate (length r - length a) 0))"

definition shlLarge :: "limb list \<Rightarrow> limb list \<Rightarrow> nat \<Rightarrow> nat \<Rightarrow> limb list outcome" where
  "shlLarge r a w shift =
     (if length a \<le> w then Done r
      else if length r \<le> w \<or> length a < length r - w then UB
      else let r = take w r @ take (length r - w) (shl_words shift 0 a)
           in Done (take (length a - w) r @ replicate (length r - (length a - w)) 0))"

definition shlWords :: "limb list \<Rightarrow> limb list \<Rightarrow> nat \<Rightarrow> limb list outcome" where
  "shlWords r a w =
     (if length r \<le> w then Done (replicate (length r) 0)
      else if length r < length a + w then UB
      else Done (replicate w 0 @ a @ replicate (length r - (length a + w)) 0))"

definition shiftLeft_vartime :: "limb list \<Rightarrow> limb list \<Rightarrow> nat \<Rightarrow> limb list outcome" where
  "shiftLeft_vartime r a k =
     (if k = 0 then Done (take (length r) a @ replicate (length r - length a) 0)
      else if k < 64 then shlSmall r a k
      else if k mod 64 = 0 then shlWords r a (k div 64)
      else shlLarge r a (k div 64) (k mod 64))"

section \<open>Trailing zeros\<close>

text \<open>\<^verbatim>\<open>countTrailingZeroBits_vartime\<close>, undefined on 0, and its use on the first word that is not 0,
  or the last one (\<^verbatim>\<open>powMod_vartime\<close>, \<^verbatim>\<open>powMod2k_vartime\<close>).\<close>

fun ctz :: "nat \<Rightarrow> nat" where
  "ctz n = (if n = 0 \<or> odd n then 0 else Suc (ctz (n div 2)))"

declare ctz.simps [simp del]

fun trailing_zeros :: "limb list \<Rightarrow> nat" where
  "trailing_zeros [] = 0"
| "trailing_zeros (w # a) = (if w \<noteq> 0 \<or> a = [] then ctz (unat w) else 64 + trailing_zeros a)"

section \<open>Values\<close>

lemma dblPrec_val:
  assumes "n < 2 ^ 64 * 2 ^ 64" "(hi, lo) = (of_nat (n div 2 ^ 64), of_nat n)"
  shows "unat (lo :: limb) + 2 ^ 64 * unat (hi :: limb) = n"
proof -
  have "n div 2 ^ 64 < 2 ^ 64" using assms(1) by (rule less_mult_imp_div_less)
  then have "unat hi = n div 2 ^ 64" using assms(2) by (simp add: unat_of_nat)
  moreover have "unat lo = n mod 2 ^ 64"
  proof -
    have "lo = of_nat n" using assms(2) by simp
    then show ?thesis by (simp only: unat_of_nat) simp
  qed
  ultimately show ?thesis by (simp only: mod_mult_div_eq)
qed

lemma addC_val:
  assumes "c \<le> 1" "addC a b c = (c', s)"
  shows "unat s + 2 ^ 64 * c' = unat a + unat b + c" "c' \<le> 1"
proof -
  define n where "n = unat a + unat b + c"
  have c': "c' = n div 2 ^ 64" and s: "s = of_nat n"
    using assms(2) unfolding addC_def Let_def n_def [symmetric] by (simp_all only: prod.inject)
  have "n < 2 * 2 ^ 64"
    using unat_limb_less [of a] unat_limb_less [of b] assms(1) unfolding n_def by linarith
  then have "c' < 2" unfolding c' by (rule less_mult_imp_div_less)
  then show l: "c' \<le> 1" by simp
  have "unat s = n mod 2 ^ 64" unfolding s unat_of_nat by simp
  then have "unat s + 2 ^ 64 * c' = n" unfolding c' by (simp only: mod_mult_div_eq)
  then show "unat s + 2 ^ 64 * c' = unat a + unat b + c" by (simp only: n_def)
qed

lemma subB_val:
  assumes "c \<le> 1" "subB a b c = (c', d)"
  shows "int (unat d) = int (unat a) - int (unat b) - int c + 2 ^ 64 * int c'" "c' \<le> 1"
proof -
  define v where "v = int (unat a) - int (unat b) - int c"
  have "d = word_of_int v" using assms(2) by (simp add: subB_def v_def)
  then have d: "int (unat d) = v mod 2 ^ 64" by (simp only: of_nat_unat uint_word_of_int) simp
  have b: "int (unat a) < 2 ^ 64" "int (unat b) < 2 ^ 64" "int c \<le> 1" "0 \<le> int (unat a)" "0 \<le> int (unat b)"
    using unat_limb_less [of a] unat_limb_less [of b] assms(1) by (simp_all del: unat_limb_less of_nat_unat)
  have c': "c' = (if unat a < unat b + c then 1 else 0)" using assms(2) by (simp add: subB_def)
  then show "c' \<le> 1" by simp
  have "v + 2 ^ 64 * int c' = v mod 2 ^ 64"
  proof (cases "unat a < unat b + c")
    case True
    then have "v < 0" by (simp add: v_def del: of_nat_unat)
    then have "(v + 2 ^ 64) mod 2 ^ 64 = v + 2 ^ 64"
      using b by (intro mod_pos_pos_trivial) (simp_all add: v_def del: of_nat_unat)
    then show ?thesis using c' True by simp
  next
    case False
    then have "0 \<le> v" by (simp add: v_def del: of_nat_unat)
    then have "v mod 2 ^ 64 = v"
      using b by (intro mod_pos_pos_trivial) (simp_all add: v_def del: of_nat_unat)
    then show ?thesis using c' False by simp
  qed
  then show "int (unat d) = int (unat a) - int (unat b) - int c + 2 ^ 64 * int c'"
    by (simp only: d v_def)
qed

lemma double_bound: "c1 < 2 ^ 64 \<Longrightarrow> c2 < 2 ^ 64 \<Longrightarrow> unat (a :: limb) * unat (b :: limb) + c1 + c2 < 2 ^ 64 * 2 ^ 64"
proof -
  assume c: "c1 < 2 ^ 64" "c2 < (2 :: nat) ^ 64"
  have "unat a \<le> 2 ^ 64 - 1" "unat b \<le> 2 ^ 64 - 1"
    using unat_limb_less [of a] unat_limb_less [of b] by linarith+
  then have "unat a * unat b \<le> (2 ^ 64 - 1) * (2 ^ 64 - 1)" by (rule mult_le_mono)
  then show ?thesis using c by simp
qed

lemma muladd2_val: "muladd2 a b c1 c2 = (hi, lo) \<Longrightarrow> unat lo + 2 ^ 64 * unat hi = unat a * unat b + unat c1 + unat c2"
  unfolding muladd2_def Let_def
  by (rule dblPrec_val [OF double_bound]) (simp_all only: unat_limb_less)

lemma muladd1_val: "muladd1 a b c = (hi, lo) \<Longrightarrow> unat lo + 2 ^ 64 * unat hi = unat a * unat b + unat c"
  using muladd2_val [of a b c 0 hi lo] by (simp only: muladd1_def muladd2_def unsigned_0 add_0_right)

lemma mul_val: "mul a b = (hi, lo) \<Longrightarrow> unat lo + 2 ^ 64 * unat hi = unat a * unat b"
  using muladd1_val [of a b 0 hi lo] by (simp only: mul_def muladd1_def unsigned_0 add_0_right)

lemma wordsRequired64_eq: "wordsRequired64 n = (n + 63) div 64"
  by (simp add: wordsRequired64_def drop_bit_eq_div)

lemma wordsRequired64_le: "wordsRequired64 n \<le> k \<longleftrightarrow> n \<le> 64 * k"
  using div_less_iff_less_mult [of 64 "n + 63" "Suc k"] by (simp add: wordsRequired64_eq less_Suc_eq_le) linarith

lemma add_limbs_val:
  assumes "length b \<le> length a" "c \<le> 1" "add_limbs c a b = (c', r)"
  shows "length r = length a \<and> c' \<le> 1 \<and> limbs_val r + 2 ^ (64 * length a) * c' = limbs_val a + limbs_val b + c"
  using assms
proof (induction a arbitrary: b c c' r)
  case (Cons x a)
  define y where "y = (if b = [] then 0 else hd b)"
  have b: "limbs_val b = unat y + 2 ^ 64 * limbs_val (tl b)" "length (tl b) \<le> length a"
    using Cons.prems(1) by (cases b; simp add: y_def)+
  obtain c1 s where a: "addC x y c = (c1, s)" by fastforce
  obtain c2 t where r: "add_limbs c1 a (tl b) = (c2, t)" by fastforce
  have c'r: "c' = c2" "r = s # t" using Cons.prems(3) a r by (cases b; simp add: y_def)+
  note v = addC_val [OF Cons.prems(2) a]
  note IH = Cons.IH [OF b(2) v(2) r]
  have "limbs_val (s # t) + 2 ^ (64 * length (x # a)) * c2 = unat s + 2 ^ 64 * (limbs_val t + 2 ^ (64 * length a) * c2)"
    by (simp add: power_add distrib_left)
  also have "\<dots> = unat s + 2 ^ 64 * (limbs_val a + limbs_val (tl b) + c1)" using IH by (simp only:)
  also have "\<dots> = limbs_val (x # a) + limbs_val b + c" using v(1) by (simp add: b(1))
  finally show ?case using IH c'r by simp
qed simp

lemma sub_limbs_val:
  assumes "length b \<le> length a" "c \<le> 1" "sub_limbs c a b = (c', r)"
  shows "length r = length a \<and> c' \<le> 1 \<and>
    int (limbs_val r) = int (limbs_val a) - int (limbs_val b) - int c + 2 ^ (64 * length a) * int c'"
  using assms
proof (induction a arbitrary: b c c' r)
  case (Cons x a)
  define y where "y = (if b = [] then 0 else hd b)"
  have b: "limbs_val b = unat y + 2 ^ 64 * limbs_val (tl b)" "length (tl b) \<le> length a"
    using Cons.prems(1) by (cases b; simp add: y_def)+
  obtain c1 s where a: "subB x y c = (c1, s)" by fastforce
  obtain c2 t where r: "sub_limbs c1 a (tl b) = (c2, t)" by fastforce
  have c'r: "c' = c2" "r = s # t" using Cons.prems(3) a r by (cases b; simp add: y_def)+
  note v = subB_val [OF Cons.prems(2) a]
  note IH = Cons.IH [OF b(2) v(2) r]
  have "int (limbs_val (s # t)) = int (unat s) + 2 ^ 64 * int (limbs_val t)" by (simp del: of_nat_unat)
  also have "\<dots> = int (unat s) + 2 ^ 64 * (int (limbs_val a) - int (limbs_val (tl b)) - int c1 + 2 ^ (64 * length a) * int c2)"
    using IH by (simp only:)
  also have "\<dots> = int (unat s) + 2 ^ 64 * (int (limbs_val a) - int (limbs_val (tl b)) - int c1) + 2 ^ (64 * length (x # a)) * int c2"
    by (simp add: power_add distrib_left del: of_nat_unat)
  also have "\<dots> = int (limbs_val (x # a)) - int (limbs_val b) - int c + 2 ^ (64 * length (x # a)) * int c2"
    using v(1) by (simp add: b(1) del: of_nat_unat)
  finally show ?case using IH c'r by simp
qed simp

lemma limbs_val_less: "length ws = n \<Longrightarrow> limbs_val ws < 2 ^ (64 * n)"
  using limbs_val_bound [of ws] by simp

lemma int_less_pow: "x < 2 ^ k \<Longrightarrow> int x < 2 ^ k"
proof -
  assume "x < 2 ^ k"
  then have "int x < int (2 ^ k)" by (simp only: of_nat_less_iff)
  then show ?thesis by simp
qed

lemma limbs_val_less_int: "length ws = n \<Longrightarrow> int (limbs_val ws) < 2 ^ (64 * n)"
  by (intro int_less_pow limbs_val_less)

lemma addMP_val:
  assumes "length b \<le> length a" "length a \<le> n" "limbs_val a + limbs_val b < 2 ^ (64 * n)"
  shows "\<exists>r c. addMP n a b = Done (r, c) \<and> length r = n \<and> limbs_val r = limbs_val a + limbs_val b"
proof -
  obtain c r where r: "add_limbs 0 a b = (c, r)" by fastforce
  have v: "length r = length a" "c \<le> 1" "limbs_val r + 2 ^ (64 * length a) * c = limbs_val a + limbs_val b"
    using add_limbs_val [OF assms(1) _ r] by simp_all
  show ?thesis
  proof (cases "length a < n")
    case True
    then have "limbs_val (r @ of_nat c # replicate (n - (length a + 1)) 0) = limbs_val a + limbs_val b"
      using v by (simp add: limbs_val_append unat_of_nat)
    then show ?thesis using True assms(1) r v(1) by (auto simp: addMP_def)
  next
    case False
    then have "length a = n" using assms(2) by simp
    moreover have "c = 0" using v(3) assms(3) \<open>length a = n\<close> by (cases c) auto
    ultimately show ?thesis using assms(1) r v by (auto simp: addMP_def)
  qed
qed

lemma int_mod_pow: "0 \<le> (x :: int) \<Longrightarrow> x < m \<Longrightarrow> x = y + m * k \<Longrightarrow> x = y mod m"
  by (metis mod_mult_self2 mod_pos_pos_trivial)

lemma sub_limbs_borrow:
  assumes "length b \<le> length a" "sub_limbs 0 a b = (c, r)"
  shows "c \<noteq> 0 \<longleftrightarrow> limbs_val a < limbs_val b"
proof -
  have v: "length r = length a" "c \<le> 1"
    "int (limbs_val r) = int (limbs_val a) - int (limbs_val b) + 2 ^ (64 * length a) * int c"
    using sub_limbs_val [OF assms(1) _ assms(2)] by simp_all
  have rb: "int (limbs_val r) < 2 ^ (64 * length a)" using v(1) by (rule limbs_val_less_int)
  consider "c = 0" | "c = 1" using v(2) by linarith
  then show ?thesis
  proof cases
    case 1
    then show ?thesis using v(3) by (simp del: of_nat_unat)
  next
    case 2
    then have "int (limbs_val a) < int (limbs_val b)" using v(3) rb by simp
    then show ?thesis using 2 by simp
  qed
qed

lemma subMP_val:
  assumes "length b \<le> length a" "length a \<le> n"
  shows "\<exists>r. subMP n a b = Done (r, limbs_val a < limbs_val b) \<and> length r = n \<and>
    int (limbs_val r) = (int (limbs_val a) - int (limbs_val b)) mod 2 ^ (64 * n)"
proof -
  obtain c r where r: "sub_limbs 0 a b = (c, r)" by fastforce
  have v: "length r = length a" "c \<le> 1"
    "int (limbs_val r) = int (limbs_val a) - int (limbs_val b) + 2 ^ (64 * length a) * int c"
    using sub_limbs_val [OF assms(1) _ r] by simp_all
  let ?r = "r @ replicate (n - length a) (0 - of_nat c)"
  have l: "length ?r = n" using v(1) assms(2) by simp
  have c: "c \<noteq> 0 \<longleftrightarrow> limbs_val a < limbs_val b" by (rule sub_limbs_borrow [OF assms(1) r])
  have ones: "limbs_val (replicate k (- 1)) + 1 = 2 ^ (64 * k)" for k
  proof (induction k)
    case (Suc k)
    have "unat (- 1 :: limb) = 2 ^ 64 - 1" by (simp add: unsigned_minus_1_eq_mask mask_eq_exp_minus_1)
    then have "limbs_val (replicate (Suc k) (- 1)) + 1 = 2 ^ 64 * (limbs_val (replicate k (- 1)) + 1)" by simp
    then show ?case unfolding Suc by (simp add: power_add)
  qed simp
  have e: "int (limbs_val ?r) = int (limbs_val a) - int (limbs_val b) + 2 ^ (64 * n) * int c"
  proof (cases "c = 0")
    case True
    then show ?thesis using v by (simp add: limbs_val_append)
  next
    case False
    then have c1: "c = 1" using v(2) by simp
    have "int (limbs_val (replicate (n - length a) (- 1))) = 2 ^ (64 * (n - length a)) - 1"
      using arg_cong [OF ones [of "n - length a"], of int] by simp
    then have "int (limbs_val ?r) = int (limbs_val r) + 2 ^ (64 * length a) * (2 ^ (64 * (n - length a)) - 1)"
      using c1 v(1) by (simp add: limbs_val_append)
    also have "\<dots> = int (limbs_val a) - int (limbs_val b) + 2 ^ (64 * length a) * 2 ^ (64 * (n - length a))"
      unfolding v(3) c1 by (simp add: algebra_simps)
    also have "2 ^ (64 * length a) * 2 ^ (64 * (n - length a)) = (2 :: int) ^ (64 * n)"
      using assms(2) by (simp flip: power_add distrib_left)
    finally show ?thesis using c1 by simp
  qed
  have "int (limbs_val ?r) = (int (limbs_val a) - int (limbs_val b)) mod 2 ^ (64 * n)"
    using of_nat_0_le_iff limbs_val_less_int [OF l] e by (rule int_mod_pow)
  moreover have "subMP n a b = Done (?r, limbs_val a < limbs_val b)"
    unfolding c [symmetric] subMP_def r using assms by simp
  ultimately show ?thesis using l by blast
qed

lemma limbs_val_NOT: "limbs_val (map NOT a) + limbs_val a + 1 = 2 ^ (64 * length a)"
proof (induction a)
  case (Cons x a)
  have "unat (NOT x) + unat x = 2 ^ 64 - 1"
    using unat_sub [of x "- 1"] unat_limb_less [of x]
    by (simp add: not_eq_complement minus_diff_commute unsigned_minus_1_eq_mask mask_eq_exp_minus_1)
  then have "limbs_val (map NOT (x # a)) + limbs_val (x # a) + 1 = 2 ^ 64 * (limbs_val (map NOT a) + limbs_val a + 1)"
    by simp
  then show ?case unfolding Cons by (simp add: power_add)
qed simp

lemma neg_val:
  assumes "a \<noteq> []"
  shows "length (neg a) = length a" "int (limbs_val (neg a)) = - int (limbs_val a) mod 2 ^ (64 * length a)"
proof -
  obtain c r where r: "add_limbs 0 (map NOT a) [1] = (c, r)" by fastforce
  have v: "length r = length a" "limbs_val r + 2 ^ (64 * length a) * c = limbs_val (map NOT a) + 1"
    using add_limbs_val [OF _ _ r] assms by (cases a; simp)+
  show "length (neg a) = length a" using v(1) r by (simp add: neg_def)
  have "int (limbs_val r) = - int (limbs_val a) + 2 ^ (64 * length a) * (1 - int c)"
  proof -
    have "limbs_val r + 2 ^ (64 * length a) * c + limbs_val a = 2 ^ (64 * length a)"
      using v(2) limbs_val_NOT [of a] by simp
    then have "int (limbs_val r + 2 ^ (64 * length a) * c + limbs_val a) = int (2 ^ (64 * length a))" by (simp only:)
    then show ?thesis by (simp add: algebra_simps)
  qed
  moreover have "int (limbs_val r) < 2 ^ (64 * length a)"
    using v(1) by (rule limbs_val_less_int)
  ultimately have "int (limbs_val r) = - int (limbs_val a) mod 2 ^ (64 * length a)"
    using int_mod_pow [OF of_nat_0_le_iff] by blast
  then show "int (limbs_val (neg a)) = - int (limbs_val a) mod 2 ^ (64 * length a)"
    using r by (simp add: neg_def)
qed

lemma lt_val: "length a = length b \<Longrightarrow> lt a b \<longleftrightarrow> limbs_val a < limbs_val b"
proof -
  assume l: "length a = length b"
  obtain c r where r: "sub_limbs 0 a b = (c, r)" by fastforce
  show ?thesis using sub_limbs_borrow [OF _ r] l r by (simp add: lt_def)
qed

lemma csub_val:
  assumes "length a = length b" "ctl \<Longrightarrow> limbs_val b \<le> limbs_val a + 2 ^ (64 * length a) * k"
    "ctl \<Longrightarrow> limbs_val a + 2 ^ (64 * length a) * k < limbs_val b + 2 ^ (64 * length a)"
  shows "length (csub a b ctl) = length a"
    "limbs_val (csub a b ctl) = (if ctl then limbs_val a + 2 ^ (64 * length a) * k - limbs_val b else limbs_val a)"
proof -
  obtain c r where r: "sub_limbs 0 a b = (c, r)" by fastforce
  have v: "length r = length a" "int (limbs_val r) = int (limbs_val a) - int (limbs_val b) + 2 ^ (64 * length a) * int c"
    using sub_limbs_val [OF _ _ r] assms(1) by simp_all
  show "length (csub a b ctl) = length a" using v(1) r by (simp add: csub_def)
  have "limbs_val r = limbs_val a + 2 ^ (64 * length a) * k - limbs_val b" if ctl
  proof -
    let ?x = "limbs_val a + 2 ^ (64 * length a) * k - limbs_val b"
    have "int ?x = int (limbs_val a) + 2 ^ (64 * length a) * int k - int (limbs_val b)"
      using assms(2) [OF that] by (simp add: of_nat_diff)
    then have "int (limbs_val r) mod 2 ^ (64 * length a) = int ?x mod 2 ^ (64 * length a)"
      unfolding v(2) by (simp only: mod_mult_self2 diff_add_eq [symmetric])
    moreover have "?x < 2 ^ (64 * length a)" using assms(2,3) [OF that] by linarith
    then have "int ?x < 2 ^ (64 * length a)" by (rule int_less_pow)
    ultimately have "int (limbs_val r) = int ?x"
      using limbs_val_less_int [OF v(1)] by (simp only: mod_pos_pos_trivial of_nat_0_le_iff)
    then show ?thesis by (simp only: of_nat_eq_iff)
  qed
  then show "limbs_val (csub a b ctl) = (if ctl then limbs_val a + 2 ^ (64 * length a) * k - limbs_val b else limbs_val a)"
    using r by (simp add: csub_def)
qed

lemma limbs_val_split: "limbs_val a = limbs_val (take n a) + 2 ^ (64 * n) * limbs_val (drop n a)"
proof (cases "n \<le> length a")
  case True
  then show ?thesis using limbs_val_append [of "take n a" "drop n a"] by simp
qed simp

lemma limbs_val_take: "limbs_val (take n a) = limbs_val a mod 2 ^ (64 * n)"
proof -
  have "limbs_val (take n a) < 2 ^ (64 * n)"
    using limbs_val_bound [of "take n a"] by (rule order.strict_trans2) simp
  then show ?thesis using limbs_val_split [of a n] by simp
qed

lemma limbs_val_drop: "limbs_val (drop n a) = limbs_val a div 2 ^ (64 * n)"
proof -
  have "limbs_val (take n a) < 2 ^ (64 * n)"
    using limbs_val_bound [of "take n a"] by (rule order.strict_trans2) simp
  then show ?thesis using limbs_val_split [of a n] by simp
qed

lemma unat_or_shifted:
  assumes "0 < k" "k < 64"
  shows "unat (drop_bit k x OR push_bit (64 - k) (y :: limb)) = unat x div 2 ^ k + 2 ^ (64 - k) * (unat y mod 2 ^ k)"
proof -
  have d: "drop_bit k x AND push_bit (64 - k) y = 0"
    by (rule bit_word_eqI) (auto simp: bit_and_iff bit_push_bit_iff bit_drop_bit_eq dest: bit_imp_le_length)
  have p: "unat (push_bit (64 - k) y) = 2 ^ (64 - k) * (unat y mod 2 ^ k)"
  proof -
    have "unat (push_bit (64 - k) y) = (unat y * 2 ^ (64 - k)) mod 2 ^ 64"
      unfolding unsigned_push_bit_eq by (simp add: push_bit_eq_mult take_bit_eq_mod)
    also have "(2 :: nat) ^ 64 = 2 ^ (64 - k) * 2 ^ k" using assms(2) by (simp flip: power_add)
    also have "unat y * 2 ^ (64 - k) mod (2 ^ (64 - k) * 2 ^ k) = 2 ^ (64 - k) * (unat y mod 2 ^ k)"
      by (simp only: mult.commute [of "unat y"]) (rule mult_mod_right [symmetric])
    finally show ?thesis .
  qed
  have q: "unat (drop_bit k x) = unat x div 2 ^ k"
    unfolding unat_drop_bit_eq by (simp add: drop_bit_eq_div)
  have e: "(2 :: nat) ^ 64 = 2 ^ (64 - k) * 2 ^ k" using assms(2) by (simp flip: power_add)
  have "unat x div 2 ^ k < 2 ^ (64 - k)"
    using unat_limb_less [of x] unfolding e by (rule less_mult_imp_div_less)
  moreover have "2 ^ (64 - k) * (unat y mod 2 ^ k) + 2 ^ (64 - k) \<le> 2 ^ (64 - k) * 2 ^ k"
  proof -
    have "unat y mod 2 ^ k + 1 \<le> 2 ^ k" by (simp add: Suc_le_eq)
    then have "2 ^ (64 - k) * (unat y mod 2 ^ k + 1) \<le> 2 ^ (64 - k) * (2 :: nat) ^ k" by (rule mult_le_mono2)
    then show ?thesis by (simp add: distrib_left)
  qed
  ultimately have "unat x div 2 ^ k + 2 ^ (64 - k) * (unat y mod 2 ^ k) < 2 ^ 64" unfolding e by linarith
  then have "unat (drop_bit k x + push_bit (64 - k) y) = unat x div 2 ^ k + 2 ^ (64 - k) * (unat y mod 2 ^ k)"
    by (simp only: unat_word_ariths p q len_num1 len_bit0) simp
  then show ?thesis using d by (simp add: disjunctive_add_eq_or)
qed

lemma shr_words_val:
  assumes "0 < k" "k < 64"
  shows "length (shr_words k a) = length a \<and> limbs_val (shr_words k a) = limbs_val a div 2 ^ k"
  using assms
proof (induction k a rule: shr_words.induct)
  case (2 k x)
  have "unat (drop_bit k x) = unat x div 2 ^ k" unfolding unat_drop_bit_eq by (simp add: drop_bit_eq_div)
  then show ?case by simp
next
  case (3 k x y a)
  let ?V = "limbs_val (y # a)"
  have e: "(2 :: nat) ^ 64 = 2 ^ k * 2 ^ (64 - k)" using 3 by (simp flip: power_add)
  have "limbs_val (x # y # a) = unat x + 2 ^ k * (2 ^ (64 - k) * ?V)"
    by (simp only: limbs_val.simps(2) [of x] e mult.assoc)
  then have "limbs_val (x # y # a) div 2 ^ k = unat x div 2 ^ k + 2 ^ (64 - k) * ?V" by simp
  also have "?V = ?V mod 2 ^ k + 2 ^ k * (?V div 2 ^ k)" by (rule mod_mult_div_eq [symmetric])
  also have "?V mod 2 ^ k = unat y mod 2 ^ k" unfolding limbs_val.simps e by (simp add: mult.assoc)
  finally have "limbs_val (x # y # a) div 2 ^ k =
      (unat x div 2 ^ k + 2 ^ (64 - k) * (unat y mod 2 ^ k)) + 2 ^ 64 * (?V div 2 ^ k)"
    by (simp only: e distrib_left mult.assoc mult.left_commute [of "2 ^ k"] add.assoc)
  then show ?case using 3 unat_or_shifted [OF 3(2,3), of x y] by simp
qed simp

lemma take_fits: "limbs_val a < 2 ^ (64 * n) \<Longrightarrow> limbs_val (take n a @ replicate k 0) = limbs_val a"
  by (simp add: limbs_val_append limbs_val_take)

lemma shiftRight_val:
  assumes "0 < k" "limbs_val a < 2 ^ (64 * n + k)"
    "length a \<le> n + k div 64 + (if k mod 64 = 0 then 0 else 1)" "k div 64 < length a"
  shows "\<exists>r. shiftRight_vartime n a k = Done r \<and> length r = n \<and> limbs_val r = limbs_val a div 2 ^ k"
proof -
  define w s where "w = k div 64" and "s = k mod 64"
  have k: "k = 64 * w + s" by (simp add: w_def s_def)
  have f: "limbs_val a div 2 ^ k < 2 ^ (64 * n)"
    using assms(2) by (intro less_mult_imp_div_less) (simp add: power_add)
  have d: "limbs_val (drop w a) div 2 ^ s = limbs_val a div 2 ^ k"
    by (simp add: limbs_val_drop k power_add div_mult2_eq)
  show ?thesis
  proof (cases "s = 0")
    case True
    then have "length a - w \<le> n" "w \<noteq> 0" using assms(1,3) k by (auto simp flip: w_def s_def)
    moreover have "\<not> k < 64" using k \<open>w \<noteq> 0\<close> by simp
    ultimately show ?thesis using True d assms(1,4)
      by (auto simp: shiftRight_vartime_def shrWords_def limbs_val_append simp flip: w_def s_def)
  next
    case False
    have s: "0 < s" "s < 64" using False by (simp_all add: s_def)
    note v = shr_words_val [OF s, of "drop w a"]
    have l: "length a - w \<le> n + 1" using assms(3) False by (simp flip: w_def s_def)
    have t: "limbs_val (take n (shr_words s (drop w a)) @ replicate m 0) = limbs_val a div 2 ^ k" for m
      using v d f by (subst take_fits) simp_all
    have "shiftRight_vartime n a k =
        Done (take n (shr_words s (drop w a)) @ replicate (n - (length a - w)) 0)"
    proof (cases "w = 0")
      case True
      then have "k = s" using k by simp
      then show ?thesis using True s l assms(4) by (auto simp: shiftRight_vartime_def shrSmall_def)
    next
      case False
      then have "\<not> k < 64" using k by simp
      then show ?thesis using False s l assms(4) \<open>s \<noteq> 0\<close>
        by (auto simp: shiftRight_vartime_def shrLarge_def simp flip: w_def s_def)
    qed
    then show ?thesis using t v l by simp
  qed
qed

lemma shlWords_val:
  assumes "length a + w \<le> length r" "0 < w" "0 < length a"
  shows "\<exists>t. shiftLeft_vartime r a (64 * w) = Done t \<and> length t = length r \<and> limbs_val t = 2 ^ (64 * w) * limbs_val a"
proof -
  have "\<not> length r \<le> w" "\<not> length r < length a + w" using assms by linarith+
  then have "shiftLeft_vartime r a (64 * w) = Done (replicate w 0 @ a @ replicate (length r - (length a + w)) 0)"
    using assms(2) by (simp only: shiftLeft_vartime_def shlWords_def) simp
  then show ?thesis using assms(1) by (simp add: limbs_val_append)
qed

lemma shlWords_overrun:
  assumes "w < length r" "length r < length a + w" "0 < w"
  shows "shiftLeft_vartime r a (64 * w) = UB"
  using assms by (simp add: shiftLeft_vartime_def shlWords_def)

lemma ctz_val: "n \<noteq> 0 \<Longrightarrow> 2 ^ ctz n dvd n \<and> odd (n div 2 ^ ctz n)"
proof (induction n rule: ctz.induct)
  case (1 n)
  show ?case
  proof (cases "odd n")
    case False
    then have "n div 2 \<noteq> 0" using 1(2) by auto
    then have IH: "2 ^ ctz (n div 2) dvd n div 2" "odd (n div 2 div 2 ^ ctz (n div 2))"
      using 1 False by simp_all
    have c: "ctz n = Suc (ctz (n div 2))" using False 1(2) by (simp add: ctz.simps [of n])
    have "2 * 2 ^ ctz (n div 2) dvd 2 * (n div 2)" using IH(1) by (rule mult_dvd_mono [OF dvd_refl])
    moreover have "2 * (n div 2) = n" using False by simp
    ultimately show ?thesis using IH(2) by (simp add: c div_mult2_eq)
  qed (simp add: ctz.simps)
qed

lemma trailing_zeros_val:
  "limbs_val a \<noteq> 0 \<Longrightarrow> 2 ^ trailing_zeros a dvd limbs_val a \<and> odd (limbs_val a div 2 ^ trailing_zeros a)"
proof (induction a)
  case (Cons w a)
  show ?case
  proof (cases "w \<noteq> 0 \<or> a = []")
    case True
    then have w: "unat w \<noteq> 0" using Cons.prems by (auto simp: unat_eq_zero)
    let ?c = "ctz (unat w)"
    note v = ctz_val [OF w]
    have c: "?c < 64"
    proof (rule ccontr)
      assume "\<not> ?c < 64"
      then have "(2 :: nat) ^ 64 \<le> 2 ^ ?c" by (intro power_increasing) simp_all
      also have "\<dots> \<le> unat w" using v w by (intro dvd_imp_le) simp_all
      finally show False using unat_limb_less [of w] by simp
    qed
    have e: "(2 :: nat) ^ 64 = 2 ^ ?c * (2 * 2 ^ (63 - ?c))"
      using c by (simp flip: power_Suc power_add)
    have x: "limbs_val (w # a) = unat w + 2 ^ ?c * (2 * 2 ^ (63 - ?c) * limbs_val a)"
      by (simp only: limbs_val.simps e mult.assoc)
    have "2 ^ ?c dvd limbs_val (w # a)" unfolding x using v by simp
    moreover have "limbs_val (w # a) div 2 ^ ?c = unat w div 2 ^ ?c + 2 * 2 ^ (63 - ?c) * limbs_val a"
      unfolding x by simp
    ultimately show ?thesis using True v by simp
  next
    case False
    then have IH: "2 ^ trailing_zeros a dvd limbs_val a" "odd (limbs_val a div 2 ^ trailing_zeros a)"
      using Cons by simp_all
    have "2 ^ 64 * 2 ^ trailing_zeros a dvd 2 ^ 64 * limbs_val a" using IH(1) by (rule mult_dvd_mono [OF dvd_refl])
    then show ?thesis using IH(2) False by (simp add: power_add div_mult2_eq)
  qed
qed simp

section \<open>Arrays without leading zero words\<close>

lemma getBits_le: "getBits_LE_vartime a \<le> 64 * length a"
proof (cases "limbs_val a = 0")
  case False
  then have "2 ^ (getBits_LE_vartime a - 1) \<le> limbs_val a"
    using getBits_LE [of a] by (simp add: has_nbits_def)
  then have "(2 :: nat) ^ (getBits_LE_vartime a - 1) < 2 ^ (64 * length a)"
    using limbs_val_bound [of a] by (rule order.strict_trans1)
  then show ?thesis by simp
qed (use getBits_LE [of a] in \<open>simp add: has_nbits_def\<close>)

definition used_words :: "limb list \<Rightarrow> nat" where
  "used_words a = wordsRequired64 (getBits_LE_vartime a)"

lemma used_words_le: "used_words a \<le> length a"
  by (simp add: used_words_def wordsRequired64_le getBits_le)

lemma used_words_bound: "limbs_val a < 2 ^ (64 * used_words a)"
proof -
  have "limbs_val a < 2 ^ getBits_LE_vartime a" using getBits_LE [of a] by (simp add: has_nbits_def)
  also have "\<dots> \<le> 2 ^ (64 * used_words a)"
    using wordsRequired64_le [of "getBits_LE_vartime a" "used_words a"]
    by (intro power_increasing) (simp_all add: used_words_def)
  finally show ?thesis .
qed

lemma take_used_words: "limbs_val (take (used_words a) a) = limbs_val a"
  using used_words_bound [of a] by (simp add: limbs_val_take)

lemma used_words_nbits: "used_words a = wordsRequired64 (nbits (limbs_val a))"
  using nbits_unique [OF getBits_LE [of a]] by (simp add: used_words_def)

lemma used_words_least: "limbs_val a < 2 ^ (64 * n) \<Longrightarrow> used_words a \<le> n"
proof -
  assume a: "limbs_val a < 2 ^ (64 * n)"
  show ?thesis
  proof (cases "limbs_val a = 0")
    case True
    then show ?thesis by (simp add: used_words_nbits nbits.simps wordsRequired64_le)
  next
    case False
    then have "2 ^ (nbits (limbs_val a) - 1) < (2 :: nat) ^ (64 * n)"
      using nbits_bounds(2) [of "limbs_val a"] a by (blast intro: order.strict_trans1)
    then show ?thesis by (simp add: used_words_nbits wordsRequired64_le)
  qed
qed

lemma used_words_full:
  assumes "a \<noteq> []"
  shows "used_words a = length a \<longleftrightarrow> 2 ^ (64 * (length a - 1)) \<le> limbs_val a"
proof
  assume u: "used_words a = length a"
  show "2 ^ (64 * (length a - 1)) \<le> limbs_val a"
  proof (rule ccontr)
    assume "\<not> 2 ^ (64 * (length a - 1)) \<le> limbs_val a"
    then have "used_words a \<le> length a - 1" by (intro used_words_least) simp
    then show False using u assms by (cases a) simp_all
  qed
next
  assume v: "2 ^ (64 * (length a - 1)) \<le> limbs_val a"
  have "(2 :: nat) ^ (64 * (length a - 1)) < 2 ^ (64 * used_words a)"
    using v used_words_bound [of a] by (rule order.strict_trans1)
  then show "used_words a = length a" using used_words_le [of a] by simp
qed

end
