(* ===== verification/Nim_Extmul.thy ===== *)
theory Nim_Extmul
  imports Nim_Words
begin

text \<open>
  The products of \<^verbatim>\<open>constantine/math_arbitrary_precision/arithmetic/limbs_extmul.nim\<close>: product scanning
  with a three-word accumulator. A result that has fewer words than the product is truncated.
\<close>

section \<open>Accumulators\<close>

text \<open>\<^verbatim>\<open>mulAcc\<close> and \<^verbatim>\<open>mulDoubleAcc\<close> of \<^verbatim>\<open>platforms/intrinsics/extended_precision.nim\<close> on \<open>(t, u, v)\<close>.\<close>

type_synonym acc = "limb \<times> limb \<times> limb"

fun mulAcc :: "acc \<Rightarrow> limb \<Rightarrow> limb \<Rightarrow> acc" where
  "mulAcc (t, u, v) a b =
     (let (hi, lo) = mul a b;
          (carry, v) = addC v lo 0;
          (carry, u) = addC u hi carry
      in (t + of_nat carry, u, v))"

fun mulDoubleAcc :: "acc \<Rightarrow> limb \<Rightarrow> limb \<Rightarrow> acc" where
  "mulDoubleAcc (t, u, v) a b =
     (let (hi, lo) = mul a b;
          (carry, lo) = addC lo lo 0;
          (carry, hi) = addC hi hi carry;
          t = t + of_nat carry;
          (carry, v) = addC v lo 0;
          (carry, u) = addC u hi carry
      in (t + of_nat carry, u, v))"

section \<open>Product scanning\<close>

text \<open>The loop shared by the two procedures: the column \<open>i\<close> is accumulated, its low word stored, and the
  accumulator moved down, except after the last column.\<close>

definition comba_loop :: "(nat \<Rightarrow> acc \<Rightarrow> acc) \<Rightarrow> nat \<Rightarrow> nat list \<Rightarrow> acc \<times> limb list" where
  "comba_loop column stopEx is =
     foldl (\<lambda>(acc, tmp) i.
         let (t, u, v) = column i acc
         in (if i + 1 < stopEx then (0, t, u) else (t, u, v), tmp @ [v]))
       ((0, 0, 0), []) is"

definition prod_column :: "limb list \<Rightarrow> limb list \<Rightarrow> nat \<Rightarrow> acc \<Rightarrow> acc" where
  "prod_column a b i acc =
     (let ib = min (int (length b) - 1) (int i);
          ia = int i - ib
      in foldl (\<lambda>acc j. mulAcc acc (a ! nat (ia + int j)) (b ! nat (ib - int j))) acc
           [0..<nat (min (int (length a) - ia) (ib + 1))])"

definition prod_comba :: "nat \<Rightarrow> limb list \<Rightarrow> limb list \<Rightarrow> limb list" where
  "prod_comba r_len a b =
     (let stopEx = min (length a + length b) r_len
      in snd (comba_loop (prod_column a b) stopEx [0..<stopEx]) @ replicate (r_len - stopEx) 0)"

definition prod_vartime :: "nat \<Rightarrow> limb list \<Rightarrow> limb list \<Rightarrow> limb list" where
  "prod_vartime r_len a b = prod_comba r_len (take (used_words a) a) (take (used_words b) b)"

definition square_column :: "limb list \<Rightarrow> nat \<Rightarrow> acc \<Rightarrow> acc" where
  "square_column a i acc =
     (let ib = min (int (length a) - 1) (int i);
          ia = int i - ib
      in foldl (\<lambda>acc j.
             let k1 = ia + int j;
                 k2 = ib - int j
             in if k1 < k2 then mulDoubleAcc acc (a ! nat k1) (a ! nat k2)
                else if k1 = k2 then mulAcc acc (a ! nat k1) (a ! nat k2)
                else acc) acc
           [0..<nat (min (int (length a) - ia) (ib + 1))])"

definition square_comba :: "nat \<Rightarrow> limb list \<Rightarrow> limb list" where
  "square_comba r_len a =
     (let stopEx = min (length a * 2) r_len
      in snd (comba_loop (square_column a) stopEx [0..<stopEx]) @ replicate (r_len - stopEx) 0)"

definition square_vartime :: "nat \<Rightarrow> limb list \<Rightarrow> limb list" where
  "square_vartime r_len a = square_comba r_len (take (used_words a) a)"

section \<open>Accumulators do not overflow\<close>

fun acc_val :: "acc \<Rightarrow> nat" where
  "acc_val (t, u, v) = unat v + 2 ^ 64 * (unat u + 2 ^ 64 * unat t)"

lemma unat_add_carry: "unat (t :: limb) + c < 2 ^ 64 \<Longrightarrow> unat (t + of_nat c) = unat t + c"
  by (subst unat_add_lem [THEN iffD1]) (simp_all add: unat_of_nat)

lemma mulAcc_val:
  assumes "acc_val acc + unat a * unat b < 2 ^ 192"
  shows "acc_val (mulAcc acc a b) = acc_val acc + unat a * unat b"
proof -
  obtain t u v where acc: "acc = (t, u, v)" by (metis prod_cases3)
  obtain hi lo where m: "mul a b = (hi, lo)" by fastforce
  obtain c1 v' where a1: "addC v lo 0 = (c1, v')" by fastforce
  obtain c2 u' where a2: "addC u hi c1 = (c2, u')" by fastforce
  note v1 = addC_val [OF _ a1, simplified]
  note v2 = addC_val [OF v1(2) [unfolded One_nat_def [symmetric]] a2]
  note v3 = mul_val [OF m]
  have s: "acc_val acc + unat a * unat b = unat v' + 2 ^ 64 * (unat u' + 2 ^ 64 * (unat t + c2))"
    using v1 v2 v3 by (simp add: acc)
  then have "2 ^ 128 * (unat t + c2) < 2 ^ 192" using assms by simp
  then have "unat t + c2 < 2 ^ 64" by simp
  then have "unat (t + of_nat c2) = unat t + c2" by (rule unat_add_carry)
  then show ?thesis using s by (simp add: acc m a1 a2)
qed

lemma mulDoubleAcc_val:
  assumes "acc_val acc + 2 * (unat a * unat b) < 2 ^ 192"
  shows "acc_val (mulDoubleAcc acc a b) = acc_val acc + 2 * (unat a * unat b)"
proof -
  obtain t u v where acc: "acc = (t, u, v)" by (metis prod_cases3)
  obtain hi lo where m: "mul a b = (hi, lo)" by fastforce
  obtain d1 lo' where b1: "addC lo lo 0 = (d1, lo')" by fastforce
  obtain d2 hi' where b2: "addC hi hi d1 = (d2, hi')" by fastforce
  obtain c1 v' where a1: "addC v lo' 0 = (c1, v')" by fastforce
  obtain c2 u' where a2: "addC u hi' c1 = (c2, u')" by fastforce
  note w1 = addC_val [OF _ b1, simplified]
  note w2 = addC_val [OF w1(2) [unfolded One_nat_def [symmetric]] b2]
  note v1 = addC_val [OF _ a1, simplified]
  note v2 = addC_val [OF v1(2) [unfolded One_nat_def [symmetric]] a2]
  have s: "acc_val acc + 2 * (unat a * unat b) = unat v' + 2 ^ 64 * (unat u' + 2 ^ 64 * (unat t + d2 + c2))"
    using v1 v2 w1 w2 mul_val [OF m] by (simp add: acc)
  then have "2 ^ 128 * (unat t + d2 + c2) < 2 ^ 192" using assms by simp
  then have l: "unat t + d2 + c2 < 2 ^ 64" by simp
  then have "unat (t + of_nat d2) = unat t + d2" by (intro unat_add_carry) simp
  then have "unat (t + of_nat d2 + of_nat c2) = unat t + d2 + c2"
    using l unat_add_carry [of "t + of_nat d2" c2] by simp
  then show ?thesis using s by (simp add: acc m a1 a2 b1 b2)
qed

lemma foldl_acc:
  assumes "\<And>acc j. j \<in> set js \<Longrightarrow> acc_val acc + w j < 2 ^ 192 \<Longrightarrow> acc_val (F acc j) = acc_val acc + w j"
    "acc_val acc + sum_list (map w js) < 2 ^ 192"
  shows "acc_val (foldl F acc js) = acc_val acc + sum_list (map w js)"
  using assms
proof (induction js arbitrary: acc)
  case (Cons j js)
  have "acc_val (F acc j) = acc_val acc + w j" using Cons.prems by simp
  then show ?case using Cons.IH [of "F acc j"] Cons.prems by simp
qed simp

section \<open>Columns\<close>

definition dg :: "limb list \<Rightarrow> nat \<Rightarrow> nat" where
  "dg a k = (if k < length a then unat (a ! k) else 0)"

lemma dg_simps [simp]: "dg [] k = 0" "dg (x # a) 0 = unat x" "dg (x # a) (Suc k) = dg a k"
  by (simp_all add: dg_def)

lemma dg_less: "dg a k \<le> 2 ^ 64 - 1"
  using unat_limb_less [of "a ! k"] by (simp add: dg_def)

definition column_sum :: "limb list \<Rightarrow> limb list \<Rightarrow> nat \<Rightarrow> nat" where
  "column_sum a b i = (\<Sum>k\<le>i. dg a k * dg b (i - k))"

definition columns_val :: "(nat \<Rightarrow> nat) \<Rightarrow> nat \<Rightarrow> nat" where
  "columns_val w n = (\<Sum>i<n. 2 ^ (64 * i) * w i)"

lemma columns_val_Suc [simp]:
  "columns_val w 0 = 0" "columns_val w (Suc n) = columns_val w n + 2 ^ (64 * n) * w n"
  by (simp_all add: columns_val_def)

lemma columns_val_shift: "columns_val w (Suc n) = w 0 + 2 ^ 64 * columns_val (\<lambda>i. w (Suc i)) n"
  by (induction n) (simp_all add: power_add distrib_left)

lemma columns_val_add: "columns_val (\<lambda>i. v i + w i) n = columns_val v n + columns_val w n"
  by (simp add: columns_val_def sum.distrib distrib_left)

lemma columns_val_mult: "columns_val (\<lambda>i. x * w i) n = x * columns_val w n"
  by (simp add: columns_val_def sum_distrib_left mult.left_commute)

lemma columns_val_dg: "columns_val (dg a) n = limbs_val a mod 2 ^ (64 * n)"
proof (induction n arbitrary: a)
  case (Suc n)
  show ?case
  proof (cases a)
    case (Cons x b)
    have "limbs_val a mod 2 ^ (64 * Suc n) = limbs_val a mod (2 ^ 64 * 2 ^ (64 * n))" by (simp add: power_add)
    also have "\<dots> = unat x + 2 ^ 64 * (limbs_val b mod 2 ^ (64 * n))"
      using unat_limb_small [of x] unfolding mod_mult2_eq Cons by (simp add: mult.commute)
    finally show ?thesis using Suc [of b] by (simp add: columns_val_shift Cons del: columns_val_Suc)
  qed (simp add: columns_val_def)
qed simp

lemma mod_mult_add: "(x * (v mod p) + c) mod p = (x * v + c) mod (p :: nat)"
  by (metis mod_add_left_eq mod_mult_right_eq)

lemma columns_val_product:
  "columns_val (column_sum a b) n mod 2 ^ (64 * n) = limbs_val a * limbs_val b mod 2 ^ (64 * n)"
proof (induction a arbitrary: n)
  case Nil
  then show ?case by (simp add: column_sum_def columns_val_def)
next
  case (Cons x a)
  show ?case
  proof (cases n)
    case (Suc m)
    let ?s = "\<lambda>i. if i = 0 then 0 else column_sum a b (i - 1)"
    have c: "column_sum (x # a) b = (\<lambda>i. unat x * dg b i + ?s i)"
    proof
      fix i
      show "column_sum (x # a) b i = unat x * dg b i + ?s i"
        by (cases i) (simp_all add: column_sum_def sum.atMost_Suc_shift del: sum.atMost_Suc)
    qed
    have "columns_val (column_sum (x # a) b) n = unat x * columns_val (dg b) n + 2 ^ 64 * columns_val (column_sum a b) m"
      unfolding c columns_val_add columns_val_mult by (simp add: Suc columns_val_shift del: columns_val_Suc)
    then have "columns_val (column_sum (x # a) b) n mod 2 ^ (64 * n) =
        (unat x * limbs_val b + 2 ^ 64 * columns_val (column_sum a b) m) mod 2 ^ (64 * n)"
      by (simp only: columns_val_dg mod_mult_add)
    also have "\<dots> = (unat x * limbs_val b + (2 ^ 64 * columns_val (column_sum a b) m) mod 2 ^ (64 * n)) mod 2 ^ (64 * n)"
      by (simp add: mod_simps)
    also have "2 ^ 64 * columns_val (column_sum a b) m mod 2 ^ (64 * n) =
        2 ^ 64 * (columns_val (column_sum a b) m mod 2 ^ (64 * m))"
      unfolding Suc by (simp only: mult_Suc_right power_add mult_mod_right)
    also have "\<dots> = 2 ^ 64 * (limbs_val a * limbs_val b) mod 2 ^ (64 * n)"
      unfolding Cons Suc by (simp only: mult_Suc_right power_add mult_mod_right)
    finally show ?thesis by (simp add: mod_simps distrib_right mult.assoc)
  qed simp
qed

lemma foldl_upt_Suc: "foldl f s [0..<Suc n] = f (foldl f s [0..<n]) n"
  by simp

lemma comba_loop_val:
  assumes col: "\<And>i acc. i < stopEx \<Longrightarrow> acc_val acc + w i < 2 ^ 192 \<Longrightarrow> acc_val (column i acc) = acc_val acc + w i"
    and w: "\<And>i. w i \<le> N * (2 ^ 64 - 1) ^ 2" and N: "N \<le> 2 ^ 62"
  shows "n \<le> stopEx \<Longrightarrow> \<exists>acc tmp. comba_loop column stopEx [0..<n] = (acc, tmp) \<and> length tmp = n \<and>
    limbs_val tmp = columns_val w n mod 2 ^ (64 * n) \<and>
    (n < stopEx \<longrightarrow> limbs_val tmp + 2 ^ (64 * n) * acc_val acc = columns_val w n \<and> acc_val acc \<le> N * (2 ^ 64 - 1))"
proof (induction n)
  case (Suc n)
  then obtain acc tmp where IH: "comba_loop column stopEx [0..<n] = (acc, tmp)" "length tmp = n"
      "limbs_val tmp + 2 ^ (64 * n) * acc_val acc = columns_val w n" "acc_val acc \<le> N * (2 ^ 64 - 1)" "n < stopEx"
    by auto
  obtain t u v where c: "column n acc = (t, u, v)" by (metis prod_cases3)
  have b: "acc_val acc + w n \<le> N * (2 ^ 64 - 1) * 2 ^ 64"
  proof -
    have "acc_val acc + w n \<le> N * (2 ^ 64 - 1) + N * (2 ^ 64 - 1) ^ 2" using IH(4) w [of n] by (rule add_mono)
    also have "\<dots> = N * (2 ^ 64 - 1) * 2 ^ 64" by (simp add: power2_eq_square)
    finally show ?thesis .
  qed
  also have "\<dots> \<le> 2 ^ 62 * (2 ^ 64 - 1) * 2 ^ 64" using N by (intro mult_le_mono) simp_all
  also have "\<dots> < (2 :: nat) ^ 192" by simp
  finally have "acc_val (column n acc) = acc_val acc + w n" using col IH(5) by blast
  then have V: "unat v + 2 ^ 64 * (unat u + 2 ^ 64 * unat t) = acc_val acc + w n" by (simp add: c)
  let ?tmp = "tmp @ [v]"
  have l: "length ?tmp = Suc n" using IH(2) by simp
  have s: "limbs_val ?tmp + 2 ^ (64 * Suc n) * (unat u + 2 ^ 64 * unat t) = columns_val w (Suc n)"
  proof -
    have "limbs_val ?tmp + 2 ^ (64 * Suc n) * (unat u + 2 ^ 64 * unat t) =
        limbs_val tmp + 2 ^ (64 * n) * (unat v + 2 ^ 64 * (unat u + 2 ^ 64 * unat t))"
      by (simp add: limbs_val_append IH(2) power_add distrib_left)
    also have "\<dots> = columns_val w (Suc n)" unfolding V using IH(3) by (simp add: distrib_left)
    finally show ?thesis .
  qed
  have "limbs_val ?tmp = columns_val w (Suc n) mod 2 ^ (64 * Suc n)"
    using limbs_val_less [OF l] unfolding s [symmetric] by simp
  moreover have "unat u + 2 ^ 64 * unat t \<le> N * (2 ^ 64 - 1)" using b V by simp
  moreover have "comba_loop column stopEx [0..<Suc n] =
      (if n + 1 < stopEx then (0, t, u) else (t, u, v), ?tmp)"
    using IH(1) by (simp add: comba_loop_def c)
  ultimately show ?case using s l by auto
qed (simp add: comba_loop_def)

text \<open>The range of indices that a column runs over.\<close>

lemma sum_list_upt: "sum_list (map f [0..<n]) = (\<Sum>j<n. f j :: nat)"
  by (simp add: interv_sum_list_conv_sum_set_nat atLeast0LessThan)

lemma column_range:
  fixes ib ia :: int and a b :: "limb list" and i :: nat
  defines "ib \<equiv> min (int (length b) - 1) (int i)" and "ia \<equiv> int i - ib"
    and "n \<equiv> nat (min (int (length a) - ia) (ib + 1))"
  assumes "\<And>k. k \<le> i \<Longrightarrow> length a \<le> k \<or> length b \<le> i - k \<Longrightarrow> f k = (0 :: nat)"
  shows "(\<Sum>k\<le>i. f k) = (\<Sum>j<n. f (nat (ia + int j)))" "n \<le> length a" "n \<le> length b"
    "j < n \<Longrightarrow> nat (ia + int j) < length a \<and> i - nat (ia + int j) < length b \<and> nat (ib - int j) = i - nat (ia + int j) \<and>
      nat (ia + int j) \<le> i \<and> 0 \<le> ia + int j \<and> 0 \<le> ib - int j"
proof -
  define c where "c = nat ia"
  have ia: "ia = int c" "int c + ib = int i" using assms(1,2) by (auto simp: c_def)
  show "n \<le> length a" "n \<le> length b" using assms(1-3) ia by auto
  show j: "nat (ia + int j) < length a \<and> i - nat (ia + int j) < length b \<and> nat (ib - int j) = i - nat (ia + int j) \<and>
      nat (ia + int j) \<le> i \<and> 0 \<le> ia + int j \<and> 0 \<le> ib - int j" if "j < n" for j
  proof -
    define d where "d = nat ib"
    have "int j < int (length a) - ia" "int j < ib + 1" using that assms(3) by auto
    moreover from this have "ib = int d" by (simp add: d_def)
    ultimately have "c + j < length a" "j \<le> d" "c + d = i" "d < length b" "ib = int d"
      using ia assms(1) by auto
    moreover from this have "nat (ia + int j) = c + j" "nat (ib - int j) = d - j"
      by (simp_all add: ia(1) nat_add_distrib)
    ultimately show ?thesis using ia(1) by auto
  qed
  have "(\<Sum>k\<le>i. f k) = (\<Sum>k\<in>{c..<c + n}. f k)"
  proof (rule sum.mono_neutral_right)
    show "{c..<c + n} \<subseteq> {..i}"
    proof
      fix k
      assume "k \<in> {c..<c + n}"
      then have "k - c < n" "c \<le> k" by auto
      then show "k \<in> {..i}" using j [of "k - c"] by (simp add: ia)
    qed
    show "\<forall>k\<in>{..i} - {c..<c + n}. f k = 0"
    proof
      fix k
      assume k: "k \<in> {..i} - {c..<c + n}"
      have "length a \<le> k \<or> length b \<le> i - k"
      proof (rule ccontr)
        assume "\<not> (length a \<le> k \<or> length b \<le> i - k)"
        then have l: "int k < int (length a)" "int i - int k \<le> ib" "k \<le> i" using k assms(1) by auto
        then have "c \<le> k" "int (k - c) < min (int (length a) - ia) (ib + 1)" using ia by auto
        then show False using k by (simp add: assms(3) zless_nat_eq_int_zless) linarith
      qed
      then show "f k = 0" using k assms(4) by simp
    qed
  qed simp
  also have "\<dots> = (\<Sum>j<n. f (c + j))"
    using sum.shift_bounds_nat_ivl [of f 0 c n] by (simp add: add.commute atLeast0LessThan)
  also have "\<dots> = (\<Sum>j<n. f (nat (ia + int j)))" by (simp add: ia nat_add_distrib)
  finally show "(\<Sum>k\<le>i. f k) = (\<Sum>j<n. f (nat (ia + int j)))" .
qed

lemma column_sum_le: "column_sum a b i \<le> length a * (2 ^ 64 - 1) ^ 2" "column_sum a b i \<le> length b * (2 ^ 64 - 1) ^ 2"
proof -
  let ?f = "\<lambda>k. dg a k * dg b (i - k)"
  let ?ia = "int i - min (int (length b) - 1) (int i)"
  let ?n = "nat (min (int (length a) - ?ia) (min (int (length b) - 1) (int i) + 1))"
  have z: "k \<le> i \<Longrightarrow> length a \<le> k \<or> length b \<le> i - k \<Longrightarrow> ?f k = 0" for k by (auto simp: dg_def)
  note r = column_range(2,3) [of i a b ?f, OF z]
  have e: "column_sum a b i = (\<Sum>j<?n. ?f (nat (?ia + int j)))"
    unfolding column_sum_def by (rule column_range(1)) (rule z)
  have "?f k \<le> (2 ^ 64 - 1) ^ 2" for k unfolding power2_eq_square by (rule mult_le_mono [OF dg_less dg_less])
  then have "column_sum a b i \<le> ?n * (2 ^ 64 - 1) ^ 2"
    unfolding e by (intro order.trans [OF sum_bounded_above [where K = "(2 ^ 64 - 1) ^ 2"]]) simp_all
  moreover have "?n * (2 ^ 64 - 1) ^ 2 \<le> length a * (2 ^ 64 - 1) ^ 2" "?n * (2 ^ 64 - 1) ^ 2 \<le> length b * (2 ^ 64 - 1) ^ 2"
    using r by (intro mult_right_mono; simp)+
  ultimately show "column_sum a b i \<le> length a * (2 ^ 64 - 1) ^ 2" "column_sum a b i \<le> length b * (2 ^ 64 - 1) ^ 2"
    by linarith+
qed

lemma prod_column_val:
  assumes "acc_val acc + column_sum a b i < 2 ^ 192"
  shows "acc_val (prod_column a b i acc) = acc_val acc + column_sum a b i"
proof -
  define ib where "ib = min (int (length b) - 1) (int i)"
  define ia where "ia = int i - ib"
  define n where "n = nat (min (int (length a) - ia) (ib + 1))"
  let ?f = "\<lambda>k. dg a k * dg b (i - k)"
  have z: "k \<le> i \<Longrightarrow> length a \<le> k \<or> length b \<le> i - k \<Longrightarrow> ?f k = 0" for k by (auto simp: dg_def)
  note r = column_range [of i a b ?f, OF z, folded ib_def, folded ia_def, folded n_def]
  have e: "column_sum a b i = (\<Sum>j<n. ?f (nat (ia + int j)))"
    unfolding column_sum_def n_def ia_def ib_def by (rule column_range(1)) (rule z)
  have s: "column_sum a b i = sum_list (map (\<lambda>j. unat (a ! nat (ia + int j)) * unat (b ! nat (ib - int j))) [0..<n])"
    unfolding e sum_list_upt by (intro sum.cong) (use r(4) in \<open>auto simp: dg_def\<close>)
  show ?thesis
    unfolding prod_column_def Let_def ib_def [symmetric] ia_def [symmetric] n_def [symmetric] s
    by (rule foldl_acc) (use assms s mulAcc_val in auto)
qed

lemma square_column_val:
  assumes "acc_val acc + column_sum a a i < 2 ^ 192"
  shows "acc_val (square_column a i acc) = acc_val acc + column_sum a a i"
proof -
  define ib where "ib = min (int (length a) - 1) (int i)"
  define ia where "ia = int i - ib"
  define n where "n = nat (min (int (length a) - ia) (ib + 1))"
  let ?h = "\<lambda>k. dg a k * dg a (i - k)"
  let ?f = "\<lambda>k. if k < i - k then 2 * ?h k else if k = i - k then ?h k else 0"
  have z: "k \<le> i \<Longrightarrow> length a \<le> k \<or> length a \<le> i - k \<Longrightarrow> ?f k = 0" for k by (auto simp: dg_def)
  note r = column_range [of i a a ?f, OF z, folded ib_def, folded ia_def, folded n_def]
  have sym: "(\<Sum>k\<le>i. ?h k) = (\<Sum>k\<le>i. ?f k)"
  proof -
    let ?L = "{k. k < i - k}" and ?E = "{k. k \<le> i \<and> k = i - k}" and ?G = "{k. k \<le> i \<and> i - k < k}"
    have fin: "finite ?L" "finite ?E" "finite ?G" by (auto intro: finite_subset [of _ "{..i}"])
    have u: "{..i} = ?L \<union> ?E \<union> ?G" by auto
    have split: "(\<Sum>k\<le>i. g k) = sum g ?L + sum g ?E + sum g ?G" for g :: "nat \<Rightarrow> nat"
      unfolding u using fin by (subst sum.union_disjoint; auto)+
    have "sum ?h ?G = sum ?h ?L"
      by (rule sum.reindex_bij_witness [of _ "\<lambda>k. i - k" "\<lambda>k. i - k"]) (auto simp: mult.commute)
    moreover have "sum ?f ?L = 2 * sum ?h ?L" by (simp add: sum_distrib_left)
    moreover have "sum ?f ?E = sum ?h ?E" by (intro sum.cong) auto
    moreover have "sum ?f ?G = 0" by (intro sum.neutral) auto
    ultimately show ?thesis unfolding split by simp
  qed
  let ?w = "\<lambda>j. let k1 = ia + int j; k2 = ib - int j in
      if k1 < k2 then 2 * (unat (a ! nat k1) * unat (a ! nat k2))
      else if k1 = k2 then unat (a ! nat k1) * unat (a ! nat k2) else 0"
  have e: "column_sum a a i = (\<Sum>j<n. ?f (nat (ia + int j)))"
    unfolding column_sum_def sym n_def ia_def ib_def by (rule column_range(1)) (rule z)
  have s: "column_sum a a i = sum_list (map ?w [0..<n])"
    unfolding e sum_list_upt
  proof (intro sum.cong refl)
    fix j
    assume "j \<in> {..<n}"
    then have j: "nat (ia + int j) < length a" "i - nat (ia + int j) < length a" "nat (ib - int j) = i - nat (ia + int j)"
        "0 \<le> ia + int j" "0 \<le> ib - int j"
      using r(4) by auto
    define x y where "x = nat (ia + int j)" and "y = nat (ib - int j)"
    have xy: "ia + int j = int x" "ib - int j = int y" using j by (simp_all add: x_def y_def)
    have y: "i - x = y" "x < length a" "y < length a" using j by (simp_all add: x_def y_def)
    show "?f (nat (ia + int j)) = ?w j"
      unfolding xy Let_def nat_int y by (simp add: dg_def y)
  qed
  show ?thesis
    unfolding square_column_def Let_def ib_def [symmetric] ia_def [symmetric] n_def [symmetric] s
    by (rule foldl_acc) (use assms s mulAcc_val mulDoubleAcc_val in \<open>auto simp: Let_def\<close>)
qed

section \<open>Products\<close>

lemma comba_val:
  assumes "\<And>i acc. acc_val acc + column_sum a b i < 2 ^ 192 \<Longrightarrow> acc_val (column i acc) = acc_val acc + column_sum a b i"
    "length a \<le> 2 ^ 62" "stopEx = min (length a + length b) n"
  shows "length (snd (comba_loop column stopEx [0..<stopEx]) @ replicate (n - stopEx) 0) = n"
    "limbs_val (snd (comba_loop column stopEx [0..<stopEx]) @ replicate (n - stopEx) 0) =
       limbs_val a * limbs_val b mod 2 ^ (64 * n)"
proof -
  obtain acc tmp where c: "comba_loop column stopEx [0..<stopEx] = (acc, tmp)" "length tmp = stopEx"
      "limbs_val tmp = columns_val (column_sum a b) stopEx mod 2 ^ (64 * stopEx)"
    using comba_loop_val [of stopEx "column_sum a b" column "length a" stopEx] assms(1,2) column_sum_le(1) by blast
  have v: "limbs_val tmp = limbs_val a * limbs_val b mod 2 ^ (64 * stopEx)"
    using c(3) by (simp only: columns_val_product)
  show "length (snd (comba_loop column stopEx [0..<stopEx]) @ replicate (n - stopEx) 0) = n"
    using c(1,2) assms(3) by simp
  have "limbs_val a * limbs_val b mod 2 ^ (64 * stopEx) = limbs_val a * limbs_val b mod 2 ^ (64 * n)"
  proof (cases "stopEx = n")
    case False
    then have s: "stopEx = length a + length b" "stopEx \<le> n" using assms(3) by auto
    have p: "limbs_val a * limbs_val b < 2 ^ (64 * stopEx)"
      unfolding s(1) distrib_left power_add by (intro mult_strict_mono' limbs_val_bound) simp_all
    also have "\<dots> \<le> 2 ^ (64 * n)" using s(2) by (intro power_increasing) simp_all
    finally show ?thesis using p by simp
  qed simp
  then show "limbs_val (snd (comba_loop column stopEx [0..<stopEx]) @ replicate (n - stopEx) 0) =
       limbs_val a * limbs_val b mod 2 ^ (64 * n)"
    using c(1,2) v by (simp add: limbs_val_append)
qed

lemma prod_vartime_val [limbs_simps]:
  assumes "length a \<le> 2 ^ 62"
  shows "length (prod_vartime n a b) = n"
    "limbs_val (prod_vartime n a b) = limbs_val a * limbs_val b mod 2 ^ (64 * n)"
proof -
  have l: "length (take (used_words a) a) \<le> 2 ^ 62" using assms by simp
  show "length (prod_vartime n a b) = n"
    "limbs_val (prod_vartime n a b) = limbs_val a * limbs_val b mod 2 ^ (64 * n)"
    unfolding prod_vartime_def prod_comba_def Let_def
    using comba_val [OF prod_column_val l refl, of "take (used_words b) b" n] by (simp_all only: take_used_words)
qed

lemma square_vartime_val [limbs_simps]:
  assumes "length a \<le> 2 ^ 62"
  shows "length (square_vartime n a) = n"
    "limbs_val (square_vartime n a) = limbs_val a * limbs_val a mod 2 ^ (64 * n)"
proof -
  let ?a = "take (used_words a) a"
  have l: "length ?a \<le> 2 ^ 62" using assms by simp
  have s: "min (length ?a * 2) n = min (length ?a + length ?a) n" by simp
  show "length (square_vartime n a) = n"
    "limbs_val (square_vartime n a) = limbs_val a * limbs_val a mod 2 ^ (64 * n)"
    unfolding square_vartime_def square_comba_def Let_def s
    using comba_val [OF square_column_val l refl, of n] by (simp_all only: take_used_words)
qed

end
