(* ===== verification/Nim_Mod2k.thy ===== *)
theory Nim_Mod2k
  imports Nim_Extmul
begin

text \<open>
  Arithmetic modulo a power of two:
  \<^verbatim>\<open>constantine/math_arbitrary_precision/arithmetic/limbs_mod2k.nim\<close>, with \<^verbatim>\<open>invModBitwidth\<close> of
  \<^verbatim>\<open>math/arithmetic/limbs_exgcd.nim\<close>.
\<close>

section \<open>The code\<close>

definition mod2k_vartime :: "limb list \<Rightarrow> nat \<Rightarrow> limb list" where
  "mod2k_vartime a k =
     (let hiIndex = drop_bit 6 k;
          bitPos = k mod 64
      in if length a \<le> hiIndex then a
         else take hiIndex a @
           (if bitPos \<noteq> 0 then a ! hiIndex AND (push_bit bitPos 1 - 1) else 0) #
           replicate (length a - (hiIndex + 1)) 0)"

definition trunc2k :: "nat \<Rightarrow> limb list \<Rightarrow> limb list" where
  "trunc2k k x = take (min (length x) (wordsRequired64 k)) x"

definition submod2k_vartime :: "nat \<Rightarrow> limb list \<Rightarrow> limb list \<Rightarrow> nat \<Rightarrow> limb list outcome" where
  "submod2k_vartime r_len a b k =
     (if length b \<le> length a
      then obind (subMP r_len (trunc2k k a) (trunc2k k b)) (\<lambda>(r, underflow). Done (mod2k_vartime r k))
      else obind (subMP r_len (trunc2k k b) (trunc2k k a)) (\<lambda>(r, underflow). Done (mod2k_vartime (neg r) k)))"

definition mulmod2k_vartime :: "nat \<Rightarrow> limb list \<Rightarrow> limb list \<Rightarrow> nat \<Rightarrow> limb list" where
  "mulmod2k_vartime r_len a b k = mod2k_vartime (prod_vartime r_len a b) k"

definition sqrmod2k_vartime :: "nat \<Rightarrow> limb list \<Rightarrow> nat \<Rightarrow> limb list" where
  "sqrmod2k_vartime r_len a k = mod2k_vartime (square_vartime r_len a) k"

definition unpackLE :: "byte \<Rightarrow> bool list" where
  "unpackLE scalarByte = map (\<lambda>i. drop_bit i scalarByte AND 1 = 1) [0..<8]"

text \<open>The loop of \<^verbatim>\<open>powMod2k_vartime\<close> over the bits of the exponent, the lowest first, which ends early when
  \<^verbatim>\<open>bitsLeft\<close> reaches 0.\<close>

fun powMod2k_loop :: "nat \<Rightarrow> nat \<Rightarrow> bool list \<Rightarrow> limb list \<Rightarrow> limb list \<Rightarrow> int \<Rightarrow> limb list" where
  "powMod2k_loop r_len k [] r s bitsLeft = r"
| "powMod2k_loop r_len k (bt # bits) r s bitsLeft =
     (let r = (if bt then mulmod2k_vartime r_len r s k else r);
          s = sqrmod2k_vartime r_len s k;
          bitsLeft = bitsLeft - 1
      in if bitsLeft = 0 then r else powMod2k_loop r_len k bits r s bitsLeft)"

text \<open>\<^verbatim>\<open>int(k-1)\<close> is -1 for the unsigned \<open>k = 0\<close>.\<close>

definition powMod2k_vartime :: "nat \<Rightarrow> limb list \<Rightarrow> byte list \<Rightarrow> nat \<Rightarrow> limb list outcome" where
  "powMod2k_vartime r_len a exponent k =
     (let msb = int (getBits_BE_vartime exponent) - 1;
          one = 1 # replicate (r_len - 1) 0
      in if r_len = 0 \<or> a = [] then UB
         else if msb = -1 then Done one
         else if msb = 0 then Done (mod2k_vartime (take r_len a @ replicate (r_len - length a) 0) k)
         else if even (unat (a ! 0)) \<and> int k \<le> int (trailing_zeros a) + msb then Done (replicate r_len 0)
         else
           let bitsLeft = (if odd (unat (a ! 0)) \<and> int k - 1 < msb + 1 then int k - 1 else msb + 1);
               s = take r_len a @ replicate (r_len - length a) 0
           in Done (powMod2k_loop r_len k (concat (map unpackLE (rev exponent))) one s bitsLeft))"

definition invModBitwidth :: "limb \<Rightarrow> limb" where
  "invModBitwidth a = ((\<lambda>x. x * (2 - a * x)) ^^ 6) a"

definition negInvModWord :: "limb \<Rightarrow> limb" where
  "negInvModWord a = - invModBitwidth a"

text \<open>The loop of \<^verbatim>\<open>invMod2k_vartime\<close>, on the words of \<^verbatim>\<open>x\<close> that are in use. It does not end when \<^verbatim>\<open>r\<close>
  has fewer words than the modulus.\<close>

function invMod2k_loop :: "nat \<Rightarrow> limb list \<Rightarrow> nat \<Rightarrow> limb list \<Rightarrow> nat \<Rightarrow> limb list outcome" where
  "invMod2k_loop r_len a k x correctWords =
     (if k \<le> correctWords * 64 then Done x
      else
        let words = min r_len (2 * correctWords)
        in if words \<le> correctWords then UB
           else
             let t = mulmod2k_vartime words x a (words * 64)
             in obind (submod2k_vartime words [2] t (words * 64)) (\<lambda>u.
                invMod2k_loop r_len a k (mulmod2k_vartime words x u (words * 64)) words))"
  by pat_completeness auto
termination
  by (relation "measure (\<lambda>(r_len, a, k, x, correctWords). r_len - correctWords)") auto

declare invMod2k_loop.simps [simp del]

definition invMod2k_vartime :: "nat \<Rightarrow> limb list \<Rightarrow> nat \<Rightarrow> limb list outcome" where
  "invMod2k_vartime r_len a k =
     (if r_len = 0 \<or> a = [] then UB
      else obind (invMod2k_loop r_len a k [invModBitwidth (a ! 0)] 1) (\<lambda>x.
        Done (mod2k_vartime (x @ replicate (r_len - length x) 0) k)))"

section \<open>Truncation, subtraction and multiplication\<close>

lemma mod_power_2: "m \<le> n \<Longrightarrow> (x mod 2 ^ n) mod 2 ^ m = x mod (2 :: nat) ^ m"
  by (simp add: mod_mod_cancel le_imp_power_dvd)

lemma and_mask_low: "unat ((w :: limb) AND (push_bit p 1 - 1)) = unat w mod 2 ^ p"
proof -
  have "w AND (push_bit p 1 - 1) = take_bit p w"
    by (simp add: push_bit_eq_mult take_bit_eq_mask mask_eq_exp_minus_1)
  moreover have "unat (take_bit p w) = unat w mod 2 ^ p"
    unfolding unsigned_take_bit_eq by (simp add: take_bit_eq_mod)
  ultimately show ?thesis by simp
qed

lemma mod2k_val [limbs_simps]:
  "length (mod2k_vartime a k) = length a" "limbs_val (mod2k_vartime a k) = limbs_val a mod 2 ^ k"
proof -
  define h p where "h = k div 64" and "p = k mod 64"
  have k: "k = 64 * h + p" "drop_bit 6 k = h" by (simp_all add: h_def p_def drop_bit_eq_div)
  have "length (mod2k_vartime a k) = length a \<and> limbs_val (mod2k_vartime a k) = limbs_val a mod 2 ^ k"
  proof (cases "length a \<le> h")
    case True
    have "limbs_val a < 2 ^ (64 * length a)" by (rule limbs_val_bound)
    also have "\<dots> \<le> 2 ^ k" using True k(1) by (intro power_increasing) simp_all
    finally show ?thesis using True k by (simp add: mod2k_vartime_def)
  next
    case False
    then have d: "drop h a = a ! h # drop (Suc h) a" by (simp add: Cons_nth_drop_Suc)
    have s: "limbs_val a = limbs_val (take h a) + 2 ^ (64 * h) * (unat (a ! h) + 2 ^ 64 * limbs_val (drop (Suc h) a))"
      using limbs_val_split [of a h] by (simp add: d)
    have t: "limbs_val (take h a) < 2 ^ (64 * h)"
      using False by (intro limbs_val_less) simp
    have "limbs_val a mod 2 ^ k = limbs_val (take h a) + 2 ^ (64 * h) * (unat (a ! h) mod 2 ^ p)"
    proof -
      have p: "p \<le> 64" by (simp add: p_def)
      have "limbs_val a mod 2 ^ k =
          2 ^ (64 * h) * ((limbs_val a div 2 ^ (64 * h)) mod 2 ^ p) + limbs_val a mod 2 ^ (64 * h)"
        by (simp only: k(1) power_add mod_mult2_eq)
      also have "limbs_val a div 2 ^ (64 * h) = unat (a ! h) + 2 ^ 64 * limbs_val (drop (Suc h) a)"
        unfolding s using t by simp
      also have "limbs_val a mod 2 ^ (64 * h) = limbs_val (take h a)" unfolding s using t by simp
      also have "(unat (a ! h) + 2 ^ 64 * limbs_val (drop (Suc h) a)) mod 2 ^ p = unat (a ! h) mod 2 ^ p"
      proof -
        have e: "(2 :: nat) ^ 64 = 2 ^ p * 2 ^ (64 - p)" using p by (simp flip: power_add)
        show ?thesis unfolding e by (simp add: mult.assoc)
      qed
      finally show ?thesis by simp
    qed
    moreover have "mod2k_vartime a k =
        take h a @ (if p \<noteq> 0 then a ! h AND (push_bit p 1 - 1) else 0) # replicate (length a - (h + 1)) 0"
      unfolding mod2k_vartime_def Let_def k(2) p_def [symmetric] using False by simp
    moreover have "unat (if p \<noteq> 0 then a ! h AND (push_bit p 1 - 1) else 0) = unat (a ! h) mod 2 ^ p"
      using and_mask_low [of "a ! h" p] by (cases "p = 0") (simp_all only: if_True if_False, simp_all)
    ultimately show ?thesis using False by (simp add: limbs_val_append)
  qed
  then show "length (mod2k_vartime a k) = length a" "limbs_val (mod2k_vartime a k) = limbs_val a mod 2 ^ k"
    by simp_all
qed

lemma mulmod2k_val [limbs_simps]:
  assumes "length a \<le> 2 ^ 62" "k \<le> 64 * n"
  shows "length (mulmod2k_vartime n a b k) = n"
    "limbs_val (mulmod2k_vartime n a b k) = limbs_val a * limbs_val b mod 2 ^ k"
  using assms by (simp_all add: mulmod2k_vartime_def limbs_simps mod_power_2)

lemma sqrmod2k_val [limbs_simps]:
  assumes "length a \<le> 2 ^ 62" "k \<le> 64 * n"
  shows "length (sqrmod2k_vartime n a k) = n"
    "limbs_val (sqrmod2k_vartime n a k) = limbs_val a * limbs_val a mod 2 ^ k"
  using assms by (simp_all add: sqrmod2k_vartime_def limbs_simps mod_power_2)

lemma trunc2k_val: "limbs_val (trunc2k k x) = limbs_val x mod 2 ^ (64 * wordsRequired64 k)"
  by (cases "length x \<le> wordsRequired64 k")
    (simp_all add: trunc2k_def limbs_val_take min_def mod_less [OF order.strict_trans2 [OF limbs_val_bound]])

lemma int_mod_power_2: "m \<le> n \<Longrightarrow> (x mod 2 ^ n) mod 2 ^ m = x mod (2 :: int) ^ m"
  by (simp add: mod_mod_cancel le_imp_power_dvd)

lemma submod2k_val:
  assumes "wordsRequired64 k \<le> n" "0 < n" "a \<noteq> []" "b \<noteq> []" "0 < k"
  shows "\<exists>r. submod2k_vartime n a b k = Done r \<and> length r = n \<and>
    int (limbs_val r) = (int (limbs_val a) - int (limbs_val b)) mod 2 ^ k"
proof -
  let ?W = "64 * wordsRequired64 k"
  have k: "k \<le> ?W" "k \<le> 64 * n" using assms(1) wordsRequired64_le [of k "wordsRequired64 k"] by simp_all
  let ?a = "trunc2k k a" and ?b = "trunc2k k b"
  have l: "length ?a \<le> n" "length ?b \<le> n" using assms(1) by (simp_all add: trunc2k_def)
  have v: "(int (limbs_val ?a) - int (limbs_val ?b)) mod 2 ^ k = (int (limbs_val a) - int (limbs_val b)) mod 2 ^ k"
    unfolding trunc2k_val using k(1) by (simp add: of_nat_mod int_mod_power_2 mod_simps flip: mod_diff_eq [of "_ mod 2 ^ ?W"])
  show ?thesis
  proof (cases "length b \<le> length a")
    case True
    then have "length ?b \<le> length ?a" by (simp add: trunc2k_def)
    then obtain r c where r: "subMP n ?a ?b = Done (r, c)" "length r = n"
        "int (limbs_val r) = (int (limbs_val ?a) - int (limbs_val ?b)) mod 2 ^ (64 * n)"
      using subMP_val l(1) by blast
    then show ?thesis using True k(2) v
      by (simp add: submod2k_vartime_def limbs_simps of_nat_mod int_mod_power_2)
  next
    case False
    then have "length ?a \<le> length ?b" by (simp add: trunc2k_def)
    then obtain r c where r: "subMP n ?b ?a = Done (r, c)" "length r = n"
        "int (limbs_val r) = (int (limbs_val ?b) - int (limbs_val ?a)) mod 2 ^ (64 * n)"
      using subMP_val l(2) by blast
    have "r \<noteq> []" using r(2) assms(2) by auto
    then have "int (limbs_val (neg r)) mod 2 ^ k = (int (limbs_val ?a) - int (limbs_val ?b)) mod 2 ^ k"
      using neg_val(2) [of r] r(2,3) k(2)
      by (simp add: int_mod_power_2) (metis int_mod_power_2 minus_diff_eq mod_minus_eq)
    then show ?thesis using False r neg_val(1) [OF \<open>r \<noteq> []\<close>] v
      by (simp add: submod2k_vartime_def limbs_simps of_nat_mod)
  qed
qed

section \<open>Powers\<close>

text \<open>The value of bits given the lowest first.\<close>

definition bits_le :: "bool list \<Rightarrow> nat" where
  "bits_le bs = horner_sum of_bool 2 bs"

lemma bits_le_simps [simp]: "bits_le [] = 0" "bits_le (b # bs) = of_bool b + 2 * bits_le bs"
  by (simp_all add: bits_le_def)

lemma bits_le_append: "bits_le (xs @ ys) = bits_le xs + 2 ^ length xs * bits_le ys"
  by (induction xs) (simp_all add: distrib_left mult.assoc)

lemma bits_le_bound: "bits_le bs < 2 ^ length bs"
proof (induction bs)
  case (Cons b bs)
  then show ?case by (cases b) auto
qed simp

lemma bits_le_take: "bits_le (take n bs) = bits_le bs mod 2 ^ n"
proof (cases "n \<le> length bs")
  case True
  then have "bits_le (take n bs) < 2 ^ n" using bits_le_bound [of "take n bs"] by simp
  moreover have "bits_le bs = bits_le (take n bs) + 2 ^ n * bits_le (drop n bs)"
    using True bits_le_append [of "take n bs" "drop n bs"] by simp
  ultimately show ?thesis by simp
next
  case False
  have "bits_le bs < 2 ^ length bs" by (rule bits_le_bound)
  also have "\<dots> \<le> 2 ^ n" using False by (intro power_increasing) simp_all
  finally show ?thesis using False by simp
qed

lemma unpackLE_val: "bits_le (unpackLE b) = unat b" "length (unpackLE b) = 8"
proof -
  have "unpackLE b = map (bit (unat b)) [0..<8]"
    by (auto simp: unpackLE_def and_one_eq bit_iff_odd_drop_bit [of b] odd_iff_mod_2_eq_one bit_unsigned_iff)
  then have "bits_le (unpackLE b) = take_bit 8 (unat b)" by (simp add: bits_le_def horner_sum_bit_eq_take_bit)
  then show "bits_le (unpackLE b) = unat b" by (simp add: take_bit_nat_eq_self)
qed (simp add: unpackLE_def)

lemma bits_le_exponent:
  "bits_le (concat (map unpackLE (rev e))) = be_val e" "length (concat (map unpackLE (rev e))) = 8 * length e"
proof -
  have "bits_le (concat (map unpackLE (rev e))) = be_val e \<and> length (concat (map unpackLE (rev e))) = 8 * length e"
    by (induction e) (simp_all add: bits_le_append unpackLE_val power_mult)
  then show "bits_le (concat (map unpackLE (rev e))) = be_val e"
    "length (concat (map unpackLE (rev e))) = 8 * length e"
    by simp_all
qed

lemma powMod2k_loop_val:
  assumes "n \<le> 2 ^ 62" "k \<le> 64 * n"
  shows "length r = n \<Longrightarrow> length s = n \<Longrightarrow> limbs_val r = R mod 2 ^ k \<Longrightarrow> limbs_val s mod 2 ^ k = S mod 2 ^ k \<Longrightarrow>
    length (powMod2k_loop n k bits r s bl) = n \<and>
    limbs_val (powMod2k_loop n k bits r s bl) =
      R * S ^ bits_le (if 0 < bl then take (nat bl) bits else bits) mod 2 ^ k"
proof (induction bits arbitrary: r s R S bl)
  case (Cons b bits)
  define r' where "r' = (if b then mulmod2k_vartime n r s k else r)"
  define s' where "s' = sqrmod2k_vartime n s k"
  have r': "length r' = n" "limbs_val r' = R * S ^ of_bool b mod 2 ^ k"
  proof -
    have "limbs_val r * limbs_val s mod 2 ^ k = R * S mod 2 ^ k"
      using Cons.prems(3,4) by (metis mod_mult_eq mod_mod_trivial)
    then show "length r' = n" "limbs_val r' = R * S ^ of_bool b mod 2 ^ k"
      using Cons.prems assms by (simp_all add: r'_def limbs_simps)
  qed
  have s': "length s' = n" "limbs_val s' mod 2 ^ k = S * S mod 2 ^ k"
    using Cons.prems assms by (simp_all add: s'_def limbs_simps) (metis mod_mult_eq)
  have e: "R * S ^ of_bool b * (S * S) ^ m = R * S ^ (of_bool b + 2 * m)" for m
    by (simp add: power_add power_mult power2_eq_square mult.assoc)
  show ?case
  proof (cases "bl - 1 = 0")
    case True
    then show ?thesis using r' by (simp add: Let_def flip: r'_def s'_def)
  next
    case False
    note IH = Cons.IH [OF r'(1) s'(1) r'(2) s'(2), of "bl - 1"]
    have t: "0 < bl \<Longrightarrow> take (nat bl) (b # bits) = b # take (nat (bl - 1)) bits"
      by (simp add: take_Cons' nat_diff_distrib)
    have p: "0 < bl - 1 \<longleftrightarrow> 0 < bl" using False by auto
    show ?thesis using IH False unfolding p e by (auto simp: Let_def t simp flip: r'_def s'_def)
  qed
qed simp

text \<open>Euler's theorem modulo a power of two.\<close>

lemma odd_power_one:
  assumes "odd (a :: nat)" "0 < k"
  shows "a ^ 2 ^ (k - 1) mod 2 ^ k = 1"
proof -
  have "\<exists>m. a ^ 2 ^ j = 1 + 2 ^ Suc j * m" for j
  proof (induction j)
    case 0
    from assms(1) obtain m where "a = 2 * m + 1" by (rule oddE)
    then show ?case by auto
  next
    case (Suc j)
    then obtain m where m: "a ^ 2 ^ j = 1 + 2 ^ Suc j * m" by blast
    have "a ^ 2 ^ Suc j = (a ^ 2 ^ j) ^ 2" by (simp add: power_mult [symmetric] mult.commute)
    also have "\<dots> = 1 + 2 ^ Suc (Suc j) * (m + 2 ^ j * m ^ 2)"
      unfolding m by (simp add: power2_eq_square algebra_simps)
    finally show ?case by blast
  qed
  then obtain m where "a ^ 2 ^ (k - 1) = 1 + 2 ^ Suc (k - 1) * m" by blast
  moreover have "1 < (2 :: nat) ^ k" using assms(2) by (rule one_less_power [rotated]) simp
  then have "(1 + 2 ^ k * m) mod 2 ^ k = (1 :: nat)" for m by (simp only: mod_mult_self2 mod_less)
  ultimately show ?thesis using assms(2) by simp
qed

lemma odd_power_mod:
  assumes "odd (a :: nat)" "0 < k"
  shows "a ^ (e mod 2 ^ (k - 1)) mod 2 ^ k = a ^ e mod 2 ^ k"
proof -
  have "a ^ e = (a ^ 2 ^ (k - 1)) ^ (e div 2 ^ (k - 1)) * a ^ (e mod 2 ^ (k - 1))"
    by (simp flip: power_mult power_add)
  also have "\<dots> mod 2 ^ k = a ^ (e mod 2 ^ (k - 1)) mod 2 ^ k"
    using odd_power_one [OF assms] by (metis mod_mult_left_eq power_mod power_one mult_1)
  finally show ?thesis by simp
qed

lemma even_power_zero:
  assumes "2 ^ t dvd (a :: nat)" "1 \<le> t" "2 ^ m \<le> e" "1 \<le> m" "k \<le> t + m"
  shows "a ^ e mod 2 ^ k = 0"
proof -
  have "m < 2 ^ m" by (rule less_exp)
  then have "t + m \<le> t * e"
  proof -
    have "m + 1 \<le> e" using \<open>m < 2 ^ m\<close> assms(3) by linarith
    then have "t * (m + 1) \<le> t * e" by (rule mult_le_mono2)
    moreover have "1 * m \<le> t * m" using assms(2) by (rule mult_le_mono1)
    ultimately show ?thesis unfolding distrib_left by linarith
  qed
  then have "k \<le> t * e" using assms(5) by linarith
  then have "2 ^ k dvd (2 ^ t :: nat) ^ e" by (simp add: le_imp_power_dvd flip: power_mult)
  also have "\<dots> dvd a ^ e" using assms(1) by (rule dvd_power_same)
  finally show ?thesis by (simp add: mod_eq_0_iff_dvd)
qed

lemma powMod2k_val:
  assumes "0 < n" "n \<le> 2 ^ 62" "0 < k" "k \<le> 64 * n" "a \<noteq> []"
  shows "\<exists>r. powMod2k_vartime n a e k = Done r \<and> length r = n \<and> limbs_val r = limbs_val a ^ be_val e mod 2 ^ k"
proof -
  define E where "E = be_val e"
  define B where "B = getBits_BE_vartime e"
  have bits: "has_nbits E B" unfolding E_def B_def by (rule getBits_BE)
  define s where "s = take n a @ replicate (n - length a) (0 :: limb)"
  define one where "one = (1 :: limb) # replicate (n - 1) 0"
  have one: "length one = n" "limbs_val one = 1 mod 2 ^ k" using assms(1,3) by (simp_all add: one_def)
  have s: "length s = n" "limbs_val s mod 2 ^ k = limbs_val a mod 2 ^ k"
    using assms(4) by (simp_all add: s_def limbs_val_append limbs_val_take mod_power_2)
  define bs where "bs = concat (map unpackLE (rev e))"
  have bs: "bits_le bs = E" "length bs = 8 * length e" by (simp_all add: bs_def E_def bits_le_exponent)
  have a0: "even (unat (a ! 0)) \<longleftrightarrow> even (limbs_val a)" using assms(5) by (cases a) simp_all
  note unfold = powMod2k_vartime_def Let_def B_def [symmetric] s_def [symmetric] one_def [symmetric] bs_def [symmetric] E_def [symmetric]
  consider "B = 0" | "B = 1" | "2 \<le> B" "even (limbs_val a)" "int k \<le> int (trailing_zeros a) + (int B - 1)"
    | "2 \<le> B" "\<not> (even (limbs_val a) \<and> int k \<le> int (trailing_zeros a) + (int B - 1))"
    by linarith
  then show ?thesis
  proof cases
    case 1
    then have "E = 0" using bits by (simp add: has_nbits_def)
    then show ?thesis unfolding unfold using 1 assms(1,5) one by simp
  next
    case 2
    then have "E = 1" using bits by (auto simp: has_nbits_def)
    then show ?thesis unfolding unfold using 2 assms(1,5) s by (simp add: limbs_simps)
  next
    case 3
    have E: "2 ^ (B - 1) \<le> E" using bits 3(1) by (auto simp: has_nbits_def)
    have "limbs_val a ^ E mod 2 ^ k = 0"
    proof (cases "limbs_val a = 0")
      case True
      then show ?thesis using E by (cases "E = 0") (simp_all add: zero_power)
    next
      case False
      have t: "2 ^ trailing_zeros a dvd limbs_val a" "odd (limbs_val a div 2 ^ trailing_zeros a)"
        using trailing_zeros_val [OF False] by simp_all
      then have "1 \<le> trailing_zeros a" using 3(2) by (cases "trailing_zeros a") simp_all
      then show ?thesis using 3 E t(1) by (intro even_power_zero [of "trailing_zeros a" _ "B - 1"]) auto
    qed
    then show ?thesis unfolding unfold using 3 assms(1,5) a0 by auto
  next
    case 4
    define bl where "bl = (if odd (limbs_val a) \<and> int k - 1 < int B - 1 + 1 then int k - 1 else int B - 1 + 1)"
    have "limbs_val a ^ bits_le (if 0 < bl then take (nat bl) bs else bs) mod 2 ^ k = limbs_val a ^ E mod 2 ^ k"
    proof (cases "odd (limbs_val a) \<and> int k - 1 < int B - 1 + 1")
      case True
      show ?thesis
      proof (cases "k = 1")
        case False
        then have "0 < bl" "nat bl = k - 1" using True assms(3) by (auto simp: bl_def)
        then show ?thesis using odd_power_mod [OF conjunct1 [OF True] assms(3), of E] by (simp add: bits_le_take bs)
      qed (use True bs in \<open>simp add: bl_def\<close>)
    next
      case False
      then have "0 < bl" "nat bl = B" using 4(1) by (auto simp: bl_def)
      moreover have "E mod 2 ^ B = E" using bits by (simp add: has_nbits_def)
      ultimately show ?thesis by (simp add: bits_le_take bs)
    qed
    moreover have "length (powMod2k_loop n k bs one s bl) = n \<and> limbs_val (powMod2k_loop n k bs one s bl) =
        1 * limbs_val a ^ bits_le (if 0 < bl then take (nat bl) bs else bs) mod 2 ^ k"
      using assms(2,4) one(1) s(1) one(2) s(2) by (rule powMod2k_loop_val)
    moreover have "powMod2k_vartime n a e k = Done (powMod2k_loop n k bs one s bl)"
      unfolding unfold a0 bl_def [symmetric] using 4 assms(1,5) by auto
    ultimately show ?thesis by (simp add: E_def)
  qed
qed

section \<open>Inverses\<close>

lemma invModBitwidth_val:
  assumes "odd (unat a)"
  shows "a * invModBitwidth a = 1"
proof -
  have e: "1 - a * (((\<lambda>x. x * (2 - a * x)) ^^ n) a) = (1 - a * a) ^ (2 ^ n)" for n
  proof (induction n)
    case (Suc n)
    let ?x = "((\<lambda>x. x * (2 - a * x)) ^^ n) a"
    have "1 - a * (((\<lambda>x. x * (2 - a * x)) ^^ Suc n) a) = (1 - a * ?x) ^ 2"
      by (simp add: power2_eq_square algebra_simps)
    also have "\<dots> = (1 - a * a) ^ (2 ^ n * 2)" unfolding Suc by (rule power_mult [symmetric])
    finally show ?case by (simp only: power_Suc mult.commute [of 2])
  qed simp
  obtain m where m: "unat a = 2 * m + 1" using assms by (rule oddE)
  have "a = 2 * of_nat m + 1"
    using arg_cong [OF m, of "of_nat :: nat \<Rightarrow> limb"] by simp
  then have "1 - a * a = 2 * (- (2 * of_nat m * of_nat m) - 2 * of_nat m)" by (simp add: algebra_simps)
  then have "(1 - a * a) ^ 64 = 2 ^ 64 * (- (2 * of_nat m * of_nat m) - 2 * of_nat m) ^ 64"
    by (simp only: power_mult_distrib)
  also have "(2 :: limb) ^ 64 = 0" by simp
  finally have "(1 - a * a) ^ (2 ^ 6) = 0" by simp
  then have "1 - a * invModBitwidth a = 0" unfolding invModBitwidth_def e .
  then show ?thesis by simp
qed

lemma negInvModWord_val:
  assumes "odd (unat a)"
  shows "a * negInvModWord a = - 1"
  using invModBitwidth_val [OF assms] by (simp add: negInvModWord_def)

lemma newton_step:
  assumes "A * X mod 2 ^ c = (1 :: int)" "w \<le> 2 * c" "U mod 2 ^ w = (2 - A * X) mod 2 ^ w" "0 < w"
  shows "A * (X * U) mod 2 ^ w = 1"
proof -
  define m where "m = A * X div 2 ^ c"
  have AX: "A * X = 1 + 2 ^ c * m" using div_mult_mod_eq [of "A * X" "2 ^ c"] assms(1) by (simp add: m_def mult.commute add.commute)
  have "A * (X * U) mod 2 ^ w = A * X * (2 - A * X) mod 2 ^ w"
    using assms(3) by (metis mod_mult_right_eq mult.assoc)
  also have "A * X * (2 - A * X) = 1 + 2 ^ (2 * c) * (- (m * m))"
    unfolding AX by (simp add: algebra_simps power2_eq_square power_mult flip: power_mult_distrib)
  also have "\<dots> mod 2 ^ w = 1 mod 2 ^ w"
  proof -
    have "(2 :: int) ^ w dvd 2 ^ (2 * c)" using assms(2) by (rule le_imp_power_dvd)
    then have "2 ^ w dvd 2 ^ (2 * c) * (- (m * m))" by (rule dvd_mult2)
    then show ?thesis by (metis add.right_neutral mod_add_right_eq mod_eq_0_iff_dvd)
  qed
  finally show ?thesis using assms(4) by simp
qed

lemma invMod2k_loop_val:
  "odd (limbs_val a) \<Longrightarrow> n \<le> 2 ^ 62 \<Longrightarrow> k \<le> 64 * n \<Longrightarrow> length x = c \<Longrightarrow> 0 < c \<Longrightarrow> c \<le> n \<Longrightarrow> a \<noteq> [] \<Longrightarrow>
    int (limbs_val a) * int (limbs_val x) mod 2 ^ (64 * c) = 1 \<Longrightarrow>
    \<exists>y. invMod2k_loop n a k x c = Done y \<and> length y \<le> n \<and> k \<le> 64 * length y \<and>
      int (limbs_val a) * int (limbs_val y) mod 2 ^ (64 * length y) = 1"
proof (induction n a k x c rule: invMod2k_loop.induct)
  case (1 n a k x c)
  show ?case
  proof (cases "k \<le> c * 64")
    case True
    then show ?thesis using 1 by (simp add: invMod2k_loop.simps [of n a k x c] mult.commute)
  next
    case False
    define w where "w = min n (2 * c)"
    have w: "c < w" "w \<le> 2 * c" "w \<le> n" "w \<le> 2 ^ 62" "c \<le> 2 ^ 62" using False "1.prems" by (auto simp: w_def)
    define t where "t = mulmod2k_vartime w x a (w * 64)"
    have t: "length t = w" "limbs_val t = limbs_val x * limbs_val a mod 2 ^ (w * 64)"
      using w(5) "1.prems"(4) by (simp_all add: t_def limbs_simps)
    have "wordsRequired64 (w * 64) \<le> w" by (simp add: wordsRequired64_le)
    moreover have "t \<noteq> []" using t(1) w(1) by auto
    ultimately obtain u where u: "submod2k_vartime w [2] t (w * 64) = Done u" "length u = w"
        "int (limbs_val u) = (int (limbs_val [2]) - int (limbs_val t)) mod 2 ^ (w * 64)"
      using submod2k_val [of "w * 64" w "[2]" t] w(1) by auto
    define x' where "x' = mulmod2k_vartime w x u (w * 64)"
    have x': "length x' = w" "limbs_val x' = limbs_val x * limbs_val u mod 2 ^ (w * 64)"
      using w(5) "1.prems"(4) by (simp_all add: x'_def limbs_simps)
    let ?A = "int (limbs_val a)" and ?X = "int (limbs_val x)"
    have U: "int (limbs_val u) mod 2 ^ (w * 64) = (2 - ?A * ?X) mod 2 ^ (w * 64)"
      unfolding u(3) t(2) by (simp add: of_nat_mod mod_simps mult.commute)
    have "?A * (?X * int (limbs_val u)) mod 2 ^ (w * 64) = 1"
      by (rule newton_step [OF "1.prems"(8) _ U]) (use w in simp_all)
    then have inv: "?A * int (limbs_val x') mod 2 ^ (64 * w) = 1"
      unfolding x'(2) by (simp add: of_nat_mod mod_simps mult.commute [of 64])
    have "invMod2k_loop n a k x c = invMod2k_loop n a k x' w"
      using False w(1) u(1) by (subst invMod2k_loop.simps) (simp add: Let_def flip: w_def t_def x'_def)
    moreover have "\<exists>y. invMod2k_loop n a k x' w = Done y \<and> length y \<le> n \<and> k \<le> 64 * length y \<and>
        ?A * int (limbs_val y) mod 2 ^ (64 * length y) = 1"
      unfolding x'_def
      by (rule "1.IH" [OF False w_def _ t_def]) (use w "1.prems" x' inv in \<open>simp_all add: x'_def\<close>)
    ultimately show ?thesis by simp
  qed
qed

lemma invMod2k_val:
  assumes "odd (limbs_val a)" "n \<le> 2 ^ 62" "k \<le> 64 * n" "0 < n" "0 < k"
  shows "\<exists>r. invMod2k_vartime n a k = Done r \<and> length r = n \<and> limbs_val a * limbs_val r mod 2 ^ k = 1"
proof -
  have a: "a \<noteq> []" using assms(1) by auto
  have a0: "odd (unat (a ! 0))" using assms(1) a by (cases a) simp_all
  let ?x = "[invModBitwidth (a ! 0)]"
  have "unat (a ! 0 * invModBitwidth (a ! 0)) = 1" unfolding invModBitwidth_val [OF a0] by simp
  then have "unat (a ! 0) * unat (invModBitwidth (a ! 0)) mod 2 ^ 64 = 1" by (simp add: unat_word_ariths)
  moreover have "limbs_val a * limbs_val ?x mod 2 ^ 64 = unat (a ! 0) * unat (invModBitwidth (a ! 0)) mod 2 ^ 64"
    using a by (cases a) (simp_all add: distrib_right mult.assoc)
  ultimately have "int (limbs_val a * limbs_val ?x mod 2 ^ 64) = 1" by (simp only: of_nat_1)
  then have "int (limbs_val a) * int (limbs_val ?x) mod 2 ^ (64 * 1) = 1"
    by (simp only: of_nat_mod of_nat_mult of_nat_power of_nat_numeral mult_1_right)
  then obtain y where y: "invMod2k_loop n a k ?x 1 = Done y" "length y \<le> n" "k \<le> 64 * length y"
      "int (limbs_val a) * int (limbs_val y) mod 2 ^ (64 * length y) = 1"
    using invMod2k_loop_val [of a n k ?x 1] assms a by auto
  have "int (limbs_val a * (limbs_val y mod 2 ^ k) mod 2 ^ k) = int (limbs_val a) * int (limbs_val y) mod 2 ^ k"
    by (simp add: of_nat_mod mod_simps)
  also have "\<dots> = (int (limbs_val a) * int (limbs_val y) mod 2 ^ (64 * length y)) mod 2 ^ k"
    using y(3) by (simp only: int_mod_power_2)
  also have "\<dots> = 1" unfolding y(4) using assms(5) by simp
  finally have "limbs_val a * (limbs_val y mod 2 ^ k) mod 2 ^ k = 1" by linarith
  then show ?thesis using y a assms(4)
    by (auto simp: invMod2k_vartime_def limbs_simps limbs_val_append)
qed

section \<open>When the inversion ends\<close>

lemma invMod2k_loop_stuck:
  "length x = c \<Longrightarrow> 0 < c \<Longrightarrow> c \<le> n \<Longrightarrow> n \<le> 2 ^ 62 \<Longrightarrow> 64 * n < k \<Longrightarrow> invMod2k_loop n a k x c = UB"
proof (induction n a k x c rule: invMod2k_loop.induct)
  case (1 n a k x c)
  define w where "w = min n (2 * c)"
  have k: "\<not> k \<le> c * 64" using "1.prems" by linarith
  show ?case
  proof (cases "w \<le> c")
    case True
    then show ?thesis using k by (subst invMod2k_loop.simps) (simp add: Let_def flip: w_def)
  next
    case False
    define t where "t = mulmod2k_vartime w x a (w * 64)"
    have t: "length t = w" using "1.prems" by (simp add: t_def limbs_simps)
    then have "t \<noteq> []" using False by auto
    moreover have "wordsRequired64 (w * 64) \<le> w" by (simp add: wordsRequired64_le)
    ultimately obtain u where u: "submod2k_vartime w [2] t (w * 64) = Done u" "length u = w"
      using submod2k_val [of "w * 64" w "[2]" t] False by auto
    have "invMod2k_loop n a k (mulmod2k_vartime w x u (w * 64)) w = UB"
      by (rule "1.IH" [OF k w_def _ t_def]) (use "1.prems" False in \<open>simp_all add: w_def limbs_simps\<close>)
    then show ?thesis using k False u(1) by (subst invMod2k_loop.simps) (simp add: Let_def flip: w_def t_def)
  qed
qed

text \<open>C19: \<^verbatim>\<open>invMod2k_vartime\<close> ends exactly when its buffer has room for \<open>k\<close> bits. With room, it returns an
  inverse of the odd number modulo the power of two, in a buffer of the same length: the number of
  correct words doubles in each round until it covers \<open>k\<close>. Without room, the number of correct words
  stops growing at the length of the buffer and the loop goes round for ever (\<open>UB\<close> in the model).\<close>

theorem invMod2k_terminates:
  assumes "odd (limbs_val a)" "0 < n" "n \<le> 2 ^ 62" "0 < k"
  shows "(k \<le> 64 * n \<longrightarrow>
      (\<exists>r. invMod2k_vartime n a k = Done r \<and> length r = n \<and> limbs_val a * limbs_val r mod 2 ^ k = 1)) \<and>
    (64 * n < k \<longrightarrow> invMod2k_vartime n a k = UB)"
proof (intro conjI impI)
  assume "k \<le> 64 * n"
  then show "\<exists>r. invMod2k_vartime n a k = Done r \<and> length r = n \<and> limbs_val a * limbs_val r mod 2 ^ k = 1"
    using assms by (intro invMod2k_val)
next
  assume "64 * n < k"
  then show "invMod2k_vartime n a k = UB"
    using assms invMod2k_loop_stuck [of "[invModBitwidth (a ! 0)]" 1 n k a] by (simp add: invMod2k_vartime_def)
qed

text \<open>3 modulo 2 to the 128, in two words and in one.\<close>

theorem invMod2k_terminates_witness:
  "(\<exists>r. invMod2k_vartime 2 [3] 128 = Done r \<and> length r = 2 \<and> 3 * limbs_val r mod 2 ^ 128 = 1) \<and>
   invMod2k_vartime 1 [3] 128 = UB"
  using invMod2k_terminates [of "[3]" 2 128] invMod2k_terminates [of "[3]" 1 128] by simp

end
