(* ===== verification/Nim_Divmod.thy ===== *)
theory Nim_Divmod
  imports Nim_Words
begin

text \<open>
  Division and reduction: \<^verbatim>\<open>constantine/math_arbitrary_precision/arithmetic/limbs_divmod_vartime.nim\<close>,
  with \<^verbatim>\<open>div2n1n_vartime\<close> of \<^verbatim>\<open>platforms/intrinsics/extended_precision_vartime.nim\<close> (its 128-bit division).
\<close>

section \<open>The code\<close>

definition div2n1n_vartime :: "limb \<Rightarrow> limb \<Rightarrow> limb \<Rightarrow> limb \<times> limb" where
  "div2n1n_vartime n_hi n_lo d =
     (let dblPrec = unat n_hi * 2 ^ 64 + unat n_lo
      in (of_nat (dblPrec div unat d), of_nat (dblPrec mod unat d)))"

text \<open>The loop that subtracts \<open>q * M\<close>: the carry, whether the words of the difference are at least those
  of \<open>M\<close>, and the difference.\<close>

fun submul_loop :: "limb \<Rightarrow> limb \<Rightarrow> bool \<Rightarrow> limb list \<Rightarrow> limb list \<Rightarrow> limb \<times> bool \<times> limb list" where
  "submul_loop q carry overM (x # a) (m # M) =
     (let (carry, qm_lo) = muladd1 q m carry;
          (borrow, d) = subB x qm_lo 0;
          carry = carry + of_nat borrow;
          overM = (if d \<noteq> m then unat m < unat d else overM);
          (carry, overM, r) = submul_loop q carry overM a M
      in (carry, overM, d # r))"
| "submul_loop q carry overM a M = (carry, overM, [])"

text \<open>The top 64 bits of the \<open>mBits\<close> bits of an array, \<open>R = mBits mod 64\<close>.\<close>

definition top_word :: "limb list \<Rightarrow> nat \<Rightarrow> limb" where
  "top_word a R =
     (if R = 0 then last a else push_bit (64 - R) (last a) OR drop_bit R (last (butlast a)))"

definition shlAddMod_multiprec_vartime :: "limb list \<Rightarrow> limb \<Rightarrow> limb list \<Rightarrow> nat \<Rightarrow> limb \<times> limb list" where
  "shlAddMod_multiprec_vartime a c M mBits =
     (let hi = last a;
          R = mBits mod 64;
          a0 = top_word a R;
          a = c # butlast a;
          a1 = top_word a R;
          m0 = top_word M R
      in if a0 \<noteq> m0 \<and> a0 = 0 \<and> unat a1 < unat m0 then (0, a)
         else
           let q = (if a0 = m0 then - 1 else fst (div2n1n_vartime a0 a1 m0) - 1);
               (carry, overM, a) = submul_loop q 0 True a M
           in if unat hi < unat carry then (q - 1, snd (add_limbs 0 a M))
              else if overM \<or> unat carry < unat hi then (q + 1, snd (sub_limbs 0 a M))
              else (q, a))"

definition shortDiv_vartime :: "limb \<Rightarrow> limb \<Rightarrow> limb \<Rightarrow> nat \<Rightarrow> limb \<times> limb" where
  "shortDiv_vartime n_hi n_lo d normFactor =
     (if normFactor = 0 then div2n1n_vartime n_hi n_lo d
      else
        let clz = 64 - normFactor;
            hi = push_bit clz n_hi OR drop_bit normFactor n_lo;
            lo = push_bit clz n_lo;
            d = push_bit clz d;
            (q, remainder) = div2n1n_vartime hi lo d
        in (q, drop_bit clz remainder))"

definition shlAddMod_vartime :: "limb list \<Rightarrow> limb \<Rightarrow> limb list \<Rightarrow> nat \<Rightarrow> limb \<times> limb list" where
  "shlAddMod_vartime a c M mBits =
     (if mBits \<le> 64 then
        let (q, remainder) = shortDiv_vartime (a ! 0) c (M ! 0) (mBits mod 64) in (q, [remainder])
      else shlAddMod_multiprec_vartime a c M mBits)"

text \<open>\<^verbatim>\<open>divRem_vartime\<close>: the quotient and the remainder, or None when it refuses its buffers. The words
  \<^verbatim>\<open>a[aOffset+1 ..]\<close> are copied before the division steps.\<close>

definition divRem_vartime ::
  "nat \<Rightarrow> nat \<Rightarrow> limb list \<Rightarrow> limb list \<Rightarrow> (limb list \<times> limb list) option outcome" where
  "divRem_vartime q_len r_len a b =
     (let aBits = getBits_LE_vartime a;
          bBits = getBits_LE_vartime b;
          aLen = wordsRequired64 aBits;
          bLen = wordsRequired64 bBits;
          rLen = bLen;
          aOffset = int (length a) - int (length b)
      in if r_len < bLen then Done None
         else if int q_len < aOffset + 1 then Done None
         else if bBits = 0 then Done None
         else if aBits < bBits
         then Done (Some (replicate q_len 0, take aLen a @ replicate (r_len - aLen) 0))
         else if aOffset + 1 < 0 \<or> r_len < length b - 1 then UB
         else
           let r = take (rLen - 1) (drop (nat (aOffset + 1)) a) @ [0];
               (q, r) = foldl (\<lambda>(q, r) c.
                   let (qi, r) = shlAddMod_vartime r c (take bLen b) bBits in (qi # q, r))
                 ([], r) (rev (take (nat (aOffset + 1)) a))
           in Done (Some (q @ replicate (q_len - nat (aOffset + 1)) 0, r @ replicate (r_len - rLen) 0)))"

text \<open>\<^verbatim>\<open>reduce_vartime\<close>: when \<^verbatim>\<open>divRem_vartime\<close> refuses, its result \<^verbatim>\<open>r\<close> is not written, which no caller
  checks.\<close>

definition reduce_vartime :: "nat \<Rightarrow> limb list \<Rightarrow> limb list \<Rightarrow> limb list outcome" where
  "reduce_vartime r_len a b =
     obind (divRem_vartime (length a - length b + 1) r_len a b) (\<lambda>qr.
       case qr of None \<Rightarrow> UB | Some (q, r) \<Rightarrow> Done r)"

section \<open>One word by one word\<close>

lemma div2n1n_val:
  assumes "unat n_hi < unat d" "div2n1n_vartime n_hi n_lo d = (q, r)"
  shows "unat q * unat d + unat r = unat n_hi * 2 ^ 64 + unat n_lo" "unat r < unat d"
    "unat q = (unat n_hi * 2 ^ 64 + unat n_lo) div unat d"
proof -
  let ?n = "unat n_hi * 2 ^ 64 + unat n_lo"
  have d: "0 < unat d" using assms(1) by simp
  have "?n < (unat n_hi + 1) * 2 ^ 64" using unat_limb_less [of n_lo] by (simp add: distrib_right)
  also have "\<dots> \<le> unat d * 2 ^ 64" using assms(1) by (intro mult_right_mono) simp_all
  finally have "?n div unat d < 2 ^ 64" by (intro less_mult_imp_div_less) (simp add: mult.commute)
  moreover have "?n mod unat d < 2 ^ 64"
    using mod_less_divisor [OF d, of ?n] unat_limb_less [of d] by (rule order.strict_trans)
  moreover have qr: "q = of_nat (?n div unat d)" "r = of_nat (?n mod unat d)"
    using assms(2) unfolding div2n1n_vartime_def Let_def by (simp_all only: prod.inject)
  ultimately have u: "unat q = ?n div unat d" "unat r = ?n mod unat d"
    unfolding qr by (simp_all only: unat_of_nat len_bit0 len_num1) (simp_all del: mod_mult_self1 mod_mult_self2)
  show "unat q = ?n div unat d" by (rule u(1))
  show "unat q * unat d + unat r = ?n" unfolding u by (rule div_mult_mod_eq)
  show "unat r < unat d" unfolding u using d by simp
qed

lemma unat_push_low:
  assumes "0 < k" "k < 64"
  shows "unat (push_bit (64 - k) (y :: limb)) = 2 ^ (64 - k) * (unat y mod 2 ^ k)"
  using unat_or_shifted [OF assms, of 0 y] by simp

lemma shortDiv_val:
  assumes "unat n_hi < unat d" "unat d < 2 ^ R \<or> R = 0" "R < 64" "shortDiv_vartime n_hi n_lo d R = (q, r)"
  shows "unat q * unat d + unat r = unat n_hi * 2 ^ 64 + unat n_lo \<and> unat r < unat d"
proof (cases "R = 0")
  case True
  then show ?thesis using div2n1n_val [OF assms(1)] assms(4) by (simp add: shortDiv_vartime_def)
next
  case False
  then have R: "0 < R" "R < 64" and d: "unat d < 2 ^ R" using assms by simp_all
  define hi lo d' where "hi = push_bit (64 - R) n_hi OR drop_bit R n_lo"
    and "lo = push_bit (64 - R) n_lo" and "d' = push_bit (64 - R) d"
  obtain r' where r': "div2n1n_vartime hi lo d' = (q, r')" "r = drop_bit (64 - R) r'"
    using assms(4) False by (auto simp: shortDiv_vartime_def Let_def hi_def lo_def d'_def split: prod.splits)
  have hi: "unat hi = unat n_lo div 2 ^ R + 2 ^ (64 - R) * unat n_hi"
    using unat_or_shifted [OF R, of n_lo n_hi] order.strict_trans [OF assms(1) d] by (simp add: hi_def or.commute)
  have lo: "unat lo = 2 ^ (64 - R) * (unat n_lo mod 2 ^ R)" by (simp only: lo_def unat_push_low [OF R])
  have d': "unat d' = 2 ^ (64 - R) * unat d" using d by (simp add: d'_def unat_push_low [OF R])
  have e: "(2 :: nat) ^ 64 = 2 ^ (64 - R) * 2 ^ R" using R(2) by (simp flip: power_add)
  have l: "unat n_lo div 2 ^ R < 2 ^ (64 - R)"
    using unat_limb_less [of n_lo] unfolding e by (rule less_mult_imp_div_less)
  have "unat hi < unat d'"
  proof -
    have "unat hi < 2 ^ (64 - R) * (unat n_hi + 1)" using l by (simp add: hi distrib_left)
    also have "\<dots> \<le> unat d'" unfolding d' using assms(1) by (intro mult_left_mono) simp_all
    finally show ?thesis .
  qed
  note v = div2n1n_val(1,2) [OF this r'(1)]
  have "unat hi * 2 ^ 64 + unat lo = 2 ^ (64 - R) * (unat n_hi * 2 ^ 64 + (2 ^ R * (unat n_lo div 2 ^ R) + unat n_lo mod 2 ^ R))"
    unfolding hi lo e by (simp only: distrib_left distrib_right mult_ac add_ac)
  then have s: "unat hi * 2 ^ 64 + unat lo = 2 ^ (64 - R) * (unat n_hi * 2 ^ 64 + unat n_lo)"
    by (simp only: mult_div_mod_eq)
  have "unat r' = 2 ^ (64 - R) * (unat n_hi * 2 ^ 64 + unat n_lo - unat q * unat d)"
    using v(1) unfolding s d' right_diff_distrib' by (simp only: mult_ac)
  then have x: "2 ^ (64 - R) dvd unat r'" by simp
  have r: "unat r = unat r' div 2 ^ (64 - R)" unfolding r'(2) unat_drop_bit_eq by (simp add: drop_bit_eq_div)
  then have rr: "unat r' = 2 ^ (64 - R) * unat r" using x by simp
  have "2 ^ (64 - R) * (unat q * unat d + unat r) = 2 ^ (64 - R) * (unat n_hi * 2 ^ 64 + unat n_lo)"
    using v(1) unfolding s d' rr by (simp only: distrib_left distrib_right mult_ac)
  moreover have "2 ^ (64 - R) * unat r < 2 ^ (64 - R) * unat d" using v(2) unfolding rr d' .
  ultimately show ?thesis by simp
qed

section \<open>Subtracting a multiple\<close>

lemma submul_loop_val:
  assumes "length a = length M" "submul_loop q c ov a M = (c', ov', r)"
  shows "length r = length a \<and>
    int (limbs_val r) = int (limbs_val a) - int (unat q) * int (limbs_val M) - int (unat c) + 2 ^ (64 * length a) * int (unat c') \<and>
    (ov' \<longleftrightarrow> (if limbs_val r = limbs_val M then ov else limbs_val M < limbs_val r))"
  using assms
proof (induction a M arbitrary: c ov c' ov' r rule: list_induct2)
  case (Cons x a m M)
  obtain hi lo where ml: "muladd1 q m c = (hi, lo)" by fastforce
  obtain bo d where sb: "subB x lo 0 = (bo, d)" by fastforce
  define ov1 where "ov1 = (if d \<noteq> m then unat m < unat d else ov)"
  obtain c2 ov2 t where l: "submul_loop q (hi + of_nat bo) ov1 a M = (c2, ov2, t)" by (metis prod_cases3)
  have res: "c' = c2" "ov' = ov2" "r = d # t" using Cons.prems(1) ml sb l by (auto simp: ov1_def)
  note v1 = muladd1_val [OF ml]
  note v2 = subB_val [OF _ sb, simplified]
  have nw: "unat (hi + of_nat bo) = unat hi + bo"
  proof (cases "bo = 0")
    case False
    then have lo: "0 < unat lo" using sb by (auto simp: subB_def split: if_splits)
    have "unat q * unat m + unat c \<le> (2 ^ 64 - 1) * (2 ^ 64 - 1) + (2 ^ 64 - 1)"
      using unat_limb_less [of q] unat_limb_less [of m] unat_limb_less [of c]
      by (intro add_mono mult_le_mono) linarith+
    then have "unat hi + 1 < 2 ^ 64" using v1 lo by simp
    then have "unat hi + bo < 2 ^ 64" using v2(2) False by simp
    then show ?thesis by (simp add: unat_word_ariths unat_of_nat)
  qed simp
  note IH = Cons.IH [OF l]
  have IHv: "int (limbs_val t) = int (limbs_val a) - int (unat q) * int (limbs_val M) - int (unat hi + bo) +
      2 ^ (64 * length a) * int (unat c2)"
    using IH unfolding nw by blast
  have "int (limbs_val (d # t)) = int (unat d) + 2 ^ 64 * int (limbs_val t)" by (simp del: of_nat_unat)
  also have "\<dots> = int (unat d) + 2 ^ 64 * (int (limbs_val a) - int (unat q) * int (limbs_val M) - int (unat hi + bo)) +
      2 ^ (64 * length (x # a)) * int (unat c2)"
    unfolding IHv by (simp add: power_add distrib_left del: of_nat_unat of_nat_add)
  also have "int (unat d) = int (unat x) - int (unat lo) + 2 ^ 64 * int bo" using v2(1) by simp
  also have "int (unat lo) = int (unat q) * int (unat m) + int (unat c) - 2 ^ 64 * int (unat hi)"
    using arg_cong [OF v1, of int] by (simp del: of_nat_unat)
  finally have val: "int (limbs_val (d # t)) = int (limbs_val (x # a)) - int (unat q) * int (limbs_val (m # M)) -
      int (unat c) + 2 ^ (64 * length (x # a)) * int (unat c2)"
    by (simp add: algebra_simps del: of_nat_unat)
  have "ov2 \<longleftrightarrow> (if limbs_val (d # t) = limbs_val (m # M) then ov else limbs_val (m # M) < limbs_val (d # t))"
  proof -
    have u: "unat d < 2 ^ 64" "unat m < 2 ^ 64" "d = m \<longleftrightarrow> unat d = unat m"
      by (rule unat_limb_less unat_limb_less word_unat_eq_iff)+
    consider "limbs_val t < limbs_val M" | "limbs_val t = limbs_val M" | "limbs_val M < limbs_val t" by linarith
    then show ?thesis
    proof cases
      case 1
      then show ?thesis using IH u(1,2) by simp
    next
      case 2
      then show ?thesis using IH u(3) by (auto simp: ov1_def)
    next
      case 3
      then show ?thesis using IH u(1,2) by simp
    qed
  qed
  then show ?case using IH val res by simp
qed auto

section \<open>One division step\<close>

lemma limbs_val_last: "a \<noteq> [] \<Longrightarrow> limbs_val a = limbs_val (butlast a) + 2 ^ (64 * (length a - 1)) * unat (last a)"
  using limbs_val_append [of "butlast a" "[last a]"] by simp

lemma top_word_val:
  assumes "2 \<le> length a" "R < 64" "s + 64 = (if R = 0 then 64 * length a else 64 * (length a - 1) + R)"
  shows "unat (top_word a R) = limbs_val a div 2 ^ s mod 2 ^ 64"
proof (cases "R = 0")
  case True
  then have "s = 64 * (length a - 1)" using assms(1,3) by simp
  then have "limbs_val a div 2 ^ s = limbs_val (drop (length a - 1) a)" by (simp add: limbs_val_drop)
  also have "drop (length a - 1) a = [last a]"
    using assms(1) by (cases a rule: rev_cases) simp_all
  finally show ?thesis using True unat_limb_small [of "last a"] by (simp add: top_word_def)
next
  case False
  define x y where "x = last (butlast a)" and "y = last a"
  obtain b where a: "a = b @ [x, y]"
  proof -
    have "a \<noteq> []" "butlast a \<noteq> []" using assms(1) by (auto simp flip: length_0_conv)
    then have "a = butlast a @ [y]" "butlast a = butlast (butlast a) @ [x]" by (simp_all add: x_def y_def)
    then have "a = (butlast (butlast a) @ [x]) @ [y]" by (simp only:)
    then show ?thesis using that by simp
  qed
  have s: "s = 64 * length b + R" using assms(1,3) False by (simp add: a)
  have "limbs_val a div 2 ^ s = (limbs_val a div 2 ^ (64 * length b)) div 2 ^ R"
    by (simp only: s power_add div_mult2_eq)
  also have "limbs_val a div 2 ^ (64 * length b) = unat x + 2 ^ 64 * unat y"
    using limbs_val_drop [of "length b" a] by (simp add: a)
  also have "(unat x + 2 ^ 64 * unat y) div 2 ^ R mod 2 ^ 64 = unat (drop_bit R x OR push_bit (64 - R) y)"
  proof -
    have R: "0 < R" "R < 64" using False assms(2) by simp_all
    have e: "(2 :: nat) ^ 64 = 2 ^ R * 2 ^ (64 - R)" using R by (simp flip: power_add)
    note u = unat_or_shifted [OF R, of x y]
    have "(unat x + 2 ^ 64 * unat y) div 2 ^ R = unat x div 2 ^ R + 2 ^ (64 - R) * unat y"
      unfolding e by (simp add: mult.assoc)
    also have "2 ^ (64 - R) * unat y = 2 ^ (64 - R) * (unat y mod 2 ^ R + 2 ^ R * (unat y div 2 ^ R))"
      by (simp only: mod_mult_div_eq)
    also have "\<dots> = 2 ^ (64 - R) * (unat y mod 2 ^ R) + 2 ^ 64 * (unat y div 2 ^ R)"
      unfolding e distrib_left by (simp only: mult.assoc mult.left_commute)
    finally have "(unat x + 2 ^ 64 * unat y) div 2 ^ R =
        unat (drop_bit R x OR push_bit (64 - R) y) + 2 ^ 64 * (unat y div 2 ^ R)"
      unfolding u by (simp only: add.assoc)
    moreover have "unat (drop_bit R x OR push_bit (64 - R) y) mod 2 ^ 64 = unat (drop_bit R x OR push_bit (64 - R) y)"
      by (rule unat_limb_small)
    ultimately show ?thesis by (simp only: mod_mult_self2)
  qed
  finally show ?thesis using False by (simp add: top_word_def x_def y_def or.commute)
qed

text \<open>The estimate of the quotient is at most one off, in numbers: \<open>X\<close> and \<open>m\<close> are the top bits of the
  dividend \<open>N\<close> and of the divisor \<open>V\<close>.\<close>

lemma estimate_max:
  assumes "m * 2 ^ s \<le> V" "V < (m + 1) * 2 ^ s" "m * 2 ^ 64 * 2 ^ s \<le> N" "N < V * 2 ^ 64" "2 ^ 63 \<le> (m :: nat)"
  shows "(2 ^ 64 - 1) * V < N + V" "N < (2 ^ 64 + 1) * V"
proof -
  have "(2 ^ 64 - 2) * V \<le> (2 ^ 64 - 2) * ((m + 1) * 2 ^ s)" using assms(2) by (intro mult_left_mono) simp_all
  also have "\<dots> = ((2 ^ 64 - 2) * (m + 1)) * 2 ^ s" by (simp only: mult.assoc)
  also have "\<dots> < m * 2 ^ 64 * 2 ^ s" using assms(5) by (intro mult_strict_right_mono) simp_all
  also note assms(3)
  finally have "(2 ^ 64 - 2) * V < N" .
  moreover have "(2 ^ 64 - 1) * V = (2 ^ 64 - 2) * V + V" by simp
  ultimately show "(2 ^ 64 - 1) * V < N + V" by linarith
  show "N < (2 ^ 64 + 1) * V" using assms(4) by (simp add: mult.commute)
qed

lemma estimate_div:
  assumes "m * 2 ^ s \<le> V" "V < (m + 1) * 2 ^ s" "X * 2 ^ s \<le> N" "N < (X + 1) * 2 ^ s" "2 ^ 63 \<le> (m :: nat)"
    "X < m * 2 ^ 64" "m \<le> X"
  shows "(X div m - 1) * V < N + V" "N < (X div m + 1) * V" "1 \<le> X div m" "X div m < 2 ^ 64"
proof -
  define p where "p = X div m"
  have m: "0 < m" using assms(5) by (auto intro: gr0I)
  show p1: "1 \<le> X div m" using assms(7) m by (simp add: div_greater_zero_iff Suc_le_eq)
  show "X div m < 2 ^ 64" using assms(6) by (intro less_mult_imp_div_less) (simp add: mult.commute)
  then have p: "1 \<le> p" "p < 2 ^ 64" "p * m \<le> X" "X < (p + 1) * m"
    using p1 m by (simp_all add: p_def dividend_less_times_div mult.commute [of "X div m"])
  show "N < (X div m + 1) * V"
  proof -
    have "N < (X + 1) * 2 ^ s" by (rule assms(4))
    also have "\<dots> \<le> ((p + 1) * m) * 2 ^ s" using p(4) by (intro mult_right_mono) simp_all
    also have "\<dots> = (p + 1) * (m * 2 ^ s)" by (simp only: mult.assoc)
    also have "\<dots> \<le> (p + 1) * V" using assms(1) by (intro mult_left_mono) simp_all
    finally show ?thesis by (simp only: p_def)
  qed
  show "(X div m - 1) * V < N + V"
  proof (cases "p = 1")
    case True
    have "0 < V" using assms(1) m by (auto intro: gr0I)
    then show ?thesis using True by (simp add: p_def)
  next
    case False
    then have k: "p = (p - 2) + 2" using p(1) by simp
    define k where "k = p - 2"
    note k = k [folded k_def]
    have "k * V \<le> k * ((m + 1) * 2 ^ s)" using assms(2) by (intro mult_left_mono) simp_all
    also have "\<dots> = (k * (m + 1)) * 2 ^ s" by (simp only: mult.assoc)
    also have "\<dots> < (p * m) * 2 ^ s" using p(2) assms(5) by (intro mult_strict_right_mono) (simp_all add: k)
    also have "\<dots> \<le> X * 2 ^ s" using p(3) by (intro mult_right_mono) simp_all
    also note assms(3)
    finally have "k * V < N" .
    moreover have "(p - 1) * V = k * V + V" by (simp add: k)
    ultimately show ?thesis by (simp add: p_def)
  qed
qed

lemma wrap_eq: "0 \<le> (t :: int) \<Longrightarrow> t < P \<Longrightarrow> t = y + P * k \<Longrightarrow> 0 \<le> y \<Longrightarrow> y < P \<Longrightarrow> t = y"
  by (metis int_mod_pow mod_pos_pos_trivial)

text \<open>The correction after the subtraction: \<open>r\<close> is the difference, \<open>carry\<close> is compared with the word \<open>hi\<close>
  that was shifted out.\<close>

lemma correction_val:
  fixes q q' hi carry :: limb
  assumes "length r = length M" "limbs_val M = V" "N < V * 2 ^ 64" "0 < V"
    "int N - int (unat q) * int V = int (limbs_val r) + 2 ^ (64 * length M) * (int (unat hi) - int (unat carry))"
    "unat q * V < N + V" "N < (unat q + 2) * V" "overM \<longleftrightarrow> V \<le> limbs_val r"
    "(q', r') = (if unat hi < unat carry then (q - 1, snd (add_limbs 0 r M))
       else if overM \<or> unat carry < unat hi then (q + 1, snd (sub_limbs 0 r M)) else (q, r))"
  shows "unat q' * V + limbs_val r' = N \<and> limbs_val r' < V \<and> length r' = length M"
proof -
  let ?P = "2 ^ (64 * length M) :: int"
  define D where "D = int (unat hi) - int (unat carry)"
  define Y where "Y = int N - int (unat q) * int V"
  have V: "int V < ?P" using limbs_val_bound [of M] assms(2) int_less_pow by simp
  have r: "0 \<le> int (limbs_val r)" "int (limbs_val r) < ?P" using limbs_val_less_int [OF assms(1)] by simp_all
  have e: "Y = int (limbs_val r) + ?P * D" using assms(5) by (simp only: D_def Y_def)
  have "int (unat q * V) < int (N + V)" "int N < int ((unat q + 2) * V)"
    using assms(6,7) by (simp_all only: of_nat_less_iff)
  then have Y: "- int V < Y" "Y < 2 * int V" by (simp_all add: Y_def distrib_right del: of_nat_unat)
  have D: "D = -1 \<or> D = 0 \<or> D = 1"
  proof -
    have "?P * (- 2) < ?P * D" "?P * D < ?P * 2" using e Y V r by linarith+
    then have "- 2 < D" "D < 2" by (simp_all only: mult_less_cancel_left_pos zero_less_power zero_less_numeral)
    then show ?thesis by linarith
  qed
  have fin: "unat q' * V + limbs_val r' = N \<and> limbs_val r' < V \<and> length r' = length M"
    if "int (limbs_val r') = Y - j * int V" "int (unat q') = int (unat q) + j" "length r' = length M"
      "Y - j * int V < int V" for j
  proof -
    have "int (unat q' * V + limbs_val r') = int N"
      using that(1,2) by (simp add: Y_def distrib_right del: of_nat_unat)
    moreover have "int (limbs_val r') < int V" using that(1,4) by simp
    ultimately show ?thesis using that(3) by (simp only: of_nat_eq_iff of_nat_less_iff)
  qed
  obtain k t where t: "add_limbs 0 r M = (k, t)" by fastforce
  obtain l u where u: "sub_limbs 0 r M = (l, u)" by fastforce
  have tv: "length t = length M" "int (limbs_val t) = int (limbs_val r) + int V + ?P * (- int k)"
  proof -
    have l: "length t = length r" "limbs_val t + 2 ^ (64 * length r) * k = limbs_val r + V"
      using add_limbs_val [OF _ _ t] assms(1,2) by simp_all
    then have "int (limbs_val t + 2 ^ (64 * length r) * k) = int (limbs_val r + V)" by (simp only:)
    then show "length t = length M" "int (limbs_val t) = int (limbs_val r) + int V + ?P * (- int k)"
      using l(1) assms(1) by simp_all
  qed
  have uv: "length u = length M" "int (limbs_val u) = int (limbs_val r) - int V + ?P * int l"
    using sub_limbs_val [OF _ _ u] assms(1,2) by simp_all
  have tb: "int (limbs_val t) < ?P" "int (limbs_val u) < ?P" by (rule limbs_val_less_int tv(1) uv(1))+
  consider "D = -1" | "D = 0 \<and> V \<le> limbs_val r \<or> D = 1" | "D = 0" "limbs_val r < V" using D by linarith
  then show ?thesis
  proof cases
    case 1
    then have c: "unat hi < unat carry" by (simp add: D_def del: of_nat_unat)
    have q': "q' = q - 1" "r' = t" using assms(9) c t by simp_all
    have "Y < 0" using e 1 r by simp
    then have "q \<noteq> 0" by (auto simp: Y_def)
    then have "unat (q - 1) = unat q - 1" "0 < unat q" by (simp_all add: unat_minus_one unat_gt_0)
    then have "int (unat q') = int (unat q) + (-1)" using q'(1) by (simp add: of_nat_diff del: of_nat_unat)
    moreover have "int (limbs_val t) = Y + int V + ?P * (1 - int k)"
      using tv(2) e 1 by (simp add: right_diff_distrib)
    then have "int (limbs_val t) = Y + int V"
      by (rule wrap_eq [OF of_nat_0_le_iff tb(1)]) (use \<open>Y < 0\<close> Y V in linarith)+
    ultimately show ?thesis using fin [of "-1"] q' tv(1) \<open>Y < 0\<close> by simp
  next
    case 2
    then have "\<not> unat hi < unat carry" "overM \<or> unat carry < unat hi"
      by (auto simp: D_def assms(8) simp del: of_nat_unat)
    then have q': "q' = q + 1" "r' = u" using assms(9) u by simp_all
    have "int V \<le> Y"
    proof (cases "D = 1")
      case True
      then have "Y = int (limbs_val r) + ?P" using e by simp
      then show ?thesis using r V by linarith
    qed (use 2 e in simp)
    then have "int ((unat q + 1) * V) \<le> int N" unfolding Y_def by (simp add: distrib_right del: of_nat_unat)
    then have "(unat q + 1) * V \<le> N" by (simp only: of_nat_le_iff)
    then have "(unat q + 1) * V < 2 ^ 64 * V" using assms(3) unfolding mult.commute [of V] by (rule order.strict_trans1)
    then have "unat q + 1 < 2 ^ 64" by (simp only: mult_less_cancel2)
    then have "int (unat q') = int (unat q) + 1"
      using q'(1) by (simp add: unat_word_ariths del: of_nat_unat)
    moreover have "int (limbs_val u) = Y - int V + ?P * (int l - D)"
      using uv(2) e by (simp add: right_diff_distrib)
    then have "int (limbs_val u) = Y - int V"
      by (rule wrap_eq [OF of_nat_0_le_iff tb(2)]) (use Y V \<open>int V \<le> Y\<close> in linarith)+
    ultimately show ?thesis using fin [of 1] q' uv(1) Y(2) by simp
  next
    case 3
    then have "unat hi = unat carry" by (simp add: D_def del: of_nat_unat)
    then have "q' = q" "r' = r" using assms(9) 3(2) by (simp_all add: assms(8))
    then show ?thesis using fin [of 0] e 3 assms(1) by simp
  qed
qed

lemma shlAddMod_multiprec_val:
  assumes "length a = length M" "2 \<le> length M" "limbs_val a < limbs_val M" "64 * (length M - 1) < mb" "mb \<le> 64 * length M"
    "2 ^ (mb - 1) \<le> limbs_val M" "limbs_val M < 2 ^ mb" "shlAddMod_multiprec_vartime a c M mb = (q, r)"
  shows "unat q * limbs_val M + limbs_val r = limbs_val a * 2 ^ 64 + unat c \<and> limbs_val r < limbs_val M \<and>
    length r = length M"
proof -
  define n where "n = length M"
  define R where "R = mb mod 64"
  define s where "s = mb - 64"
  define V N where "V = limbs_val M" and "N = limbs_val a * 2 ^ 64 + unat c"
  define hi a' where "hi = last a" and "a' = c # butlast a"
  have s: "s + 64 = mb" "R < 64" "s + 64 = (if R = 0 then 64 * n else 64 * (n - 1) + R)"
  proof -
    show "s + 64 = mb" using assms(2,4) by (simp add: s_def)
    show "R < 64" by (simp add: R_def)
    obtain d where d: "mb = 64 * d + R" by (metis R_def mult_div_mod_eq)
    show "s + 64 = (if R = 0 then 64 * n else 64 * (n - 1) + R)"
      using assms(2,4,5) \<open>R < 64\<close> \<open>s + 64 = mb\<close> d by (auto simp: n_def)
  qed
  have a: "a \<noteq> []" "length a = n" "length a' = n" using assms(1,2) by (auto simp: n_def a'_def)
  have l2: "2 \<le> length a" "2 \<le> length a'" using assms(2) a(2,3) by (simp_all only: n_def)
  have N: "N = limbs_val a' + 2 ^ (64 * n) * unat hi"
  proof -
    have "(64 :: nat) + 64 * (n - 1) = 64 * n" using assms(2) by (simp add: n_def)
    then have "(2 :: nat) ^ 64 * 2 ^ (64 * (n - 1)) = 2 ^ (64 * n)" by (metis power_add)
    then show ?thesis
      using limbs_val_last [OF a(1)] by (simp add: N_def a'_def hi_def a(2) distrib_left mult.assoc mult.commute [of _ "2 ^ 64"])
  qed
  have aV: "limbs_val a + 1 \<le> V" using assms(3) by (simp add: V_def)
  have NV: "N < V * 2 ^ 64"
  proof -
    have "N < (limbs_val a + 1) * 2 ^ 64" using unat_limb_less [of c] by (simp add: N_def)
    also have "\<dots> \<le> V * 2 ^ 64" using aV by (intro mult_right_mono) simp_all
    finally show ?thesis .
  qed
  have P: "(2 :: nat) ^ mb = 2 ^ 64 * 2 ^ s" by (simp add: s(1) [symmetric] power_add)
  define X m where "X = N div 2 ^ s" and "m = V div 2 ^ s"
  have X: "X * 2 ^ s \<le> N" "N < (X + 1) * 2 ^ s"
    by (simp_all add: X_def dividend_less_times_div mult.commute [of _ "2 ^ s"])
  have m: "m * 2 ^ s \<le> V" "V < (m + 1) * 2 ^ s"
    by (simp_all add: m_def dividend_less_times_div mult.commute [of _ "2 ^ s"])
  have m64: "m < 2 ^ 64" using assms(7) unfolding P m_def V_def by (rule less_mult_imp_div_less)
  have m63: "2 ^ 63 \<le> m"
  proof -
    have "63 + s = mb - 1" using s(1) by simp
    then have "2 ^ 63 * 2 ^ s = (2 :: nat) ^ (mb - 1)" by (metis power_add)
    then have "2 ^ 63 * 2 ^ s \<le> V" using assms(6) by (simp add: V_def)
    then have "2 ^ 63 * 2 ^ s div 2 ^ s \<le> V div 2 ^ s" by (rule div_le_mono)
    then show ?thesis by (simp add: m_def)
  qed
  define a0 a1 m0 where "a0 = top_word a R" and "a1 = top_word a' R" and "m0 = top_word M R"
  have m0: "unat m0 = m"
    using top_word_val [OF assms(2) s(2) s(3) [unfolded n_def]] m64 by (simp add: m0_def m_def V_def)
  have A: "limbs_val a div 2 ^ s \<le> m" unfolding m_def V_def using assms(3) by (intro div_le_mono) simp
  have a0: "unat a0 = limbs_val a div 2 ^ s"
    using top_word_val [OF l2(1) s(2) s(3) [folded a(2)]] A m64 by (simp add: a0_def)
  have X64: "X = unat a0 * 2 ^ 64 + unat a1"
  proof -
    have "unat a1 = limbs_val a' div 2 ^ s mod 2 ^ 64"
      using top_word_val [OF l2(2) s(2) s(3) [folded a(3)]] by (simp add: a1_def)
    also have "\<dots> = X mod 2 ^ 64"
    proof -
      have "64 * n = s + (64 * n - s)" "64 \<le> 64 * n - s" using s(1) assms(5) by (simp_all add: n_def)
      then obtain k where k: "64 * n = s + (64 + k)" by (metis le_add_diff_inverse)
      have "X = limbs_val a' div 2 ^ s + 2 ^ 64 * (2 ^ k * unat hi)"
        unfolding X_def N k power_add by (simp add: mult.assoc)
      then show ?thesis by simp
    qed
    finally have a1: "unat a1 = X mod 2 ^ 64" .
    have "X div 2 ^ 64 = N div 2 ^ 64 div 2 ^ s" unfolding X_def by (simp flip: div_mult2_eq add: mult.commute)
    also have "N div 2 ^ 64 = limbs_val a" using unat_limb_small(1) [of c] by (simp add: N_def)
    finally have "unat a0 = X div 2 ^ 64" by (simp only: a0)
    then show ?thesis using a1 by (simp only: div_mult_mod_eq)
  qed
  show ?thesis
  proof (cases "a0 \<noteq> m0 \<and> a0 = 0 \<and> unat a1 < unat m0")
    case True
    have "(0, a') = (q, r)"
      using assms(8)
      unfolding shlAddMod_multiprec_vartime_def Let_def R_def [symmetric] a'_def [symmetric]
        a0_def [symmetric] a1_def [symmetric] m0_def [symmetric] if_P [OF True] .
    then have "q = 0" "r = a'" by simp_all
    have "X + 1 \<le> m" using True X64 m0 by simp
    then have "(X + 1) * 2 ^ s \<le> m * 2 ^ s" by (rule mult_right_mono) simp
    then have "N < V" using X(2) m(1) by linarith
    moreover have "V < 2 ^ (64 * n)" unfolding V_def n_def by (rule limbs_val_bound)
    ultimately have "2 ^ (64 * n) * unat hi < 2 ^ (64 * n) * 1" unfolding N by linarith
    then have "unat hi = 0" by (simp only: mult_less_cancel1) simp
    then have "N = limbs_val a'" using N by simp
    then show ?thesis using \<open>q = 0\<close> \<open>r = a'\<close> \<open>N < V\<close> a(3) by (simp add: V_def N_def n_def)
  next
    case False
    define qe where "qe = (if a0 = m0 then - 1 else fst (div2n1n_vartime a0 a1 m0) - 1)"
    obtain carry ov d where d: "submul_loop qe 0 True a' M = (carry, ov, d)" by (metis prod_cases3)
    have res: "(q, r) = (if unat hi < unat carry then (qe - 1, snd (add_limbs 0 d M))
        else if ov \<or> unat carry < unat hi then (qe + 1, snd (sub_limbs 0 d M)) else (qe, d))"
      using assms(8) False d
      unfolding shlAddMod_multiprec_vartime_def Let_def R_def [symmetric] a'_def [symmetric] hi_def [symmetric]
        a0_def [symmetric] a1_def [symmetric] m0_def [symmetric] qe_def [symmetric] by simp
    have dv: "length d = length M" "ov \<longleftrightarrow> V \<le> limbs_val d"
      "int N - int (unat qe) * int V = int (limbs_val d) + 2 ^ (64 * length M) * (int (unat hi) - int (unat carry))"
      using submul_loop_val [OF _ d] a(3) N by (auto simp: V_def n_def right_diff_distrib split: if_splits)
    have est: "unat qe * V < N + V" "N < (unat qe + 2) * V"
    proof -
      have "unat qe * V < N + V \<and> N < (unat qe + 2) * V"
      proof (cases "a0 = m0")
        case True
        then have "qe = - 1" by (simp add: qe_def)
        then have "unat qe = 2 ^ 64 - 1" by (simp add: unsigned_minus_1_eq_mask mask_eq_exp_minus_1)
        moreover have "m * 2 ^ 64 * 2 ^ s \<le> N"
        proof -
          have "m * 2 ^ 64 \<le> X" using X64 True m0 by simp
          then have "m * 2 ^ 64 * 2 ^ s \<le> X * 2 ^ s" by (rule mult_right_mono) simp
          then show ?thesis using X(1) by (rule order_trans)
        qed
        ultimately show ?thesis using estimate_max [OF m _ NV m63] by simp
      next
        case ne: False
        have "unat a0 < m" using ne A a0 m0 by (metis le_neq_implies_less word_unat_eq_iff)
        moreover have "X < m * 2 ^ 64"
        proof -
          have "X < (unat a0 + 1) * 2 ^ 64" using X64 unat_limb_less [of a1] by simp
          also have "\<dots> \<le> m * 2 ^ 64" using \<open>unat a0 < m\<close> by (intro mult_right_mono) simp_all
          finally show ?thesis .
        qed
        moreover have "m \<le> X"
        proof (cases "a0 = 0")
          case True
          then show ?thesis using False ne X64 m0 by simp
        next
          case False
          then have "1 \<le> unat a0" by (metis One_nat_def Suc_leI unat_gt_0)
          then have "1 * 2 ^ 64 \<le> unat a0 * 2 ^ 64" by (rule mult_right_mono) simp
          then show ?thesis using X64 m64 by linarith
        qed
        ultimately have e: "(X div m - 1) * V < N + V" "N < (X div m + 1) * V" "1 \<le> X div m" "X div m < 2 ^ 64"
          using estimate_div [OF m X m63] by blast+
        obtain x y where xy: "div2n1n_vartime a0 a1 m0 = (x, y)" by fastforce
        then have "unat x = X div m" using div2n1n_val(3) [of a0 m0 a1 x y] \<open>unat a0 < m\<close> m0 X64 by simp
        moreover have "qe = x - 1" using ne xy by (simp add: qe_def)
        moreover from calculation e(3) have "x \<noteq> 0" by auto
        ultimately have "unat qe = X div m - 1" by (simp add: unat_minus_one)
        moreover from this e(3) have "unat qe + 2 = X div m + 1" by linarith
        ultimately show ?thesis using e(1,2) by simp
      qed
      then show "unat qe * V < N + V" "N < (unat qe + 2) * V" by simp_all
    qed
    have "0 < V" using assms(3) by (simp add: V_def)
    have "unat q * V + limbs_val r = N \<and> limbs_val r < V \<and> length r = length M"
      by (rule correction_val [OF dv(1) _ NV \<open>0 < V\<close> dv(3) est dv(2) res]) (simp add: V_def)
    then show ?thesis by (simp add: V_def N_def)
  qed
qed

lemma shlAddMod_val:
  assumes "length a = length M" "M \<noteq> []" "limbs_val a < limbs_val M" "wordsRequired64 mb = length M"
    "2 ^ (mb - 1) \<le> limbs_val M" "limbs_val M < 2 ^ mb" "shlAddMod_vartime a c M mb = (q, r)"
  shows "unat q * limbs_val M + limbs_val r = limbs_val a * 2 ^ 64 + unat c \<and> limbs_val r < limbs_val M \<and>
    length r = length M"
proof -
  have mb: "mb \<le> 64 * length M" "64 * (length M - 1) < mb"
  proof -
    show "mb \<le> 64 * length M" using wordsRequired64_le [of mb "length M"] assms(4) by simp
    have "\<not> wordsRequired64 mb \<le> length M - 1" using assms(2,4) by (cases M) simp_all
    then show "64 * (length M - 1) < mb" by (simp only: wordsRequired64_le not_le)
  qed
  show ?thesis
  proof (cases "mb \<le> 64")
    case True
    then have "length M = 1" using mb(2) assms(2) by (cases "length M") auto
    then obtain x d where M: "M = [d]" and a: "a = [x]" using assms(1) by (auto simp: length_Suc_conv)
    obtain y where y: "shortDiv_vartime x c d (mb mod 64) = (q, y)" "r = [y]"
      using assms(7) True by (auto simp: shlAddMod_vartime_def M a split: prod.splits)
    have "unat d < 2 ^ (mb mod 64) \<or> mb mod 64 = 0"
      using assms(6) True by (cases "mb = 64") (auto simp: M)
    then have "unat q * unat d + unat y = unat x * 2 ^ 64 + unat c \<and> unat y < unat d"
      using assms(3) by (intro shortDiv_val [OF _ _ _ y(1)]) (simp_all add: M a)
    then show ?thesis using y(2) by (simp add: M a)
  next
    case False
    then have "2 \<le> length M" using mb(1) by linarith
    then show ?thesis using assms False mb by (intro shlAddMod_multiprec_val) (simp_all add: shlAddMod_vartime_def)
  qed
qed

section \<open>Division\<close>

lemma div_steps_val:
  assumes "M \<noteq> []" "wordsRequired64 mb = length M" "2 ^ (mb - 1) \<le> limbs_val M" "limbs_val M < 2 ^ mb"
  shows "length r = length M \<Longrightarrow> limbs_val r < limbs_val M \<Longrightarrow>
    foldl (\<lambda>(q, r) c. let (qi, r) = shlAddMod_vartime r c M mb in (qi # q, r)) (q, r) cs = (q', r') \<Longrightarrow>
    length r' = length M \<and> length q' = length q + length cs \<and> limbs_val r' < limbs_val M \<and>
    limbs_val q' * limbs_val M + limbs_val r' =
      (limbs_val q * limbs_val M + limbs_val r) * 2 ^ (64 * length cs) + limbs_val (rev cs)"
proof (induction cs arbitrary: q r)
  case (Cons c cs)
  obtain qi t where s: "shlAddMod_vartime r c M mb = (qi, t)" by fastforce
  note v = shlAddMod_val [OF Cons.prems(1) assms(1) Cons.prems(2) assms(2-4) s]
  have IH: "length r' = length M \<and> length q' = length (qi # q) + length cs \<and> limbs_val r' < limbs_val M \<and>
    limbs_val q' * limbs_val M + limbs_val r' =
      (limbs_val (qi # q) * limbs_val M + limbs_val t) * 2 ^ (64 * length cs) + limbs_val (rev cs)"
    using Cons.prems(3) v s by (intro Cons.IH) simp_all
  have "limbs_val (qi # q) * limbs_val M + limbs_val t = 2 ^ 64 * (limbs_val q * limbs_val M) + (unat qi * limbs_val M + limbs_val t)"
    by (simp add: distrib_right)
  also have "\<dots> = 2 ^ 64 * (limbs_val q * limbs_val M + limbs_val r) + unat c"
    using v by (simp add: distrib_left)
  finally have e: "limbs_val (qi # q) * limbs_val M + limbs_val t = 2 ^ 64 * (limbs_val q * limbs_val M + limbs_val r) + unat c" .
  have "limbs_val (rev (c # cs)) = limbs_val (rev cs) + 2 ^ (64 * length cs) * unat c"
    by (simp add: limbs_val_append)
  moreover have "(2 :: nat) ^ (64 * length (c # cs)) = 2 ^ 64 * 2 ^ (64 * length cs)" by (simp add: power_add)
  ultimately have "limbs_val q' * limbs_val M + limbs_val r' =
      (limbs_val q * limbs_val M + limbs_val r) * 2 ^ (64 * length (c # cs)) + limbs_val (rev (c # cs))"
    using IH unfolding e by (simp only: distrib_left distrib_right mult_ac add_ac)
  then show ?case using IH by simp
qed auto

text \<open>Exact results need a divisor without leading zero words.\<close>

lemma divRem_val:
  assumes "used_words b = length b" "b \<noteq> []" "length b \<le> r_len" "length a + 1 \<le> q_len + length b" "0 < q_len"
  shows "\<exists>q r. divRem_vartime q_len r_len a b = Done (Some (q, r)) \<and> length q = q_len \<and> length r = r_len \<and>
    limbs_val q = limbs_val a div limbs_val b \<and> limbs_val r = limbs_val a mod limbs_val b"
proof -
  define mb where "mb = getBits_LE_vartime b"
  have w: "wordsRequired64 mb = length b" using assms(1) by (simp add: used_words_def mb_def)
  have "mb \<noteq> 0"
  proof
    assume "mb = 0"
    then show False using w assms(2) by (simp add: wordsRequired64_eq)
  qed
  have b: "limbs_val b \<noteq> 0" "2 ^ (mb - 1) \<le> limbs_val b" "limbs_val b < 2 ^ mb"
    using getBits_LE [of b] \<open>mb \<noteq> 0\<close> by (auto simp: mb_def has_nbits_def)
  define ab where "ab = getBits_LE_vartime a"
  have wa: "wordsRequired64 ab = used_words a" by (simp add: used_words_def ab_def)
  show ?thesis
  proof (cases "ab < mb")
    case True
    have "limbs_val a < 2 ^ ab" using getBits_LE [of a] by (simp add: ab_def has_nbits_def)
    also have "\<dots> \<le> 2 ^ (mb - 1)" using True by (intro power_increasing) simp_all
    also note b(2)
    finally have lt: "limbs_val a < limbs_val b" .
    have "used_words a \<le> length b" using True wordsRequired64_le [of mb "length b"] w wa
      by (metis le_trans less_imp_le order_refl wordsRequired64_le)
    then have "length (take (used_words a) a @ replicate (r_len - used_words a) 0) = r_len"
      using assms(3) used_words_le [of a] by simp
    moreover have "limbs_val (take (used_words a) a @ replicate (r_len - used_words a) 0) = limbs_val a"
      by (simp add: limbs_val_append take_used_words)
    moreover have "divRem_vartime q_len r_len a b =
        Done (Some (replicate q_len 0, take (used_words a) a @ replicate (r_len - used_words a) 0))"
      using True assms(3,4) w wa \<open>mb \<noteq> 0\<close> by (simp add: divRem_vartime_def Let_def flip: mb_def ab_def)
    ultimately show ?thesis using lt by simp
  next
    case False
    define k where "k = length a + 1 - length b"
    have "length b \<le> length a"
    proof -
      have "\<not> wordsRequired64 ab \<le> length b - 1"
      proof
        assume "wordsRequired64 ab \<le> length b - 1"
        then have "mb \<le> 64 * (length b - 1)" using False by (simp add: wordsRequired64_le)
        then have "wordsRequired64 mb \<le> length b - 1" by (simp only: wordsRequired64_le)
        then show False using w assms(2) by (cases b) simp_all
      qed
      then show ?thesis using used_words_le [of a] by (simp add: wa)
    qed
    then have off: "int (length a) - int (length b) + 1 = int k" "k \<le> q_len" "k + (length b - 1) = length a"
      using assms(2,4) by (cases b; simp add: k_def)+
    define r0 where "r0 = take (length b - 1) (drop k a) @ [0 :: limb]"
    have r0: "length r0 = length b" "limbs_val r0 = limbs_val (drop k a)"
      using off(3) assms(2) by (cases b; auto simp: r0_def limbs_val_append)+
    have "limbs_val (drop k a) < 2 ^ (64 * (length b - 1))" using off(3) by (intro limbs_val_less) simp
    also have "\<dots> \<le> 2 ^ (mb - 1)"
    proof -
      have "\<not> wordsRequired64 mb \<le> length b - 1" using w assms(2) by (cases b) simp_all
      then have "64 * (length b - 1) < mb" by (simp only: wordsRequired64_le not_le)
      then show ?thesis by (intro power_increasing) simp_all
    qed
    also note b(2)
    finally have lt: "limbs_val r0 < limbs_val b" by (simp only: r0)
    obtain q r where qr: "foldl (\<lambda>(q, r) c. let (qi, r) = shlAddMod_vartime r c b mb in (qi # q, r))
        ([], r0) (rev (take k a)) = (q, r)" by fastforce
    have v: "length r = length b" "length q = k" "limbs_val r < limbs_val b"
      "limbs_val q * limbs_val b + limbs_val r = limbs_val (drop k a) * 2 ^ (64 * k) + limbs_val (take k a)"
      using div_steps_val [OF assms(2) w b(2,3) r0(1) lt qr] off(3) r0(2) by simp_all
    have a: "limbs_val a = limbs_val q * limbs_val b + limbs_val r"
      using limbs_val_split [of a k] v(4) by (simp add: mult.commute)
    have "divRem_vartime q_len r_len a b =
        Done (Some (q @ replicate (q_len - k) 0, r @ replicate (r_len - length b) 0))"
      using False assms(3) w qr off(2) \<open>mb \<noteq> 0\<close> unfolding divRem_vartime_def Let_def
      by (simp add: off(1) r0_def flip: mb_def ab_def)
    moreover have "limbs_val q = limbs_val a div limbs_val b" "limbs_val r = limbs_val a mod limbs_val b"
      using v(3) by (simp_all add: a)
    ultimately show ?thesis using v(1,2) off(2) assms(3) by (simp add: limbs_val_append)
  qed
qed

lemma reduce_val:
  assumes "used_words b = length b" "b \<noteq> []" "length b \<le> r_len"
  shows "\<exists>r. reduce_vartime r_len a b = Done r \<and> length r = r_len \<and> limbs_val r = limbs_val a mod limbs_val b"
proof -
  have "length a + 1 \<le> length a - length b + 1 + length b" "0 < length a - length b + 1" by simp_all
  from divRem_val [OF assms this] show ?thesis by (auto simp: reduce_vartime_def)
qed

section \<open>The division\<close>

text \<open>With a leading zero word in the divisor a word of the dividend is lost: 2 to the 64 modulo 3.\<close>

lemma reduce_leading_zero: "reduce_vartime 2 [0, 1] [3, 0] = Done [0, 0]"
proof -
  have n: "nbits 0 = 0" "nbits 1 = 1" "nbits (Suc 0) = 1" "nbits 3 = 2" by (simp_all add: nbits.simps)
  have b: "getBits_LE_vartime [0, 1] = 65" "getBits_LE_vartime [3, 0] = 2"
    by (simp_all add: getBits_LE_vartime_def n)
  have w: "wordsRequired64 65 = 2" "wordsRequired64 2 = 1" by (simp_all add: wordsRequired64_eq)
  have step: "shlAddMod_vartime [0] 0 [3] 2 = (0, [0])"
    by (simp add: shlAddMod_vartime_def shortDiv_vartime_def div2n1n_vartime_def Let_def)
  show ?thesis by (simp add: reduce_vartime_def divRem_vartime_def b w step Let_def)
qed



end
