(* ===== verification/Nim_Montgomery.thy ===== *)
theory Nim_Montgomery
  imports Nim_Mod2k Nim_Divmod
begin

text \<open>
  Montgomery arithmetic:
  \<^verbatim>\<open>constantine/math_arbitrary_precision/arithmetic/limbs_montgomery.nim\<close>. \<open>L\<close> stands for
  \<^verbatim>\<open>wordsRequired(mBits)\<close>; a procedure on views reads and writes the first \<open>L\<close> words of its arguments.
\<close>

section \<open>The code\<close>

definition oneMont_vartime :: "nat \<Rightarrow> limb list \<Rightarrow> limb list outcome" where
  "oneMont_vartime r_len M = reduce_vartime r_len (replicate (length M) 0 @ [1]) M"

text \<open>\<^verbatim>\<open>mulMont_FIPS\<close>: the products of one column that both halves accumulate, the two halves, and the
  final subtraction.\<close>

definition fips_column :: "limb list \<Rightarrow> limb list \<Rightarrow> limb list \<Rightarrow> limb list \<Rightarrow> nat \<Rightarrow> nat list \<Rightarrow> acc \<Rightarrow> acc" where
  "fips_column a b z M i js acc =
     foldl (\<lambda>acc j. mulAcc (mulAcc acc (a ! j) (b ! (i - j))) (z ! j) (M ! (i - j))) acc js"

definition fips_low :: "limb list \<Rightarrow> limb list \<Rightarrow> limb list \<Rightarrow> limb \<Rightarrow> acc \<times> limb list \<Rightarrow> nat \<Rightarrow> acc \<times> limb list" where
  "fips_low a b M m0ninv st i =
     (let (acc, z) = st;
          (t, u, v) = mulAcc (fips_column a b z M i [0..<i] acc) (a ! i) (b ! 0);
          z = z[i := v * m0ninv];
          (t, u, v) = mulAcc (t, u, v) (z ! i) (M ! 0)
      in ((0, t, u), z))"

definition fips_high :: "nat \<Rightarrow> limb list \<Rightarrow> limb list \<Rightarrow> limb list \<Rightarrow> acc \<times> limb list \<Rightarrow> nat \<Rightarrow> acc \<times> limb list" where
  "fips_high L a b M st i =
     (let (acc, z) = st;
          (t, u, v) = fips_column a b z M i [i - L + 1..<L] acc
      in ((0, t, u), z[i - L := v]))"

definition mulMont_FIPS :: "nat \<Rightarrow> limb list \<Rightarrow> limb list \<Rightarrow> limb list \<Rightarrow> limb \<Rightarrow> limb list" where
  "mulMont_FIPS L a b M m0ninv =
     (let low = foldl (fips_low a b M m0ninv) ((0, 0, 0), replicate L 0) [0..<L];
          ((t, u, v), z) = foldl (fips_high L a b M) low [L..<2 * L]
      in csub z M (v \<noteq> 0 \<or> \<not> lt z M))"

text \<open>\<^verbatim>\<open>fromMont\<close>: the inner loop over the words after the first, then one of the \<open>L\<close> turns.\<close>

fun redc_words :: "limb \<Rightarrow> limb \<Rightarrow> limb list \<Rightarrow> limb list \<Rightarrow> limb list" where
  "redc_words m C (x # t) (y # M) = (let (C, lo) = muladd2 m y C x in lo # redc_words m C t M)"
| "redc_words m C t M = [C]"

definition redc_step :: "limb list \<Rightarrow> limb \<Rightarrow> limb list \<Rightarrow> limb list" where
  "redc_step M m0ninv t =
     (let m = t ! 0 * m0ninv;
          (C, lo) = muladd1 m (M ! 0) (t ! 0)
      in redc_words m C (tl t) (tl M))"

definition fromMont :: "nat \<Rightarrow> limb list \<Rightarrow> limb list \<Rightarrow> limb \<Rightarrow> limb list" where
  "fromMont L a M m0ninv =
     (let t = (redc_step (take L M) m0ninv ^^ L) (take L a)
      in csub t M (\<not> lt t M))"

definition getMont_vartime :: "nat \<Rightarrow> limb list \<Rightarrow> limb list \<Rightarrow> limb list outcome" where
  "getMont_vartime r_len a M =
     (let L = wordsRequired64 (getBits_LE_vartime M);
          aR_len = wordsRequired64 (getBits_LE_vartime a) + L
      in obind (shiftLeft_vartime (replicate aR_len 0) a (64 * L)) (\<lambda>aR. reduce_vartime r_len aR M))"

text \<open>\<^verbatim>\<open>getWindowLen\<close> starts at 5 and decreases; \<open>getWindowLen_vartime\<close> is 1 for a single byte.\<close>

fun getWindowLen :: "nat \<Rightarrow> nat \<Rightarrow> nat \<Rightarrow> nat" where
  "getWindowLen bufLen wordLen 0 = 0"
| "getWindowLen bufLen wordLen (Suc w) =
     (if bufLen < (2 ^ Suc w + 1) * wordLen then getWindowLen bufLen wordLen w else Suc w)"

definition getWindowLen_vartime :: "nat \<Rightarrow> nat \<Rightarrow> nat \<Rightarrow> nat" where
  "getWindowLen_vartime bufLen expLen wordLen = (if expLen = 1 then 1 else getWindowLen bufLen wordLen 5)"

text \<open>The scratch space is indexed by big integers of \<open>L\<close> words; \<^verbatim>\<open>scratchspace[1+k]\<close> receives the power
  \<open>k\<close> of the base.\<close>

definition precomputeWindow ::
  "nat \<Rightarrow> limb list \<Rightarrow> limb list \<Rightarrow> limb \<Rightarrow> nat \<Rightarrow> nat \<Rightarrow> limb list" where
  "precomputeWindow L a M m0ninv windowLen =
     (if windowLen = 1 then (\<lambda>_. [])(1 := a)
      else foldl (\<lambda>scratch k. scratch(k + 1 := mulMont_FIPS L (scratch k) a M m0ninv))
             ((\<lambda>_. [])(2 := a)) [2..<2 ^ windowLen])"

definition powMontSquarings ::
  "nat \<Rightarrow> limb list \<Rightarrow> limb list \<Rightarrow> limb \<Rightarrow> nat \<Rightarrow> byte list \<Rightarrow> limb \<Rightarrow> nat \<Rightarrow>
   limb list \<times> nat \<times> byte list \<times> limb \<times> nat" where
  "powMontSquarings L a M m0ninv window exponent acc acc_len =
     (let (k, exponent, acc, acc_len) =
            (if acc_len < window then
               case exponent of
                 e # exponent \<Rightarrow> (window, exponent, push_bit 8 acc OR ucast e, acc_len + 8)
               | [] \<Rightarrow> (acc_len, [], acc, acc_len)
             else (window, exponent, acc, acc_len));
          bits = drop_bit (acc_len - k) acc AND (push_bit k 1 - 1);
          acc_len = acc_len - k
      in (((\<lambda>a. mulMont_FIPS L a a M m0ninv) ^^ k) a, unat bits, exponent, acc, acc_len))"

text \<open>The loop of \<^verbatim>\<open>powMont_vartime\<close> on the bytes of the exponent that are left; windows have at least
  one bit.\<close>

function powMont_loop ::
  "nat \<Rightarrow> limb list \<Rightarrow> limb \<Rightarrow> nat \<Rightarrow> (nat \<Rightarrow> limb list) \<Rightarrow> limb list \<Rightarrow> byte list \<Rightarrow> limb \<Rightarrow> nat \<Rightarrow> limb list" where
  "powMont_loop L M m0ninv window scratch a exponent acc acc_len =
     (if window = 0 \<or> (acc_len = 0 \<and> exponent = []) then a
      else
        let (a, bits, exponent, acc, acc_len) = powMontSquarings L a M m0ninv window exponent acc acc_len;
            a = (if bits \<noteq> 0 then mulMont_FIPS L a (scratch (if 1 < window then 1 + bits else 1)) M m0ninv else a)
        in powMont_loop L M m0ninv window scratch a exponent acc acc_len)"
  by pat_completeness auto
termination
  by (relation "measure (\<lambda>(L, M, m0ninv, window, scratch, a, exponent, acc, acc_len). 8 * length exponent + acc_len)")
    (auto simp: powMontSquarings_def Let_def split: if_splits list.splits)

declare powMont_loop.simps [simp del]

definition powMont_vartime ::
  "nat \<Rightarrow> limb list \<Rightarrow> byte list \<Rightarrow> limb list \<Rightarrow> limb list \<Rightarrow> limb \<Rightarrow> nat \<Rightarrow> limb list" where
  "powMont_vartime L a exponent M one m0ninv scratchLen =
     (let eBytes = drop_bit 3 (getBits_BE_vartime exponent + 8 - 1);
          window = getWindowLen_vartime scratchLen eBytes L;
          scratch = precomputeWindow L a M m0ninv window
      in powMont_loop L M m0ninv window scratch one (drop (length exponent - eBytes) exponent) 0 0)"

section \<open>Montgomery multiplication\<close>

lemma columns_val_exact:
  "length a + length b \<le> n \<Longrightarrow> columns_val (column_sum a b) n = limbs_val a * limbs_val b"
proof -
  assume n: "length a + length b \<le> n"
  define V where "V = columns_val (column_sum a b) n"
  have const: "columns_val (column_sum a b) (n + k) = V" for k
  proof (induction k)
    case (Suc k)
    have "column_sum a b (n + k) = 0"
      unfolding column_sum_def using n by (intro sum.neutral) (auto simp: dg_def)
    then show ?case using Suc by simp
  qed (simp add: V_def)
  define k where "k = V + limbs_val a * limbs_val b"
  have pow: "x \<le> k \<Longrightarrow> x < 2 ^ (64 * (n + k))" for x
    by (rule order.strict_trans2 [OF order.strict_trans1 [OF _ less_exp]]) (auto intro: power_increasing)
  have "V mod 2 ^ (64 * (n + k)) = limbs_val a * limbs_val b mod 2 ^ (64 * (n + k))"
    using columns_val_product [of a b "n + k"] by (simp only: const)
  then have "V = limbs_val a * limbs_val b" using pow by (simp add: k_def)
  then show ?thesis by (simp add: V_def)
qed

lemma column_sum_low: "i < length a \<Longrightarrow> i < length b \<Longrightarrow>
  column_sum a b i = (\<Sum>j<i. unat (a ! j) * unat (b ! (i - j))) + unat (a ! i) * unat (b ! 0)"
proof -
  assume i: "i < length a" "i < length b"
  have "column_sum a b i = (\<Sum>j<i. dg a j * dg b (i - j)) + dg a i * dg b 0"
    by (simp add: column_sum_def lessThan_Suc_atMost [symmetric])
  also have "(\<Sum>j<i. dg a j * dg b (i - j)) = (\<Sum>j<i. unat (a ! j) * unat (b ! (i - j)))"
    using i by (intro sum.cong) (auto simp: dg_def)
  also have "dg a i * dg b 0 = unat (a ! i) * unat (b ! 0)"
    using i by (cases b) (simp_all add: dg_def)
  finally show ?thesis .
qed

lemma column_sum_high:
  assumes "length a = L" "length b = L" "L \<le> i"
  shows "column_sum a b i = (\<Sum>j\<in>{i - L + 1..<L}. unat (a ! j) * unat (b ! (i - j)))"
proof -
  have "column_sum a b i = (\<Sum>j\<in>{i - L + 1..<L}. dg a j * dg b (i - j))"
    unfolding column_sum_def using assms by (intro sum.mono_neutral_right) (auto simp: dg_def)
  also have "\<dots> = (\<Sum>j\<in>{i - L + 1..<L}. unat (a ! j) * unat (b ! (i - j)))"
    using assms by (intro sum.cong) (auto simp: dg_def)
  finally show ?thesis .
qed

lemma fips_column_val:
  assumes "acc_val acc + (sum_list (map (\<lambda>j. unat (a ! j) * unat (b ! (i - j))) js) +
      sum_list (map (\<lambda>j. unat (z ! j) * unat (M ! (i - j))) js)) < 2 ^ 192"
  shows "acc_val (fips_column a b z M i js acc) = acc_val acc +
     (sum_list (map (\<lambda>j. unat (a ! j) * unat (b ! (i - j))) js) + sum_list (map (\<lambda>j. unat (z ! j) * unat (M ! (i - j))) js))"
  unfolding fips_column_def sum_list_addf [symmetric]
  by (rule foldl_acc) (use assms in \<open>simp_all add: sum_list_addf mulAcc_val\<close>)

lemma acc_split: "acc_val (t, u, v) = unat v + 2 ^ 64 * acc_val (0, t, u)"
  by simp

lemma acc_down: "acc_val (t, u, v) div 2 ^ 64 = acc_val (0, t, u)" "acc_val (t, u, v) mod 2 ^ 64 = unat v"
proof -
  have "(unat v + 2 ^ 64 * x) div 2 ^ 64 = x" "(unat v + 2 ^ 64 * x) mod 2 ^ 64 = unat v" for x
    using unat_limb_less [of v] by simp_all
  then show "acc_val (t, u, v) div 2 ^ 64 = acc_val (0, t, u)" "acc_val (t, u, v) mod 2 ^ 64 = unat v"
    unfolding acc_split [of t u v] by (simp_all only:)
qed

lemma mod_skip: "(x + p * k + y) mod p = (x + y) mod (p :: nat)"
  by (metis add.assoc add.commute mod_mult_self2)

text \<open>The bound of the accumulator before a column.\<close>

definition acc_small :: "nat \<Rightarrow> acc \<Rightarrow> bool" where
  "acc_small L acc \<longleftrightarrow> acc_val acc \<le> 2 * L * (2 ^ 64 - 1)"

lemma acc_small_step:
  assumes "acc_small L acc" "w \<le> L * (2 ^ 64 - 1) ^ 2" "x \<le> L * (2 ^ 64 - 1) ^ 2" "L \<le> 2 ^ 61"
  shows "acc_val acc + (w + x) < 2 ^ 192"
    "acc_val (t, u, v) = acc_val acc + (w + x) \<Longrightarrow> acc_small L (0, t, u)"
proof -
  have "acc_val acc + (w + x) \<le> 2 * L * (2 ^ 64 - 1) + (L * (2 ^ 64 - 1) ^ 2 + L * (2 ^ 64 - 1) ^ 2)"
    using assms(1-3) unfolding acc_small_def by (intro add_mono)
  also have "\<dots> = 2 * L * (2 ^ 64 - 1) * 2 ^ 64" by (simp add: power2_eq_square)
  finally have b: "acc_val acc + (w + x) \<le> 2 * L * (2 ^ 64 - 1) * 2 ^ 64" .
  also have "\<dots> \<le> 2 * 2 ^ 61 * (2 ^ 64 - 1) * 2 ^ 64" using assms(4) by (intro mult_le_mono) simp_all
  also have "\<dots> < (2 :: nat) ^ 192" by simp
  finally show "acc_val acc + (w + x) < 2 ^ 192" .
  show "acc_small L (0, t, u)" if "acc_val (t, u, v) = acc_val acc + (w + x)"
  proof -
    have "acc_val (t, u, v) div 2 ^ 64 \<le> 2 * L * (2 ^ 64 - 1) * 2 ^ 64 div 2 ^ 64"
      using b unfolding that by (rule div_le_mono)
    then show ?thesis unfolding acc_down acc_small_def by simp
  qed
qed

lemma fips_low_step:
  assumes "length a = L" "length b = L" "length M = L" "length z = L" "i < L" "L \<le> 2 ^ 61" "acc_small L acc"
    "M ! 0 * m0ninv = - 1"
  shows "\<exists>acc' z'. fips_low a b M m0ninv (acc, z) i = (acc', z') \<and> length z' = L \<and> acc_small L acc' \<and>
    (\<forall>j. j \<noteq> i \<longrightarrow> z' ! j = z ! j) \<and>
    acc_val acc + (column_sum a b i + column_sum z' M i) = 2 ^ 64 * acc_val acc'"
proof -
  let ?S = "sum_list (map (\<lambda>j. unat (a ! j) * unat (b ! (i - j))) [0..<i]) +
      sum_list (map (\<lambda>j. unat (z ! j) * unat (M ! (i - j))) [0..<i])"
  obtain t u v where c: "mulAcc (fips_column a b z M i [0..<i] acc) (a ! i) (b ! 0) = (t, u, v)" by (metis prod_cases3)
  define z' where "z' = z[i := v * m0ninv]"
  obtain t' u' v' where d: "mulAcc (t, u, v) (z' ! i) (M ! 0) = (t', u', v')" by (metis prod_cases3)
  have z': "length z' = L" "\<forall>j. j \<noteq> i \<longrightarrow> z' ! j = z ! j" "z' ! i = v * m0ninv"
    using assms(4,5) by (simp_all add: z'_def)
  have S: "?S + unat (a ! i) * unat (b ! 0) + unat (z' ! i) * unat (M ! 0) = column_sum a b i + column_sum z' M i"
  proof -
    have "(\<Sum>j<i. unat (z ! j) * unat (M ! (i - j))) = (\<Sum>j<i. unat (z' ! j) * unat (M ! (i - j)))"
      using z'(2) by (intro sum.cong) auto
    then show ?thesis using assms(1-5) z'(1) by (simp add: column_sum_low sum_list_upt)
  qed
  note w = column_sum_le(1) [of a b i] column_sum_le(2) [of z' M i]
  note sm = acc_small_step [OF assms(7) w [unfolded assms(1,3)] assms(6)]
  have f: "acc_val (fips_column a b z M i [0..<i] acc) = acc_val acc + ?S"
    using sm(1) S by (intro fips_column_val) linarith
  have m1: "acc_val (t, u, v) = acc_val acc + ?S + unat (a ! i) * unat (b ! 0)"
    unfolding c [symmetric] f [symmetric] using sm(1) S f by (intro mulAcc_val) linarith
  have m2: "acc_val (t', u', v') = acc_val (t, u, v) + unat (z' ! i) * unat (M ! 0)"
    unfolding d [symmetric] using sm(1) S m1 by (intro mulAcc_val) linarith
  have tot: "acc_val (t', u', v') = acc_val acc + (column_sum a b i + column_sum z' M i)"
    using m1 m2 S by linarith
  have "v' = 0"
  proof -
    have "v + z' ! i * M ! 0 = 0" using assms(8) z'(3) by (simp add: mult.assoc mult.commute [of m0ninv])
    then have "unat (v + z' ! i * M ! 0) = 0" by simp
    then have "(unat v + unat (z' ! i) * unat (M ! 0)) mod 2 ^ 64 = 0"
      by (simp add: unat_word_ariths mod_simps)
    moreover have "acc_val (t', u', v') mod 2 ^ 64 = (unat v + unat (z' ! i) * unat (M ! 0)) mod 2 ^ 64"
      unfolding m2 acc_split [of t u v] by (rule mod_skip)
    ultimately have "unat v' = 0" by (simp only: acc_down)
    then show ?thesis by (simp only: unat_eq_zero)
  qed
  then have "acc_val (t', u', v') = 2 ^ 64 * acc_val (0, t', u')" by simp
  then show ?thesis using z' sm(2) [OF tot] tot c d by (simp add: fips_low_def Let_def flip: z'_def)
qed

lemma fips_low_val:
  assumes "length a = L" "length b = L" "length M = L" "L \<le> 2 ^ 61" "M ! 0 * m0ninv = - 1"
  shows "n \<le> L \<Longrightarrow> \<exists>acc z. foldl (fips_low a b M m0ninv) ((0, 0, 0), replicate L 0) [0..<n] = (acc, z) \<and>
    length z = L \<and> acc_small L acc \<and>
    columns_val (\<lambda>i. column_sum a b i + column_sum z M i) n = 2 ^ (64 * n) * acc_val acc"
proof (induction n)
  case (Suc n)
  then obtain acc z where IH: "foldl (fips_low a b M m0ninv) ((0, 0, 0), replicate L 0) [0..<n] = (acc, z)"
      "length z = L" "acc_small L acc"
      "columns_val (\<lambda>i. column_sum a b i + column_sum z M i) n = 2 ^ (64 * n) * acc_val acc"
    by auto
  have "n < L" using Suc.prems by simp
  from fips_low_step [OF assms(1-3) IH(2) this assms(4) IH(3) assms(5)]
  obtain acc' z' where st: "fips_low a b M m0ninv (acc, z) n = (acc', z')" "length z' = L" "acc_small L acc'"
      "\<forall>j. j \<noteq> n \<longrightarrow> z' ! j = z ! j"
      "acc_val acc + (column_sum a b n + column_sum z' M n) = 2 ^ 64 * acc_val acc'"
    by blast
  have "columns_val (\<lambda>i. column_sum a b i + column_sum z' M i) n = columns_val (\<lambda>i. column_sum a b i + column_sum z M i) n"
    unfolding columns_val_def column_sum_def
    by (intro sum.cong arg_cong2 [where f = "(*)"] arg_cong2 [where f = "(+)"] refl)
      (use st(2,4) IH(2) in \<open>auto simp: dg_def\<close>)
  then have "columns_val (\<lambda>i. column_sum a b i + column_sum z' M i) (Suc n) =
      2 ^ (64 * n) * (acc_val acc + (column_sum a b n + column_sum z' M n))"
    unfolding columns_val_Suc(2) IH(4) by (simp add: distrib_left)
  also have "\<dots> = 2 ^ (64 * Suc n) * acc_val acc'" unfolding st(5) by (simp add: power_add)
  finally show ?case using IH(1) st(1-3) by simp
qed (simp add: acc_small_def columns_val_def)

lemma fips_high_step:
  assumes "length a = L" "length b = L" "length M = L" "length z = L" "L \<le> i" "i < 2 * L" "L \<le> 2 ^ 61" "acc_small L acc"
    "\<forall>j. i - L < j \<and> j < L \<longrightarrow> z ! j = zz ! j" "length zz = L"
  shows "\<exists>acc' v. fips_high L a b M (acc, z) i = (acc', z[i - L := v]) \<and> acc_small L acc' \<and>
    acc_val acc + (column_sum a b i + column_sum zz M i) = unat v + 2 ^ 64 * acc_val acc'"
proof -
  let ?js = "[i - L + 1..<L]"
  let ?A = "sum_list (map (\<lambda>j. unat (a ! j) * unat (b ! (i - j))) ?js)"
  let ?Z = "sum_list (map (\<lambda>j. unat (z ! j) * unat (M ! (i - j))) ?js)"
  obtain t u v where c: "fips_column a b z M i ?js acc = (t, u, v)" by (metis prod_cases3)
  have A: "?A = column_sum a b i"
    unfolding column_sum_high [OF assms(1,2,5)] by (simp add: interv_sum_list_conv_sum_set_nat)
  have "?Z = (\<Sum>j\<in>{i - L + 1..<L}. unat (z ! j) * unat (M ! (i - j)))"
    by (simp add: interv_sum_list_conv_sum_set_nat)
  also have "\<dots> = column_sum zz M i"
    unfolding column_sum_high [OF assms(10,3,5)] using assms(9) by (intro sum.cong) auto
  finally have Z: "?Z = column_sum zz M i" .
  note w = column_sum_le(1) [of a b i] column_sum_le(2) [of zz M i]
  note sm = acc_small_step [OF assms(8) w [unfolded assms(1,3)] assms(7)]
  have "acc_val (t, u, v) = acc_val acc + (column_sum a b i + column_sum zz M i)"
    unfolding c [symmetric] A [symmetric] Z [symmetric] using sm(1) by (intro fips_column_val) (simp only: A Z)
  then show ?thesis using sm(2) c by (auto simp: fips_high_def Let_def)
qed

lemma fips_high_val:
  assumes "length a = L" "length b = L" "length M = L" "length zz = L" "L \<le> 2 ^ 61" "acc_small L acc0"
  shows "n \<le> L \<Longrightarrow> \<exists>acc out. foldl (fips_high L a b M) (acc0, zz) [L..<L + n] = (acc, out @ drop n zz) \<and>
    length out = n \<and> acc_small L acc \<and>
    limbs_val out + 2 ^ (64 * n) * acc_val acc =
      acc_val acc0 + columns_val (\<lambda>i. column_sum a b (L + i) + column_sum zz M (L + i)) n"
proof (induction n)
  case (Suc n)
  then obtain acc out where IH: "foldl (fips_high L a b M) (acc0, zz) [L..<L + n] = (acc, out @ drop n zz)"
      "length out = n" "acc_small L acc"
      "limbs_val out + 2 ^ (64 * n) * acc_val acc =
        acc_val acc0 + columns_val (\<lambda>i. column_sum a b (L + i) + column_sum zz M (L + i)) n"
    by auto
  let ?z = "out @ drop n zz"
  have z: "length ?z = L" "\<forall>j. L + n - L < j \<and> j < L \<longrightarrow> ?z ! j = zz ! j" "L \<le> L + n" "L + n < 2 * L"
    using Suc.prems IH(2) assms(4) by (auto simp: nth_append)
  from fips_high_step [OF assms(1-3) z(1,3,4) assms(5) IH(3) z(2) assms(4)]
  obtain acc' v where st: "fips_high L a b M (acc, ?z) (L + n) = (acc', ?z[n := v])" "acc_small L acc'"
      "acc_val acc + (column_sum a b (L + n) + column_sum zz M (L + n)) = unat v + 2 ^ 64 * acc_val acc'"
    by auto
  have "drop n zz = zz ! n # drop (Suc n) zz" using Suc.prems assms(4) by (simp add: Cons_nth_drop_Suc)
  then have up: "?z[n := v] = (out @ [v]) @ drop (Suc n) zz" using IH(2) by (simp add: list_update_append)
  have "limbs_val (out @ [v]) + 2 ^ (64 * Suc n) * acc_val acc' =
      limbs_val out + 2 ^ (64 * n) * (unat v + 2 ^ 64 * acc_val acc')"
    by (simp add: limbs_val_append IH(2) power_add distrib_left)
  also have "\<dots> = limbs_val out + 2 ^ (64 * n) * acc_val acc +
      2 ^ (64 * n) * (column_sum a b (L + n) + column_sum zz M (L + n))"
    unfolding st(3) [symmetric] by (simp add: distrib_left)
  also have "\<dots> = acc_val acc0 + columns_val (\<lambda>i. column_sum a b (L + i) + column_sum zz M (L + i)) (Suc n)"
    unfolding IH(4) columns_val_Suc(2) by simp
  finally have e: "limbs_val (out @ [v]) + 2 ^ (64 * Suc n) * acc_val acc' =
      acc_val acc0 + columns_val (\<lambda>i. column_sum a b (L + i) + column_sum zz M (L + i)) (Suc n)" .
  have f: "foldl (fips_high L a b M) (acc0, zz) [L..<L + Suc n] = (acc', (out @ [v]) @ drop (Suc n) zz)"
    using IH(1) st(1) up by simp
  show ?case
    by (intro exI [of _ acc'] exI [of _ "out @ [v]"]) (use f e st(2) IH(2) in simp)
qed (use assms(6) in simp)

lemma columns_val_shift_many: "columns_val w (m + n) = columns_val w m + 2 ^ (64 * m) * columns_val (\<lambda>i. w (m + i)) n"
  by (induction n) (simp_all add: distrib_left power_add)

lemma mulMont_val:
  assumes "length a = L" "length b = L" "length M = L" "0 < L" "L \<le> 2 ^ 61" "M ! 0 * m0ninv = - 1"
    "limbs_val a * limbs_val b < limbs_val M * 2 ^ (64 * L)"
  shows "length (mulMont_FIPS L a b M m0ninv) = L" "limbs_val (mulMont_FIPS L a b M m0ninv) < limbs_val M"
    "limbs_val (mulMont_FIPS L a b M m0ninv) * 2 ^ (64 * L) mod limbs_val M = limbs_val a * limbs_val b mod limbs_val M"
proof -
  let ?R = "2 ^ (64 * L) :: nat"
  obtain acc zz where low: "foldl (fips_low a b M m0ninv) ((0, 0, 0), replicate L 0) [0..<L] = (acc, zz)"
      "length zz = L" "acc_small L acc"
      "columns_val (\<lambda>i. column_sum a b i + column_sum zz M i) L = ?R * acc_val acc"
    using fips_low_val [OF assms(1-3,5,6), of L] by auto
  obtain acc' out where high: "foldl (fips_high L a b M) (acc, zz) [L..<L + L] = (acc', out @ drop L zz)"
      "length out = L" "acc_small L acc'"
      "limbs_val out + ?R * acc_val acc' =
        acc_val acc + columns_val (\<lambda>i. column_sum a b (L + i) + column_sum zz M (L + i)) L"
    using fips_high_val [OF assms(1-3) low(2) assms(5) low(3), of L] by auto
  have "?R * (limbs_val out + ?R * acc_val acc') = columns_val (\<lambda>i. column_sum a b i + column_sum zz M i) (L + L)"
    unfolding high(4) columns_val_shift_many low(4) by (simp add: distrib_left)
  also have "\<dots> = limbs_val a * limbs_val b + limbs_val zz * limbs_val M"
    unfolding columns_val_add using assms(1-3) low(2) by (simp add: columns_val_exact)
  finally have T: "?R * (limbs_val out + ?R * acc_val acc') = limbs_val a * limbs_val b + limbs_val zz * limbs_val M" .
  define Y where "Y = limbs_val out + ?R * acc_val acc'"
  have out: "limbs_val out < ?R" "limbs_val zz < ?R" "limbs_val M < ?R"
    using high(2) low(2) assms(3) by (simp_all add: limbs_val_less)
  have M: "0 < limbs_val M" using assms(7) by (auto intro: gr0I)
  have "?R * Y < ?R * (2 * limbs_val M)"
  proof -
    have "limbs_val zz * limbs_val M < ?R * limbs_val M" using out(2) M by (intro mult_strict_right_mono)
    moreover have "?R * (2 * limbs_val M) = limbs_val M * ?R + ?R * limbs_val M" by simp
    ultimately show ?thesis using T assms(7) by (simp only: Y_def)
  qed
  then have Y2: "Y < 2 * limbs_val M" by (simp only: mult_less_cancel1)
  obtain t u v where acc': "acc' = (t, u, v)" by (metis prod_cases3)
  have acc1: "acc_val acc' < 2"
  proof -
    have "?R * acc_val acc' < 2 * limbs_val M" using Y2 by (simp add: Y_def)
    also have "\<dots> < ?R * 2" using out(3) by simp
    finally have "?R * acc_val acc' < ?R * 2" .
    then show ?thesis by (simp only: mult_less_cancel1)
  qed
  then have v: "acc_val acc' = unat v" by (simp add: acc')
  have v0: "v \<noteq> 0 \<longleftrightarrow> acc_val acc' \<noteq> 0" unfolding v by (simp add: unat_eq_zero)
  define ctl where "ctl \<longleftrightarrow> v \<noteq> 0 \<or> \<not> lt out M"
  have ctl: "ctl \<longleftrightarrow> limbs_val M \<le> Y"
  proof (cases "acc_val acc' = 0")
    case True
    then show ?thesis using v0 high(2) assms(3) by (simp add: ctl_def lt_val Y_def not_less)
  next
    case False
    then have "acc_val acc' = 1" using acc1 by linarith
    then have "limbs_val M \<le> Y" using out(3) by (simp add: Y_def)
    then show ?thesis using v0 False by (simp add: ctl_def)
  qed
  have res: "mulMont_FIPS L a b M m0ninv = csub out M ctl"
    using low(1) high(1) low(2) by (simp add: mulMont_FIPS_def acc' ctl_def flip: mult_2)
  have c: "length (csub out M ctl) = length out"
      "limbs_val (csub out M ctl) = (if ctl then limbs_val out + 2 ^ (64 * length out) * acc_val acc' - limbs_val M else limbs_val out)"
    using csub_val [of out M ctl "acc_val acc'"] high(2) assms(3) ctl Y2 out(3) by (auto simp: Y_def)
  then show "length (mulMont_FIPS L a b M m0ninv) = L" using res high(2) by simp
  have val: "limbs_val (mulMont_FIPS L a b M m0ninv) = Y mod limbs_val M"
  proof (cases ctl)
    case True
    then have "limbs_val (csub out M ctl) = Y - limbs_val M" using c(2) high(2) by (simp add: Y_def)
    moreover have "Y mod limbs_val M = (Y - limbs_val M) mod limbs_val M" using True ctl by (simp add: le_mod_geq)
    moreover have "Y - limbs_val M < limbs_val M" using Y2 True ctl by linarith
    ultimately show ?thesis using res by simp
  next
    case False
    then have "acc_val acc' = 0" using v0 by (auto simp: ctl_def)
    then show ?thesis using False ctl c(2) res by (simp add: Y_def)
  qed
  then show "limbs_val (mulMont_FIPS L a b M m0ninv) < limbs_val M" using M by simp
  have "Y mod limbs_val M * ?R mod limbs_val M = ?R * Y mod limbs_val M"
    by (simp add: mod_mult_left_eq mult.commute)
  also have "\<dots> = limbs_val a * limbs_val b mod limbs_val M" unfolding Y_def T by simp
  finally show "limbs_val (mulMont_FIPS L a b M m0ninv) * ?R mod limbs_val M = limbs_val a * limbs_val b mod limbs_val M"
    unfolding val .
qed

section \<open>Montgomery form\<close>

definition is_mont :: "limb list \<Rightarrow> nat \<Rightarrow> limb list \<Rightarrow> bool" where
  "is_mont M x a \<longleftrightarrow> length a = length M \<and> limbs_val a = x * 2 ^ (64 * length M) mod limbs_val M"

text \<open>A modulus that the Montgomery code accepts, with its constant.\<close>

definition mont_ok :: "limb list \<Rightarrow> limb \<Rightarrow> bool" where
  "mont_ok M m0ninv \<longleftrightarrow> odd (limbs_val M) \<and> 1 < limbs_val M \<and> length M \<le> 2 ^ 60 \<and> M ! 0 * m0ninv = - 1"

lemma mont_okI: "odd (limbs_val M) \<Longrightarrow> 1 < limbs_val M \<Longrightarrow> length M \<le> 2 ^ 60 \<Longrightarrow> mont_ok M (negInvModWord (M ! 0))"
proof -
  assume a: "odd (limbs_val M)" "1 < limbs_val M" "length M \<le> 2 ^ 60"
  then have "odd (unat (M ! 0))" by (cases M) simp_all
  then show ?thesis using a negInvModWord_val by (simp add: mont_ok_def)
qed

lemma mont_ok_length: "mont_ok M m \<Longrightarrow> 0 < length M"
  by (cases M) (simp_all add: mont_ok_def)

lemma cancel_power_2:
  assumes "odd (M :: nat)" "x * 2 ^ k mod M = y * 2 ^ k mod M"
  shows "x mod M = y mod M"
proof -
  have "int x * 2 ^ k mod int M = int y * 2 ^ k mod int M"
    using arg_cong [OF assms(2), of int] by (simp add: of_nat_mod)
  then have "int M dvd (int x - int y) * 2 ^ k" by (simp only: mod_eq_dvd_iff left_diff_distrib)
  moreover have "coprime (int M) (2 ^ k)" using assms(1) by simp
  ultimately have "int M dvd int x - int y" by (simp only: coprime_dvd_mult_left_iff)
  then have "int x mod int M = int y mod int M" by (simp only: mod_eq_dvd_iff)
  then show ?thesis by (simp only: of_nat_mod [symmetric] of_nat_eq_iff)
qed

lemma is_mont_mult:
  assumes "mont_ok M m0ninv" "is_mont M x a" "is_mont M y b"
  shows "is_mont M (x * y) (mulMont_FIPS (length M) a b M m0ninv)"
proof -
  let ?R = "2 ^ (64 * length M) :: nat" and ?M = "limbs_val M"
  let ?r = "limbs_val (mulMont_FIPS (length M) a b M m0ninv)"
  have M: "odd ?M" "1 < ?M" "length M \<le> 2 ^ 61" "M ! 0 * m0ninv = - 1" using assms(1) by (simp_all add: mont_ok_def)
  have ab: "length a = length M" "limbs_val a = x * ?R mod ?M" "length b = length M" "limbs_val b = y * ?R mod ?M"
    using assms(2,3) by (simp_all add: is_mont_def)
  have lt: "limbs_val a < ?M" "limbs_val b < ?M" using ab M(2) by simp_all
  have "limbs_val b < ?R" using lt(2) limbs_val_bound [of M] by (rule order.strict_trans)
  then have "limbs_val a * limbs_val b < ?M * ?R" using lt(1) by (intro mult_strict_mono') simp_all
  note v = mulMont_val [OF ab(1,3) refl mont_ok_length [OF assms(1)] M(3,4) this]
  have "?r * ?R mod ?M = (x * ?R) * (y * ?R) mod ?M" unfolding v(3) ab(2,4) by (simp add: mod_mult_eq)
  then have "?r * ?R mod ?M = (x * y * ?R) * ?R mod ?M" by (simp only: mult_ac)
  then have "?r mod ?M = x * y * ?R mod ?M" by (rule cancel_power_2 [OF M(1)])
  then show ?thesis using v(1,2) by (simp add: is_mont_def)
qed

lemma redc_words_val:
  "length t = length M \<Longrightarrow> length (redc_words m C t M) = Suc (length t) \<and>
   limbs_val (redc_words m C t M) = unat m * limbs_val M + limbs_val t + unat C"
proof (induction t M arbitrary: C rule: list_induct2)
  case (Cons x t y M)
  obtain C' lo where l: "muladd2 m y C x = (C', lo)" by fastforce
  have "unat lo + 2 ^ 64 * (unat m * limbs_val M + limbs_val t + unat C') =
      (unat lo + 2 ^ 64 * unat C') + 2 ^ 64 * (unat m * limbs_val M) + 2 ^ 64 * limbs_val t"
    by (simp only: distrib_left add_ac)
  also have "\<dots> = unat m * limbs_val (y # M) + limbs_val (x # t) + unat C"
    unfolding muladd2_val [OF l] by (simp add: distrib_left)
  finally show ?case using Cons.IH [of C'] l by simp
qed simp

lemma redc_step_val:
  assumes "length t = length M" "M \<noteq> []" "M ! 0 * m0ninv = - 1"
  shows "\<exists>m < 2 ^ 64. length (redc_step M m0ninv t) = length M \<and>
    2 ^ 64 * limbs_val (redc_step M m0ninv t) = limbs_val t + m * limbs_val M"
proof -
  obtain x xs where t: "t = x # xs" using assms(1,2) by (cases t) auto
  obtain y ys where M: "M = y # ys" using assms(2) by (cases M) auto
  define m where "m = x * m0ninv"
  obtain C lo where l: "muladd1 m y x = (C, lo)" by fastforce
  note v = muladd1_val [OF l]
  have "y * m0ninv = - 1" using assms(3) by (simp add: M)
  then have "m * y + x = 0" by (simp add: m_def mult.assoc mult.commute [of m0ninv])
  then have "unat (m * y + x) = 0" by simp
  then have "(unat m * unat y + unat x) mod 2 ^ 64 = 0" by (simp add: unat_word_ariths mod_simps)
  then have "unat lo = 0" unfolding v [symmetric] using unat_limb_small [of lo] by simp
  then have c: "2 ^ 64 * unat C = unat m * unat y + unat x" using v by simp
  have "length xs = length ys" using assms(1) by (simp add: t M)
  note r = redc_words_val [OF this, of m C]
  have "2 ^ 64 * limbs_val (redc_words m C xs ys) = 2 ^ 64 * (unat m * limbs_val ys + limbs_val xs) + 2 ^ 64 * unat C"
    using r by (simp add: distrib_left)
  also have "\<dots> = limbs_val t + unat m * limbs_val M" unfolding c by (simp add: t M distrib_left)
  finally have "2 ^ 64 * limbs_val (redc_words m C xs ys) = limbs_val t + unat m * limbs_val M" .
  moreover have "redc_step M m0ninv t = redc_words m C xs ys" using l by (simp add: redc_step_def t M flip: m_def)
  ultimately show ?thesis using r \<open>length xs = length ys\<close> unat_limb_less [of m] by (intro exI [of _ "unat m"]) (simp add: M)
qed

lemma redc_steps_val:
  assumes "length t = length M" "M \<noteq> []" "M ! 0 * m0ninv = - 1"
  shows "\<exists>q < 2 ^ (64 * n). length ((redc_step M m0ninv ^^ n) t) = length M \<and>
    2 ^ (64 * n) * limbs_val ((redc_step M m0ninv ^^ n) t) = limbs_val t + q * limbs_val M"
proof (induction n)
  case (Suc n)
  then obtain q where q: "q < 2 ^ (64 * n)" "length ((redc_step M m0ninv ^^ n) t) = length M"
      "2 ^ (64 * n) * limbs_val ((redc_step M m0ninv ^^ n) t) = limbs_val t + q * limbs_val M"
    by blast
  from redc_step_val [OF q(2) assms(2,3)] obtain m where
    m: "m < 2 ^ 64" "length ((redc_step M m0ninv ^^ Suc n) t) = length M"
      "2 ^ 64 * limbs_val ((redc_step M m0ninv ^^ Suc n) t) = limbs_val ((redc_step M m0ninv ^^ n) t) + m * limbs_val M"
    by auto
  have p: "(2 :: nat) ^ (64 * Suc n) = 2 ^ (64 * n) * 2 ^ 64" by (simp add: power_add)
  have "2 ^ (64 * Suc n) * limbs_val ((redc_step M m0ninv ^^ Suc n) t) =
      2 ^ (64 * n) * (2 ^ 64 * limbs_val ((redc_step M m0ninv ^^ Suc n) t))"
    by (simp only: p mult.assoc)
  also have "\<dots> = limbs_val t + (q + 2 ^ (64 * n) * m) * limbs_val M"
    unfolding m(3) using q(3) by (simp add: distrib_left distrib_right)
  finally have e: "2 ^ (64 * Suc n) * limbs_val ((redc_step M m0ninv ^^ Suc n) t) =
      limbs_val t + (q + 2 ^ (64 * n) * m) * limbs_val M" .
  have "q + 2 ^ (64 * n) * m < 2 ^ (64 * n) * (1 + m)" using q(1) by (simp add: distrib_left)
  also have "\<dots> \<le> 2 ^ (64 * n) * 2 ^ 64" using m(1) by (intro mult_left_mono) simp_all
  also have "\<dots> = 2 ^ (64 * Suc n)" by (simp add: power_add)
  finally show ?case using e m(2) by blast
qed (use assms(1) in simp)

lemma fromMont_val:
  assumes "mont_ok M m0ninv" "is_mont M x a"
  shows "length (fromMont (length M) a M m0ninv) = length M" "limbs_val (fromMont (length M) a M m0ninv) = x mod limbs_val M"
proof -
  let ?R = "2 ^ (64 * length M) :: nat" and ?M = "limbs_val M"
  have M: "odd ?M" "1 < ?M" "M ! 0 * m0ninv = - 1" "M \<noteq> []"
    using assms(1) mont_ok_length [OF assms(1)] by (auto simp: mont_ok_def)
  have a: "length a = length M" "limbs_val a = x * ?R mod ?M" using assms(2) by (simp_all add: is_mont_def)
  define t where "t = (redc_step M m0ninv ^^ length M) a"
  obtain q where q: "q < ?R" "length t = length M" "?R * limbs_val t = limbs_val a + q * ?M"
    using redc_steps_val [OF a(1) M(4,3), of "length M"] by (auto simp: t_def)
  have r: "fromMont (length M) a M m0ninv = csub t M (\<not> lt t M)" using a(1) by (simp add: fromMont_def t_def Let_def)
  have c: "(\<not> lt t M) \<longleftrightarrow> ?M \<le> limbs_val t" using q(2) by (simp add: lt_val not_less)
  have "limbs_val a < ?R"
  proof -
    have "limbs_val a < ?M" unfolding a(2) using M(2) by (intro mod_less_divisor) simp
    then show ?thesis using limbs_val_bound [of M] by (rule order.strict_trans)
  qed
  then have "?R * limbs_val t < ?R * 1 + ?R * ?M"
  proof -
    have "q * ?M \<le> ?R * ?M" using q(1) by (intro mult_right_mono) simp_all
    then show ?thesis using \<open>limbs_val a < ?R\<close> unfolding q(3) by linarith
  qed
  then have "?R * limbs_val t < ?R * (1 + ?M)" by (simp only: distrib_left)
  then have t: "limbs_val t < 1 + ?M" by (simp only: mult_less_cancel1)
  then have cs: "length (csub t M (\<not> lt t M)) = length M"
      "limbs_val (csub t M (\<not> lt t M)) = (if \<not> lt t M then limbs_val t - ?M else limbs_val t)"
  proof -
    have "limbs_val t < ?M + ?R" using t limbs_val_bound [of M] M(2) by linarith
    then show "length (csub t M (\<not> lt t M)) = length M"
      "limbs_val (csub t M (\<not> lt t M)) = (if \<not> lt t M then limbs_val t - ?M else limbs_val t)"
      using csub_val [of t M "\<not> lt t M" 0] q(2) c by simp_all
  qed
  then show "length (fromMont (length M) a M m0ninv) = length M" using r by simp
  have "limbs_val (csub t M (\<not> lt t M)) = limbs_val t mod ?M"
  proof (cases "?M \<le> limbs_val t")
    case True
    then have "limbs_val t = ?M" using t by simp
    then show ?thesis using cs(2) c by simp
  qed (use cs(2) c in simp)
  moreover have "limbs_val t * ?R mod ?M = x * ?R mod ?M"
    using q(3) a(2) by (simp add: mult.commute [of _ ?R])
  then have "limbs_val t mod ?M = x mod ?M" by (rule cancel_power_2 [OF M(1)])
  ultimately show "limbs_val (fromMont (length M) a M m0ninv) = x mod ?M" using r by simp
qed

lemma oneMont_val:
  assumes "mont_ok M m0ninv" "used_words M = length M"
  shows "\<exists>r. oneMont_vartime (length M) M = Done r \<and> is_mont M 1 r"
proof -
  have "M \<noteq> []" using mont_ok_length [OF assms(1)] by simp
  from reduce_val [OF assms(2) this order_refl, of "replicate (length M) 0 @ [1]"]
  show ?thesis by (auto simp: oneMont_vartime_def is_mont_def limbs_val_append)
qed

lemma getMont_val:
  assumes "mont_ok M m0ninv" "used_words M = length M" "used_words a = length a" "a \<noteq> []"
  shows "\<exists>r. getMont_vartime (length M) a M = Done r \<and> is_mont M (limbs_val a) r"
proof -
  let ?L = "length M"
  have M: "M \<noteq> []" using mont_ok_length [OF assms(1)] by simp
  have L: "wordsRequired64 (getBits_LE_vartime M) = ?L" "wordsRequired64 (getBits_LE_vartime a) = length a"
    using assms(2,3) by (simp_all add: used_words_def)
  obtain aR where aR: "shiftLeft_vartime (replicate (length a + ?L) 0) a (64 * ?L) = Done aR"
      "limbs_val aR = 2 ^ (64 * ?L) * limbs_val a"
    using shlWords_val [of a ?L "replicate (length a + ?L) 0"] assms(4) M by auto
  from reduce_val [OF assms(2) M order_refl, of aR]
  show ?thesis using aR by (auto simp: getMont_vartime_def L is_mont_def mult.commute)
qed

text \<open>A base with a leading zero word is written past the end of its shifted copy.\<close>

lemma getMont_overrun:
  assumes "used_words a < length a" "0 < used_words a" "limbs_val M \<noteq> 0"
  shows "getMont_vartime r_len a M = UB"
proof -
  have "0 < used_words M"
  proof (rule gr0I)
    assume "used_words M = 0"
    then show False using used_words_bound [of M] assms(3) by simp
  qed
  then show ?thesis
    using assms(1,2) shlWords_overrun [of "used_words M" "replicate (used_words a + used_words M) 0" a]
    by (simp add: getMont_vartime_def Let_def flip: used_words_def)
qed

section \<open>Windows\<close>

lemma precomputeWindow_val:
  assumes "mont_ok M m0ninv" "is_mont M x a" "0 < w"
  shows "w = 1 \<Longrightarrow> precomputeWindow (length M) a M m0ninv w 1 = a"
    "1 < w \<Longrightarrow> 0 < k \<Longrightarrow> k < 2 ^ w \<Longrightarrow> is_mont M (x ^ k) (precomputeWindow (length M) a M m0ninv w (1 + k))"
proof -
  let ?f = "\<lambda>scratch k. scratch(k + 1 := mulMont_FIPS (length M) (scratch k) a M m0ninv)"
  show "w = 1 \<Longrightarrow> precomputeWindow (length M) a M m0ninv w 1 = a" by (simp add: precomputeWindow_def)
  have inv: "0 < k \<longrightarrow> k < n \<longrightarrow> is_mont M (x ^ k) (foldl ?f ((\<lambda>_. [])(2 := a)) [2..<n] (1 + k))" if "2 \<le> n" for n k
    using that
  proof (induction n arbitrary: k rule: dec_induct)
    case base
    then show ?case using assms(2) by (auto simp: less_2_cases_iff)
  next
    case (step n)
    define s where "s = foldl ?f ((\<lambda>_. [])(2 := a)) [2..<n]"
    have up: "foldl ?f ((\<lambda>_. [])(2 := a)) [2..<Suc n] = s(n + 1 := mulMont_FIPS (length M) (s n) a M m0ninv)"
      unfolding s_def using step.hyps by (simp del: fun_upd_apply)
    have "0 < n - 1" "n - 1 < n" "1 + (n - 1) = n" using step.hyps by simp_all
    then have "is_mont M (x ^ (n - 1)) (s n)" using step.IH [of "n - 1"] by (simp only: simp_thms s_def)
    then have "is_mont M (x ^ (n - 1) * x) (mulMont_FIPS (length M) (s n) a M m0ninv)"
      using assms(2) by (rule is_mont_mult [OF assms(1)])
    moreover have "x ^ (n - 1) * x = x ^ n" using step.hyps by (cases n) simp_all
    ultimately show ?case using step.IH [of k, folded s_def] unfolding up by (auto simp: less_Suc_eq)
  qed
  show "is_mont M (x ^ k) (precomputeWindow (length M) a M m0ninv w (1 + k))" if "1 < w" "0 < k" "k < 2 ^ w"
  proof -
    have "(2 :: nat) ^ 1 \<le> 2 ^ w" using assms(3) by (intro power_increasing) simp_all
    then show ?thesis using inv [of "2 ^ w" k] that by (simp add: precomputeWindow_def)
  qed
qed

lemma squarings_val:
  assumes "mont_ok M m0ninv" "is_mont M y a"
  shows "is_mont M (y ^ 2 ^ k) (((\<lambda>a. mulMont_FIPS (length M) a a M m0ninv) ^^ k) a)"
proof (induction k)
  case (Suc k)
  have "y ^ 2 ^ Suc k = y ^ 2 ^ k * y ^ 2 ^ k" by (simp add: mult_2 power_add)
  then show ?case using is_mont_mult [OF assms(1) Suc Suc] by simp
qed (use assms(2) in simp)

text \<open>\<open>acc\<close> holds the last \<open>n\<close> bits of \<open>V\<close>, the value of the bytes read so far.\<close>

definition holds :: "limb \<Rightarrow> nat \<Rightarrow> nat \<Rightarrow> bool" where
  "holds acc n V \<longleftrightarrow> unat acc mod 2 ^ n = V mod 2 ^ n"

lemma holds_bits:
  assumes "holds acc n V" "k \<le> n"
  shows "unat (drop_bit (n - k) acc AND (push_bit k 1 - 1)) = V div 2 ^ (n - k) mod 2 ^ k"
    "holds acc (n - k) V"
proof -
  have d: "x div 2 ^ (n - k) mod 2 ^ k = (x mod 2 ^ n) div 2 ^ (n - k)" for x :: nat
  proof -
    have "x mod 2 ^ n = 2 ^ (n - k) * (x div 2 ^ (n - k) mod 2 ^ k) + x mod 2 ^ (n - k)"
      using assms(2) mod_mult2_eq [of x "2 ^ (n - k)" "2 ^ k"] by (simp flip: power_add)
    then show ?thesis by simp
  qed
  have u: "unat (drop_bit (n - k) acc) = unat acc div 2 ^ (n - k)"
    unfolding unat_drop_bit_eq by (simp add: drop_bit_eq_div)
  show "unat (drop_bit (n - k) acc AND (push_bit k 1 - 1)) = V div 2 ^ (n - k) mod 2 ^ k"
    unfolding and_mask_low u d using assms(1) by (simp add: holds_def)
  show "holds acc (n - k) V"
    using assms(1) unfolding holds_def by (metis diff_le_self mod_power_2)
qed

lemma holds_byte:
  assumes "holds acc n V" "n + 8 \<le> 64"
  shows "holds (push_bit 8 acc OR ucast (e :: byte)) (n + 8) (V * 256 + unat e)"
proof -
  have "push_bit 8 acc AND ucast e = 0"
    by (rule bit_word_eqI) (auto simp: bit_and_iff bit_push_bit_iff bit_ucast_iff dest: bit_imp_le_length)
  then have "push_bit 8 acc OR ucast e = push_bit 8 acc + ucast e"
    by (simp add: disjunctive_add_eq_or)
  also have "\<dots> = of_nat (unat acc * 256 + unat e)"
    by (simp add: push_bit_eq_mult mult.commute)
  finally have w: "push_bit 8 acc OR ucast e = of_nat (unat acc * 256 + unat e)" .
  have "unat (push_bit 8 acc OR ucast e) mod 2 ^ (n + 8) = (unat acc * 256 + unat e) mod 2 ^ (n + 8)"
  proof -
    let ?y = "unat acc * 256 + unat e"
    have "unat (of_nat ?y :: limb) mod 2 ^ (n + 8) = (?y mod 2 ^ 64) mod 2 ^ (n + 8)"
      by (subst unat_of_nat) simp
    also have "\<dots> = ?y mod 2 ^ (n + 8)" using assms(2) by (rule mod_power_2)
    finally show ?thesis unfolding w .
  qed
  also have "\<dots> = (V * 256 + unat e) mod 2 ^ (n + 8)"
  proof -
    have "unat acc * 256 mod (2 ^ n * 256) = V * 256 mod (2 ^ n * 256)"
      using assms(1) by (simp only: holds_def mod_mult_mult2)
    then have "unat acc * 256 mod 2 ^ (n + 8) = V * 256 mod 2 ^ (n + 8)" by (simp add: power_add)
    then show ?thesis by (metis mod_add_left_eq)
  qed
  finally show ?thesis by (simp only: holds_def)
qed

lemma powMont_loop_val:
  assumes "mont_ok M m0ninv" "0 < w" "w \<le> 5"
    "w = 1 \<Longrightarrow> is_mont M x (scratch 1)" "\<And>k. 1 < w \<Longrightarrow> 0 < k \<Longrightarrow> k < 2 ^ w \<Longrightarrow> is_mont M (x ^ k) (scratch (1 + k))"
  shows "holds acc n V \<Longrightarrow> n < 16 \<Longrightarrow> is_mont M (x ^ (V div 2 ^ n)) a \<Longrightarrow>
    is_mont M (x ^ (V * 256 ^ length e + be_val e)) (powMont_loop (length M) M m0ninv w scratch a e acc n)"
proof (induction "8 * length e + n" arbitrary: e acc n V a rule: less_induct)
  case less
  show ?case
  proof (cases "n = 0 \<and> e = []")
    case True
    then show ?thesis using less.prems(3) by (simp add: powMont_loop.simps)
  next
    case False
    obtain a' bits e' acc' n' where s: "powMontSquarings (length M) a M m0ninv w e acc n = (a', bits, e', acc', n')"
      by (metis prod_cases5)
    define a2 where "a2 = (if bits \<noteq> 0 then mulMont_FIPS (length M) a' (scratch (if 1 < w then 1 + bits else 1)) M m0ninv else a')"
    have loop: "powMont_loop (length M) M m0ninv w scratch a e acc n = powMont_loop (length M) M m0ninv w scratch a2 e' acc' n'"
    proof -
      have "\<not> (w = 0 \<or> n = 0 \<and> e = [])" using False assms(2) by simp
      from if_not_P [OF this] show ?thesis
        unfolding powMont_loop.simps [of _ _ _ _ _ a] by (simp only: s Let_def prod.case a2_def)
    qed
    have step: "8 * length e' + n' < 8 * length e + n \<and> (\<exists>V'. holds acc' n' V' \<and> n' < 16 \<and> is_mont M (x ^ (V' div 2 ^ n')) a2 \<and>
        V' * 256 ^ length e' + be_val e' = V * 256 ^ length e + be_val e)"
      if "k \<le> w" "0 < k" "k \<le> l" "holds acc'' l V'" "V' div 2 ^ l = V div 2 ^ n" "l \<le> 16"
        "a' = ((\<lambda>a. mulMont_FIPS (length M) a a M m0ninv) ^^ k) a"
        "bits = unat (drop_bit (l - k) acc'' AND (push_bit k 1 - 1))" "acc' = acc''" "n' = l - k"
        "8 * length e' + l \<le> 8 * length e + n" "V' * 256 ^ length e' + be_val e' = V * 256 ^ length e + be_val e" for k l acc'' V'
    proof -
      note h = holds_bits [OF that(4,3)]
      have bits: "bits = V' div 2 ^ n' mod 2 ^ k" using h(1) that(8,10) by simp
      have sq: "is_mont M ((x ^ (V div 2 ^ n)) ^ 2 ^ k) a'"
        unfolding that(7) by (rule squarings_val [OF assms(1) less.prems(3)])
      have f: "V' div 2 ^ l = V' div 2 ^ n' div 2 ^ k" using that(3,10) by (simp flip: div_mult2_eq power_add)
      have e: "V' div 2 ^ n' = (V div 2 ^ n) * 2 ^ k + bits"
        unfolding bits that(5) [symmetric] f by (rule div_mult_mod_eq [symmetric])
      have "is_mont M (x ^ (V' div 2 ^ n')) a2"
      proof (cases "bits = 0")
        case True
        then show ?thesis using sq e by (simp add: a2_def power_mult)
      next
        case nz: False
        have "bits < 2 ^ k" by (simp add: bits)
        also have "\<dots> \<le> 2 ^ w" using that(1) by (intro power_increasing) simp_all
        finally have b: "bits < 2 ^ w" .
        have "is_mont M (x ^ bits) (scratch (if 1 < w then 1 + bits else 1))"
        proof (cases "1 < w")
          case True
          then show ?thesis using assms(5) [OF True _ b] nz by simp
        next
          case False
          then have "w = 1" using assms(2) by simp
          then have "bits = 1" using b nz by simp
          then show ?thesis using assms(4) [OF \<open>w = 1\<close>] \<open>w = 1\<close> by simp
        qed
        from is_mont_mult [OF assms(1) sq this] show ?thesis
          using nz unfolding e by (simp add: a2_def power_add power_mult)
      qed
      then show ?thesis using that h(2) assms(3) by auto
    qed
    have "8 * length e' + n' < 8 * length e + n \<and> (\<exists>V'. holds acc' n' V' \<and> n' < 16 \<and> is_mont M (x ^ (V' div 2 ^ n')) a2 \<and>
        V' * 256 ^ length e' + be_val e' = V * 256 ^ length e + be_val e)"
    proof (cases "n < w")
      case lt: True
      show ?thesis
      proof (cases e)
        case Nil
        show ?thesis
          by (rule step [of n n acc V]) (use s lt Nil False less.prems in \<open>auto simp: powMontSquarings_def\<close>)
      next
        case (Cons b bs)
        have "(V * 256 + unat b) div 2 ^ (n + 8) = V div 2 ^ n"
        proof -
          have "(2 :: nat) ^ (n + 8) = 256 * 2 ^ n" by (simp add: power_add)
          then have "(V * 256 + unat b) div 2 ^ (n + 8) = (V * 256 + unat b) div 256 div 2 ^ n"
            by (simp only: div_mult2_eq)
          also have "(V * 256 + unat b) div 256 = V" by simp
          finally show ?thesis .
        qed
        then show ?thesis
          by (intro step [of w "n + 8" "push_bit 8 acc OR ucast b" "V * 256 + unat b"])
            (use s lt Cons assms(2,3) less.prems holds_byte [OF less.prems(1), of b] in
              \<open>auto simp: powMontSquarings_def distrib_right\<close>)
      qed
    next
      case ge: False
      show ?thesis
        by (rule step [of w n acc V]) (use s ge assms(2) less.prems in \<open>auto simp: powMontSquarings_def\<close>)
    qed
    then obtain V' where V': "8 * length e' + n' < 8 * length e + n" "holds acc' n' V'" "n' < 16"
        "is_mont M (x ^ (V' div 2 ^ n')) a2" "V' * 256 ^ length e' + be_val e' = V * 256 ^ length e + be_val e"
      by blast
    show ?thesis using less.hyps [OF V'(1-4)] unfolding loop V'(5) .
  qed
qed

lemma be_val_drop_zeros:
  assumes "be_val e < 256 ^ n"
  shows "be_val (drop (length e - n) e) = be_val e"
proof -
  let ?k = "length e - n"
  have s: "be_val e = be_val (take ?k e) * 256 ^ length (drop ?k e) + be_val (drop ?k e)"
    using be_val_append [of "take ?k e" "drop ?k e"] by simp
  have "be_val (take ?k e) = 0"
  proof (cases "?k = 0")
    case False
    then have "length (drop ?k e) = n" by simp
    then have "be_val (take ?k e) * 256 ^ n \<le> be_val e" using s by simp
    then have "be_val (take ?k e) * 256 ^ n < 1 * 256 ^ n"
      using assms by (simp only: mult_1)
    then have "be_val (take ?k e) < 1" by (simp only: mult_less_cancel2)
    then show ?thesis by linarith
  qed simp
  then show ?thesis using s by simp
qed

lemma getWindowLen_bounds: "3 * L \<le> buf \<Longrightarrow> 0 < w \<Longrightarrow> 0 < getWindowLen buf L w \<and> getWindowLen buf L w \<le> w"
proof (induction buf L w rule: getWindowLen.induct)
  case (2 buf L w)
  show ?case using 2 by (cases w) auto
qed simp

lemma powMont_val:
  assumes "mont_ok M m0ninv" "is_mont M x a" "is_mont M 1 one" "3 * length M \<le> scratchLen"
  shows "is_mont M (x ^ be_val e) (powMont_vartime (length M) a e M one m0ninv scratchLen)"
proof -
  define eBytes where "eBytes = drop_bit 3 (getBits_BE_vartime e + 8 - 1)"
  define w where "w = getWindowLen_vartime scratchLen eBytes (length M)"
  have w: "0 < w" "w \<le> 5"
    using getWindowLen_bounds [OF assms(4), of 5] by (simp_all add: w_def getWindowLen_vartime_def)
  have "be_val e < 2 ^ getBits_BE_vartime e" using getBits_BE [of e] by (simp add: has_nbits_def)
  also have "\<dots> \<le> 2 ^ (8 * eBytes)"
    by (intro power_increasing) (simp_all add: eBytes_def drop_bit_eq_div)
  finally have "be_val e < 256 ^ eBytes" by (simp add: power_mult)
  then have d: "be_val (drop (length e - eBytes) e) = be_val e" by (rule be_val_drop_zeros)
  have "is_mont M (x ^ (0 * 256 ^ length (drop (length e - eBytes) e) + be_val (drop (length e - eBytes) e)))
      (powMont_loop (length M) M m0ninv w (precomputeWindow (length M) a M m0ninv w) one (drop (length e - eBytes) e) 0 0)"
    using precomputeWindow_val [OF assms(1,2) w(1)] assms(2,3)
    by (intro powMont_loop_val [OF assms(1) w]) (auto simp: holds_def)
  then show ?thesis
    unfolding powMont_vartime_def Let_def eBytes_def [symmetric] w_def [symmetric] by (simp add: d)
qed

section \<open>The exponentiation in the Montgomery domain\<close>

text \<open>C17: with an odd modulus and its constant, a word array \<open>a\<close> that holds \<open>x * 2^(64 n) mod M\<close> and one
  that holds \<open>2^(64 n) mod M\<close>, the fixed-window loop of \<^verbatim>\<open>powMont_vartime\<close> followed by \<^verbatim>\<open>fromMont\<close> gives
  \<open>x ^ e mod M\<close> for every exponent, leading zero bytes included, and every scratch space of at least
  three big integers, which decides the width of the window; one Montgomery multiplication of such
  arrays gives the array of the product.\<close>

theorem powMont_correct:
  assumes "mont_ok M m0ninv" "is_mont M x a" "is_mont M y b" "is_mont M 1 one" "3 * length M \<le> scratchLen"
  shows "is_mont M (x * y) (mulMont_FIPS (length M) a b M m0ninv) \<and>
    limbs_val (fromMont (length M) (powMont_vartime (length M) a e M one m0ninv scratchLen) M m0ninv) =
      x ^ be_val e mod limbs_val M"
  using is_mont_mult [OF assms(1-3)] fromMont_val(2) [OF assms(1) powMont_val [OF assms(1,2,4,5)]] by blast

text \<open>3 to the 1000 modulo 7: 2 to the 64 is 2 modulo 7, so that 3 is held as 6 and 1 as 2.\<close>

theorem powMont_correct_witness:
  "is_mont [7] (3 * 1) (mulMont_FIPS 1 [6] [2] [7] (negInvModWord 7)) \<and>
   limbs_val (fromMont 1 (powMont_vartime 1 [6] [0, 3, 232] [7] [2] (negInvModWord 7) 17) [7] (negInvModWord 7)) =
     3 ^ 1000 mod 7"
proof -
  have "mont_ok [7] (negInvModWord 7)" using mont_okI [of "[7]"] by simp
  moreover have "is_mont [7] 3 [6]" "is_mont [7] 1 [2]" by (simp_all add: is_mont_def)
  ultimately have "is_mont [7] (3 * 1) (mulMont_FIPS (length [7 :: limb]) [6] [2] [7] (negInvModWord 7)) \<and>
      limbs_val (fromMont (length [7 :: limb]) (powMont_vartime (length [7 :: limb]) [6] [0, 3, 232] [7] [2] (negInvModWord 7) 17)
        [7] (negInvModWord 7)) = 3 ^ be_val [0, 3, 232] mod limbs_val [7]"
    by (intro powMont_correct) simp_all
  moreover have "length [7 :: limb] = 1" "be_val [0, 3, 232] = 1000" "limbs_val [7] = 7" by simp_all
  ultimately show ?thesis by (simp only:)
qed

end
