(* ===== verification/Nim_PowMod.thy ===== *)
theory Nim_PowMod
  imports Nim_Montgomery
begin

text \<open>
  \<^verbatim>\<open>powMod_vartime\<close>, \<^verbatim>\<open>powOddMod_vartime\<close> and \<^verbatim>\<open>pow_vartime\<close> of
  \<^verbatim>\<open>constantine/math_arbitrary_precision/arithmetic/bigints_views.nim\<close>: the special cases, the
  shortcut without a reduction and its copy loop, odd moduli over Montgomery arithmetic, powers of
  two, and even moduli recombined from both. The theorem: with no leading zero word in the base or
  the modulus the result is the modular power. Where leading zero words lead is shown as well.
\<close>

section \<open>The code\<close>

text \<open>\<^verbatim>\<open>unpackBE\<close>: the bits of a byte, the highest first.\<close>

definition unpackBE :: "byte \<Rightarrow> bool list" where
  "unpackBE scalarByte = map (\<lambda>i. drop_bit i scalarByte AND 1 = 1) (rev [0..<8])"

text \<open>The copy loop \<^verbatim>\<open>for i in 0 ..< a.len: r[i] = a[i]\<close>, then zeros up to \<^verbatim>\<open>r.len\<close>. An index from
  \<^verbatim>\<open>r.len\<close> on is a store outside \<open>r\<close>.\<close>

definition copy_words :: "nat \<Rightarrow> limb list \<Rightarrow> limb list outcome" where
  "copy_words r_len a = (if r_len < length a then UB else Done (a @ replicate (r_len - length a) 0))"

definition pow_bit :: "nat \<Rightarrow> limb list \<Rightarrow> bool \<Rightarrow> limb list \<times> bool \<Rightarrow> (limb list \<times> bool) outcome" where
  "pow_bit r_len a bt st =
     (let (r, isOne) = st;
          r = (if \<not> isOne then square_vartime r_len r else r)
      in if bt then
           if isOne then obind (copy_words r_len a) (\<lambda>r. Done (r, False))
           else Done (prod_vartime r_len r a, isOne)
         else Done (r, isOne))"

fun pow_bits :: "nat \<Rightarrow> limb list \<Rightarrow> bool list \<Rightarrow> limb list \<times> bool \<Rightarrow> (limb list \<times> bool) outcome" where
  "pow_bits r_len a [] st = Done st"
| "pow_bits r_len a (b # bs) st = obind (pow_bit r_len a b st) (pow_bits r_len a bs)"

definition one_words :: "nat \<Rightarrow> limb list" where
  "one_words n = 1 # replicate (n - 1) 0"

definition pow_vartime :: "nat \<Rightarrow> limb list \<Rightarrow> byte list \<Rightarrow> limb list outcome" where
  "pow_vartime r_len a exponent =
     obind (pow_bits r_len a (concat (map unpackBE exponent)) (one_words r_len, True)) (\<lambda>(r, _). Done r)"

text \<open>The result of an odd modulus as the words of \<open>r\<close>: \<open>None\<close> is a word that the code does not write, as
  \<^verbatim>\<open>fromMont\<close> only writes the first \<open>L\<close> of them. Reading such a word is undefined.\<close>

definition powOddMod_vartime ::
  "nat \<Rightarrow> limb list \<Rightarrow> byte list \<Rightarrow> limb list \<Rightarrow> nat \<Rightarrow> limb option list outcome" where
  "powOddMod_vartime r_len a exponent M window =
     (let mBits = getBits_LE_vartime M;
          eBits = getBits_BE_vartime exponent
      in if eBits = 1 then obind (reduce_vartime r_len a M) (\<lambda>r. Done (map Some r))
         else
           let L = wordsRequired64 mBits;
               m0ninv = negInvModWord (M ! 0)
           in obind (getMont_vartime L a M) (\<lambda>aMont.
              obind (oneMont_vartime L (take L M)) (\<lambda>oneMont.
                let scratchLen = L * (push_bit window 1 + 1);
                    aMont = powMont_vartime L aMont exponent (take L M) oneMont m0ninv scratchLen
                in if r_len < L then UB
                   else Done (map Some (fromMont L aMont M m0ninv) @ replicate (r_len - L) None))))"

definition read_words :: "limb option list \<Rightarrow> limb list outcome" where
  "read_words ws = (if None \<in> set ws then UB else Done (map the ws))"

lemma read_words_map: "read_words (map Some ws) = Done ws"
  by (simp add: read_words_def comp_def)

text \<open>The even modulus that is no power of two; \<open>k\<close> is \<^verbatim>\<open>ctz\<close>.\<close>

definition powEvenMod ::
  "nat \<Rightarrow> limb list \<Rightarrow> byte list \<Rightarrow> limb list \<Rightarrow> nat \<Rightarrow> nat \<Rightarrow> nat \<Rightarrow> limb list outcome" where
  "powEvenMod r_len a exponent M window mBits k =
     (let qBits = mBits - k;
          kBits = 1 + k;
          qWords = wordsRequired64 qBits;
          kWords = wordsRequired64 kBits
      in obind (shiftRight_vartime qWords M k) (\<lambda>q.
         obind (obind (powOddMod_vartime qWords a exponent q window) read_words) (\<lambda>a1.
         obind (powMod2k_vartime kWords a exponent k) (\<lambda>a2.
         obind (invMod2k_vartime kWords q k) (\<lambda>qInv2k.
         obind (submod2k_vartime kWords a2 a1 k) (\<lambda>y.
           let y = mulmod2k_vartime kWords y qInv2k k;
               qy = prod_vartime (length M) q y
           in obind (addMP r_len qy a1) (\<lambda>(r, carry). Done r)))))))"

definition powMod_vartime ::
  "nat \<Rightarrow> limb list \<Rightarrow> byte list \<Rightarrow> limb list \<Rightarrow> nat \<Rightarrow> limb option list outcome" where
  "powMod_vartime r_len a exponent M window =
     (let written = map Some; mBits = getBits_LE_vartime M in
      if mBits < 2 then Done (written (replicate r_len 0))
      else let eBits = getBits_BE_vartime exponent in
      if eBits = 0 then Done (written (one_words r_len))
      else let aBits = getBits_LE_vartime a in
      if aBits < 2 then Done (written (hd a # replicate (r_len - 1) 0))
      else if eBits < 64 \<and> aBits div 2 ^ (64 - eBits) = 0 \<and> aBits * 2 ^ eBits mod 2 ^ 64 < mBits
      then obind (pow_vartime r_len a exponent) (\<lambda>r. Done (written r))
      else if odd (unat (M ! 0)) then powOddMod_vartime r_len a exponent M window
      else let k = trailing_zeros M in
      if mBits - k = 1 then obind (powMod2k_vartime r_len a exponent k) (\<lambda>r. Done (written r))
      else obind (powEvenMod r_len a exponent M window mBits k) (\<lambda>r. Done (written r)))"

section \<open>The shortcut computes the power\<close>

text \<open>The exponent read so far, as bits and as a number.\<close>

definition bits_val :: "bool list \<Rightarrow> nat" where
  "bits_val bs = foldl (\<lambda>n b. 2 * n + of_bool b) 0 bs"

lemma bits_val_acc: "foldl (\<lambda>n b. 2 * n + of_bool b) k bs = k * 2 ^ length bs + bits_val bs"
  unfolding bits_val_def
proof (induction bs arbitrary: k)
  case (Cons b bs)
  note IH = Cons.IH [of "2 * k + of_bool b"] Cons.IH [of "of_bool b"]
  show ?case by (simp add: IH distrib_right mult.assoc mult.left_commute)
qed simp

lemma bits_val_Nil [simp]: "bits_val [] = 0"
  by (simp add: bits_val_def)

lemma bits_val_Cons [simp]: "bits_val (b # bs) = of_bool b * 2 ^ length bs + bits_val bs"
proof -
  have "bits_val (b # bs) = foldl (\<lambda>n b. 2 * n + of_bool b) (of_bool b) bs"
    by (simp add: bits_val_def)
  then show ?thesis by (simp only: bits_val_acc)
qed

lemma bits_val_append: "bits_val (xs @ ys) = bits_val xs * 2 ^ length ys + bits_val ys"
  by (induction xs) (auto simp: power_add algebra_simps)

lemma length_unpackBE [simp]: "length (unpackBE b) = 8"
  by (simp add: unpackBE_def)

lemma bits_val_down: "bits_val (map (bit w) (rev [0..<n])) = take_bit n (w :: nat)"
  by (induction n) (simp_all add: take_bit_Suc_from_most mult.commute)

lemma unpackBE_val: "bits_val (unpackBE b) = unat b"
proof -
  have "unpackBE b = map (bit (unat b)) (rev [0..<8])"
    by (auto simp: unpackBE_def and_one_eq bit_iff_odd_drop_bit [of b] odd_iff_mod_2_eq_one bit_unsigned_iff)
  then have "bits_val (unpackBE b) = take_bit 8 (unat b)" by (simp only: bits_val_down)
  moreover have "unat b < 2 ^ 8" using unsigned_less [of b, where ?'a = nat] by simp
  ultimately show ?thesis by (simp add: take_bit_nat_eq_self)
qed

lemma bits_val_exponent: "bits_val (concat (map unpackBE e)) = be_val e"
proof (induction e)
  case (Cons b e)
  have "length (concat (map unpackBE e)) = 8 * length e" by (induction e) simp_all
  then show ?case using Cons by (simp add: bits_val_append unpackBE_val power_mult)
qed simp

lemma limbs_val_one [simp]: "limbs_val (one_words n) = 1"
  by (simp add: one_words_def)

text \<open>The loop state after the exponent \<open>k\<close>: before the first set bit it is 1, then the power.\<close>

definition pow_inv :: "nat \<Rightarrow> nat \<Rightarrow> nat \<Rightarrow> limb list \<times> bool \<Rightarrow> bool" where
  "pow_inv n v k st \<longleftrightarrow> length (fst st) = n \<and> limbs_val (fst st) = v ^ k \<and> (snd st \<longleftrightarrow> k = 0)"

lemma pow_bit_inv:
  assumes "n \<le> 2 ^ 62" "length a \<le> n" "limbs_val a = v" "0 < v" "pow_inv n v k st"
    "v ^ (2 * k + of_bool b) < 2 ^ (64 * n)"
  shows "\<exists>st'. pow_bit n a b st = Done st' \<and> pow_inv n v (2 * k + of_bool b) st'"
proof -
  obtain r isOne where st: "st = (r, isOne)" by (cases st)
  have r: "length r = n" "limbs_val r = v ^ k" "isOne \<longleftrightarrow> k = 0"
    using assms(5) by (simp_all add: st pow_inv_def)
  define r' where "r' = (if isOne then r else square_vartime n r)"
  have "v ^ (2 * k) \<le> v ^ (2 * k + of_bool b)" using assms(4) by (intro power_increasing) simp_all
  moreover have "limbs_val r * limbs_val r = v ^ (2 * k)"
    using r(2) by (simp add: mult_2 power_add)
  ultimately have "limbs_val r * limbs_val r < 2 ^ (64 * n)"
    using assms(6) by linarith
  then have r': "length r' = n" "limbs_val r' = v ^ (2 * k)"
    using assms(1) r by (auto simp: r'_def limbs_simps mult_2 power_add)
  show ?thesis
  proof (cases b)
    case False
    then show ?thesis using r r' by (auto simp: pow_bit_def st pow_inv_def r'_def Let_def)
  next
    case True
    show ?thesis
    proof (cases isOne)
      case True
      then show ?thesis
        using r assms(2,3) \<open>b\<close> by (simp add: pow_bit_def st pow_inv_def copy_words_def Let_def limbs_val_append)
    next
      case False
      have "limbs_val r' * limbs_val a < 2 ^ (64 * n)"
        using assms(3,6) r' \<open>b\<close> by (simp add: mult.commute)
      then show ?thesis
        using False r r' assms(1,3) \<open>b\<close>
        by (auto simp: pow_bit_def st pow_inv_def r'_def Let_def limbs_simps mult.commute)
    qed
  qed
qed

lemma le_mult_power: "(x :: nat) \<le> x * 2 ^ n"
  by simp

lemma pow_bits_inv:
  assumes "n \<le> 2 ^ 62" "length a \<le> n" "limbs_val a = v" "0 < v"
    "pow_inv n v k st" "v ^ (k * 2 ^ length bs + bits_val bs) < 2 ^ (64 * n)"
  shows "\<exists>st'. pow_bits n a bs st = Done st' \<and> pow_inv n v (k * 2 ^ length bs + bits_val bs) st'"
  using assms(5,6)
proof (induction bs arbitrary: k st)
  case (Cons b bs)
  have e: "k * 2 ^ length (b # bs) + bits_val (b # bs) = (2 * k + of_bool b) * 2 ^ length bs + bits_val bs"
    by (simp add: algebra_simps)
  have "2 * k + of_bool b \<le> (2 * k + of_bool b) * 2 ^ length bs + bits_val bs"
    by (intro trans_le_add1 le_mult_power)
  then have "v ^ (2 * k + of_bool b) \<le> v ^ ((2 * k + of_bool b) * 2 ^ length bs + bits_val bs)"
    using assms(4) by (intro power_increasing) simp_all
  then have "v ^ (2 * k + of_bool b) < 2 ^ (64 * n)" using Cons.prems(2) unfolding e by simp
  then obtain st' where "pow_bit n a b st = Done st'" "pow_inv n v (2 * k + of_bool b) st'"
    using pow_bit_inv [OF assms(1-4) Cons.prems(1)] by blast
  then show ?case using Cons.IH [of "2 * k + of_bool b" st'] Cons.prems(2) unfolding e by simp
qed simp

lemma pow_vartime_val:
  assumes "n \<le> 2 ^ 62" "length a \<le> n" "0 < n" "0 < limbs_val a" "limbs_val a ^ be_val e < 2 ^ (64 * n)"
  shows "\<exists>r. pow_vartime n a e = Done r \<and> length r = n \<and> limbs_val r = limbs_val a ^ be_val e"
proof -
  have "pow_inv n (limbs_val a) 0 (one_words n, True)"
    using assms(3) by (simp add: pow_inv_def) (simp add: one_words_def)
  then obtain st where "pow_bits n a (concat (map unpackBE e)) (one_words n, True) = Done st"
      "pow_inv n (limbs_val a) (be_val e) st"
    using pow_bits_inv [OF assms(1,2) refl assms(4), of 0 "(one_words n, True)" "concat (map unpackBE e)"] assms(5)
    by (auto simp: bits_val_exponent)
  then show ?thesis by (cases st) (simp add: pow_vartime_def pow_inv_def)
qed

text \<open>When the shortcut is taken the power is below the modulus, so no reduction is due.\<close>

lemma shortcut_small:
  assumes "has_nbits v aBits" "has_nbits k eBits" "has_nbits M mBits" "0 < M" "0 < k"
    "aBits * 2 ^ eBits < mBits"
  shows "v ^ k < M"
proof -
  have "v ^ k < (2 ^ aBits) ^ k"
    using assms(1,5) by (intro power_strict_mono) (auto simp: has_nbits_def)
  also have "\<dots> \<le> (2 ^ aBits) ^ (2 ^ eBits)"
    using assms(2) by (intro power_increasing) (simp_all add: has_nbits_def)
  also have "\<dots> = 2 ^ (aBits * 2 ^ eBits)" by (rule power_mult [symmetric])
  also have "\<dots> \<le> 2 ^ (mBits - 1)" using assms(6) by (intro power_increasing) simp_all
  also have "\<dots> \<le> M" using assms(3,4) by (simp add: has_nbits_def)
  finally show ?thesis .
qed

section \<open>Modular powers\<close>

lemma has_nbits_small: "has_nbits n k \<Longrightarrow> k < 2 \<longleftrightarrow> n < 2"
proof -
  assume h: "has_nbits n k"
  have "n < 2" if "k < 2"
  proof -
    have "(2 :: nat) ^ k \<le> 2 ^ 1" using that by (intro power_increasing) simp_all
    then show ?thesis using h by (simp add: has_nbits_def)
  qed
  moreover have "\<not> n < 2" if "\<not> k < 2"
  proof -
    have "(2 :: nat) ^ 1 \<le> 2 ^ (k - 1)" using that by (intro power_increasing) simp_all
    moreover have "n \<noteq> 0" using h that by (auto simp: has_nbits_def)
    ultimately show ?thesis using h by (simp add: has_nbits_def)
  qed
  ultimately show ?thesis by blast
qed

lemma limbs_val_hd:
  assumes "limbs_val a < 2 ^ 64" "a \<noteq> []"
  shows "limbs_val (hd a # replicate k 0) = limbs_val a"
  using assms by (cases a) auto

lemma shortcut_no_wrap:
  assumes "aBits div 2 ^ (64 - eBits) = 0" "eBits < 64"
  shows "aBits * 2 ^ eBits mod 2 ^ 64 = (aBits * 2 ^ eBits :: nat)"
proof -
  have "aBits < 2 ^ (64 - eBits)" using assms(1) by (simp add: div_eq_0_iff)
  then have "aBits * 2 ^ eBits < 2 ^ (64 - eBits) * 2 ^ eBits" by simp
  also have "\<dots> = (2 :: nat) ^ 64" using assms(2) by (simp flip: power_add)
  finally show ?thesis by simp
qed

text \<open>Odd moduli. An exponent of one bit is 1.\<close>

lemma nbits_one: "has_nbits n 1 \<Longrightarrow> n = 1"
  by (auto simp: has_nbits_def)

lemma used_words_nonempty: "used_words M = length M \<Longrightarrow> 0 < limbs_val M \<Longrightarrow> M \<noteq> []"
  by auto

lemma powOddMod_val:
  assumes "odd (limbs_val M)" "1 < limbs_val M" "length M \<le> 2 ^ 60" "used_words M = length M"
    "used_words a = length a \<or> be_val e = 1" "a \<noteq> []"
  shows "\<exists>r. powOddMod_vartime (length M) a e M 4 = Done (map Some r) \<and> length r = length M \<and>
    limbs_val r = limbs_val a ^ be_val e mod limbs_val M"
proof -
  note ok = mont_okI [OF assms(1-3)]
  have M: "M \<noteq> []" using assms(2) by auto
  have L: "wordsRequired64 (getBits_LE_vartime M) = length M" using assms(4) by (simp add: used_words_def)
  show ?thesis
  proof (cases "getBits_BE_vartime e = 1")
    case True
    then have "be_val e = 1" using getBits_BE [of e] nbits_one by simp
    then show ?thesis using True reduce_val [OF assms(4) M order_refl, of a] by (auto simp: powOddMod_vartime_def)
  next
    case False
    have "be_val e \<noteq> 1"
      using False nbits_unique [OF getBits_BE [of e]] by (auto simp: nbits.simps)
    then obtain one aM where one: "oneMont_vartime (length M) M = Done one" "is_mont M 1 one"
      and aM: "getMont_vartime (length M) a M = Done aM" "is_mont M (limbs_val a) aM"
      using oneMont_val [OF ok assms(4)] getMont_val [OF ok assms(4)] assms(5,6) by blast
    have "3 * length M \<le> length M * (push_bit 4 1 + 1)" by (simp add: push_bit_eq_mult)
    note p = fromMont_val [OF ok powMont_val [OF ok aM(2) one(2) this, of e]]
    show ?thesis using False L one(1) aM(1) p by (simp add: powOddMod_vartime_def Let_def)
  qed
qed

text \<open>Even moduli: the two residues determine the power.\<close>

lemma crt_recombine:
  fixes x :: nat
  assumes "odd q" "q * r mod 2 ^ k = 1" "int d = (int (x mod 2 ^ k) - int (x mod q)) mod 2 ^ k"
  shows "q * (d * r mod 2 ^ k) + x mod q = x mod (q * 2 ^ k)"
proof -
  define v where "v = q * (d * r mod 2 ^ k) + x mod q"
  have q: "0 < q" using assms(1) by (rule odd_pos)
  have "v mod q = x mod q" by (simp add: v_def)
  then have c1: "int q dvd int v - int x" by (simp only: mod_eq_dvd_iff [symmetric] of_nat_mod [symmetric])
  have "q * (d * r mod 2 ^ k) mod 2 ^ k = d * (q * r) mod 2 ^ k"
    by (simp only: mod_mult_right_eq mult.left_commute)
  also have "\<dots> = d * (q * r mod 2 ^ k) mod 2 ^ k" by (simp only: mod_mult_right_eq)
  also have "\<dots> = d mod 2 ^ k" by (simp add: assms(2))
  finally have "v mod 2 ^ k = (d + x mod q) mod 2 ^ k"
    unfolding v_def by (rule mod_add_cong) (rule refl)
  then have "int (v mod 2 ^ k) = int ((d + x mod q) mod 2 ^ k)" by (simp only:)
  then have "int v mod 2 ^ k = (int d + int (x mod q)) mod 2 ^ k"
    by (simp only: of_nat_mod of_nat_add of_nat_power of_nat_numeral)
  also have "\<dots> = int (x mod 2 ^ k) mod 2 ^ k"
    unfolding assms(3) by (simp only: mod_add_left_eq) simp
  also have "\<dots> = int x mod 2 ^ k" by (simp add: of_nat_mod)
  finally have c2: "2 ^ k dvd int v - int x" by (simp only: mod_eq_dvd_iff)
  have "coprime (int q) (2 ^ k)" using assms(1) by simp
  then have "int q * 2 ^ k dvd int v - int x" by (rule divides_mult [OF c1 c2])
  then have "int v mod (int q * 2 ^ k) = int x mod (int q * 2 ^ k)" by (simp only: mod_eq_dvd_iff)
  then have "int (v mod (q * 2 ^ k)) = int (x mod (q * 2 ^ k))"
    by (simp only: of_nat_mod of_nat_mult of_nat_power of_nat_numeral)
  then have "v mod (q * 2 ^ k) = x mod (q * 2 ^ k)" by (simp only: of_nat_eq_iff)
  moreover have "v < q * 2 ^ k"
  proof -
    have "d * r mod 2 ^ k + 1 \<le> 2 ^ k" by (simp add: Suc_le_eq)
    then have "q * (d * r mod 2 ^ k + 1) \<le> q * 2 ^ k" by (rule mult_left_mono) simp
    moreover have "x mod q < q" using q by simp
    ultimately show ?thesis by (simp add: v_def distrib_left)
  qed
  ultimately show ?thesis by (simp add: v_def)
qed

lemma nbits_div:
  assumes "2 ^ k \<le> n"
  shows "nbits (n div 2 ^ k) = nbits n - k" "k < nbits n"
proof -
  have n: "n \<noteq> 0" using assms by (cases "n = 0") simp_all
  have "(2 :: nat) ^ k < 2 ^ nbits n" using assms nbits_bounds(1) [of n] by (rule order.strict_trans1)
  then show k: "k < nbits n" by simp
  have "2 ^ (nbits n - k - 1) * 2 ^ k \<le> n"
    using nbits_bounds(2) [OF n] k by (simp flip: power_add)
  then have lo: "2 ^ (nbits n - k - 1) \<le> n div 2 ^ k"
    by (simp add: less_eq_div_iff_mult_less_eq)
  have pos: "0 < n div 2 ^ k" using lo by (rule order.strict_trans2 [rotated]) simp
  have "n < 2 ^ (nbits n - k) * 2 ^ k" using nbits_bounds(1) [of n] k by (simp flip: power_add)
  then have "n div 2 ^ k < 2 ^ (nbits n - k)" by (rule less_mult_imp_div_less)
  then have "has_nbits (n div 2 ^ k) (nbits n - k)" using lo k pos by (simp add: has_nbits_def)
  then show "nbits (n div 2 ^ k) = nbits n - k" by (rule nbits_unique [symmetric])
qed

lemma getBits_nbits: "getBits_LE_vartime a = nbits (limbs_val a)"
  using nbits_unique [OF getBits_LE] .

lemma words_shifted:
  fixes m k :: nat
  assumes "0 < k" "k < m"
  shows "(m + 63) div 64 \<le> (m - k + 63) div 64 + k div 64 + (if k mod 64 = 0 then 0 else 1)"
proof -
  have m: "m + 63 = (m - k + 63) + k" using assms by simp
  have "(x + k) div 64 \<le> x div 64 + k div 64 + (if k mod 64 = 0 then 0 else 1)" for x :: nat
  proof -
    have "x mod 64 + k mod 64 < 2 * 64" using mod_less_divisor [of 64 x] mod_less_divisor [of 64 k] by linarith
    then have "(x mod 64 + k mod 64) div 64 < 2" by (rule less_mult_imp_div_less)
    then show ?thesis by (simp add: div_add1_eq [of x k])
  qed
  then show ?thesis unfolding m .
qed

text \<open>The odd part of the modulus in its own words.\<close>

lemma odd_part_val:
  assumes "limbs_val M = q * 2 ^ k" "1 < q" "0 < k" "used_words M = length M"
  shows "\<exists>qs. shiftRight_vartime (wordsRequired64 (nbits (limbs_val M) - k)) M k = Done qs \<and>
    length qs = wordsRequired64 (nbits (limbs_val M) - k) \<and> limbs_val qs = q \<and> used_words qs = length qs \<and>
    length qs \<le> length M"
proof -
  let ?m = "nbits (limbs_val M)" and ?n = "wordsRequired64 (nbits (limbs_val M) - k)"
  have le: "2 ^ k \<le> limbs_val M" and d: "limbs_val M div 2 ^ k = q" using assms(1,2) by simp_all
  note b = nbits_div [OF le, unfolded d]
  have len: "length M = (?m + 63) div 64"
    using assms(4) by (simp add: used_words_nbits wordsRequired64_eq)
  have "limbs_val M < 2 ^ ?m" by (rule nbits_bounds)
  also have "\<dots> \<le> 2 ^ (64 * ?n + k)"
    using wordsRequired64_le [of "?m - k" ?n] by (intro power_increasing) simp_all
  finally have v: "limbs_val M < 2 ^ (64 * ?n + k)" .
  have l1: "length M \<le> ?n + k div 64 + (if k mod 64 = 0 then 0 else 1)"
    using words_shifted [OF assms(3) b(2)] by (simp add: len wordsRequired64_eq)
  have l2: "k div 64 < length M" "?n \<le> length M" using b(2) by (simp_all add: len wordsRequired64_eq div_le_mono)
  from shiftRight_val [OF assms(3) v l1 l2(1)] obtain qs where
    "shiftRight_vartime ?n M k = Done qs" "length qs = ?n" "limbs_val qs = q" using d by auto
  then show ?thesis using l2 b(1) by (simp add: used_words_nbits)
qed

lemma powEvenMod_val:
  assumes "limbs_val M = q * 2 ^ k" "odd q" "1 < q" "0 < k" "used_words M = length M" "length M \<le> 2 ^ 60"
    "used_words a = length a \<or> be_val e = 1" "a \<noteq> []"
  shows "\<exists>r. powEvenMod (length M) a e M 4 (nbits (limbs_val M)) k = Done r \<and> length r = length M \<and>
    limbs_val r = limbs_val a ^ be_val e mod limbs_val M"
proof -
  let ?x = "limbs_val a ^ be_val e" and ?kw = "wordsRequired64 (1 + k)"
  obtain qs where qs: "shiftRight_vartime (wordsRequired64 (nbits (limbs_val M) - k)) M k = Done qs"
      "length qs = wordsRequired64 (nbits (limbs_val M) - k)" "limbs_val qs = q" "used_words qs = length qs" "length qs \<le> length M"
    using odd_part_val [OF assms(1,3-5)] by blast
  have lq: "length qs \<le> 2 ^ 60" "qs \<noteq> []" using qs(3,5) assms(3,6) by auto
  obtain a1 where a1: "powOddMod_vartime (length qs) a e qs 4 = Done (map Some a1)" "length a1 = length qs"
      "limbs_val a1 = ?x mod q"
    using powOddMod_val [of qs a e] qs(3,4) lq(1) assms(2,3,7,8) by auto
  have le: "2 ^ k \<le> limbs_val M" using assms(1,3) by simp
  have "k < nbits (limbs_val M)" using nbits_div(2) [OF le] .
  also have "\<dots> \<le> 64 * length M"
    using assms(5) wordsRequired64_le [of "nbits (limbs_val M)" "length M"] by (simp add: used_words_nbits)
  finally have k: "k < 64 * length M" .
  then have kw: "0 < ?kw" "?kw \<le> length M" "k \<le> 64 * ?kw" "wordsRequired64 k \<le> ?kw"
    using wordsRequired64_le [of "1 + k" ?kw] wordsRequired64_le [of "1 + k" "length M"] wordsRequired64_le [of k ?kw]
    by (auto simp: wordsRequired64_eq)
  have kw': "?kw \<le> 2 ^ 62" using kw(2) assms(6) by simp
  obtain a2 where a2: "powMod2k_vartime ?kw a e k = Done a2" "length a2 = ?kw" "limbs_val a2 = ?x mod 2 ^ k"
    using powMod2k_val [OF kw(1) kw' assms(4) kw(3) assms(8)] by blast
  obtain qi where qi: "invMod2k_vartime ?kw qs k = Done qi" "length qi = ?kw" "q * limbs_val qi mod 2 ^ k = 1"
    using invMod2k_val [OF _ kw' kw(3,1) assms(4), of qs] qs(3) assms(2) by auto
  have ne: "a2 \<noteq> []" "a1 \<noteq> []" using a2(2) a1(2) kw(1) lq(2) by auto
  obtain y where y: "submod2k_vartime ?kw a2 a1 k = Done y" "length y = ?kw"
      "int (limbs_val y) = (int (limbs_val a2) - int (limbs_val a1)) mod 2 ^ k"
    using submod2k_val [OF kw(4,1) ne assms(4)] by blast
  define z where "z = mulmod2k_vartime ?kw y qi k"
  have z: "length z = ?kw" "limbs_val z = limbs_val y * limbs_val qi mod 2 ^ k"
    using mulmod2k_val [of y k ?kw qi] y(2) kw' kw(3) by (simp_all add: z_def)
  have crt: "q * limbs_val z + limbs_val a1 = ?x mod limbs_val M"
    using crt_recombine [OF assms(2) qi(3), of "limbs_val y" ?x] y(3) a1(3) a2(3) z(2) assms(1) by simp
  have lt: "?x mod limbs_val M < limbs_val M" using assms(1,3) by simp
  have "limbs_val M < 2 ^ (64 * length M)" by (rule limbs_val_bound)
  then have fits: "q * limbs_val z + limbs_val a1 < 2 ^ (64 * length M)" using crt lt by linarith
  then have prod: "length (prod_vartime (length M) qs z) = length M" "limbs_val (prod_vartime (length M) qs z) = q * limbs_val z"
    using prod_vartime_val [of qs "length M" z] lq(1) qs(3) by simp_all
  obtain r c where "addMP (length M) (prod_vartime (length M) qs z) a1 = Done (r, c)" "length r = length M"
      "limbs_val r = q * limbs_val z + limbs_val a1"
    using addMP_val [of a1 "prod_vartime (length M) qs z" "length M"] prod a1(2) qs(5) fits by auto
  then show ?thesis using qs(1,2) a1 a2 qi y crt
    by (simp add: powEvenMod_def Let_def read_words_def z_def)
qed

lemma odd_first: "M \<noteq> [] \<Longrightarrow> odd (unat (M ! 0)) \<longleftrightarrow> odd (limbs_val M)"
  by (cases M) simp_all

lemma trailing_zeros_unique:
  assumes "limbs_val M = q * 2 ^ k" "odd q"
  shows "trailing_zeros M = k"
proof -
  let ?t = "trailing_zeros M"
  have "limbs_val M \<noteq> 0" using assms by (auto elim: oddE)
  then obtain p where p: "limbs_val M = p * 2 ^ ?t" "odd p"
    using trailing_zeros_val [of M] by (metis dvd_div_mult_self)
  have False if "i < j" "u * 2 ^ i = v * 2 ^ j" "odd u" for i j u v :: nat
  proof -
    have "(2 :: nat) ^ j = 2 ^ (j - i) * 2 ^ i" using that(1) by (simp flip: power_add)
    then have "u * 2 ^ i = (v * 2 ^ (j - i)) * 2 ^ i" using that(2) by (simp only: mult.assoc)
    then have "u = v * 2 ^ (j - i)" by (simp only: mult_cancel2) simp
    then show False using that(1,3) by simp
  qed
  then show ?thesis using assms p by (metis linorder_neqE_nat)
qed

text \<open>Where the code computes the power: without leading zero words in the base and the modulus, and
  in the cases that do not look at them.\<close>

definition powMod_regular :: "limb list \<Rightarrow> byte list \<Rightarrow> limb list \<Rightarrow> bool" where
  "powMod_regular a e M \<longleftrightarrow>
     limbs_val M \<le> 1 \<or> be_val e = 0 \<or> limbs_val a \<le> 1 \<or>
     (length a \<le> length M \<and> (\<exists>k. limbs_val M = 2 ^ k)) \<or>
     (used_words a = length a \<and> used_words M = length M)"

lemma shortcut_length:
  assumes "used_words a = length a" "getBits_LE_vartime a \<le> getBits_LE_vartime M"
  shows "length a \<le> length M"
proof -
  have "length a \<le> wordsRequired64 (getBits_LE_vartime M)"
    using assms by (simp add: used_words_def wordsRequired64_eq div_le_mono flip: assms(1))
  then show ?thesis using used_words_le [of M] by (simp add: used_words_def)
qed

lemma powMod_shortcut:
  assumes "length a \<le> length M" "length M \<le> 2 ^ 60" "2 \<le> limbs_val M" "0 < be_val e" "2 \<le> limbs_val a"
    "getBits_BE_vartime e < 64" "getBits_LE_vartime a div 2 ^ (64 - getBits_BE_vartime e) = 0"
    "getBits_LE_vartime a * 2 ^ getBits_BE_vartime e mod 2 ^ 64 < getBits_LE_vartime M"
  shows "\<exists>r. pow_vartime (length M) a e = Done r \<and> length r = length M \<and>
    limbs_val r = limbs_val a ^ be_val e mod limbs_val M"
proof -
  let ?a = "getBits_LE_vartime a" and ?e = "getBits_BE_vartime e" and ?m = "getBits_LE_vartime M"
  have "?a * 2 ^ ?e < ?m" using shortcut_no_wrap [OF assms(7,6)] assms(8) by simp
  then have s: "limbs_val a ^ be_val e < limbs_val M"
    using assms by (intro shortcut_small [OF getBits_LE getBits_BE getBits_LE]) simp_all
  then have "limbs_val a ^ be_val e < 2 ^ (64 * length M)"
    using limbs_val_bound [of M] by (rule order.strict_trans)
  moreover have "0 < length M" using assms(3) by (cases M) auto
  ultimately show ?thesis using pow_vartime_val [of "length M" a e] assms s by auto
qed

lemma powMod_reduced:
  assumes "length M \<le> 2 ^ 60" "2 \<le> limbs_val M" "0 < be_val e" "2 \<le> limbs_val a" "a \<noteq> []"
    "(\<exists>k. limbs_val M = 2 ^ k) \<or> used_words a = length a \<and> used_words M = length M"
  shows "\<exists>r. (if odd (unat (M ! 0)) then powOddMod_vartime (length M) a e M 4
      else let k = trailing_zeros M in
        if getBits_LE_vartime M - k = 1 then obind (powMod2k_vartime (length M) a e k) (\<lambda>r. Done (map Some r))
        else obind (powEvenMod (length M) a e M 4 (getBits_LE_vartime M) k) (\<lambda>r. Done (map Some r))) = Done (map Some r) \<and>
    length r = length M \<and> limbs_val r = limbs_val a ^ be_val e mod limbs_val M"
proof -
  have ne: "M \<noteq> []" using assms(2) by auto
  let ?k = "trailing_zeros M" and ?q = "limbs_val M div 2 ^ trailing_zeros M"
  have q: "limbs_val M = ?q * 2 ^ ?k" "odd ?q"
    using trailing_zeros_val [of M] assms(2) by simp_all
  show ?thesis
  proof (cases "odd (limbs_val M)")
    case True
    then have "\<not> (\<exists>k. limbs_val M = 2 ^ k)" using assms(2) by auto
    then show ?thesis using powOddMod_val [of M a e] True assms odd_first [OF ne] by auto
  next
    case False
    then have k: "0 < ?k" using q by (cases "?k = 0") simp_all
    have le: "2 ^ ?k \<le> limbs_val M" using trailing_zeros_val [of M] assms(2) by (intro dvd_imp_le) simp_all
    have m: "getBits_LE_vartime M - ?k = 1 \<longleftrightarrow> ?q = 1"
    proof
      assume "getBits_LE_vartime M - ?k = 1"
      then have "nbits ?q = 1" using nbits_div(1) [OF le] by (simp add: getBits_nbits)
      then have "?q < 2" using nbits_bounds(1) [of ?q] by simp
      then show "?q = 1" using odd_pos [OF q(2)] by linarith
    next
      assume "?q = 1"
      then have "nbits ?q = 1" by (simp add: nbits.simps)
      then show "getBits_LE_vartime M - ?k = 1" using nbits_div(1) [OF le] by (simp add: getBits_nbits)
    qed
    show ?thesis
    proof (cases "?q = 1")
      case True
      have v: "limbs_val M = 2 ^ ?k" using q(1) True by simp
      then have "(2 :: nat) ^ ?k < 2 ^ (64 * length M)" using limbs_val_bound [of M] by simp
      then have "?k \<le> 64 * length M" by simp
      moreover have "length M \<le> 2 ^ 62" "0 < length M" using assms(1) ne by simp_all
      ultimately obtain r where "powMod2k_vartime (length M) a e ?k = Done r" "length r = length M"
          "limbs_val r = limbs_val a ^ be_val e mod 2 ^ ?k"
        using powMod2k_val [of "length M" ?k a e] k assms(5) by auto
      then show ?thesis using False odd_first [OF ne] m True v by (simp add: Let_def)
    next
      case q1: False
      have "1 < ?q" using q1 q(2) by (cases ?q) auto
      note q2 = this
      have "\<not> (\<exists>k. limbs_val M = 2 ^ k)"
        using trailing_zeros_unique [of M 1] q(1) q1 by auto
      then have u: "used_words a = length a" "used_words M = length M" using assms(6) by blast+
      obtain r where "powEvenMod (length M) a e M 4 (nbits (limbs_val M)) ?k = Done r" "length r = length M"
          "limbs_val r = limbs_val a ^ be_val e mod limbs_val M"
        using powEvenMod_val [OF q(1,2) q2 k u(2) assms(1) disjI1 [OF u(1)] assms(5)] by blast
      then show ?thesis using False odd_first [OF ne] m q1 by (simp add: Let_def getBits_nbits)
    qed
  qed
qed

lemma powMod_val:
  assumes "powMod_regular a e M" "a \<noteq> []" "length M \<le> 2 ^ 60"
  shows "\<exists>r. powMod_vartime (length M) a e M 4 = Done (map Some r) \<and> length r = length M \<and>
    limbs_val r = (if limbs_val M = 0 then 0 else limbs_val a ^ be_val e mod limbs_val M)"
proof -
  note bits = has_nbits_small [OF getBits_LE [of M]] has_nbits_small [OF getBits_LE [of a]]
    getBits_BE [of e]
  consider "limbs_val M < 2" | "2 \<le> limbs_val M" "be_val e = 0" | "2 \<le> limbs_val M" "0 < be_val e" "limbs_val a < 2"
    | "2 \<le> limbs_val M" "0 < be_val e" "2 \<le> limbs_val a"
    by linarith
  then show ?thesis
  proof cases
    case 1
    then have "limbs_val M = 0 \<or> limbs_val M = 1" by auto
    then show ?thesis using 1 bits by (intro exI [of _ "replicate (length M) 0"]) (auto simp: powMod_vartime_def)
  next
    case 2
    then have "0 < length M" by (cases M) auto
    then show ?thesis using 2 bits
      by (intro exI [of _ "one_words (length M)"]) (simp add: powMod_vartime_def has_nbits_def Let_def, simp add: one_words_def)
  next
    case 3
    then have len: "0 < length M" by (cases M) auto
    have "limbs_val a = 0 \<or> limbs_val a = 1" using 3 by auto
    then have "limbs_val a ^ be_val e = limbs_val a" using 3 by auto
    moreover have "limbs_val (hd a # replicate (length M - 1) 0) = limbs_val a"
      using 3 assms(2) by (intro limbs_val_hd) simp_all
    moreover have "getBits_BE_vartime e \<noteq> 0" using 3 bits(3) by (simp add: has_nbits_def)
    ultimately show ?thesis using 3 bits len
      by (intro exI [of _ "hd a # replicate (length M - 1) 0"]) (simp add: powMod_vartime_def Let_def)
  next
    case 4
    let ?a = "getBits_LE_vartime a" and ?e = "getBits_BE_vartime e" and ?m = "getBits_LE_vartime M"
    have e: "?e \<noteq> 0" using 4 bits(3) by (simp add: has_nbits_def)
    have r: "length a \<le> length M \<and> (\<exists>k. limbs_val M = 2 ^ k) \<or> used_words a = length a \<and> used_words M = length M"
      using assms(1) 4 by (auto simp: powMod_regular_def)
    show ?thesis
    proof (cases "?e < 64 \<and> ?a div 2 ^ (64 - ?e) = 0 \<and> ?a * 2 ^ ?e mod 2 ^ 64 < ?m")
      case True
      then have "?a * 2 ^ ?e < ?m" using shortcut_no_wrap [of ?a ?e] by simp
      then have "?a \<le> ?m" using le_mult_power [of ?a ?e] by linarith
      then have "length a \<le> length M" using r shortcut_length by blast
      then obtain r where "pow_vartime (length M) a e = Done r" "length r = length M"
          "limbs_val r = limbs_val a ^ be_val e mod limbs_val M"
        using powMod_shortcut [of a M e] assms(3) 4 True by auto
      then show ?thesis using True e 4 bits
        by (simp only: powMod_vartime_def Let_def if_False not_less [symmetric]) simp
    next
      case False
      have "(\<exists>k. limbs_val M = 2 ^ k) \<or> used_words a = length a \<and> used_words M = length M" using r by blast
      from powMod_reduced [OF assms(3) 4 assms(2) this] show ?thesis using False e 4 bits
        by (simp only: powMod_vartime_def Let_def if_False not_less [symmetric]) simp
    qed
  qed
qed

section \<open>Where the buffers are left\<close>

text \<open>The copy loop of \<^verbatim>\<open>pow_vartime\<close> leaves its buffer when the base has more words than the
  modulus, whatever the value of the base.\<close>

lemma pow_bits_overrun: "n < length a \<Longrightarrow> bits_val bs \<noteq> 0 \<Longrightarrow> pow_bits n a bs (r, True) = UB"
proof (induction bs)
  case (Cons b bs)
  then show ?case by (cases b) (simp_all add: pow_bit_def copy_words_def)
qed simp

lemma powMod_overrun:
  assumes "length M < length a" "1 < limbs_val a" "0 < be_val e"
    "getBits_BE_vartime e < 64" "getBits_LE_vartime a < 2 ^ (64 - getBits_BE_vartime e)"
    "getBits_LE_vartime a * 2 ^ getBits_BE_vartime e < getBits_LE_vartime M"
  shows "powMod_vartime (length M) a e M w = UB"
proof -
  have z: "getBits_LE_vartime a div 2 ^ (64 - getBits_BE_vartime e) = 0"
    using assms(5) by (simp add: div_eq_0_iff)
  note bits = has_nbits_small [OF getBits_LE [of a]] getBits_BE [of e]
  have "2 \<le> getBits_LE_vartime a" "getBits_BE_vartime e \<noteq> 0"
    using bits assms(2,3) by (simp_all add: has_nbits_def)
  moreover from this have "2 \<le> getBits_LE_vartime M"
    using assms(6) le_mult_power [of "getBits_LE_vartime a" "getBits_BE_vartime e"] by linarith
  ultimately show ?thesis
    using assms pow_bits_overrun [OF assms(1), of "concat (map unpackBE e)"]
      shortcut_no_wrap [OF z assms(4)]
    by (simp add: powMod_vartime_def Let_def pow_vartime_def bits_val_exponent)
qed

text \<open>On the Montgomery path a leading zero word of the base is written outside the buffer of
  \<^verbatim>\<open>getMont_vartime\<close>, and one of the modulus leaves the last words of the result unwritten.\<close>

definition reduces :: "limb list \<Rightarrow> byte list \<Rightarrow> limb list \<Rightarrow> bool" where
  "reduces a e M \<longleftrightarrow> 1 < limbs_val M \<and> 1 < be_val e \<and> 1 < limbs_val a \<and>
     nbits (limbs_val M) \<le> nbits (limbs_val a) * 2 ^ nbits (be_val e)"

lemma reduces_branch:
  assumes "reduces a e M" "odd (limbs_val M)"
  shows "powMod_vartime n a e M w = powOddMod_vartime n a e M w" "getBits_BE_vartime e \<noteq> 1"
proof -
  have v: "1 < limbs_val M" "1 < be_val e" "1 < limbs_val a"
    "\<not> nbits (limbs_val a) * 2 ^ nbits (be_val e) < nbits (limbs_val M)"
    using assms(1) by (simp_all add: reduces_def)
  have e: "getBits_BE_vartime e = nbits (be_val e)" using nbits_unique [OF getBits_BE] .
  have "be_val e \<noteq> 1" using v(2) by simp
  then show "getBits_BE_vartime e \<noteq> 1" using nbits_one [of "be_val e"] getBits_BE [of e] by auto
  have "\<not> nbits (limbs_val M) < 2" "\<not> nbits (limbs_val a) < 2" "nbits (be_val e) \<noteq> 0"
    using v has_nbits_small [OF getBits_LE [of M]] has_nbits_small [OF getBits_LE [of a]] nbits_bounds(3) [of "be_val e"]
    by (simp_all add: getBits_nbits)
  moreover have "M \<noteq> []" using v(1) by auto
  moreover have "\<not> (nbits (be_val e) < 64 \<and> nbits (limbs_val a) div 2 ^ (64 - nbits (be_val e)) = 0 \<and>
      nbits (limbs_val a) * 2 ^ nbits (be_val e) mod 2 ^ 64 < nbits (limbs_val M))"
    using v(4) shortcut_no_wrap [of "nbits (limbs_val a)" "nbits (be_val e)"] by (metis (no_types))
  ultimately show "powMod_vartime n a e M w = powOddMod_vartime n a e M w"
    using assms(2) odd_first [of M]
    by (simp only: powMod_vartime_def Let_def getBits_nbits e if_False) simp
qed

lemma powMod_base_overrun:
  assumes "reduces a e M" "odd (limbs_val M)"
    "used_words a < length a"
  shows "powMod_vartime n a e M w = UB"
proof -
  have "limbs_val a \<noteq> 0" using assms(1) by (auto simp: reduces_def)
  then have "0 < used_words a" using used_words_bound [of a] by (cases "used_words a") simp_all
  moreover have "limbs_val M \<noteq> 0" using assms(1) by (auto simp: reduces_def)
  ultimately show ?thesis
    using reduces_branch [OF assms(1,2)] getMont_overrun [OF assms(3)] by (simp add: powOddMod_vartime_def Let_def)
qed

lemma obind_UB: "x \<noteq> Panic \<Longrightarrow> x \<noteq> Abort \<Longrightarrow> (\<And>y. x = Done y \<Longrightarrow> f y = UB) \<Longrightarrow> obind x f = UB"
  by (cases x) simp_all

lemma no_panics:
  "divRem_vartime ql rl a b \<noteq> Panic" "divRem_vartime ql rl a b \<noteq> Abort"
  "reduce_vartime rl a b \<noteq> Panic" "reduce_vartime rl a b \<noteq> Abort"
  "oneMont_vartime rl b \<noteq> Panic" "oneMont_vartime rl b \<noteq> Abort"
  "shiftLeft_vartime d a k \<noteq> Panic" "shiftLeft_vartime d a k \<noteq> Abort"
  "getMont_vartime rl a b \<noteq> Panic" "getMont_vartime rl a b \<noteq> Abort"
proof -
  show d: "divRem_vartime ql rl a b \<noteq> Panic" "divRem_vartime ql rl a b \<noteq> Abort" for ql rl a b
    by (simp_all add: divRem_vartime_def Let_def split: prod.splits)
  show r: "reduce_vartime rl a b \<noteq> Panic" "reduce_vartime rl a b \<noteq> Abort" for rl a b
    using d [of "length a - length b + 1" rl a b]
    by (cases "divRem_vartime (length a - length b + 1) rl a b"; simp add: reduce_vartime_def split: option.splits)+
  show "oneMont_vartime rl b \<noteq> Panic" "oneMont_vartime rl b \<noteq> Abort"
    by (simp_all add: oneMont_vartime_def r)
  show s: "shiftLeft_vartime d a k \<noteq> Panic" "shiftLeft_vartime d a k \<noteq> Abort" for d a k
    by (simp_all add: shiftLeft_vartime_def shlSmall_def shlLarge_def shlWords_def Let_def split: prod.splits)
  show "getMont_vartime rl a b \<noteq> Panic" "getMont_vartime rl a b \<noteq> Abort"
    using s [of "replicate (wordsRequired64 (getBits_LE_vartime a) + wordsRequired64 (getBits_LE_vartime b)) 0" a
        "64 * wordsRequired64 (getBits_LE_vartime b)"]
    by (cases "shiftLeft_vartime (replicate (wordsRequired64 (getBits_LE_vartime a) + wordsRequired64 (getBits_LE_vartime b)) 0) a
        (64 * wordsRequired64 (getBits_LE_vartime b))"; simp add: getMont_vartime_def Let_def r)+
qed

lemma powMod_modulus_unwritten:
  assumes "reduces a e M" "odd (limbs_val M)"
    "used_words M < length M"
  shows "obind (powMod_vartime (length M) a e M w) read_words = UB"
proof -
  let ?L = "wordsRequired64 (getBits_LE_vartime M)"
  have L: "?L < length M" using assms(3) by (simp add: used_words_def)
  have r: "read_words (map Some ws @ replicate (length M - ?L) None) = UB" for ws
    using L by (simp add: read_words_def)
  show ?thesis
    unfolding reduces_branch(1) [OF assms(1,2)] powOddMod_vartime_def Let_def obind_assoc
    using reduces_branch(2) [OF assms(1,2)] L
    by (simp add: obind_assoc) (intro obind_UB no_panics, simp add: r)
qed

section \<open>The modular power\<close>

text \<open>C16: \<^verbatim>\<open>powMod_vartime\<close> on words gives the modular power, 0 for a modulus 0, for every exponent, in a
  buffer as long as the modulus: when neither the base nor the modulus has a leading zero word, for
  odd moduli (Montgomery), powers of two, other even moduli (both, with the Chinese remainder
  theorem) and on the shortcut without a reduction alike; and when the modulus or the base is at
  most 1, the exponent is 0, or the modulus is a power of two and the base is no longer.\<close>

theorem powMod_correct:
  assumes "powMod_regular a e M" "a \<noteq> []" "length M \<le> 2 ^ 60"
  shows "\<exists>r. powMod_vartime (length M) a e M 4 = Done (map Some r) \<and> length r = length M \<and>
    limbs_val r = (if limbs_val M = 0 then 0 else limbs_val a ^ be_val e mod limbs_val M)"
  using assms by (rule powMod_val)

text \<open>An even modulus of two words.\<close>

theorem powMod_correct_witness:
  "\<exists>r. powMod_vartime 2 [3, 1] [5, 0] [12, 7] 4 = Done (map Some r) \<and> length r = 2 \<and>
     limbs_val r = limbs_val [3, 1] ^ 1280 mod limbs_val [12, 7]"
proof -
  have "used_words [3, 1] = length [3, 1 :: limb]" "used_words [12, 7] = length [12, 7 :: limb]"
    using used_words_full [of "[3, 1]"] used_words_full [of "[12, 7]"] by simp_all
  then have "powMod_regular [3, 1] [5, 0] [12, 7]" unfolding powMod_regular_def by blast
  moreover have "[3, 1 :: limb] \<noteq> []" "length [12, 7 :: limb] \<le> 2 ^ 60" by simp_all
  ultimately obtain r where r: "powMod_vartime (length [12, 7 :: limb]) [3, 1] [5, 0] [12, 7] 4 = Done (map Some r)"
    "length r = length [12, 7 :: limb]"
    "limbs_val r = (if limbs_val [12, 7] = 0 then 0 else limbs_val [3, 1] ^ be_val [5, 0] mod limbs_val [12, 7])"
    using powMod_correct by blast
  have v: "limbs_val [12, 7] \<noteq> 0" "be_val [5, 0] = 1280" "length [12, 7 :: limb] = 2" by simp_all
  show ?thesis using r unfolding v(2,3) if_not_P [OF v(1)] by blast
qed

end
