(* ===== verification/Nim_ModExp.thy ===== *)
theory Nim_ModExp
  imports Nim_PowMod Status "HOL-Library.Signed_Division"
begin

text \<open>
  The modular exponentiation of \<^verbatim>\<open>constantine/ethereum_evm_precompiles.nim\<close>, as functions of the
  length of the result buffer and of the input bytes: a status and, when the buffer is written,
  its new contents. Undefined behaviour stands for what \<^verbatim>\<open>-d:danger\<close> leaves unchecked: signed
  overflow, slices of negative length, stores outside a buffer. Words have 64 bits. EIP-198 is
  stated beside it and compared with it.
\<close>

section \<open>The code\<close>

text \<open>Signed 64-bit arithmetic; \<^verbatim>\<open>ceilDiv_vartime\<close> of \<^verbatim>\<open>platforms/primitives.nim\<close>.\<close>

definition int64 :: "int \<Rightarrow> int outcome" where
  "int64 x = (if - (2 ^ 63) \<le> x \<and> x < 2 ^ 63 then Done x else UB)"

definition ceilDiv_vartime :: "int \<Rightarrow> int \<Rightarrow> int outcome" where
  "ceilDiv_vartime a b = obind (int64 (a + b)) (\<lambda>s. obind (int64 (s - 1)) (\<lambda>s. Done (s sdiv b)))"

text \<open>\<^verbatim>\<open>BigInt[256].unmarshal(bytes, bigEndian)\<close> and \<^verbatim>\<open>cast[int](x.limbs[0])\<close>.\<close>

definition bigint256 :: "byte list \<Rightarrow> limb list" where
  "bigint256 bytes = snd (unmarshalBE (replicate 4 0) bytes)"

definition cast_int :: "limb list \<Rightarrow> int" where
  "cast_int x = sint (x ! 0)"

definition too_large :: "limb list \<Rightarrow> bool" where
  "too_large x \<longleftrightarrow> limbs_val x > 2 ^ 64 - 1"

text \<open>\<^verbatim>\<open>inputs.toOpenArray(first, last)\<close> for positions inside the input.\<close>

definition toOpenArray :: "byte list \<Rightarrow> int \<Rightarrow> int \<Rightarrow> byte list" where
  "toOpenArray xs i j = take (nat (j - i + 1)) (drop (nat i) xs)"

definition eth_evm_modexp_result_size :: "byte list \<Rightarrow> ctt_evm_status \<times> nat option" where
  "eth_evm_modexp_result_size inputs =
     (let paddedLengths = pad_take 96 inputs;
          mL = bigint256 (toOpenArray paddedLengths 64 95)
      in if too_large mL then (cttEVM_InvalidInputSize, None)
         else let modulusByteLen = cast_int mL in (cttEVM_Success, Some (nat (modulusByteLen mod 2 ^ 64))))"

text \<open>The computation, after the special cases.\<close>

definition modexp_compute ::
  "nat \<Rightarrow> byte list \<Rightarrow> int \<Rightarrow> int \<Rightarrow> int \<Rightarrow> int \<Rightarrow> int \<Rightarrow> (ctt_evm_status \<times> byte list option) outcome" where
  "modexp_compute r_len inputs baseByteLen exponentByteLen modulusByteLen baseWordLen modulusWordLen =
     (if baseByteLen < 0 \<or> exponentByteLen < 0 then UB
      else
        let baseStart = 96;
            baseStop = baseStart + baseByteLen - 1;
            expStart = baseStop + 1;
            expStop = expStart + exponentByteLen - 1;
            modStart = expStop + 1
        in obind (int64 (modStart + modulusByteLen)) (\<lambda>realLen.
           let modStop = realLen - 1;
               base = snd (unmarshalBE (replicate (nat baseWordLen) 0) (toOpenArray inputs baseStart baseStop));
               exponent = toOpenArray inputs expStart expStop;
               overflowLen = realLen - int (length inputs);
               modulusBuf = replicate (nat modulusWordLen) 0;
               modulus =
                 (if overflowLen > 0 then
                    let physLen = int (length inputs) - modStart;
                        paddedMod = take (nat physLen) (drop (nat modStart) inputs) @ replicate (nat overflowLen) 0
                    in snd (unmarshalBE modulusBuf paddedMod)
                  else snd (unmarshalBE modulusBuf (toOpenArray inputs modStart modStop)))
           in obind (obind (powMod_vartime (nat modulusWordLen) base exponent modulus 4) read_words) (\<lambda>output.
              Done (cttEVM_Success, Some (snd (marshalBE (replicate r_len 0) output))))))"

definition eth_evm_modexp ::
  "nat \<Rightarrow> byte list \<Rightarrow> (ctt_evm_status \<times> byte list option) outcome" where
  "eth_evm_modexp r_len inputs =
     (let paddedLengths = pad_take 96 inputs;
          bL = bigint256 (toOpenArray paddedLengths 0 31);
          eL = bigint256 (toOpenArray paddedLengths 32 63);
          mL = bigint256 (toOpenArray paddedLengths 64 95)
      in if too_large bL then Done (cttEVM_InvalidInputSize, None)
         else if too_large eL then Done (cttEVM_InvalidInputSize, None)
         else if too_large mL then Done (cttEVM_InvalidInputSize, None)
         else
           let baseByteLen = cast_int bL;
               exponentByteLen = cast_int eL;
               modulusByteLen = cast_int mL
           in obind (ceilDiv_vartime baseByteLen 8) (\<lambda>baseWordLen.
              obind (ceilDiv_vartime modulusByteLen 8) (\<lambda>modulusWordLen.
                if int r_len \<noteq> modulusByteLen then Done (cttEVM_InvalidOutputSize, None)
                else
                  obind (int64 (96 + baseByteLen)) (\<lambda>n.
                  obind (int64 (n + exponentByteLen)) (\<lambda>n.
                    if n \<ge> int (length inputs) then Done (cttEVM_Success, Some (replicate r_len 0))
                    else if modulusByteLen = 0 then Done (cttEVM_Success, Some (replicate r_len 0))
                    else if exponentByteLen = 0 then
                      Done (cttEVM_Success, Some ((replicate r_len 0)[r_len - 1 := 1]))
                    else if baseByteLen = 0 then Done (cttEVM_Success, Some (replicate r_len 0))
                    else modexp_compute r_len inputs baseByteLen exponentByteLen modulusByteLen
                      baseWordLen modulusWordLen)))))"

section \<open>EIP-198\<close>

text \<open>The lengths and the three integers of an input, which continues with zeros for ever.\<close>

definition input_at :: "byte list \<Rightarrow> nat \<Rightarrow> nat \<Rightarrow> nat" where
  "input_at inputs off n = be_val (pad_take n (drop off inputs))"

definition eip198_lengths :: "byte list \<Rightarrow> nat \<times> nat \<times> nat" where
  "eip198_lengths inputs = (input_at inputs 0 32, input_at inputs 32 32, input_at inputs 64 32)"

definition eip198_args :: "byte list \<Rightarrow> nat \<times> nat \<times> nat" where
  "eip198_args inputs =
     (case eip198_lengths inputs of (b, e, m) \<Rightarrow>
        (input_at inputs 96 b, input_at inputs (96 + b) e, input_at inputs (96 + b + e) m))"

definition eip198 :: "byte list \<Rightarrow> byte list" where
  "eip198 inputs =
     (case (eip198_lengths inputs, eip198_args inputs) of ((_, _, m), (B, E, M)) \<Rightarrow>
        be_bytes m (if M = 0 then 0 else B ^ E mod M))"

section \<open>Reading the lengths\<close>

lemma pad_take_nth: "i < n \<Longrightarrow> pad_take n xs ! i = (if i < length xs then xs ! i else 0)"
  by (simp add: pad_take_def nth_append)

lemma pad_take_slice:
  "off + k \<le> n \<Longrightarrow> take k (drop off (pad_take n xs)) = pad_take k (drop off xs)"
  by (rule nth_equalityI) (simp_all add: pad_take_nth less_diff_conv add.commute)

lemma sint_small:
  assumes "unat (w :: limb) < 2 ^ 63"
  shows "sint w = int (unat w)"
proof -
  have "int (unat w) < int (2 ^ 63)" using assms by (simp only: of_nat_less_iff)
  then have "uint w < 2 ^ 63" by simp
  then show ?thesis
    by (simp add: sint_uint signed_take_bit_int_eq_self_iff order_trans [OF _ uint_ge_0])
qed

lemma bigint256_facts:
  assumes "length bs = 32"
  shows "limbs_val (bigint256 bs) = be_val bs" "length (bigint256 bs) = 4"
  using unmarshalBE_val [of bs "replicate 4 0"] assms by (simp_all add: bigint256_def)

lemma cast_int_small:
  assumes "length x = 4" "limbs_val x < 2 ^ 63"
  shows "cast_int x = int (limbs_val x)"
proof -
  have "limbs_val x = unat (x ! 0)" using assms by (cases x) auto
  then show ?thesis using assms(2) by (simp add: cast_int_def sint_small)
qed

lemma length_at:
  assumes "off + 32 \<le> 96"
  shows "limbs_val (bigint256 (toOpenArray (pad_take 96 inputs) (int off) (int off + 31))) = input_at inputs off 32"
    "input_at inputs off 32 < 2 ^ 63 \<Longrightarrow>
     cast_int (bigint256 (toOpenArray (pad_take 96 inputs) (int off) (int off + 31))) = int (input_at inputs off 32)"
proof -
  have s: "toOpenArray (pad_take 96 inputs) (int off) (int off + 31) = pad_take 32 (drop off inputs)"
    using assms by (simp add: toOpenArray_def pad_take_slice)
  then show v: "limbs_val (bigint256 (toOpenArray (pad_take 96 inputs) (int off) (int off + 31))) = input_at inputs off 32"
    by (simp add: bigint256_facts input_at_def)
  show "input_at inputs off 32 < 2 ^ 63 \<Longrightarrow>
     cast_int (bigint256 (toOpenArray (pad_take 96 inputs) (int off) (int off + 31))) = int (input_at inputs off 32)"
    using cast_int_small [of "bigint256 (pad_take 32 (drop off inputs))"] v
    by (simp add: s bigint256_facts)
qed

lemma len_fields:
  "limbs_val (bigint256 (toOpenArray (pad_take 96 inputs) 0 31)) = input_at inputs 0 32"
  "limbs_val (bigint256 (toOpenArray (pad_take 96 inputs) 32 63)) = input_at inputs 32 32"
  "limbs_val (bigint256 (toOpenArray (pad_take 96 inputs) 64 95)) = input_at inputs 64 32"
  "input_at inputs 0 32 < 2 ^ 63 \<Longrightarrow>
     cast_int (bigint256 (toOpenArray (pad_take 96 inputs) 0 31)) = int (input_at inputs 0 32)"
  "input_at inputs 32 32 < 2 ^ 63 \<Longrightarrow>
     cast_int (bigint256 (toOpenArray (pad_take 96 inputs) 32 63)) = int (input_at inputs 32 32)"
  "input_at inputs 64 32 < 2 ^ 63 \<Longrightarrow>
     cast_int (bigint256 (toOpenArray (pad_take 96 inputs) 64 95)) = int (input_at inputs 64 32)"
  using length_at [of 0 inputs] length_at [of 32 inputs] length_at [of 64 inputs] by simp_all

lemma int64_Done [simp]: "- (2 ^ 63) \<le> x \<Longrightarrow> x < 2 ^ 63 \<Longrightarrow> int64 x = Done x"
  by (simp add: int64_def)

lemma int64_int: "n < 2 ^ 63 \<Longrightarrow> int64 (int n) = Done (int n)"
  by (simp add: int64_def)

lemma ceilDiv_small:
  assumes "n + 8 < 2 ^ 63"
  shows "ceilDiv_vartime (int n) 8 = Done (int ((n + 7) div 8))"
proof -
  have "(int n + 7) sdiv 8 = int ((n + 7) div 8)"
    by (simp add: signed_divide_int_def sgn_if zdiv_int)
  then have "(7 + int n) sdiv 8 = int ((n + 7) div 8)" by (simp only: add.commute)
  then show ?thesis using assms by (simp add: ceilDiv_vartime_def)
qed

lemma toOpenArray_int:
  "toOpenArray xs (int i) (int i + int n - 1) = take n (drop i xs)"
  by (simp add: toOpenArray_def)

section \<open>The computation\<close>

lemma pad_take_inside: "off + n \<le> length xs \<Longrightarrow> pad_take n (drop off xs) = take n (drop off xs)"
  by (simp add: pad_take_def)

lemma unmarshal_words:
  "length bs = n \<Longrightarrow> limbs_val (snd (unmarshalBE (replicate ((n + 7) div 8) 0) bs)) = be_val bs"
  "length bs = n \<Longrightarrow> length (snd (unmarshalBE (replicate ((n + 7) div 8) 0) bs)) = (n + 7) div 8"
  by (simp_all add: unmarshalBE_val)

text \<open>What the computation passes on: the base, the exponent and the modulus of EIP-198, the words
  of the modulus being padded when the input ends inside it.\<close>

lemma modexp_compute_eq:
  assumes "96 + b + e < length inputs" "96 + b + e + m < 2 ^ 63"
  obtains base modulus where
    "modexp_compute m inputs (int b) (int e) (int m) (int ((b + 7) div 8)) (int ((m + 7) div 8)) =
       obind (obind (powMod_vartime (length modulus) base (take e (drop (96 + b) inputs)) modulus 4) read_words) (\<lambda>output.
         Done (cttEVM_Success, Some (be_bytes m (limbs_val output))))"
    "length base = (b + 7) div 8" "length modulus = (m + 7) div 8"
    "limbs_val base = input_at inputs 96 b" "limbs_val modulus = input_at inputs (96 + b + e) m"
    "be_val (take e (drop (96 + b) inputs)) = input_at inputs (96 + b) e"
proof -
  let ?base = "snd (unmarshalBE (replicate ((b + 7) div 8) 0) (take b (drop 96 inputs)))"
  let ?mod = "snd (unmarshalBE (replicate ((m + 7) div 8) 0) (pad_take m (drop (96 + b + e) inputs)))"
  have pos: "96 + int b - 1 + 1 = int (96 + b)" "int (96 + b) + int e - 1 + 1 = int (96 + b + e)"
    "int (96 + b + e) + int m = int (96 + b + e + m)"
    "int (96 + b + e + m) - int (length inputs) = int (96 + b + e + m - length inputs) \<or> 96 + b + e + m < length inputs"
    by auto
  have slices: "toOpenArray inputs 96 (96 + int b - 1) = take b (drop 96 inputs)"
    "toOpenArray inputs (int (96 + b)) (int (96 + b) + int e - 1) = take e (drop (96 + b) inputs)"
    "toOpenArray inputs (int (96 + b + e)) (int (96 + b + e + m) - 1) = take m (drop (96 + b + e) inputs)"
    using toOpenArray_int [of inputs 96 b] toOpenArray_int [of inputs "96 + b" e]
      toOpenArray_int [of inputs "96 + b + e" m]
    by simp_all
  have real: "int64 (int (96 + b + e + m)) = Done (int (96 + b + e + m))"
    by (rule int64_int) (rule assms(2))
  have neg: "(int b < 0 \<or> int e < 0) = False" by simp
  have modbytes: "(if int (96 + b + e + m) - int (length inputs) > 0
      then snd (unmarshalBE d (take (nat (int (length inputs) - int (96 + b + e))) (drop (96 + b + e) inputs)
        @ replicate (nat (int (96 + b + e + m) - int (length inputs))) 0))
      else snd (unmarshalBE d (take m (drop (96 + b + e) inputs)))) =
      snd (unmarshalBE d (pad_take m (drop (96 + b + e) inputs)))" for d
  proof (cases "length inputs < 96 + b + e + m")
    case True
    have p: "nat (int (length inputs) - int (96 + b + e)) = length (drop (96 + b + e) inputs)"
      "nat (int (96 + b + e + m) - int (length inputs)) = m - length (drop (96 + b + e) inputs)"
      using assms(1) by (simp_all add: nat_diff_distrib')
    have "int (96 + b + e + m) - int (length inputs) > 0" using True by simp
    then show ?thesis unfolding p using True by (simp only: if_True pad_take_def) simp
  next
    case False
    then show ?thesis by (simp add: pad_take_def)
  qed
  have len: "length ?mod = (m + 7) div 8" by (simp add: unmarshal_words)
  have "modexp_compute m inputs (int b) (int e) (int m) (int ((b + 7) div 8)) (int ((m + 7) div 8)) =
       obind (obind (powMod_vartime (length ?mod) ?base (take e (drop (96 + b) inputs)) ?mod 4) read_words) (\<lambda>output.
         Done (cttEVM_Success, Some (be_bytes m (limbs_val output))))"
    unfolding modexp_compute_def Let_def
    by (simp only: pos(1-3) real slices neg if_False obind.simps modbytes nat_int len marshalBE_val length_replicate)
  then show ?thesis
    by (rule that) (use assms in \<open>simp_all add: unmarshal_words input_at_def pad_take_inside\<close>)
qed

section \<open>The precompile\<close>

text \<open>With lengths that fit, the code is a case distinction on them.\<close>

lemma modexp_cases:
  assumes "eip198_lengths inputs = (b, e, m)" "104 + b + e + m < 2 ^ 63"
  shows "eth_evm_modexp r_len inputs =
    (if r_len \<noteq> m then Done (cttEVM_InvalidOutputSize, None)
     else if length inputs \<le> 96 + b + e \<or> m = 0 then Done (cttEVM_Success, Some (replicate m 0))
     else if e = 0 then Done (cttEVM_Success, Some ((replicate m 0)[m - 1 := 1]))
     else if b = 0 then Done (cttEVM_Success, Some (replicate m 0))
     else modexp_compute m inputs (int b) (int e) (int m) (int ((b + 7) div 8)) (int ((m + 7) div 8)))"
proof -
  have l: "input_at inputs 0 32 = b" "input_at inputs 32 32 = e" "input_at inputs 64 32 = m"
    using assms(1) by (simp_all add: eip198_lengths_def)
  have f: "cast_int (bigint256 (toOpenArray (pad_take 96 inputs) 0 31)) = int b"
    "cast_int (bigint256 (toOpenArray (pad_take 96 inputs) 32 63)) = int e"
    "cast_int (bigint256 (toOpenArray (pad_take 96 inputs) 64 95)) = int m"
    "\<not> too_large (bigint256 (toOpenArray (pad_take 96 inputs) 0 31))"
    "\<not> too_large (bigint256 (toOpenArray (pad_take 96 inputs) 32 63))"
    "\<not> too_large (bigint256 (toOpenArray (pad_take 96 inputs) 64 95))"
    using len_fields [of inputs] l assms(2) by (simp_all add: too_large_def)
  have c: "ceilDiv_vartime (int b) 8 = Done (int ((b + 7) div 8))"
    "ceilDiv_vartime (int m) 8 = Done (int ((m + 7) div 8))"
    using assms(2) by (simp_all add: ceilDiv_small)
  have a: "96 + int b = int (96 + b)" "int (96 + b) + int e = int (96 + b + e)" by simp_all
  have s: "int64 (int (96 + b)) = Done (int (96 + b))" "int64 (int (96 + b + e)) = Done (int (96 + b + e))"
    using assms(2) by (auto intro!: int64_int simp del: of_nat_add)
  show ?thesis
    unfolding eth_evm_modexp_def Let_def
    by (simp only: f c a s if_False obind.simps of_nat_eq_iff of_nat_le_iff of_nat_eq_0_iff)
      (auto simp: not_le)
qed

lemma be_bytes_one: "0 < m \<Longrightarrow> (replicate m 0)[m - 1 := 1] = be_bytes m 1"
proof -
  assume "0 < m"
  then obtain k where k: "m = k + 1" by (metis Suc_eq_plus1 gr0_implies_Suc)
  have "be_bytes m 1 = be_bytes k (1 div 256 ^ 1) @ be_bytes 1 1"
    unfolding k by (rule be_bytes_append)
  moreover have "replicate m (0 :: byte) = replicate k 0 @ [0]"
    by (simp add: k replicate_append_same flip: replicate_Suc)
  ultimately show ?thesis by (simp add: k be_bytes_zero list_update_append)
qed

lemma input_at_beyond: "length inputs \<le> off \<Longrightarrow> input_at inputs off n = 0"
  by (simp add: input_at_def pad_take_def)

lemma input_at_0: "input_at inputs off 0 = 0"
  by (simp add: input_at_def pad_take_def)

text \<open>The inputs on which nothing degenerate happens: the modulus is outside the input, or the
  exponent and the base have bytes (or do not matter) and the words of the base and of the modulus
  have no leading zero word, unless the result does not depend on it. \<open>full_words n v\<close> says that a
  number \<open>v\<close> of \<open>n\<close> bytes has no leading zero word.\<close>

definition full_words :: "nat \<Rightarrow> nat \<Rightarrow> bool" where
  "full_words n v \<longleftrightarrow> 2 ^ (64 * ((n + 7) div 8 - 1)) \<le> v"

lemma full_words_iff:
  "length a = (n + 7) div 8 \<Longrightarrow> 0 < n \<Longrightarrow> full_words n (limbs_val a) \<longleftrightarrow> used_words a = length a"
proof -
  assume a: "length a = (n + 7) div 8" "0 < n"
  then have "a \<noteq> []" by (auto simp: Suc_le_eq)
  then show ?thesis using a used_words_full [of a] by (simp add: full_words_def)
qed

definition modexp_regular :: "byte list \<Rightarrow> bool" where
  "modexp_regular inputs =
     (case (eip198_lengths inputs, eip198_args inputs) of ((b, e, m), (B, E, M)) \<Rightarrow>
        length inputs \<le> 96 + b + e \<or> m = 0 \<or>
        (if e = 0 then 1 < M else if b = 0 then 0 < E \<or> M \<le> 1
         else M \<le> 1 \<or> E = 0 \<or> B \<le> 1 \<or>
           ((b + 7) div 8 \<le> (m + 7) div 8 \<and> (\<exists>k. M = 2 ^ k)) \<or> (full_words b B \<and> full_words m M)))"

lemma modexp_result:
  assumes "eip198_lengths inputs = (b, e, m)" "104 + b + e + m < 2 ^ 63" "modexp_regular inputs"
  shows "eth_evm_modexp m inputs = Done (cttEVM_Success, Some (eip198 inputs))"
proof -
  obtain B E M where a: "eip198_args inputs = (B, E, M)" by (metis prod_cases3)
  have reg: "length inputs \<le> 96 + b + e \<or> m = 0 \<or>
       (if e = 0 then 1 < M else if b = 0 then 0 < E \<or> M \<le> 1
        else M \<le> 1 \<or> E = 0 \<or> B \<le> 1 \<or>
          ((b + 7) div 8 \<le> (m + 7) div 8 \<and> (\<exists>k. M = 2 ^ k)) \<or> (full_words b B \<and> full_words m M))"
    using assms(3) by (simp add: modexp_regular_def assms(1) a)
  have args: "B = input_at inputs 96 b" "E = input_at inputs (96 + b) e" "M = input_at inputs (96 + b + e) m"
    using assms(1) a by (simp_all add: eip198_args_def)
  have spec: "eip198 inputs = be_bytes m (if M = 0 then 0 else B ^ E mod M)"
    by (simp add: eip198_def assms(1) a)
  note code = modexp_cases [OF assms(1,2), of m]
  consider "length inputs \<le> 96 + b + e \<or> m = 0" | "\<not> length inputs \<le> 96 + b + e" "m \<noteq> 0" "e = 0"
    | "\<not> length inputs \<le> 96 + b + e" "m \<noteq> 0" "e \<noteq> 0" "b = 0"
    | "\<not> length inputs \<le> 96 + b + e" "m \<noteq> 0" "e \<noteq> 0" "b \<noteq> 0"
    by blast
  then show ?thesis
  proof cases
    case 1
    then show ?thesis using args(3) by (auto simp: code spec input_at_beyond be_bytes_zero)
  next
    case 2
    then have "E = 0" "1 < M" using reg args(2) by (simp_all add: input_at_0)
    then show ?thesis using 2 be_bytes_one [of m] by (simp add: code spec)
  next
    case 3
    then have "B = 0" "0 < E \<or> M \<le> 1" using reg args(1) by (simp_all add: input_at_0)
    then have "(if M = 0 then 0 else B ^ E mod M) = 0" by (cases "M = 1") (auto simp: zero_power)
    then show ?thesis using 3 by (simp add: code spec be_bytes_zero)
  next
    case 4
    then have in_range: "96 + b + e < length inputs" "96 + b + e + m < 2 ^ 63" using assms(2) by simp_all
    from modexp_compute_eq [OF in_range] obtain base modulus where c:
      "modexp_compute m inputs (int b) (int e) (int m) (int ((b + 7) div 8)) (int ((m + 7) div 8)) =
         obind (obind (powMod_vartime (length modulus) base (take e (drop (96 + b) inputs)) modulus 4) read_words) (\<lambda>output.
           Done (cttEVM_Success, Some (be_bytes m (limbs_val output))))"
      "length base = (b + 7) div 8" "length modulus = (m + 7) div 8" "limbs_val base = B"
      "limbs_val modulus = M" "be_val (take e (drop (96 + b) inputs)) = E"
      unfolding args by blast
    have ne: "base \<noteq> []" using 4 c(2) by (auto simp: Suc_le_eq)
    have "powMod_regular base (take e (drop (96 + b) inputs)) modulus"
      using reg 4 full_words_iff [OF c(2)] full_words_iff [OF c(3)] c(4-6)
      by (auto simp: powMod_regular_def c(2,3)) 
    moreover have "length modulus \<le> 2 ^ 60" using assms(2) c(3) by simp
    ultimately obtain r where
      "powMod_vartime (length modulus) base (take e (drop (96 + b) inputs)) modulus 4 = Done (map Some r)"
      "limbs_val r = (if M = 0 then 0 else B ^ E mod M)"
      using powMod_val [OF _ ne, of "take e (drop (96 + b) inputs)" modulus] c by auto
    then show ?thesis using 4 c(1) by (simp add: code spec read_words_map)
  qed
qed

text \<open>Inputs of given lengths and data.\<close>

definition modexp_input :: "nat \<Rightarrow> nat \<Rightarrow> nat \<Rightarrow> byte list \<Rightarrow> byte list" where
  "modexp_input b e m data = be_bytes 32 b @ be_bytes 32 e @ be_bytes 32 m @ data"

lemma modexp_input_lengths:
  "b < 2 ^ 256 \<Longrightarrow> e < 2 ^ 256 \<Longrightarrow> m < 2 ^ 256 \<Longrightarrow> eip198_lengths (modexp_input b e m data) = (b, e, m)"
  by (simp add: eip198_lengths_def modexp_input_def input_at_def pad_take_def be_val_be_bytes)

lemma modexp_input_at: "input_at (modexp_input b e m data) (96 + k) n = be_val (pad_take n (drop k data))"
  by (simp add: input_at_def modexp_input_def)

lemma modexp_input_args:
  assumes "b < 2 ^ 256" "e < 2 ^ 256" "m < 2 ^ 256"
  shows "eip198_args (modexp_input b e m data) =
    (be_val (pad_take b data), be_val (pad_take e (drop b data)), be_val (pad_take m (drop (b + e) data)))"
  using modexp_input_at [of b e m data 0 b] modexp_input_at [of b e m data b e]
    modexp_input_at [of b e m data "b + e" m] modexp_input_lengths [OF assms, of data]
  by (simp add: eip198_args_def add.assoc)

lemma length_modexp_input: "length (modexp_input b e m data) = 96 + length data"
  by (simp add: modexp_input_def)

lemmas modexp_input_simps = modexp_input_lengths modexp_input_args length_modexp_input

text \<open>C21: where the code leaves EIP-198. With an empty exponent it answers 1 even modulo 1, where
  the result is 0, and with an empty base it answers 0 even to the power 0, where the result is 1.\<close>

theorem modexp_degenerate:
  assumes "eip198_lengths inputs = (b, e, m)" "eip198_args inputs = (B, E, M)"
    "104 + b + e + m < 2 ^ 63" "96 + b + e < length inputs" "0 < m"
  shows "(e = 0 \<and> M \<le> 1 \<longrightarrow> eth_evm_modexp m inputs = Done (cttEVM_Success, Some (be_bytes m 1)) \<and>
      eip198 inputs = be_bytes m 0) \<and>
    (0 < e \<and> b = 0 \<and> E = 0 \<and> 1 < M \<longrightarrow> eth_evm_modexp m inputs = Done (cttEVM_Success, Some (be_bytes m 0)) \<and>
      eip198 inputs = be_bytes m 1)"
proof -
  have "(if M = 0 then 0 else B ^ E mod M) = 0" if "M \<le> 1"
  proof -
    have "M = 0 \<or> M = 1" using that by auto
    then show ?thesis by auto
  qed
  moreover have "(if M = 0 then 0 else B ^ E mod M) = 1" if "E = 0" "1 < M" using that by simp
  ultimately show ?thesis
    using assms(1,2,4,5) be_bytes_one [of m]
    by (simp add: modexp_cases [OF assms(1,3)] eip198_def be_bytes_zero)
qed

theorem modexp_degenerate_witness:
  "eth_evm_modexp 1 (modexp_input 1 0 1 [5, 1]) = Done (cttEVM_Success, Some [1]) \<and>
   eip198 (modexp_input 1 0 1 [5, 1]) = [0] \<and>
   eth_evm_modexp 1 (modexp_input 0 1 1 [0, 7]) = Done (cttEVM_Success, Some [0]) \<and>
   eip198 (modexp_input 0 1 1 [0, 7]) = [1]"
  using modexp_degenerate [of "modexp_input 1 0 1 [5, 1]" 1 0 1 5 0 1]
    modexp_degenerate [of "modexp_input 0 1 1 [0, 7]" 0 1 1 0 0 7]
  by (simp add: modexp_input_simps pad_take_def)

text \<open>C20: where the code is undefined. First, when the base has more words than the modulus (for
  instance a 32-byte base and a 1-byte modulus) and the shortcut of \<^verbatim>\<open>powMod_vartime\<close> applies, the words
  of the base are copied past the end of the output buffer, however small the base is as a number.
  Second, when an odd modulus needs a reduction and the base or the modulus has a leading zero word:
  the base is shifted past the end of the buffer of \<^verbatim>\<open>getMont_vartime\<close>, or the upper words of the output
  buffer are read without having been written.\<close>

theorem modexp_undefined:
  assumes "eip198_lengths inputs = (b, e, m)" "eip198_args inputs = (B, E, M)"
    "104 + b + e + m < 2 ^ 63" "96 + b + e < length inputs" "0 < m" "1 < B" "0 < E"
  shows "((m + 7) div 8 < (b + 7) div 8 \<and> nbits E < 64 \<and> nbits B < 2 ^ (64 - nbits E) \<and>
        nbits B * 2 ^ nbits E < nbits M \<longrightarrow> eth_evm_modexp m inputs = UB) \<and>
    (odd M \<and> 1 < M \<and> 1 < E \<and> nbits M \<le> nbits B * 2 ^ nbits E \<and> \<not> (full_words b B \<and> full_words m M) \<longrightarrow>
      eth_evm_modexp m inputs = UB)"
proof -
  have args: "B = input_at inputs 96 b" "E = input_at inputs (96 + b) e" "M = input_at inputs (96 + b + e) m"
    using assms(1,2) by (simp_all add: eip198_args_def)
  have "b = 0 \<Longrightarrow> B = 0" "e = 0 \<Longrightarrow> E = 0" by (simp_all add: args input_at_0)
  then have pos: "b \<noteq> 0" "e \<noteq> 0" using assms(6,7) by auto
  have in_range: "96 + b + e < length inputs" "96 + b + e + m < 2 ^ 63" using assms(3,4) by simp_all
  let ?e = "take e (drop (96 + b) inputs)"
  from modexp_compute_eq [OF in_range] obtain base modulus where c:
    "modexp_compute m inputs (int b) (int e) (int m) (int ((b + 7) div 8)) (int ((m + 7) div 8)) =
       obind (obind (powMod_vartime (length modulus) base ?e modulus 4) read_words) (\<lambda>output.
         Done (cttEVM_Success, Some (be_bytes m (limbs_val output))))"
    "length base = (b + 7) div 8" "length modulus = (m + 7) div 8" "limbs_val base = B"
    "limbs_val modulus = M" "be_val ?e = E"
    unfolding args by blast
  have ub: "obind (powMod_vartime (length modulus) base ?e modulus 4) read_words = UB \<Longrightarrow> eth_evm_modexp m inputs = UB"
    using assms(4,5) pos c(1) by (simp add: modexp_cases [OF assms(1,3)])
  have n: "getBits_LE_vartime base = nbits B" "getBits_LE_vartime modulus = nbits M" "getBits_BE_vartime ?e = nbits E"
    using c(4-6) nbits_unique [OF getBits_BE [of ?e]] by (simp_all add: getBits_nbits)
  have "eth_evm_modexp m inputs = UB"
    if "(m + 7) div 8 < (b + 7) div 8" "nbits E < 64" "nbits B < 2 ^ (64 - nbits E)" "nbits B * 2 ^ nbits E < nbits M"
  proof (rule ub)
    have "powMod_vartime (length modulus) base ?e modulus 4 = UB"
      by (rule powMod_overrun) (use assms c that n in simp_all)
    then show "obind (powMod_vartime (length modulus) base ?e modulus 4) read_words = UB" by simp
  qed
  moreover have "eth_evm_modexp m inputs = UB"
    if "odd M" "1 < M" "1 < E" "nbits M \<le> nbits B * 2 ^ nbits E" "\<not> (full_words b B \<and> full_words m M)"
  proof (rule ub)
    have r: "reduces base ?e modulus" "odd (limbs_val modulus)" using that assms(6) c by (simp_all add: reduces_def)
    have "used_words base < length base \<or> used_words modulus < length modulus"
      using that(5) full_words_iff [OF c(2)] full_words_iff [OF c(3)] c(4,5) pos(1) assms(5)
        used_words_le [of base] used_words_le [of modulus] by auto
    then show "obind (powMod_vartime (length modulus) base ?e modulus 4) read_words = UB"
      using powMod_base_overrun [OF r] powMod_modulus_unwritten [OF r] by auto
  qed
  ultimately show ?thesis by blast
qed

text \<open>2 to the 1 modulo 200 with a base of 32 bytes, and 3 to the 5 modulo 7 with a modulus of 9
  bytes.\<close>

theorem modexp_undefined_witness:
  "eth_evm_modexp 1 (modexp_input 32 1 1 (be_bytes 32 2 @ [1, 200])) = UB \<and>
   eth_evm_modexp 9 (modexp_input 1 1 9 ([3, 5] @ be_bytes 9 7)) = UB"
proof -
  have n: "nbits 1 = 1" "nbits 2 = 2" "nbits 3 = 2" "nbits 5 = 3" "nbits 7 = 3" "nbits 200 = 8" by (simp_all add: nbits.simps)
  have "eip198_args (modexp_input 32 1 1 (be_bytes 32 2 @ [1, 200])) = (2, 1, 200)"
    "eip198_args (modexp_input 1 1 9 ([3, 5] @ be_bytes 9 7)) = (3, 5, 7)"
    by (simp_all add: modexp_input_args pad_take_def be_val_be_bytes)
  then show ?thesis
    using modexp_undefined [of "modexp_input 32 1 1 (be_bytes 32 2 @ [1, 200])" 32 1 1 2 1 200]
      modexp_undefined [of "modexp_input 1 1 9 ([3, 5] @ be_bytes 9 7)" 1 1 9 3 5 7] n
    by (simp add: modexp_input_lengths length_modexp_input full_words_def)
qed

lemma modexp_size:
  "eth_evm_modexp_result_size inputs = (case eip198_lengths inputs of (b, e, m) \<Rightarrow>
     if m < 2 ^ 64 then (cttEVM_Success, Some m) else (cttEVM_InvalidInputSize, None))"
proof -
  obtain b e m where assms: "eip198_lengths inputs = (b, e, m)" by (metis prod_cases3)
  then have l: "input_at inputs 64 32 = m" by (simp add: eip198_lengths_def)
  let ?m = "bigint256 (toOpenArray (pad_take 96 inputs) 64 95)"
  show ?thesis
  proof (cases "m < 2 ^ 64")
    case True
    have "length (toOpenArray (pad_take 96 inputs) 64 95) = 32" by (simp add: toOpenArray_def)
    then have "length ?m = 4" by (rule bigint256_facts)
    then have "unat (?m ! 0) = m"
      using True len_fields(3) [of inputs] l by (cases ?m) auto
    moreover have "cast_int ?m mod 2 ^ 64 = uint (?m ! 0)"
      using uint_sint [of "?m ! 0"] by (simp add: cast_int_def take_bit_eq_mod)
    ultimately have "nat (cast_int ?m mod 2 ^ 64) = m" by simp
    then show ?thesis using True len_fields(3) [of inputs] l
      by (simp add: eth_evm_modexp_result_size_def too_large_def Let_def assms)
  next
    case False
    then show ?thesis using len_fields(3) [of inputs] l
      by (simp add: eth_evm_modexp_result_size_def too_large_def Let_def assms)
  qed
qed

text \<open>A length that needs more than 64 bits is refused by both calls, the size call otherwise
  reports the length of the modulus, and a result buffer of any other length is refused.\<close>

lemma modexp_errors:
  assumes "eip198_lengths inputs = (b, e, m)"
  shows "eth_evm_modexp_result_size inputs =
      (if m < 2 ^ 64 then (cttEVM_Success, Some m) else (cttEVM_InvalidInputSize, None)) \<and>
    (2 ^ 64 \<le> b \<or> 2 ^ 64 \<le> e \<or> 2 ^ 64 \<le> m \<longrightarrow>
      eth_evm_modexp r_len inputs = Done (cttEVM_InvalidInputSize, None)) \<and>
    (104 + b + e + m < 2 ^ 63 \<and> r_len \<noteq> m \<longrightarrow>
      eth_evm_modexp r_len inputs = Done (cttEVM_InvalidOutputSize, None))"
proof -
  have l: "input_at inputs 0 32 = b" "input_at inputs 32 32 = e" "input_at inputs 64 32 = m"
    using assms by (simp_all add: eip198_lengths_def)
  have "eth_evm_modexp r_len inputs = Done (cttEVM_InvalidInputSize, None)"
    if "2 ^ 64 \<le> b \<or> 2 ^ 64 \<le> e \<or> 2 ^ 64 \<le> m"
    using that len_fields(1-3) [of inputs] l
    by (simp add: eth_evm_modexp_def Let_def too_large_def) linarith
  then show ?thesis using modexp_cases [OF assms, of r_len] modexp_size [of inputs] assms by simp
qed

end
