(* ===== verification/Sha256.thy ===== *)
theory Sha256
  imports Prelude
begin

unbundle bit_operations_syntax

text \<open>
  SHA-256: the code of \<^verbatim>\<open>constantine/hashes/h_sha256.nim\<close> and
  \<^verbatim>\<open>constantine/hashes/sha256/sha256_generic.nim\<close> (a rolling 16-word message schedule, rounds on a
  rotated state array, an incremental context) and the definition of FIPS 180-4, with the proof
  that a context fed any sequence of messages computes the FIPS digest of their concatenation.
\<close>

type_synonym word32 = "32 word"

section \<open>The code\<close>

definition K256 :: "word32 list" where
  "K256 = [
  0x428A2F98, 0x71374491, 0xB5C0FBCF, 0xE9B5DBA5, 0x3956C25B, 0x59F111F1, 0x923F82A4, 0xAB1C5ED5,
  0xD807AA98, 0x12835B01, 0x243185BE, 0x550C7DC3, 0x72BE5D74, 0x80DEB1FE, 0x9BDC06A7, 0xC19BF174,
  0xE49B69C1, 0xEFBE4786, 0x0FC19DC6, 0x240CA1CC, 0x2DE92C6F, 0x4A7484AA, 0x5CB0A9DC, 0x76F988DA,
  0x983E5152, 0xA831C66D, 0xB00327C8, 0xBF597FC7, 0xC6E00BF3, 0xD5A79147, 0x06CA6351, 0x14292967,
  0x27B70A85, 0x2E1B2138, 0x4D2C6DFC, 0x53380D13, 0x650A7354, 0x766A0ABB, 0x81C2C92E, 0x92722C85,
  0xA2BFE8A1, 0xA81A664B, 0xC24B8B70, 0xC76C51A3, 0xD192E819, 0xD6990624, 0xF40E3585, 0x106AA070,
  0x19A4C116, 0x1E376C08, 0x2748774C, 0x34B0BCB5, 0x391C0CB3, 0x4ED8AA4A, 0x5B9CCA4F, 0x682E6FF3,
  0x748F82EE, 0x78A5636F, 0x84C87814, 0x8CC70208, 0x90BEFFFA, 0xA4506CEB, 0xBEF9A3F7, 0xC67178F2]"

definition rotr :: "word32 \<Rightarrow> nat \<Rightarrow> word32" where
  "rotr x n = drop_bit n x OR push_bit (32 - n) x"

definition ch :: "word32 \<Rightarrow> word32 \<Rightarrow> word32 \<Rightarrow> word32" where
  "ch x y z = (x AND (y XOR z)) XOR z"

definition maj :: "word32 \<Rightarrow> word32 \<Rightarrow> word32 \<Rightarrow> word32" where
  "maj x y z = (x AND (y OR z)) OR (y AND z)"

definition S0 :: "word32 \<Rightarrow> word32" where
  "S0 x = rotr x 2 XOR rotr x 13 XOR rotr x 22"

definition S1 :: "word32 \<Rightarrow> word32" where
  "S1 x = rotr x 6 XOR rotr x 11 XOR rotr x 25"

definition s0 :: "word32 \<Rightarrow> word32" where
  "s0 x = rotr x 7 XOR rotr x 18 XOR drop_bit 3 x"

definition s1 :: "word32 \<Rightarrow> word32" where
  "s1 x = rotr x 17 XOR rotr x 19 XOR drop_bit 10 x"

text \<open>\<^verbatim>\<open>rotateRight\<close> of \<^verbatim>\<open>platforms/primitives.nim\<close>: the last element moves to the front.\<close>

definition rotateRight :: "'a list \<Rightarrow> 'a list" where
  "rotateRight a = last a # butlast a"

text \<open>\<^verbatim>\<open>sha256_round\<close> on the state array \<open>H\<close>: \<open>d\<close> and \<open>h\<close> are updated in place, then the array is
  rotated.\<close>

definition sha256_round :: "word32 list \<Rightarrow> word32 \<Rightarrow> word32 \<Rightarrow> word32 list" where
  "sha256_round H wt kt =
     (let a = H ! 0; b = H ! 1; c = H ! 2; d = H ! 3; e = H ! 4; f = H ! 5; g = H ! 6; h = H ! 7;
          T1 = h + S1 e + ch e f g + kt + wt;
          T2 = S0 a + maj a b c
      in rotateRight (H[3 := d + T1, 7 := T1 + T2]))"

text \<open>\<^verbatim>\<open>uint32.fromBytes(message, offset, bigEndian)\<close> and \<^verbatim>\<open>dumpRawInt\<close> (\<^verbatim>\<open>serialization/endians.nim\<close>).\<close>

definition u32_fromBytes :: "byte list \<Rightarrow> nat \<Rightarrow> word32" where
  "u32_fromBytes bytes offset =
     foldl (\<lambda>r i. r OR push_bit ((4 - 1 - i) * 8) (ucast (bytes ! (i + offset)))) 0 [0..<4]"

definition dumpRawInt :: "byte list \<Rightarrow> nat \<Rightarrow> 'a::len word \<Rightarrow> nat \<Rightarrow> byte list" where
  "dumpRawInt dst L src cursor =
     foldl (\<lambda>dst i. dst[cursor + i := ucast (drop_bit ((L - i - 1) * 8) src)]) dst [0..<L]"

text \<open>The rounds on a state and a message schedule.\<close>

definition sha256_rounds_0_15 ::
  "byte list \<Rightarrow> word32 list \<times> word32 list \<Rightarrow> word32 list \<times> word32 list" where
  "sha256_rounds_0_15 message =
     fold (\<lambda>t (s, w).
        let w = w[t := u32_fromBytes message (t * 4)] in (sha256_round s (w ! t) (K256 ! t), w)) [0..<16]"

definition sha256_rounds_16_63 :: "word32 list \<times> word32 list \<Rightarrow> word32 list \<times> word32 list" where
  "sha256_rounds_16_63 =
     fold (\<lambda>t (s, w).
        let i = t mod 16;
            w = w[i := w ! i + (s1 (w ! ((t - 2) mod 16)) + w ! ((t - 7) mod 16) + s0 (w ! ((t - 15) mod 16)))]
        in (sha256_round s (w ! i) (K256 ! t), w)) [16..<64]"

text \<open>One block of the loop, on the saved state and the (uninitialised) schedule.\<close>

definition hash_block :: "byte list \<Rightarrow> word32 list \<times> word32 list \<Rightarrow> word32 list \<times> word32 list" where
  "hash_block msg Hw =
     (let (s, w) = sha256_rounds_16_63 (sha256_rounds_0_15 msg Hw)
      in (map2 (+) s (fst Hw), w))"

fun hash_blocks :: "nat \<Rightarrow> byte list \<Rightarrow> word32 list \<times> word32 list \<Rightarrow> word32 list \<times> word32 list" where
  "hash_blocks 0 msg Hw = Hw"
| "hash_blocks (Suc n) msg Hw = hash_blocks n (drop 64 msg) (hash_block msg Hw)"

definition hashMessageBlocks :: "word32 list \<Rightarrow> byte list \<Rightarrow> nat \<Rightarrow> word32 list" where
  "hashMessageBlocks H message numBlocks = fst (hash_blocks numBlocks message (H, replicate 16 0))"

section \<open>The incremental context\<close>

record Sha256Context =
  ctx_s :: "word32 list"
  ctx_buf :: "byte list"
  msgLen :: "64 word"

definition init_state :: "word32 list" where
  "init_state = [0x6a09e667, 0xbb67ae85, 0x3c6ef372, 0xa54ff53a, 0x510e527f, 0x9b05688c, 0x1f83d9ab, 0x5be0cd19]"

definition sha256_init :: Sha256Context where
  "sha256_init = \<lparr>ctx_s = init_state, ctx_buf = replicate 64 0, msgLen = 0\<rparr>"

definition sha256_initZeroPadded :: Sha256Context where
  "sha256_initZeroPadded = \<lparr>ctx_s = [0xda5698be, 0x17b9b469, 0x62335799, 0x779fbeca, 0x8ce5d491, 0xc0d26243,
     0xbafef9ea, 0x1837a9d8], ctx_buf = replicate 64 0, msgLen = 64\<rparr>"

definition hashBuffer :: "Sha256Context \<Rightarrow> Sha256Context" where
  "hashBuffer ctx = ctx\<lparr>ctx_s := hashMessageBlocks (ctx_s ctx) (ctx_buf ctx) 1, ctx_buf := replicate 64 0\<rparr>"

definition sha256_update :: "Sha256Context \<Rightarrow> byte list \<Rightarrow> Sha256Context" where
  "sha256_update ctx message =
     (let bufIdx = unat (msgLen ctx mod 64); cur = 0; bytesLeft = length message;
          (ctx', bufIdx, cur, bytesLeft) =
            (if bufIdx \<noteq> 0 \<and> bufIdx + bytesLeft \<ge> 64 then
               let free = 64 - bufIdx in
               (hashBuffer (ctx\<lparr>ctx_buf := splice (ctx_buf ctx) bufIdx (take free message)\<rparr>), 0, free, bytesLeft - free)
             else (ctx, bufIdx, cur, bytesLeft));
          (ctx', cur, bytesLeft) =
            (if bytesLeft \<ge> 64 then
               let numBlocks = bytesLeft div 64 in
               (ctx'\<lparr>ctx_s := hashMessageBlocks (ctx_s ctx') (drop cur message) numBlocks\<rparr>,
                cur + numBlocks * 64, bytesLeft - numBlocks * 64)
             else (ctx', cur, bytesLeft));
          ctx' = (if bytesLeft \<noteq> 0
                  then ctx'\<lparr>ctx_buf := splice (ctx_buf ctx') bufIdx (take bytesLeft (drop cur message))\<rparr> else ctx')
      in ctx'\<lparr>msgLen := msgLen ctx' + of_nat (length message)\<rparr>)"

definition dumpHash :: "word32 list \<Rightarrow> byte list" where
  "dumpHash H =
     foldl (\<lambda>digest i. dumpRawInt digest 4 (H ! i) (i * 4)) (replicate 32 0) [0..<8]"

definition sha256_finish :: "Sha256Context \<Rightarrow> Sha256Context \<times> byte list" where
  "sha256_finish ctx =
     (let bufIdx = unat (msgLen ctx mod 64);
          ctx = ctx\<lparr>ctx_buf := (ctx_buf ctx)[bufIdx := 0x80]\<rparr>;
          ctx = (if bufIdx \<ge> 56 then hashBuffer ctx else ctx);
          lenInBits = msgLen ctx * 8;
          ctx = ctx\<lparr>ctx_buf := dumpRawInt (ctx_buf ctx) 8 lenInBits 56\<rparr>;
          ctx = ctx\<lparr>ctx_s := hashMessageBlocks (ctx_s ctx) (ctx_buf ctx) 1\<rparr>
      in (ctx, dumpHash (ctx_s ctx)))"

definition sha256_clear :: "Sha256Context \<Rightarrow> Sha256Context" where
  "sha256_clear ctx = \<lparr>ctx_s = replicate 8 0, ctx_buf = replicate 64 0, msgLen = 0\<rparr>"

text \<open>\<^verbatim>\<open>sha256.hash(digest, message)\<close> of \<^verbatim>\<open>constantine/hashes.nim\<close>.\<close>

definition sha256_hash :: "byte list \<Rightarrow> byte list" where
  "sha256_hash message = snd (sha256_finish (sha256_update sha256_init message))"

section \<open>FIPS 180-4\<close>

definition fips_Ch where "fips_Ch x y (z :: word32) = (x AND y) XOR (NOT x AND z)"
definition fips_Maj where "fips_Maj x y (z :: word32) = (x AND y) XOR (x AND z) XOR (y AND z)"
definition fips_SIGMA0 where "fips_SIGMA0 (x :: word32) = word_rotr 2 x XOR word_rotr 13 x XOR word_rotr 22 x"
definition fips_SIGMA1 where "fips_SIGMA1 (x :: word32) = word_rotr 6 x XOR word_rotr 11 x XOR word_rotr 25 x"
definition fips_sigma0 where "fips_sigma0 (x :: word32) = word_rotr 7 x XOR word_rotr 18 x XOR drop_bit 3 x"
definition fips_sigma1 where "fips_sigma1 (x :: word32) = word_rotr 17 x XOR word_rotr 19 x XOR drop_bit 10 x"

text \<open>The message schedule of a block of 64 bytes.\<close>

fun fips_W :: "byte list \<Rightarrow> nat \<Rightarrow> word32" where
  "fips_W M t =
     (if t < 16 then of_nat (be_val (take 4 (drop (4 * t) M)))
      else fips_sigma1 (fips_W M (t - 2)) + fips_W M (t - 7) + fips_sigma0 (fips_W M (t - 15)) + fips_W M (t - 16))"

declare fips_W.simps [simp del]

type_synonym working = "word32 \<times> word32 \<times> word32 \<times> word32 \<times> word32 \<times> word32 \<times> word32 \<times> word32"

fun fips_round :: "byte list \<Rightarrow> nat \<Rightarrow> working \<Rightarrow> working" where
  "fips_round M t (a, b, c, d, e, f, g, h) =
     (let T1 = h + fips_SIGMA1 e + fips_Ch e f g + K256 ! t + fips_W M t;
          T2 = fips_SIGMA0 a + fips_Maj a b c
      in (T1 + T2, a, b, c, d + T1, e, f, g))"

fun hash_words :: "working \<Rightarrow> word32 list" where
  "hash_words (a, b, c, d, e, f, g, h) = [a, b, c, d, e, f, g, h]"

fun working_of :: "word32 list \<Rightarrow> working" where
  "working_of [a, b, c, d, e, f, g, h] = (a, b, c, d, e, f, g, h)"
| "working_of _ = (0, 0, 0, 0, 0, 0, 0, 0)"

definition fips_block :: "word32 list \<Rightarrow> byte list \<Rightarrow> word32 list" where
  "fips_block H M = map2 (+) (hash_words (fold (fips_round M) [0..<64] (working_of H))) H"

fun blocks_of :: "byte list \<Rightarrow> byte list list" where
  "blocks_of m = (if length m < 64 then [] else take 64 m # blocks_of (drop 64 m))"

declare blocks_of.simps [simp del]

text \<open>The padding: the bit 1, the least number of zeros, and the length in bits on 64 bits.\<close>

definition fips_zeros :: "nat \<Rightarrow> nat" where
  "fips_zeros l = (LEAST k. (l + 1 + k) mod 64 = 56)"

definition fips_pad :: "byte list \<Rightarrow> byte list" where
  "fips_pad m = m @ [0x80] @ replicate (fips_zeros (length m)) 0 @ be_bytes 8 (8 * length m)"

definition fips_hash :: "byte list \<Rightarrow> word32 list" where
  "fips_hash m = foldl fips_block init_state (blocks_of m)"

definition fips_sha256 :: "byte list \<Rightarrow> byte list" where
  "fips_sha256 m = concat (map (\<lambda>w. be_bytes 4 (unat w)) (fips_hash (fips_pad m)))"

section \<open>The code computes the FIPS functions\<close>

lemma rotr_eq: "0 < n \<Longrightarrow> n < 32 \<Longrightarrow> rotr x n = word_rotr n x"
proof (rule bit_word_eqI)
  fix i assume n: "0 < n" "n < 32" and i: "i < LENGTH(32)"
  show "bit (rotr x n) i = bit (word_rotr n x) i"
  proof (cases "i + n < 32")
    case True
    then show ?thesis using n i by (auto simp: rotr_def bit_simps ac_simps)
  next
    case False
    then have "\<not> bit x (n + i)" using bit_imp_le_length [of x "n + i"] by auto
    moreover have "(i + n) mod 32 = i + n - 32" using False i n by (simp add: mod_if)
    ultimately show ?thesis using n i False by (auto simp: rotr_def bit_simps ac_simps not_le)
  qed
qed

lemma ch_eq: "ch x y z = fips_Ch x y z"
  by (rule bit_word_eqI) (auto simp: ch_def fips_Ch_def bit_simps)

lemma maj_eq: "maj x y z = fips_Maj x y z"
  by (rule bit_word_eqI) (auto simp: maj_def fips_Maj_def bit_simps)

lemma Sigma_eq: "S0 x = fips_SIGMA0 x" "S1 x = fips_SIGMA1 x" "s0 x = fips_sigma0 x" "s1 x = fips_sigma1 x"
  by (simp_all add: S0_def S1_def s0_def s1_def fips_SIGMA0_def fips_SIGMA1_def fips_sigma0_def
      fips_sigma1_def rotr_eq)

text \<open>Reading and writing big-endian integers.\<close>

lemma bit_ucast_byte: "bit (ucast (b :: byte) :: word32) n \<longleftrightarrow> n < 8 \<and> bit b n"
  by (auto simp: bit_simps dest: bit_imp_le_length)

lemma or_bytes:
  fixes a b c d :: byte
  shows "((push_bit 24 (ucast a) OR push_bit 16 (ucast b)) OR push_bit 8 (ucast c)) OR ucast d =
    ((push_bit 24 (ucast a) + push_bit 16 (ucast b)) + push_bit 8 (ucast c)) + (ucast d :: word32)"
proof -
  let ?A = "push_bit 24 (ucast a) :: word32" and ?B = "push_bit 16 (ucast b) :: word32"
    and ?C = "push_bit 8 (ucast c) :: word32" and ?D = "ucast d :: word32"
  have "?A AND ?B = 0" "(?A OR ?B) AND ?C = 0" "((?A OR ?B) OR ?C) AND ?D = 0"
    by (rule bit_word_eqI; auto simp: bit_and_iff bit_or_iff bit_push_bit_iff bit_ucast_byte)+
  then show ?thesis by (simp only: disjunctive_add_eq_or)
qed

lemma take_4: "i + 4 \<le> length xs \<Longrightarrow> take 4 (drop i xs) = [xs ! i, xs ! (i + 1), xs ! (i + 2), xs ! (i + 3)]"
  by (rule nth_equalityI) (auto simp: less_Suc_eq numeral_eq_Suc)

lemma u32_fromBytes_eq:
  "off + 4 \<le> length bytes \<Longrightarrow> u32_fromBytes bytes off = of_nat (be_val (take 4 (drop off bytes)))"
  using or_bytes [of "bytes ! off" "bytes ! (off + 1)" "bytes ! (off + 2)" "bytes ! (off + 3)"]
  by (simp add: u32_fromBytes_def take_4 upt_rec ac_simps)
    (simp add: push_bit_eq_mult ac_simps numeral_3_eq_3)

lemma dumpRawInt_Suc:
  "foldl (\<lambda>dst i. dst[c + i := f i]) dst [0..<n] = take c dst @ map f [0..<n] @ drop (c + n) dst"
  if "c + n \<le> length dst"
  using that
proof (induction n)
  case (Suc n)
  have "foldl (\<lambda>dst i. dst[c + i := f i]) dst [0..<Suc n] =
      (take c dst @ map f [0..<n] @ drop (c + n) dst)[c + n := f n]"
    using Suc by simp
  also have "\<dots> = take c dst @ map f [0..<n] @ (drop (c + n) dst)[0 := f n]"
    using Suc.prems by (simp add: list_update_append)
  also have "(drop (c + n) dst)[0 := f n] = f n # drop (c + Suc n) dst"
    using Suc.prems by (subst Cons_nth_drop_Suc [symmetric]) auto
  finally show ?case by simp
qed simp

lemma be_bytes_word:
  "k \<le> L \<Longrightarrow> be_bytes k (unat w mod 256 ^ k) = map (\<lambda>i. ucast (drop_bit ((k - i - 1) * 8) w)) [0..<k]"
proof (induction k)
  case (Suc k)
  have "(of_nat (unat w mod 256 ^ Suc k div 256 ^ k) :: byte) = ucast (drop_bit (k * 8) w)"
  proof -
    have "unat w mod 256 ^ Suc k div 256 ^ k = unat w div 256 ^ k mod 256"
      by (simp only: power_Suc2 mod_mult2_eq) simp
    also have "(of_nat \<dots> :: byte) = of_nat (unat w div 256 ^ k)"
      by (simp add: word_unat_eq_iff unat_of_nat)
    also have "unat w div 256 ^ k = unat (drop_bit (k * 8) w)"
      by (subst unat_drop_bit_eq) (simp add: drop_bit_eq_div mult.commute [of k] power_mult)
    finally show ?thesis by simp
  qed
  moreover have "unat w mod 256 ^ Suc k mod 256 ^ k = unat w mod 256 ^ k"
    by (simp add: mod_mod_cancel)
  moreover have "map (\<lambda>i. ucast (drop_bit ((Suc k - i - 1) * 8) w)) [0..<Suc k] =
      (ucast (drop_bit (k * 8) w) :: byte) # map (\<lambda>i. ucast (drop_bit ((k - i - 1) * 8) w)) [0..<k]"
    by (simp add: upt_conv_Cons map_Suc_upt [symmetric] del: upt_Suc)
  ultimately show ?case using Suc by simp
qed simp

section \<open>One block\<close>

lemma fold_upt_invariant:
  assumes "P a x" "a \<le> b" "\<And>t x. a \<le> t \<Longrightarrow> t < b \<Longrightarrow> P t x \<Longrightarrow> P (Suc t) (f t x)"
  shows "P b (fold f [a..<b] x)"
  using assms(2,3)
proof (induction b)
  case (Suc b)
  show ?case
  proof (cases "a = Suc b")
    case False
    then have "P b (fold f [a..<b] x)" using Suc by simp
    then show ?thesis using Suc.prems False by simp
  qed (use assms(1) in simp)
qed (use assms(1) in simp)

lemma round_eq: "sha256_round (hash_words st) (fips_W M t) (K256 ! t) = hash_words (fips_round M t st)"
  by (cases st rule: hash_words.cases) (simp add: sha256_round_def Let_def rotateRight_def ch_eq maj_eq Sigma_eq numeral_eq_Suc ac_simps)

text \<open>After the rounds before \<open>t\<close>: the FIPS working variables, and the last 16 schedule words in a
  rolling window.\<close>

definition rounds_inv :: "byte list \<Rightarrow> working \<Rightarrow> nat \<Rightarrow> word32 list \<times> word32 list \<Rightarrow> bool" where
  "rounds_inv M v t sw \<longleftrightarrow>
     fst sw = hash_words (fold (fips_round M) [0..<t] v) \<and> length (snd sw) = 16 \<and>
     (\<forall>j < t. t \<le> j + 16 \<longrightarrow> snd sw ! (j mod 16) = fips_W M j)"

lemma rounds_inv_step:
  assumes "rounds_inv M v t (st, w)" "w' = w[t mod 16 := fips_W M t]"
  shows "rounds_inv M v (Suc t) (sha256_round st (w' ! (t mod 16)) (K256 ! t), w')"
proof -
  have l: "length w = 16" and st: "st = hash_words (fold (fips_round M) [0..<t] v)"
    using assms(1) by (simp_all add: rounds_inv_def)
  have "w' ! (j mod 16) = fips_W M j" if "j < Suc t" "Suc t \<le> j + 16" for j
  proof (cases "j = t")
    case False
    then have "j mod 16 \<noteq> t mod 16"
      using that mod_eq_dvd_iff_nat [of j t 16] by (auto dest: dvd_imp_le)
    then show ?thesis using assms that False l by (simp add: rounds_inv_def)
  qed (use assms l in simp)
  then show ?thesis
    using assms(2) l st by (simp add: rounds_inv_def round_eq)
qed

lemma rounds_inv_window:
  assumes "rounds_inv M v t sw" "16 \<le> t" "1 \<le> k" "k \<le> 16"
  shows "snd sw ! ((t - k) mod 16) = fips_W M (t - k)"
  using assms by (simp add: rounds_inv_def)

lemma rounds_0_15:
  assumes "64 \<le> length M" "length w = 16" "st = hash_words v"
  shows "rounds_inv M v 16 (sha256_rounds_0_15 M (st, w))"
  unfolding sha256_rounds_0_15_def
proof (rule fold_upt_invariant)
  show "rounds_inv M v 0 (st, w)" using assms by (simp add: rounds_inv_def)
next
  fix t and x :: "word32 list \<times> word32 list"
  assume t: "t < 16" and inv: "rounds_inv M v t x"
  obtain s' w' where x: "x = (s', w')" by (cases x)
  have "u32_fromBytes M (t * 4) = fips_W M t"
    using t assms(1) by (simp add: u32_fromBytes_eq fips_W.simps [of M t] mult.commute)
  then show "rounds_inv M v (Suc t)
      (case x of (s, w) \<Rightarrow> let w = w[t := u32_fromBytes M (t * 4)] in (sha256_round s (w ! t) (K256 ! t), w))"
    using rounds_inv_step [OF inv [unfolded x] refl] t x by (simp add: Let_def)
qed simp

lemma rounds_16_63:
  assumes "rounds_inv M v 16 sw"
  shows "rounds_inv M v 64 (sha256_rounds_16_63 sw)"
  unfolding sha256_rounds_16_63_def
proof (rule fold_upt_invariant)
  show "rounds_inv M v 16 sw" by (rule assms)
next
  fix t and x :: "word32 list \<times> word32 list"
  assume t: "16 \<le> t" "t < 64" and inv: "rounds_inv M v t x"
  obtain s' w' where x: "x = (s', w')" by (cases x)
  note win = rounds_inv_window [OF inv t(1)]
  have "(t - 16) mod 16 = t mod 16" using t(1) by (rule le_mod_geq [symmetric])
  then have "w' ! (t mod 16) = fips_W M (t - 16)"
    using win [of 16] x by simp
  then have "w' ! (t mod 16) + (s1 (w' ! ((t - 2) mod 16)) + w' ! ((t - 7) mod 16) + s0 (w' ! ((t - 15) mod 16)))
      = fips_W M t"
    using win [of 2] win [of 7] win [of 15] x t
    by (simp add: fips_W.simps [of M t] Sigma_eq ac_simps)
  then show "rounds_inv M v (Suc t)
      (case x of (s, w) \<Rightarrow>
        let i = t mod 16;
            w = w[i := w ! i + (s1 (w ! ((t - 2) mod 16)) + w ! ((t - 7) mod 16) + s0 (w ! ((t - 15) mod 16)))]
        in (sha256_round s (w ! i) (K256 ! t), w))"
    using rounds_inv_step [OF inv [unfolded x] refl] x by (simp add: Let_def)
qed simp

lemma length_8E:
  assumes "length H = 8"
  obtains a b c d e f g h where "H = [a, b, c, d, e, f, g, h]"
  using assms by (auto simp: numeral_eq_Suc length_Suc_conv)

lemma hash_working: "length H = 8 \<Longrightarrow> hash_words (working_of H) = H"
  by (erule length_8E) simp

lemma length_hash_words [simp]: "length (hash_words v) = 8"
  by (cases v rule: hash_words.cases) simp

lemma hash_block_eq:
  assumes "64 \<le> length M" "length w = 16" "length H = 8"
  shows "\<exists>w'. hash_block M (H, w) = (fips_block H M, w') \<and> length w' = 16"
proof -
  have "rounds_inv M (working_of H) 64 (sha256_rounds_16_63 (sha256_rounds_0_15 M (H, w)))"
    by (intro rounds_16_63 rounds_0_15) (use assms in \<open>simp_all add: hash_working\<close>)
  then show ?thesis
    by (auto simp: hash_block_def fips_block_def rounds_inv_def split: prod.splits)
qed

lemma length_fips_block [simp]: "length H = 8 \<Longrightarrow> length (fips_block H M) = 8"
  by (simp add: fips_block_def)

text \<open>The FIPS block function only looks at the first 64 bytes.\<close>

lemma fips_W_take: "t < 64 \<Longrightarrow> fips_W (take 64 M) t = fips_W M t"
proof (induction t rule: less_induct)
  case (less t)
  show ?case
  proof (cases "t < 16")
    case True
    then show ?thesis
      by (simp add: fips_W.simps [of _ t] drop_take min_def)
  next
    case False
    then show ?thesis using less by (simp add: fips_W.simps [of _ t])
  qed
qed

lemma fips_block_take: "fips_block H (take 64 M) = fips_block H M"
proof -
  have "fold (fips_round (take 64 M)) [0..<64] v = fold (fips_round M) [0..<64] v" for v
  proof (rule fold_cong)
    fix t assume "t \<in> set [0..<(64::nat)]"
    then show "fips_round (take 64 M) t = fips_round M t"
      by (intro ext) (auto simp: fips_W_take split: prod.splits)
  qed simp_all
  then show ?thesis by (simp add: fips_block_def)
qed

section \<open>Many blocks\<close>

lemma blocks_of_short [simp]: "length m < 64 \<Longrightarrow> blocks_of m = []"
  by (simp add: blocks_of.simps)

lemma blocks_of_Cons: "64 \<le> length m \<Longrightarrow> blocks_of m = take 64 m # blocks_of (drop 64 m)"
  by (simp add: blocks_of.simps [of m])

lemma hash_blocks_eq:
  "n * 64 \<le> length m \<Longrightarrow> length w = 16 \<Longrightarrow> length H = 8 \<Longrightarrow>
   fst (hash_blocks n m (H, w)) = foldl fips_block H (blocks_of (take (n * 64) m))"
proof (induction n arbitrary: m H w)
  case (Suc n)
  obtain w' where b: "hash_block m (H, w) = (fips_block H m, w')" "length w' = 16"
    using hash_block_eq [of m w H] Suc.prems by auto
  have "blocks_of (take (Suc n * 64) m) = take 64 m # blocks_of (take (n * 64) (drop 64 m))"
    using Suc.prems by (subst blocks_of_Cons) (simp_all add: take_drop min_def add.commute)
  then show ?case
    using Suc.IH [of "drop 64 m" w' "fips_block H m"] Suc.prems b by (simp add: fips_block_take)
qed simp

lemma hashMessageBlocks_eq:
  "n * 64 \<le> length m \<Longrightarrow> length H = 8 \<Longrightarrow>
   hashMessageBlocks H m n = foldl fips_block H (blocks_of (take (n * 64) m))"
  by (simp add: hashMessageBlocks_def hash_blocks_eq)

lemma length_foldl_block: "length H = 8 \<Longrightarrow> length (foldl fips_block H bs) = 8"
  by (induction bs arbitrary: H) auto

lemma blocks_of_append: "64 dvd length a \<Longrightarrow> blocks_of (a @ b) = blocks_of a @ blocks_of b"
proof (induction a rule: blocks_of.induct)
  case (1 a)
  show ?case
  proof (cases "length a < 64")
    case True
    then have "a = []" using 1(2) by (auto dest: dvd_imp_le)
    then show ?thesis by simp
  next
    case False
    then have "64 dvd length (drop 64 a)" using 1(2) by (simp add: dvd_diff_nat)
    then show ?thesis using 1(1) [OF False] False by (simp add: blocks_of_Cons)
  qed
qed

lemma blocks_of_two: "length a = 64 \<Longrightarrow> length b = 64 \<Longrightarrow> blocks_of (a @ b) = [a, b]"
  by (simp add: blocks_of_append blocks_of_Cons)

section \<open>The context\<close>

text \<open>The bytes after the last full block.\<close>

definition tail :: "byte list \<Rightarrow> byte list" where
  "tail m = drop (length m div 64 * 64) m"

definition whole :: "byte list \<Rightarrow> byte list" where
  "whole m = take (length m div 64 * 64) m"

lemma length_tail [simp]: "length (tail m) = length m mod 64"
  by (simp add: tail_def minus_div_mult_eq_mod)

lemma length_whole [simp]: "length (whole m) = length m div 64 * 64"
  by (simp add: whole_def min_absorb2)

lemma split_tail: "whole m @ tail m = m"
  by (simp add: tail_def whole_def)

lemma blocks_of_whole: "blocks_of (whole m) = blocks_of m"
proof -
  have "blocks_of (whole m @ tail m) = blocks_of (whole m)"
    by (subst blocks_of_append) simp_all
  then show ?thesis by (simp add: split_tail)
qed

lemma blocks_of_snoc: "blocks_of (m @ x) = blocks_of m @ blocks_of (tail m @ x)"
proof -
  have "blocks_of (whole m @ (tail m @ x)) = blocks_of m @ blocks_of (tail m @ x)"
    by (subst blocks_of_append) (simp_all add: blocks_of_whole)
  then show ?thesis by (simp add: split_tail flip: append_assoc)
qed

lemma tail_snoc: "tail (m @ x) = tail (tail m @ x)"
proof -
  have "(length m + length x) div 64 * 64 =
      length m div 64 * 64 + (length m mod 64 + length x) div 64 * 64"
    using div_mult_self3 [of 64 "length m div 64" "length m mod 64 + length x"]
    by (simp add: distrib_right flip: add.assoc)
  then have "tail (m @ x) = drop (length (whole m) + length (tail m @ x) div 64 * 64) (whole m @ tail m @ x)"
    by (simp add: tail_def [of "m @ x"] split_tail flip: append_assoc)
  then show ?thesis by (simp add: tail_def [of "tail m @ x"])
qed

definition ctx_inv :: "Sha256Context \<Rightarrow> byte list \<Rightarrow> bool" where
  "ctx_inv c m \<longleftrightarrow> ctx_s c = fips_hash m \<and> ctx_buf c = tail m @ replicate (64 - length m mod 64) 0 \<and>
     msgLen c = of_nat (length m)"

lemma length_fips_hash [simp]: "length (fips_hash m) = 8"
  by (simp add: fips_hash_def length_foldl_block init_state_def)

lemma ctx_inv_init: "ctx_inv sha256_init []"
  by (simp add: ctx_inv_def sha256_init_def fips_hash_def tail_def)

lemma bufIdx_eq: "unat ((of_nat n :: 64 word) mod 64) = n mod 64"
  by (simp add: unat_mod_distrib unat_of_nat mod_mod_cancel)

lemma fips_hash_snoc: "fips_hash (m @ x) = foldl fips_block (fips_hash m) (blocks_of (tail m @ x))"
  unfolding fips_hash_def by (subst blocks_of_snoc) simp

lemma whole_blocks:
  assumes "length H = 8"
  shows "hashMessageBlocks H x (length x div 64) = foldl fips_block H (blocks_of x)"
  using hashMessageBlocks_eq [of "length x div 64" x H] assms blocks_of_whole [of x]
  by (simp add: whole_def)

lemma one_block: "length b = 64 \<Longrightarrow> length H = 8 \<Longrightarrow> hashMessageBlocks H b (Suc 0) = fips_block H b"
  using hashMessageBlocks_eq [of 1 b H] by (simp add: blocks_of_Cons)

lemma splice_zeros: "splice (replicate 64 0) 0 y = y @ replicate (64 - length y) 0"
  by (simp add: splice_def)

lemma splice_tail:
  "length a + length y \<le> 64 \<Longrightarrow>
   splice (a @ replicate (64 - length a) 0) (length a) y = a @ y @ replicate (64 - length a - length y) 0"
  by (simp add: splice_def)

text \<open>The part of \<^verbatim>\<open>update\<close> after a pending buffer has been flushed.\<close>

lemma absorb_blocks:
  assumes "length H = 8"
  shows "(if 64 \<le> length x then hashMessageBlocks H x (length x div 64) else H) = foldl fips_block H (blocks_of x)"
  using whole_blocks [OF assms, of x] by simp

lemma absorb_rest:
  "(let (cur, n) = (if 64 \<le> length y then (length y div 64 * 64, length y - length y div 64 * 64)
       else (0, length y))
    in if n \<noteq> 0 then splice (replicate 64 0) 0 (take n (drop cur y)) else replicate 64 0)
     = tail y @ replicate (64 - length y mod 64) 0"
  using length_tail [of y]
  by (cases "64 \<le> length y")
    (auto simp: minus_div_mult_eq_mod splice_zeros tail_def [of y] simp del: length_tail)

lemma ctx_inv_update:
  assumes "ctx_inv c m"
  shows "ctx_inv (sha256_update c x) (m @ x)"
proof -
  define r where "r = length m mod 64"
  have r: "unat (msgLen c mod 64) = r" "r < 64" "length (tail m) = r"
    and c: "ctx_s c = fips_hash m" "ctx_buf c = tail m @ replicate (64 - r) 0" "msgLen c = of_nat (length m)"
    using assms by (simp_all add: ctx_inv_def bufIdx_eq r_def)
  have len: "msgLen (sha256_update c x) = of_nat (length (m @ x))"
    by (simp add: sha256_update_def Let_def hashBuffer_def c)
  show ?thesis
  proof (cases "r \<noteq> 0 \<and> 64 \<le> r + length x")
    case True
    define y where "y = drop (64 - r) x"
    have mn: "min (length x) (64 - r) = 64 - r" using True by auto
    have full: "splice (ctx_buf c) r (take (64 - r) x) = tail m @ take (64 - r) x"
      using True r c mn splice_tail [of "tail m" "take (64 - r) x"] by simp
    have flush: "hashMessageBlocks (fips_hash m) (tail m @ take (64 - r) x) 1 = fips_block (fips_hash m) (tail m @ take (64 - r) x)"
      using True r mn by (simp add: one_block)
    have split: "blocks_of (tail m @ x) = (tail m @ take (64 - r) x) # blocks_of y"
      using True r by (subst blocks_of_Cons) (auto simp: y_def)
    have y: "length x - (64 - r) = length y" "tail (m @ x) = tail y" "(length m + length x) mod 64 = length y mod 64"
    proof -
      show "length x - (64 - r) = length y" by (simp add: y_def)
      have "tail m @ x = (tail m @ take (64 - r) x) @ y" by (simp add: y_def)
      then have "tail (tail m @ x) = tail (tail (tail m @ take (64 - r) x) @ y)"
        using tail_snoc [of "tail m @ take (64 - r) x" y] by simp
      also have "tail (tail m @ take (64 - r) x) = []"
        using True r mn by (simp add: tail_def [of "tail m @ _"])
      finally show t: "tail (m @ x) = tail y" by (simp add: tail_snoc [of m x])
      then show "(length m + length x) mod 64 = length y mod 64"
        using length_tail [of "m @ x"] by simp
    qed
    have "ctx_s (sha256_update c x) = fips_hash (m @ x)"
    proof -
      have "(if 64 \<le> length x - (64 - r)
          then hashMessageBlocks H (drop (64 - r) x) ((length x - (64 - r)) div 64) else H)
          = foldl fips_block H (blocks_of y)" if "length H = 8" for H
        using absorb_blocks [OF that, of y] unfolding y_def by (simp split: if_splits)
      moreover have "ctx_s (sha256_update c x) =
          (let H = hashMessageBlocks (ctx_s c) (splice (ctx_buf c) r (take (64 - r) x)) 1 in
           if 64 \<le> length x - (64 - r)
           then hashMessageBlocks H (drop (64 - r) x) ((length x - (64 - r)) div 64) else H)"
        using True r(1) by (simp add: sha256_update_def Let_def hashBuffer_def)
      ultimately show ?thesis
        by (simp only: full flush c(1) Let_def fips_hash_snoc split foldl_Cons length_fips_block length_fips_hash)
    qed
    moreover have "ctx_buf (sha256_update c x) = tail (m @ x) @ replicate (64 - length (m @ x) mod 64) 0"
    proof -
      have u: "ctx_buf (sha256_update c x) =
          (let (cur, n) = (if 64 \<le> length x - (64 - r)
              then ((length x - (64 - r)) div 64 * 64, length x - (64 - r) - (length x - (64 - r)) div 64 * 64)
              else (0, length x - (64 - r)))
           in if n \<noteq> 0 then splice (replicate 64 0) 0 (take n (drop (64 - r + cur) x)) else replicate 64 0)"
        using True r(1) by (simp add: sha256_update_def Let_def hashBuffer_def)
      have d: "drop (64 - r + n) x = drop n y" for n by (simp add: y_def add.commute)
      show ?thesis using absorb_rest [of y] y(2,3) unfolding u y(1) d by simp
    qed
    ultimately show ?thesis using len by (simp add: ctx_inv_def)
  next
    case False
    show ?thesis
    proof (cases "r = 0")
      case True
      then have t: "tail m = []" using r by (simp flip: length_0_conv)
      have "tail (m @ x) = tail x" by (simp add: tail_snoc [of m x] t)
      moreover have "(length m + length x) mod 64 = length x mod 64"
        using True r_def by (simp add: mod_add_eq [symmetric])
      moreover have "ctx_s (sha256_update c x) = fips_hash (m @ x)"
        using True r t absorb_blocks [of "fips_hash m" x]
        by (cases "64 \<le> length x") (simp_all add: sha256_update_def Let_def c(1) fips_hash_snoc)
      moreover have "ctx_buf (sha256_update c x) = tail x @ replicate (64 - length x mod 64) 0"
      proof -
        have "ctx_buf (sha256_update c x) =
            (let (cur, n) = (if 64 \<le> length x then (length x div 64 * 64, length x - length x div 64 * 64)
               else (0, length x))
             in if n \<noteq> 0 then splice (replicate 64 0) 0 (take n (drop cur x)) else replicate 64 0)"
          using True r c(2) t by (simp add: sha256_update_def Let_def)
        then show ?thesis by (simp only: absorb_rest)
      qed
      ultimately show ?thesis using len by (simp add: ctx_inv_def)
    next
      case False
      then have small: "r + length x < 64" using \<open>\<not> (r \<noteq> 0 \<and> 64 \<le> r + length x)\<close> by simp
      then have t: "tail (m @ x) = tail m @ x"
        using r by (simp add: tail_snoc [of m x] tail_def [of "tail m @ x"])
      have "(length m + length x) mod 64 = r + length x"
        using length_tail [of "m @ x"] t r by simp
      moreover have "ctx_s (sha256_update c x) = fips_hash (m @ x)"
        using False r small by (simp add: sha256_update_def Let_def c(1) fips_hash_snoc)
      moreover have "ctx_buf (sha256_update c x) = tail m @ x @ replicate (64 - (r + length x)) 0"
        using False r small c(2) splice_tail [of "tail m" x]
        by (simp add: sha256_update_def Let_def)
      ultimately show ?thesis using len t by (simp add: ctx_inv_def)
    qed
  qed
qed

section \<open>Padding and output\<close>

lemma fips_zeros_eq: "fips_zeros l = (if l mod 64 < 56 then 55 - l mod 64 else 119 - l mod 64)"
  unfolding fips_zeros_def
proof (rule Least_equality)
  define r where "r = l mod 64"
  have r: "r < 64" by (simp add: r_def)
  have red: "(l + 1 + k) mod 64 = (r + 1 + k) mod 64" for k
    unfolding r_def by (metis add.assoc mod_add_left_eq)
  show "(l + 1 + (if l mod 64 < 56 then 55 - l mod 64 else 119 - l mod 64)) mod 64 = 56"
  proof -
    have "(r + 1 + (if r < 56 then 55 - r else 119 - r)) mod 64 = 56" using r by simp
    then show ?thesis
      using red [of "if r < 56 then 55 - r else 119 - r"] by (simp only: r_def)
  qed
  fix k assume "(l + 1 + k) mod 64 = 56"
  then have k: "(r + 1 + k) mod 64 = 56" by (simp only: red)
  have "\<not> (r + 1 + k < 120 \<and> 64 \<le> r + 1 + k)"
    using k le_mod_geq [of 64 "r + 1 + k"] by auto
  moreover have "r + 1 + k < 64 \<longrightarrow> r + 1 + k = 56" using k by auto
  ultimately show "(if l mod 64 < 56 then 55 - l mod 64 else 119 - l mod 64) \<le> k"
    unfolding r_def [symmetric] by (cases "r < 56"; arith)
qed

lemma dumpRawInt_eq:
  "c + L \<le> length dst \<Longrightarrow> dumpRawInt dst L w c = take c dst @ be_bytes L (unat w) @ drop (c + L) dst"
  using be_bytes_word [of L L w] by (simp add: dumpRawInt_def dumpRawInt_Suc be_bytes_mod)

lemma dumpHash_steps:
  fixes H :: "word32 list"
  shows "n \<le> 8 \<Longrightarrow> length H = 8 \<Longrightarrow>
   foldl (\<lambda>digest i. dumpRawInt digest 4 (H ! i) (i * 4)) (replicate 32 0) [0..<n] =
     concat (map (\<lambda>w. be_bytes 4 (unat w)) (take n H)) @ replicate (32 - n * 4) 0"
proof (induction n)
  case (Suc n)
  have "length (concat (map (\<lambda>w. be_bytes 4 (unat (w :: word32))) (take n H))) = n * 4"
    using Suc.prems by (simp add: length_concat o_def sum_list_triv min_def)
  then show ?case
    using Suc by (simp add: dumpRawInt_eq take_Suc_conv_app_nth drop_replicate)
qed simp

lemma dumpHash_eq: "length H = 8 \<Longrightarrow> dumpHash H = concat (map (\<lambda>w. be_bytes 4 (unat w)) H)"
  using dumpHash_steps [of 8 H] by (simp add: dumpHash_def)

lemma finish_digest:
  assumes "ctx_inv c m"
  shows "snd (sha256_finish c) = fips_sha256 m"
proof -
  define r where "r = length m mod 64"
  define L where "L = be_bytes 8 (8 * length m)"
  have r: "unat (msgLen c mod 64) = r" "r < 64" "length (tail m) = r"
    and c: "ctx_s c = fips_hash m" "ctx_buf c = tail m @ replicate (64 - r) 0" "msgLen c = of_nat (length m)"
    using assms by (simp_all add: ctx_inv_def bufIdx_eq r_def)
  have one: "(ctx_buf c)[r := 0x80] = tail m @ [0x80] @ replicate (63 - r) 0"
  proof -
    have "64 - r = Suc (63 - r)" using r(2) by simp
    then show ?thesis using r c(2) by (simp add: list_update_append)
  qed
  have L: "be_bytes 8 (unat (msgLen c * 8)) = L" "length L = 8"
  proof -
    have "unat (msgLen c * 8) = (8 * length m) mod 256 ^ 8"
      by (simp add: c(3) unat_word_ariths unat_of_nat mod_mult_left_eq mod_mult_right_eq mult.commute)
    then show "be_bytes 8 (unat (msgLen c * 8)) = L" by (simp only: L_def be_bytes_mod)
  qed (simp add: L_def)
  have "fips_hash (fips_pad m) =
      foldl fips_block (fips_hash m) (blocks_of (tail m @ [0x80] @ replicate (fips_zeros (length m)) 0 @ L))"
    by (simp add: fips_pad_def fips_hash_snoc L_def)
  also have "\<dots> = ctx_s (fst (sha256_finish c))"
  proof (cases "r < 56")
    case True
    let ?b = "tail m @ [0x80] @ replicate (55 - r) 0 @ L"
    have "56 - r = Suc (55 - r)" using True by simp
    then have "dumpRawInt ((ctx_buf c)[r := 0x80]) 8 (msgLen c * 8) 56 = ?b"
      using True r L by (simp add: one dumpRawInt_eq)
    moreover have "length ?b = 64" using True r L by simp
    ultimately show ?thesis
      using True r one_block [of ?b "fips_hash m"] blocks_of_Cons [of ?b]
      by (simp add: sha256_finish_def Let_def c(1) fips_zeros_eq r_def [symmetric])
  next
    case False
    let ?b1 = "tail m @ [0x80] @ replicate (63 - r) 0" and ?b2 = "replicate 56 0 @ L"
    have k: "replicate (fips_zeros (length m)) (0 :: byte) = replicate (63 - r) 0 @ replicate 56 0"
      using False r by (simp add: fips_zeros_eq r_def [symmetric] flip: replicate_add)
    have len: "length ?b1 = 64" "length ?b2 = 64" using False r L by simp_all
    then have "blocks_of (?b1 @ ?b2) = [?b1, ?b2]"
      by (rule blocks_of_two)
    moreover have "dumpRawInt (replicate 64 0) 8 (msgLen c * 8) 56 = ?b2"
      using L by (simp add: dumpRawInt_eq)
    ultimately show ?thesis
      using False r len one one_block [of ?b1 "fips_hash m"] one_block [of ?b2 "fips_block (fips_hash m) ?b1"]
      by (simp add: sha256_finish_def Let_def c(1) k hashBuffer_def)
  qed
  finally have s: "ctx_s (fst (sha256_finish c)) = fips_hash (fips_pad m)" by simp
  have "snd (sha256_finish c) = dumpHash (ctx_s (fst (sha256_finish c)))"
    by (simp add: sha256_finish_def Let_def)
  then show ?thesis by (simp add: s fips_sha256_def dumpHash_eq)
qed

lemma length_fips_sha256 [simp]: "length (fips_sha256 m) = 32"
  by (simp add: fips_sha256_def length_concat o_def sum_list_triv)

lemma sha256_hash_fips: "sha256_hash m = fips_sha256 m"
  using finish_digest [OF ctx_inv_update [OF ctx_inv_init, of m]] by (simp add: sha256_hash_def)

section \<open>The properties\<close>

lemma ctx_inv_stream: "ctx_inv c m \<Longrightarrow> ctx_inv (foldl sha256_update c xs) (m @ concat xs)"
proof (induction xs arbitrary: c m)
  case (Cons x xs)
  then show ?case using Cons.IH [OF ctx_inv_update [OF Cons.prems, of x]] by simp
qed simp

text \<open>C23: whatever the pieces a message is fed in (empty, shorter or longer than a block, ending
  inside a block or on its boundary), the digest of the incremental context is the FIPS 180-4
  SHA-256 of the concatenation.\<close>

theorem sha256_streaming:
  "snd (sha256_finish (foldl sha256_update sha256_init messages)) = fips_sha256 (concat messages)"
  using finish_digest [OF ctx_inv_stream [OF ctx_inv_init]] by simp

end
