(* ===== verification/EVM_Calls.thy ===== *)
theory EVM_Calls
  imports Rust_EVM Nim_ModExp Sha256 KZG_Calls
begin

text \<open>
  The EVM wrappers under the contract of the precompiles, and end to end where the precompile is
  modelled: SHA-256 and modular exponentiation, from the bytes of a Rust slice to the bytes of
  the result.
\<close>

section \<open>The hash precompiles\<close>

text \<open>\<^verbatim>\<open>eth_evm_sha256\<close> and \<^verbatim>\<open>eth_evm_ripemd160\<close> of \<^verbatim>\<open>constantine/ethereum_evm_precompiles.nim\<close>.\<close>

definition eth_evm_sha256 :: "nat \<Rightarrow> byte list \<Rightarrow> (ctt_evm_status \<times> byte list option) outcome" where
  "eth_evm_sha256 r_len inputs =
     (if r_len \<noteq> 32 then Done (cttEVM_InvalidOutputSize, None)
      else Done (cttEVM_Success, Some (sha256_hash inputs)))"

text \<open>\<open>hash\<close> is \<^verbatim>\<open>ripemd160.hash\<close>.\<close>

definition eth_evm_ripemd160 ::
  "(byte list \<Rightarrow> byte list) \<Rightarrow> nat \<Rightarrow> byte list \<Rightarrow> (ctt_evm_status \<times> byte list option) outcome" where
  "eth_evm_ripemd160 hash r_len inputs =
     (if r_len \<noteq> 32 then Done (cttEVM_InvalidOutputSize, None)
      else Done (cttEVM_Success, Some (replicate 12 0 @ hash inputs)))"

text \<open>The two functions meet the interface of the Rust wrappers.\<close>

interpretation sha256_call: out_call "export_bytes eth_evm_sha256" "\<lambda>m. Ok (fips_sha256 m)" 32
    cttEVM_Success all_inputs
  by (rule export_bytes_out_call) (simp add: eth_evm_sha256_def sha256_hash_fips length_fips_sha256)

lemma ripemd160_call:
  "(\<And>m. length (hash m) = 20) \<Longrightarrow>
   out_call (export_bytes (eth_evm_ripemd160 hash)) (\<lambda>m. Ok (replicate 12 0 @ hash m)) 32 cttEVM_Success all_inputs"
  by (rule export_bytes_out_call) (simp add: eth_evm_ripemd160_def)

section \<open>Every wrapper\<close>

text \<open>A library made of functions on bytes that meet a specification.\<close>

definition spec_call :: "(byte list \<Rightarrow> (byte list, ctt_evm_status) result) \<Rightarrow> 'c precompile" where
  "spec_call f = export_bytes (\<lambda>n bs. case f bs of Ok out \<Rightarrow> Done (cttEVM_Success, Some out) | Err e \<Rightarrow> Done (e, None))"

definition spec_size :: "nat \<Rightarrow> (byte list \<Rightarrow> (byte list, ctt_evm_status) result) \<Rightarrow> bool" where
  "spec_size n f \<longleftrightarrow> (\<forall>bs. case f bs of Ok out \<Rightarrow> length out = n | Err e \<Rightarrow> e \<noteq> cttEVM_Success)"

lemma spec_call_out: "spec_size n f \<Longrightarrow> out_call (spec_call f) f n cttEVM_Success all_inputs"
  unfolding spec_call_def
  by (rule export_bytes_out_call) (auto simp: spec_size_def split: result.splits dest: spec)

definition refuse :: "'c precompile" where
  "refuse r n inputs k m = Done (cttEVM_InvalidInputSize, m)"

definition reference_evm :: "evm_spec \<Rightarrow> 'c evm_lib" where
  "reference_evm S = \<lparr>
     ctt_eth_evm_ripemd160 = spec_call (spec_ripemd160 S),
     ctt_eth_evm_sha256 = spec_call (spec_sha256 S),
     ctt_eth_evm_bn254_g1add = spec_call (spec_bn254_g1add S),
     ctt_eth_evm_bn254_g1mul = spec_call (spec_bn254_g1mul S),
     ctt_eth_evm_bn254_ecpairingcheck = spec_call (spec_bn254_ec_pairing_check S),
     ctt_eth_evm_bls12381_g1add = spec_call (spec_bls12381_g1add S),
     ctt_eth_evm_bls12381_g1mul = spec_call (spec_bls12381_g1mul S),
     ctt_eth_evm_bls12381_g1msm = spec_call (spec_bls12381_g1msm S),
     ctt_eth_evm_bls12381_g2add = spec_call (spec_bls12381_g2add S),
     ctt_eth_evm_bls12381_g2mul = spec_call (spec_bls12381_g2mul S),
     ctt_eth_evm_bls12381_g2msm = spec_call (spec_bls12381_g2msm S),
     ctt_eth_evm_bls12381_pairingcheck = spec_call (spec_bls12381_pairing_check S),
     ctt_eth_evm_bls12381_map_fp_to_g1 = spec_call (spec_bls12381_map_fp_to_g1 S),
     ctt_eth_evm_bls12381_map_fp2_to_g2 = spec_call (spec_bls12381_map_fp2_to_g2 S),
     ctt_eth_evm_modexp_result_size = (\<lambda>size p n m. Done (cttEVM_InvalidInputSize, size, m)),
     ctt_eth_evm_modexp = refuse,
     ctt_eth_evm_kzg_point_evaluation = (\<lambda>c. refuse)\<rparr>"

definition evm_spec_sizes :: "evm_spec \<Rightarrow> bool" where
  "evm_spec_sizes S \<longleftrightarrow>
     spec_size 32 (spec_ripemd160 S) \<and>
     spec_size 32 (spec_sha256 S) \<and>
     spec_size 64 (spec_bn254_g1add S) \<and>
     spec_size 64 (spec_bn254_g1mul S) \<and>
     spec_size 32 (spec_bn254_ec_pairing_check S) \<and>
     spec_size 128 (spec_bls12381_g1add S) \<and>
     spec_size 128 (spec_bls12381_g1mul S) \<and>
     spec_size 128 (spec_bls12381_g1msm S) \<and>
     spec_size 256 (spec_bls12381_g2add S) \<and>
     spec_size 256 (spec_bls12381_g2mul S) \<and>
     spec_size 256 (spec_bls12381_g2msm S) \<and>
     spec_size 32 (spec_bls12381_pairing_check S) \<and>
     spec_size 128 (spec_bls12381_map_fp_to_g1 S) \<and>
     spec_size 256 (spec_bls12381_map_fp2_to_g2 S)"

lemma reference_evm_contract: "evm_spec_sizes S \<Longrightarrow> evm_contract (reference_evm S) S"
  by (simp add: evm_contract_def reference_evm_def evm_spec_sizes_def spec_call_out)

lemma wrapper_returns:
  "out_call f spec n ok valid \<Longrightarrow> mem_ok m \<Longrightarrow> slice_bytes m s = Done bs \<Longrightarrow> valid bs \<Longrightarrow>
   returns m (with_uninit n (\<lambda>r. f r n (as_ptr s) (len s)) ok m) (spec bs)"
  unfolding returns_def by (rule out_call.wrapper)

lemma point_evaluation_returns:
  assumes "\<And>c p n. fills 64 cttEVM_Success
      (\<lambda>r. ctt_eth_evm_kzg_point_evaluation L c r 64 p n) (reads c [(p, n)]) spec"
    and "mem_ok m" "reads (ctx_ptr ctx) [(as_ptr message, len message)] m = Some d"
  shows "returns m (evm_kzg_point_evaluation L ctx message m) (spec d)"
  using returns_uninit [OF assms] by (simp add: evm_kzg_point_evaluation_def)

text \<open>C13: under the contract of the precompiles each of the 15 wrappers with a result of fixed
  size returns what the precompile's specification gives on the bytes of the slice, errors
  included, and leaves the memory as it was: the local it passes has the length it announces and
  is read only after it has been written. The point evaluation also reads the trusted setup.\<close>

theorem evm_wrappers_correct:
  assumes "evm_contract L S" "mem_ok m" "slice_bytes m s = Done bs"
    and "\<And>c p n. fills 64 cttEVM_Success
      (\<lambda>r. ctt_eth_evm_kzg_point_evaluation L c r 64 p n) (reads c [(p, n)]) spec_point"
    and "context_at m (ctx_ptr ctx) = Some setup"
  shows "returns m (evm_ripemd160 L s m) (spec_ripemd160 S bs) \<and>
    returns m (evm_sha256 L s m) (spec_sha256 S bs) \<and>
    returns m (evm_bn254_g1add L s m) (spec_bn254_g1add S bs) \<and>
    returns m (evm_bn254_g1mul L s m) (spec_bn254_g1mul S bs) \<and>
    returns m (evm_bn254_ec_pairing_check L s m) (spec_bn254_ec_pairing_check S bs) \<and>
    returns m (evm_bls12381_g1add L s m) (spec_bls12381_g1add S bs) \<and>
    returns m (evm_bls12381_g1mul L s m) (spec_bls12381_g1mul S bs) \<and>
    returns m (evm_bls12381_g1msm L s m) (spec_bls12381_g1msm S bs) \<and>
    returns m (evm_bls12381_g2add L s m) (spec_bls12381_g2add S bs) \<and>
    returns m (evm_bls12381_g2mul L s m) (spec_bls12381_g2mul S bs) \<and>
    returns m (evm_bls12381_g2msm L s m) (spec_bls12381_g2msm S bs) \<and>
    returns m (evm_bls12381_pairing_check L s m) (spec_bls12381_pairing_check S bs) \<and>
    returns m (evm_bls12381_map_fp_to_g1 L s m) (spec_bls12381_map_fp_to_g1 S bs) \<and>
    returns m (evm_bls12381_map_fp2_to_g2 L s m) (spec_bls12381_map_fp2_to_g2 S bs) \<and>
    returns m (evm_kzg_point_evaluation L ctx s m) (spec_point (setup, [bs]))"
proof -
  have "reads (ctx_ptr ctx) [(as_ptr s, len s)] m = Some (setup, [bs])"
    using assms(3,5) by (simp add: reads_def slice_bytes_def)
  note p = point_evaluation_returns [of L spec_point, OF assms(4,2) this]
  show ?thesis
    using assms(1) unfolding evm_contract_def evm_wrapper_defs
    by (elim conjE, intro conjI) (erule wrapper_returns [OF _ assms(2,3) TrueI] | rule p)+
qed

definition sample_evm_spec :: evm_spec where
  "sample_evm_spec = \<lparr>
     spec_ripemd160 = (\<lambda>bs. Ok (pad_take 32 bs)),
     spec_sha256 = (\<lambda>bs. Ok (pad_take 32 bs)),
     spec_bn254_g1add = (\<lambda>bs. Err cttEVM_PointNotOnCurve),
     spec_bn254_g1mul = (\<lambda>bs. Ok (pad_take 64 bs)),
     spec_bn254_ec_pairing_check = (\<lambda>bs. Ok (pad_take 32 bs)),
     spec_bls12381_g1add = (\<lambda>bs. Err cttEVM_PointNotOnCurve),
     spec_bls12381_g1mul = (\<lambda>bs. Ok (pad_take 128 bs)),
     spec_bls12381_g1msm = (\<lambda>bs. Ok (pad_take 128 bs)),
     spec_bls12381_g2add = (\<lambda>bs. Err cttEVM_PointNotOnCurve),
     spec_bls12381_g2mul = (\<lambda>bs. Ok (pad_take 256 bs)),
     spec_bls12381_g2msm = (\<lambda>bs. Ok (pad_take 256 bs)),
     spec_bls12381_pairing_check = (\<lambda>bs. Ok (pad_take 32 bs)),
     spec_bls12381_map_fp_to_g1 = (\<lambda>bs. Ok (pad_take 128 bs)),
     spec_bls12381_map_fp2_to_g2 = (\<lambda>bs. Ok (pad_take 256 bs))\<rparr>"

lemma sample_evm_sizes: "evm_spec_sizes sample_evm_spec"
  by (simp add: evm_spec_sizes_def sample_evm_spec_def spec_size_def)

definition sample_point_spec :: "unit \<times> byte list list \<Rightarrow> (byte list, ctt_evm_status) result" where
  "sample_point_spec d = (if length (hd (snd d)) = 192 then Ok (replicate 64 1) else Err cttEVM_InvalidInputSize)"

definition sample_evm_lib :: "unit evm_lib" where
  "sample_evm_lib = (reference_evm sample_evm_spec)\<lparr>ctt_eth_evm_kzg_point_evaluation :=
     (\<lambda>c r k p n. export_reads cttEVM_Success (reads c [(p, n)]) sample_point_spec r)\<rparr>"

lemma sample_evm_contract: "evm_contract sample_evm_lib sample_evm_spec"
  using reference_evm_contract [OF sample_evm_sizes] by (simp add: evm_contract_def sample_evm_lib_def)

lemma sample_point_fills:
  "fills 64 cttEVM_Success (\<lambda>r. ctt_eth_evm_kzg_point_evaluation sample_evm_lib c r 64 p n) (reads c [(p, n)]) sample_point_spec"
proof -
  have "fills 64 cttEVM_Success (export_reads cttEVM_Success (reads c [(p, n)]) sample_point_spec)
      (reads c [(p, n)]) sample_point_spec"
    by (rule export_reads_fills) (auto simp: sample_point_spec_def split: if_splits)
  then show ?thesis by (simp add: sample_evm_lib_def)
qed

theorem evm_wrappers_correct_witness:
  "returns sample_mem (evm_ripemd160 sample_evm_lib \<lparr>as_ptr = Ptr 2 0, len = 192\<rparr> sample_mem) (Ok (replicate 32 1)) \<and>
   returns sample_mem (evm_bn254_g1add sample_evm_lib \<lparr>as_ptr = Ptr 2 0, len = 192\<rparr> sample_mem)
     (Err cttEVM_PointNotOnCurve) \<and>
   returns sample_mem (evm_kzg_point_evaluation sample_evm_lib sample_ctx \<lparr>as_ptr = Ptr 2 0, len = 192\<rparr> sample_mem)
     (Ok (replicate 64 1))"
  using evm_wrappers_correct [OF sample_evm_contract sample_mem_ok _ sample_point_fills,
      of "\<lparr>as_ptr = Ptr 2 0, len = 192\<rparr>" "replicate 192 1" sample_ctx "()"]
    sample_ones [of 192] sample_context
  by (simp add: slice_bytes_def sample_ctx_ptr sample_evm_spec_def sample_point_spec_def pad_take_def)

section \<open>SHA-256 end to end\<close>

lemma evm_sha256_fips:
  assumes "ctt_eth_evm_sha256 L = export_bytes eth_evm_sha256" "mem_ok m" "slice_bytes m s = Done bs"
  shows "returns m (evm_sha256 L s m) (Ok (fips_sha256 bs))"
  using sha256_call.wrapper [OF assms(2,3) TrueI] by (simp add: evm_sha256_def returns_def assms(1))

section \<open>Modular exponentiation end to end\<close>

text \<open>The two Nim functions on the shared memory.\<close>

definition nim_modexp :: "'c evm_lib \<Rightarrow> 'c evm_lib" where
  "nim_modexp L = L\<lparr>
     ctt_eth_evm_modexp_result_size := (\<lambda>size p n m.
       obind (load m p n) (\<lambda>bs.
         case eth_evm_modexp_result_size bs of (st, r) \<Rightarrow>
           Done (st, (case r of None \<Rightarrow> size | Some v \<Rightarrow> v), m))),
     ctt_eth_evm_modexp := export_bytes eth_evm_modexp\<rparr>"

lemma result_size_cases:
  assumes "eip198_lengths bs = (b, e, m)"
  shows "eth_evm_modexp_result_size bs =
    (if m < 2 ^ 64 then (cttEVM_Success, Some m) else (cttEVM_InvalidInputSize, None))"
  using modexp_size [of bs] assms by simp

text \<open>A call that fills a fresh vector: what the wrapper hands back is what the call wrote, and the
  vector is gone from the memory.\<close>

lemma vec_call:
  assumes "mem_ok m" "slice_bytes m s = Done bs" "g n bs = Done (ok, Some out)" "length out = n"
    "n \<le> isize_max tg" "n \<le> heap_max tg"
  shows "\<exists>p m1 m2 m3. vec_zeroed tg n m = Done (p, m1) \<and>
    export_bytes g p n (as_ptr s) (len s) m1 = Done (ok, m2) \<and> load m2 p n = Done out \<and>
    drop_vec p n m2 = Done m3 \<and> unchanged m m3"
proof (cases "n = 0")
  case True
  then show ?thesis
    using assms by (simp add: vec_zeroed_def export_bytes_def slice_bytes_def drop_vec_def)
next
  case False
  obtain p m1 where a: "alloc_bytes (replicate n 0) m = (p, m1)" by fastforce
  then have p: "p = Ptr (fresh m) 0" and m1: "m1 = m\<lparr>blocks := (blocks m)(fresh m \<mapsto> Bytes (replicate n (Some 0))), fresh := Suc (fresh m)\<rparr>"
    by (simp_all add: alloc_bytes_def alloc_def)
  have ok1: "mem_ok m1" using assms(1) by (simp add: m1 mem_ok_def)
  have l: "load m1 (as_ptr s) (len s) = Done bs"
    using load_alloc [OF assms(1), of "as_ptr s" "len s" bs "Bytes (map Some (replicate n 0))" p m1] assms(2) a
    by (simp only: alloc_bytes_def slice_bytes_def)
  have "writable m1 p (length out)" using p m1 assms(4) by (simp add: writable_def)
  then obtain m2 where st: "store p out m1 = Done m2" using store_writable by blast
  have mo: "modifies (fresh m) m1 m2" using store_modifies st ok1 p by simp
  obtain cs where cs: "blocks m2 (fresh m) = Some (Bytes cs)"
    using mo m1 by (auto simp: modifies_def)
  have "blocks m2 c = blocks m c" if "c \<noteq> fresh m" for c
    using mo m1 that by (simp add: modifies_def)
  moreover have "blocks m (fresh m) = None" using assms(1) by (simp add: mem_ok_def)
  ultimately have "(blocks m2)(fresh m := None) = blocks m" by (auto simp: fun_eq_iff)
  then have "unchanged m (m2\<lparr>blocks := (blocks m2)(fresh m := None)\<rparr>)"
    using mo m1 assms(1) by (auto simp: unchanged_def modifies_def mem_ok_def)
  then show ?thesis
    using False assms(3-6) a l st p cs load_store_same [OF st]
    by (simp add: vec_zeroed_def export_bytes_def drop_vec_def)
qed

text \<open>C14: \<^verbatim>\<open>evm_modexp\<close> with the Nim code behind it, down to the arithmetic of words, returns the EIP-198
  result of a regular input, as a vector of the length of the modulus, when that vector can be
  allocated; nothing is left behind. An input is regular when the modulus is past its end or empty, or
  when base and modulus have no leading zero word of eight bytes; a leading zero word does no harm when
  the modulus or the base is at most 1, the exponent is 0, or the modulus is a power of two and the
  base has no more words. Not regular are also an empty exponent with a modulus of at most 1, and an
  empty base with a zero exponent and a modulus above 1.\<close>

theorem evm_modexp_correct:
  assumes "mem_ok m" "slice_bytes m s = Done bs" "eip198_lengths bs = (b, e, n)"
    "104 + b + e + n < 2 ^ 63" "modexp_regular bs" "ptr_bits tg = 64" "n \<le> heap_max tg"
  shows "returns m (evm_modexp tg (nim_modexp L) s m) (Ok (eip198 bs))"
proof -
  have n: "n < 2 ^ 64" "as_usize tg n = n" "n \<le> isize_max tg"
    using assms(4,6) by (simp_all add: as_usize_def isize_max_def)
  have len: "length (eip198 bs) = n" by (simp add: eip198_def assms(3) split: prod.splits)
  from vec_call [of m s bs eth_evm_modexp n cttEVM_Success "eip198 bs" tg, OF assms(1,2)
      modexp_result [OF assms(3-5)] len n(3) assms(7)]
  obtain p m1 m2 m3 where "vec_zeroed tg n m = Done (p, m1)"
    "export_bytes eth_evm_modexp p n (as_ptr s) (len s) m1 = Done (cttEVM_Success, m2)"
    "load m2 p n = Done (eip198 bs)" "drop_vec p n m2 = Done m3" "unchanged m m3"
    by blast
  then show ?thesis
    using assms(2) n by (simp add: evm_modexp_def nim_modexp_def returns_def slice_bytes_def
        result_size_cases [OF assms(3)])
qed

text \<open>The input 3 to the 5 modulo 100 in block 0.\<close>

definition modexp_mem :: "unit mem" where
  "modexp_mem = \<lparr>blocks = [0 \<mapsto> Bytes (map Some (modexp_input 1 1 1 [3, 5, 100]))], fresh = 1\<rparr>"

lemma modexp_mem_ok: "mem_ok modexp_mem"
  by (simp add: modexp_mem_def mem_ok_def)

lemma block_slice:
  "blocks m c = Some (Bytes (map Some bs)) \<Longrightarrow> n = length bs \<Longrightarrow>
   slice_bytes m \<lparr>as_ptr = Ptr c 0, len = n\<rparr> = Done bs"
  by (simp add: slice_bytes_def load_def cells_load_def o_def)

theorem evm_modexp_correct_witness:
  "returns modexp_mem (evm_modexp W64 (nim_modexp (reference_evm sample_evm_spec))
     \<lparr>as_ptr = Ptr 0 0, len = 99\<rparr> modexp_mem) (Ok [43])"
proof -
  have "eip198 (modexp_input 1 1 1 [3, 5, 100]) = [43]"
    by (simp add: eip198_def modexp_input_simps pad_take_def)
  moreover have "modexp_regular (modexp_input 1 1 1 [3, 5, 100])"
    by (simp add: modexp_regular_def full_words_def modexp_input_simps pad_take_def)
  moreover have "slice_bytes modexp_mem \<lparr>as_ptr = Ptr 0 0, len = 99\<rparr> = Done (modexp_input 1 1 1 [3, 5, 100])"
    by (rule block_slice) (simp_all add: modexp_mem_def length_modexp_input)
  ultimately show ?thesis
    using evm_modexp_correct [OF modexp_mem_ok, of "\<lparr>as_ptr = Ptr 0 0, len = 99\<rparr>"
      "modexp_input 1 1 1 [3, 5, 100]" 1 1 1 W64 "reference_evm sample_evm_spec"]
    by (simp add: modexp_input_lengths W64_def)
qed

text \<open>C15: the length of the modulus is not checked before the vector is made: on a 64-bit target a
  length from 2 to the 63 on panics, and any other that the allocator cannot serve aborts the
  process, for an input of 96 bytes and whatever the precompile does.\<close>

theorem evm_modexp_huge:
  assumes "slice_bytes m s = Done bs" "eip198_lengths bs = (b, e, n)" "n < 2 ^ 64" "ptr_bits tg = 64"
  shows "(2 ^ 63 \<le> n \<longrightarrow> evm_modexp tg (nim_modexp L) s m = Panic) \<and>
    (0 < n \<and> heap_max tg < n \<and> n < 2 ^ 63 \<longrightarrow> evm_modexp tg (nim_modexp L) s m = Abort)"
  using assms
  by (simp add: evm_modexp_def nim_modexp_def slice_bytes_def result_size_cases [OF assms(2)] as_usize_def
      vec_zeroed_def isize_max_def)

theorem evm_modexp_huge_witness:
  "evm_modexp W64 (nim_modexp (reference_evm sample_evm_spec)) \<lparr>as_ptr = Ptr 0 0, len = 96\<rparr>
     (\<lparr>blocks = [0 \<mapsto> Bytes (map Some (modexp_input 0 0 (2 ^ 63) []))], fresh = 1\<rparr> :: unit mem) = Panic"
proof -
  have "slice_bytes \<lparr>blocks = [0 \<mapsto> Bytes (map Some (modexp_input 0 0 (2 ^ 63) []))], fresh = 1\<rparr>
      \<lparr>as_ptr = Ptr 0 0, len = 96\<rparr> = Done (modexp_input 0 0 (2 ^ 63) [])"
    by (rule block_slice) (simp_all add: length_modexp_input)
  from evm_modexp_huge [OF this, of 0 0 "2 ^ 63" W64] show ?thesis
    by (simp add: modexp_input_lengths W64_def)
qed

end
