(* ===== verification/FFI_Locals.thy ===== *)
theory FFI_Locals
  imports FFI_Calls
begin

text \<open>
  Wrappers with structs passed by value and results in locals whose status need not be one fixed
  value: the patterns of \<^verbatim>\<open>constantine-ethereum-bls-sig\<close> and \<^verbatim>\<open>constantine-halo2-zal\<close>, the contract
  \<open>writes\<close> of the calls behind them, and what the wrapper then returns.
\<close>

type_synonym ('c, 's) call = "'c mem \<Rightarrow> ('s \<times> 'c mem) outcome"

section \<open>Parameters by value and results in locals\<close>

text \<open>A struct passed by value lives in a local of the wrapper.\<close>

definition with_value ::
  "byte list \<Rightarrow> (ptr \<Rightarrow> 'c mem \<Rightarrow> ('r \<times> 'c mem) outcome) \<Rightarrow> 'c mem \<Rightarrow> ('r \<times> 'c mem) outcome" where
  "with_value bs f m =
     (let (p, m) = alloc_bytes bs m in
      obind (f p m) (\<lambda>(r, m). obind (free p m) (\<lambda>m. Done (r, m))))"

text \<open>
  A destination of \<open>n\<close> bytes, uninitialised (\<^verbatim>\<open>MaybeUninit::uninit()\<close>) or zero (\<^verbatim>\<open>[0u8; n]\<close>), read back
  when the status is \<open>good\<close>.
\<close>

definition with_dst ::
  "byte option list \<Rightarrow> (ptr \<Rightarrow> ('c, 's) call) \<Rightarrow> ('s \<Rightarrow> bool) \<Rightarrow> 'c mem \<Rightarrow>
   ((byte list, 's) result \<times> 'c mem) outcome" where
  "with_dst cells call good m =
     (let (dst, m) = alloc (Bytes cells) m in
      obind (call dst m) (\<lambda>(status, m).
      obind (if good status then obind (load m dst (length cells)) (\<lambda>bs. Done (Ok bs)) else Done (Err status)) (\<lambda>r.
      obind (free dst m) (\<lambda>m. Done (r, m)))))"

definition uninit :: "nat \<Rightarrow> byte option list" where
  "uninit n = replicate n None"

definition zeroed :: "nat \<Rightarrow> byte option list" where
  "zeroed n = replicate n (Some 0)"

text \<open>A call that always fills its destination.\<close>

definition always_ok :: "((byte list, unit) result \<times> 'c mem) outcome \<Rightarrow> (byte list \<times> 'c mem) outcome" where
  "always_ok r = obind r (\<lambda>(x, m). case x of Ok bs \<Rightarrow> Done (bs, m) | Err _ \<Rightarrow> UB)"

definition unit_result :: "('s \<Rightarrow> bool) \<Rightarrow> ('s \<times> 'c mem) outcome \<Rightarrow> ((unit, 's) result \<times> 'c mem) outcome" where
  "unit_result good call = obind call (\<lambda>(st, m). Done (if good st then Ok () else Err st, m))"

section \<open>Contracts and results\<close>

lemma free_restores:
  assumes "mem_ok m" "alloc b m = (p, m1)" "fresh m1 \<le> fresh m2" "mem_ok m2"
    "\<And>c. c \<noteq> fresh m \<Longrightarrow> blocks m2 c = blocks m1 c" "blocks m2 (fresh m) \<noteq> None"
  shows "\<exists>m3. free p m2 = Done m3 \<and> unchanged m m3"
proof -
  have p: "p = Ptr (fresh m) 0" and m1: "m1 = m\<lparr>blocks := (blocks m)(fresh m \<mapsto> b), fresh := Suc (fresh m)\<rparr>"
    using assms(2) by (simp_all add: alloc_def)
  have "blocks m (fresh m) = None" using assms(1) by (simp add: mem_ok_def)
  then have "(blocks m2)(fresh m := None) = blocks m" using assms(5) by (auto simp: fun_eq_iff m1)
  moreover have "mem_ok (m2\<lparr>blocks := (blocks m2)(fresh m := None)\<rparr>)" using assms(4) by (simp add: mem_ok_def)
  ultimately show ?thesis using p assms(3,6) m1 by (auto simp: unchanged_def)
qed

lemma with_value_returns:
  assumes "mem_ok m" "\<And>p m1. alloc_bytes bs m = (p, m1) \<Longrightarrow> returns m1 (f p m1) r"
  shows "returns m (with_value bs f m) r"
proof -
  obtain p m1 where a: "alloc_bytes bs m = (p, m1)" by fastforce
  then obtain m2 where m2: "f p m1 = Done (r, m2)" "unchanged m1 m2"
    using assms(2) by (auto simp: returns_def)
  have al: "alloc (Bytes (map Some bs)) m = (p, m1)" using a by (simp add: alloc_bytes_def)
  then have "blocks m1 (fresh m) \<noteq> None" by (auto simp: alloc_def)
  then obtain m3 where "free p m2 = Done m3" "unchanged m m3"
    using free_restores [OF assms(1) al, of m2] m2(2) by (auto simp: unchanged_def)
  then show ?thesis using a m2(1) by (simp add: with_value_def returns_def)
qed

lemma alloc_bytes_facts:
  assumes "mem_ok m" "alloc_bytes bs m = (p, m1)"
  shows "mem_ok m1" "load m1 p (length bs) = Done bs" "load m q n = Done xs \<Longrightarrow> load m1 q n = Done xs"
proof -
  have al: "alloc (Bytes (map Some bs)) m = (p, m1)" using assms(2) by (simp add: alloc_bytes_def)
  show "mem_ok m1" using mem_ok_alloc [OF assms(1), of "Bytes (map Some bs)"] al by simp
  show "load m1 p (length bs) = Done bs"
    using al by (auto simp: alloc_def load_def cells_load_def o_def)
  show "load m q n = Done xs \<Longrightarrow> load m1 q n = Done xs" by (rule load_alloc [OF assms(1) _ al])
qed

text \<open>
  \<open>writes good n call args spec\<close>: on readable inputs the call reports the status that \<open>spec\<close> gives
  and, when it is good, has written the \<open>n\<close> bytes that \<open>spec\<close> gives.
\<close>

definition read_bytes :: "(ptr \<times> nat) list \<Rightarrow> 'c mem \<Rightarrow> byte list list option" where
  "read_bytes ins m = (case loads m ins of Done xs \<Rightarrow> Some xs | _ \<Rightarrow> None)"

definition writes ::
  "('s \<Rightarrow> bool) \<Rightarrow> nat \<Rightarrow> (ptr \<Rightarrow> ('c, 's) call) \<Rightarrow> (ptr \<times> nat) list \<Rightarrow> (byte list list \<Rightarrow> 's \<times> byte list) \<Rightarrow> bool"
  where
  "writes good n call ins spec \<longleftrightarrow>
     (\<forall>m b d. mem_ok m \<longrightarrow> read_bytes ins (without b m) = Some d \<longrightarrow> writable m (Ptr b 0) n \<longrightarrow>
        (\<exists>m'. call (Ptr b 0) m = Done (fst (spec d), m') \<and> modifies b m m' \<and>
           (good (fst (spec d)) \<longrightarrow> load m' (Ptr b 0) n = Done (snd (spec d)))))"

definition dst_result :: "('s \<Rightarrow> bool) \<Rightarrow> 's \<times> byte list \<Rightarrow> (byte list, 's) result" where
  "dst_result good so = (if good (fst so) then Ok (snd so) else Err (fst so))"

lemma read_bytes_cong: "blocks m = blocks m' \<Longrightarrow> read_bytes ins m = read_bytes ins m'"
  using loads_cong [of m m' ins] by (simp add: read_bytes_def)

lemma with_dst_returns:
  assumes "writes good (length cells) call ins spec" "mem_ok m" "read_bytes ins m = Some d"
  shows "returns m (with_dst cells call good m) (dst_result good (spec d))"
proof -
  obtain p m1 where a: "alloc (Bytes cells) m = (p, m1)" by fastforce
  then have p: "p = Ptr (fresh m) 0" and m1: "m1 = m\<lparr>blocks := (blocks m)(fresh m \<mapsto> Bytes cells), fresh := Suc (fresh m)\<rparr>"
    by (simp_all add: alloc_def)
  have ok1: "mem_ok m1" using mem_ok_alloc [OF assms(2), of "Bytes cells"] a by simp
  have "blocks (without (fresh m) m1) = blocks m"
    using assms(2) by (auto simp: m1 without_def mem_ok_def)
  then have "read_bytes ins (without (fresh m) m1) = Some d"
    using assms(3) read_bytes_cong [of "without (fresh m) m1" m ins] by simp
  moreover have "writable m1 (Ptr (fresh m) 0) (length cells)" by (simp add: m1 writable_def)
  ultimately obtain m2 where m2: "call p m1 = Done (fst (spec d), m2)" "modifies (fresh m) m1 m2"
      "good (fst (spec d)) \<Longrightarrow> load m2 p (length cells) = Done (snd (spec d))"
    using assms(1) ok1 unfolding writes_def p by blast
  have "blocks m2 (fresh m) \<noteq> None" using m2(2) by (auto simp: modifies_def m1)
  then obtain m3 where "free p m2 = Done m3" "unchanged m m3"
    using free_restores [OF assms(2) a, of m2] m2(2) by (auto simp: modifies_def)
  then show ?thesis
    using a m2(1,3) by (simp add: with_dst_def returns_def dst_result_def)
qed

lemma always_ok_returns: "returns m w (Ok bs) \<Longrightarrow> returns m (always_ok w) bs"
  by (auto simp: returns_def always_ok_def)

text \<open>A provider of such a call.\<close>

definition export_writes ::
  "('s \<Rightarrow> bool) \<Rightarrow> (ptr \<times> nat) list \<Rightarrow> (byte list list \<Rightarrow> 's \<times> byte list) \<Rightarrow> ptr \<Rightarrow> ('c, 's) call" where
  "export_writes good ins spec dst m =
     obind (loads m ins) (\<lambda>d.
       if good (fst (spec d)) then obind (store dst (snd (spec d)) m) (\<lambda>m. Done (fst (spec d), m))
       else Done (fst (spec d), m))"

lemma export_writes_writes:
  assumes "\<And>d. good (fst (spec d)) \<Longrightarrow> length (snd (spec d)) = n"
  shows "writes good n (export_writes good ins spec) ins spec"
  unfolding writes_def
proof (intro allI impI)
  fix m b d
  assume m: "mem_ok m" "read_bytes ins (without b m) = Some d" "writable m (Ptr b 0) n"
  have l: "loads m ins = Done d"
    using m(2) loads_without [of b m ins] by (auto simp: read_bytes_def split: outcome.splits)
  show "\<exists>m'. export_writes good ins spec (Ptr b 0) m = Done (fst (spec d), m') \<and> modifies b m m' \<and>
      (good (fst (spec d)) \<longrightarrow> load m' (Ptr b 0) n = Done (snd (spec d)))"
  proof (cases "good (fst (spec d))")
    case True
    then obtain m' where s: "store (Ptr b 0) (snd (spec d)) m = Done m'"
      using store_writable [of m "Ptr b 0" "snd (spec d)"] m(3) assms by auto
    then show ?thesis
      using True l m(1) assms store_modifies [OF s m(1)] load_store_same [OF s] by (simp add: export_writes_def)
  next
    case False
    then show ?thesis using l m(1) by (simp add: export_writes_def)
  qed
qed

lemma export_check_read: "checks (export_check (read_bytes ins) spec) (read_bytes ins) spec"
  by (auto simp: checks_def export_check_def)

lemma zeroed_length [simp]: "length (zeroed n) = n" and uninit_length [simp]: "length (uninit n) = n"
  by (simp_all add: zeroed_def uninit_def)

lemma dst_wrapper:
  assumes "writes good n call ins spec" "length cells = n" "mem_ok m" "read_bytes ins m = Some d"
  shows "returns m (with_dst cells call good m) (dst_result good (spec d))"
  using with_dst_returns [of good cells call ins spec m d] assms by simp

lemma read_one: "load m p n = Done x \<Longrightarrow> read_bytes [(p, n)] m = Some [x]"
  by (simp add: read_bytes_def)

lemma read_two: "load m p n = Done x \<Longrightarrow> load m q k = Done y \<Longrightarrow> read_bytes [(p, n), (q, k)] m = Some [x, y]"
  by (simp add: read_bytes_def)

section \<open>Memory that only grows\<close>

definition extends :: "'c mem \<Rightarrow> 'c mem \<Rightarrow> bool" where
  "extends m m' \<longleftrightarrow> mem_ok m' \<and> fresh m \<le> fresh m' \<and> (\<forall>b < fresh m. blocks m' b = blocks m b)"

lemma extends_refl: "mem_ok m \<Longrightarrow> extends m m"
  by (simp add: extends_def)

lemma extends_trans: "extends m m' \<Longrightarrow> extends m' m'' \<Longrightarrow> extends m m''"
  by (simp add: extends_def)

lemma extends_alloc: "mem_ok m \<Longrightarrow> alloc x m = (p, m') \<Longrightarrow> extends m m'"
  by (auto simp: extends_def alloc_def mem_ok_def)

lemma extends_load:
  assumes "mem_ok m" "extends m m'" "load m p n = Done xs"
  shows "load m' p n = Done xs"
proof (cases "n = 0")
  case False
  then obtain b i where p: "p = Ptr b i" using assms(3) by (cases p) (auto simp: load_def)
  then have "blocks m b \<noteq> None" using load_live [of m b i n xs] assms(3) False by simp
  then have "blocks m' b = blocks m b" using mem_ok_fresh [OF assms(1)] assms(2) by (simp add: extends_def)
  then show ?thesis using load_cong [of p m' m n] assms(3) p by simp
qed (use assms(3) in simp)

lemma alloc_bytes_extends:
  assumes "mem_ok m" "alloc_bytes bs m = (p, m1)"
  shows "mem_ok m1" "extends m m1" "load m1 p (length bs) = Done bs"
  using alloc_bytes_facts [OF assms] extends_alloc [of m "Bytes (map Some bs)" p m1] assms
  by (simp_all add: alloc_bytes_def)

lemma with_value_read:
  assumes "mem_ok m" "length v = n"
    "\<And>p m1. mem_ok m1 \<Longrightarrow> extends m m1 \<Longrightarrow> load m1 p n = Done v \<Longrightarrow> returns m1 (f p m1) r"
  shows "returns m (with_value v f m) r"
  using assms alloc_bytes_extends [OF assms(1), of v] by (intro with_value_returns) auto

lemma checks_returns:
  "checks call args spec \<Longrightarrow> mem_ok m \<Longrightarrow> args m = Some d \<Longrightarrow> returns m (call m) (spec d)"
  by (simp add: checks_def returns_def)

lemma unit_result_returns:
  "returns m w st \<Longrightarrow> returns m (unit_result good w) (if good st then Ok () else Err st)"
  by (auto simp: returns_def unit_result_def)

lemma always_ok_dst:
  assumes "writes (\<lambda>_. True) n call ins spec" "mem_ok m" "read_bytes ins m = Some d"
  shows "returns m (always_ok (with_dst (uninit n) call (\<lambda>_. True) m)) (snd (spec d))"
  using dst_wrapper [OF assms(1) uninit_length assms(2,3)] by (auto simp: dst_result_def intro: always_ok_returns)

lemma compare_returns:
  fixes m :: "'c mem"
  assumes "\<And>p q. checks (call p q) (read_bytes [(p, n), (q, n)]) (\<lambda>d. eq (hd d) (d ! 1))"
    "mem_ok m" "length x = n" "length y = n"
  shows "returns m (with_value x (\<lambda>p. with_value y (\<lambda>q. call p q)) m) (eq x y)"
proof (rule with_value_read [OF assms(2,3)], rule with_value_read [OF _ assms(4)])
  fix p q and m1 m2 :: "'c mem" assume m: "mem_ok m1" "load m1 p n = Done x" "mem_ok m2" "extends m1 m2" "load m2 q n = Done y"
  then have "read_bytes [(p, n), (q, n)] m2 = Some [x, y]" by (intro read_two) (auto intro: extends_load)
  then show "returns m2 (call p q m2) (eq x y)"
    using checks_returns [of "call p q" "read_bytes [(p, n), (q, n)]" _ m2 "[x, y]", OF assms(1) m(3)] by simp
qed

end
