(* ===== verification/Rust_BLS_Sig.thy ===== *)
theory Rust_BLS_Sig
  imports FFI_Locals Rust_KZG
begin

text \<open>
  The crate \<^verbatim>\<open>constantine-ethereum-bls-sig\<close> (\<^verbatim>\<open>src/lib.rs\<close>): keys, signatures, their codecs and
  the verification calls, over the exports of \<^verbatim>\<open>constantine/ethereum_bls_signatures.nim\<close>. Secret
  keys, public keys and signatures are structs of 32, 96 and 192 bytes.
\<close>

section \<open>The library functions\<close>

text \<open>A span is a pointer and a length; the array of spans is passed as a list.\<close>

type_synonym span = "ptr \<times> nat"

record 'c bls_lib =
  ctt_sha256_hash :: "ptr \<Rightarrow> ptr \<Rightarrow> nat \<Rightarrow> bool \<Rightarrow> ('c, unit) call"
  ctt_eth_bls_derive_pubkey :: "ptr \<Rightarrow> ptr \<Rightarrow> ('c, unit) call"
  ctt_eth_bls_pubkeys_are_equal :: "ptr \<Rightarrow> ptr \<Rightarrow> ('c, bool) call"
  ctt_eth_bls_signatures_are_equal :: "ptr \<Rightarrow> ptr \<Rightarrow> ('c, bool) call"
  ctt_eth_bls_validate_seckey :: "ptr \<Rightarrow> ('c, ctt_codec_scalar_status) call"
  ctt_eth_bls_validate_pubkey :: "ptr \<Rightarrow> ('c, ctt_codec_ecc_status) call"
  ctt_eth_bls_validate_signature :: "ptr \<Rightarrow> ('c, ctt_codec_ecc_status) call"
  ctt_eth_bls_serialize_seckey :: "ptr \<Rightarrow> ptr \<Rightarrow> ('c, unit) call"
  ctt_eth_bls_serialize_pubkey_compressed :: "ptr \<Rightarrow> ptr \<Rightarrow> ('c, ctt_codec_ecc_status) call"
  ctt_eth_bls_serialize_signature_compressed :: "ptr \<Rightarrow> ptr \<Rightarrow> ('c, ctt_codec_ecc_status) call"
  ctt_eth_bls_deserialize_seckey :: "ptr \<Rightarrow> ptr \<Rightarrow> ('c, ctt_codec_scalar_status) call"
  ctt_eth_bls_deserialize_pubkey_compressed_unchecked :: "ptr \<Rightarrow> ptr \<Rightarrow> ('c, ctt_codec_ecc_status) call"
  ctt_eth_bls_deserialize_signature_compressed_unchecked :: "ptr \<Rightarrow> ptr \<Rightarrow> ('c, ctt_codec_ecc_status) call"
  ctt_eth_bls_deserialize_pubkey_compressed :: "ptr \<Rightarrow> ptr \<Rightarrow> ('c, ctt_codec_ecc_status) call"
  ctt_eth_bls_deserialize_signature_compressed :: "ptr \<Rightarrow> ptr \<Rightarrow> ('c, ctt_codec_ecc_status) call"
  ctt_eth_bls_sign :: "ptr \<Rightarrow> ptr \<Rightarrow> ptr \<Rightarrow> nat \<Rightarrow> ('c, unit) call"
  ctt_eth_bls_verify :: "ptr \<Rightarrow> ptr \<Rightarrow> nat \<Rightarrow> ptr \<Rightarrow> ('c, ctt_eth_bls_status) call"
  ctt_eth_bls_fast_aggregate_verify :: "ptr \<Rightarrow> nat \<Rightarrow> ptr \<Rightarrow> nat \<Rightarrow> ptr \<Rightarrow> ('c, ctt_eth_bls_status) call"
  ctt_eth_bls_aggregate_verify :: "ptr \<Rightarrow> span list \<Rightarrow> nat \<Rightarrow> ptr \<Rightarrow> ('c, ctt_eth_bls_status) call"
  ctt_eth_bls_batch_verify :: "ptr \<Rightarrow> span list \<Rightarrow> ptr \<Rightarrow> nat \<Rightarrow> ptr \<Rightarrow> ('c, ctt_eth_bls_status) call"
  ctt_eth_bls_batch_verify_parallel ::
    "nat \<Rightarrow> ptr \<Rightarrow> span list \<Rightarrow> ptr \<Rightarrow> nat \<Rightarrow> ptr \<Rightarrow> ('c, ctt_eth_bls_status) call"

section \<open>Wrappers\<close>

definition rust_sha256_hash where
  "rust_sha256_hash L message clear_memory m =
     always_ok (with_dst (zeroed 32)
       (\<lambda>result. ctt_sha256_hash L result (as_ptr message) (len message) clear_memory) (\<lambda>_. True) m)"

definition derive_pubkey where
  "derive_pubkey L skey =
     with_value skey (\<lambda>s m. always_ok (with_dst (uninit 96)
       (\<lambda>result. ctt_eth_bls_derive_pubkey L result s) (\<lambda>_. True) m))"

definition pubkeys_are_equal where
  "pubkeys_are_equal L pkey1 pkey2 =
     with_value pkey1 (\<lambda>p1. with_value pkey2 (\<lambda>p2. ctt_eth_bls_pubkeys_are_equal L p1 p2))"

definition signatures_are_equal where
  "signatures_are_equal L pkey1 pkey2 =
     with_value pkey1 (\<lambda>p1. with_value pkey2 (\<lambda>p2. ctt_eth_bls_signatures_are_equal L p1 p2))"

definition validate_seckey where
  "validate_seckey L sec m =
     unit_result (\<lambda>st. st = cttCodecScalar_Success) (ctt_eth_bls_validate_seckey L sec m)"

definition validate_pubkey where
  "validate_pubkey L pkey m =
     unit_result (\<lambda>st. st = cttCodecEcc_Success) (ctt_eth_bls_validate_pubkey L pkey m)"

definition validate_signature where
  "validate_signature L sig m =
     unit_result (\<lambda>st. st = cttCodecEcc_Success) (ctt_eth_bls_validate_signature L sig m)"

definition serialize_seckey where
  "serialize_seckey L sec m =
     always_ok (with_dst (zeroed 32) (\<lambda>dst. ctt_eth_bls_serialize_seckey L dst sec) (\<lambda>_. True) m)"

definition serialize_pubkey_compressed where
  "serialize_pubkey_compressed L pkey =
     with_dst (zeroed 48) (\<lambda>dst. ctt_eth_bls_serialize_pubkey_compressed L dst pkey)
       (\<lambda>st. st = cttCodecEcc_Success)"

definition serialize_signature_compressed where
  "serialize_signature_compressed L sig =
     with_dst (zeroed 96) (\<lambda>dst. ctt_eth_bls_serialize_signature_compressed L dst sig)
       (\<lambda>st. st = cttCodecEcc_Success)"

definition deserialize_seckey where
  "deserialize_seckey L src =
     with_dst (uninit 32) (\<lambda>result. ctt_eth_bls_deserialize_seckey L result src)
       (\<lambda>st. st = cttCodecScalar_Success)"

text \<open>The point at infinity is a key and a signature that deserialize.\<close>

definition ecc_point :: "ctt_codec_ecc_status \<Rightarrow> bool" where
  "ecc_point st \<longleftrightarrow> st = cttCodecEcc_Success \<or> st = cttCodecEcc_PointAtInfinity"

definition deserialize_pubkey_compressed_unchecked where
  "deserialize_pubkey_compressed_unchecked L src =
     with_dst (uninit 96) (\<lambda>result. ctt_eth_bls_deserialize_pubkey_compressed_unchecked L result src) ecc_point"

definition deserialize_signature_compressed_unchecked where
  "deserialize_signature_compressed_unchecked L src =
     with_dst (uninit 192) (\<lambda>result. ctt_eth_bls_deserialize_signature_compressed_unchecked L result src) ecc_point"

definition deserialize_pubkey_compressed where
  "deserialize_pubkey_compressed L src =
     with_dst (uninit 96) (\<lambda>result. ctt_eth_bls_deserialize_pubkey_compressed L result src) ecc_point"

definition deserialize_signature_compressed where
  "deserialize_signature_compressed L src =
     with_dst (uninit 192) (\<lambda>result. ctt_eth_bls_deserialize_signature_compressed L result src) ecc_point"

definition sign where
  "sign L skey message =
     with_value skey (\<lambda>s m. always_ok (with_dst (uninit 192)
       (\<lambda>result. ctt_eth_bls_sign L result s (as_ptr message) (len message)) (\<lambda>_. True) m))"

section \<open>Verification\<close>

text \<open>Every status but success is an error: no verification returns \<^verbatim>\<open>Ok(false)\<close>.\<close>

definition bls_result :: "ctt_eth_bls_status \<Rightarrow> (bool, ctt_eth_bls_status) result" where
  "bls_result st = (if st = cttEthBls_Success then Ok True else Err st)"

definition verify where
  "verify L pkey message sig =
     with_value pkey (\<lambda>p. with_value sig (\<lambda>s m.
       obind (ctt_eth_bls_verify L p (as_ptr message) (len message) s m) (\<lambda>(status, m).
         Done (bls_result status, m))))"

definition fast_aggregate_verify where
  "fast_aggregate_verify L pubkeys message signature m =
     obind (ctt_eth_bls_fast_aggregate_verify L (as_ptr pubkeys) (len pubkeys) (as_ptr message) (len message)
       signature m) (\<lambda>(status, m). Done (bls_result status, m))"

text \<open>\<^verbatim>\<open>messages.clone()\<close>: a copy of each vector (an empty one has no buffer), dropped at the end.\<close>

fun clone_vecs :: "slice list \<Rightarrow> 'c mem \<Rightarrow> (slice list \<times> 'c mem) outcome" where
  "clone_vecs [] m = Done ([], m)"
| "clone_vecs (v # vs) m =
     obind (slice_bytes m v) (\<lambda>bs.
       let (p, m) = (if bs = [] then (Dangling, m) else alloc_bytes bs m) in
       obind (clone_vecs vs m) (\<lambda>(ws, m). Done (\<lparr>as_ptr = p, len = length bs\<rparr> # ws, m)))"

fun drop_vecs :: "slice list \<Rightarrow> 'c mem \<Rightarrow> 'c mem outcome" where
  "drop_vecs [] m = Done m"
| "drop_vecs (v # vs) m =
     obind (if len v = 0 then Done m else free (as_ptr v) m) (drop_vecs vs)"

definition to_span :: "slice list \<Rightarrow> span list" where
  "to_span vec = map (\<lambda>v. (as_ptr v, len v)) vec"

definition with_spans ::
  "slice list \<Rightarrow> (span list \<Rightarrow> ('c, ctt_eth_bls_status) call) \<Rightarrow> 'c mem \<Rightarrow>
   ((bool, ctt_eth_bls_status) result \<times> 'c mem) outcome" where
  "with_spans messages call m =
     obind (clone_vecs messages m) (\<lambda>(msg, m).
     obind (call (to_span msg) m) (\<lambda>(status, m).
     obind (drop_vecs msg m) (\<lambda>m. Done (bls_result status, m))))"

text \<open>\<^verbatim>\<open>aggregate_verify\<close> announces the number of keys, the batch calls the number of messages.\<close>

definition aggregate_verify where
  "aggregate_verify L pubkeys messages aggregate_sig =
     with_spans messages (\<lambda>spans.
       ctt_eth_bls_aggregate_verify L (as_ptr pubkeys) spans (len pubkeys) aggregate_sig)"

definition batch_verify where
  "batch_verify L pubkeys messages signatures secure_random_bytes =
     with_spans messages (\<lambda>spans.
       ctt_eth_bls_batch_verify L (as_ptr pubkeys) spans (as_ptr signatures) (length messages) secure_random_bytes)"

definition batch_verify_parallel where
  "batch_verify_parallel L tp pubkeys messages signatures secure_random_bytes =
     with_spans messages (\<lambda>spans.
       ctt_eth_bls_batch_verify_parallel L (get_private_context tp) (as_ptr pubkeys) spans (as_ptr signatures)
         (length messages) secure_random_bytes)"

end
