(* ===== verification/Nim_BLS_Sig.thy ===== *)
theory Nim_BLS_Sig
  imports Rust_BLS_Sig
begin

text \<open>
  The verification procedures of \<^verbatim>\<open>constantine/ethereum_bls_signatures.nim\<close> and
  \<^verbatim>\<open>ethereum_bls_signatures_parallel.nim\<close> on the memory they share with their callers: which
  buffers they read, in which order, and the status they return. The pairing checks of
  \<^verbatim>\<open>constantine/signatures/bls_signatures.nim\<close> are the fields of \<open>bls_core\<close>.
\<close>

record bls_core =
  coreVerify :: "byte list \<Rightarrow> byte list \<Rightarrow> byte list \<Rightarrow> bool"
  fastAggregateVerify :: "byte list list \<Rightarrow> byte list \<Rightarrow> byte list \<Rightarrow> bool"
  aggregateVerify :: "byte list list \<Rightarrow> byte list list \<Rightarrow> byte list \<Rightarrow> bool"
  batchVerify :: "byte list list \<Rightarrow> byte list list \<Rightarrow> byte list list \<Rightarrow> byte list \<Rightarrow> bool"

text \<open>\<^verbatim>\<open>isNeutral\<close> of an affine point: both coordinates are zero, that is all bytes of the struct.\<close>

definition isNeutral :: "byte list \<Rightarrow> bool" where
  "isNeutral raw \<longleftrightarrow> (\<forall>b \<in> set raw. b = 0)"

definition verified_status :: "bool \<Rightarrow> ctt_eth_bls_status" where
  "verified_status verified = (if verified then cttEthBls_Success else cttEthBls_VerificationFailure)"

section \<open>Arrays in memory\<close>

fun padd :: "ptr \<Rightarrow> nat \<Rightarrow> ptr" where
  "padd (Ptr b i) n = Ptr b (i + n)"
| "padd p n = p"

text \<open>The \<open>k\<close> elements of \<open>sz\<close> bytes from index \<open>i\<close> on: all of them, and the loop that stops at the
  first neutral one.\<close>

fun read_elems :: "'c mem \<Rightarrow> nat \<Rightarrow> ptr \<Rightarrow> nat \<Rightarrow> nat \<Rightarrow> byte list list outcome" where
  "read_elems m sz p i 0 = Done []"
| "read_elems m sz p i (Suc k) =
     obind (load m (padd p (i * sz)) sz) (\<lambda>x.
     obind (read_elems m sz p (i + 1) k) (\<lambda>xs. Done (x # xs)))"

fun any_neutral :: "'c mem \<Rightarrow> nat \<Rightarrow> ptr \<Rightarrow> nat \<Rightarrow> nat \<Rightarrow> bool outcome" where
  "any_neutral m sz p i 0 = Done False"
| "any_neutral m sz p i (Suc k) =
     obind (load m (padd p (i * sz)) sz) (\<lambda>x.
       if isNeutral x then Done True else any_neutral m sz p (i + 1) k)"

text \<open>The first \<open>n\<close> messages behind an array of spans.\<close>

definition read_messages :: "'c mem \<Rightarrow> span list \<Rightarrow> nat \<Rightarrow> byte list list outcome" where
  "read_messages m spans n = (if length spans < n then UB else loads m (take n spans))"

section \<open>Procedures\<close>

definition nim_verify :: "bls_core \<Rightarrow> ptr \<Rightarrow> ptr \<Rightarrow> nat \<Rightarrow> ptr \<Rightarrow> ('c, ctt_eth_bls_status) call" where
  "nim_verify C public_key message message_len signature m =
     obind (load m public_key 96) (\<lambda>pk.
     obind (load m signature 192) (\<lambda>sg.
       if isNeutral pk \<or> isNeutral sg then Done (cttEthBls_PointAtInfinity, m)
       else obind (load m message message_len) (\<lambda>msg. Done (verified_status (coreVerify C pk msg sg), m))))"

definition nim_fast_aggregate_verify ::
  "bls_core \<Rightarrow> ptr \<Rightarrow> nat \<Rightarrow> ptr \<Rightarrow> nat \<Rightarrow> ptr \<Rightarrow> ('c, ctt_eth_bls_status) call" where
  "nim_fast_aggregate_verify C pubkeys pubkeys_len message message_len aggregate_sig m =
     (if pubkeys_len = 0 then Done (cttEthBls_ZeroLengthAggregation, m)
      else obind (load m aggregate_sig 192) (\<lambda>sg.
        if isNeutral sg then Done (cttEthBls_PointAtInfinity, m)
        else obind (any_neutral m 96 pubkeys 0 pubkeys_len) (\<lambda>z.
          if z then Done (cttEthBls_PointAtInfinity, m)
          else obind (read_elems m 96 pubkeys 0 pubkeys_len) (\<lambda>pks.
               obind (load m message message_len) (\<lambda>msg.
               Done (verified_status (fastAggregateVerify C pks msg sg), m))))))"

definition nim_aggregate_verify ::
  "bls_core \<Rightarrow> ptr \<Rightarrow> span list \<Rightarrow> nat \<Rightarrow> ptr \<Rightarrow> ('c, ctt_eth_bls_status) call" where
  "nim_aggregate_verify C pubkeys messages n aggregate_sig m =
     (if n = 0 then Done (cttEthBls_ZeroLengthAggregation, m)
      else obind (load m aggregate_sig 192) (\<lambda>sg.
        if isNeutral sg then Done (cttEthBls_PointAtInfinity, m)
        else obind (any_neutral m 96 pubkeys 0 n) (\<lambda>z.
          if z then Done (cttEthBls_PointAtInfinity, m)
          else obind (read_elems m 96 pubkeys 0 n) (\<lambda>pks.
               obind (read_messages m messages n) (\<lambda>msgs.
               Done (verified_status (aggregateVerify C pks msgs sg), m))))))"

definition nim_batch_verify ::
  "bls_core \<Rightarrow> ptr \<Rightarrow> span list \<Rightarrow> ptr \<Rightarrow> nat \<Rightarrow> ptr \<Rightarrow> ('c, ctt_eth_bls_status) call" where
  "nim_batch_verify C pubkeys messages signatures n secureRandomBytes m =
     (if n = 0 then Done (cttEthBls_ZeroLengthAggregation, m)
      else obind (any_neutral m 96 pubkeys 0 n) (\<lambda>z.
        if z then Done (cttEthBls_PointAtInfinity, m)
        else obind (any_neutral m 192 signatures 0 n) (\<lambda>z.
          if z then Done (cttEthBls_PointAtInfinity, m)
          else obind (read_elems m 96 pubkeys 0 n) (\<lambda>pks.
               obind (read_messages m messages n) (\<lambda>msgs.
               obind (read_elems m 192 signatures 0 n) (\<lambda>sgs.
               obind (load m secureRandomBytes 32) (\<lambda>rnd.
               Done (verified_status (batchVerify C pks msgs sgs rnd), m))))))))"

text \<open>The parallel procedure does the same; the threadpool runs the pairings.\<close>

definition nim_batch_verify_parallel ::
  "bls_core \<Rightarrow> nat \<Rightarrow> ptr \<Rightarrow> span list \<Rightarrow> ptr \<Rightarrow> nat \<Rightarrow> ptr \<Rightarrow> ('c, ctt_eth_bls_status) call" where
  "nim_batch_verify_parallel C tp = nim_batch_verify C"

section \<open>What they compute\<close>

text \<open>The IETF order of the checks, on values.\<close>

definition bls_fast_aggregate_spec ::
  "bls_core \<Rightarrow> byte list list \<Rightarrow> byte list \<Rightarrow> byte list \<Rightarrow> ctt_eth_bls_status" where
  "bls_fast_aggregate_spec C pks msg sg =
     (if pks = [] then cttEthBls_ZeroLengthAggregation
      else if isNeutral sg \<or> (\<exists>pk \<in> set pks. isNeutral pk) then cttEthBls_PointAtInfinity
      else verified_status (fastAggregateVerify C pks msg sg))"

definition bls_aggregate_spec ::
  "bls_core \<Rightarrow> byte list list \<Rightarrow> byte list list \<Rightarrow> byte list \<Rightarrow> ctt_eth_bls_status" where
  "bls_aggregate_spec C pks msgs sg =
     (if pks = [] then cttEthBls_ZeroLengthAggregation
      else if isNeutral sg \<or> (\<exists>pk \<in> set pks. isNeutral pk) then cttEthBls_PointAtInfinity
      else verified_status (aggregateVerify C pks msgs sg))"

definition bls_batch_spec ::
  "bls_core \<Rightarrow> byte list list \<Rightarrow> byte list list \<Rightarrow> byte list list \<Rightarrow> byte list \<Rightarrow> ctt_eth_bls_status" where
  "bls_batch_spec C pks msgs sgs rnd =
     (if pks = [] then cttEthBls_ZeroLengthAggregation
      else if (\<exists>x \<in> set (pks @ sgs). isNeutral x) then cttEthBls_PointAtInfinity
      else verified_status (batchVerify C pks msgs sgs rnd))"

lemma any_neutral_read:
  "read_elems m sz p i k = Done xs \<Longrightarrow> any_neutral m sz p i k = Done (\<exists>x \<in> set xs. isNeutral x)"
  by (induction m sz p i k arbitrary: xs rule: any_neutral.induct) (auto simp: obind_Done_iff)

lemma length_read_elems: "read_elems m sz p i k = Done xs \<Longrightarrow> length xs = k"
  by (induction m sz p i k arbitrary: xs rule: read_elems.induct) (auto simp: obind_Done_iff)

lemma nim_fast_aggregate_verify_eq:
  assumes "read_elems m 96 pubkeys 0 n = Done pks" "load m message k = Done msg" "load m sig 192 = Done sg"
  shows "nim_fast_aggregate_verify C pubkeys n message k sig m = Done (bls_fast_aggregate_spec C pks msg sg, m)"
  using assms any_neutral_read [OF assms(1)] length_read_elems [OF assms(1)]
  by (auto simp: nim_fast_aggregate_verify_def bls_fast_aggregate_spec_def)

lemma nim_aggregate_verify_eq:
  assumes "read_elems m 96 pubkeys 0 n = Done pks" "read_messages m spans n = Done msgs" "load m sig 192 = Done sg"
  shows "nim_aggregate_verify C pubkeys spans n sig m = Done (bls_aggregate_spec C pks msgs sg, m)"
  using assms any_neutral_read [OF assms(1)] length_read_elems [OF assms(1)]
  by (auto simp: nim_aggregate_verify_def bls_aggregate_spec_def)

lemma nim_batch_verify_eq:
  assumes "read_elems m 96 pubkeys 0 n = Done pks" "read_messages m spans n = Done msgs"
    "read_elems m 192 sigs 0 n = Done sgs" "load m rnd 32 = Done rb"
  shows "nim_batch_verify C pubkeys spans sigs n rnd m = Done (bls_batch_spec C pks msgs sgs rb, m)"
  using assms any_neutral_read [OF assms(1)] any_neutral_read [OF assms(3)] length_read_elems [OF assms(1)]
  by (auto simp: nim_batch_verify_def bls_batch_spec_def)

text \<open>Reading past the end of the array of spans or of the keys.\<close>

lemma nim_aggregate_verify_overrun:
  assumes "read_elems m 96 pubkeys 0 n = Done pks" "load m sig 192 = Done sg"
    "\<not> isNeutral sg" "\<forall>pk \<in> set pks. \<not> isNeutral pk" "length spans < n"
  shows "nim_aggregate_verify C pubkeys spans n sig m = UB"
proof -
  have "any_neutral m 96 pubkeys 0 n = Done False"
    using any_neutral_read [OF assms(1)] assms(4) by auto
  then show ?thesis using assms by (simp add: nim_aggregate_verify_def read_messages_def)
qed

lemma any_neutral_overrun:
  assumes "read_elems m sz p i k = Done xs" "\<forall>x \<in> set xs. \<not> isNeutral x"
    "load m (padd p ((i + k) * sz)) sz = UB" "k < n"
  shows "any_neutral m sz p i n = UB"
  using assms
proof (induction m sz p i k arbitrary: xs n rule: read_elems.induct)
  case (1 m sz p i)
  then show ?case by (cases n) auto
next
  case (2 m sz p i k)
  then obtain n' where "n = Suc n'" by (cases n) auto
  then show ?case using 2 by (fastforce simp: obind_Done_iff)
qed

lemma nim_batch_verify_overrun:
  assumes "read_elems m 96 pubkeys 0 k = Done pks" "\<forall>pk \<in> set pks. \<not> isNeutral pk"
    "load m (padd pubkeys (k * 96)) 96 = UB" "k < n"
  shows "nim_batch_verify C pubkeys spans sigs n rnd m = UB"
  using any_neutral_overrun [of m 96 pubkeys 0 k pks n] assms by (simp add: nim_batch_verify_def)

end
