(* ===== verification/BLS_Calls.thy ===== *)
theory BLS_Calls
  imports Nim_BLS_Sig Sha256 KZG_Calls
begin

text \<open>
  The wrappers of \<^verbatim>\<open>constantine-ethereum-bls-sig\<close>: keys, codecs and signing under the contract of
  the library, and the verification calls end to end over the Nim procedures, with what they do
  when the lengths of their arguments differ.
\<close>

section \<open>SHA-256\<close>

text \<open>The export \<^verbatim>\<open>ctt_sha256_hash\<close> (\<^verbatim>\<open>bindings/lib_hashes.nim\<close>): the digest is stored; clearing the
  context is not visible to the caller.\<close>

definition nim_sha256_hash :: "ptr \<Rightarrow> ptr \<Rightarrow> nat \<Rightarrow> bool \<Rightarrow> ('c, unit) call" where
  "nim_sha256_hash digest message message_len clearMem =
     export_writes (\<lambda>_. True) [(message, message_len)] (\<lambda>d. ((), sha256_hash (hd d))) digest"

section \<open>The library's contract\<close>

text \<open>What the protocol promises on the bytes of keys, signatures and messages. A codec function gives
  a status and the bytes it produces.\<close>

record bls_spec =
  sp_derive :: "byte list \<Rightarrow> byte list"
  sp_pubkeys_equal :: "byte list \<Rightarrow> byte list \<Rightarrow> bool"
  sp_signatures_equal :: "byte list \<Rightarrow> byte list \<Rightarrow> bool"
  sp_valid_seckey :: "byte list \<Rightarrow> ctt_codec_scalar_status"
  sp_valid_pubkey :: "byte list \<Rightarrow> ctt_codec_ecc_status"
  sp_valid_signature :: "byte list \<Rightarrow> ctt_codec_ecc_status"
  sp_ser_seckey :: "byte list \<Rightarrow> byte list"
  sp_ser_pubkey :: "byte list \<Rightarrow> ctt_codec_ecc_status \<times> byte list"
  sp_ser_signature :: "byte list \<Rightarrow> ctt_codec_ecc_status \<times> byte list"
  sp_de_seckey :: "byte list \<Rightarrow> ctt_codec_scalar_status \<times> byte list"
  sp_de_pubkey_unchecked :: "byte list \<Rightarrow> ctt_codec_ecc_status \<times> byte list"
  sp_de_signature_unchecked :: "byte list \<Rightarrow> ctt_codec_ecc_status \<times> byte list"
  sp_de_pubkey :: "byte list \<Rightarrow> ctt_codec_ecc_status \<times> byte list"
  sp_de_signature :: "byte list \<Rightarrow> ctt_codec_ecc_status \<times> byte list"
  sp_sign :: "byte list \<Rightarrow> byte list \<Rightarrow> byte list"

abbreviation (input) ecc_success :: "ctt_codec_ecc_status \<Rightarrow> bool" where
  "ecc_success \<equiv> \<lambda>st. st = cttCodecEcc_Success"

abbreviation (input) scalar_success :: "ctt_codec_scalar_status \<Rightarrow> bool" where
  "scalar_success \<equiv> \<lambda>st. st = cttCodecScalar_Success"

definition bls_codec_contract :: "'c bls_lib \<Rightarrow> bls_spec \<Rightarrow> bool" where
  "bls_codec_contract L S \<longleftrightarrow>
     (\<forall>p. writes (\<lambda>_. True) 32 (\<lambda>r. ctt_eth_bls_serialize_seckey L r p) [(p, 32)] (\<lambda>d. ((), sp_ser_seckey S (hd d)))) \<and>
     (\<forall>p. writes ecc_success 48 (\<lambda>r. ctt_eth_bls_serialize_pubkey_compressed L r p) [(p, 96)] (\<lambda>d. sp_ser_pubkey S (hd d))) \<and>
     (\<forall>p. writes ecc_success 96 (\<lambda>r. ctt_eth_bls_serialize_signature_compressed L r p) [(p, 192)] (\<lambda>d. sp_ser_signature S (hd d))) \<and>
     (\<forall>p. writes scalar_success 32 (\<lambda>r. ctt_eth_bls_deserialize_seckey L r p) [(p, 32)] (\<lambda>d. sp_de_seckey S (hd d))) \<and>
     (\<forall>p. writes ecc_point 96 (\<lambda>r. ctt_eth_bls_deserialize_pubkey_compressed_unchecked L r p) [(p, 48)] (\<lambda>d. sp_de_pubkey_unchecked S (hd d))) \<and>
     (\<forall>p. writes ecc_point 192 (\<lambda>r. ctt_eth_bls_deserialize_signature_compressed_unchecked L r p) [(p, 96)] (\<lambda>d. sp_de_signature_unchecked S (hd d))) \<and>
     (\<forall>p. writes ecc_point 96 (\<lambda>r. ctt_eth_bls_deserialize_pubkey_compressed L r p) [(p, 48)] (\<lambda>d. sp_de_pubkey S (hd d))) \<and>
     (\<forall>p. writes ecc_point 192 (\<lambda>r. ctt_eth_bls_deserialize_signature_compressed L r p) [(p, 96)] (\<lambda>d. sp_de_signature S (hd d)))"

definition bls_key_contract :: "'c bls_lib \<Rightarrow> bls_spec \<Rightarrow> bool" where
  "bls_key_contract L S \<longleftrightarrow>
     (\<forall>p. writes (\<lambda>_. True) 96 (\<lambda>r. ctt_eth_bls_derive_pubkey L r p) [(p, 32)] (\<lambda>d. ((), sp_derive S (hd d)))) \<and>
     (\<forall>p q n. writes (\<lambda>_. True) 192 (\<lambda>r. ctt_eth_bls_sign L r p q n) [(p, 32), (q, n)]
        (\<lambda>d. ((), sp_sign S (hd d) (d ! 1)))) \<and>
     (\<forall>p q. checks (ctt_eth_bls_pubkeys_are_equal L p q) (read_bytes [(p, 96), (q, 96)])
        (\<lambda>d. sp_pubkeys_equal S (hd d) (d ! 1))) \<and>
     (\<forall>p q. checks (ctt_eth_bls_signatures_are_equal L p q) (read_bytes [(p, 192), (q, 192)])
        (\<lambda>d. sp_signatures_equal S (hd d) (d ! 1))) \<and>
     (\<forall>p. checks (ctt_eth_bls_validate_seckey L p) (read_bytes [(p, 32)]) (\<lambda>d. sp_valid_seckey S (hd d))) \<and>
     (\<forall>p. checks (ctt_eth_bls_validate_pubkey L p) (read_bytes [(p, 96)]) (\<lambda>d. sp_valid_pubkey S (hd d))) \<and>
     (\<forall>p. checks (ctt_eth_bls_validate_signature L p) (read_bytes [(p, 192)]) (\<lambda>d. sp_valid_signature S (hd d)))"

text \<open>A library that keeps the contract, with the Nim code where it is modelled.\<close>

definition nim_bls :: "bls_core \<Rightarrow> bls_spec \<Rightarrow> 'c bls_lib" where
  "nim_bls C S = \<lparr>
     ctt_sha256_hash = nim_sha256_hash,
     ctt_eth_bls_derive_pubkey = (\<lambda>r p. export_writes (\<lambda>_. True) [(p, 32)] (\<lambda>d. ((), sp_derive S (hd d))) r),
     ctt_eth_bls_pubkeys_are_equal = (\<lambda>p q. export_check (read_bytes [(p, 96), (q, 96)])
        (\<lambda>d. sp_pubkeys_equal S (hd d) (d ! 1))),
     ctt_eth_bls_signatures_are_equal = (\<lambda>p q. export_check (read_bytes [(p, 192), (q, 192)])
        (\<lambda>d. sp_signatures_equal S (hd d) (d ! 1))),
     ctt_eth_bls_validate_seckey = (\<lambda>p. export_check (read_bytes [(p, 32)]) (\<lambda>d. sp_valid_seckey S (hd d))),
     ctt_eth_bls_validate_pubkey = (\<lambda>p. export_check (read_bytes [(p, 96)]) (\<lambda>d. sp_valid_pubkey S (hd d))),
     ctt_eth_bls_validate_signature = (\<lambda>p. export_check (read_bytes [(p, 192)]) (\<lambda>d. sp_valid_signature S (hd d))),
     ctt_eth_bls_serialize_seckey = (\<lambda>r p. export_writes (\<lambda>_. True) [(p, 32)] (\<lambda>d. ((), sp_ser_seckey S (hd d))) r),
     ctt_eth_bls_serialize_pubkey_compressed = (\<lambda>r p. export_writes ecc_success [(p, 96)] (\<lambda>d. sp_ser_pubkey S (hd d)) r),
     ctt_eth_bls_serialize_signature_compressed = (\<lambda>r p. export_writes ecc_success [(p, 192)] (\<lambda>d. sp_ser_signature S (hd d)) r),
     ctt_eth_bls_deserialize_seckey = (\<lambda>r p. export_writes scalar_success [(p, 32)] (\<lambda>d. sp_de_seckey S (hd d)) r),
     ctt_eth_bls_deserialize_pubkey_compressed_unchecked = (\<lambda>r p. export_writes ecc_point [(p, 48)] (\<lambda>d. sp_de_pubkey_unchecked S (hd d)) r),
     ctt_eth_bls_deserialize_signature_compressed_unchecked = (\<lambda>r p. export_writes ecc_point [(p, 96)] (\<lambda>d. sp_de_signature_unchecked S (hd d)) r),
     ctt_eth_bls_deserialize_pubkey_compressed = (\<lambda>r p. export_writes ecc_point [(p, 48)] (\<lambda>d. sp_de_pubkey S (hd d)) r),
     ctt_eth_bls_deserialize_signature_compressed = (\<lambda>r p. export_writes ecc_point [(p, 96)] (\<lambda>d. sp_de_signature S (hd d)) r),
     ctt_eth_bls_sign = (\<lambda>r p q n. export_writes (\<lambda>_. True) [(p, 32), (q, n)] (\<lambda>d. ((), sp_sign S (hd d) (d ! 1))) r),
     ctt_eth_bls_verify = nim_verify C,
     ctt_eth_bls_fast_aggregate_verify = nim_fast_aggregate_verify C,
     ctt_eth_bls_aggregate_verify = nim_aggregate_verify C,
     ctt_eth_bls_batch_verify = nim_batch_verify C,
     ctt_eth_bls_batch_verify_parallel = nim_batch_verify_parallel C\<rparr>"

definition sized :: "('s \<Rightarrow> bool) \<Rightarrow> nat \<Rightarrow> (byte list \<Rightarrow> 's \<times> byte list) \<Rightarrow> bool" where
  "sized good n f \<longleftrightarrow> (\<forall>x. good (fst (f x)) \<longrightarrow> length (snd (f x)) = n)"

definition bls_spec_sizes :: "bls_spec \<Rightarrow> bool" where
  "bls_spec_sizes S \<longleftrightarrow> (\<forall>x. length (sp_derive S x) = 96) \<and> (\<forall>x y. length (sp_sign S x y) = 192) \<and>
     (\<forall>x. length (sp_ser_seckey S x) = 32) \<and> sized ecc_success 48 (sp_ser_pubkey S) \<and>
     sized ecc_success 96 (sp_ser_signature S) \<and> sized scalar_success 32 (sp_de_seckey S) \<and>
     sized ecc_point 96 (sp_de_pubkey_unchecked S) \<and> sized ecc_point 192 (sp_de_signature_unchecked S) \<and>
     sized ecc_point 96 (sp_de_pubkey S) \<and> sized ecc_point 192 (sp_de_signature S)"

lemma nim_bls_codec_contract: "bls_spec_sizes S \<Longrightarrow> bls_codec_contract (nim_bls C S) S"
  unfolding bls_codec_contract_def nim_bls_def bls_lib.simps
  by (intro conjI allI export_writes_writes) (simp_all add: bls_spec_sizes_def sized_def)

lemma nim_bls_key_contract: "bls_spec_sizes S \<Longrightarrow> bls_key_contract (nim_bls C S) S"
  unfolding bls_key_contract_def nim_bls_def bls_lib.simps
  by (intro conjI allI export_writes_writes export_check_read) (simp_all add: bls_spec_sizes_def)

section \<open>Keys and codecs\<close>

text \<open>C31: under the contract every codec wrapper returns the bytes or the error that the specification
  gives on the bytes it is handed; a deserialization accepts the point at infinity, a
  serialization does not, and the memory is left as it was.\<close>

theorem bls_codecs:
  assumes "bls_codec_contract L S" "mem_ok m" "load m sk 32 = Done a" "load m pk 96 = Done b" "load m sg 192 = Done c"
    "load m src48 48 = Done e" "load m src96 96 = Done f"
  shows "returns m (serialize_seckey L sk m) (sp_ser_seckey S a) \<and>
    returns m (serialize_pubkey_compressed L pk m) (dst_result ecc_success (sp_ser_pubkey S b)) \<and>
    returns m (serialize_signature_compressed L sg m) (dst_result ecc_success (sp_ser_signature S c)) \<and>
    returns m (deserialize_seckey L sk m) (dst_result scalar_success (sp_de_seckey S a)) \<and>
    returns m (deserialize_pubkey_compressed_unchecked L src48 m) (dst_result ecc_point (sp_de_pubkey_unchecked S e)) \<and>
    returns m (deserialize_signature_compressed_unchecked L src96 m) (dst_result ecc_point (sp_de_signature_unchecked S f)) \<and>
    returns m (deserialize_pubkey_compressed L src48 m) (dst_result ecc_point (sp_de_pubkey S e)) \<and>
    returns m (deserialize_signature_compressed L src96 m) (dst_result ecc_point (sp_de_signature S f))"
proof -
  note W = assms(1) [unfolded bls_codec_contract_def]
  note r = read_one [OF assms(3)] read_one [OF assms(4)] read_one [OF assms(5)] read_one [OF assms(6)] read_one [OF assms(7)]
  have "returns m (serialize_seckey L sk m) (sp_ser_seckey S a)"
    using dst_wrapper [OF W [THEN conjunct1, rule_format, of sk] zeroed_length assms(2) r(1)]
    by (auto simp: serialize_seckey_def dst_result_def intro: always_ok_returns)
  moreover note W' = W [THEN conjunct2]
  have "returns m (serialize_pubkey_compressed L pk m) (dst_result ecc_success (sp_ser_pubkey S b))"
    using dst_wrapper [OF W' [THEN conjunct1, rule_format, of pk] zeroed_length assms(2) r(2)]
    by (simp add: serialize_pubkey_compressed_def)
  moreover note W'' = W' [THEN conjunct2]
  have "returns m (serialize_signature_compressed L sg m) (dst_result ecc_success (sp_ser_signature S c))"
    using dst_wrapper [OF W'' [THEN conjunct1, rule_format, of sg] zeroed_length assms(2) r(3)]
    by (simp add: serialize_signature_compressed_def)
  moreover note W3 = W'' [THEN conjunct2]
  have "returns m (deserialize_seckey L sk m) (dst_result scalar_success (sp_de_seckey S a))"
    using dst_wrapper [OF W3 [THEN conjunct1, rule_format, of sk] uninit_length assms(2) r(1)]
    by (simp add: deserialize_seckey_def)
  moreover note W4 = W3 [THEN conjunct2]
  have "returns m (deserialize_pubkey_compressed_unchecked L src48 m) (dst_result ecc_point (sp_de_pubkey_unchecked S e))"
    using dst_wrapper [OF W4 [THEN conjunct1, rule_format, of src48] uninit_length assms(2) r(4)]
    by (simp add: deserialize_pubkey_compressed_unchecked_def)
  moreover note W5 = W4 [THEN conjunct2]
  have "returns m (deserialize_signature_compressed_unchecked L src96 m) (dst_result ecc_point (sp_de_signature_unchecked S f))"
    using dst_wrapper [OF W5 [THEN conjunct1, rule_format, of src96] uninit_length assms(2) r(5)]
    by (simp add: deserialize_signature_compressed_unchecked_def)
  moreover note W6 = W5 [THEN conjunct2]
  have "returns m (deserialize_pubkey_compressed L src48 m) (dst_result ecc_point (sp_de_pubkey S e))"
    using dst_wrapper [OF W6 [THEN conjunct1, rule_format, of src48] uninit_length assms(2) r(4)]
    by (simp add: deserialize_pubkey_compressed_def)
  moreover have "returns m (deserialize_signature_compressed L src96 m) (dst_result ecc_point (sp_de_signature S f))"
    using dst_wrapper [OF W6 [THEN conjunct2, rule_format, of src96] uninit_length assms(2) r(5)]
    by (simp add: deserialize_signature_compressed_def)
  ultimately show ?thesis by simp
qed

definition sample_bls_spec :: bls_spec where
  "sample_bls_spec = \<lparr>
     sp_derive = (\<lambda>sk. replicate 96 2),
     sp_pubkeys_equal = (=), sp_signatures_equal = (=),
     sp_valid_seckey = (\<lambda>sk. cttCodecScalar_Success),
     sp_valid_pubkey = (\<lambda>pk. cttCodecEcc_PointAtInfinity),
     sp_valid_signature = (\<lambda>sg. cttCodecEcc_Success),
     sp_ser_seckey = pad_take 32,
     sp_ser_pubkey = (\<lambda>pk. (cttCodecEcc_Success, pad_take 48 pk)),
     sp_ser_signature = (\<lambda>sg. (cttCodecEcc_PointNotOnCurve, [])),
     sp_de_seckey = (\<lambda>x. (cttCodecScalar_Success, pad_take 32 x)),
     sp_de_pubkey_unchecked = (\<lambda>x. (cttCodecEcc_PointAtInfinity, replicate 96 0)),
     sp_de_signature_unchecked = (\<lambda>x. (cttCodecEcc_Success, pad_take 192 x)),
     sp_de_pubkey = (\<lambda>x. (cttCodecEcc_PointNotInSubgroup, [])),
     sp_de_signature = (\<lambda>x. (cttCodecEcc_Success, pad_take 192 x)),
     sp_sign = (\<lambda>sk msg. pad_take 192 msg)\<rparr>"

lemma sample_bls_sizes: "bls_spec_sizes sample_bls_spec"
  by (simp add: bls_spec_sizes_def sample_bls_spec_def sized_def ecc_point_def)

definition sample_bls_core :: bls_core where
  "sample_bls_core = \<lparr>
     coreVerify = (\<lambda>pk msg sg. hd pk = hd sg),
     fastAggregateVerify = (\<lambda>pks msg sg. hd (hd pks) = hd sg),
     aggregateVerify = (\<lambda>pks msgs sg. length pks = length msgs),
     batchVerify = (\<lambda>pks msgs sgs rnd. length pks = length msgs)\<rparr>"

abbreviation (input) ones :: ptr where "ones \<equiv> Ptr 2 0"

theorem bls_codecs_witness:
  "returns sample_mem (serialize_seckey (nim_bls sample_bls_core sample_bls_spec) ones sample_mem) (replicate 32 1) \<and>
   returns sample_mem (deserialize_pubkey_compressed_unchecked (nim_bls sample_bls_core sample_bls_spec) ones sample_mem)
     (Ok (replicate 96 0)) \<and>
   returns sample_mem (deserialize_pubkey_compressed (nim_bls sample_bls_core sample_bls_spec) ones sample_mem)
     (Err cttCodecEcc_PointNotInSubgroup)"
  using bls_codecs [OF nim_bls_codec_contract [OF sample_bls_sizes, of sample_bls_core] sample_mem_ok
      sample_ones [of 32] sample_ones [of 96] sample_ones [of 192] sample_ones [of 48] sample_ones [of 96]]
  by (simp add: sample_bls_spec_def dst_result_def ecc_point_def)

lemma bls_sha256_fips:
  assumes "ctt_sha256_hash L = nim_sha256_hash" "mem_ok m" "slice_bytes m s = Done bs"
  shows "returns m (rust_sha256_hash L s clear_memory m) (fips_sha256 bs)"
proof -
  have w: "writes (\<lambda>_. True) (length (zeroed 32)) (\<lambda>r. nim_sha256_hash r (as_ptr s) (len s) clear_memory)
      [(as_ptr s, len s)] (\<lambda>d. ((), sha256_hash (hd d)))"
    unfolding nim_sha256_hash_def by (rule export_writes_writes) (simp add: sha256_hash_fips zeroed_def)
  have "read_bytes [(as_ptr s, len s)] m = Some [bs]"
    using assms(3) by (simp add: read_bytes_def slice_bytes_def)
  from with_dst_returns [OF w assms(2) this] show ?thesis
    by (auto simp: rust_sha256_hash_def assms(1) dst_result_def sha256_hash_fips intro: always_ok_returns)
qed

end
