(* ===== verification/BLS_Verify.thy ===== *)
theory BLS_Verify
  imports BLS_Calls
begin

text \<open>
  Signature verification end to end: the wrappers of \<^verbatim>\<open>constantine-ethereum-bls-sig\<close> over the Nim
  procedures. The messages of an aggregate or a batch are cloned, handed over as spans and dropped;
  the wrappers do not compare the lengths of their slices, so the number of elements that one of
  them announces decides how much of the others is read.
\<close>

lemma extends_read_elems:
  "mem_ok m \<Longrightarrow> extends m m' \<Longrightarrow> read_elems m sz p i k = Done xs \<Longrightarrow> read_elems m' sz p i k = Done xs"
  by (induction m sz p i k arbitrary: xs rule: read_elems.induct) (auto simp: obind_Done_iff extends_load)

lemma read_elems_take:
  "read_elems m sz p i k = Done xs \<Longrightarrow> n \<le> k \<Longrightarrow> read_elems m sz p i n = Done (take n xs)"
proof (induction m sz p i k arbitrary: xs n rule: read_elems.induct)
  case (2 m sz p i k)
  then show ?case by (cases n) (fastforce simp: obind_Done_iff)+
qed simp

section \<open>Cloned vectors\<close>

definition readable :: "'c mem \<Rightarrow> slice list \<Rightarrow> byte list list \<Rightarrow> bool" where
  "readable m = list_all2 (\<lambda>v bs. slice_bytes m v = Done bs)"

lemma readable_extends: "mem_ok m \<Longrightarrow> extends m m' \<Longrightarrow> readable m vs bss \<Longrightarrow> readable m' vs bss"
  unfolding readable_def by (erule list_all2_mono) (auto simp: slice_bytes_def extends_load)

lemma readable_spans: "readable m ws bss \<Longrightarrow> loads m (to_span ws) = Done bss"
  unfolding readable_def by (induction rule: list_all2_induct) (auto simp: to_span_def slice_bytes_def)

lemma loads_take: "loads m ins = Done xs \<Longrightarrow> loads m (take n ins) = Done (take n xs)"
proof (induction ins arbitrary: xs n)
  case (Cons i ins)
  then show ?case by (cases i; cases n) (auto simp: obind_Done_iff)
qed simp

lemma loads_length: "loads m ins = Done xs \<Longrightarrow> length xs = length ins"
proof (induction ins arbitrary: xs)
  case (Cons i ins)
  then show ?case by (cases i) (auto simp: obind_Done_iff)
qed simp

text \<open>Dropping vectors does not touch a block that none of them owns.\<close>

definition owns_above :: "nat \<Rightarrow> slice list \<Rightarrow> bool" where
  "owns_above k ws \<longleftrightarrow> (\<forall>w \<in> set ws. len w \<noteq> 0 \<longrightarrow> (\<exists>b \<ge> k. as_ptr w = Ptr b 0))"

lemma drop_vecs_without:
  "drop_vecs ws m = Done m' \<Longrightarrow> owns_above k ws \<Longrightarrow> c < k \<Longrightarrow> drop_vecs ws (without c m) = Done (without c m')"
proof (induction ws arbitrary: m)
  case (Cons w ws)
  show ?case
  proof (cases "len w = 0")
    case False
    then obtain b where b: "as_ptr w = Ptr b 0" "b \<noteq> c" using Cons.prems by (fastforce simp: owns_above_def)
    then obtain x where x: "blocks m b = Some x" using Cons.prems(1) False by (auto split: option.splits)
    have "without c (m\<lparr>blocks := (blocks m)(b := None)\<rparr>) = (without c m)\<lparr>blocks := (blocks (without c m))(b := None)\<rparr>"
      using b(2) by (simp add: without_def fun_upd_twist)
    moreover have "drop_vecs ws (without c (m\<lparr>blocks := (blocks m)(b := None)\<rparr>)) = Done (without c m')"
      using Cons b x False by (simp add: owns_above_def)
    moreover have "blocks (without c m) b = Some x" using b x by (simp add: without_def)
    ultimately show ?thesis using False b by simp
  qed (use Cons in \<open>simp add: owns_above_def\<close>)
qed simp

text \<open>The clones hold the bytes of the originals, and dropping them gives the memory back.\<close>

lemma clone_vecs_facts:
  "mem_ok m \<Longrightarrow> readable m vs bss \<Longrightarrow>
   \<exists>ws m' m''. clone_vecs vs m = Done (ws, m') \<and> extends m m' \<and> readable m' ws bss \<and>
     owns_above (fresh m) ws \<and> drop_vecs ws m' = Done m'' \<and> unchanged m m''"
proof (induction vs arbitrary: m bss)
  case Nil
  then show ?case by (simp add: readable_def owns_above_def extends_refl)
next
  case (Cons v vs)
  then obtain bs css where bss: "bss = bs # css" "slice_bytes m v = Done bs" "readable m vs css"
    by (auto simp: readable_def list_all2_Cons1)
  show ?case
  proof (cases "bs = []")
    case True
    obtain ws m' m'' where "clone_vecs vs m = Done (ws, m')" "extends m m'" "readable m' ws css"
      "owns_above (fresh m) ws" "drop_vecs ws m' = Done m''" "unchanged m m''"
      using Cons.IH [OF Cons.prems(1) bss(3)] by blast
    then show ?thesis
      using bss True by (intro exI [of _ "\<lparr>as_ptr = Dangling, len = 0\<rparr> # ws"])
        (simp add: readable_def slice_bytes_def owns_above_def)
  next
    case False
    obtain p m1 where a: "alloc (Bytes (map Some bs)) m = (p, m1)" by fastforce
    note e = extends_alloc [OF Cons.prems(1) a]
    have p: "p = Ptr (fresh m) 0" "fresh m1 = Suc (fresh m)"
      "blocks m1 = (blocks m)(fresh m \<mapsto> Bytes (map Some bs))" using a by (auto simp: alloc_def)
    have ok1: "mem_ok m1" using e by (simp add: extends_def)
    obtain ws m' m'' where r: "clone_vecs vs m1 = Done (ws, m')" "extends m1 m'" "readable m' ws css"
      "owns_above (fresh m1) ws" "drop_vecs ws m' = Done m''" "unchanged m1 m''"
      using Cons.IH [OF ok1 readable_extends [OF Cons.prems(1) e bss(3)]] by blast
    let ?w = "\<lparr>as_ptr = p, len = length bs\<rparr>"
    have "load m1 p (length bs) = Done bs"
      using a alloc_bytes_facts(2) [OF Cons.prems(1), of bs p m1] by (simp add: alloc_bytes_def)
    then have l: "slice_bytes m' ?w = Done bs"
      using extends_load [OF ok1 r(2)] by (simp add: slice_bytes_def)
    have "blocks m' (fresh m) \<noteq> None" using r(2) p by (simp add: extends_def)
    then have "free p m' = Done (without (fresh m) m')" using p by (auto simp: without_def)
    moreover have "drop_vecs ws (without (fresh m) m') = Done (without (fresh m) m'')"
      using drop_vecs_without [OF r(5,4)] p by simp
    moreover have "unchanged m (without (fresh m) m'')"
      using r(6) p Cons.prems(1) by (auto simp: unchanged_def without_def mem_ok_def)
    moreover have "owns_above (fresh m) (?w # ws)" using r(4) p by (auto simp: owns_above_def)
    ultimately show ?thesis
      using bss False a r(1,3) l extends_trans [OF e r(2)]
      by (intro exI [of _ "?w # ws"]) (simp add: alloc_bytes_def readable_def)
  qed
qed

section \<open>Calls with spans\<close>

text \<open>A call that reports a status and leaves the memory alone, given spans of the messages.\<close>

lemma with_spans_returns:
  assumes "mem_ok m" "readable m messages msgs"
    "\<And>spans m'. extends m m' \<Longrightarrow> loads m' spans = Done msgs \<Longrightarrow> call spans m' = Done (st, m')"
  shows "returns m (with_spans messages call m) (bls_result st)"
proof -
  obtain ws m' m'' where r: "clone_vecs messages m = Done (ws, m')" "extends m m'" "readable m' ws msgs"
      "drop_vecs ws m' = Done m''" "unchanged m m''"
    using clone_vecs_facts [OF assms(1,2)] by blast
  then show ?thesis
    using assms(3) [OF r(2) readable_spans [OF r(3)]] by (simp add: with_spans_def returns_def)
qed

lemma with_spans_UB:
  assumes "mem_ok m" "readable m messages msgs"
    "\<And>spans m'. extends m m' \<Longrightarrow> loads m' spans = Done msgs \<Longrightarrow> call spans m' = UB"
  shows "with_spans messages call m = UB"
proof -
  obtain ws m' where r: "clone_vecs messages m = Done (ws, m')" "extends m m'" "readable m' ws msgs"
    using clone_vecs_facts [OF assms(1,2)] by blast
  then show ?thesis
    using assms(3) [OF r(2) readable_spans [OF r(3)]] by (simp add: with_spans_def)
qed

section \<open>Single messages\<close>

definition bls_verify_spec :: "bls_core \<Rightarrow> byte list \<Rightarrow> byte list \<Rightarrow> byte list \<Rightarrow> ctt_eth_bls_status" where
  "bls_verify_spec C pk msg sg =
     (if isNeutral pk \<or> isNeutral sg then cttEthBls_PointAtInfinity else verified_status (coreVerify C pk msg sg))"

lemma nim_verify_eq:
  "load m p 96 = Done pk \<Longrightarrow> load m s 192 = Done sg \<Longrightarrow> load m q k = Done msg \<Longrightarrow>
   nim_verify C p q k s m = Done (bls_verify_spec C pk msg sg, m)"
  by (simp add: nim_verify_def bls_verify_spec_def)

text \<open>The interface of the Nim library as the wrappers see it.\<close>

lemmas nim_bls_simps [simp] = nim_bls_def [THEN arg_cong, of ctt_eth_bls_verify, simplified]
  nim_bls_def [THEN arg_cong, of ctt_eth_bls_fast_aggregate_verify, simplified]
  nim_bls_def [THEN arg_cong, of ctt_eth_bls_aggregate_verify, simplified]
  nim_bls_def [THEN arg_cong, of ctt_eth_bls_batch_verify, simplified]
  nim_bls_def [THEN arg_cong, of ctt_eth_bls_batch_verify_parallel, simplified]

text \<open>C26: \<^verbatim>\<open>verify\<close> and \<^verbatim>\<open>fast_aggregate_verify\<close> return \<^verbatim>\<open>Ok(true)\<close> exactly when no key and no signature
  is the point at infinity, the aggregation is not empty and the signature verifies; otherwise the
  error says which of these failed, and a signature that does not verify is an error too, so that
  \<^verbatim>\<open>Ok(false)\<close> is never returned. The copies of the arguments are gone afterwards.\<close>

theorem bls_verify_correct:
  assumes "mem_ok m" "length pk = 96" "length sg = 192" "slice_bytes m message = Done msg"
    "read_elems m 96 (as_ptr pubkeys) 0 (len pubkeys) = Done pks" "load m signature 192 = Done asg"
  shows "returns m (verify (nim_bls C S) pk message sg m) (bls_result (bls_verify_spec C pk msg sg)) \<and>
    returns m (fast_aggregate_verify (nim_bls C S) pubkeys message signature m)
      (bls_result (bls_fast_aggregate_spec C pks msg asg)) \<and>
    (bls_result (bls_verify_spec C pk msg sg) = Ok True \<longleftrightarrow>
       \<not> isNeutral pk \<and> \<not> isNeutral sg \<and> coreVerify C pk msg sg) \<and>
    (bls_result (bls_fast_aggregate_spec C pks msg asg) = Ok True \<longleftrightarrow>
       pks \<noteq> [] \<and> \<not> isNeutral asg \<and> (\<forall>x \<in> set pks. \<not> isNeutral x) \<and> fastAggregateVerify C pks msg asg) \<and>
    (\<forall>st. bls_result st \<noteq> Ok False)"
proof -
  have v: "returns m (verify (nim_bls C S) pk message sg m) (bls_result (bls_verify_spec C pk msg sg))"
    unfolding verify_def
  proof (rule with_value_returns [OF assms(1)])
    fix p m1 assume a1: "alloc_bytes pk m = (p, m1)"
    note e1 = alloc_bytes_extends [OF assms(1) a1]
    show "returns m1 (with_value sg (\<lambda>s m. obind (ctt_eth_bls_verify (nim_bls C S) p (as_ptr message) (len message) s m)
        (\<lambda>(status, m). Done (bls_result status, m))) m1) (bls_result (bls_verify_spec C pk msg sg))"
    proof (rule with_value_returns [OF e1(1)])
      fix q m2 assume a2: "alloc_bytes sg m1 = (q, m2)"
      note e2 = alloc_bytes_extends [OF e1(1) a2]
      have "load m2 p 96 = Done pk" "load m2 q 192 = Done sg"
        using extends_load [OF e1(1) e2(2) e1(3)] e2(3) assms(2,3) by simp_all
      moreover have "load m2 (as_ptr message) (len message) = Done msg"
        using extends_load [OF assms(1) extends_trans [OF e1(2) e2(2)]] assms(4) by (simp add: slice_bytes_def)
      ultimately show "returns m2 (obind (ctt_eth_bls_verify (nim_bls C S) p (as_ptr message) (len message) q m2)
          (\<lambda>(status, m). Done (bls_result status, m))) (bls_result (bls_verify_spec C pk msg sg))"
        using nim_verify_eq [of m2 p pk q sg "as_ptr message" "len message" msg C] e2(1) by (simp add: returns_def)
    qed
  qed
  have f: "returns m (fast_aggregate_verify (nim_bls C S) pubkeys message signature m)
      (bls_result (bls_fast_aggregate_spec C pks msg asg))"
    using nim_fast_aggregate_verify_eq [OF assms(5) assms(4) [unfolded slice_bytes_def] assms(6)] assms(1)
    by (simp add: fast_aggregate_verify_def returns_def)
  show ?thesis
    using v f by (auto simp: bls_result_def bls_verify_spec_def bls_fast_aggregate_spec_def verified_status_def)
qed

lemma sample_keys: "n \<le> 21 \<Longrightarrow> read_elems sample_mem 96 (Ptr 2 0) 0 n = Done (replicate n (replicate 96 1))"
proof -
  have l: "load sample_mem (Ptr 2 (i * 96)) 96 = Done (replicate 96 1)" if "i < 21" for i
    using that by (simp add: sample_mem_def load_def cells_load_def)
  have "i + n \<le> 21 \<Longrightarrow> read_elems sample_mem 96 (Ptr 2 0) i n = Done (replicate n (replicate 96 1))" for i
    by (induction n arbitrary: i) (simp_all add: l)
  then show "n \<le> 21 \<Longrightarrow> ?thesis" by simp
qed

lemma sample_signatures: "n \<le> 10 \<Longrightarrow> read_elems sample_mem 192 (Ptr 2 0) 0 n = Done (replicate n (replicate 192 1))"
proof -
  have l: "load sample_mem (Ptr 2 (i * 192)) 192 = Done (replicate 192 1)" if "i < 10" for i
    using that by (simp add: sample_mem_def load_def cells_load_def)
  have "i + n \<le> 10 \<Longrightarrow> read_elems sample_mem 192 (Ptr 2 0) i n = Done (replicate n (replicate 192 1))" for i
    by (induction n arbitrary: i) (simp_all add: l)
  then show "n \<le> 10 \<Longrightarrow> ?thesis" by simp
qed

definition sample_message :: slice where
  "sample_message = \<lparr>as_ptr = Ptr 2 7, len = 2\<rparr>"

lemma sample_message_bytes: "slice_bytes sample_mem sample_message = Done [1, 1]"
  by (simp add: sample_message_def sample_mem_def slice_bytes_def load_def cells_load_def numeral_2_eq_2)

lemma sample_messages: "readable sample_mem (replicate n sample_message) (replicate n [1, 1])"
  by (induction n) (simp_all add: readable_def sample_message_bytes)

theorem bls_verify_correct_witness:
  "returns sample_mem (verify (nim_bls sample_bls_core sample_bls_spec) (replicate 96 1) sample_message (replicate 192 1) sample_mem)
     (Ok True) \<and>
   returns sample_mem (verify (nim_bls sample_bls_core sample_bls_spec) (replicate 96 1) sample_message (replicate 192 0) sample_mem)
     (Err cttEthBls_PointAtInfinity) \<and>
   returns sample_mem (fast_aggregate_verify (nim_bls sample_bls_core sample_bls_spec) \<lparr>as_ptr = Ptr 2 0, len = 2\<rparr> sample_message (Ptr 2 0)
     sample_mem) (Ok True)"
proof -
  note T = bls_verify_correct [of sample_mem "replicate 96 1" _ sample_message "[1, 1]" "\<lparr>as_ptr = Ptr 2 0, len = 2\<rparr>" _
    "Ptr 2 0" "replicate 192 1" sample_bls_core sample_bls_spec, OF sample_mem_ok _ _ sample_message_bytes, simplified, OF _ sample_keys sample_ones]
  show ?thesis
    using T [of "replicate 192 1"] T [of "replicate 192 0"]
    by (simp add: bls_verify_spec_def bls_fast_aggregate_spec_def isNeutral_def sample_bls_core_def bls_result_def verified_status_def)
qed

section \<open>Aggregates and batches\<close>

lemma nim_aggregate_on_spans:
  assumes "mem_ok m" "read_elems m 96 p 0 n = Done pks" "load m sig 192 = Done sg"
    "extends m m'" "loads m' spans = Done msgs" "n \<le> length msgs"
  shows "nim_aggregate_verify C p spans n sig m' = Done (bls_aggregate_spec C pks (take n msgs) sg, m')"
proof (rule nim_aggregate_verify_eq)
  show "read_elems m' 96 p 0 n = Done pks" by (rule extends_read_elems [OF assms(1,4,2)])
  show "load m' sig 192 = Done sg" by (rule extends_load [OF assms(1,4,3)])
  show "read_messages m' spans n = Done (take n msgs)"
    using loads_take [OF assms(5)] loads_length [OF assms(5)] assms(6) by (simp add: read_messages_def)
qed

lemma nim_batch_on_spans:
  assumes "mem_ok m" "read_elems m 96 p 0 n = Done pks" "read_elems m 192 q 0 n = Done sgs" "load m r 32 = Done rnd"
    "extends m m'" "loads m' spans = Done msgs" "n = length msgs"
  shows "nim_batch_verify C p spans q n r m' = Done (bls_batch_spec C pks msgs sgs rnd, m')"
proof (rule nim_batch_verify_eq)
  show "read_elems m' 96 p 0 n = Done pks" by (rule extends_read_elems [OF assms(1,5,2)])
  show "read_elems m' 192 q 0 n = Done sgs" by (rule extends_read_elems [OF assms(1,5,3)])
  show "load m' r 32 = Done rnd" by (rule extends_load [OF assms(1,5,4)])
  show "read_messages m' spans n = Done msgs"
    using assms(6,7) loads_length [OF assms(6)] by (simp add: read_messages_def)
qed

lemma readable_length: "readable m vs bss \<Longrightarrow> length vs = length bss"
  by (simp add: readable_def list_all2_lengthD)

text \<open>C27: with at least as many messages as keys, \<^verbatim>\<open>aggregate_verify\<close> gives the verdict on the keys and
  the first messages: further messages are not looked at, although the Nim procedure on open
  arrays reports a mismatch of the lengths. The clones of the messages are freed.\<close>

theorem bls_aggregate_correct:
  assumes "mem_ok m" "read_elems m 96 (as_ptr pubkeys) 0 (len pubkeys) = Done pks" "readable m messages msgs"
    "load m sig 192 = Done sg" "len pubkeys \<le> length messages"
  shows "returns m (aggregate_verify (nim_bls C S) pubkeys messages sig m)
    (bls_result (bls_aggregate_spec C pks (take (len pubkeys) msgs) sg))"
  unfolding aggregate_verify_def
proof (rule with_spans_returns [OF assms(1,3)])
  fix spans and m' assume "extends m m'" "loads m' spans = Done msgs"
  then show "ctt_eth_bls_aggregate_verify (nim_bls C S) (as_ptr pubkeys) spans (len pubkeys) sig m' =
      Done (bls_aggregate_spec C pks (take (len pubkeys) msgs) sg, m')"
    using nim_aggregate_on_spans [OF assms(1,2,4)] assms(5) readable_length [OF assms(3)] by simp
qed

theorem bls_aggregate_correct_witness:
  "returns sample_mem (aggregate_verify (nim_bls sample_bls_core sample_bls_spec) \<lparr>as_ptr = Ptr 2 0, len = 2\<rparr>
     (replicate 5 sample_message) (Ptr 2 0) sample_mem) (Ok True)"
  using bls_aggregate_correct [of sample_mem "\<lparr>as_ptr = Ptr 2 0, len = 2\<rparr>" "replicate 2 (replicate 96 1)"
      "replicate 5 sample_message" "replicate 5 [1, 1]" "Ptr 2 0" "replicate 192 1" sample_bls_core sample_bls_spec,
      OF sample_mem_ok _ sample_messages sample_ones] sample_keys [of 2]
  by (simp add: bls_aggregate_spec_def isNeutral_def sample_bls_core_def bls_result_def verified_status_def)



text \<open>A vector of keys that ends with its block.\<close>

definition fills_block :: "'c mem \<Rightarrow> slice \<Rightarrow> bool" where
  "fills_block m s \<longleftrightarrow> (\<exists>b i cs. as_ptr s = Ptr b i \<and> blocks m b = Some (Bytes cs) \<and> length cs = i + len s * 96)"

lemma load_past_block:
  assumes "mem_ok m" "extends m m'" "fills_block m s"
  shows "load m' (padd (as_ptr s) (len s * 96)) 96 = UB"
proof -
  obtain b i cs where s: "as_ptr s = Ptr b i" "blocks m b = Some (Bytes cs)" "length cs = i + len s * 96"
    using assms(3) by (auto simp: fills_block_def)
  then have "blocks m' b = Some (Bytes cs)"
    using assms(2) mem_ok_fresh [OF assms(1), of b] by (simp add: extends_def)
  then show ?thesis using s by (simp add: load_def cells_load_def)
qed

text \<open>C29: safe code reaches undefined behaviour by handing over slices of different lengths: with fewer
  messages than keys \<^verbatim>\<open>aggregate_verify\<close> reads past the array of spans, and with fewer keys than
  messages the batch calls read past the keys.\<close>

theorem bls_overread:
  assumes "mem_ok m" "read_elems m 96 (as_ptr pubkeys) 0 (len pubkeys) = Done pks" "\<forall>pk \<in> set pks. \<not> isNeutral pk"
    "readable m messages msgs" "load m sig 192 = Done sg" "\<not> isNeutral sg" "fills_block m pubkeys"
  shows "(length messages < len pubkeys \<longrightarrow> aggregate_verify (nim_bls C S) pubkeys messages sig m = UB) \<and>
    (len pubkeys < length messages \<longrightarrow> batch_verify (nim_bls C S) pubkeys messages signatures rnd m = UB \<and>
      batch_verify_parallel (nim_bls C S) tp pubkeys messages signatures rnd m = UB)"
proof -
  have "nim_aggregate_verify C (as_ptr pubkeys) spans (len pubkeys) sig m' = UB"
    if "length messages < len pubkeys" "extends m m'" "loads m' spans = Done msgs" for spans m'
    using nim_aggregate_verify_overrun [OF extends_read_elems [OF assms(1) that(2) assms(2)]
        extends_load [OF assms(1) that(2) assms(5)] assms(6,3)]
      that(1) loads_length [OF that(3)] readable_length [OF assms(4)] by simp
  moreover have "nim_batch_verify C (as_ptr pubkeys) spans q (length messages) rnd m' = UB"
    if "len pubkeys < length messages" "extends m m'" for spans q m'
    using nim_batch_verify_overrun [OF extends_read_elems [OF assms(1) that(2) assms(2)] assms(3)
        load_past_block [OF assms(1) that(2) assms(7)] that(1)] by simp
  ultimately show ?thesis
    unfolding aggregate_verify_def batch_verify_def batch_verify_parallel_def
    by (intro conjI impI with_spans_UB [OF assms(1,4)]) (simp_all add: nim_batch_verify_parallel_def)
qed

definition one_key :: "unit mem" where
  "one_key = \<lparr>blocks = [0 \<mapsto> Bytes (replicate 96 (Some 1)), 1 \<mapsto> Bytes (replicate 192 (Some 1))], fresh = 2\<rparr>"

theorem bls_overread_witness:
  "aggregate_verify (nim_bls sample_bls_core sample_bls_spec) \<lparr>as_ptr = Ptr 0 0, len = 1\<rparr> [] (Ptr 1 0) one_key = UB \<and>
   batch_verify (nim_bls sample_bls_core sample_bls_spec) \<lparr>as_ptr = Ptr 0 0, len = 1\<rparr>
     (replicate 2 \<lparr>as_ptr = Dangling, len = 0\<rparr>) \<lparr>as_ptr = Ptr 1 0, len = 1\<rparr> (Ptr 1 0) one_key = UB"
proof -
  let ?k = "\<lparr>as_ptr = Ptr 0 0, len = 1\<rparr>"
  have m: "mem_ok one_key" "read_elems one_key 96 (as_ptr ?k) 0 (len ?k) = Done [replicate 96 1]"
    "load one_key (Ptr 1 0) 192 = Done (replicate 192 1)" "fills_block one_key ?k"
    by (simp_all add: one_key_def mem_ok_def load_def cells_load_def fills_block_def)
  have e: "readable one_key (replicate n \<lparr>as_ptr = Dangling, len = 0\<rparr>) (replicate n [])" for n
    by (induction n) (simp_all add: readable_def slice_bytes_def)
  note T = bls_overread [of one_key ?k "[replicate 96 1]" _ _ "Ptr 1 0" "replicate 192 1"
      sample_bls_core sample_bls_spec "\<lparr>as_ptr = Ptr 1 0, len = 1\<rparr>" "Ptr 1 0", OF m(1,2) _ _ m(3) _ m(4)]
  show ?thesis
    using T [OF _ e [of 0]] T [OF _ e [of 2]] by (simp add: isNeutral_def)
qed

section \<open>Keys\<close>

text \<open>C30: under the contract of the key functions, deriving a key, signing a message and comparing keys or
  signatures return what the specification gives on the bytes they are handed, and a validation
  is \<^verbatim>\<open>Ok\<close> exactly on the success status; the point at infinity is not a valid key.\<close>

theorem bls_keys:
  assumes "bls_key_contract L S" "mem_ok m" "length sk = 32" "length pk1 = 96" "length pk2 = 96"
    "length sg1 = 192" "length sg2 = 192" "slice_bytes m message = Done msg"
    "load m p32 32 = Done a" "load m p96 96 = Done b" "load m p192 192 = Done c"
  shows "returns m (derive_pubkey L sk m) (sp_derive S sk) \<and>
    returns m (sign L sk message m) (sp_sign S sk msg) \<and>
    returns m (pubkeys_are_equal L pk1 pk2 m) (sp_pubkeys_equal S pk1 pk2) \<and>
    returns m (signatures_are_equal L sg1 sg2 m) (sp_signatures_equal S sg1 sg2) \<and>
    returns m (validate_seckey L p32 m)
      (if sp_valid_seckey S a = cttCodecScalar_Success then Ok () else Err (sp_valid_seckey S a)) \<and>
    returns m (validate_pubkey L p96 m)
      (if sp_valid_pubkey S b = cttCodecEcc_Success then Ok () else Err (sp_valid_pubkey S b)) \<and>
    returns m (validate_signature L p192 m)
      (if sp_valid_signature S c = cttCodecEcc_Success then Ok () else Err (sp_valid_signature S c))"
proof -
  note W = assms(1) [unfolded bls_key_contract_def]
  have "returns m (derive_pubkey L sk m) (sp_derive S sk)"
    unfolding derive_pubkey_def
    by (rule with_value_read [OF assms(2,3)]) (use always_ok_dst W read_one in fastforce)
  moreover have "returns m (sign L sk message m) (sp_sign S sk msg)"
    unfolding sign_def
  proof (rule with_value_read [OF assms(2,3)])
    fix p m1 assume m1: "mem_ok m1" "extends m m1" "load m1 p 32 = Done sk"
    have "load m1 (as_ptr message) (len message) = Done msg"
      using extends_load [OF assms(2) m1(2)] assms(8) by (simp add: slice_bytes_def)
    from read_two [OF m1(3) this] show "returns m1 (always_ok (with_dst (uninit 192)
        (\<lambda>result. ctt_eth_bls_sign L result p (as_ptr message) (len message)) (\<lambda>_. True) m1)) (sp_sign S sk msg)"
      using always_ok_dst [OF W [THEN conjunct2, THEN conjunct1, rule_format] m1(1)] by fastforce
  qed
  moreover have "returns m (pubkeys_are_equal L pk1 pk2 m) (sp_pubkeys_equal S pk1 pk2)"
    using compare_returns [OF W [THEN conjunct2, THEN conjunct2, THEN conjunct1, rule_format] assms(2,4,5)]
    by (simp add: pubkeys_are_equal_def)
  moreover have "returns m (signatures_are_equal L sg1 sg2 m) (sp_signatures_equal S sg1 sg2)"
    using compare_returns [OF W [THEN conjunct2, THEN conjunct2, THEN conjunct2, THEN conjunct1, rule_format] assms(2,6,7)]
    by (simp add: signatures_are_equal_def)
  moreover note r = read_one [OF assms(9)] read_one [OF assms(10)] read_one [OF assms(11)]
  have v: "returns m (ctt_eth_bls_validate_seckey L p32 m) (sp_valid_seckey S a)"
    "returns m (ctt_eth_bls_validate_pubkey L p96 m) (sp_valid_pubkey S b)"
    "returns m (ctt_eth_bls_validate_signature L p192 m) (sp_valid_signature S c)"
    using W r assms(2) by (auto dest!: checks_returns)
  note unit_result_returns [OF v(1), of "\<lambda>st. st = cttCodecScalar_Success", folded validate_seckey_def]
    unit_result_returns [OF v(2), of ecc_success, folded validate_pubkey_def]
    unit_result_returns [OF v(3), of ecc_success, folded validate_signature_def]
  ultimately show ?thesis by (simp only: simp_thms)
qed

theorem bls_keys_witness:
  "returns sample_mem (derive_pubkey (nim_bls sample_bls_core sample_bls_spec) (replicate 32 5) sample_mem) (replicate 96 2) \<and>
   returns sample_mem (sign (nim_bls sample_bls_core sample_bls_spec) (replicate 32 5) sample_message sample_mem)
     (pad_take 192 [1, 1]) \<and>
   returns sample_mem (pubkeys_are_equal (nim_bls sample_bls_core sample_bls_spec) (replicate 96 3) (replicate 96 4) sample_mem)
     False \<and>
   returns sample_mem (validate_pubkey (nim_bls sample_bls_core sample_bls_spec) (Ptr 2 0) sample_mem)
     (Err cttCodecEcc_PointAtInfinity)"
  using bls_keys [OF nim_bls_key_contract [OF sample_bls_sizes, of sample_bls_core] sample_mem_ok, of "replicate 32 5"
      "replicate 96 3" "replicate 96 4" "replicate 192 3" "replicate 192 3" sample_message "[1, 1]"
      "Ptr 2 0" "replicate 32 1" "Ptr 2 0" "replicate 96 1" "Ptr 2 0" "replicate 192 1"]
    sample_ones [of 32] sample_ones [of 96] sample_ones [of 192] sample_message_bytes
  by (simp add: sample_bls_spec_def replicate_eq_replicate)

end
