(* ===== verification/Rust_ZAL.thy ===== *)
theory Rust_ZAL
  imports FFI_Locals Rust_Core
begin

text \<open>
  The crate \<^verbatim>\<open>constantine-halo2-zal\<close> (\<^verbatim>\<open>src/lib.rs\<close>): an engine for multi-scalar multiplications on
  BN254, which owns a threadpool and hands it to
  \<^verbatim>\<open>ctt_bn254_snarks_g1_prj_multi_scalar_mul_fr_coefs_vartime_parallel\<close>. A coefficient has 32
  bytes, an affine point 64 and a projective one 96; slices count elements.
\<close>

section \<open>The engine\<close>

record CttEngine =
  engine_threadpool :: Threadpool

definition CttEngine_new :: "nat \<Rightarrow> pool_state \<Rightarrow> (CttEngine \<times> pool_state) outcome" where
  "CttEngine_new num_threads s =
     obind (Threadpool_new num_threads s) (\<lambda>(tp, s). Done (\<lparr>engine_threadpool = tp\<rparr>, s))"

text \<open>The engine has no \<^verbatim>\<open>Drop\<close> of its own: dropping it drops its threadpool.\<close>

definition CttEngine_drop :: "CttEngine \<Rightarrow> pool_state \<Rightarrow> pool_state outcome" where
  "CttEngine_drop self s = Threadpool_drop (engine_threadpool self) s"

text \<open>The library function: the threadpool, the result, the coefficients, the points, their number.\<close>

type_synonym 'c msm_lib = "nat \<Rightarrow> ptr \<Rightarrow> ptr \<Rightarrow> ptr \<Rightarrow> nat \<Rightarrow> ('c, unit) call"

text \<open>
  \<^verbatim>\<open>msm\<close>: \<^verbatim>\<open>assert_eq!\<close> on the lengths, then the call, then the local is reinterpreted as a point
  without a test that it has been written.
\<close>

definition msm :: "'c msm_lib \<Rightarrow> CttEngine \<Rightarrow> slice \<Rightarrow> slice \<Rightarrow> 'c mem \<Rightarrow> (byte list \<times> 'c mem) outcome" where
  "msm L self coeffs bases m =
     (if len coeffs \<noteq> len bases then Panic
      else always_ok (with_dst (uninit 96)
        (\<lambda>result. L (get_private_context (engine_threadpool self)) result (as_ptr coeffs) (as_ptr bases) (len bases))
        (\<lambda>_. True) m))"

text \<open>Descriptors borrow the slice they are made from.\<close>

record CttMsmCoeffsDesc =
  raw_coeffs :: slice

record CttMsmBaseDesc =
  raw_base :: slice

definition get_coeffs_descriptor :: "CttEngine \<Rightarrow> slice \<Rightarrow> CttMsmCoeffsDesc" where
  "get_coeffs_descriptor self coeffs = \<lparr>raw_coeffs = coeffs\<rparr>"

definition get_base_descriptor :: "CttEngine \<Rightarrow> slice \<Rightarrow> CttMsmBaseDesc" where
  "get_base_descriptor self base = \<lparr>raw_base = base\<rparr>"

definition msm_with_cached_scalars where
  "msm_with_cached_scalars L self coeffs base = msm L self (raw_coeffs coeffs) base"

definition msm_with_cached_base where
  "msm_with_cached_base L self coeffs base = msm L self coeffs (raw_base base)"

definition msm_with_cached_inputs where
  "msm_with_cached_inputs L self coeffs base = msm L self (raw_coeffs coeffs) (raw_base base)"

lemmas msm_cached_defs = msm_with_cached_scalars_def msm_with_cached_base_def msm_with_cached_inputs_def
  get_coeffs_descriptor_def get_base_descriptor_def

section \<open>What it computes\<close>

text \<open>The contract of the library function holds for a threadpool that is alive.\<close>

definition msm_contract :: "pool_state \<Rightarrow> 'c msm_lib \<Rightarrow> (byte list \<Rightarrow> byte list \<Rightarrow> byte list) \<Rightarrow> bool" where
  "msm_contract s L spec \<longleftrightarrow>
     (\<forall>tp p q n. pools s tp \<noteq> None \<longrightarrow>
        writes (\<lambda>_. True) 96 (\<lambda>r. L tp r p q n) [(p, n * 32), (q, n * 64)] (\<lambda>d. ((), spec (hd d) (d ! 1))))"

lemma CttEngine_new_live:
  "CttEngine_new n s = Done (e, s') \<Longrightarrow> pools s' (get_private_context (engine_threadpool e)) \<noteq> None"
  by (auto simp: CttEngine_new_def pool_defs get_private_context_def obind_Done_iff Let_def split: if_splits)

lemma CttEngine_new_drop:
  "CttEngine_new n s = Done (e, s') \<Longrightarrow> \<exists>s''. CttEngine_drop e s' = Done s'' \<and> pools s'' = (pools s)(next_pool s := None)"
  by (auto simp: CttEngine_new_def CttEngine_drop_def pool_defs obind_Done_iff Let_def split: if_splits)

text \<open>C32: an engine owns a live threadpool, and with it \<^verbatim>\<open>msm\<close> panics on slices of different lengths and
  otherwise returns the multi-scalar product of the whole slices, never an uninitialised point;
  cached coefficients or points change nothing, and dropping the engine frees its threadpool.\<close>

theorem zal_msm:
  assumes "CttEngine_new n s = Done (e, s')" "msm_contract s' L spec" "mem_ok m"
    "load m (as_ptr coeffs) (len coeffs * 32) = Done a" "load m (as_ptr bases) (len bases * 64) = Done b"
  shows "(if len coeffs = len bases then returns m (msm L e coeffs bases m) (spec a b)
      else msm L e coeffs bases m = Panic) \<and>
    msm_with_cached_scalars L e (get_coeffs_descriptor e coeffs) bases m = msm L e coeffs bases m \<and>
    msm_with_cached_base L e coeffs (get_base_descriptor e bases) m = msm L e coeffs bases m \<and>
    msm_with_cached_inputs L e (get_coeffs_descriptor e coeffs) (get_base_descriptor e bases) m = msm L e coeffs bases m \<and>
    (\<exists>s''. CttEngine_drop e s' = Done s'' \<and> pools s'' = (pools s)(next_pool s := None))"
proof -
  have "returns m (msm L e coeffs bases m) (spec a b)" if l: "len coeffs = len bases"
  proof -
    have "writes (\<lambda>_. True) 96
        (\<lambda>r. L (get_private_context (engine_threadpool e)) r (as_ptr coeffs) (as_ptr bases) (len bases))
        [(as_ptr coeffs, len bases * 32), (as_ptr bases, len bases * 64)] (\<lambda>d. ((), spec (hd d) (d ! 1)))"
      using assms(2) CttEngine_new_live [OF assms(1)] by (simp add: msm_contract_def)
    from always_ok_dst [OF this assms(3) read_two] show ?thesis
      using assms(4,5) l by (simp add: msm_def)
  qed
  then show ?thesis
    using CttEngine_new_drop [OF assms(1)] by (simp add: msm_cached_defs msm_def)
qed

definition sample_msm :: "unit msm_lib" where
  "sample_msm tp r p q n =
     export_writes (\<lambda>_. True) [(p, n * 32), (q, n * 64)] (\<lambda>d. ((), take 96 (hd d @ d ! 1 @ replicate 96 0))) r"

definition one_term :: "unit mem" where
  "one_term = \<lparr>blocks = [0 \<mapsto> Bytes (replicate 32 (Some 1)), 1 \<mapsto> Bytes (replicate 64 (Some 2))], fresh = 2\<rparr>"

abbreviation (input) one_coeff :: slice where "one_coeff \<equiv> \<lparr>as_ptr = Ptr 0 0, len = 1\<rparr>"
abbreviation (input) one_base :: slice where "one_base \<equiv> \<lparr>as_ptr = Ptr 1 0, len = 1\<rparr>"

theorem zal_msm_witness:
  "\<exists>e s'. CttEngine_new 2 pool_init = Done (e, s') \<and>
     returns one_term (msm sample_msm e one_coeff one_base one_term) (replicate 32 1 @ replicate 64 2) \<and>
     msm sample_msm e one_coeff \<lparr>as_ptr = Dangling, len = 0\<rparr> one_term = Panic"
proof -
  obtain e s' where e: "CttEngine_new 2 pool_init = Done (e, s')"
    by (simp add: CttEngine_new_def pool_defs c_int_max_def Let_def)
  have c: "msm_contract s' sample_msm (\<lambda>a b. take 96 (a @ b @ replicate 96 0))"
    unfolding msm_contract_def sample_msm_def by (intro allI impI export_writes_writes) simp
  have m: "mem_ok one_term" "load one_term (Ptr 0 0) 32 = Done (replicate 32 1)"
    "load one_term (Ptr 1 0) 64 = Done (replicate 64 2)"
    by (simp_all add: one_term_def mem_ok_def load_def cells_load_def)
  note T = zal_msm [OF e c m(1)]
  show ?thesis
    using T [of one_coeff "replicate 32 1" one_base "replicate 64 2"]
      T [of one_coeff "replicate 32 1" "\<lparr>as_ptr = Dangling, len = 0\<rparr>" "[]"] m e by simp
qed

end
