(* ===== verification/Rust_Build.thy ===== *)
theory Rust_Build
  imports Prelude
begin

text \<open>
  The build script of \<^verbatim>\<open>constantine-sys\<close> (\<^verbatim>\<open>build.rs\<close>) on Unix: it runs \<^verbatim>\<open>nimble make_lib_rust\<close> in the
  root of the repository and prints directives for cargo. The environment and the outcome of the
  command are parameters.
\<close>

section \<open>Paths\<close>

text \<open>The pieces of a path between its slashes; empty pieces and dots are no components, except a dot
  at the start of a relative path.\<close>

fun pieces :: "string \<Rightarrow> string list" where
  "pieces [] = [[]]"
| "pieces (c # cs) = (if c = CHR ''/'' then [] # pieces cs
     else case pieces cs of p # ps \<Rightarrow> (c # p) # ps | [] \<Rightarrow> [[c]])"

fun join_pieces :: "string list \<Rightarrow> string" where
  "join_pieces [] = []"
| "join_pieces [p] = p"
| "join_pieces (p # q # ps) = p @ ''/'' @ join_pieces (q # ps)"

definition trim_pieces :: "string list \<Rightarrow> string list" where
  "trim_pieces ps = rev (dropWhile (\<lambda>p. p = [] \<or> p = ''.'') (rev ps))"

text \<open>\<^verbatim>\<open>Path::parent\<close> of an absolute path; \<^verbatim>\<open>Path::join\<close> with a relative name.\<close>

definition parent :: "string \<Rightarrow> string option" where
  "parent path =
     (case trim_pieces (tl (pieces path)) of
        [] \<Rightarrow> None
      | p # ps \<Rightarrow> Some (''/'' @ join_pieces (trim_pieces (butlast (p # ps)))))"

definition join_path :: "string \<Rightarrow> string \<Rightarrow> string" where
  "join_path path name = (if path = [] \<or> last path = CHR ''/'' then path @ name else path @ ''/'' @ name)"

section \<open>The script\<close>

record command =
  program :: string
  cmd_env :: "(string \<times> string) list"
  cmd_args :: "string list"
  current_dir :: string

datatype spawned = Exit_success | Exit_failure | Spawn_not_found | Spawn_error

text \<open>What the script prints and how it ends. The package directory that cargo gives is absolute.\<close>

definition build_main :: "(string \<Rightarrow> string option) \<Rightarrow> (command \<Rightarrow> spawned) \<Rightarrow> string list \<times> unit outcome" where
  "build_main var spawn =
     (case var ''OUT_DIR'' of None \<Rightarrow> ([], Panic) | Some out_dir \<Rightarrow>
     (case var ''CARGO_MANIFEST_DIR'' of None \<Rightarrow> ([], Panic) | Some cargo_dir \<Rightarrow>
     (case Option.bind (parent cargo_dir) parent of None \<Rightarrow> ([], Panic) | Some root_dir \<Rightarrow>
       let building = [''Building Constantine library ...''];
           cmd = \<lparr>program = ''nimble'', cmd_env = [(''CC'', ''clang'')], cmd_args = [''make_lib_rust''],
             current_dir = root_dir\<rparr>
       in case spawn cmd of
            Spawn_not_found \<Rightarrow> (building, Panic)
          | Spawn_error \<Rightarrow> (building, Panic)
          | Exit_failure \<Rightarrow> (building, Panic)
          | Exit_success \<Rightarrow>
              (building @ [''cargo:rustc-link-search=native='' @ out_dir,
                 ''cargo:rustc-link-lib=static=constantine'',
                 ''cargo:rerun-if-changed=build.rs'',
                 ''cargo:rerun-if-changed='' @ join_path root_dir ''constantine'',
                 ''cargo:rerun-if-changed='' @ join_path root_dir ''bindings'',
                 ''cargo:rerun-if-changed='' @ join_path root_dir ''include'',
                 ''cargo:rerun-if-changed='' @ join_path root_dir ''constantine.nimble''], Done ()))))"

lemma pieces_not_Nil [simp]: "pieces cs \<noteq> []"
  by (induction cs) (auto split: list.splits)

lemma pieces_append_slash: "pieces (xs @ ''/'' @ ys) = pieces xs @ pieces ys"
  by (induction xs) (auto split: list.splits)

lemma pieces_plain: "CHR ''/'' \<notin> set xs \<Longrightarrow> pieces xs = [xs]"
  by (induction xs) auto

lemma join_pieces_pieces: "join_pieces (pieces cs) = cs"
proof (induction cs)
  case (Cons c cs)
  then show ?case by (cases "pieces cs" rule: join_pieces.cases) auto
qed simp

lemma join_pieces_append:
  "ps \<noteq> [] \<Longrightarrow> qs \<noteq> [] \<Longrightarrow> join_pieces (ps @ qs) = join_pieces ps @ ''/'' @ join_pieces qs"
  by (induction ps rule: join_pieces.induct) (auto simp: neq_Nil_conv)

text \<open>A component: a name without a slash, not empty and not a dot.\<close>

definition component :: "string \<Rightarrow> bool" where
  "component x \<longleftrightarrow> CHR ''/'' \<notin> set x \<and> x \<noteq> [] \<and> x \<noteq> ''.''"

lemma trim_component: "component x \<Longrightarrow> trim_pieces (ps @ [x]) = ps @ [x]"
  by (simp add: trim_pieces_def component_def)

lemma parent_append:
  assumes "component x" "component y" "list_all (\<lambda>p. CHR ''/'' \<notin> set p) ps"
  shows "parent (''/'' @ join_pieces (ps @ [x, y])) = Some (''/'' @ join_pieces (ps @ [x]))"
proof -
  have pj: "pieces (join_pieces qs) = qs" if "qs \<noteq> []" "list_all (\<lambda>p. CHR ''/'' \<notin> set p) qs" for qs
    using that
  proof (induction qs rule: join_pieces.induct)
    case (3 p q qs)
    then show ?case using pieces_append_slash [of p "join_pieces (q # qs)"] by (simp add: pieces_plain)
  qed (simp_all add: pieces_plain)
  have "pieces (join_pieces (ps @ [x, y])) = ps @ [x, y]"
    using assms by (intro pj) (simp_all add: component_def)
  then have "tl (pieces (''/'' @ join_pieces (ps @ [x, y]))) = (ps @ [x]) @ [y]" by simp
  then have t: "trim_pieces (tl (pieces (''/'' @ join_pieces (ps @ [x, y])))) = (ps @ [x]) @ [y]"
    using trim_component [OF assms(2), of "ps @ [x]"] by simp
  have b: "butlast ((ps @ [x]) @ [y]) = ps @ [x]" by (simp only: butlast_snoc)
  show ?thesis
    unfolding parent_def t
    using trim_component [OF assms(1), of ps] b by (cases "(ps @ [x]) @ [y]") simp_all
qed

text \<open>
  From a checkout at \<open>root\<close> the script runs nimble there; it finishes exactly when both variables are
  set and the command succeeds, and then watches the sources of the checkout.
\<close>

lemma build_main_checkout:
  assumes "var ''OUT_DIR'' = Some out" "list_all (\<lambda>p. CHR ''/'' \<notin> set p) ps" "component x"
    "var ''CARGO_MANIFEST_DIR'' = Some (''/'' @ join_pieces (ps @ [x, ''constantine-rust'', ''constantine-sys'']))"
    "\<And>dir. spawn \<lparr>program = ''nimble'', cmd_env = [(''CC'', ''clang'')], cmd_args = [''make_lib_rust''],
       current_dir = dir\<rparr> = Exit_success \<longleftrightarrow> dir = ''/'' @ join_pieces (ps @ [x])"
  shows "snd (build_main var spawn) = Done ()"
    "''cargo:rustc-link-search=native='' @ out \<in> set (fst (build_main var spawn))"
    "''cargo:rerun-if-changed='' @ join_path (''/'' @ join_pieces (ps @ [x])) ''constantine'' \<in> set (fst (build_main var spawn))"
proof -
  have c: "component ''constantine-rust''" "component ''constantine-sys''" by (simp_all add: component_def)
  have "parent (''/'' @ join_pieces ((ps @ [x]) @ [''constantine-rust'', ''constantine-sys''])) =
      Some (''/'' @ join_pieces ((ps @ [x]) @ [''constantine-rust'']))"
    by (rule parent_append [OF c]) (use assms(2,3) in \<open>simp add: component_def\<close>)
  moreover have "parent (''/'' @ join_pieces (ps @ [x, ''constantine-rust''])) = Some (''/'' @ join_pieces (ps @ [x]))"
    by (rule parent_append [OF assms(3) c(1) assms(2)])
  ultimately have r: "Option.bind (parent (''/'' @ join_pieces (ps @ [x, ''constantine-rust'', ''constantine-sys'']))) parent =
      Some (''/'' @ join_pieces (ps @ [x]))" by simp
  have s: "spawn \<lparr>program = ''nimble'', cmd_env = [(''CC'', ''clang'')], cmd_args = [''make_lib_rust''],
      current_dir = ''/'' @ join_pieces (ps @ [x])\<rparr> = Exit_success"
    using assms(5) by blast
  show "snd (build_main var spawn) = Done ()"
    "''cargo:rustc-link-search=native='' @ out \<in> set (fst (build_main var spawn))"
    "''cargo:rerun-if-changed='' @ join_path (''/'' @ join_pieces (ps @ [x])) ''constantine'' \<in> set (fst (build_main var spawn))"
    using assms(1,4) r s by (simp_all add: build_main_def Let_def)
qed

end
