(* ===== verification/Sha256_ZeroPad.thy ===== *)
theory Sha256_ZeroPad
  imports Sha256
begin

text \<open>
  The precomputed state of \<^verbatim>\<open>initZeroPadded\<close> (\<^verbatim>\<open>h_sha256.nim\<close>): evaluating the compression function on
  a block of 64 zero bytes gives the eight words written in the source.
\<close>

unbundle bit_operations_syntax

abbreviation (input) zero_block :: "byte list" where
  "zero_block \<equiv> replicate 64 0"

text \<open>The message schedule of the block, and the state after every 16 rounds.\<close>

definition zero_schedule :: "word32 list" where
  "zero_schedule = [0x0, 0x0, 0x0, 0x0, 0x0, 0x0, 0x0, 0x0,
     0x0, 0x0, 0x0, 0x0, 0x0, 0x0, 0x0, 0x0,
     0x0, 0x0, 0x0, 0x0, 0x0, 0x0, 0x0, 0x0,
     0x0, 0x0, 0x0, 0x0, 0x0, 0x0, 0x0, 0x0,
     0x0, 0x0, 0x0, 0x0, 0x0, 0x0, 0x0, 0x0,
     0x0, 0x0, 0x0, 0x0, 0x0, 0x0, 0x0, 0x0,
     0x0, 0x0, 0x0, 0x0, 0x0, 0x0, 0x0, 0x0,
     0x0, 0x0, 0x0, 0x0, 0x0, 0x0, 0x0, 0x0]"

definition zero_state_16 :: "word32 list" where
  "zero_state_16 = [0x1f951eb2, 0xd22264c0, 0x3acde607, 0x4640cdd5, 0xf3161690, 0x7efa870c, 0xc5c6eedf, 0x5f0deb7a]"

definition zero_state_32 :: "word32 list" where
  "zero_state_32 = [0x5edcac07, 0xd63659f5, 0x370ce121, 0x9e161da9, 0xf4983bb6, 0xd3ec2dbf, 0x6c057621, 0x21e11719]"

definition zero_state_48 :: "word32 list" where
  "zero_state_48 = [0xb896f08c, 0x43f8a0, 0x11a7f01d, 0x4673e127, 0x3406be47, 0xb3261902, 0xd3afe0ad, 0xe268250c]"

definition zero_state_64 :: "word32 list" where
  "zero_state_64 = [0x704cb257, 0x5c5205e4, 0x25c46427, 0xd24fc990, 0x3bd78212, 0x25ccf9b7, 0x9b7b203f, 0xbc56dcbf]"

section \<open>The schedule\<close>

text \<open>The recurrence of the schedule, checked on the first words of a list, one window after the other.\<close>

fun schedule_ok :: "nat \<Rightarrow> word32 list \<Rightarrow> bool" where
  "schedule_ok 0 w = True"
| "schedule_ok (Suc n) w =
     (w ! 16 = s1 (w ! 14) + w ! 9 + s0 (w ! 1) + w ! 0 \<and> schedule_ok n (tl w))"

lemma schedule_ok_numeral:
  "schedule_ok (numeral n) w =
     (w ! 16 = s1 (w ! 14) + w ! 9 + s0 (w ! 1) + w ! 0 \<and> schedule_ok (pred_numeral n) (tl w))"
  by (simp add: numeral_eq_Suc [of n])

lemma schedule_ok_nth:
  "schedule_ok n w \<Longrightarrow> t < n \<Longrightarrow> n + 16 \<le> length w \<Longrightarrow>
   w ! (t + 16) = s1 (w ! (t + 14)) + w ! (t + 9) + s0 (w ! (t + 1)) + w ! t"
proof (induction n w arbitrary: t rule: schedule_ok.induct)
  case (2 n w)
  show ?case
  proof (cases t)
    case (Suc u)
    then show ?thesis using 2 by (simp add: nth_tl)
  qed (use 2 in simp)
qed simp

lemma zero_schedule_ok: "schedule_ok 48 zero_schedule"
  by (simp add: zero_schedule_def schedule_ok_numeral s0_def s1_def rotr_def)

lemma zero_schedule_eq: "t < 64 \<Longrightarrow> fips_W zero_block t = zero_schedule ! t"
proof (induction t rule: less_induct)
  case (less t)
  show ?case
  proof (cases "t < 16")
    case True
    have "take 4 (drop (4 * t) zero_block) = replicate 4 0" using True by (simp add: min_def)
    moreover have "take 16 zero_schedule = replicate 16 0" by (simp add: zero_schedule_def numeral_eq_Suc)
    then have "zero_schedule ! t = 0" using nth_take [OF True, of zero_schedule] True by simp
    ultimately show ?thesis using True by (simp add: fips_W.simps [of _ t])
  next
    case False
    obtain u where t: "t = u + 16" using False by (metis add.commute le_Suc_ex not_less)
    have "zero_schedule ! (u + 16) = s1 (zero_schedule ! (u + 14)) + zero_schedule ! (u + 9) +
        s0 (zero_schedule ! (u + 1)) + zero_schedule ! u"
      by (rule schedule_ok_nth [OF zero_schedule_ok]) (use t less.prems in \<open>simp_all add: zero_schedule_def\<close>)
    then show ?thesis using t less by (simp add: fips_W.simps [of _ "16 + u"] Sigma_eq add.commute [of u])
  qed
qed

section \<open>The rounds\<close>

definition run_rounds :: "word32 list \<Rightarrow> (word32 \<times> word32) list \<Rightarrow> word32 list" where
  "run_rounds = foldl (\<lambda>st (w, k). sha256_round st w k)"

lemma run_rounds_eq:
  "n \<le> 64 \<Longrightarrow> hash_words (fold (fips_round zero_block) [0..<n] v) =
     run_rounds (hash_words v) (take n (zip zero_schedule K256))"
proof (induction n)
  case (Suc n)
  have l: "length (zip zero_schedule K256) = 64" by (simp add: zero_schedule_def K256_def)
  then have "take (Suc n) (zip zero_schedule K256) = take n (zip zero_schedule K256) @ [(zero_schedule ! n, K256 ! n)]"
    using Suc.prems by (simp add: take_Suc_conv_app_nth)
  moreover have "hash_words (fips_round zero_block n st) = sha256_round (hash_words st) (zero_schedule ! n) (K256 ! n)" for st
    using zero_schedule_eq [of n] round_eq [of st zero_block n] Suc.prems by simp
  ultimately show ?case
    using Suc by (simp add: run_rounds_def)
qed (simp add: run_rounds_def)

lemma sha256_round_words:
  "sha256_round [a, b, c, d, e, f, g, h] w k =
     (let T1 = h + S1 e + ch e f g + k + w in [T1 + (S0 a + maj a b c), a, b, c, d + T1, e, f, g])"
  by (simp add: sha256_round_def Let_def rotateRight_def)

lemma run_rounds_simps:
  "run_rounds st [] = st"
  "run_rounds st ((w, k) # ws) = run_rounds (sha256_round st w k) ws"
  by (simp_all add: run_rounds_def)

lemmas round_evaluation = run_rounds_simps sha256_round_words S0_def S1_def rotr_def ch_def maj_def Let_def

definition zero_part_1 :: "(word32 \<times> word32) list" where
  "zero_part_1 = [(0x0, 0x428A2F98), (0x0, 0x71374491), (0x0, 0xB5C0FBCF), (0x0, 0xE9B5DBA5),
     (0x0, 0x3956C25B), (0x0, 0x59F111F1), (0x0, 0x923F82A4), (0x0, 0xAB1C5ED5),
     (0x0, 0xD807AA98), (0x0, 0x12835B01), (0x0, 0x243185BE), (0x0, 0x550C7DC3),
     (0x0, 0x72BE5D74), (0x0, 0x80DEB1FE), (0x0, 0x9BDC06A7), (0x0, 0xC19BF174)]"

lemma zero_rounds_1: "run_rounds init_state zero_part_1 = zero_state_16"
  by (simp add: zero_part_1_def init_state_def zero_state_16_def round_evaluation cong: let_weak_cong)

definition zero_part_2 :: "(word32 \<times> word32) list" where
  "zero_part_2 = [(0x0, 0xE49B69C1), (0x0, 0xEFBE4786), (0x0, 0xFC19DC6), (0x0, 0x240CA1CC),
     (0x0, 0x2DE92C6F), (0x0, 0x4A7484AA), (0x0, 0x5CB0A9DC), (0x0, 0x76F988DA),
     (0x0, 0x983E5152), (0x0, 0xA831C66D), (0x0, 0xB00327C8), (0x0, 0xBF597FC7),
     (0x0, 0xC6E00BF3), (0x0, 0xD5A79147), (0x0, 0x6CA6351), (0x0, 0x14292967)]"

lemma zero_rounds_2: "run_rounds zero_state_16 zero_part_2 = zero_state_32"
  by (simp add: zero_part_2_def zero_state_16_def zero_state_32_def round_evaluation cong: let_weak_cong)

definition zero_part_3 :: "(word32 \<times> word32) list" where
  "zero_part_3 = [(0x0, 0x27B70A85), (0x0, 0x2E1B2138), (0x0, 0x4D2C6DFC), (0x0, 0x53380D13),
     (0x0, 0x650A7354), (0x0, 0x766A0ABB), (0x0, 0x81C2C92E), (0x0, 0x92722C85),
     (0x0, 0xA2BFE8A1), (0x0, 0xA81A664B), (0x0, 0xC24B8B70), (0x0, 0xC76C51A3),
     (0x0, 0xD192E819), (0x0, 0xD6990624), (0x0, 0xF40E3585), (0x0, 0x106AA070)]"

lemma zero_rounds_3: "run_rounds zero_state_32 zero_part_3 = zero_state_48"
  by (simp add: zero_part_3_def zero_state_32_def zero_state_48_def round_evaluation cong: let_weak_cong)

definition zero_part_4 :: "(word32 \<times> word32) list" where
  "zero_part_4 = [(0x0, 0x19A4C116), (0x0, 0x1E376C08), (0x0, 0x2748774C), (0x0, 0x34B0BCB5),
     (0x0, 0x391C0CB3), (0x0, 0x4ED8AA4A), (0x0, 0x5B9CCA4F), (0x0, 0x682E6FF3),
     (0x0, 0x748F82EE), (0x0, 0x78A5636F), (0x0, 0x84C87814), (0x0, 0x8CC70208),
     (0x0, 0x90BEFFFA), (0x0, 0xA4506CEB), (0x0, 0xBEF9A3F7), (0x0, 0xC67178F2)]"

lemma zero_rounds_4: "run_rounds zero_state_48 zero_part_4 = zero_state_64"
  by (simp add: zero_part_4_def zero_state_48_def zero_state_64_def round_evaluation cong: let_weak_cong)

lemma zero_parts: "zip zero_schedule K256 = zero_part_1 @ zero_part_2 @ zero_part_3 @ zero_part_4"
  by (simp add: zero_schedule_def K256_def zero_part_1_def zero_part_2_def zero_part_3_def zero_part_4_def)

lemma run_rounds_append: "run_rounds st (xs @ ys) = run_rounds (run_rounds st xs) ys"
  by (simp add: run_rounds_def)

lemma zero_block_state: "fips_hash zero_block = ctx_s sha256_initZeroPadded"
proof -
  have l: "length (zip zero_schedule K256) = 64" by (simp add: zero_schedule_def K256_def)
  have w: "hash_words (working_of init_state) = init_state" by (simp add: hash_working init_state_def)
  have "hash_words (fold (fips_round zero_block) [0..<64] (working_of init_state)) = zero_state_64"
    using run_rounds_eq [of 64 "working_of init_state"] l
    by (simp only: w take_all order_refl zero_parts run_rounds_append
      zero_rounds_1 zero_rounds_2 zero_rounds_3 zero_rounds_4)
  moreover have "blocks_of zero_block = [zero_block]"
    using blocks_of_Cons [of zero_block] by simp
  ultimately have "fips_hash zero_block = map2 (+) zero_state_64 init_state"
    by (simp add: fips_hash_def fips_block_def)
  then show ?thesis
    by (simp add: zero_state_64_def init_state_def sha256_initZeroPadded_def)
qed

end
