(* ===== verification/Sha256_Constants.thy ===== *)
theory Sha256_Constants
  imports Complex_Main Sha256_ZeroPad
begin

text \<open>
  The constants of \<^verbatim>\<open>sha256_generic.nim\<close> and of the initial state in \<^verbatim>\<open>h_sha256.nim\<close>, compared with
  their definition in FIPS 180-4: the first 32 bits of the fractional parts of the cube roots of
  the first 64 primes and of the square roots of the first 8.
\<close>

definition is_prime :: "nat \<Rightarrow> bool" where
  "is_prime n \<longleftrightarrow> 2 \<le> n \<and> list_all (\<lambda>d. n mod d \<noteq> 0) [2..<n]"

text \<open>The low 32 bits of the integer part of \<open>2 ^ 32\<close> times a root are the first bits of its fraction.\<close>

definition root_fraction :: "nat \<Rightarrow> nat \<Rightarrow> word32" where
  "root_fraction n p = word_of_int \<lfloor>2 ^ 32 * root n (real p)\<rfloor>"

lemma floor_root:
  assumes "0 < n" "q ^ n \<le> p * 2 ^ (32 * n)" "p * 2 ^ (32 * n) < (q + 1) ^ n"
  shows "\<lfloor>2 ^ 32 * root n (real p)\<rfloor> = int q"
proof -
  have r: "2 ^ 32 * root n (real p) = root n (real (p * 2 ^ (32 * n)))"
    using assms(1) by (simp add: real_root_mult power_mult real_root_power)
  have "real q = root n (real (q ^ n))" "real (q + 1) = root n (real ((q + 1) ^ n))"
    using assms(1) real_root_power_cancel [of n "real q"] real_root_power_cancel [of n "real (q + 1)"] by simp_all
  moreover have "root n (real (q ^ n)) \<le> root n (real (p * 2 ^ (32 * n)))"
    using assms(1,2) by (simp only: real_root_le_iff of_nat_le_iff)
  moreover have "root n (real (p * 2 ^ (32 * n))) < root n (real ((q + 1) ^ n))"
    using assms(1,3) by (simp only: real_root_less_iff of_nat_less_iff)
  ultimately show ?thesis using r by (simp add: floor_eq_iff)
qed

text \<open>A constant \<open>k\<close> is right for the prime \<open>p\<close> whose root has the integer part \<open>c\<close>.\<close>

definition root_bits :: "nat \<Rightarrow> nat \<Rightarrow> nat \<Rightarrow> word32 \<Rightarrow> bool" where
  "root_bits n p c k \<longleftrightarrow>
     (let q = c * 2 ^ 32 + unat k in q ^ n \<le> p * 2 ^ (32 * n) \<and> p * 2 ^ (32 * n) < (q + 1) ^ n)"

lemma root_bits_fraction: "0 < n \<Longrightarrow> root_bits n p c k \<Longrightarrow> root_fraction n p = k"
proof -
  assume n: "0 < n" "root_bits n p c k"
  then have "\<lfloor>2 ^ 32 * root n (real p)\<rfloor> = int (c * 2 ^ 32 + unat k)"
    by (intro floor_root) (simp_all add: root_bits_def Let_def)
  moreover have "(word_of_int (int (c * 2 ^ 32 + unat k)) :: word32) = k"
  proof -
    have "(word_of_nat (c * 2 ^ 32) :: word32) = 0" unfolding word_of_nat_eq_0_iff by simp
    then show ?thesis by (simp only: of_int_of_nat_eq of_nat_add add_0_left) simp
  qed
  ultimately show ?thesis by (simp only: root_fraction_def)
qed

definition cube_root_parts :: "nat list" where
  "cube_root_parts = [1, 1, 1, 1, 2, 2, 2, 2, 2, 3, 3, 3, 3, 3, 3, 3, 3, 3,
     4, 4, 4, 4, 4, 4, 4, 4, 4, 4, 4, 4, 5, 5, 5, 5, 5, 5, 5, 5, 5, 5, 5, 5, 5, 5, 5, 5, 5,
     6, 6, 6, 6, 6, 6, 6, 6, 6, 6, 6, 6, 6, 6, 6, 6, 6]"

text \<open>Below \<open>18 ^ 2\<close> it is enough to try the primes below 18.\<close>

lemma small_factor:
  assumes "2 \<le> (e :: nat)" "e < 18"
  shows "\<exists>f \<in> set [2, 3, 5, 7, 11, 13, 17]. f dvd e"
proof -
  have "\<forall>e \<in> set [2..<18]. \<exists>f \<in> set [2, 3, 5, 7, 11, 13, 17]. f dvd (e :: nat)"
    by (simp add: upt_rec_numeral)
  moreover have "e \<in> set [2..<18]" unfolding set_upt using assms by simp
  ultimately show ?thesis by (rule bspec)
qed

lemma composite_factor:
  assumes "n < 324" "2 \<le> d" "d < n" "d dvd (n :: nat)"
  shows "\<exists>f \<in> set [2, 3, 5, 7, 11, 13, 17]. f < n \<and> f dvd n"
proof -
  obtain e where e: "n = d * e" using assms(4) by blast
  have "e \<noteq> 0" "e \<noteq> 1" using e assms(2,3) by auto
  then have "2 \<le> e" by simp
  have "d < 18 \<or> e < 18"
    by (rule ccontr) (use mult_le_mono [of 18 d 18 e] e assms(1) in simp)
  then obtain c where c: "2 \<le> c" "c < 18" "c dvd n" "c < n"
  proof
    assume "e < 18"
    moreover have "e < n" using mult_le_mono1 [of 2 d e] e assms(2) \<open>2 \<le> e\<close> by simp
    ultimately show thesis using that [of e] e \<open>2 \<le> e\<close> by simp
  qed (use that [of d] assms in blast)
  then obtain f where "f \<in> set [2, 3, 5, 7, 11, 13, 17]" "f dvd c" using small_factor by blast
  moreover have "f \<le> c" using \<open>f dvd c\<close> c(1) by (intro dvd_imp_le) simp_all
  ultimately show ?thesis using c by (intro bexI [of _ f]) (auto intro: dvd_trans)
qed

lemma is_prime_small:
  assumes "n < 324"
  shows "is_prime n \<longleftrightarrow> 2 \<le> n \<and> list_all (\<lambda>d. n \<le> d \<or> n mod d \<noteq> 0) [2, 3, 5, 7, 11, 13, 17]"
proof
  assume p: "is_prime n"
  have "n \<le> d \<or> n mod d \<noteq> 0" if "d \<in> set [2, 3, 5, 7, 11, 13, 17]" for d
  proof -
    have "2 \<le> d" using that by auto
    then show ?thesis using p by (cases "n \<le> d") (simp_all add: is_prime_def list_all_iff)
  qed
  then show "2 \<le> n \<and> list_all (\<lambda>d. n \<le> d \<or> n mod d \<noteq> 0) [2, 3, 5, 7, 11, 13, 17]"
    using p unfolding list_all_iff is_prime_def by blast
next
  assume l: "2 \<le> n \<and> list_all (\<lambda>d. n \<le> d \<or> n mod d \<noteq> 0) [2, 3, 5, 7, 11, 13, 17]"
  have "n mod d \<noteq> 0" if d: "2 \<le> d" "d < n" for d
  proof
    assume "n mod d = 0"
    then have "d dvd n" by (rule mod_0_imp_dvd)
    then obtain f where f: "f \<in> set [2, 3, 5, 7, 11, 13, 17]" "f < n" "f dvd n"
      using composite_factor [OF assms d] by blast
    then have "n \<le> f \<or> n mod f \<noteq> 0" using l unfolding list_all_iff by blast
    then show False using f(2) dvd_imp_mod_0 [OF f(3)] by simp
  qed
  then show "is_prime n" using l by (simp add: is_prime_def list_all_iff)
qed

definition primes :: "nat list" where
  "primes = [2, 3, 5, 7, 11, 13, 17, 19, 23, 29, 31, 37, 41, 43, 47, 53, 59, 61, 67, 71, 73, 79, 83, 89, 97, 101, 103, 107,
   109, 113, 127, 131, 137, 139, 149, 151, 157, 163, 167, 173, 179, 181, 191, 193, 197, 199, 211, 223, 227, 229, 233, 239,
   241, 251, 257, 263, 269, 271, 277, 281, 283, 293, 307, 311]"

lemma first_primes: "filter is_prime [2..<312] = primes"
proof -
  have "filter is_prime [2..<312] =
      filter (\<lambda>n. 2 \<le> n \<and> list_all (\<lambda>d. n \<le> d \<or> n mod d \<noteq> 0) [2, 3, 5, 7, 11, 13, 17]) [2..<312]"
  proof (rule filter_cong [OF refl])
    fix n :: nat assume "n \<in> set [2..<312]"
    then have "n \<in> {2..<312}" unfolding set_upt .
    then have "n < 312" by (rule atLeastLessThan_iff [THEN iffD1, THEN conjunct2])
    then show "is_prime n = (2 \<le> n \<and> list_all (\<lambda>d. n \<le> d \<or> n mod d \<noteq> 0) [2, 3, 5, 7, 11, 13, 17])"
      by (intro is_prime_small) simp
  qed
  also have "\<dots> = filter (\<lambda>n. list_all (\<lambda>d. n \<le> d \<or> n mod d \<noteq> 0) [2, 3, 5, 7, 11, 13, 17]) [2..<312]"
  proof (rule filter_cong [OF refl])
    fix n :: nat assume "n \<in> set [2..<312]"
    then have "n \<in> {2..<312}" unfolding set_upt .
    then have "2 \<le> n" by (rule atLeastLessThan_iff [THEN iffD1, THEN conjunct1])
    then show "(2 \<le> n \<and> list_all (\<lambda>d. n \<le> d \<or> n mod d \<noteq> 0) [2, 3, 5, 7, 11, 13, 17]) =
        list_all (\<lambda>d. n \<le> d \<or> n mod d \<noteq> 0) [2, 3, 5, 7, 11, 13, 17]" by simp
  qed
  also have "\<dots> = primes"
    by (simp add: primes_def upt_rec_numeral)
  finally show ?thesis .
qed

lemma map_root_fraction:
  assumes "0 < n" "list_all2 (\<lambda>p (c, k). root_bits n p c k) ps (zip cs ks)" "length cs = length ks"
  shows "map (root_fraction n) ps = ks"
proof -
  have "list_all2 (\<lambda>p ck. root_fraction n p = snd ck) ps (zip cs ks)"
    using assms(2) by (rule list_all2_mono) (auto intro: root_bits_fraction [OF assms(1)])
  then have "map (root_fraction n) ps = map snd (zip cs ks)"
    by (induction rule: list_all2_induct) simp_all
  then show ?thesis using assms(3) by simp
qed

lemma cube_roots: "list_all2 (\<lambda>p (c, k). root_bits 3 p c k) primes (zip cube_root_parts K256)"
  by (simp add: primes_def cube_root_parts_def K256_def root_bits_def)

lemma square_roots:
  "list_all2 (\<lambda>p (c, k). root_bits 2 p c k) (take 8 primes) (zip [1, 1, 2, 2, 3, 3, 4, 4] init_state)"
  by (simp add: primes_def init_state_def root_bits_def)

lemma initZeroPadded_inv: "ctx_inv sha256_initZeroPadded (replicate 64 0)"
  by (simp add: ctx_inv_def zero_block_state tail_def) (simp add: sha256_initZeroPadded_def)

text \<open>C24: the round constants of the code are the first 32 bits of the fractional parts of the
  cube roots of the first 64 primes, and its initial state those of the square roots of the first
  8 primes, as FIPS 180-4 defines them; and a context from \<^verbatim>\<open>initZeroPadded\<close> behaves as one that has
  absorbed 64 zero bytes.\<close>

theorem sha256_constants:
  "K256 = map (root_fraction 3) (filter is_prime [2..<312]) \<and> length K256 = 64 \<and>
   ctx_s sha256_init = map (root_fraction 2) (take 8 (filter is_prime [2..<312])) \<and>
   snd (sha256_finish (foldl sha256_update sha256_initZeroPadded messages)) =
     fips_sha256 (replicate 64 0 @ concat messages)"
proof -
  have "map (root_fraction 3) primes = K256"
    by (rule map_root_fraction [OF _ cube_roots]) (simp_all add: cube_root_parts_def K256_def)
  moreover have "map (root_fraction 2) (take 8 primes) = init_state"
    by (rule map_root_fraction [OF _ square_roots]) (simp_all add: init_state_def)
  moreover note finish_digest [OF ctx_inv_stream [OF initZeroPadded_inv, of messages]]
  ultimately show ?thesis
    by (simp only: first_primes sha256_init_def Sha256Context.simps) (simp add: K256_def)
qed

end
