(* ===== verification/Nim_Codecs.thy ===== *)
theory Nim_Codecs
  imports Nim_Limbs Status
begin

unbundle bit_operations_syntax

text \<open>
  The BLS12-381 codecs of \<^verbatim>\<open>constantine/serialization/codecs_bls12_381.nim\<close> for scalars and \<open>G1\<close>
  points, with the square root they rest on (\<^verbatim>\<open>named/constants/bls12_381_sqrt.nim\<close>,
  \<^verbatim>\<open>math/arithmetic/finite_fields_square_root.nim\<close>). Field elements are their canonical values; the
  subgroup check of a curve point is a parameter.
\<close>

section \<open>The field and its square root\<close>

definition fp_modulus :: nat where
  "fp_modulus = 0x1a0111ea397fe69a4b1ba7b6434bacd764774b84f38512bf6730d2a0f6b0f6241eabfffeb153ffffb9feffffffffaaab"

definition fr_modulus :: nat where
  "fr_modulus = 0x73eda753299d7d483339d80809a1d80553bda402fffe5bfeffffffff00000001"

definition fp_mul :: "nat \<Rightarrow> nat \<Rightarrow> nat" where
  "fp_mul x y = x * y mod fp_modulus"

text \<open>
  The addition chain of \<^verbatim>\<open>invsqrt_addchain\<close> as a program over registers: \<open>a\<close> is register 1, \<open>r\<close> is
  register 0, and \<^verbatim>\<open>x1101\<close> is register \<open>0b1101\<close>.
\<close>

datatype chain_op = Square nat nat | Prod nat nat nat | Square_repeated nat nat

fun chain_step :: "('a \<Rightarrow> 'a \<Rightarrow> 'a) \<Rightarrow> chain_op \<Rightarrow> (nat \<rightharpoonup> 'a) \<Rightarrow> (nat \<rightharpoonup> 'a) option" where
  "chain_step mul (Square r x) R = (case R x of Some u \<Rightarrow> Some (R(r \<mapsto> mul u u)) | None \<Rightarrow> None)"
| "chain_step mul (Prod r x y) R =
     (case (R x, R y) of (Some u, Some v) \<Rightarrow> Some (R(r \<mapsto> mul u v)) | _ \<Rightarrow> None)"
| "chain_step mul (Square_repeated r num) R =
     (case R r of Some u \<Rightarrow> Some (R(r \<mapsto> ((\<lambda>u. mul u u) ^^ num) u)) | None \<Rightarrow> None)"

fun chain_run :: "('a \<Rightarrow> 'a \<Rightarrow> 'a) \<Rightarrow> chain_op list \<Rightarrow> (nat \<rightharpoonup> 'a) \<Rightarrow> 'a option" where
  "chain_run mul [] R = R 0"
| "chain_run mul (op # ops) R =
     (case chain_step mul op R of Some R \<Rightarrow> chain_run mul ops R | None \<Rightarrow> None)"

definition invsqrt_chain :: "chain_op list" where
  "invsqrt_chain =
    [Square 0b10 1, Square 0b100 0b10, Square 0b1000 0b100, Prod 0b1001 1 0b1000,
     Prod 0b1011 0b10 0b1001, Prod 0b1101 0b10 0b1011, Prod 0b10001 0b100 0b1101,
     Prod 0b10100 0b1001 0b1011, Prod 0b10101 1 0b10100, Prod 0b11001 0b100 0b10101,
     Prod 0b11010 1 0b11001, Square 0b110100 0b11010, Prod 0b110110 0b10 0b110100,
     Prod 0b110111 1 0b110110, Prod 0b1001101 0b11001 0b110100, Prod 0b1001111 0b10 0b1001101,
     Prod 0b1010101 0b1000 0b1001101, Prod 0b1011101 0b1000 0b1010101,
     Prod 0b1100111 0b11010 0b1001101, Prod 0b1101001 0b10 0b1100111,
     Prod 0b1110111 0b11010 0b1011101, Prod 0b1111011 0b100 0b1110111,
     Prod 0b10001001 0b110100 0b1010101, Prod 0b10010101 0b11010 0b1111011,
     Prod 0b10010111 0b10 0b10010101, Prod 0b10101001 0b10100 0b10010101,
     Prod 0b10110001 0b1000 0b10101001, Prod 0b10111111 0b110110 0b10001001,
     Prod 0b11000011 0b100 0b10111111, Prod 0b11010000 0b1101 0b11000011,
     Prod 0b11010111 0b10100 0b11000011, Prod 0b11100001 0b10001 0b11010000,
     Prod 0b11100101 0b100 0b11100001, Prod 0b11101011 0b10100 0b11010111,
     Prod 0b11110101 0b10100 0b11100001, Prod 0b11111111 0b10100 0b11101011,
     Prod 0 0b10111111 0b11100001, Square_repeated 0 8, Prod 0 0 0b10001, Square_repeated 0 11,
     Prod 0 0 0b11110101, Square_repeated 0 11, Prod 0 0 0b11100101, Square_repeated 0 8,
     Prod 0 0 0b11111111, Square_repeated 0 7, Prod 0 0 0b1001101, Square_repeated 0 9,
     Prod 0 0 0b1101001, Square_repeated 0 10, Prod 0 0 0b10110001, Square_repeated 0 7,
     Prod 0 0 0b1011101, Square_repeated 0 9, Prod 0 0 0b1111011, Square_repeated 0 6,
     Prod 0 0 0b11001, Square_repeated 0 11, Prod 0 0 0b1101001, Square_repeated 0 9,
     Prod 0 0 0b11101011, Square_repeated 0 10, Prod 0 0 0b11010111, Square_repeated 0 6,
     Prod 0 0 0b11001, Square_repeated 0 10, Prod 0 0 0b1110111, Square_repeated 0 9,
     Prod 0 0 0b10010111, Square_repeated 0 11, Prod 0 0 0b1001111, Square_repeated 0 10,
     Prod 0 0 0b11100001, Square_repeated 0 9, Prod 0 0 0b10001001, Square_repeated 0 9,
     Prod 0 0 0b10111111, Square_repeated 0 8, Prod 0 0 0b1100111, Square_repeated 0 10,
     Prod 0 0 0b11000011, Square_repeated 0 9, Prod 0 0 0b10010101, Square_repeated 0 12,
     Prod 0 0 0b1111011, Square_repeated 0 5, Prod 0 0 0b1011, Square_repeated 0 11,
     Prod 0 0 0b1111011, Square_repeated 0 7, Prod 0 0 0b1001, Square_repeated 0 13,
     Prod 0 0 0b11110101, Square_repeated 0 9, Prod 0 0 0b10111111, Square_repeated 0 8,
     Prod 0 0 0b11111111, Square_repeated 0 8, Prod 0 0 0b11101011, Square_repeated 0 11,
     Prod 0 0 0b10101001, Square_repeated 0 8, Prod 0 0 0b11111111, Square_repeated 0 8,
     Prod 0 0 0b11111111, Square_repeated 0 6, Prod 0 0 0b110111, Square_repeated 0 10,
     Prod 0 0 0b11111111, Square_repeated 0 9, Prod 0 0 0b11111111, Square_repeated 0 8,
     Prod 0 0 0b11111111, Square_repeated 0 8, Prod 0 0 0b11111111, Square_repeated 0 8,
     Prod 0 0 0b11111111, Square_repeated 0 7, Prod 0 0 0b1010101, Square_repeated 0 6,
     Prod 0 0 0b10101, Square 0 0]"

definition invsqrt_addchain :: "nat \<Rightarrow> nat option" where
  "invsqrt_addchain a = chain_run fp_mul invsqrt_chain [1 \<mapsto> a]"

text \<open>\<^verbatim>\<open>sqrt_if_square\<close>: whether the candidate is a root, and the candidate.\<close>

definition sqrt_if_square :: "nat \<Rightarrow> (bool \<times> nat) option" where
  "sqrt_if_square a =
     (case invsqrt_addchain a of
        None \<Rightarrow> None
      | Some invsqrt \<Rightarrow> let root = fp_mul invsqrt a in Some (fp_mul root root = a, root))"

subsection \<open>The chain computes a power\<close>

text \<open>Running the chain on exponents, with addition for multiplication, gives the exponent.\<close>

definition powers_of :: "nat \<Rightarrow> (nat \<rightharpoonup> nat) \<Rightarrow> (nat \<rightharpoonup> nat) \<Rightarrow> bool" where
  "powers_of a E R \<longleftrightarrow> R = (\<lambda>r. map_option (\<lambda>e. a ^ e mod fp_modulus) (E r))"

lemma fp_mul_powers: "fp_mul (a ^ i mod fp_modulus) (a ^ j mod fp_modulus) = a ^ (i + j) mod fp_modulus"
  by (simp add: fp_mul_def mod_mult_eq power_add)

lemma fp_square_repeated:
  "((\<lambda>u. fp_mul u u) ^^ n) (a ^ e mod fp_modulus) = a ^ (((\<lambda>u. u + u) ^^ n) e) mod fp_modulus"
  by (induction n) (simp_all add: fp_mul_powers)

lemma chain_step_powers:
  "powers_of a E R \<Longrightarrow>
   (case chain_step (+) op E of
      None \<Rightarrow> chain_step fp_mul op R = None
    | Some E' \<Rightarrow> \<exists>R'. chain_step fp_mul op R = Some R' \<and> powers_of a E' R')"
  by (cases op) (auto simp: powers_of_def fp_mul_powers fp_square_repeated split: option.splits)

lemma chain_run_powers:
  "powers_of a E R \<Longrightarrow> chain_run fp_mul ops R = map_option (\<lambda>e. a ^ e mod fp_modulus) (chain_run (+) ops E)"
proof (induction ops arbitrary: E R)
  case Nil
  then show ?case by (simp add: powers_of_def)
next
  case (Cons op ops)
  then show ?case
    using chain_step_powers [OF Cons.prems, of op] by (auto split: option.splits)
qed

lemma doubling: "((\<lambda>u. u + u) ^^ n) (e :: nat) = 2 ^ n * e"
  by (induction n) simp_all

lemma invsqrt_chain_exponent:
  "chain_run (+) invsqrt_chain [1 \<mapsto> 1] = Some ((fp_modulus - 3) div 4)"
  by (simp add: invsqrt_chain_def doubling fp_modulus_def)

lemma invsqrt_addchain_eq:
  assumes "a < fp_modulus" shows "invsqrt_addchain a = Some (a ^ ((fp_modulus - 3) div 4) mod fp_modulus)"
proof -
  have "powers_of a [1 \<mapsto> 1] [1 \<mapsto> a]" using assms by (simp add: powers_of_def fun_eq_iff)
  from chain_run_powers [OF this, of invsqrt_chain] show ?thesis
    by (simp only: invsqrt_addchain_def invsqrt_chain_exponent option.map)
qed

lemma sqrt_if_square_total:
  assumes "a < fp_modulus"
  obtains ok root where "sqrt_if_square a = Some (ok, root)" "ok \<longleftrightarrow> root * root mod fp_modulus = a" "root < fp_modulus"
  using assms by (simp add: sqrt_if_square_def invsqrt_addchain_eq Let_def fp_mul_def)

section \<open>Codecs\<close>

text \<open>The words of a big integer of \<open>n\<close> words.\<close>

fun to_limbs :: "nat \<Rightarrow> nat \<Rightarrow> limb list" where
  "to_limbs 0 v = []"
| "to_limbs (Suc n) v = of_nat v # to_limbs n (v div 2 ^ 64)"

definition validate_scalar :: "nat \<Rightarrow> ctt_codec_scalar_status" where
  "validate_scalar scalar =
     (if scalar = 0 then cttCodecScalar_Zero
      else if scalar \<ge> fr_modulus then cttCodecScalar_ScalarLargerThanCurveOrder
      else cttCodecScalar_Success)"

definition serialize_scalar :: "nat \<Rightarrow> byte list" where
  "serialize_scalar scalar = snd (marshalBE (replicate 32 0) (to_limbs 4 scalar))"

definition deserialize_scalar :: "byte list \<Rightarrow> ctt_codec_scalar_status \<times> nat" where
  "deserialize_scalar src =
     (let dst = limbs_val (snd (unmarshalBE (replicate 4 0) src));
          status = validate_scalar dst
      in if status \<noteq> cttCodecScalar_Success then (status, 0) else (cttCodecScalar_Success, dst))"

text \<open>An affine \<open>G1\<close> point is its two coordinates, both 0 for the neutral element.\<close>

type_synonym g1_aff = "nat \<times> nat"

definition g1_isNeutral :: "g1_aff \<Rightarrow> bool" where
  "g1_isNeutral P \<longleftrightarrow> fst P = 0 \<and> snd P = 0"

definition curve_eq_rhs :: "nat \<Rightarrow> nat" where
  "curve_eq_rhs x = (fp_mul (fp_mul x x) x + 4) mod fp_modulus"

definition trySetFromCoordX :: "nat \<Rightarrow> (bool \<times> g1_aff) option" where
  "trySetFromCoordX x = map_option (\<lambda>(ok, y). (ok, (x, y))) (sqrt_if_square (curve_eq_rhs x))"

definition fp_neg :: "nat \<Rightarrow> nat" where
  "fp_neg y = (if y = 0 then 0 else fp_modulus - y)"

definition serialize_g1_compressed :: "g1_aff \<Rightarrow> byte list" where
  "serialize_g1_compressed g1P =
     (if g1_isNeutral g1P then (replicate 48 0)[0 := 0b11000000]
      else
        let dst = snd (marshalBE (replicate 48 0) (to_limbs 6 (fst g1P)));
            lexicographicallyLargest = (if snd g1P \<ge> (fp_modulus - 1) div 2 then 1 else 0)
        in dst[0 := dst ! 0 OR (0b10000000 OR push_bit 5 lexicographicallyLargest)])"

text \<open>The status, and the point where one is set.\<close>

definition deserialize_g1_compressed_unchecked :: "byte list \<Rightarrow> ctt_codec_ecc_status \<times> g1_aff option" where
  "deserialize_g1_compressed_unchecked src =
     (if src ! 0 AND 0b10000000 = 0 then (cttCodecEcc_InvalidEncoding, None)
      else if src ! 0 AND 0b01000000 \<noteq> 0 then
        if src ! 0 AND 0b00111111 \<noteq> 0 then (cttCodecEcc_InvalidEncoding, None)
        else if \<exists>b \<in> set (tl src). b \<noteq> 0 then (cttCodecEcc_InvalidEncoding, None)
        else (cttCodecEcc_PointAtInfinity, Some (0, 0))
      else
        let t = snd (unmarshalBE (replicate 6 0) src);
            t = limbs_val (t[length t - 1 := t ! (length t - 1) AND drop_bit 3 (- 1)])
        in if t \<ge> fp_modulus then (cttCodecEcc_CoordinateGreaterThanOrEqualModulus, None)
           else case trySetFromCoordX t of
             None \<Rightarrow> (cttCodecEcc_PointNotOnCurve, None)
           | Some (onCurve, (x, y)) \<Rightarrow>
               if \<not> onCurve then (cttCodecEcc_PointNotOnCurve, None)
               else
                 let isLexicographicallyLargest = (y \<ge> (fp_modulus + 1) div 2);
                     srcIsLargest = (drop_bit 5 (src ! 0) AND 1 \<noteq> 0)
                 in (cttCodecEcc_Success,
                     Some (x, if isLexicographicallyLargest \<noteq> srcIsLargest then fp_neg y else y)))"

definition deserialize_g1_compressed :: "(g1_aff \<Rightarrow> bool) \<Rightarrow> byte list \<Rightarrow> ctt_codec_ecc_status \<times> g1_aff option" where
  "deserialize_g1_compressed isInSubgroup src =
     (case deserialize_g1_compressed_unchecked src of
        (cttCodecEcc_Success, Some P) \<Rightarrow>
          if \<not> isInSubgroup P then (cttCodecEcc_PointNotInSubgroup, Some P) else (cttCodecEcc_Success, Some P)
      | r \<Rightarrow> r)"

section \<open>Scalars\<close>

lemma limbs_val_to_limbs: "limbs_val (to_limbs n v) = v mod 2 ^ (64 * n)"
proof (induction n arbitrary: v)
  case (Suc n)
  have "v mod 2 ^ (64 + 64 * n) = 2 ^ 64 * (v div 2 ^ 64 mod 2 ^ (64 * n)) + v mod 2 ^ 64"
    by (simp only: power_add mod_mult2_eq)
  then show ?case by (simp add: Suc unat_of_nat power_add)
qed simp

lemma serialize_scalar_eq: "serialize_scalar v = be_bytes 32 v"
  using be_bytes_mod [of 32 v] by (simp add: serialize_scalar_def marshalBE_val limbs_val_to_limbs)

lemma deserialize_scalar_eq:
  "length src = 32 \<Longrightarrow> deserialize_scalar src =
     (if be_val src = 0 then (cttCodecScalar_Zero, 0)
      else if fr_modulus \<le> be_val src then (cttCodecScalar_ScalarLargerThanCurveOrder, 0)
      else (cttCodecScalar_Success, be_val src))"
  by (simp add: deserialize_scalar_def validate_scalar_def unmarshalBE_val Let_def)

section \<open>Points\<close>

text \<open>The top three bits of the first byte are flags.\<close>

definition compressed_x :: "byte list \<Rightarrow> nat" where
  "compressed_x src = be_val src mod 2 ^ 381"

lemma mod_keep_low: "a < (m :: nat) \<Longrightarrow> (a + m * b) mod (m * n) = a + m * (b mod n)"
  by (simp only: mod_mult2_eq) simp

lemma limbs_val_mask_top:
  assumes "length ws = 6"
  shows "limbs_val (ws[5 := ws ! 5 AND drop_bit 3 (- 1)]) = limbs_val ws mod 2 ^ 381"
proof -
  obtain lo w where ws: "ws = lo @ [w]" and lo: "length lo = 5"
    using assms by (cases ws rule: rev_cases) auto
  have "limbs_val ws mod 2 ^ 381 = (limbs_val lo + 2 ^ 320 * unat w) mod (2 ^ 320 * 2 ^ 61)"
    using lo by (simp add: ws limbs_val_append)
  also have "\<dots> = limbs_val lo + 2 ^ 320 * (unat w mod 2 ^ 61)"
    using limbs_val_bound [of lo] lo by (intro mod_keep_low) simp
  also have "unat w mod 2 ^ 61 = unat (take_bit 61 w)"
    by (simp only: unsigned_take_bit_eq) (simp only: take_bit_eq_mod)
  finally show ?thesis using lo by (simp add: ws take_bit_eq_mask nth_append limbs_val_append list_update_append)
qed

lemma byte_exhaust:
  fixes b :: byte
  assumes "list_all (\<lambda>n. P (of_nat n)) [0..<256]"
  shows "P b"
  using assms by (auto simp: list_all_iff dest: bspec [of _ _ "unat b"])

lemma flags_restored:
  fixes b :: byte
  shows "b AND 0b10000000 \<noteq> 0 \<and> b AND 0b01000000 = 0 \<longrightarrow>
    of_nat (unat b mod 32) OR (0b10000000 OR push_bit 5 (if drop_bit 5 b AND 1 \<noteq> 0 then 1 else 0)) = b"
  by (rule byte_exhaust) code_simp

lemma infinity_flags:
  fixes b :: byte
  shows "b AND 0b10000000 \<noteq> 0 \<and> b AND 0b01000000 \<noteq> 0 \<and> b AND 0b00111111 = 0 \<longrightarrow> b = 0b11000000"
  by (rule byte_exhaust) code_simp

lemma compressed_x_Cons:
  "length bs = 47 \<Longrightarrow> compressed_x (b # bs) = be_val bs + 256 ^ 47 * (unat b mod 32)"
  using be_val_bound [of bs] mod_keep_low [of "be_val bs" "256 ^ 47" "unat b" 32]
  by (simp add: compressed_x_def algebra_simps)

lemma be_bytes_compressed_x:
  assumes "length bs = 47" shows "be_bytes 48 (compressed_x (b # bs)) = of_nat (unat b mod 32) # bs"
proof -
  have "be_bytes (Suc 47) (compressed_x (b # bs)) = of_nat (compressed_x (b # bs) div 256 ^ 47) # be_bytes 47 (compressed_x (b # bs) mod 256 ^ 47)"
    by (rule be_bytes.simps)
  moreover have "compressed_x (b # bs) div 256 ^ 47 = unat b mod 32" "compressed_x (b # bs) mod 256 ^ 47 = be_val bs"
    using be_val_bound [of bs] assms by (simp_all add: compressed_x_Cons)
  ultimately show ?thesis using be_bytes_be_val [of bs] assms by simp
qed

lemma fp_modulus_bound: "fp_modulus < 2 ^ 381"
  by (simp add: fp_modulus_def)

lemma curve_eq_rhs_less: "curve_eq_rhs x < fp_modulus"
  by (simp add: curve_eq_rhs_def fp_modulus_def)

lemma trySetFromCoordX_cases:
  obtains y where "y < fp_modulus" "trySetFromCoordX x = Some (fp_mul y y = curve_eq_rhs x, (x, y))"
  using sqrt_if_square_total [OF curve_eq_rhs_less [of x]] by (auto simp: trySetFromCoordX_def fp_mul_def)

text \<open>Which point a general encoding stands for: the root on the side of the flag.\<close>

definition sign_flag :: "byte \<Rightarrow> bool" where
  "sign_flag b \<longleftrightarrow> drop_bit 5 b AND 1 \<noteq> 0"

definition choose_root :: "bool \<Rightarrow> nat \<Rightarrow> nat" where
  "choose_root large y = (if (y \<ge> (fp_modulus + 1) div 2) \<noteq> large then fp_neg y else y)"

lemma deserialize_unchecked_eq:
  assumes "length bs = 47"
  shows "deserialize_g1_compressed_unchecked (b # bs) =
     (if b AND 0b10000000 = 0 then (cttCodecEcc_InvalidEncoding, None)
      else if b AND 0b01000000 \<noteq> 0 then
        if b = 0b11000000 \<and> bs = replicate 47 0 then (cttCodecEcc_PointAtInfinity, Some (0, 0))
        else (cttCodecEcc_InvalidEncoding, None)
      else if compressed_x (b # bs) \<ge> fp_modulus then (cttCodecEcc_CoordinateGreaterThanOrEqualModulus, None)
      else case trySetFromCoordX (compressed_x (b # bs)) of
        Some (True, (x, y)) \<Rightarrow> (cttCodecEcc_Success, Some (x, choose_root (sign_flag b) y))
      | _ \<Rightarrow> (cttCodecEcc_PointNotOnCurve, None))"
proof -
  let ?ws = "snd (unmarshalBE (replicate 6 0) (b # bs))"
  have ws: "length ?ws = 6" "limbs_val ?ws = be_val (b # bs)"
    using unmarshalBE_val [of "b # bs" "replicate 6 0"] assms by simp_all
  have t: "limbs_val (?ws[length ?ws - 1 := ?ws ! (length ?ws - 1) AND drop_bit 3 (- 1)]) = compressed_x (b # bs)"
    using limbs_val_mask_top [OF ws(1)] by (simp add: ws compressed_x_def)
  have inf: "(b AND 0b00111111 = 0 \<and> \<not> (\<exists>c \<in> set bs. c \<noteq> 0)) \<longleftrightarrow> b = 0b11000000 \<and> bs = replicate 47 0"
    if "b AND 0b10000000 \<noteq> 0" "b AND 0b01000000 \<noteq> 0"
    using infinity_flags [of b] that assms by (auto simp: replicate_eq_replicate intro!: replicate_eqI)
  show ?thesis
    unfolding deserialize_g1_compressed_unchecked_def Let_def t nth_Cons_0 list.sel
    using inf by (auto simp: choose_root_def sign_flag_def split: option.splits)
qed

lemma choose_root:
  assumes "y < fp_modulus"
  shows "choose_root large y < fp_modulus" "fp_mul (choose_root large y) (choose_root large y) = fp_mul y y"
    "choose_root large y \<noteq> 0 \<Longrightarrow> choose_root large y \<ge> (fp_modulus + 1) div 2 \<longleftrightarrow> large"
proof -
  show "choose_root large y < fp_modulus" using assms by (auto simp: choose_root_def fp_neg_def)
  have "fp_mul (fp_neg y) (fp_neg y) = fp_mul y y"
  proof (cases "y = 0")
    case False
    have "int (fp_mul (fp_neg y) (fp_neg y)) = (int fp_modulus - int y) * (int fp_modulus - int y) mod int fp_modulus"
      using assms False by (simp add: fp_mul_def fp_neg_def of_nat_mod of_nat_diff)
    also have "\<dots> = (int y * int y + int fp_modulus * (int fp_modulus - 2 * int y)) mod int fp_modulus"
      by (simp add: algebra_simps)
    finally show ?thesis
      by (simp add: fp_mul_def of_nat_mod) (metis of_nat_eq_iff of_nat_mod of_nat_mult)
  qed (simp add: fp_neg_def)
  then show "fp_mul (choose_root large y) (choose_root large y) = fp_mul y y" by (simp add: choose_root_def)
  have "y \<ge> (fp_modulus + 1) div 2 \<longleftrightarrow> \<not> fp_neg y \<ge> (fp_modulus + 1) div 2" if "y \<noteq> 0"
    using assms that by (simp add: fp_neg_def fp_modulus_def) linarith
  then show "choose_root large y \<noteq> 0 \<Longrightarrow> choose_root large y \<ge> (fp_modulus + 1) div 2 \<longleftrightarrow> large"
    by (auto simp: choose_root_def fp_neg_def split: if_splits)
qed

lemma deserialize_unchecked_Success:
  assumes "length bs = 47" "deserialize_g1_compressed_unchecked (b # bs) = (cttCodecEcc_Success, Some (x, y))"
  shows "b AND 0b10000000 \<noteq> 0" "b AND 0b01000000 = 0" "x = compressed_x (b # bs)" "x < fp_modulus" "y < fp_modulus"
    "fp_mul y y = curve_eq_rhs x" "y \<noteq> 0 \<Longrightarrow> y \<ge> (fp_modulus + 1) div 2 \<longleftrightarrow> sign_flag b"
proof -
  let ?x = "compressed_x (b # bs)"
  obtain y' where y': "y' < fp_modulus" "trySetFromCoordX ?x = Some (fp_mul y' y' = curve_eq_rhs ?x, (?x, y'))"
    by (rule trySetFromCoordX_cases)
  have d: "b AND 0b10000000 \<noteq> 0 \<and> b AND 0b01000000 = 0 \<and> ?x < fp_modulus \<and> fp_mul y' y' = curve_eq_rhs ?x \<and>
      x = ?x \<and> y = choose_root (sign_flag b) y'"
    using assms(2) y'(2) unfolding deserialize_unchecked_eq [OF assms(1)]
    by (auto split: if_splits bool.splits)
  then show "b AND 0b10000000 \<noteq> 0" "b AND 0b01000000 = 0" "x = compressed_x (b # bs)" "x < fp_modulus" "y < fp_modulus"
    "fp_mul y y = curve_eq_rhs x" "y \<noteq> 0 \<Longrightarrow> y \<ge> (fp_modulus + 1) div 2 \<longleftrightarrow> sign_flag b"
    using choose_root [OF y'(1), of "sign_flag b"] by auto
qed

lemma serialize_g1_general:
  assumes "length bs = 47" "b AND 0b10000000 \<noteq> 0" "b AND 0b01000000 = 0"
    "y \<noteq> 0" "y \<ge> (fp_modulus - 1) div 2 \<longleftrightarrow> sign_flag b" "compressed_x (b # bs) < fp_modulus"
  shows "serialize_g1_compressed (compressed_x (b # bs), y) = b # bs"
proof -
  have "limbs_val (to_limbs 6 (compressed_x (b # bs))) = compressed_x (b # bs)"
    using assms(6) fp_modulus_bound by (simp add: limbs_val_to_limbs)
  then have "snd (marshalBE (replicate 48 0) (to_limbs 6 (compressed_x (b # bs)))) = of_nat (unat b mod 32) # bs"
    using be_bytes_compressed_x [OF assms(1), of b] by (simp add: marshalBE_val)
  then show ?thesis
    using assms flags_restored [of b]
    by (simp add: serialize_g1_compressed_def g1_isNeutral_def Let_def sign_flag_def)
qed

text \<open>C4: a 48-byte string that decodes to a point is the encoding of that point, so that
  no point has two accepted encodings: the point at infinity has one, and every other point comes
  from its abscissa below the modulus and the root of the curve equation on the side of the sign
  flag. The serialiser puts the border between the two roots at (p-1)/2 and the deserialiser at
  (p+1)/2, hence the condition on the ordinate.\<close>

theorem g1_canonical:
  assumes "length src = 48" "deserialize_g1_compressed isInSubgroup src = (st, Some P)"
    "st = cttCodecEcc_Success \<or> st = cttCodecEcc_PointAtInfinity"
    "st = cttCodecEcc_Success \<Longrightarrow> snd P \<noteq> 0 \<and> snd P \<noteq> (fp_modulus - 1) div 2"
  shows "serialize_g1_compressed P = src \<and>
    (st = cttCodecEcc_Success \<longrightarrow> isInSubgroup P \<and> fst P < fp_modulus \<and> snd P < fp_modulus \<and>
       snd P * snd P mod fp_modulus = (fst P ^ 3 + 4) mod fp_modulus)"
proof -
  obtain b bs where src: "src = b # bs" "length bs = 47" using assms(1) by (cases src) auto
  obtain x y where P: "P = (x, y)" by (cases P)
  show ?thesis
  proof (cases "st = cttCodecEcc_Success")
    case True
    then have u: "deserialize_g1_compressed_unchecked (b # bs) = (cttCodecEcc_Success, Some (x, y))" "isInSubgroup P"
      using assms(2) by (auto simp: deserialize_g1_compressed_def src P
          split: prod.splits option.splits if_splits ctt_codec_ecc_status.splits)
    note d = deserialize_unchecked_Success [OF src(2) u(1)]
    have y: "y \<noteq> 0" "y \<ge> (fp_modulus - 1) div 2 \<longleftrightarrow> sign_flag b"
      using assms(4) [OF True] d(7) by (auto simp: P fp_modulus_def)
    have "fp_mul y y = (x ^ 3 + 4) mod fp_modulus"
      unfolding d(6) by (simp add: curve_eq_rhs_def fp_mul_def mod_simps power3_eq_cube)
    then show ?thesis
      using serialize_g1_general [OF src(2) d(1,2) y] d u(2) by (simp add: P src(1) fp_mul_def)
  next
    case False
    then have "deserialize_g1_compressed_unchecked (b # bs) = (cttCodecEcc_PointAtInfinity, Some P)"
      using assms(2,3) by (auto simp: deserialize_g1_compressed_def src
          split: prod.splits option.splits if_splits ctt_codec_ecc_status.splits)
    then have "src = 0b11000000 # replicate 47 0" "P = (0, 0)"
      by (auto simp: deserialize_unchecked_eq [OF src(2)] src(1) split: if_splits option.splits prod.splits bool.splits)
    then show ?thesis
      using False replicate_Suc [of 47 "0 :: byte"] by (simp add: serialize_g1_compressed_def g1_isNeutral_def)
  qed
qed

theorem g1_canonical_witness:
  "serialize_g1_compressed (0, 0) = 0b11000000 # replicate 47 0"
proof -
  have "deserialize_g1_compressed (\<lambda>P. False) (0b11000000 # replicate 47 0) = (cttCodecEcc_PointAtInfinity, Some (0, 0))"
    by (simp add: deserialize_g1_compressed_def deserialize_unchecked_eq)
  then show ?thesis
    using g1_canonical [of "0b11000000 # replicate 47 0" "\<lambda>P. False" cttCodecEcc_PointAtInfinity "(0, 0)"] by simp
qed

end
