(* ===== verification/Nim_ParallelFor.thy ===== *)
theory Nim_ParallelFor
  imports Prelude "HOL-Library.Multiset"
begin

text \<open>
  The parallel loops of \<^verbatim>\<open>constantine/threadpool/threadpool.nim\<close>: a loop task splits its upper
  range among idle workers while it runs, and merges the results of the split tasks at its end.
  Which workers are idle at which iteration is a parameter (\<open>idle\<close>), so that the lemmas hold for
  every schedule. That tasks run to their end, queues and futures are not modelled.
\<close>

section \<open>Loop tasks\<close>

record loop_task =
  loopStart :: int
  loopStop :: int
  loopStride :: int
  loopStepsLeft :: nat

definition loop_ceilDiv :: "int \<Rightarrow> int \<Rightarrow> int" where
  "loop_ceilDiv a b = (a + b - 1) div b"

definition newLoop :: "int \<Rightarrow> int \<Rightarrow> int \<Rightarrow> loop_task" where
  "newLoop start stop stride = \<lparr>loopStart = start, loopStop = stop, loopStride = stride,
     loopStepsLeft = nat (loop_ceilDiv (stop - start) stride)\<rparr>"

text \<open>The lower range that the task keeps, and the offsets and sizes of the chunks for the others.\<close>

definition splitUpperRanges :: "loop_task \<Rightarrow> int \<Rightarrow> nat \<Rightarrow> loop_task \<times> (int \<times> nat) list" where
  "splitUpperRanges task curLoopIndex approxIdle =
     (let availableWorkers = approxIdle + 1;
          baseChunkSize = loopStepsLeft task div availableWorkers;
          cutoff = loopStepsLeft task mod availableWorkers;
          left = baseChunkSize + (if 0 < cutoff then 1 else 0)
      in (task\<lparr>loopStepsLeft := left,
               loopStop := min (loopStop task) (curLoopIndex + int left * loopStride task)\<rparr>,
          map (\<lambda>chunkID.
                 if chunkID < cutoff
                 then (curLoopIndex + loopStride task * int (baseChunkSize + 1) * int chunkID, baseChunkSize + 1)
                 else (curLoopIndex + loopStride task * int (baseChunkSize * chunkID + cutoff), baseChunkSize))
            [1..<availableWorkers]))"

text \<open>The split tasks are pushed on the list of awaited tasks, so that the last one comes first.\<close>

definition splitAndDispatchLoop ::
  "loop_task \<Rightarrow> int \<Rightarrow> nat \<Rightarrow> loop_task list \<Rightarrow> loop_task \<times> loop_task list" where
  "splitAndDispatchLoop task curLoopIndex approxIdle reductionDAG =
     (let stop = loopStop task;
          (task, chunks) = splitUpperRanges task curLoopIndex approxIdle;
          upperSplits = map (\<lambda>(offset, numSteps). task\<lparr>loopStart := offset,
              loopStop := min stop (offset + int numSteps * loopStride task), loopStepsLeft := numSteps\<rparr>)
            (takeWhile (\<lambda>(offset, numSteps). numSteps \<noteq> 0) chunks)
      in (task, rev upperSplits @ reductionDAG))"

text \<open>
  \<^verbatim>\<open>loadBalanceLoop\<close>: \<open>idle start i\<close> is the number of idle workers it finds at iteration \<open>i\<close> of the
  task that starts at \<open>start\<close>, and 0 where it does not look (its backoff, or other tasks queued).
\<close>

definition loadBalanceLoop ::
  "(int \<Rightarrow> int \<Rightarrow> nat) \<Rightarrow> loop_task \<Rightarrow> int \<Rightarrow> loop_task list \<Rightarrow> loop_task \<times> loop_task list" where
  "loadBalanceLoop idle task curLoopIndex dag =
     (if 1 < loopStepsLeft task \<and> 0 < idle (loopStart task) curLoopIndex
      then splitAndDispatchLoop task curLoopIndex (idle (loopStart task) curLoopIndex) dag
      else (task, dag))"

lemma loadBalanceLoop_stop:
  "loadBalanceLoop idle t i dag = (t', dag') \<Longrightarrow>
   loopStop t' \<le> loopStop t \<and> loopStride t' = loopStride t \<and> loopStart t' = loopStart t"
  by (auto simp: loadBalanceLoop_def splitAndDispatchLoop_def splitUpperRanges_def Let_def split: if_splits)

text \<open>The iterations that a task runs itself, in order, and the tasks it awaits. A stride that is not
  positive, with which the loop of the code never ends, runs nothing here.\<close>

function loop_body ::
  "(int \<Rightarrow> int \<Rightarrow> nat) \<Rightarrow> loop_task \<Rightarrow> int \<Rightarrow> loop_task list \<Rightarrow> int list \<times> loop_task list" where
  "loop_body idle this idx dag =
     (if idx < loopStop this \<and> 0 < loopStride this then
        (case loadBalanceLoop idle this idx dag of (this, dag) \<Rightarrow>
         case loop_body idle (this\<lparr>loopStepsLeft := loopStepsLeft this - 1\<rparr>) (idx + loopStride this) dag of
           (rest, dag) \<Rightarrow> (idx # rest, dag))
      else ([], dag))"
  by pat_completeness auto
termination
  by (relation "measure (\<lambda>(idle, this, idx, dag). nat (loopStop this - idx))")
    (auto dest!: loadBalanceLoop_stop [OF sym])

declare loop_body.simps [simp del]

section \<open>Splitting keeps the iterations\<close>

text \<open>The iterations of a task that has \<open>n\<close> steps left at \<open>i\<close>.\<close>

definition steps :: "int \<Rightarrow> int \<Rightarrow> nat \<Rightarrow> int list" where
  "steps stride i n = map (\<lambda>k. i + int k * stride) [0..<n]"

definition task_inv :: "loop_task \<Rightarrow> int \<Rightarrow> bool" where
  "task_inv t i \<longleftrightarrow> 0 < loopStride t \<and> loopStop t \<le> i + int (loopStepsLeft t) * loopStride t \<and>
     (0 < loopStepsLeft t \<longrightarrow> i + (int (loopStepsLeft t) - 1) * loopStride t < loopStop t)"

definition task_steps :: "loop_task \<Rightarrow> int list" where
  "task_steps t = steps (loopStride t) (loopStart t) (loopStepsLeft t)"

lemma steps_0 [simp]: "steps s i 0 = []"
  by (simp add: steps_def)

lemma steps_Suc: "steps s i (Suc n) = i # steps s (i + s) n"
  by (simp add: steps_def upt_conv_Cons map_Suc_upt [symmetric] algebra_simps del: upt_Suc)

lemma steps_add: "steps s i (m + n) = steps s i m @ steps s (i + int m * s) n"
  by (induction m arbitrary: i) (simp_all add: steps_Suc algebra_simps)

text \<open>The \<open>k\<close>-th chunk of \<open>n\<close> steps for \<open>w\<close> workers, in steps.\<close>

definition chunk_size :: "nat \<Rightarrow> nat \<Rightarrow> nat \<Rightarrow> nat" where
  "chunk_size n w k = n div w + (if k < n mod w then 1 else 0)"

definition chunk_at :: "nat \<Rightarrow> nat \<Rightarrow> nat \<Rightarrow> nat" where
  "chunk_at n w k = n div w * k + min k (n mod w)"

lemma chunk_at_Suc: "chunk_at n w (Suc k) = chunk_at n w k + chunk_size n w k"
  by (auto simp: chunk_at_def chunk_size_def min_def)

lemma chunk_at_0 [simp]: "chunk_at n w 0 = 0"
  by (simp add: chunk_at_def)

lemma chunk_at_all: "0 < w \<Longrightarrow> chunk_at n w w = n"
  by (simp add: chunk_at_def min_absorb2 mult.commute)

lemma chunk_at_mono: "j \<le> k \<Longrightarrow> chunk_at n w j \<le> chunk_at n w k"
  by (induction k) (auto simp: chunk_at_Suc le_Suc_eq)

lemma first_chunk_less:
  assumes "1 < n" "1 < w" shows "chunk_size n w 0 < n"
proof (cases "n div w = 0")
  case True
  then show ?thesis using assms by (simp add: chunk_size_def)
next
  case False
  have "chunk_size n w 0 \<le> n div w + n mod w" by (simp add: chunk_size_def)
  also have "\<dots> < n div w * 2 + n mod w" using False by simp
  also have "\<dots> \<le> n div w * w + n mod w" using assms(2) by (intro add_right_mono mult_left_mono) simp_all
  finally show ?thesis by simp
qed

lemma first_chunk_pos: "0 < n \<Longrightarrow> 0 < chunk_size n w 0"
  using div_mult_mod_eq [of n w] by (auto simp: chunk_size_def)

lemma chunk_size_le_first: "chunk_size n w k \<le> chunk_size n w 0"
  by (simp add: chunk_size_def)

lemma splitUpperRanges_chunks:
  "splitUpperRanges t i idle =
     (let n = loopStepsLeft t; w = idle + 1; left = chunk_size n w 0 in
      (t\<lparr>loopStepsLeft := left, loopStop := min (loopStop t) (i + int left * loopStride t)\<rparr>,
       map (\<lambda>k. (i + loopStride t * int (chunk_at n w k), chunk_size n w k)) [1..<w]))"
  by (auto simp: splitUpperRanges_def chunk_size_def chunk_at_def Let_def min_def algebra_simps)

text \<open>The chunks of the others cover what the task gives away.\<close>

lemma chunks_cover:
  "1 \<le> k \<Longrightarrow> concat (map (\<lambda>j. steps s (i + s * int (chunk_at n w j)) (chunk_size n w j)) [1..<k]) =
   steps s (i + s * int (chunk_at n w 1)) (chunk_at n w k - chunk_at n w 1)"
proof (induction k rule: dec_induct)
  case (step k)
  obtain d where d: "chunk_at n w k = chunk_at n w 1 + d"
    using chunk_at_mono [OF step.hyps(1)] le_Suc_ex by blast
  then show ?case using step by (simp add: chunk_at_Suc steps_add algebra_simps)
qed simp

lemma takeWhile_sizes:
  "concat (map (\<lambda>(p, k). steps s p k) (takeWhile (\<lambda>(p, k). k \<noteq> 0) (map (\<lambda>j. (f j, chunk_size n w j)) [a..<b]))) =
   concat (map (\<lambda>j. steps s (f j) (chunk_size n w j)) [a..<b])"
proof (induction "b - a" arbitrary: a)
  case (Suc d)
  then have u: "[a..<b] = a # [Suc a..<b]" by (simp add: upt_conv_Cons)
  show ?case
  proof (cases "chunk_size n w a = 0")
    case True
    then have "chunk_size n w j = 0" if "a \<le> j" for j
      using that by (auto simp: chunk_size_def split: if_splits)
    then have "concat (map (\<lambda>j. steps s (f j) (chunk_size n w j)) [a..<b]) = []" by simp
    then show ?thesis using True by (simp add: u del: upt_Suc)
  next
    case False
    then show ?thesis using Suc(1) [of "Suc a"] Suc(2) by (simp add: u del: upt_Suc)
  qed
qed simp

lemma chunk_task_inv:
  assumes "0 < loopStride t" "i + (int n - 1) * loopStride t < loopStop t" "k < w"
  defines "at \<equiv> i + loopStride t * int (chunk_at n w k)"
  shows "task_inv (t\<lparr>loopStart := at, loopStop := min (loopStop t) (at + int (chunk_size n w k) * loopStride t),
    loopStepsLeft := chunk_size n w k\<rparr>) at"
proof -
  have "chunk_at n w (Suc k) \<le> chunk_at n w w" using assms(3) by (intro chunk_at_mono) simp
  also have "\<dots> = n" using assms(3) by (intro chunk_at_all) simp
  finally have "chunk_at n w k + chunk_size n w k \<le> n" by (simp only: chunk_at_Suc)
  then have "(int (chunk_at n w k) + int (chunk_size n w k) - 1) * loopStride t \<le> (int n - 1) * loopStride t"
    using assms(1) by (intro mult_right_mono) simp_all
  then have "at + (int (chunk_size n w k) - 1) * loopStride t < loopStop t"
    using assms(2) by (simp add: at_def algebra_simps)
  then show ?thesis using assms(1) by (simp add: task_inv_def algebra_simps)
qed

lemma mset_concat_map_rev: "mset (concat (map f (rev xs))) = mset (concat (map f xs))"
  by (induction xs) simp_all

lemma split_keeps_steps:
  assumes "task_inv t i" "1 < loopStepsLeft t" "0 < idle"
    and split: "splitAndDispatchLoop t i idle dag = (t', dag')"
  obtains new where "dag' = new @ dag" "task_inv t' i" "0 < loopStepsLeft t'" "loopStride t' = loopStride t"
    "mset (steps (loopStride t) i (loopStepsLeft t)) =
       mset (steps (loopStride t) i (loopStepsLeft t')) + mset (concat (map task_steps new))"
    "\<forall>c \<in> set new. task_inv c (loopStart c)"
proof -
  let ?n = "loopStepsLeft t" and ?w = "idle + 1" and ?s = "loopStride t"
  let ?at = "\<lambda>k. i + ?s * int (chunk_at ?n ?w k)" and ?left = "chunk_size ?n ?w 0"
  let ?child = "\<lambda>(p, k). t\<lparr>loopStart := p, loopStop := min (loopStop t) (p + int k * ?s), loopStepsLeft := k\<rparr>"
  let ?chunks = "takeWhile (\<lambda>(p, k). k \<noteq> 0) (map (\<lambda>k. (?at k, chunk_size ?n ?w k)) [1..<?w])"
  have s: "0 < ?s" and stop: "loopStop t \<le> i + int ?n * ?s" "i + (int ?n - 1) * ?s < loopStop t"
    using assms(1,2) by (auto simp: task_inv_def)
  have left: "?left < ?n" using assms(2,3) by (intro first_chunk_less) simp_all
  have t': "t' = t\<lparr>loopStepsLeft := ?left, loopStop := min (loopStop t) (i + int ?left * ?s)\<rparr>"
    and dag': "dag' = rev (map ?child ?chunks) @ dag"
    using split by (auto simp: splitAndDispatchLoop_def splitUpperRanges_chunks Let_def case_prod_beta)
  have "(int ?left) * ?s \<le> (int ?n - 1) * ?s" using left s by (intro mult_right_mono) simp_all
  then have keep: "i + int ?left * ?s < loopStop t" using stop by simp
  have pos: "0 < ?left"
    using assms(2) by (intro first_chunk_pos) simp
  have inv: "task_inv t' i" using pos s keep by (simp add: t' task_inv_def left_diff_distrib)
  have one: "chunk_at ?n ?w 1 = ?left" by (simp add: chunk_at_Suc)
  have "concat (map (task_steps \<circ> ?child) ?chunks) =
      concat (map (\<lambda>(p, k). steps ?s p k) ?chunks)"
    by (intro arg_cong [where f = concat] map_cong) (auto simp: task_steps_def)
  also have "\<dots> = steps ?s (?at 1) (?n - ?left)"
    using chunks_cover [of ?w ?s i ?n ?w] takeWhile_sizes [of ?s ?at ?n ?w 1 ?w] one
    by (simp add: chunk_at_all del: upt_Suc One_nat_def)
  finally have all: "mset (concat (map task_steps (rev (map ?child ?chunks)))) = mset (steps ?s (?at 1) (?n - ?left))"
    by (simp add: mset_concat_map_rev comp_def)
  show ?thesis
  proof (rule that [OF dag' inv])
    show "mset (steps ?s i ?n) = mset (steps ?s i (loopStepsLeft t')) +
        mset (concat (map task_steps (rev (map ?child ?chunks))))"
      unfolding all using steps_add [of ?s i ?left "?n - ?left"] left one by (simp add: t' mult.commute)
    show "\<forall>c \<in> set (rev (map ?child ?chunks)). task_inv c (loopStart c)"
      using s stop(2) by (auto intro!: chunk_task_inv dest!: set_takeWhileD)
  qed (use pos in \<open>simp_all add: t'\<close>)
qed

lemma steps_pos: "0 < n \<Longrightarrow> steps s i n = i # steps s (i + s) (n - 1)"
  by (cases n) (simp_all add: steps_Suc)

lemma loadBalanceLoop_steps:
  assumes "task_inv t i" "0 < loopStepsLeft t" "loadBalanceLoop idle t i dag = (t', dag')"
  obtains new where "dag' = new @ dag" "task_inv t' i" "0 < loopStepsLeft t'" "loopStride t' = loopStride t"
    "mset (steps (loopStride t) i (loopStepsLeft t)) =
       mset (steps (loopStride t) i (loopStepsLeft t')) + mset (concat (map task_steps new))"
    "\<forall>c \<in> set new. task_inv c (loopStart c)"
proof (cases "1 < loopStepsLeft t \<and> 0 < idle (loopStart t) i")
  case True
  then show ?thesis
    using split_keeps_steps [OF assms(1), of "idle (loopStart t) i"] assms(3) that by (auto simp: loadBalanceLoop_def)
next
  case False
  then show ?thesis using that [of "[]"] assms by (auto simp: loadBalanceLoop_def)
qed

lemma task_inv_next:
  "task_inv t i \<Longrightarrow> 0 < loopStepsLeft t \<Longrightarrow>
   task_inv (t\<lparr>loopStepsLeft := loopStepsLeft t - 1\<rparr>) (i + loopStride t)"
  by (auto simp: task_inv_def of_nat_diff algebra_simps)

lemma task_inv_running: "task_inv t i \<Longrightarrow> i < loopStop t \<longleftrightarrow> 0 < loopStepsLeft t"
  by (cases "loopStepsLeft t") (auto simp: task_inv_def intro: le_less_trans [rotated])

text \<open>What a task runs and what it awaits are the iterations it was given.\<close>

lemma loop_body_steps:
  assumes "task_inv t i" "loop_body idle t i dag = (own, dag')"
  shows "\<exists>new. dag' = new @ dag \<and> (\<forall>c \<in> set new. task_inv c (loopStart c)) \<and>
    mset own + mset (concat (map task_steps new)) = mset (steps (loopStride t) i (loopStepsLeft t))"
  using assms
proof (induction idle t i dag arbitrary: own dag' rule: loop_body.induct)
  case (1 idle t i dag)
  show ?case
  proof (cases "i < loopStop t")
    case False
    then have "loopStepsLeft t = 0" "own = []" "dag' = dag"
      using 1(2,3) task_inv_running [OF 1(2)] by (auto simp: loop_body.simps)
    then show ?thesis by simp
  next
    case True
    then have pos: "0 < loopStepsLeft t" "0 < loopStride t"
      using task_inv_running [OF 1(2)] 1(2) by (auto simp: task_inv_def)
    obtain t' d where l: "loadBalanceLoop idle t i dag = (t', d)" by fastforce
    from loadBalanceLoop_steps [OF 1(2) pos(1) l] obtain new where
      new: "d = new @ dag" "task_inv t' i" "0 < loopStepsLeft t'" "loopStride t' = loopStride t"
      "mset (steps (loopStride t) i (loopStepsLeft t)) =
         mset (steps (loopStride t) i (loopStepsLeft t')) + mset (concat (map task_steps new))"
      "\<forall>c \<in> set new. task_inv c (loopStart c)" .
    obtain rest where rest: "loop_body idle (t'\<lparr>loopStepsLeft := loopStepsLeft t' - 1\<rparr>) (i + loopStride t') d = (rest, dag')"
      and own: "own = i # rest"
      using 1(3) True pos(2) l by (subst (asm) loop_body.simps) (auto split: prod.splits)
    obtain new' where "dag' = new' @ d" "\<forall>c \<in> set new'. task_inv c (loopStart c)"
      "mset rest + mset (concat (map task_steps new')) = mset (steps (loopStride t) (i + loopStride t) (loopStepsLeft t' - 1))"
      using 1(1) [OF conjI [OF True pos(2)] l [symmetric] task_inv_next [OF new(2,3)] rest] new(4) by auto
    then show ?thesis
      using new own steps_pos [OF new(3), of "loopStride t" i]
      by (intro exI [of _ "new' @ new"]) (auto simp: ac_simps)
  qed
qed

section \<open>Reductions\<close>

text \<open>A split task has fewer steps than the task it was split from.\<close>

lemma loadBalanceLoop_fewer:
  assumes "loadBalanceLoop idle t i dag = (t', dag')"
  shows "loopStepsLeft t' \<le> loopStepsLeft t" "c \<in> set dag' \<Longrightarrow> c \<in> set dag \<or> loopStepsLeft c < loopStepsLeft t"
proof -
  let ?n = "loopStepsLeft t" and ?w = "idle (loopStart t) i + 1"
  have left: "chunk_size ?n ?w 0 < ?n" if "1 < ?n" "0 < idle (loopStart t) i"
    using that by (intro first_chunk_less) simp_all
  note split = assms [unfolded loadBalanceLoop_def splitAndDispatchLoop_def splitUpperRanges_chunks Let_def]
  show "loopStepsLeft t' \<le> ?n" using split left by (auto split: if_splits)
  assume "c \<in> set dag'"
  then show "c \<in> set dag \<or> loopStepsLeft c < ?n"
    using split left le_less_trans [OF chunk_size_le_first left] by (force split: if_splits dest: set_takeWhileD)
qed

lemma loop_body_fewer:
  "loop_body idle t i dag = (own, dag') \<Longrightarrow> c \<in> set dag' \<Longrightarrow> c \<in> set dag \<or> loopStepsLeft c < loopStepsLeft t"
proof (induction idle t i dag arbitrary: own dag' rule: loop_body.induct)
  case (1 idle t i dag)
  obtain t' d where l: "loadBalanceLoop idle t i dag = (t', d)" by fastforce
  show ?case
    using "1.IH" [OF _ l [symmetric]] "1.prems" l loadBalanceLoop_fewer [OF l]
    by (subst (asm) (2) loop_body.simps) (fastforce split: if_splits prod.splits)
qed

text \<open>
  \<^verbatim>\<open>parallelReduceWrapper\<close>: the loop over the own iterations, then the merges with the awaited
  tasks, the last split first.
\<close>

function parallelReduceWrapper ::
  "(int \<Rightarrow> int \<Rightarrow> nat) \<Rightarrow> 'w \<Rightarrow> ('w \<Rightarrow> int \<Rightarrow> 'w) \<Rightarrow> ('w \<Rightarrow> 'w \<Rightarrow> 'w) \<Rightarrow> loop_task \<Rightarrow> 'w" where
  "parallelReduceWrapper idle prologue forLoop merge this =
     (case loop_body idle this (loopStart this) [] of (own, reductionDAG) \<Rightarrow>
        foldl merge (foldl forLoop prologue own)
          (map (parallelReduceWrapper idle prologue forLoop merge) reductionDAG))"
  by pat_completeness auto
termination
  by (relation "measure (\<lambda>(idle, prologue, forLoop, merge, this). loopStepsLeft this)")
    (auto dest!: loop_body_fewer [OF sym])

declare parallelReduceWrapper.simps [simp del]

text \<open>The \<^verbatim>\<open>parallelFor\<close> with \<^verbatim>\<open>reduceInto\<close>: on an empty range no task is made and the future stays
  empty.\<close>

definition parallelFor_reduce ::
  "(int \<Rightarrow> int \<Rightarrow> nat) \<Rightarrow> 'w \<Rightarrow> ('w \<Rightarrow> int \<Rightarrow> 'w) \<Rightarrow> ('w \<Rightarrow> 'w \<Rightarrow> 'w) \<Rightarrow> int \<Rightarrow> int \<Rightarrow> int \<Rightarrow> 'w option" where
  "parallelFor_reduce idle prologue forLoop merge start stopEx stride =
     (if stopEx - start \<noteq> 0
      then Some (parallelReduceWrapper idle prologue forLoop merge (newLoop start stopEx stride)) else None)"

text \<open>The iterations in the order in which their results are merged.\<close>

definition trace :: "(int \<Rightarrow> int \<Rightarrow> nat) \<Rightarrow> loop_task \<Rightarrow> int list" where
  "trace idle = parallelReduceWrapper idle [] (\<lambda>xs i. xs @ [i]) (@)"

lemma foldl_snoc: "foldl (\<lambda>xs i. xs @ [i]) acc own = acc @ own"
  by (induction own arbitrary: acc) simp_all

lemma foldl_append_concat: "foldl (@) acc xss = acc @ concat xss"
  by (induction xss arbitrary: acc) simp_all

lemma trace_simp:
  "trace idle t = (case loop_body idle t (loopStart t) [] of (own, dag) \<Rightarrow> own @ concat (map (trace idle) dag))"
  by (simp add: trace_def parallelReduceWrapper.simps [of idle _ _ _ t] foldl_snoc foldl_append_concat split: prod.split)

lemma mset_trace: "task_inv t (loopStart t) \<Longrightarrow> mset (trace idle t) = mset (task_steps t)"
proof (induction "loopStepsLeft t" arbitrary: t rule: less_induct)
  case less
  obtain own dag where b: "loop_body idle t (loopStart t) [] = (own, dag)" by fastforce
  from loop_body_steps [OF less.prems b] have
    dag: "\<forall>c \<in> set dag. task_inv c (loopStart c)"
      "mset own + mset (concat (map task_steps dag)) = mset (task_steps t)"
    by (auto simp: task_steps_def)
  have "mset (trace idle c) = mset (task_steps c)" if "c \<in> set dag" for c
    using less.hyps dag(1) loop_body_fewer [OF b that] that by simp
  then have "mset (concat (map (trace idle) dag)) = mset (concat (map task_steps dag))"
    by (simp add: mset_concat comp_def cong: map_cong)
  then show ?case using dag(2) by (simp add: trace_simp [of idle t] b)
qed

lemma ceilDiv_bounds:
  assumes "0 < b" "0 < a"
  shows "a \<le> loop_ceilDiv a b * b" "(loop_ceilDiv a b - 1) * b < a" "0 < loop_ceilDiv a b"
proof -
  define q r where "q = (a + b - 1) div b" and "r = (a + b - 1) mod b"
  then have "q * b + r = a + b - 1" "0 \<le> r" "r < b" using assms by simp_all
  then show "a \<le> loop_ceilDiv a b * b" "(loop_ceilDiv a b - 1) * b < a"
    by (simp_all add: loop_ceilDiv_def left_diff_distrib flip: q_def)
  show "0 < loop_ceilDiv a b"
    using assms by (simp add: loop_ceilDiv_def pos_imp_zdiv_pos_iff)
qed

lemma newLoop_inv: "start < stop \<Longrightarrow> 0 < stride \<Longrightarrow> task_inv (newLoop start stop stride) start"
  using ceilDiv_bounds [of stride "stop - start"] by (simp add: newLoop_def task_inv_def)

text \<open>The iterations of a sequential loop.\<close>

definition loop_range :: "int \<Rightarrow> int \<Rightarrow> int \<Rightarrow> int list" where
  "loop_range start stop stride = filter (\<lambda>i. stride dvd i - start) [start..stop - 1]"

lemma set_loop_range_nat: "set (loop_range 0 (int n) 1) = int ` {..<n}"
proof
  show "set (loop_range 0 (int n) 1) \<subseteq> int ` {..<n}"
  proof
    fix i assume "i \<in> set (loop_range 0 (int n) 1)"
    then have "i = int (nat i)" "nat i < n" by (auto simp: loop_range_def)
    then show "i \<in> int ` {..<n}" by blast
  qed
qed (auto simp: loop_range_def)

lemma distinct_steps: "s \<noteq> 0 \<Longrightarrow> distinct (steps s i n)"
  by (simp add: steps_def distinct_map inj_on_def)

lemma set_task_steps:
  assumes "task_inv t (loopStart t)"
  shows "set (task_steps t) = {i. loopStart t \<le> i \<and> i < loopStop t \<and> loopStride t dvd i - loopStart t}"
proof -
  let ?s = "loopStride t" and ?n = "loopStepsLeft t" and ?a = "loopStart t"
  have s: "0 < ?s" and stop: "loopStop t \<le> ?a + int ?n * ?s" "0 < ?n \<Longrightarrow> ?a + (int ?n - 1) * ?s < loopStop t"
    using assms by (auto simp: task_inv_def)
  have "?a + int k * ?s < loopStop t" if "k < ?n" for k
  proof -
    have "int k * ?s \<le> (int ?n - 1) * ?s" using that s by (intro mult_right_mono) simp_all
    then show ?thesis using stop(2) that by linarith
  qed
  moreover have "\<exists>k < ?n. i = ?a + int k * ?s" if i: "?a \<le> i" "i < loopStop t" "?s dvd i - ?a" for i
  proof -
    obtain q where q: "i - ?a = ?s * q" using i(3) ..
    then have "0 \<le> ?s * q" using i(1) by simp
    then have "0 \<le> q" using s by (simp add: zero_le_mult_iff)
    moreover have "q * ?s < int ?n * ?s" using q i(2) stop(1) by (simp add: mult.commute)
    then have "q < int ?n" using s by simp
    ultimately show ?thesis using q by (intro exI [of _ "nat q"]) (auto simp: mult.commute)
  qed
  ultimately show ?thesis using s by (fastforce simp: task_steps_def steps_def image_iff)
qed

lemma mset_trace_range:
  assumes "start < stop" "0 < stride"
  shows "mset (trace idle (newLoop start stop stride)) = mset (loop_range start stop stride)"
proof -
  let ?t = "newLoop start stop stride"
  have inv: "task_inv ?t (loopStart ?t)" using newLoop_inv [OF assms] by (simp add: newLoop_def)
  have "mset (task_steps ?t) = mset (loop_range start stop stride)"
    using assms(2) set_task_steps [OF inv]
    by (subst set_eq_iff_mset_eq_distinct [symmetric])
      (auto simp: task_steps_def distinct_steps loop_range_def newLoop_def)
  then show ?thesis using mset_trace [OF inv] by simp
qed

section \<open>What a reduction computes\<close>

text \<open>The contract of the three sections of a reduction: they compute a function \<open>h\<close> of the
  iterations in pieces.\<close>

locale loop_reduction =
  fixes prologue :: 'w and forLoop :: "'w \<Rightarrow> int \<Rightarrow> 'w" and merge :: "'w \<Rightarrow> 'w \<Rightarrow> 'w" and h :: "int list \<Rightarrow> 'w"
  assumes no_iteration: "h [] = prologue"
    and iteration: "h (xs @ [i]) = forLoop (h xs) i"
    and pieces: "h (xs @ ys) = merge (h xs) (h ys)"
begin

lemma own_iterations: "foldl forLoop (h xs) own = h (xs @ own)"
  by (induction own arbitrary: xs) (simp_all add: iteration [symmetric])

lemma own_all: "foldl forLoop prologue own = h own"
  using own_iterations [of "[]" own] by (simp add: no_iteration)

lemma merge_pieces: "foldl merge (h xs) (map h yss) = h (xs @ concat yss)"
  by (induction yss arbitrary: xs) (simp_all add: pieces [symmetric])

lemma reduce_trace: "parallelReduceWrapper idle prologue forLoop merge t = h (trace idle t)"
proof (induction "loopStepsLeft t" arbitrary: t rule: less_induct)
  case less
  obtain own dag where b: "loop_body idle t (loopStart t) [] = (own, dag)" by fastforce
  have "map (parallelReduceWrapper idle prologue forLoop merge) dag = map h (map (trace idle) dag)"
    using less loop_body_fewer [OF b] by auto
  then show ?case
    by (subst parallelReduceWrapper.simps)
      (simp only: b own_all merge_pieces trace_simp [of idle t] prod.case)
qed

end

text \<open>The reductions of the library over statuses: the first status that is not \<open>ok\<close> is kept, in an
  iteration and in a merge.\<close>

definition keep_status :: "'s \<Rightarrow> 's \<Rightarrow> 's \<Rightarrow> 's" where
  "keep_status ok workerStatus status = (if workerStatus = ok then status else workerStatus)"

fun first_status :: "'s \<Rightarrow> (int \<Rightarrow> 's) \<Rightarrow> int list \<Rightarrow> 's" where
  "first_status ok f [] = ok"
| "first_status ok f (i # xs) = keep_status ok (f i) (first_status ok f xs)"

lemma keep_status_laws [simp]:
  "keep_status ok ok s = s" "keep_status ok s ok = s"
  "keep_status ok (keep_status ok s t) u = keep_status ok s (keep_status ok t u)"
  by (simp_all add: keep_status_def)

lemma first_status_append [simp]:
  "first_status ok f (xs @ ys) = keep_status ok (first_status ok f xs) (first_status ok f ys)"
  by (induction xs) simp_all

interpretation statuses: loop_reduction ok "\<lambda>w i. keep_status ok w (f i)" "keep_status ok" "first_status ok f"
  for ok :: 's and f :: "int \<Rightarrow> 's"
  by unfold_locales simp_all

lemma first_status_ok: "first_status ok f xs = ok \<longleftrightarrow> (\<forall>i \<in> set xs. f i = ok)"
  by (induction xs) (auto simp: keep_status_def)

lemma first_status_mem: "first_status ok f xs = ok \<or> (\<exists>i \<in> set xs. first_status ok f xs = f i)"
  by (induction xs) (auto simp: keep_status_def)

lemma parallelFor_status:
  assumes "start < stop" "0 < stride"
  obtains st where "parallelFor_reduce idle ok (\<lambda>w i. keep_status ok w (f i)) (keep_status ok) start stop stride = Some st"
    "st = ok \<longleftrightarrow> (\<forall>i \<in> set (loop_range start stop stride). f i = ok)"
    "st = ok \<or> (\<exists>i \<in> set (loop_range start stop stride). st = f i)"
proof -
  let ?xs = "trace idle (newLoop start stop stride)"
  have "set ?xs = set (loop_range start stop stride)"
    using mset_trace_range [OF assms] by (rule mset_eq_setD)
  then show ?thesis
    using that [of "first_status ok f ?xs"] assms(1) first_status_ok [of ok f ?xs] first_status_mem [of ok f ?xs]
    by (simp add: parallelFor_reduce_def statuses.reduce_trace)
qed

lemma parallelFor_status_nat:
  assumes "0 < n"
  obtains st where "parallelFor_reduce idle ok (\<lambda>w i. keep_status ok w (f i)) (keep_status ok) 0 (int n) 1 = Some st"
    "st = ok \<longleftrightarrow> (\<forall>i < n. f (int i) = ok)" "st = ok \<or> (\<exists>i < n. st = f (int i))"
proof -
  obtain st where "parallelFor_reduce idle ok (\<lambda>w i. keep_status ok w (f i)) (keep_status ok) 0 (int n) 1 = Some st"
    "st = ok \<longleftrightarrow> (\<forall>i \<in> int ` {..<n}. f i = ok)" "st = ok \<or> (\<exists>i \<in> int ` {..<n}. st = f i)"
    by (rule parallelFor_status [of 0 "int n" 1 idle ok f]) (use assms in \<open>auto simp: set_loop_range_nat\<close>)
  then show ?thesis by (intro that [of st]) auto
qed

text \<open>C5: whatever the idle workers a parallel loop finds while it runs, the splits and
  their merges run every iteration of the sequential loop exactly once, and the reduction over
  statuses ends with success exactly when all iterations succeed, with the status of a failing
  iteration otherwise.\<close>

theorem parallel_loop_once:
  assumes "start < stop" "0 < stride"
  shows "mset (trace idle (newLoop start stop stride)) = mset (loop_range start stop stride) \<and>
    (\<exists>st. parallelFor_reduce idle ok (\<lambda>w i. keep_status ok w (f i)) (keep_status ok) start stop stride = Some st \<and>
      (st = ok \<longleftrightarrow> (\<forall>i \<in> set (loop_range start stop stride). f i = ok)) \<and>
      (st = ok \<or> (\<exists>i \<in> set (loop_range start stop stride). st = f i)))"
  using mset_trace_range [OF assms, of idle] by (auto intro: parallelFor_status [OF assms, of idle ok f])

theorem parallel_loop_once_witness:
  "mset (trace (\<lambda>a i. if i = 0 then 2 else if i = 10 then 1 else 0) (newLoop 0 15 2)) =
     mset [0, 2, 4, 6, 8, 10, 12, 14]"
  using parallel_loop_once [of 0 15 2 "\<lambda>a i. if i = 0 then 2 else if i = 10 then 1 else 0" True "\<lambda>i. i = 6"]
  by (simp add: loop_range_def upto.simps)

end
