(* ===== verification/Nim_KZG.thy ===== *)
theory Nim_KZG
  imports Nim_Codecs Nim_ParallelFor Sha256 Rust_KZG
begin

text \<open>
  The EIP-4844 procedures of \<^verbatim>\<open>constantine/ethereum_eip4844_kzg.nim\<close> and
  \<^verbatim>\<open>ethereum_eip4844_kzg_parallel.nim\<close> on byte strings: conversions, Fiat-Shamir challenges, the
  blinding factor of a batch, and the order in which inputs are checked. The commitment scheme itself
  (\<^verbatim>\<open>commitments/kzg.nim\<close>) is written over the curve operations of \<open>kzg_core\<close>.
\<close>

section \<open>The commitment scheme\<close>

record ('c, 'g2) kzg_core =
  isInSubgroup :: "g1_aff \<Rightarrow> bool"
  multiScalarMul :: "nat list \<Rightarrow> g1_aff list \<Rightarrow> g1_aff"
  g1_sum :: "g1_aff \<Rightarrow> g1_aff \<Rightarrow> g1_aff"
  g1_diff :: "g1_aff \<Rightarrow> g1_aff \<Rightarrow> g1_aff"
  g1_mulGenerator :: "nat \<Rightarrow> g1_aff"
  g2_mulGenerator :: "nat \<Rightarrow> 'g2"
  g2_diff :: "'g2 \<Rightarrow> 'g2 \<Rightarrow> 'g2"
  negG2 :: "'g2"
  pairing_check :: "g1_aff \<Rightarrow> 'g2 \<Rightarrow> g1_aff \<Rightarrow> 'g2 \<Rightarrow> bool"
  tauG2 :: "'c \<Rightarrow> 'g2"
  srs_lagrange_brp_g1 :: "'c \<Rightarrow> g1_aff list"
  getQuotientPoly :: "'c \<Rightarrow> nat list \<Rightarrow> nat \<Rightarrow> nat list \<times> nat"
  evalPolyAt :: "'c \<Rightarrow> nat list \<Rightarrow> nat \<Rightarrow> nat"

definition kzg_commit :: "('c, 'g2) kzg_core \<Rightarrow> 'c \<Rightarrow> nat list \<Rightarrow> g1_aff" where
  "kzg_commit C ctx poly = multiScalarMul C poly (srs_lagrange_brp_g1 C ctx)"

definition kzg_prove :: "('c, 'g2) kzg_core \<Rightarrow> 'c \<Rightarrow> nat list \<Rightarrow> nat \<Rightarrow> nat \<times> g1_aff" where
  "kzg_prove C ctx poly opening_challenge =
     (let (quotientPoly, eval_at_challenge) = getQuotientPoly C ctx poly opening_challenge
      in (eval_at_challenge, multiScalarMul C quotientPoly (srs_lagrange_brp_g1 C ctx)))"

definition kzg_verify :: "('c, 'g2) kzg_core \<Rightarrow> 'c \<Rightarrow> g1_aff \<Rightarrow> nat \<Rightarrow> nat \<Rightarrow> g1_aff \<Rightarrow> bool" where
  "kzg_verify C ctx commitment opening_challenge eval_at_challenge proof =
     (let tau_minus_challenge_G2 = g2_diff C (tauG2 C ctx) (g2_mulGenerator C opening_challenge);
          commitment_minus_eval_at_challenge_G1 = g1_diff C commitment (g1_mulGenerator C eval_at_challenge)
      in pairing_check C proof tau_minus_challenge_G2 commitment_minus_eval_at_challenge_G1 (negG2 C))"

definition kzg_verify_batch ::
  "('c, 'g2) kzg_core \<Rightarrow> 'c \<Rightarrow> g1_aff list \<Rightarrow> nat list \<Rightarrow> nat list \<Rightarrow> g1_aff list \<Rightarrow> nat list \<Rightarrow> bool" where
  "kzg_verify_batch C ctx commitments challenges evals_at_challenges proofs linearIndepRandNumbers =
     (let coefs = linearIndepRandNumbers;
          sum_rand_proofs = multiScalarMul C coefs proofs;
          commits_min_evals = map2 (\<lambda>c e. g1_diff C c (g1_mulGenerator C e)) commitments evals_at_challenges;
          sum_commit_minus_evals_G1 = multiScalarMul C coefs commits_min_evals;
          coefs = map2 (\<lambda>r z. r * z mod fr_modulus) linearIndepRandNumbers challenges;
          sum_rand_challenge_proofs = multiScalarMul C coefs proofs;
          sum_of_sums = g1_sum C sum_commit_minus_evals_G1 sum_rand_challenge_proofs
      in pairing_check C sum_rand_proofs (tauG2 C ctx) sum_of_sums (negG2 C))"

text \<open>\<^verbatim>\<open>computePowers\<close> with \<^verbatim>\<open>skipOne = true\<close>: \<open>cur\<close> is the entry written next.\<close>

fun powers_loop :: "nat \<Rightarrow> nat \<Rightarrow> nat \<Rightarrow> nat list" where
  "powers_loop cur base 0 = []"
| "powers_loop cur base (Suc n) = cur # powers_loop (cur * base mod fr_modulus) base n"

definition computePowers :: "nat \<Rightarrow> nat \<Rightarrow> nat list" where
  "computePowers base n = powers_loop base base n"

section \<open>Fiat-Shamir challenges\<close>

definition asBytes :: "string \<Rightarrow> byte list" where
  "asBytes s = map (\<lambda>c. of_nat (of_char c)) s"

definition FIELD_ELEMENTS_PER_BLOB :: nat where
  "FIELD_ELEMENTS_PER_BLOB = 4096"

definition fromDigest :: "byte list \<Rightarrow> nat" where
  "fromDigest src = limbs_val (snd (unmarshalBE (replicate 4 0) src)) mod fr_modulus"

definition fiatShamirChallenge :: "byte list \<Rightarrow> byte list \<Rightarrow> nat" where
  "fiatShamirChallenge blob commitmentBytes =
     (let transcript = sha256_init;
          transcript = sha256_update transcript (asBytes ''FSBLOBVERIFY_V1_'');
          transcript = sha256_update transcript (replicate (16 - 8) 0);
          transcript = sha256_update transcript (be_bytes 8 FIELD_ELEMENTS_PER_BLOB);
          transcript = sha256_update transcript blob;
          transcript = sha256_update transcript commitmentBytes;
          opening_challenge = snd (sha256_finish transcript)
      in fromDigest opening_challenge)"

definition getBatchBlindingFactor :: "byte list \<Rightarrow> nat option" where
  "getBatchBlindingFactor secureRandomBytes =
     (if \<exists>b \<in> set secureRandomBytes. b \<noteq> 0
      then let dst = fromDigest secureRandomBytes in if dst \<noteq> 0 then Some dst else None
      else None)"

text \<open>The challenges lie in memory as little-endian Montgomery residues.\<close>

definition montgomery_bytes :: "nat \<Rightarrow> byte list" where
  "montgomery_bytes c = rev (be_bytes 32 (c * 2 ^ 256 mod fr_modulus))"

definition challenges_hash :: "nat list \<Rightarrow> nat" where
  "challenges_hash opening_challenges =
     (let transcript = sha256_update sha256_init (asBytes ''RCKZGBATCH___V1_'');
          transcript = sha256_update transcript (concat (map montgomery_bytes opening_challenges));
          blindingBytes = snd (sha256_finish transcript)
      in fromDigest blindingBytes)"

section \<open>Conversions\<close>

definition bytes_to_bls_bigint :: "byte list \<Rightarrow> ctt_codec_scalar_status \<times> nat" where
  "bytes_to_bls_bigint src =
     (let (status, dst) = deserialize_scalar src
      in if status \<notin> {cttCodecScalar_Success, cttCodecScalar_Zero} then (status, dst)
         else (cttCodecScalar_Success, dst))"

definition bytes_to_bls_field :: "byte list \<Rightarrow> ctt_codec_scalar_status \<times> nat" where
  "bytes_to_bls_field src =
     (let (status, scalar) = deserialize_scalar src
      in if status \<notin> {cttCodecScalar_Success, cttCodecScalar_Zero} then (status, scalar)
         else (cttCodecScalar_Success, scalar mod fr_modulus))"

definition bytes_to_kzg_commitment ::
  "('c, 'g2) kzg_core \<Rightarrow> byte list \<Rightarrow> ctt_codec_ecc_status \<times> g1_aff option" where
  "bytes_to_kzg_commitment C src =
     (let (status, dst) = deserialize_g1_compressed (isInSubgroup C) src
      in if status = cttCodecEcc_PointAtInfinity then (cttCodecEcc_Success, dst) else (status, dst))"

definition bytes_to_kzg_proof ::
  "('c, 'g2) kzg_core \<Rightarrow> byte list \<Rightarrow> ctt_codec_ecc_status \<times> g1_aff option" where
  "bytes_to_kzg_proof C src =
     (let (status, dst) = deserialize_g1_compressed (isInSubgroup C) src
      in if status = cttCodecEcc_PointAtInfinity then (cttCodecEcc_Success, dst) else (status, dst))"

text \<open>The view of a buffer as an array of \<open>n\<close> elements of \<open>sz\<close> bytes.\<close>

definition view :: "nat \<Rightarrow> nat \<Rightarrow> byte list \<Rightarrow> byte list list" where
  "view n sz bs = map (\<lambda>i. take sz (drop (i * sz) bs)) [0..<n]"

text \<open>The conversion loop: it stops at the first element that is refused.\<close>

fun polynomial_loop ::
  "(byte list \<Rightarrow> ctt_codec_scalar_status \<times> nat) \<Rightarrow> byte list list \<Rightarrow> ctt_codec_scalar_status \<times> nat list" where
  "polynomial_loop convert [] = (cttCodecScalar_Success, [])"
| "polynomial_loop convert (src # srcs) =
     (let (status, eval) = convert src
      in if status \<noteq> cttCodecScalar_Success then (status, [])
         else let (status, evals) = polynomial_loop convert srcs in (status, eval # evals))"

definition blob_to_bigint_polynomial :: "byte list \<Rightarrow> ctt_codec_scalar_status \<times> nat list" where
  "blob_to_bigint_polynomial blob = polynomial_loop bytes_to_bls_bigint (view FIELD_ELEMENTS_PER_BLOB 32 blob)"

definition blob_to_field_polynomial :: "byte list \<Rightarrow> ctt_codec_scalar_status \<times> nat list" where
  "blob_to_field_polynomial blob = polynomial_loop bytes_to_bls_field (view FIELD_ELEMENTS_PER_BLOB 32 blob)"

section \<open>Procedures\<close>

text \<open>The templates \<^verbatim>\<open>?\<close> and \<^verbatim>\<open>check\<close>: which codec statuses leave the procedure, and with what.\<close>

fun scalar_error :: "ctt_codec_scalar_status \<Rightarrow> ctt_eth_kzg_status option" where
  "scalar_error cttCodecScalar_Success = None"
| "scalar_error cttCodecScalar_Zero = None"
| "scalar_error cttCodecScalar_ScalarLargerThanCurveOrder = Some cttEthKzg_ScalarLargerThanCurveOrder"

fun ecc_error :: "ctt_codec_ecc_status \<Rightarrow> ctt_eth_kzg_status option" where
  "ecc_error cttCodecEcc_Success = None"
| "ecc_error cttCodecEcc_InvalidEncoding = Some cttEthKzg_EccInvalidEncoding"
| "ecc_error cttCodecEcc_CoordinateGreaterThanOrEqualModulus =
     Some cttEthKzg_EccCoordinateGreaterThanOrEqualModulus"
| "ecc_error cttCodecEcc_PointNotOnCurve = Some cttEthKzg_EccPointNotOnCurve"
| "ecc_error cttCodecEcc_PointNotInSubgroup = Some cttEthKzg_EccPointNotInSubgroup"
| "ecc_error cttCodecEcc_PointAtInfinity = None"

primrec rbind :: "('a, 'e) result \<Rightarrow> ('a \<Rightarrow> ('b, 'e) result) \<Rightarrow> ('b, 'e) result" where
  "rbind (Ok x) f = f x"
| "rbind (Err e) f = Err e"

definition check_scalar :: "ctt_codec_scalar_status \<times> 'a \<Rightarrow> ('a, ctt_eth_kzg_status) result" where
  "check_scalar r = (case scalar_error (fst r) of None \<Rightarrow> Ok (snd r) | Some e \<Rightarrow> Err e)"

definition check_point :: "ctt_codec_ecc_status \<times> 'a option \<Rightarrow> ('a, ctt_eth_kzg_status) result" where
  "check_point r = (case ecc_error (fst r) of None \<Rightarrow> Ok (the (snd r)) | Some e \<Rightarrow> Err e)"

definition verif_status :: "bool \<Rightarrow> ctt_eth_kzg_status" where
  "verif_status verif = (if verif then cttEthKzg_Success else cttEthKzg_VerificationFailure)"

definition status_of :: "(ctt_eth_kzg_status, ctt_eth_kzg_status) result \<Rightarrow> ctt_eth_kzg_status" where
  "status_of r = (case r of Ok st \<Rightarrow> st | Err st \<Rightarrow> st)"

definition marshal_fr :: "nat \<Rightarrow> byte list" where
  "marshal_fr y = snd (marshalBE (replicate 32 0) (to_limbs 4 y))"

definition nim_blob_to_kzg_commitment ::
  "('c, 'g2) kzg_core \<Rightarrow> 'c \<Rightarrow> byte list \<Rightarrow> (byte list, ctt_eth_kzg_status) result" where
  "nim_blob_to_kzg_commitment C ctx blob =
     rbind (check_scalar (blob_to_bigint_polynomial blob)) (\<lambda>poly.
     Ok (serialize_g1_compressed (kzg_commit C ctx poly)))"

definition nim_compute_kzg_proof ::
  "('c, 'g2) kzg_core \<Rightarrow> 'c \<Rightarrow> byte list \<Rightarrow> byte list \<Rightarrow> (byte list \<times> byte list, ctt_eth_kzg_status) result" where
  "nim_compute_kzg_proof C ctx blob z_bytes =
     rbind (check_scalar (bytes_to_bls_field z_bytes)) (\<lambda>z.
     rbind (check_scalar (blob_to_field_polynomial blob)) (\<lambda>poly.
     let (y, proof) = kzg_prove C ctx poly z
     in Ok (serialize_g1_compressed proof, marshal_fr y)))"

definition nim_verify_kzg_proof ::
  "('c, 'g2) kzg_core \<Rightarrow> 'c \<Rightarrow> byte list \<Rightarrow> byte list \<Rightarrow> byte list \<Rightarrow> byte list \<Rightarrow> ctt_eth_kzg_status" where
  "nim_verify_kzg_proof C ctx commitment_bytes z_bytes y_bytes proof_bytes = status_of (
     rbind (check_point (bytes_to_kzg_commitment C commitment_bytes)) (\<lambda>commitment.
     rbind (check_scalar (bytes_to_bls_bigint z_bytes)) (\<lambda>opening_challenge.
     rbind (check_scalar (bytes_to_bls_bigint y_bytes)) (\<lambda>eval_at_challenge.
     rbind (check_point (bytes_to_kzg_proof C proof_bytes)) (\<lambda>proof.
     Ok (verif_status (kzg_verify C ctx commitment opening_challenge eval_at_challenge proof)))))))"

definition nim_compute_blob_kzg_proof ::
  "('c, 'g2) kzg_core \<Rightarrow> 'c \<Rightarrow> byte list \<Rightarrow> byte list \<Rightarrow> (byte list, ctt_eth_kzg_status) result" where
  "nim_compute_blob_kzg_proof C ctx blob commitment_bytes =
     rbind (check_point (bytes_to_kzg_commitment C commitment_bytes)) (\<lambda>commitment.
     rbind (check_scalar (blob_to_field_polynomial blob)) (\<lambda>poly.
     let opening_challenge = fiatShamirChallenge blob commitment_bytes;
         (y, proof) = kzg_prove C ctx poly opening_challenge
     in Ok (serialize_g1_compressed proof)))"

definition nim_verify_blob_kzg_proof ::
  "('c, 'g2) kzg_core \<Rightarrow> 'c \<Rightarrow> byte list \<Rightarrow> byte list \<Rightarrow> byte list \<Rightarrow> ctt_eth_kzg_status" where
  "nim_verify_blob_kzg_proof C ctx blob commitment_bytes proof_bytes = status_of (
     rbind (check_point (bytes_to_kzg_commitment C commitment_bytes)) (\<lambda>commitment.
     rbind (check_point (bytes_to_kzg_proof C proof_bytes)) (\<lambda>proof.
     rbind (check_scalar (blob_to_field_polynomial blob)) (\<lambda>poly.
     let opening_challenge = fiatShamirChallenge blob commitment_bytes;
         eval_at_challenge = evalPolyAt C ctx poly opening_challenge
     in Ok (verif_status (kzg_verify C ctx commitment opening_challenge eval_at_challenge proof))))))"

text \<open>The loop of the batch verification over (blob, commitment, proof); what it collects for each is
  the commitment, the challenge, the evaluation and the proof.\<close>

fun batch_loop ::
  "('c, 'g2) kzg_core \<Rightarrow> 'c \<Rightarrow> (byte list \<times> byte list \<times> byte list) list \<Rightarrow>
   ((g1_aff \<times> nat \<times> nat \<times> g1_aff) list, ctt_eth_kzg_status) result" where
  "batch_loop C ctx [] = Ok []"
| "batch_loop C ctx ((blob, commitment_bytes, proof_bytes) # sets) =
     rbind (check_point (bytes_to_kzg_commitment C commitment_bytes)) (\<lambda>commitment.
     rbind (check_scalar (blob_to_field_polynomial blob)) (\<lambda>poly.
     let opening_challenge = fiatShamirChallenge blob commitment_bytes;
         eval_at_challenge = evalPolyAt C ctx poly opening_challenge
     in rbind (check_point (bytes_to_kzg_proof C proof_bytes)) (\<lambda>proof.
        rbind (batch_loop C ctx sets) (\<lambda>rest.
        Ok ((commitment, opening_challenge, eval_at_challenge, proof) # rest)))))"

definition batch_verif ::
  "('c, 'g2) kzg_core \<Rightarrow> 'c \<Rightarrow> (g1_aff \<times> nat \<times> nat \<times> g1_aff) list \<Rightarrow> nat \<Rightarrow> bool" where
  "batch_verif C ctx vs randomBlindingFr =
     kzg_verify_batch C ctx (map fst vs) (map (fst \<circ> snd) vs) (map (fst \<circ> snd \<circ> snd) vs)
       (map (snd \<circ> snd \<circ> snd) vs) (computePowers randomBlindingFr (length vs))"

definition nim_verify_blob_kzg_proof_batch ::
  "('c, 'g2) kzg_core \<Rightarrow> 'c \<Rightarrow> byte list list \<Rightarrow> byte list list \<Rightarrow> byte list list \<Rightarrow> int \<Rightarrow> byte list \<Rightarrow>
   ctt_eth_kzg_status" where
  "nim_verify_blob_kzg_proof_batch C ctx blobs commitments_bytes proof_bytes n secureRandomBytes =
     (if n < 0 then cttEthKzg_VerificationFailure
      else if n = 0 then cttEthKzg_Success
      else status_of (
        rbind (batch_loop C ctx (zip blobs (zip commitments_bytes proof_bytes))) (\<lambda>vs.
        let randomBlindingFr =
              (case getBatchBlindingFactor secureRandomBytes of
                 Some r \<Rightarrow> r
               | None \<Rightarrow> challenges_hash (map (fst \<circ> snd) vs))
        in Ok (verif_status (batch_verif C ctx vs randomBlindingFr)))))"

section \<open>The parallel procedures\<close>

text \<open>The results of the parallel scalar multiplications and evaluations are those of the sequential
  ones; \<open>idle\<close> is the schedule of the conversion loop.\<close>

definition blob_to_field_polynomial_parallel ::
  "(int \<Rightarrow> int \<Rightarrow> nat) \<Rightarrow> byte list \<Rightarrow> ctt_codec_scalar_status \<times> nat list" where
  "blob_to_field_polynomial_parallel idle blob =
     (let src = view FIELD_ELEMENTS_PER_BLOB 32 blob
      in (the (parallelFor_reduce idle cttCodecScalar_Success
                 (\<lambda>workerStatus i. keep_status cttCodecScalar_Success workerStatus (fst (bytes_to_bls_field (src ! nat i))))
                 (keep_status cttCodecScalar_Success) 0 (int FIELD_ELEMENTS_PER_BLOB) 1),
          map (snd \<circ> bytes_to_bls_field) src))"

definition blob_to_bigint_polynomial_parallel ::
  "(int \<Rightarrow> int \<Rightarrow> nat) \<Rightarrow> byte list \<Rightarrow> ctt_codec_scalar_status \<times> nat list" where
  "blob_to_bigint_polynomial_parallel idle blob =
     (let src = view FIELD_ELEMENTS_PER_BLOB 32 blob
      in (the (parallelFor_reduce idle cttCodecScalar_Success
                 (\<lambda>workerStatus i. keep_status cttCodecScalar_Success workerStatus (fst (bytes_to_bls_bigint (src ! nat i))))
                 (keep_status cttCodecScalar_Success) 0 (int FIELD_ELEMENTS_PER_BLOB) 1),
          map (snd \<circ> bytes_to_bls_bigint) src))"

definition nim_blob_to_kzg_commitment_parallel where
  "nim_blob_to_kzg_commitment_parallel C idle ctx blob =
     rbind (check_scalar (blob_to_bigint_polynomial_parallel idle blob)) (\<lambda>poly.
     Ok (serialize_g1_compressed (kzg_commit C ctx poly)))"

definition nim_compute_kzg_proof_parallel where
  "nim_compute_kzg_proof_parallel C idle ctx blob z_bytes =
     rbind (check_scalar (bytes_to_bls_field z_bytes)) (\<lambda>z.
     rbind (check_scalar (blob_to_field_polynomial_parallel idle blob)) (\<lambda>poly.
     let (y, proof) = kzg_prove C ctx poly z
     in Ok (serialize_g1_compressed proof, marshal_fr y)))"

definition nim_compute_blob_kzg_proof_parallel where
  "nim_compute_blob_kzg_proof_parallel C idle ctx blob commitment_bytes =
     rbind (check_point (bytes_to_kzg_commitment C commitment_bytes)) (\<lambda>commitment.
     let convStatus = blob_to_field_polynomial_parallel idle blob;
         opening_challenge = fiatShamirChallenge blob commitment_bytes
     in rbind (check_scalar convStatus) (\<lambda>poly.
        let (y, proof) = kzg_prove C ctx poly opening_challenge
        in Ok (serialize_g1_compressed proof)))"

definition nim_verify_blob_kzg_proof_parallel where
  "nim_verify_blob_kzg_proof_parallel C idle ctx blob commitment_bytes proof_bytes = status_of (
     rbind (check_point (bytes_to_kzg_commitment C commitment_bytes)) (\<lambda>commitment.
     rbind (check_point (bytes_to_kzg_proof C proof_bytes)) (\<lambda>proof.
     let convStatus = blob_to_field_polynomial_parallel idle blob;
         opening_challenge = fiatShamirChallenge blob commitment_bytes
     in rbind (check_scalar convStatus) (\<lambda>poly.
        let eval_at_challenge = evalPolyAt C ctx poly opening_challenge
        in Ok (verif_status (kzg_verify C ctx commitment opening_challenge eval_at_challenge proof))))))"

text \<open>\<^verbatim>\<open>kzgifyStatus\<close>, and the body of the parallel loop over the verification sets: all three
  conversions run, and the first that fails sets the status of the worker.\<close>

definition kzgify_scalar :: "ctt_codec_scalar_status \<Rightarrow> ctt_eth_kzg_status" where
  "kzgify_scalar status = (case scalar_error status of None \<Rightarrow> cttEthKzg_Success | Some e \<Rightarrow> e)"

definition kzgify_ecc :: "ctt_codec_ecc_status \<Rightarrow> ctt_eth_kzg_status" where
  "kzgify_ecc status = (case ecc_error status of None \<Rightarrow> cttEthKzg_Success | Some e \<Rightarrow> e)"

definition batch_body ::
  "('c, 'g2) kzg_core \<Rightarrow> (int \<Rightarrow> int \<Rightarrow> nat) \<Rightarrow> (byte list \<times> byte list \<times> byte list) \<Rightarrow> ctt_eth_kzg_status \<Rightarrow>
   ctt_eth_kzg_status" where
  "batch_body C idle vset workerStatus =
     (let (blob, commitment_bytes, proof_bytes) = vset;
          commitmentStatus = kzgify_ecc (fst (bytes_to_kzg_commitment C commitment_bytes));
          workerStatus = keep_status cttEthKzg_Success workerStatus commitmentStatus;
          polyStatus = kzgify_scalar (fst (blob_to_field_polynomial_parallel idle blob));
          workerStatus = keep_status cttEthKzg_Success workerStatus polyStatus;
          proofStatus = kzgify_ecc (fst (bytes_to_kzg_proof C proof_bytes))
      in keep_status cttEthKzg_Success workerStatus proofStatus)"

text \<open>What the loop leaves in the arrays for a set.\<close>

definition batch_entry ::
  "('c, 'g2) kzg_core \<Rightarrow> (int \<Rightarrow> int \<Rightarrow> nat) \<Rightarrow> 'c \<Rightarrow> (byte list \<times> byte list \<times> byte list) \<Rightarrow>
   g1_aff \<times> nat \<times> nat \<times> g1_aff" where
  "batch_entry C idle ctx vset =
     (let (blob, commitment_bytes, proof_bytes) = vset;
          opening_challenge = fiatShamirChallenge blob commitment_bytes
      in (the (snd (bytes_to_kzg_commitment C commitment_bytes)), opening_challenge,
          evalPolyAt C ctx (snd (blob_to_field_polynomial_parallel idle blob)) opening_challenge,
          the (snd (bytes_to_kzg_proof C proof_bytes))))"

text \<open>\<open>inner i\<close> is the schedule of the conversion loop of set \<open>i\<close>.\<close>

definition nim_verify_blob_kzg_proof_batch_parallel ::
  "('c, 'g2) kzg_core \<Rightarrow> (int \<Rightarrow> int \<Rightarrow> nat) \<Rightarrow> (int \<Rightarrow> int \<Rightarrow> int \<Rightarrow> nat) \<Rightarrow> 'c \<Rightarrow>
   byte list list \<Rightarrow> byte list list \<Rightarrow> byte list list \<Rightarrow> int \<Rightarrow> byte list \<Rightarrow> ctt_eth_kzg_status" where
  "nim_verify_blob_kzg_proof_batch_parallel C idle inner ctx blobs commitments_bytes proof_bytes n secureRandomBytes =
     (if n < 0 then cttEthKzg_VerificationFailure
      else if n = 0 then cttEthKzg_Success
      else
        let sets = zip blobs (zip commitments_bytes proof_bytes);
            result = the (parallelFor_reduce idle cttEthKzg_Success
              (\<lambda>workerStatus i. batch_body C (inner i) (sets ! nat i) workerStatus)
              (keep_status cttEthKzg_Success) 0 n 1)
        in if result \<noteq> cttEthKzg_Success then result
           else
             let vs = map (\<lambda>i. batch_entry C (inner (int i)) ctx (sets ! i)) [0..<nat n];
                 randomBlindingFr =
                   (if \<exists>b \<in> set secureRandomBytes. b \<noteq> 0 then fromDigest secureRandomBytes
                    else challenges_hash (map (fst \<circ> snd) vs))
             in verif_status (batch_verif C ctx vs randomBlindingFr))"

end
