(* ===== verification/KZG_Protocol.thy ===== *)
theory KZG_Protocol
  imports Nim_KZG KZG_Calls
begin

text \<open>
  What the EIP-4844 procedures compute, and the Rust calls end to end over them: which inputs are
  accepted, the Fiat-Shamir challenge as a FIPS 180-4 digest, the parallel procedures under every
  schedule, and the blinding of the parallel batch verification.
\<close>

section \<open>Scalars and blobs\<close>

lemma bls_scalar_eq:
  assumes "length src = 32"
  shows "bytes_to_bls_bigint src =
     (if fr_modulus \<le> be_val src then (cttCodecScalar_ScalarLargerThanCurveOrder, 0)
      else (cttCodecScalar_Success, be_val src))"
    "bytes_to_bls_field src = bytes_to_bls_bigint src"
  using assms by (auto simp: bytes_to_bls_bigint_def bytes_to_bls_field_def deserialize_scalar_eq)
    (auto simp: fr_modulus_def)

text \<open>The field elements of a blob, all below the curve order.\<close>

definition blob_values :: "byte list \<Rightarrow> (nat list, ctt_eth_kzg_status) result" where
  "blob_values blob =
     (if \<forall>x \<in> set (view 4096 32 blob). be_val x < fr_modulus then Ok (map be_val (view 4096 32 blob))
      else Err cttEthKzg_ScalarLargerThanCurveOrder)"

lemma length_view: "length (view n sz bs) = n"
  by (simp add: view_def)

lemma view_sizes: "length bs = n * sz \<Longrightarrow> x \<in> set (view n sz bs) \<Longrightarrow> length x = sz"
proof -
  assume l: "length bs = n * sz" and "x \<in> set (view n sz bs)"
  then obtain i where i: "i < n" "x = take sz (drop (i * sz) bs)" by (auto simp: view_def)
  have "i * sz + sz \<le> n * sz" using i(1) by (metis add.commute mult_Suc Suc_leI mult_le_mono1)
  then show ?thesis using i l by simp
qed

lemma polynomial_loop_values:
  assumes "\<forall>x \<in> set xs. length x = 32" "\<And>x. length x = 32 \<Longrightarrow> convert x = bytes_to_bls_bigint x"
  shows "check_scalar (polynomial_loop convert xs) =
    (if \<forall>x \<in> set xs. be_val x < fr_modulus then Ok (map be_val xs) else Err cttEthKzg_ScalarLargerThanCurveOrder)"
  using assms(1)
proof (induction xs)
  case (Cons x xs)
  obtain st evals where l: "polynomial_loop convert xs = (st, evals)" by fastforce
  show ?case
    using Cons l assms(2) [of x] by (cases st) (auto simp: check_scalar_def bls_scalar_eq split: if_splits)
qed (simp add: check_scalar_def)

lemma blob_polynomial_values:
  assumes "length blob = 131072"
  shows "check_scalar (blob_to_bigint_polynomial blob) = blob_values blob"
    "check_scalar (blob_to_field_polynomial blob) = blob_values blob"
proof -
  have v: "\<forall>x \<in> set (view 4096 32 blob). length x = 32"
    using view_sizes [of blob 4096 32] assms by auto
  show "check_scalar (blob_to_bigint_polynomial blob) = blob_values blob"
    using polynomial_loop_values [OF v, of bytes_to_bls_bigint]
    by (simp add: blob_to_bigint_polynomial_def blob_values_def FIELD_ELEMENTS_PER_BLOB_def)
  show "check_scalar (blob_to_field_polynomial blob) = blob_values blob"
    using polynomial_loop_values [OF v, of bytes_to_bls_field]
    by (simp add: blob_to_field_polynomial_def blob_values_def FIELD_ELEMENTS_PER_BLOB_def bls_scalar_eq)
qed

text \<open>The parallel conversions give the same, whatever the schedule.\<close>

lemma parallel_values:
  fixes xs :: "byte list list"
  assumes "\<forall>x \<in> set xs. length x = 32" "\<And>x. length x = 32 \<Longrightarrow> convert x = bytes_to_bls_bigint x" "xs \<noteq> []"
  shows "check_scalar (the (parallelFor_reduce idle cttCodecScalar_Success
      (\<lambda>w i. keep_status cttCodecScalar_Success w (fst (convert (xs ! nat i)))) (keep_status cttCodecScalar_Success)
      0 (int (length xs)) 1), map (snd \<circ> convert) xs) =
    (if \<forall>x \<in> set xs. be_val x < fr_modulus then Ok (map be_val xs) else Err cttEthKzg_ScalarLargerThanCurveOrder)"
proof -
  let ?f = "\<lambda>i. fst (convert (xs ! nat i))"
  obtain st where st: "parallelFor_reduce idle cttCodecScalar_Success (\<lambda>w i. keep_status cttCodecScalar_Success w (?f i))
      (keep_status cttCodecScalar_Success) 0 (int (length xs)) 1 = Some st"
    and ok: "st = cttCodecScalar_Success \<longleftrightarrow> (\<forall>i < length xs. ?f (int i) = cttCodecScalar_Success)"
    and err: "st = cttCodecScalar_Success \<or> (\<exists>i < length xs. st = ?f (int i))"
    by (rule parallelFor_status_nat [of "length xs" idle cttCodecScalar_Success ?f]) (use assms(3) in simp, rule that)
  have f: "convert (xs ! i) = (if fr_modulus \<le> be_val (xs ! i) then (cttCodecScalar_ScalarLargerThanCurveOrder, 0)
      else (cttCodecScalar_Success, be_val (xs ! i)))" if "i < length xs" for i
    using assms(1,2) that by (simp add: bls_scalar_eq)
  have "st = cttCodecScalar_Success \<longleftrightarrow> (\<forall>x \<in> set xs. be_val x < fr_modulus)"
    unfolding ok all_set_conv_all_nth using f by (auto simp: not_le split: if_splits)
  moreover have "st = cttCodecScalar_Success \<or> st = cttCodecScalar_ScalarLargerThanCurveOrder"
    using err f by (auto split: if_splits)
  moreover have "map (snd \<circ> convert) xs = map be_val xs" if "\<forall>x \<in> set xs. be_val x < fr_modulus"
    using f that [unfolded all_set_conv_all_nth] by (simp add: list_eq_iff_nth_eq flip: not_less)
  ultimately show ?thesis by (auto simp: st check_scalar_def)
qed

lemma parallel_polynomial_values:
  assumes "length blob = 131072"
  shows "check_scalar (blob_to_bigint_polynomial_parallel idle blob) = blob_values blob"
    "check_scalar (blob_to_field_polynomial_parallel idle blob) = blob_values blob"
proof -
  have v: "\<forall>x \<in> set (view 4096 32 blob). length x = 32" "view 4096 32 blob \<noteq> []"
    using view_sizes [of blob 4096 32] assms length_view [of 4096 32 blob] by auto
  show "check_scalar (blob_to_bigint_polynomial_parallel idle blob) = blob_values blob"
    using parallel_values [OF v(1) _ v(2), of bytes_to_bls_bigint]
    by (simp add: blob_to_bigint_polynomial_parallel_def blob_values_def FIELD_ELEMENTS_PER_BLOB_def length_view Let_def)
  show "check_scalar (blob_to_field_polynomial_parallel idle blob) = blob_values blob"
    using parallel_values [OF v(1) _ v(2), of bytes_to_bls_field]
    by (simp add: blob_to_field_polynomial_parallel_def blob_values_def FIELD_ELEMENTS_PER_BLOB_def length_view
        bls_scalar_eq Let_def)
qed

section \<open>Challenges and points\<close>

lemma fromDigest_eq: "length src = 32 \<Longrightarrow> fromDigest src = be_val src mod fr_modulus"
  by (simp add: fromDigest_def unmarshalBE_val)

lemma sha256_pieces:
  "snd (sha256_finish (foldl sha256_update sha256_init messages)) = fips_sha256 (concat messages)"
  using finish_digest [OF ctx_inv_stream [OF ctx_inv_init]] by simp

text \<open>\<^verbatim>\<open>compute_challenge\<close> of the consensus specification.\<close>

definition compute_challenge :: "byte list \<Rightarrow> byte list \<Rightarrow> nat" where
  "compute_challenge blob commitment =
     be_val (fips_sha256 (asBytes ''FSBLOBVERIFY_V1_'' @ be_bytes 16 4096 @ blob @ commitment)) mod fr_modulus"

lemma be_bytes_wide: "be_bytes 16 4096 = replicate 8 0 @ be_bytes 8 4096"
  using be_bytes_append [of 8 8 4096] by (simp add: be_bytes_zero)

lemma fiatShamirChallenge_eq: "fiatShamirChallenge blob com = compute_challenge blob com"
  using sha256_pieces [of "[asBytes ''FSBLOBVERIFY_V1_'', replicate 8 0, be_bytes 8 4096, blob, com]"]
  by (simp add: fiatShamirChallenge_def compute_challenge_def fromDigest_eq be_bytes_wide FIELD_ELEMENTS_PER_BLOB_def Let_def)

text \<open>The point of an accepted encoding, or the error.\<close>

definition decode_point :: "('c, 'g2) kzg_core \<Rightarrow> byte list \<Rightarrow> (g1_aff, ctt_eth_kzg_status) result" where
  "decode_point C src = check_point (bytes_to_kzg_commitment C src)"

lemma bytes_to_kzg_proof_eq: "bytes_to_kzg_proof C = bytes_to_kzg_commitment C"
  by (simp add: fun_eq_iff bytes_to_kzg_proof_def bytes_to_kzg_commitment_def)

definition decode_scalar :: "byte list \<Rightarrow> (nat, ctt_eth_kzg_status) result" where
  "decode_scalar src =
     (if be_val src < fr_modulus then Ok (be_val src) else Err cttEthKzg_ScalarLargerThanCurveOrder)"

lemma check_scalar_bytes:
  "length src = 32 \<Longrightarrow> check_scalar (bytes_to_bls_bigint src) = decode_scalar src"
  "length src = 32 \<Longrightarrow> check_scalar (bytes_to_bls_field src) = decode_scalar src"
  by (simp_all add: bls_scalar_eq check_scalar_def decode_scalar_def)

lemma ecc_error_not_verdict:
  "ecc_error st = Some e \<Longrightarrow> e \<noteq> cttEthKzg_Success \<and> e \<noteq> cttEthKzg_VerificationFailure"
  by (cases st) auto

lemma decode_point_Err: "decode_point C src = Err e \<Longrightarrow> e \<noteq> cttEthKzg_Success \<and> e \<noteq> cttEthKzg_VerificationFailure"
  by (auto simp: decode_point_def check_point_def split: option.splits dest: ecc_error_not_verdict)

lemma rbind_Ok_iff: "rbind r f = Ok y \<longleftrightarrow> (\<exists>x. r = Ok x \<and> f x = Ok y)"
  by (cases r) auto

lemma decode_point_Ok:
  assumes "length src = 48"
  shows "decode_point C src = Ok P \<longleftrightarrow>
    deserialize_g1_compressed (isInSubgroup C) src = (cttCodecEcc_Success, Some P) \<or>
    deserialize_g1_compressed (isInSubgroup C) src = (cttCodecEcc_PointAtInfinity, Some P)"
proof -
  obtain b bs where src: "src = b # bs" "length bs = 47" using assms by (cases src) auto
  obtain st Q where d: "deserialize_g1_compressed (isInSubgroup C) src = (st, Q)" by fastforce
  then have "Q \<noteq> None" if "st = cttCodecEcc_Success \<or> st = cttCodecEcc_PointAtInfinity"
    using that unfolding src deserialize_g1_compressed_def deserialize_unchecked_eq [OF src(2)]
    by (auto split: if_splits option.splits prod.splits bool.splits)
  then show ?thesis
    by (cases st) (auto simp: d decode_point_def check_point_def bytes_to_kzg_commitment_def)
qed

section \<open>What the procedures accept\<close>

lemma status_of_rbind_Success:
  "status_of (rbind (decode_point C src) f) = cttEthKzg_Success \<longleftrightarrow>
     (\<exists>P. decode_point C src = Ok P \<and> status_of (f P) = cttEthKzg_Success)"
  "status_of (rbind (decode_scalar b) g) = cttEthKzg_Success \<longleftrightarrow>
     (\<exists>v. decode_scalar b = Ok v \<and> status_of (g v) = cttEthKzg_Success)"
  "status_of (rbind (blob_values b) h) = cttEthKzg_Success \<longleftrightarrow>
     (\<exists>p. blob_values b = Ok p \<and> status_of (h p) = cttEthKzg_Success)"
  by (cases "decode_point C src"; force simp: status_of_def decode_scalar_def blob_values_def dest: decode_point_Err)+

lemma verif_status_Success [simp]:
  "status_of (Ok (verif_status v)) = cttEthKzg_Success \<longleftrightarrow> v"
  "verif_status v = cttEthKzg_Success \<longleftrightarrow> v"
  by (simp_all add: status_of_def verif_status_def)

lemmas point_checks = decode_point_def [symmetric] bytes_to_kzg_proof_eq

lemma verify_kzg_proof_accepts:
  assumes "length z = 32" "length y = 32"
  shows "nim_verify_kzg_proof C ctx com z y proof = cttEthKzg_Success \<longleftrightarrow>
    (\<exists>P Q. decode_point C com = Ok P \<and> decode_point C proof = Ok Q \<and>
       be_val z < fr_modulus \<and> be_val y < fr_modulus \<and> kzg_verify C ctx P (be_val z) (be_val y) Q)"
  by (simp add: nim_verify_kzg_proof_def point_checks check_scalar_bytes assms status_of_rbind_Success)
    (auto simp: decode_scalar_def split: if_splits)

lemma verify_blob_accepts:
  assumes "length blob = 131072"
  shows "nim_verify_blob_kzg_proof C ctx blob com proof = cttEthKzg_Success \<longleftrightarrow>
    (\<exists>P Q ys. decode_point C com = Ok P \<and> decode_point C proof = Ok Q \<and> blob_values blob = Ok ys \<and>
       kzg_verify C ctx P (compute_challenge blob com) (evalPolyAt C ctx ys (compute_challenge blob com)) Q)"
  by (simp add: nim_verify_blob_kzg_proof_def point_checks blob_polynomial_values assms status_of_rbind_Success
      fiatShamirChallenge_eq Let_def)

section \<open>The parallel procedures\<close>

lemma parallel_same:
  assumes "length blob = 131072"
  shows "nim_blob_to_kzg_commitment_parallel C idle ctx blob = nim_blob_to_kzg_commitment C ctx blob"
    "nim_compute_kzg_proof_parallel C idle ctx blob z = nim_compute_kzg_proof C ctx blob z"
    "nim_compute_blob_kzg_proof_parallel C idle ctx blob com = nim_compute_blob_kzg_proof C ctx blob com"
    "nim_verify_blob_kzg_proof_parallel C idle ctx blob com proof = nim_verify_blob_kzg_proof C ctx blob com proof"
  by (simp_all add: nim_blob_to_kzg_commitment_parallel_def nim_blob_to_kzg_commitment_def
      nim_compute_kzg_proof_parallel_def nim_compute_kzg_proof_def nim_compute_blob_kzg_proof_parallel_def
      nim_compute_blob_kzg_proof_def nim_verify_blob_kzg_proof_parallel_def nim_verify_blob_kzg_proof_def
      parallel_polynomial_values blob_polynomial_values assms Let_def)

text \<open>What a verification set of a batch amounts to: a decoding error, or its commitment, challenge,
  evaluation and proof.\<close>

definition set_entry ::
  "('c, 'g2) kzg_core \<Rightarrow> 'c \<Rightarrow> (byte list \<times> byte list \<times> byte list) \<Rightarrow>
   (g1_aff \<times> nat \<times> nat \<times> g1_aff, ctt_eth_kzg_status) result" where
  "set_entry C ctx vset =
     (case vset of (blob, com, proof) \<Rightarrow>
        rbind (decode_point C com) (\<lambda>P.
        rbind (blob_values blob) (\<lambda>ys.
        rbind (decode_point C proof) (\<lambda>Q.
        Ok (P, compute_challenge blob com, evalPolyAt C ctx ys (compute_challenge blob com), Q)))))"

definition set_decodes :: "('c, 'g2) kzg_core \<Rightarrow> 'c \<Rightarrow> (byte list \<times> byte list \<times> byte list) \<Rightarrow> bool" where
  "set_decodes C ctx vset \<longleftrightarrow> (case set_entry C ctx vset of Ok _ \<Rightarrow> True | Err _ \<Rightarrow> False)"

lemma rbind_assoc: "rbind (rbind r f) g = rbind r (\<lambda>x. rbind (f x) g)"
  by (cases r) auto

lemma batch_loop_Cons:
  "length (fst vset) = 131072 \<Longrightarrow> batch_loop C ctx (vset # sets) =
     rbind (set_entry C ctx vset) (\<lambda>v. rbind (batch_loop C ctx sets) (\<lambda>vs. Ok (v # vs)))"
  by (cases vset) (simp add: set_entry_def point_checks blob_polynomial_values fiatShamirChallenge_eq Let_def rbind_assoc)

lemma set_entry_Err: "set_entry C ctx vset = Err e \<Longrightarrow> e \<noteq> cttEthKzg_Success \<and> e \<noteq> cttEthKzg_VerificationFailure"
  by (cases vset; cases "decode_point C (fst (snd vset))"; cases "decode_point C (snd (snd vset))"; cases "blob_values (fst vset)")
    (auto simp: set_entry_def blob_values_def dest: decode_point_Err split: if_splits)

lemma batch_loop_result:
  assumes "\<forall>s \<in> set sets. length (fst s) = 131072"
  shows "case batch_loop C ctx sets of
      Ok vs \<Rightarrow> map (set_entry C ctx) sets = map Ok vs
    | Err e \<Rightarrow> \<exists>s \<in> set sets. set_entry C ctx s = Err e"
  using assms
proof (induction sets)
  case (Cons s sets)
  then show ?case
    by (cases "set_entry C ctx s"; cases "batch_loop C ctx sets") (auto simp: batch_loop_Cons)
qed simp

lemma batch_loop_all:
  assumes "\<forall>s \<in> set sets. length (fst s) = 131072"
  shows "(\<forall>s \<in> set sets. set_decodes C ctx s) \<longleftrightarrow> (\<exists>vs. batch_loop C ctx sets = Ok vs)"
proof (cases "batch_loop C ctx sets")
  case (Ok vs)
  then have "map (set_entry C ctx) sets = map Ok vs" using batch_loop_result [OF assms, of C ctx] by simp
  then have "set_entry C ctx ` set sets = Ok ` set vs" by (metis (no_types) set_map)
  then have "\<forall>s \<in> set sets. \<exists>v. set_entry C ctx s = Ok v" by blast
  then show ?thesis using Ok by (fastforce simp: set_decodes_def)
next
  case (Err e)
  then obtain s where "s \<in> set sets" "set_entry C ctx s = Err e"
    using batch_loop_result [OF assms, of C ctx] by auto
  then have "\<not> set_decodes C ctx s" by (simp add: set_decodes_def)
  then show ?thesis using Err \<open>s \<in> set sets\<close> by auto
qed

lemma kzgify_checks:
  "kzgify_ecc (fst r) = (case check_point r of Ok _ \<Rightarrow> cttEthKzg_Success | Err e \<Rightarrow> e)"
  "kzgify_scalar (fst q) = (case check_scalar q of Ok _ \<Rightarrow> cttEthKzg_Success | Err e \<Rightarrow> e)"
  by (simp_all add: kzgify_ecc_def kzgify_scalar_def check_point_def check_scalar_def split: option.split)

definition entry_status :: "('c, 'g2) kzg_core \<Rightarrow> 'c \<Rightarrow> (byte list \<times> byte list \<times> byte list) \<Rightarrow> ctt_eth_kzg_status" where
  "entry_status C ctx vset = (case set_entry C ctx vset of Ok _ \<Rightarrow> cttEthKzg_Success | Err e \<Rightarrow> e)"

lemma entry_status_Success: "entry_status C ctx vset = cttEthKzg_Success \<longleftrightarrow> set_decodes C ctx vset"
  by (cases "set_entry C ctx vset") (auto simp: entry_status_def set_decodes_def dest: set_entry_Err)

lemma batch_body_eq:
  assumes "length (fst vset) = 131072"
  shows "batch_body C idle vset w = keep_status cttEthKzg_Success w (entry_status C ctx vset)"
proof -
  obtain blob com pbs where v: "vset = (blob, com, pbs)" by (cases vset)
  have e: "e \<noteq> cttEthKzg_Success" if "blob_values blob = Err e \<or> decode_point C src = Err e" for e src
    using that decode_point_Err [of C src e] by (auto simp: blob_values_def split: if_splits)
  show ?thesis
    using assms e
    by (cases "decode_point C com"; cases "blob_values blob"; cases "decode_point C pbs")
      (auto simp: v batch_body_def entry_status_def set_entry_def kzgify_checks point_checks parallel_polynomial_values
        keep_status_def)
qed

lemma batch_entry_eq:
  assumes "length (fst vset) = 131072" "set_entry C ctx vset = Ok v"
  shows "batch_entry C idle ctx vset = v"
proof -
  obtain blob com pbs where s: "vset = (blob, com, pbs)" by (cases vset)
  obtain P Q ys where d: "decode_point C com = Ok P" "decode_point C pbs = Ok Q" "blob_values blob = Ok ys"
    and v: "v = (P, compute_challenge blob com, evalPolyAt C ctx ys (compute_challenge blob com), Q)"
    using assms(2) by (auto simp: s set_entry_def rbind_Ok_iff)
  have "snd (blob_to_field_polynomial_parallel idle blob) = ys"
    using parallel_polynomial_values(2) [of blob idle] assms(1) d(3) by (auto simp: s check_scalar_def split: option.splits)
  then show ?thesis
    using d by (auto simp: s v batch_entry_def fiatShamirChallenge_eq bytes_to_kzg_proof_eq decode_point_def check_point_def
        Let_def split: option.splits)
qed

lemma batch_body_keep:
  "batch_body C idle vset w = keep_status cttEthKzg_Success w (batch_body C idle vset cttEthKzg_Success)"
  by (simp add: batch_body_def Let_def split: prod.split)

text \<open>The status of the parallel loop over the sets.\<close>

lemma batch_statuses:
  assumes "0 < n" "length sets = n" "\<forall>s \<in> set sets. length (fst s) = 131072"
  obtains st where "parallelFor_reduce idle cttEthKzg_Success
      (\<lambda>w i. batch_body C (inner i) (sets ! nat i) w) (keep_status cttEthKzg_Success) 0 (int n) 1 = Some st"
    "st = cttEthKzg_Success \<longleftrightarrow> (\<forall>s \<in> set sets. set_decodes C ctx s)"
    "st = cttEthKzg_Success \<or> (\<exists>s \<in> set sets. set_entry C ctx s = Err st)"
proof -
  let ?f = "\<lambda>i. batch_body C (inner i) (sets ! nat i) cttEthKzg_Success"
  obtain st where r: "parallelFor_reduce idle cttEthKzg_Success (\<lambda>w i. keep_status cttEthKzg_Success w (?f i))
      (keep_status cttEthKzg_Success) 0 (int n) 1 = Some st"
    and ok: "st = cttEthKzg_Success \<longleftrightarrow> (\<forall>i < n. ?f (int i) = cttEthKzg_Success)"
    and err: "st = cttEthKzg_Success \<or> (\<exists>i < n. st = ?f (int i))"
    by (rule parallelFor_status_nat [of n idle cttEthKzg_Success ?f]) (use assms(1) in simp, rule that)
  have f: "batch_body C (inner (int i)) (sets ! i) cttEthKzg_Success = entry_status C ctx (sets ! i)" if "i < n" for i
    using assms that batch_body_eq [of "sets ! i" C "inner (int i)" cttEthKzg_Success ctx] by simp
  show ?thesis
  proof (rule that [of st])
    show "parallelFor_reduce idle cttEthKzg_Success (\<lambda>w i. batch_body C (inner i) (sets ! nat i) w)
        (keep_status cttEthKzg_Success) 0 (int n) 1 = Some st"
      using r by (simp add: batch_body_keep [symmetric])
    show "st = cttEthKzg_Success \<longleftrightarrow> (\<forall>s \<in> set sets. set_decodes C ctx s)"
      unfolding ok all_set_conv_all_nth assms(2) by (simp add: f entry_status_Success)
    show "st = cttEthKzg_Success \<or> (\<exists>s \<in> set sets. set_entry C ctx s = Err st)"
      using err f assms(2) by (auto simp: entry_status_def split: result.splits)
  qed
qed

lemma batch_entries:
  assumes "\<forall>s \<in> set sets. length (fst s) = 131072" "map (set_entry C ctx) sets = map Ok vs"
  shows "map (\<lambda>i. batch_entry C (inner (int i)) ctx (sets ! i)) [0..<length sets] = vs"
proof -
  have len: "length vs = length sets" using arg_cong [OF assms(2), of length] by simp
  have "set_entry C ctx (sets ! i) = Ok (vs ! i)" if "i < length sets" for i
    using arg_cong [OF assms(2), of "\<lambda>xs. xs ! i"] that len by simp
  then have "batch_entry C (inner (int i)) ctx (sets ! i) = vs ! i" if "i < length sets" for i
    using batch_entry_eq [of "sets ! i" C ctx "vs ! i" "inner (int i)"] assms(1) that by simp
  then show ?thesis by (intro nth_equalityI) (simp_all add: len)
qed

lemma batch_parallel_result:
  assumes "0 < n" "length blobs = n" "length coms = n" "length proofs = n" "\<forall>x \<in> set blobs. length x = 131072"
  defines "sets \<equiv> zip blobs (zip coms proofs)"
  shows "case batch_loop C ctx sets of
      Ok vs \<Rightarrow> nim_verify_blob_kzg_proof_batch_parallel C idle inner ctx blobs coms proofs (int n) rnd =
        verif_status (batch_verif C ctx vs
          (if \<exists>b \<in> set rnd. b \<noteq> 0 then fromDigest rnd else challenges_hash (map (fst \<circ> snd) vs)))
    | Err e \<Rightarrow> \<exists>s \<in> set sets. set_entry C ctx s =
        Err (nim_verify_blob_kzg_proof_batch_parallel C idle inner ctx blobs coms proofs (int n) rnd)"
proof -
  have sets: "length sets = n" "\<forall>s \<in> set sets. length (fst s) = 131072"
    using assms(2-5) by (auto simp: sets_def dest: set_zip_leftD)
  obtain st where st: "parallelFor_reduce idle cttEthKzg_Success
      (\<lambda>w i. batch_body C (inner i) (sets ! nat i) w) (keep_status cttEthKzg_Success) 0 (int n) 1 = Some st"
    "st = cttEthKzg_Success \<longleftrightarrow> (\<forall>s \<in> set sets. set_decodes C ctx s)"
    "st = cttEthKzg_Success \<or> (\<exists>s \<in> set sets. set_entry C ctx s = Err st)"
    by (rule batch_statuses [OF assms(1) sets, of idle C inner ctx])
  note p = nim_verify_blob_kzg_proof_batch_parallel_def [of C idle inner ctx blobs coms proofs "int n" rnd,
      folded sets_def, unfolded st(1) Let_def option.sel]
  show ?thesis
  proof (cases "batch_loop C ctx sets")
    case (Ok vs)
    then have m: "map (set_entry C ctx) sets = map Ok vs" using batch_loop_result [OF sets(2), of C ctx] by simp
    have "\<forall>s \<in> set sets. set_decodes C ctx s" using Ok batch_loop_all [OF sets(2), of C ctx] by simp
    then show ?thesis
      using batch_entries [OF sets(2) m, of inner] st(2) assms(1) by (simp add: Ok p sets(1))
  next
    case (Err e)
    then have "st \<noteq> cttEthKzg_Success" using batch_loop_all [OF sets(2), of C ctx] st(2) by simp
    then show ?thesis using st(3) assms(1) by (simp add: Err p)
  qed
qed

lemma batch_schedules:
  assumes "0 < n" "length blobs = n" "length coms = n" "length proofs = n" "\<forall>x \<in> set blobs. length x = 131072"
    and "length rnd = 32"
  shows "(let sets = zip blobs (zip coms proofs);
         sequential = nim_verify_blob_kzg_proof_batch C ctx blobs coms proofs (int n) rnd;
         parallel = nim_verify_blob_kzg_proof_batch_parallel C idle inner ctx blobs coms proofs (int n) rnd
     in if \<forall>s \<in> set sets. set_decodes C ctx s
        then be_val rnd = 0 \<or> be_val rnd mod fr_modulus \<noteq> 0 \<longrightarrow> parallel = sequential
        else (\<exists>s \<in> set sets. set_entry C ctx s = Err parallel) \<and> (\<exists>s \<in> set sets. set_entry C ctx s = Err sequential))"
proof -
  define sets where "sets = zip blobs (zip coms proofs)"
  have sets: "\<forall>s \<in> set sets. length (fst s) = 131072"
    using assms(5) by (auto simp: sets_def dest: set_zip_leftD)
  have zero: "be_val rnd = 0 \<longleftrightarrow> \<not> (\<exists>b \<in> set rnd. b \<noteq> 0)"
    by (induction rnd) (auto simp: unat_eq_zero)
  note P = batch_parallel_result [OF assms(1-5), of C idle inner ctx rnd, folded sets_def]
  note S = nim_verify_blob_kzg_proof_batch_def [of C ctx blobs coms proofs "int n" rnd, folded sets_def]
  have all: "(\<forall>s \<in> set sets. set_decodes C ctx s) \<longleftrightarrow> (\<exists>vs. batch_loop C ctx sets = Ok vs)"
    using batch_loop_all [OF sets] .
  show ?thesis
  proof (cases "batch_loop C ctx sets")
    case (Ok vs)
    then show ?thesis
      using P all assms(1,6) zero
      by (simp add: S sets_def [symmetric] Let_def getBatchBlindingFactor_def fromDigest_eq status_of_def)
  next
    case (Err e)
    then have none: "(\<forall>s \<in> set sets. set_decodes C ctx s) = False" using all by simp
    show ?thesis
      unfolding Let_def sets_def [symmetric] none if_False
      using Err P assms(1) batch_loop_result [OF sets, of C ctx] by (simp add: S status_of_def)
  qed
qed


section \<open>The Rust calls over these procedures\<close>

text \<open>The protocol functions of the library contract as the Nim code computes them; \<open>E\<close> has those of
  PeerDAS, \<open>idle\<close> and \<open>inner\<close> the schedules of each threadpool.\<close>

definition nim_kzg ::
  "('c, 'g2) kzg_core \<Rightarrow> (nat \<Rightarrow> int \<Rightarrow> int \<Rightarrow> nat) \<Rightarrow> (nat \<Rightarrow> int \<Rightarrow> int \<Rightarrow> int \<Rightarrow> nat) \<Rightarrow> 'c kzg_spec \<Rightarrow> 'c kzg_spec" where
  "nim_kzg C idle inner E = E\<lparr>
     spec_commitment := (\<lambda>(c, ins). nim_blob_to_kzg_commitment C c (ins ! 0)),
     spec_proof := (\<lambda>(c, ins). nim_compute_kzg_proof C c (ins ! 0) (ins ! 1)),
     spec_verify := (\<lambda>(c, ins). nim_verify_kzg_proof C c (ins ! 0) (ins ! 1) (ins ! 2) (ins ! 3)),
     spec_blob_proof := (\<lambda>(c, ins). nim_compute_blob_kzg_proof C c (ins ! 0) (ins ! 1)),
     spec_verify_blob := (\<lambda>(c, ins). nim_verify_blob_kzg_proof C c (ins ! 0) (ins ! 1) (ins ! 2)),
     spec_verify_blobs := (\<lambda>n (c, ins). nim_verify_blob_kzg_proof_batch C c
       (view n 131072 (ins ! 0)) (view n 48 (ins ! 1)) (view n 48 (ins ! 2)) (int n) (ins ! 3)),
     spec_verify_blobs_parallel := (\<lambda>tp n (c, ins). nim_verify_blob_kzg_proof_batch_parallel C (idle tp) (inner tp) c
       (view n 131072 (ins ! 0)) (view n 48 (ins ! 1)) (view n 48 (ins ! 2)) (int n) (ins ! 3))\<rparr>"

lemma nim_kzg_sel [simp]:
  "spec_commitment (nim_kzg C idle inner E) (c, ins) = nim_blob_to_kzg_commitment C c (ins ! 0)"
  "spec_proof (nim_kzg C idle inner E) (c, ins) = nim_compute_kzg_proof C c (ins ! 0) (ins ! 1)"
  "spec_verify (nim_kzg C idle inner E) (c, ins) = nim_verify_kzg_proof C c (ins ! 0) (ins ! 1) (ins ! 2) (ins ! 3)"
  "spec_blob_proof (nim_kzg C idle inner E) (c, ins) = nim_compute_blob_kzg_proof C c (ins ! 0) (ins ! 1)"
  "spec_verify_blob (nim_kzg C idle inner E) (c, ins) = nim_verify_blob_kzg_proof C c (ins ! 0) (ins ! 1) (ins ! 2)"
  "spec_verify_blobs (nim_kzg C idle inner E) n (c, ins) = nim_verify_blob_kzg_proof_batch C c
     (view n 131072 (ins ! 0)) (view n 48 (ins ! 1)) (view n 48 (ins ! 2)) (int n) (ins ! 3)"
  "spec_verify_blobs_parallel (nim_kzg C idle inner E) tp n (c, ins) =
     nim_verify_blob_kzg_proof_batch_parallel C (idle tp) (inner tp) c
     (view n 131072 (ins ! 0)) (view n 48 (ins ! 1)) (view n 48 (ins ! 2)) (int n) (ins ! 3)"
  by (simp_all add: nim_kzg_def)

text \<open>Results have the sizes of the C types and errors are never success, so that a library that
  computes these functions keeps the contract.\<close>

lemma length_serialize: "length (serialize_g1_compressed P) = 48" "length (marshal_fr y) = 32"
  by (simp_all add: serialize_g1_compressed_def marshal_fr_def marshalBE_val Let_def)

lemma scalar_error_Success: "scalar_error st \<noteq> Some cttEthKzg_Success"
  by (cases st) auto

lemma check_scalar_Err: "check_scalar r = Err e \<Longrightarrow> e \<noteq> cttEthKzg_Success"
  using scalar_error_Success [of "fst r"] by (auto simp: check_scalar_def split: option.splits)

lemma check_point_Err: "check_point r = Err e \<Longrightarrow> e \<noteq> cttEthKzg_Success"
  by (auto simp: check_point_def split: option.splits dest: ecc_error_not_verdict)

lemma rbind_good:
  assumes "\<And>e. r = Err e \<Longrightarrow> e \<noteq> cttEthKzg_Success" "\<And>x. case f x of Ok y \<Rightarrow> good y | Err e \<Rightarrow> e \<noteq> cttEthKzg_Success"
  shows "case rbind r f of Ok y \<Rightarrow> good y | Err e \<Rightarrow> e \<noteq> cttEthKzg_Success"
  using assms by (cases r) auto

lemma nim_kzg_sizes:
  assumes "spec_sizes E" shows "spec_sizes (nim_kzg C idle inner E)"
proof -
  have "one_result 48 (\<lambda>(c, ins). nim_blob_to_kzg_commitment C c (ins ! 0))"
    unfolding one_result_def nim_blob_to_kzg_commitment_def case_prod_beta
    by (intro allI rbind_good check_scalar_Err) (simp_all add: length_serialize)
  moreover have "one_result 48 (\<lambda>(c, ins). nim_compute_blob_kzg_proof C c (ins ! 0) (ins ! 1))"
    unfolding one_result_def nim_compute_blob_kzg_proof_def case_prod_beta
    by (intro allI rbind_good check_scalar_Err check_point_Err) (simp_all add: length_serialize Let_def)
  moreover have "two_results 48 32 (\<lambda>(c, ins). nim_compute_kzg_proof C c (ins ! 0) (ins ! 1))"
    unfolding two_results_def nim_compute_kzg_proof_def case_prod_beta
    by (intro allI rbind_good check_scalar_Err) (simp_all add: length_serialize Let_def)
  ultimately show ?thesis using assms by (simp add: spec_sizes_def nim_kzg_def)
qed

text \<open>A core for the witnesses, on the points that decode without a square root: the pairing check
  accepts neutral elements, and polynomials evaluate to 1 at every challenge.\<close>

definition sample_core :: "(unit, unit) kzg_core" where
  "sample_core = \<lparr>
     isInSubgroup = (\<lambda>P. True),
     multiScalarMul = (\<lambda>ks Ps. if \<forall>(k, P) \<in> set (zip ks Ps). k = 0 \<or> P = (0, 0) then (0, 0) else (1, 1)),
     g1_sum = (\<lambda>P Q. if P = (0, 0) then Q else P),
     g1_diff = (\<lambda>P Q. if Q = (0, 0) then P else (1, 1)),
     g1_mulGenerator = (\<lambda>k. if k = 0 then (0, 0) else (1, 1)),
     g2_mulGenerator = (\<lambda>k. ()),
     g2_diff = (\<lambda>P Q. ()),
     negG2 = (),
     pairing_check = (\<lambda>P G Q H. P = (0, 0) \<and> Q = (0, 0)),
     tauG2 = (\<lambda>c. ()),
     srs_lagrange_brp_g1 = (\<lambda>c. []),
     getQuotientPoly = (\<lambda>c poly z. ([], 1)),
     evalPolyAt = (\<lambda>c poly z. 1)\<rparr>"

lemma sample_core_verify:
  "kzg_verify sample_core c P z y Q \<longleftrightarrow> P = (0, 0) \<and> y = 0 \<and> Q = (0, 0)"
  "evalPolyAt sample_core c ys z = 1"
  by (auto simp: kzg_verify_def sample_core_def)

text \<open>A context (block 0), the encoding of the point at infinity (5), zeros (2), a single one (3) and
  the curve order (4).\<close>

definition infinity :: "byte list" where
  "infinity = 0b11000000 # replicate 47 0"

definition protocol_mem :: "unit mem" where
  "protocol_mem = \<lparr>blocks = [0 \<mapsto> Opaque (), 5 \<mapsto> Bytes (map Some infinity),
     2 \<mapsto> Bytes (replicate 131072 (Some 0)), 3 \<mapsto> Bytes (map Some (replicate 31 0 @ [1])),
     4 \<mapsto> Bytes (map Some (be_bytes 32 fr_modulus))], fresh = 6\<rparr>"

lemma protocol_mem_ok: "mem_ok protocol_mem"
  by (simp add: protocol_mem_def mem_ok_def)

lemma load_whole:
  "blocks m b = Some (Bytes (map Some xs)) \<Longrightarrow> n = length xs \<Longrightarrow> load m (Ptr b 0) n = Done xs"
  by (simp add: load_def cells_load_def comp_def)

lemma protocol_reads:
  "context_at protocol_mem (Ptr 0 0) = Some ()"
  "load protocol_mem (Ptr 5 0) 48 = Done infinity"
  "n \<le> 131072 \<Longrightarrow> load protocol_mem (Ptr 2 0) n = Done (replicate n 0)"
  "load protocol_mem (Ptr 3 0) 32 = Done (replicate 31 0 @ [1])"
  "load protocol_mem (Ptr 4 0) 32 = Done (be_bytes 32 fr_modulus)"
proof -
  show "context_at protocol_mem (Ptr 0 0) = Some ()" by (simp add: protocol_mem_def context_at_def)
  show "load protocol_mem (Ptr 5 0) 48 = Done infinity"
    by (rule load_whole) (simp_all add: protocol_mem_def infinity_def)
  show "load protocol_mem (Ptr 2 0) n = Done (replicate n 0)" if "n \<le> 131072"
    using that by (simp add: protocol_mem_def load_def cells_load_def)
  show "load protocol_mem (Ptr 3 0) 32 = Done (replicate 31 0 @ [1])"
    by (rule load_whole) (simp_all add: protocol_mem_def)
  show "load protocol_mem (Ptr 4 0) 32 = Done (be_bytes 32 fr_modulus)"
    by (rule load_whole) (simp_all add: protocol_mem_def)
qed

lemma decode_infinity: "decode_point C infinity = Ok (0, 0)"
  using decode_point_Ok [of infinity C "(0, 0)"]
  by (simp add: infinity_def deserialize_g1_compressed_def deserialize_unchecked_eq)

lemma view_zeros: "view n sz (replicate (n * sz) 0) = replicate n (replicate sz 0)"
proof (rule replicate_eqI)
  show "length (view n sz (replicate (n * sz) 0)) = n" by (rule length_view)
next
  fix x assume x: "x \<in> set (view n sz (replicate (n * sz) 0))"
  have "length x = sz" by (rule view_sizes [OF _ x]) simp
  moreover from x have "x = replicate (length x) 0" by (auto simp: view_def)
  ultimately show "x = replicate sz 0" by simp
qed

lemma blob_values_zero: "blob_values (replicate 131072 0) = Ok (replicate 4096 0)"
  using view_zeros [of 4096 32] by (simp add: blob_values_def fr_modulus_def)

text \<open>C1: end to end, \<^verbatim>\<open>verify_kzg_proof\<close> and \<^verbatim>\<open>verify_blob_kzg_proof\<close> of the Rust crate
  return \<^verbatim>\<open>Ok(true)\<close> exactly when both points are accepted encodings (checked for the subgroup, the
  point at infinity allowed), the scalars or the field elements of the blob are below the curve
  order, and the pairing equation holds, for a blob at the challenge that the consensus
  specification derives with SHA-256; they never panic and leave the memory as it was.\<close>

theorem kzg_accepts:
  assumes "kzg_contract L (nim_kzg C idle inner E)" "mem_ok m"
    and "reads (ctx_ptr self) (verify_ins com z y pbs) m = Some (c, [cb, zb, yb, pb])"
    and "reads (ctx_ptr self) (blob_ins blob com' pbs') m = Some (c, [b, cb', pb'])"
  shows "(\<exists>r. returns m (verify_kzg_proof L self com z y pbs m) r) \<and>
    (returns m (verify_kzg_proof L self com z y pbs m) (Ok True) \<longleftrightarrow>
      (\<exists>P Q. decode_point C cb = Ok P \<and> decode_point C pb = Ok Q \<and>
         be_val zb < fr_modulus \<and> be_val yb < fr_modulus \<and> kzg_verify C c P (be_val zb) (be_val yb) Q)) \<and>
    (\<exists>r. returns m (verify_blob_kzg_proof L self blob com' pbs' m) r) \<and>
    (returns m (verify_blob_kzg_proof L self blob com' pbs' m) (Ok True) \<longleftrightarrow>
      (\<exists>P Q ys. decode_point C cb' = Ok P \<and> decode_point C pb' = Ok Q \<and> blob_values b = Ok ys \<and>
         kzg_verify C c P (compute_challenge b cb') (evalPolyAt C c ys (compute_challenge b cb')) Q))"
proof -
  have v: "verdict st = Ok True \<longleftrightarrow> st = cttEthKzg_Success" for st by (simp add: verdict_def)
  have len: "length zb = 32" "length yb = 32" "length b = 131072"
    using reads_lengths [OF assms(3)] reads_lengths [OF assms(4)] by (simp_all add: verify_ins_def blob_ins_def)
  note r1 = verify_kzg_proof_returns [OF assms(1-3)] and r2 = verify_blob_kzg_proof_returns [OF assms(1,2,4)]
  show ?thesis
    using r1 r2 unfolding returns_unique [OF r1] returns_unique [OF r2] eq_commute [of "Ok True"]
    by (simp add: v verify_kzg_proof_accepts verify_blob_accepts len)
qed

theorem kzg_accepts_witness:
  "returns protocol_mem (verify_kzg_proof (reference_lib (nim_kzg sample_core (\<lambda>_ _ _. 3) (\<lambda>_ _ _ _. 2) sample_spec))
     sample_ctx (Ptr 5 0) (Ptr 3 0) (Ptr 2 0) (Ptr 5 0) protocol_mem) (Ok True) \<and>
   \<not> returns protocol_mem (verify_blob_kzg_proof (reference_lib (nim_kzg sample_core (\<lambda>_ _ _. 3) (\<lambda>_ _ _ _. 2) sample_spec))
     sample_ctx (Ptr 2 0) (Ptr 5 0) (Ptr 5 0) protocol_mem) (Ok True)"
  using kzg_accepts [OF reference_contract [OF nim_kzg_sizes [OF sample_sizes]] protocol_mem_ok,
      of sample_ctx "Ptr 5 0" "Ptr 3 0" "Ptr 2 0" "Ptr 5 0" "()" infinity "replicate 31 0 @ [1]" "replicate 32 0"
        infinity "Ptr 2 0" "Ptr 5 0" "Ptr 5 0" "replicate 131072 0" infinity infinity sample_core "\<lambda>_ _ _. 3" "\<lambda>_ _ _ _. 2"]
  by (simp add: sample_ctx_ptr protocol_reads reads_def verify_ins_def blob_ins_def decode_infinity be_val_append
      sample_core_verify fr_modulus_def)

text \<open>The sets of a sample batch, for the witnesses.\<close>

lemma sample_set_decodes: "set_decodes sample_core c (replicate 131072 0, infinity, infinity)"
  by (simp add: set_decodes_def set_entry_def decode_infinity blob_values_zero)


section \<open>Blinding of a batch\<close>

text \<open>What the curve operations do with zero scalars and the neutral element.\<close>

definition zero_laws :: "('c, 'g2) kzg_core \<Rightarrow> bool" where
  "zero_laws C \<longleftrightarrow> (\<forall>n Ps. length Ps = n \<longrightarrow> multiScalarMul C (replicate n 0) Ps = (0, 0)) \<and>
     g1_sum C (0, 0) (0, 0) = (0, 0) \<and> (\<forall>G H. pairing_check C (0, 0) G (0, 0) H)"

lemma computePowers_zero: "computePowers 0 n = replicate n 0"
proof -
  have "powers_loop 0 0 n = replicate n 0" by (induction n) simp_all
  then show ?thesis by (simp add: computePowers_def)
qed

lemma map2_replicate_zero: "length zs = n \<Longrightarrow> map2 (\<lambda>r z. r * z mod fr_modulus) (replicate n 0) zs = replicate n 0"
  by (induction zs arbitrary: n) auto

lemma zero_lawsD:
  assumes "zero_laws C"
  shows "length Ps = n \<Longrightarrow> multiScalarMul C (replicate n 0) Ps = (0, 0)" "g1_sum C (0, 0) (0, 0) = (0, 0)"
    "pairing_check C (0, 0) G (0, 0) H"
  using assms by (auto simp: zero_laws_def)

lemma batch_verif_zero: "zero_laws C \<Longrightarrow> batch_verif C ctx vs 0"
  by (simp add: batch_verif_def kzg_verify_batch_def computePowers_zero map2_replicate_zero zero_lawsD Let_def)

lemma be_val_order: "be_val (be_bytes 32 fr_modulus) = fr_modulus"
  by (rule be_val_be_bytes) (simp add: fr_modulus_def)

lemma order_not_zero: "\<exists>b \<in> set (be_bytes 32 fr_modulus). b \<noteq> 0"
proof (rule ccontr)
  assume "\<not> (\<exists>b \<in> set (be_bytes 32 fr_modulus). b \<noteq> 0)"
  then have "be_bytes 32 fr_modulus = replicate 32 0" by (intro replicate_eqI) simp_all
  then show False using be_val_order by (simp add: fr_modulus_def)
qed

lemma blinding_of_order:
  "fromDigest (be_bytes 32 fr_modulus) = 0" "getBatchBlindingFactor (be_bytes 32 fr_modulus) = None"
  by (simp_all add: getBatchBlindingFactor_def fromDigest_eq be_val_order)

lemma batch_blinding_fallback:
  "nim_verify_blob_kzg_proof_batch C ctx blobs coms proofs n (be_bytes 32 fr_modulus) =
   nim_verify_blob_kzg_proof_batch C ctx blobs coms proofs n (replicate 32 0)"
  by (simp add: nim_verify_blob_kzg_proof_batch_def blinding_of_order) (simp add: getBatchBlindingFactor_def)

text \<open>C3: with the curve order as random bytes, the parallel batch verification takes 0
  for the blinding factor, so that every coefficient of the batch is 0 and any proofs that decode are
  accepted with \<^verbatim>\<open>Ok(true)\<close>; the sequential one falls back to a hash of the challenges, as for zero
  random bytes.\<close>

theorem kzg_batch_blinding:
  assumes "kzg_contract L (nim_kzg C idle inner E)" "kzg_parallel_contract L (nim_kzg C idle inner E)" "mem_ok m"
    and "zero_laws C" "threadpool self = Some tp" "0 < len blobs" "len coms = len blobs" "len proofs = len blobs"
    and "reads (ctx_ptr self) (blobs_ins (len blobs) (as_ptr blobs) (as_ptr coms) (as_ptr proofs) rnd) m =
      Some (c, [bs, cs, ps, be_bytes 32 fr_modulus])"
    and "\<forall>s \<in> set (zip (view (len blobs) 131072 bs) (zip (view (len blobs) 48 cs) (view (len blobs) 48 ps))).
      set_decodes C c s"
  shows "returns m (verify_blob_kzg_proof_batch_parallel L self blobs coms proofs rnd m) (Ok True) \<and>
    returns m (verify_blob_kzg_proof_batch L self blobs coms proofs rnd m)
      (verdict (nim_verify_blob_kzg_proof_batch C c (view (len blobs) 131072 bs) (view (len blobs) 48 cs)
        (view (len blobs) 48 ps) (int (len blobs)) (replicate 32 0)))"
proof -
  let ?n = "len blobs" and ?t = "get_private_context tp"
  have "length bs = ?n * 131072" using reads_lengths [OF assms(9)] by (simp add: blobs_ins_def)
  then have b: "\<forall>x \<in> set (view ?n 131072 bs). length x = 131072" by (auto intro: view_sizes)
  then have d: "\<forall>s \<in> set (zip (view ?n 131072 bs) (zip (view ?n 48 cs) (view ?n 48 ps))). length (fst s) = 131072"
    by (auto dest: set_zip_leftD)
  obtain vs where "batch_loop C c (zip (view ?n 131072 bs) (zip (view ?n 48 cs) (view ?n 48 ps))) = Ok vs"
    using assms(10) batch_loop_all [OF d, of C c] by auto
  then have "nim_verify_blob_kzg_proof_batch_parallel C (idle ?t) (inner ?t) c (view ?n 131072 bs)
      (view ?n 48 cs) (view ?n 48 ps) (int ?n) (be_bytes 32 fr_modulus) = cttEthKzg_Success"
    using batch_parallel_result [OF assms(6) _ _ _ b, of "view ?n 48 cs" "view ?n 48 ps" C "idle ?t" "inner ?t" c
        "be_bytes 32 fr_modulus"] order_not_zero batch_verif_zero [OF assms(4)]
    by (simp add: length_view blinding_of_order)
  then show ?thesis
    using verify_blob_kzg_proof_batch_parallel_returns [OF assms(2,3,7,8,9,5)]
      verify_blob_kzg_proof_batch_returns [OF assms(1,3) _ _ assms(9)] assms(7,8)
    by (simp add: batch_blinding_fallback verdict_def)
qed

lemma sample_zero_laws: "zero_laws sample_core"
  by (auto simp: zero_laws_def sample_core_def dest!: set_zip_leftD)

text \<open>One set whose proof is wrong: its polynomial evaluates to 1, its commitment is neutral.\<close>

theorem kzg_batch_blinding_witness:
  "returns protocol_mem (verify_blob_kzg_proof_batch_parallel (reference_lib (nim_kzg sample_core (\<lambda>_ _ _. 3) (\<lambda>_ _ _ _. 2) sample_spec))
     sample_ctx \<lparr>as_ptr = Ptr 2 0, len = 1\<rparr> \<lparr>as_ptr = Ptr 5 0, len = 1\<rparr> \<lparr>as_ptr = Ptr 5 0, len = 1\<rparr> (Ptr 4 0) protocol_mem)
     (Ok True) \<and>
   \<not> returns protocol_mem (verify_blob_kzg_proof (reference_lib (nim_kzg sample_core (\<lambda>_ _ _. 3) (\<lambda>_ _ _ _. 2) sample_spec))
     sample_ctx (Ptr 2 0) (Ptr 5 0) (Ptr 5 0) protocol_mem) (Ok True)"
proof -
  note S = nim_kzg_sizes [OF sample_sizes]
  have "length infinity = 48" by (simp add: infinity_def)
  then have v: "view 1 131072 (replicate 131072 0) = [replicate 131072 0]" "view 1 48 infinity = [infinity]"
    by (simp_all add: view_def)
  have r: "reads (ctx_ptr sample_ctx) (blobs_ins 1 (Ptr 2 0) (Ptr 5 0) (Ptr 5 0) (Ptr 4 0)) protocol_mem =
      Some ((), [replicate 131072 0, infinity, infinity, be_bytes 32 fr_modulus])"
    "reads (ctx_ptr sample_ctx) (blob_ins (Ptr 2 0) (Ptr 5 0) (Ptr 5 0)) protocol_mem =
      Some ((), [replicate 131072 0, infinity, infinity])"
    by (simp_all add: reads_def blobs_ins_def blob_ins_def sample_ctx_ptr protocol_reads)
  have one: "nim_verify_blob_kzg_proof sample_core () (replicate 131072 0) infinity infinity \<noteq> cttEthKzg_Success"
    by (simp add: verify_blob_accepts sample_core_verify)
  note T = kzg_batch_blinding [OF reference_contract [OF S] reference_parallel [OF S] protocol_mem_ok sample_zero_laws,
        of sample_ctx "\<lparr>pool_ctx = 4\<rparr>" "\<lparr>as_ptr = Ptr 2 0, len = 1\<rparr>" "\<lparr>as_ptr = Ptr 5 0, len = 1\<rparr>"
          "\<lparr>as_ptr = Ptr 5 0, len = 1\<rparr>" "Ptr 4 0" "()" "replicate 131072 0" infinity infinity "\<lambda>_ _ _. 3" "\<lambda>_ _ _ _. 2"]
  note r2 = verify_blob_kzg_proof_returns [OF reference_contract [OF S] protocol_mem_ok r(2), of sample_core "\<lambda>_ _ _. 3" "\<lambda>_ _ _ _. 2"]
  show ?thesis
    unfolding returns_unique [OF r2]
  proof
    show "returns protocol_mem (verify_blob_kzg_proof_batch_parallel
        (reference_lib (nim_kzg sample_core (\<lambda>_ _ _. 3) (\<lambda>_ _ _ _. 2) sample_spec)) sample_ctx \<lparr>as_ptr = Ptr 2 0, len = 1\<rparr>
        \<lparr>as_ptr = Ptr 5 0, len = 1\<rparr> \<lparr>as_ptr = Ptr 5 0, len = 1\<rparr> (Ptr 4 0) protocol_mem) (Ok True)"
      by (rule T [THEN conjunct1]) (use r(1) in \<open>simp_all add: v sample_set_decodes sample_ctx_def del: One_nat_def\<close>)
  qed (use one in \<open>simp add: verdict_def\<close>)
qed

end
