(* ===== verification/Spec2Isabelle.thy ===== *)
theory Spec2Isabelle
  imports Bindings_Types Nim_Exports Bindings_Protocols Status Rust_Core KZG_Lifecycle KZG_Calls EVM_Calls BLS_Verify
    Rust_ZAL Rust_Build Sha256_Constants KZG_Protocol
begin

text \<open>
  Constantine is a cryptographic library written in Nim with a C interface; \<^verbatim>\<open>constantine-rust/\<close> is
  its Rust side. This development models the Rust crates and the Nim code that the proofs about them
  need. Every wrapper is translated as it is written, over a memory of allocated blocks (Memory), so
  that reading an uninitialised local, running past a buffer, freeing twice or receiving an unknown
  discriminant are outcomes of the model (\<^verbatim>\<open>UB\<close> of Prelude), beside panics and aborts.

  How the program is put together. The generated file \<^verbatim>\<open>bindings64.rs\<close> (or \<^verbatim>\<open>bindings32.rs\<close>) declares
  the C interface that \<^verbatim>\<open>bindings/\<close> exports from Nim. The crate \<^verbatim>\<open>constantine-core\<close> wraps threadpools
  and randomness; the protocol crates turn Rust references and slices into pointers and lengths, call
  the library, and turn its status and the bytes it wrote into a \<^verbatim>\<open>Result\<close>. What can go wrong lies on
  that border: lengths that disagree, locals that are not written, contexts that are freed too late
  or twice, and enums that differ on the two sides.

  Parts of the program and their theories.

  \<^item> \<^verbatim>\<open>constantine-sys/src/bindings64.rs\<close> and \<^verbatim>\<open>bindings32.rs\<close>: every function signature
    (Bindings_BLS12_381, Bindings_BN254, Bindings_Pasta, Bindings_Banderwagon, Bindings_Protocols; Bindings_32 for 32-bit targets;
    the signature language is C_Signatures), every struct and layout assertion (Bindings_Types; the C
    layout algorithm is C_Layout). Nim_Exports models the templates of \<^verbatim>\<open>bindings/c_curve_decls.nim\<close>
    with the type mapping of \<^verbatim>\<open>bindings/c_typedefs.nim\<close> that produce the other side of the interface,
    and Nim_Curves the word counts of the field and curve types. The theorems: block by block the
    exported functions are the declared ones with the same parameters, constness and results; the C
    layout of every struct is the asserted one, with disjoint aligned fields; every big integer has
    just enough limbs.
  \<^item> \<^verbatim>\<open>constantine-sys/src/lib.rs\<close> and the status enums: Status, with the Nim enums they must match.
  \<^item> \<^verbatim>\<open>constantine-sys/build.rs\<close>: Rust_Build, what it runs, prints and when it panics.
  \<^item> \<^verbatim>\<open>constantine-core\<close>: Rust_Core, with \<^verbatim>\<open>csprngs/sysrand.nim\<close> (the kernel is the list of its answers)
    and the thread-local worker context of \<^verbatim>\<open>threadpool/threadpool.nim\<close>.
  \<^item> \<^verbatim>\<open>constantine-ethereum-kzg\<close>: Rust_KZG has the builder, the context and all EIP-4844 and EIP-7594
    calls; KZG_Calls what they return under the contract of the protocol functions; KZG_Lifecycle
    construction and drop as a step relation on the owners a program holds, with the context of
    \<^verbatim>\<open>commitments_setups/ethereum_kzg_srs.nim\<close>.
  \<^item> The EIP-4844 procedures those calls reach: Nim_KZG has \<^verbatim>\<open>ethereum_eip4844_kzg.nim\<close> and its parallel
    variant \<^verbatim>\<open>ethereum_eip4844_kzg_parallel.nim\<close>, over a record of curve operations; Nim_Codecs the
    scalar and compressed G1 codecs of \<^verbatim>\<open>serialization/codecs_bls12_381.nim\<close> with the square root they
    use; Nim_ParallelFor the splitting and the reduction of parallel loops in
    \<^verbatim>\<open>threadpool/threadpool.nim\<close> and \<^verbatim>\<open>threadpool/parallel_offloading.nim\<close>; KZG_Protocol what the Rust
    calls return over these procedures. The theorems: which proofs a verification accepts, the G1
    encoding is canonical, a parallel loop runs every index once under every schedule, the parallel
    batch verification agrees with the sequential one, and the random number for which it does not.
  \<^item> \<^verbatim>\<open>constantine-ethereum-evm-precompiles\<close>: Rust_EVM has the sixteen wrappers; EVM_Calls what they
    return, end to end over the Nim precompiles \<^verbatim>\<open>eth_evm_sha256\<close> and \<^verbatim>\<open>eth_evm_modexp\<close>. The latter is
    modelled down to 64-bit words: Nim_ModExp (lengths, special cases, EIP-198), Nim_PowMod
    (\<^verbatim>\<open>bigints_views.nim\<close>: the special cases, the power with a small exponent, odd moduli, powers of two,
    other even moduli), Nim_Montgomery (\<^verbatim>\<open>limbs_montgomery.nim\<close>), Nim_Divmod
    (\<^verbatim>\<open>limbs_divmod_vartime.nim\<close>), Nim_Mod2k (\<^verbatim>\<open>limbs_mod2k.nim\<close>), Nim_Extmul (\<^verbatim>\<open>limbs_extmul.nim\<close>),
    Nim_Words (\<^verbatim>\<open>limbs_multiprec.nim\<close>, \<^verbatim>\<open>limbs_fixedprec.nim\<close>, \<^verbatim>\<open>limbs_views.nim\<close> and the word primitives of
    \<^verbatim>\<open>platforms/intrinsics\<close>) and Nim_Limbs (octets and words). A number is its list of words, the least
    significant first, with the value \<open>limbs_val\<close>; a buffer that is overwritten is its length, and a
    store outside it, or a read of a word that was not written, is \<^verbatim>\<open>UB\<close>. The theorems: the products,
    the division, the Montgomery exponentiation, the inverse modulo a power of two and the modular power
    give the values they should, the precompile gives EIP-198, and the inputs with leading zero words
    for which it is undefined.
  \<^item> \<^verbatim>\<open>constantine-ethereum-bls-sig\<close>: Rust_BLS_Sig has the twenty-two wrappers, Nim_BLS_Sig the checks of
    \<^verbatim>\<open>ethereum_bls_signatures.nim\<close>; BLS_Calls states the contract of codecs and keys, BLS_Verify what
    verification returns and where slices of different lengths lead.
  \<^item> \<^verbatim>\<open>constantine-halo2-zal\<close>: Rust_ZAL, the engine and its multi-scalar multiplications.
  \<^item> SHA-256 (\<^verbatim>\<open>hashes/h_sha256.nim\<close>, \<^verbatim>\<open>hashes/sha256/sha256_generic.nim\<close>): Sha256 against FIPS 180-4,
    Sha256_ZeroPad the precomputed state, Sha256_Constants the round constants.

  Shared by the wrappers. FFI_Calls has the patterns with one success status, the interface
  \<open>out_call\<close> of a precompile and the contracts \<open>fills\<close>, \<open>checks\<close>; FFI_Locals those with structs by
  value and the contract \<open>writes\<close>. \<open>returns m w r\<close> says that a wrapper ends with \<open>r\<close> and leaves the
  memory \<open>m\<close> as it was.

  Not modelled. The arithmetic of curves, pairings and multi-scalar multiplications, the subgroup
  check, the evaluation and the quotient of a polynomial are operations of the record \<open>kzg_core\<close>; the
  PeerDAS procedures, the aggregation of BLS signatures and the EVM precompiles over curves are
  parameters with a contract that says which bytes they read and write; so are the RIPEMD-160 digest
  and the parser of the trusted setup file. Of the modular power, the exhaustion of the stack by
  \<^verbatim>\<open>alloca\<close> and the constant-time variants that no precompile reaches are left out. Of the threadpool, the queues of the
  scheduler, work stealing and futures are left out: a schedule is a function that says how many
  workers are idle at each iteration of each task, one for a loop and one for the loops inside its
  iterations, and the theorems hold for all of them; the assembly backends are left out too.
  That no point of the curve has the ordinate 0 or half the modulus is
  number theory that is not proved here, and is a hypothesis of \<open>g1_canonical\<close>. Words of the
  multi-precision code have 64 bits; signed lengths are 64-bit and their overflow is \<^verbatim>\<open>UB\<close>. The
  lemmas on accumulators bound the number of words by 2 to the 60 or more, which every buffer that
  fits in memory satisfies. No definition uses fuel: loops are structural, have a measure, or run over
  the list of the kernel's answers; the inversion modulo a power of two that would loop for ever on a
  short buffer is \<^verbatim>\<open>UB\<close> there.
\<close>

section \<open>Properties that span components\<close>

text \<open>C25: the two Rust entry points of SHA-256, \<^verbatim>\<open>evm_sha256\<close> with the precompile as the Nim code
  writes it and \<^verbatim>\<open>sha256_hash\<close> of the BLS crate with or without clearing, return the FIPS 180-4 digest
  of the bytes of their slice and leave the memory as it was.\<close>

theorem sha256_calls:
  assumes "ctt_eth_evm_sha256 E = export_bytes eth_evm_sha256" "ctt_sha256_hash L = nim_sha256_hash"
    "mem_ok m" "slice_bytes m s = Done bs"
  shows "returns m (evm_sha256 E s m) (Ok (fips_sha256 bs)) \<and>
    returns m (rust_sha256_hash L s clear_memory m) (fips_sha256 bs)"
  using evm_sha256_fips [OF assms(1,3,4)] bls_sha256_fips [OF assms(2-4)] by blast

theorem sha256_calls_witness:
  "returns sample_mem
     (evm_sha256 (sample_evm_lib\<lparr>ctt_eth_evm_sha256 := export_bytes eth_evm_sha256\<rparr>) sample_message sample_mem)
     (Ok (fips_sha256 [1, 1])) \<and>
   returns sample_mem (rust_sha256_hash (nim_bls sample_bls_core sample_bls_spec) sample_message True sample_mem)
     (fips_sha256 [1, 1])"
  by (rule sha256_calls [OF _ _ sample_mem_ok sample_message_bytes]) (simp_all add: nim_bls_def)

end
